(* ===== verification/Prelude.thy ===== *)
theory Prelude
  imports
    Main
    "HOL-Library.AList"
    "HOL-Library.Char_ord"
    "HOL-Library.List_Lexorder"
    "HOL-Library.Product_Lexorder"
    "HOL-Library.Option_ord"
begin

text \<open>
  Shared vocabulary of the development: the exceptions of the Python sources as values, the
  result type of an operation that may raise, the operations on \<open>str\<close> and \<open>dict\<close> the sources
  use, and the generic lemmas on them. A Python \<open>str\<close> is a \<^typ>\<open>string\<close> whose characters
  stand for the code points below 256; a Python \<open>dict\<close> is an association list in insertion
  order (\<^const>\<open>AList.update\<close> overwrites in place or appends, \<^const>\<open>AList.delete\<close> removes), which
  keeps the iteration order of \<open>dict.values()\<close>.
\<close>

named_theorems require_simps \<open>what the argument guards accept\<close>
named_theorems invariant_intros \<open>an operation keeps the invariant of its component\<close>

section \<open>Exceptions and results\<close>

datatype py_error =
    ValueError string
  | TypeError string
  | RuntimeError string
  | KeyError string
  | IndexError int
  | MemoryError string
  | OverflowError string
  | CapabilityRejectionError string
  | AuthorityBlocked string string
  | CompletionAuthorityUnavailableError string
  | ExceptionGroup string
  | AssertionError string

type_synonym 'a res = "py_error + 'a"

definition rbind :: "'a res \<Rightarrow> ('a \<Rightarrow> 'b res) \<Rightarrow> 'b res" where
  "rbind r f = (case r of Inl e \<Rightarrow> Inl e | Inr x \<Rightarrow> f x)"

definition raise_if :: "bool \<Rightarrow> py_error \<Rightarrow> unit res" where
  "raise_if b e = (if b then Inl e else Inr ())"

fun is_ok :: "'a res \<Rightarrow> bool" where
  "is_ok (Inl _) = False"
| "is_ok (Inr _) = True"

lemma rbind_Inl [simp]: "rbind (Inl e) f = Inl e"
  by (simp add: rbind_def)

lemma rbind_Inr [simp]: "rbind (Inr x) f = f x"
  by (simp add: rbind_def)

lemma rbind_eq_Inr [simp]: "rbind r f = Inr y \<longleftrightarrow> (\<exists>x. r = Inr x \<and> f x = Inr y)"
  by (cases r) auto

lemma rbind_eq_Inl:
  "rbind r f = Inl e \<longleftrightarrow> r = Inl e \<or> (\<exists>x. r = Inr x \<and> f x = Inl e)"
  by (cases r) auto

lemma raise_if_Inr [simp]: "raise_if b e = Inr u \<longleftrightarrow> \<not> b"
  by (simp add: raise_if_def)

lemma raise_if_Inl [simp]: "raise_if b e = Inl e' \<longleftrightarrow> b \<and> e' = e"
  by (auto simp: raise_if_def)

lemma raise_if_bool [simp]: "raise_if False e = Inr ()" "raise_if True e = Inl e"
  by (simp_all add: raise_if_def)

lemma rbind_raise_if [simp]: "rbind (raise_if b e) f = (if b then Inl e else f ())"
  by (simp add: raise_if_def)

lemma guard_Inr [simp]: "(if b then Inl e else r) = Inr y \<longleftrightarrow> \<not> b \<and> r = Inr y"
  by simp

lemma is_ok_iff: "is_ok r \<longleftrightarrow> (\<exists>x. r = Inr x)"
  by (cases r) auto

text \<open>A \<open>for\<close> loop whose body only checks: the first failing element raises.\<close>

fun check_all :: "('a \<Rightarrow> unit res) \<Rightarrow> 'a list \<Rightarrow> unit res" where
  "check_all f [] = Inr ()"
| "check_all f (x # xs) = rbind (f x) (\<lambda>_. check_all f xs)"

lemma check_all_Inr [simp]: "check_all f xs = Inr u \<longleftrightarrow> (\<forall>x \<in> set xs. f x = Inr ())"
  by (induction xs) auto

lemma check_all_Inl: "check_all f xs = Inl e \<Longrightarrow> \<exists>x \<in> set xs. f x = Inl e"
  by (induction xs) (auto simp: rbind_eq_Inl)

text \<open>A comprehension over a fallible call, left to right.\<close>

fun map_res :: "('a \<Rightarrow> 'b res) \<Rightarrow> 'a list \<Rightarrow> 'b list res" where
  "map_res f [] = Inr []"
| "map_res f (x # xs) = rbind (f x) (\<lambda>y. rbind (map_res f xs) (\<lambda>ys. Inr (y # ys)))"

lemma map_res_Inr:
  "map_res f xs = Inr ys \<longleftrightarrow> list_all2 (\<lambda>x y. f x = Inr y) xs ys"
  by (induction xs arbitrary: ys) (auto simp: list_all2_Cons1)

lemma map_res_ok: "\<forall>x \<in> set xs. f x = Inr (g x) \<Longrightarrow> map_res f xs = Inr (map g xs)"
  by (induction xs) auto

section \<open>Strings\<close>

definition hex_digits :: string where
  "hex_digits = ''0123456789abcdef''"

definition is_lower_hex :: "nat \<Rightarrow> string \<Rightarrow> bool" where
  "is_lower_hex n s \<longleftrightarrow> length s = n \<and> list_all (\<lambda>c. c \<in> set hex_digits) s"

lemma is_lower_hex_replicate [simp]: "c \<in> set hex_digits \<Longrightarrow> is_lower_hex n (replicate n c)"
  by (simp add: is_lower_hex_def list_all_iff)

text \<open>\<open>str.isspace\<close> on the code points below 256, and \<open>str.strip\<close>.\<close>

definition py_space :: "char \<Rightarrow> bool" where
  "py_space c \<longleftrightarrow>
     (let n = of_char c :: nat in 9 \<le> n \<and> n \<le> 13 \<or> 28 \<le> n \<and> n \<le> 32 \<or> n = 133 \<or> n = 160)"

definition strip :: "string \<Rightarrow> string" where
  "strip s = rev (dropWhile py_space (rev (dropWhile py_space s)))"

text \<open>The test \<open>not value or value.strip() != value\<close> of the sources, negated.\<close>

definition canonical_text :: "string \<Rightarrow> bool" where
  "canonical_text s \<longleftrightarrow> s \<noteq> [] \<and> strip s = s"

definition char_of_digit :: "nat \<Rightarrow> char" where
  "char_of_digit d = char_of (48 + d)"

fun show_nat :: "nat \<Rightarrow> string" where
  "show_nat n = (if n < 10 then [char_of_digit n] else show_nat (n div 10) @ [char_of_digit (n mod 10)])"

declare show_nat.simps [simp del]

definition show_int :: "int \<Rightarrow> string" where
  "show_int i = (if i < 0 then CHR ''-'' # show_nat (nat (- i)) else show_nat (nat i))"

fun join :: "string \<Rightarrow> string list \<Rightarrow> string" where
  "join sep [] = []"
| "join sep [x] = x"
| "join sep (x # y # zs) = x @ sep @ join sep (y # zs)"

section \<open>Ranges and canonical sequences\<close>

definition int_range :: "int \<Rightarrow> int \<Rightarrow> int list" where
  "int_range a b = [a..b - 1]"

lemma set_int_range [simp]: "set (int_range a b) = {a..<b}"
  by (auto simp: int_range_def)

lemma distinct_int_range [simp]: "distinct (int_range a b)"
  by (simp add: int_range_def)

lemma sorted_int_range [simp]: "sorted (int_range a b)"
  by (simp add: int_range_def sorted_wrt_upto)

lemma length_int_range [simp]: "length (int_range a b) = nat (b - a)"
  by (simp add: int_range_def)

lemma upt_append: "i \<le> j \<Longrightarrow> j \<le> k \<Longrightarrow> [i..<j] @ [j..<k] = [i..<k]"
  by (metis le_add_diff_inverse upt_add_eq_append)

text \<open>\<open>tuple(sorted(set(xs)))\<close>\<close>

definition sorted_set :: "'a::linorder list \<Rightarrow> 'a list" where
  "sorted_set xs = remdups_adj (sort xs)"

lemma set_sorted_set [simp]: "set (sorted_set xs) = set xs"
  by (simp add: sorted_set_def)

lemma sorted_sorted_set [simp]: "sorted (sorted_set xs)"
  by (simp add: sorted_set_def)

lemma distinct_remdups_adj_sorted: "sorted xs \<Longrightarrow> distinct (remdups_adj xs)"
  by (induction xs rule: remdups_adj.induct) (auto simp: order_le_less)

lemma distinct_sorted_set [simp]: "distinct (sorted_set xs)"
  by (simp add: sorted_set_def distinct_remdups_adj_sorted)

lemma sorted_set_eq_iff [simp]: "sorted_set xs = [] \<longleftrightarrow> xs = []"
  by (metis set_sorted_set set_empty)

lemma sorted_set_single [simp]: "sorted_set [x] = [x]"
  by (simp add: sorted_set_def)

lemma sorted_set_idem [simp]: "sorted_set (sorted_set xs) = sorted_set xs"
proof -
  have "sort (sorted_set xs) = sorted_set xs"
    by (rule sorted_sort_id) simp
  moreover have "remdups_adj (sorted_set xs) = sorted_set xs"
    by (rule remdups_adj_distinct) simp
  ultimately show ?thesis by (simp add: sorted_set_def [of "sorted_set xs"])
qed

lemma sort_key_take_le:
  assumes "x \<in> set (take n (sort_key f xs))" "y \<in> set xs" "y \<notin> set (take n (sort_key f xs))"
  shows "f x \<le> f y"
proof -
  let ?s = "sort_key f xs"
  have "sorted (map f (take n ?s) @ map f (drop n ?s))"
    by (metis append_take_drop_id map_append sorted_sort_key)
  moreover have "y \<in> set (drop n ?s)"
    using assms(2,3) by (metis Un_iff append_take_drop_id set_append set_sort)
  ultimately show ?thesis using assms(1) by (auto simp: sorted_append)
qed

text \<open>The built-in \<open>min(xs, key=f)\<close>: the first element with the least key.\<close>

fun min_key_from :: "('a \<Rightarrow> 'b::linorder) \<Rightarrow> 'a \<Rightarrow> 'a list \<Rightarrow> 'a" where
  "min_key_from f m [] = m"
| "min_key_from f m (y # ys) = min_key_from f (if f y < f m then y else m) ys"

definition py_min :: "('a \<Rightarrow> 'b::linorder) \<Rightarrow> 'a list \<Rightarrow> 'a res" where
  "py_min f xs =
     (case xs of [] \<Rightarrow> Inl (ValueError ''min() iterable argument is empty'')
      | y # ys \<Rightarrow> Inr (min_key_from f y ys))"

lemma min_key_from:
  "min_key_from f m xs \<in> set (m # xs) \<and> (\<forall>y \<in> set (m # xs). f (min_key_from f m xs) \<le> f y)"
proof (induction xs arbitrary: m)
  case (Cons y ys)
  let ?m = "if f y < f m then y else m"
  from Cons.IH [of ?m] have "f (min_key_from f ?m ys) \<le> f ?m"
    "min_key_from f ?m ys \<in> set (?m # ys)" "\<forall>z \<in> set ys. f (min_key_from f ?m ys) \<le> f z"
    by simp_all
  then show ?case by (auto split: if_splits)
qed simp

lemma py_min_Inr: "py_min f xs = Inr m \<Longrightarrow> m \<in> set xs \<and> (\<forall>y \<in> set xs. f m \<le> f y)"
  using min_key_from by (fastforce simp: py_min_def split: list.splits)

lemma py_min_ok: "xs \<noteq> [] \<Longrightarrow> \<exists>m. py_min f xs = Inr m"
  by (cases xs) (auto simp: py_min_def)

section \<open>Maps\<close>

abbreviation dget :: "('k \<times> 'v) list \<Rightarrow> 'k \<Rightarrow> 'v option" where
  "dget \<equiv> map_of"

abbreviation dset :: "'k \<Rightarrow> 'v \<Rightarrow> ('k \<times> 'v) list \<Rightarrow> ('k \<times> 'v) list" where
  "dset \<equiv> AList.update"

abbreviation ddel :: "'k \<Rightarrow> ('k \<times> 'v) list \<Rightarrow> ('k \<times> 'v) list" where
  "ddel \<equiv> AList.delete"

abbreviation dkeys :: "('k \<times> 'v) list \<Rightarrow> 'k list" where
  "dkeys d \<equiv> map fst d"

abbreviation dvalues :: "('k \<times> 'v) list \<Rightarrow> 'v list" where
  "dvalues d \<equiv> map snd d"

named_theorems dict_simps \<open>reading and writing dictionaries\<close>

lemma set_ddel [dict_simps]: "set (ddel k d) = {p \<in> set d. fst p \<noteq> k}"
  by (induction d) auto

lemma set_dset [dict_simps]:
  "distinct (dkeys d) \<Longrightarrow> set (dset k v d) = insert (k, v) {p \<in> set d. fst p \<noteq> k}"
  by (induction d) force+

lemma dget_dset [dict_simps]: "dget (dset k v d) k' = (if k' = k then Some v else dget d k')"
  by (simp add: update_conv')

lemma dget_ddel [dict_simps]: "dget (ddel k d) k' = (if k' = k then None else dget d k')"
  by (simp add: delete_conv')

lemma distinct_dset [dict_simps]: "distinct (dkeys d) \<Longrightarrow> distinct (dkeys (dset k v d))"
  by (rule distinct_update)

lemma distinct_ddel [dict_simps]: "distinct (dkeys d) \<Longrightarrow> distinct (dkeys (ddel k d))"
  by (rule distinct_delete)

lemma dget_mem: "dget d k = Some v \<Longrightarrow> (k, v) \<in> set d"
  by (rule map_of_SomeD)

text \<open>
  A sum over the values of a dictionary, and the number of values that satisfy a predicate: what
  one key contributes can be split off.
\<close>

definition dsum :: "('v \<Rightarrow> 'm::comm_monoid_add) \<Rightarrow> ('k \<times> 'v) list \<Rightarrow> 'm" where
  "dsum f d = sum_list (map f (dvalues d))"

lemma dsum_Nil [simp]: "dsum f [] = 0"
  by (simp add: dsum_def)

lemma dsum_Cons [simp]: "dsum f (p # d) = f (snd p) + dsum f d"
  by (simp add: dsum_def)

lemma dsum_split:
  assumes "distinct (dkeys d)" "dget d k = Some v"
  shows "dsum f d = dsum f (ddel k d) + f v"
  using assms
proof (induction d)
  case (Cons p d)
  show ?case
  proof (cases "fst p = k")
    case True
    with Cons.prems have "ddel k d = d" by (intro delete_id) auto
    with True Cons.prems show ?thesis by (cases p) (simp add: add.commute)
  qed (use Cons in \<open>cases p; simp add: add.assoc\<close>)
qed simp

lemma dsum_dset:
  assumes "distinct (dkeys d)"
  shows "dsum f (dset k v d) = dsum f (ddel k d) + f v"
  using assms
proof (induction d)
  case (Cons p d)
  show ?case
  proof (cases "fst p = k")
    case True
    with Cons.prems have "ddel k d = d" by (intro delete_id) auto
    with True show ?thesis by (cases p) (simp add: add.commute)
  qed (use Cons in \<open>cases p; simp add: add.assoc\<close>)
qed simp

lemma ddel_absent: "dget d k = None \<Longrightarrow> ddel k d = d"
  by (intro delete_id) (simp add: map_of_eq_None_iff)

definition dcount :: "('v \<Rightarrow> bool) \<Rightarrow> ('k \<times> 'v) list \<Rightarrow> nat" where
  "dcount P d = dsum (\<lambda>v. of_bool (P v)) d"

lemma dcount_Nil [simp]: "dcount P [] = 0"
  by (simp add: dcount_def)

lemma dcount_split:
  "distinct (dkeys d) \<Longrightarrow> dget d k = Some v \<Longrightarrow> dcount P d = dcount P (ddel k d) + of_bool (P v)"
  by (simp add: dcount_def dsum_split)

lemma dcount_dset:
  "distinct (dkeys d) \<Longrightarrow> dcount P (dset k v d) = dcount P (ddel k d) + of_bool (P v)"
  by (simp add: dcount_def dsum_dset)

lemma dcount_filter: "dcount P d = length (filter P (dvalues d))"
  by (induction d) (auto simp: dcount_def)

lemma dcount_compl: "dcount P d + dcount (\<lambda>v. \<not> P v) d = length d"
  by (induction d) (auto simp: dcount_def)

section \<open>Operations on objects\<close>

text \<open>
  A method of a mutable object returns the object after the call and the result: an exception
  leaves behind whatever the method had already written.
\<close>

type_synonym ('s, 'a) op_result = "'s \<times> 'a res"

definition and_then ::
  "('s, 'a) op_result \<Rightarrow> ('s \<Rightarrow> 'a \<Rightarrow> ('s, 'b) op_result) \<Rightarrow> ('s, 'b) op_result" where
  "and_then p f = (case p of (s, r) \<Rightarrow> (case r of Inl e \<Rightarrow> (s, Inl e) | Inr x \<Rightarrow> f s x))"

lemma and_then_Inl [simp]: "and_then (s, Inl e) f = (s, Inl e)"
  by (simp add: and_then_def)

lemma and_then_Inr [simp]: "and_then (s, Inr x) f = f s x"
  by (simp add: and_then_def)

text \<open>
  An object driven by a sequence of calls: what every call keeps, every run keeps
  (\<open>invariant_machine\<close>), and a relation every call extends relates the ends of every run
  (\<open>monotone_machine\<close>).
\<close>

locale invariant_machine =
  fixes step :: "'s \<Rightarrow> 'e \<Rightarrow> 's"
    and inv :: "'s \<Rightarrow> bool"
  assumes step_inv: "inv s \<Longrightarrow> inv (step s e)"
begin

lemma run_inv: "inv s \<Longrightarrow> inv (foldl step s es)"
  by (induction es arbitrary: s) (auto intro: step_inv)

end

text \<open>A machine whose invariant needs its caller to keep to a guard.\<close>

fun guarded_run :: "('s \<Rightarrow> 'e \<Rightarrow> 's) \<Rightarrow> ('s \<Rightarrow> 'e \<Rightarrow> bool) \<Rightarrow> 's \<Rightarrow> 'e list \<Rightarrow> bool" where
  "guarded_run step guard s [] \<longleftrightarrow> True"
| "guarded_run step guard s (e # es) \<longleftrightarrow> guard s e \<and> guarded_run step guard (step s e) es"

locale guarded_machine =
  fixes step :: "'s \<Rightarrow> 'e \<Rightarrow> 's"
    and guard :: "'s \<Rightarrow> 'e \<Rightarrow> bool"
    and inv :: "'s \<Rightarrow> bool"
  assumes guarded_step_inv: "inv s \<Longrightarrow> guard s e \<Longrightarrow> inv (step s e)"
begin

lemma guarded_run_inv: "inv s \<Longrightarrow> guarded_run step guard s es \<Longrightarrow> inv (foldl step s es)"
  by (induction es arbitrary: s) (auto intro: guarded_step_inv)

end

sublocale invariant_machine \<subseteq> unguarded: guarded_machine step "\<lambda>s e. True" inv
  by unfold_locales (rule step_inv)

locale monotone_machine = invariant_machine +
  fixes le :: "'s \<Rightarrow> 's \<Rightarrow> bool"
  assumes le_refl: "le s s"
    and le_trans: "le s t \<Longrightarrow> le t u \<Longrightarrow> le s u"
    and step_le: "inv s \<Longrightarrow> le s (step s e)"
begin

lemma run_le: "inv s \<Longrightarrow> le s (foldl step s es)"
proof (induction es arbitrary: s)
  case Nil
  show ?case by (simp add: le_refl)
next
  case (Cons e es)
  then have "le s (step s e)" "le (step s e) (foldl step (step s e) es)"
    by (auto intro: step_le step_inv)
  then show ?case by (auto intro: le_trans)
qed

end

end
