(* ===== verification/PyFloat.thy ===== *)
theory PyFloat
  imports Complex_Main Prelude "HOL-Library.Log_Nat"
begin

text \<open>
  Python's \<open>float\<close>: IEEE 754 binary64 values as rationals, with the infinities and NaN (the sign
  of a zero is not kept: no modelled operation can tell the two zeros apart). An arithmetic
  operation is the exact rational result rounded to the nearest representable value, ties to
  even, overflowing to an infinity. Comparisons with NaN are false.
\<close>

datatype pyfloat = Fin rat | PInf | NInf | NaN

definition pow2 :: "int \<Rightarrow> rat" where
  "pow2 e = (if 0 \<le> e then 2 ^ nat e else 1 / 2 ^ nat (- e))"

text \<open>\<open>\<lfloor>log2 \<bar>q\<bar>\<rfloor>\<close> of a non-zero rational\<close>

definition binary_exponent :: "rat \<Rightarrow> int" where
  "binary_exponent q =
     (case quotient_of \<bar>q\<bar> of (n, d) \<Rightarrow>
        let e = bitlen n - bitlen d in if pow2 e \<le> \<bar>q\<bar> then e else e - 1)"

definition round_half_even :: "rat \<Rightarrow> int" where
  "round_half_even q =
     (let f = \<lfloor>q\<rfloor>; r = q - of_int f
      in if r < 1 / 2 then f else if 1 / 2 < r then f + 1 else if even f then f else f + 1)"

definition fl :: "rat \<Rightarrow> pyfloat" where
  "fl q =
     (if q = 0 then Fin 0
      else let u = pow2 (max (binary_exponent q) (- 1022) - 52);
               v = of_int (round_half_even (q / u)) * u
           in if 2 ^ 1024 \<le> \<bar>v\<bar> then (if 0 < q then PInf else NInf) else Fin v)"

fun isfinite :: "pyfloat \<Rightarrow> bool" where
  "isfinite (Fin _) = True"
| "isfinite _ = False"

fun pf_lt :: "pyfloat \<Rightarrow> pyfloat \<Rightarrow> bool" where
  "pf_lt NaN _ = False"
| "pf_lt _ NaN = False"
| "pf_lt (Fin a) (Fin b) = (a < b)"
| "pf_lt NInf y = (y \<noteq> NInf)"
| "pf_lt x PInf = (x \<noteq> PInf)"
| "pf_lt _ _ = False"

fun pf_le :: "pyfloat \<Rightarrow> pyfloat \<Rightarrow> bool" where
  "pf_le NaN _ = False"
| "pf_le _ NaN = False"
| "pf_le x y = (pf_lt x y \<or> x = y)"

fun pf_add :: "pyfloat \<Rightarrow> pyfloat \<Rightarrow> pyfloat" where
  "pf_add (Fin a) (Fin b) = fl (a + b)"
| "pf_add NaN _ = NaN"
| "pf_add _ NaN = NaN"
| "pf_add PInf NInf = NaN"
| "pf_add NInf PInf = NaN"
| "pf_add PInf _ = PInf"
| "pf_add _ PInf = PInf"
| "pf_add NInf _ = NInf"
| "pf_add _ NInf = NInf"

fun pf_mul :: "pyfloat \<Rightarrow> pyfloat \<Rightarrow> pyfloat" where
  "pf_mul (Fin a) (Fin b) = fl (a * b)"
| "pf_mul NaN _ = NaN"
| "pf_mul _ NaN = NaN"
| "pf_mul x y =
     (if x = Fin 0 \<or> y = Fin 0 then NaN
      else if pf_lt x (Fin 0) = pf_lt y (Fin 0) then PInf else NInf)"

text \<open>\<open>math.isclose(a, b, rel_tol=0.0, abs_tol=tol)\<close>\<close>

definition isclose_abs :: "pyfloat \<Rightarrow> pyfloat \<Rightarrow> pyfloat \<Rightarrow> bool" where
  "isclose_abs a b tol \<longleftrightarrow> a = b \<and> a \<noteq> NaN
     \<or> (case (a, b) of
          (Fin p, Fin q) \<Rightarrow> (case fl (q - p) of Fin d \<Rightarrow> pf_le (Fin \<bar>d\<bar>) tol | _ \<Rightarrow> False)
        | _ \<Rightarrow> False)"

text \<open>The built-in \<open>max(x, y)\<close>: the second argument only if it compares greater.\<close>

definition pf_max :: "pyfloat \<Rightarrow> pyfloat \<Rightarrow> pyfloat" where
  "pf_max x y = (if pf_lt x y then y else x)"

lemma isfinite_iff: "isfinite x \<longleftrightarrow> (\<exists>q. x = Fin q)"
  by (cases x) auto

lemma pf_le_Fin [simp]: "pf_le (Fin a) (Fin b) \<longleftrightarrow> a \<le> b"
  by auto

lemma isfinite_pf_max: "isfinite x \<Longrightarrow> isfinite y \<Longrightarrow> isfinite (pf_max x y)"
  by (simp add: pf_max_def)

lemma pf_max_Fin: "pf_max (Fin a) (Fin b) = Fin (max a b)"
  by (simp add: pf_max_def)

lemma pf_le_max: "isfinite x \<Longrightarrow> isfinite y \<Longrightarrow> pf_le x (pf_max x y) \<and> pf_le y (pf_max x y)"
  by (auto simp: isfinite_iff pf_max_Fin)

text \<open>
  The order \<open>sorted\<close> uses on sort keys. On finite values it is the numeric order; NaN, which no
  sort key of the sources can be, is put last.
\<close>

fun float_key :: "pyfloat \<Rightarrow> nat \<times> rat" where
  "float_key NInf = (0, 0)"
| "float_key (Fin q) = (1, q)"
| "float_key PInf = (2, 0)"
| "float_key NaN = (3, 0)"

lemma float_key_inj: "float_key x = float_key y \<Longrightarrow> x = y"
  by (cases x; cases y) auto

instantiation pyfloat :: linorder
begin

definition less_eq_pyfloat :: "pyfloat \<Rightarrow> pyfloat \<Rightarrow> bool" where
  "less_eq_pyfloat x y \<longleftrightarrow> float_key x \<le> float_key y"

definition less_pyfloat :: "pyfloat \<Rightarrow> pyfloat \<Rightarrow> bool" where
  "less_pyfloat x y \<longleftrightarrow> float_key x < float_key y"

instance
  by standard (auto simp: less_eq_pyfloat_def less_pyfloat_def intro: float_key_inj)

end

lemma less_eq_Fin [simp]: "Fin a \<le> Fin b \<longleftrightarrow> a \<le> b"
  by (simp add: less_eq_pyfloat_def)

lemma pf_le_less_eq: "isfinite x \<Longrightarrow> isfinite y \<Longrightarrow> pf_le x y \<longleftrightarrow> x \<le> y"
  by (auto simp: isfinite_iff)

section \<open>The text of a float\<close>

text \<open>
  \<open>float.__repr__\<close>, which \<open>json.dumps\<close> prints: the shortest decimal that rounds to the value, of those
  the nearest one, in fixed notation for exponents between -4 and 15. \<open>decimal_exponent\<close> is the floor
  of the decimal logarithm of a positive value; 400 places are more than the 324 of the smallest
  float, and 17 digits always tell two floats apart.
\<close>

definition pow10 :: "int \<Rightarrow> rat" where
  "pow10 e = (if 0 \<le> e then 10 ^ nat e else 1 / 10 ^ nat (- e))"

definition decimal_exponent :: "rat \<Rightarrow> int" where
  "decimal_exponent q =
     (if 1 \<le> q then int (length (show_int \<lfloor>q\<rfloor>)) - 1
      else case find (\<lambda>j. 1 \<le> q * 10 ^ j) [1..<400] of Some j \<Rightarrow> - int j | None \<Rightarrow> - 400)"

text \<open>The decimal with \<open>n\<close> digits that stands for \<open>q\<close>, if there is one.\<close>

definition digits_at :: "rat \<Rightarrow> int \<Rightarrow> nat \<Rightarrow> int option" where
  "digits_at q k n =
     (let s = pow10 (k - int n + 1); x = q / s; r = round_half_even x;
          other = (if r = \<lfloor>x\<rfloor> then \<lfloor>x\<rfloor> + 1 else \<lfloor>x\<rfloor>)
      in if fl (of_int r * s) = Fin q then Some r
         else if fl (of_int other * s) = Fin q then Some other else None)"

definition shortest_digits :: "rat \<Rightarrow> string \<times> int" where
  "shortest_digits q =
     (let k = decimal_exponent q;
          n = (case find (\<lambda>n. digits_at q k n \<noteq> None) [1..<17] of Some n \<Rightarrow> n | None \<Rightarrow> 17);
          ds = show_int (case digits_at q k n of Some m \<Rightarrow> m | None \<Rightarrow> round_half_even (q / pow10 (k - 16)))
      in (rev (dropWhile (\<lambda>c. c = CHR ''0'') (rev ds)), k - int n + 1 + int (length ds)))"

text \<open>\<open>point\<close> is the number of digits before the decimal point.\<close>

definition positive_repr :: "rat \<Rightarrow> string" where
  "positive_repr q =
     (case shortest_digits q of (ds, point) \<Rightarrow>
        if point \<le> - 4 \<or> 16 < point
        then take 1 ds @ (if length ds = 1 then [] else CHR ''.'' # drop 1 ds) @ ''e''
             @ (if point - 1 < 0 then ''-'' else ''+'')
             @ (if \<bar>point - 1\<bar> < 10 then ''0'' else []) @ show_int \<bar>point - 1\<bar>
        else if point \<le> 0 then ''0.'' @ replicate (nat (- point)) (CHR ''0'') @ ds
        else if int (length ds) \<le> point
        then ds @ replicate (nat point - length ds) (CHR ''0'') @ ''.0''
        else take (nat point) ds @ CHR ''.'' # drop (nat point) ds)"

fun float_repr :: "pyfloat \<Rightarrow> string" where
  "float_repr (Fin q) =
     (if q = 0 then ''0.0'' else if q < 0 then CHR ''-'' # positive_repr (- q) else positive_repr q)"
| "float_repr PInf = ''Infinity''"
| "float_repr NInf = ''-Infinity''"
| "float_repr NaN = ''NaN''"

end
