(* ===== verification/Digest.thy ===== *)
theory Digest
  imports PyFloat "HOL-Library.Word"
begin

text \<open>
  Content identities. Every component names its records by
  \<open>hashlib.sha256(json.dumps(value, sort_keys=True, separators=(",", ":")).encode()).hexdigest()\<close>.
  This theory models the two library calls: \<open>dumps\<close> is the canonical encoding of the JSON values
  the modelled records contain, with the ASCII escapes of \<open>ensure_ascii\<close>, and
  \<open>sha256_hex\<close> is the SHA-256 function of FIPS 180-4 with its lower-case hexadecimal digest.
  The lemmas show that a digest always has the shape the guards of the sources ask for, and that
  the canonical encoding of values without floats is injective, so that two records with the same identity differ only if
  SHA-256 collides on their encodings.
\<close>

unbundle bit_operations_syntax

section \<open>SHA-256\<close>

type_synonym w32 = "32 word"
type_synonym sha_state = "w32 \<times> w32 \<times> w32 \<times> w32 \<times> w32 \<times> w32 \<times> w32 \<times> w32"

text \<open>
  The round constants are, as the standard defines them, the first 32 bits of the fractional parts of
  the cube roots of the first 64 primes. \<open>cube_root n m r\<close> raises \<open>r\<close> bit by bit, from bit \<open>n - 1\<close> down, to
  the integer cube root of \<open>m\<close>; 35 bits are enough because the cube root of the last prime, 311, is below 8.
\<close>

fun cube_root :: "nat \<Rightarrow> nat \<Rightarrow> nat \<Rightarrow> nat" where
  "cube_root 0 m r = r"
| "cube_root (Suc n) m r = cube_root n m (if (r + 2 ^ n) ^ 3 \<le> m then r + 2 ^ n else r)"

definition sha_primes :: "nat list" where
  "sha_primes = filter (\<lambda>p. list_all (\<lambda>d. p mod d \<noteq> 0) [2..<p]) [2..<312]"

definition sha_k :: "w32 list" where
  "sha_k = map (\<lambda>p. of_nat (cube_root 35 (p * 2 ^ 96) 0)) sha_primes"

definition sha_init :: sha_state where
  "sha_init = (0x6a09e667, 0xbb67ae85, 0x3c6ef372, 0xa54ff53a,
               0x510e527f, 0x9b05688c, 0x1f83d9ab, 0x5be0cd19)"

definition rotr :: "nat \<Rightarrow> w32 \<Rightarrow> w32" where
  "rotr n x = drop_bit n x OR push_bit (32 - n) x"

definition small_sigma0 :: "w32 \<Rightarrow> w32" where
  "small_sigma0 x = rotr 7 x XOR rotr 18 x XOR drop_bit 3 x"

definition small_sigma1 :: "w32 \<Rightarrow> w32" where
  "small_sigma1 x = rotr 17 x XOR rotr 19 x XOR drop_bit 10 x"

definition big_sigma0 :: "w32 \<Rightarrow> w32" where
  "big_sigma0 x = rotr 2 x XOR rotr 13 x XOR rotr 22 x"

definition big_sigma1 :: "w32 \<Rightarrow> w32" where
  "big_sigma1 x = rotr 6 x XOR rotr 11 x XOR rotr 25 x"

fun sha_schedule :: "nat \<Rightarrow> w32 list \<Rightarrow> w32 list" where
  "sha_schedule 0 ws = ws"
| "sha_schedule (Suc n) ws =
     (let k = length ws in
      sha_schedule n (ws @ [small_sigma1 (ws ! (k - 2)) + ws ! (k - 7)
                            + small_sigma0 (ws ! (k - 15)) + ws ! (k - 16)]))"

fun sha_round :: "w32 \<times> w32 \<Rightarrow> sha_state \<Rightarrow> sha_state" where
  "sha_round (k, w) (a, b, c, d, e, f, g, h) =
     (let t1 = h + big_sigma1 e + ((e AND f) XOR (NOT e AND g)) + k + w;
          t2 = big_sigma0 a + ((a AND b) XOR (a AND c) XOR (b AND c))
      in (t1 + t2, a, b, c, d + t1, e, f, g))"

fun sha_add :: "sha_state \<Rightarrow> sha_state \<Rightarrow> sha_state" where
  "sha_add (a, b, c, d, e, f, g, h) (a', b', c', d', e', f', g', h') =
     (a + a', b + b', c + c', d + d', e + e', f + f', g + g', h + h')"

definition sha_block :: "w32 list \<Rightarrow> sha_state \<Rightarrow> sha_state" where
  "sha_block ws s = sha_add s (fold sha_round (zip sha_k (sha_schedule 48 ws)) s)"

definition sha_pad :: "nat list \<Rightarrow> nat list" where
  "sha_pad bs =
     (let l = length bs; z = (119 - l mod 64) mod 64
      in bs @ [128] @ replicate z 0 @ map (\<lambda>i. (8 * l) div 256 ^ (7 - i) mod 256) [0..<8])"

fun sha_words :: "nat list \<Rightarrow> w32 list" where
  "sha_words (a # b # c # d # rest) =
     of_nat (((a * 256 + b) * 256 + c) * 256 + d) # sha_words rest"
| "sha_words _ = []"

fun sha_blocks :: "nat \<Rightarrow> w32 list \<Rightarrow> sha_state \<Rightarrow> sha_state" where
  "sha_blocks 0 ws s = s"
| "sha_blocks (Suc n) ws s = sha_blocks n (drop 16 ws) (sha_block (take 16 ws) s)"

definition hex_word :: "w32 \<Rightarrow> string" where
  "hex_word w = map (\<lambda>i. hex_digits ! (unat w div 16 ^ (7 - i) mod 16)) [0..<8]"

definition hex_state :: "sha_state \<Rightarrow> string" where
  "hex_state s = (case s of (a, b, c, d, e, f, g, h) \<Rightarrow> concat (map hex_word [a, b, c, d, e, f, g, h]))"

definition sha256_hex :: "string \<Rightarrow> string" where
  "sha256_hex s =
     (let ws = sha_words (sha_pad (map of_char s))
      in hex_state (sha_blocks (length ws div 16) ws sha_init))"

lemma length_hex_word [simp]: "length (hex_word w) = 8"
  by (simp add: hex_word_def)

lemma hex_digit_in: "n < 16 \<Longrightarrow> hex_digits ! n \<in> set hex_digits"
  by (rule nth_mem) (simp add: hex_digits_def)

lemma hex_word_digits: "c \<in> set (hex_word w) \<Longrightarrow> c \<in> set hex_digits"
  by (auto simp: hex_word_def simp del: upt_Suc intro!: hex_digit_in)

lemma is_lower_hex_state: "is_lower_hex 64 (hex_state s)"
  by (cases s) (auto simp: is_lower_hex_def hex_state_def list_all_iff dest: hex_word_digits)

theorem is_lower_hex_sha256 [simp]: "is_lower_hex 64 (sha256_hex s)"
  by (simp add: sha256_hex_def Let_def is_lower_hex_state)

lemma sha256_hex_nonempty [simp]: "sha256_hex s \<noteq> []"
  using is_lower_hex_sha256 [of s] by (auto simp: is_lower_hex_def)

section \<open>Canonical JSON\<close>

datatype json =
    JNull
  | JBool bool
  | JInt int
  | JFloat pyfloat
  | JStr string
  | JArr "json list"
  | JObj "(string \<times> json) list"

text \<open>The escapes of \<open>py_encode_basestring_ascii\<close>.\<close>

definition dquote :: char where
  "dquote = CHR 0x22"

definition esc_char :: "char \<Rightarrow> string" where
  "esc_char c =
     (if c = dquote \<or> c = CHR 0x5C then [CHR 0x5C, c]
      else if c = CHR 0x0A then [CHR 0x5C, CHR ''n'']
      else if c = CHR 0x0D then [CHR 0x5C, CHR ''r'']
      else if c = CHR 0x09 then [CHR 0x5C, CHR ''t'']
      else if c = CHR 0x0C then [CHR 0x5C, CHR ''f'']
      else if c = CHR 0x08 then [CHR 0x5C, CHR ''b'']
      else let n = of_char c :: nat in
        if 32 \<le> n \<and> n \<le> 126 then [c]
        else CHR 0x5C # ''u00'' @ [hex_digits ! (n div 16), hex_digits ! (n mod 16)])"

definition quote :: "string \<Rightarrow> string" where
  "quote s = dquote # concat (map esc_char s) @ [dquote]"

fun dumps :: "json \<Rightarrow> string" where
  "dumps JNull = ''null''"
| "dumps (JBool b) = (if b then ''true'' else ''false'')"
| "dumps (JInt i) = show_int i"
| "dumps (JFloat x) = float_repr x"
| "dumps (JStr s) = quote s"
| "dumps (JArr vs) = ''['' @ join '','' (map dumps vs) @ '']''"
| "dumps (JObj kvs) =
     ''{'' @ join '','' (map (\<lambda>(k, t). quote k @ '':'' @ t)
                         (sort_key fst (map (\<lambda>(k, v). (k, dumps v)) kvs))) @ ''}''"

definition content_sha256 :: "json \<Rightarrow> string" where
  "content_sha256 v = sha256_hex (dumps v)"

lemma content_sha256_hex [simp]: "is_lower_hex 64 (content_sha256 v)"
  by (simp add: content_sha256_def)

text \<open>A value in canonical form lists the fields of every object in key order and holds no float.\<close>

fun canonical :: "json \<Rightarrow> bool" where
  "canonical (JArr vs) = list_all canonical vs"
| "canonical (JObj kvs) = (sorted (map fst kvs) \<and> list_all (\<lambda>(k, v). canonical v) kvs)"
| "canonical (JFloat x) = False"
| "canonical _ = True"

subsection \<open>The encoding is injective\<close>

definition hex_val :: "char \<Rightarrow> nat" where
  "hex_val c = (let n = of_char c in if n < 58 then n - 48 else n - 87)"

lemma hex_val_digit [simp]: "n < 16 \<Longrightarrow> hex_val (hex_digits ! n) = n"
proof -
  have "list_all (\<lambda>n. hex_val (hex_digits ! n) = n) [0..<16]" by code_simp
  then show "n < 16 \<Longrightarrow> hex_val (hex_digits ! n) = n" by (simp add: list_all_iff)
qed

text \<open>One escaped character read back, the left inverse of \<^const>\<open>esc_char\<close>.\<close>

fun unesc :: "string \<Rightarrow> (char \<times> string) option" where
  "unesc [] = None"
| "unesc (x # xs) =
     (if x \<noteq> CHR 0x5C then Some (x, xs)
      else case xs of
        [] \<Rightarrow> None
      | y # ys \<Rightarrow>
          if y = CHR ''n'' then Some (CHR 0x0A, ys)
          else if y = CHR ''r'' then Some (CHR 0x0D, ys)
          else if y = CHR ''t'' then Some (CHR 0x09, ys)
          else if y = CHR ''f'' then Some (CHR 0x0C, ys)
          else if y = CHR ''b'' then Some (CHR 0x08, ys)
          else if y = CHR ''u''
            then (case ys of
                    _ # _ # h # l # rest \<Rightarrow> Some (char_of (16 * hex_val h + hex_val l), rest)
                  | _ \<Rightarrow> None)
          else Some (y, ys))"

lemma unesc_esc: "unesc (esc_char c @ r) = Some (c, r)"
proof -
  have "(of_char c :: nat) div 16 < 16"
    by (rule less_mult_imp_div_less) simp
  then have "hex_val (hex_digits ! ((of_char c :: nat) div 16)) = of_char c div 16"
    "hex_val (hex_digits ! ((of_char c :: nat) mod 16)) = of_char c mod 16"
    by simp_all
  then show ?thesis by (simp add: esc_char_def dquote_def Let_def)
qed

lemma esc_char_inj: "esc_char c @ r = esc_char d @ s \<Longrightarrow> c = d \<and> r = s"
  by (metis unesc_esc option.inject prod.inject)

lemma esc_char_head: "\<exists>x xs. esc_char c = x # xs \<and> x \<noteq> dquote"
  by (simp add: esc_char_def dquote_def Let_def)

lemma esc_string_inj:
  "concat (map esc_char s) @ dquote # r = concat (map esc_char t) @ dquote # r' \<Longrightarrow> s = t \<and> r = r'"
proof (induction s arbitrary: t)
  case Nil
  then show ?case
  proof (cases t)
    case (Cons d t')
    with Nil esc_char_head [of d] show ?thesis by auto
  qed simp
next
  case (Cons c s)
  show ?case
  proof (cases t)
    case Nil
    with Cons.prems esc_char_head [of c] show ?thesis by auto
  next
    case (Cons d t')
    with Cons.prems have "esc_char c @ (concat (map esc_char s) @ dquote # r)
        = esc_char d @ (concat (map esc_char t') @ dquote # r')" by simp
    then have "c = d" "concat (map esc_char s) @ dquote # r = concat (map esc_char t') @ dquote # r'"
      using esc_char_inj by blast+
    with Cons.IH Cons show ?thesis by blast
  qed
qed

lemma quote_inj: "quote s @ r = quote t @ r' \<Longrightarrow> s = t \<and> r = r'"
  by (auto simp: quote_def dest: esc_string_inj)

definition is_digit :: "char \<Rightarrow> bool" where
  "is_digit c \<longleftrightarrow> (48 :: nat) \<le> of_char c \<and> (of_char c :: nat) \<le> 57"

lemma is_digit_char_of_digit [simp]: "d < 10 \<Longrightarrow> is_digit (char_of_digit d)"
  by (simp add: is_digit_def char_of_digit_def of_char_of)

lemma show_nat_digits: "c \<in> set (show_nat n) \<Longrightarrow> is_digit c"
proof (induction n arbitrary: c rule: show_nat.induct)
  case (1 n)
  then show ?case by (cases "n < 10") (auto simp: show_nat.simps [of n])
qed

definition read_nat :: "string \<Rightarrow> nat" where
  "read_nat s = foldl (\<lambda>a c. 10 * a + (of_char c - 48)) 0 s"

lemma read_show_nat [simp]: "read_nat (show_nat n) = n"
proof (induction n rule: show_nat.induct)
  case (1 n)
  then show ?case
    by (cases "n < 10") (auto simp: show_nat.simps [of n] read_nat_def char_of_digit_def of_char_of)
qed

lemma show_nat_nonempty [simp]: "show_nat n \<noteq> []"
  by (subst show_nat.simps) simp

text \<open>What may follow a value inside an encoding: nothing, or a separator.\<close>

definition delimited :: "string \<Rightarrow> bool" where
  "delimited r \<longleftrightarrow> (r = [] \<or> hd r \<in> set '',]}'')"

lemma delimited_Cons [simp]: "delimited (c # r) \<longleftrightarrow> c \<in> set '',]}''"
  by (simp add: delimited_def)

lemma delimited_not_digit: "delimited (c # r) \<Longrightarrow> \<not> is_digit c"
  by (auto simp: is_digit_def)

lemma show_nat_takeWhile: "delimited r \<Longrightarrow> takeWhile is_digit (show_nat n @ r) = show_nat n"
proof -
  assume "delimited r"
  then have "takeWhile is_digit r = []"
    by (cases r) (auto simp: is_digit_def)
  moreover have "\<forall>c \<in> set (show_nat n). is_digit c" by (blast intro: show_nat_digits)
  ultimately show ?thesis by (simp add: takeWhile_append2)
qed

lemma show_nat_inj:
  assumes "delimited r" "delimited r'" "show_nat m @ r = show_nat n @ r'"
  shows "m = n \<and> r = r'"
proof -
  have "show_nat m = show_nat n"
    using assms by (metis show_nat_takeWhile)
  then have "m = n" by (metis read_show_nat)
  with assms show ?thesis by simp
qed

lemma show_nat_head: "\<exists>c cs. show_nat n = c # cs \<and> is_digit c"
  by (metis show_nat_nonempty show_nat_digits list.exhaust list.set_intros(1))

lemma show_int_inj:
  assumes "delimited r" "delimited r'" "show_int i @ r = show_int j @ r'"
  shows "i = j \<and> r = r'"
proof -
  have minus: "CHR ''-'' # s \<noteq> show_nat n @ t" for s n t
    using show_nat_head [of n] by (auto simp: is_digit_def)
  from assms(3) minus minus [symmetric] have "i < 0 \<longleftrightarrow> j < 0"
    by (auto simp: show_int_def split: if_splits)
  with assms show ?thesis
    using show_nat_inj [of r r' "nat (- i)" "nat (- j)"] show_nat_inj [of r r' "nat i" "nat j"]
    by (auto simp: show_int_def split: if_splits)
qed

text \<open>The first character tells the constructor of an encoded value.\<close>

fun json_tag :: "json \<Rightarrow> nat" where
  "json_tag JNull = 0"
| "json_tag (JBool b) = (if b then 1 else 2)"
| "json_tag (JInt i) = 3"
| "json_tag (JStr s) = 4"
| "json_tag (JArr vs) = 5"
| "json_tag (JObj kvs) = 6"
| "json_tag (JFloat x) = 7"

definition char_tag :: "char \<Rightarrow> nat" where
  "char_tag c =
     (if c = CHR ''n'' then 0 else if c = CHR ''t'' then 1 else if c = CHR ''f'' then 2
      else if c = CHR ''-'' \<or> is_digit c then 3 else if c = dquote then 4
      else if c = CHR ''['' then 5 else if c = CHR ''{'' then 6 else 7)"

lemma digit_tag: "is_digit c \<Longrightarrow> char_tag c = 3"
  by (auto simp: char_tag_def is_digit_def)

lemma dumps_head: "canonical v \<Longrightarrow> \<exists>c cs. dumps v = c # cs \<and> char_tag c = json_tag v"
proof (cases v)
  case (JInt i)
  have "char_tag CHR ''-'' = 3" by (simp add: char_tag_def)
  then show ?thesis
    using JInt show_nat_head [of "nat i"] by (auto simp: show_int_def digit_tag)
qed (auto simp: char_tag_def is_digit_def quote_def dquote_def)

lemma dumps_same_tag:
  "dumps v @ r = dumps w @ r' \<Longrightarrow> canonical v \<Longrightarrow> canonical w \<Longrightarrow> json_tag v = json_tag w"
  using dumps_head [of v] dumps_head [of w] by auto

lemma dumps_not_bracket: "canonical v \<Longrightarrow> dumps v \<noteq> CHR '']'' # r"
  using dumps_head [of v] by (cases v) (auto simp: char_tag_def is_digit_def dquote_def split: if_splits)

text \<open>Sequences separated by commas and closed by a bracket.\<close>

lemma join_Cons: "join '','' (x # xs) @ e = x @ (if xs = [] then e else '','' @ join '','' xs @ e)"
  by (cases xs) auto

lemma join_inj:
  assumes "\<And>x y r r'. x \<in> set xs \<Longrightarrow> y \<in> set ys \<Longrightarrow> delimited r \<Longrightarrow> delimited r' \<Longrightarrow>
      f x @ r = f y @ r' \<Longrightarrow> x = y \<and> r = r'"
    and "\<And>x. x \<in> set xs \<union> set ys \<Longrightarrow> f x \<noteq> [] \<and> hd (f x) \<noteq> e"
    and e: "e \<in> set '']}''"
    and "join '','' (map f xs) @ e # r = join '','' (map f ys) @ e # s"
  shows "xs = ys \<and> r = s"
  using assms(1,2,4)
proof (induction xs arbitrary: ys)
  case Nil
  show ?case
  proof (cases ys)
    case (Cons y ys')
    with Nil(2) [of y] obtain c cs where "f y = c # cs" "c \<noteq> e" by (cases "f y") auto
    with Nil(3) Cons show ?thesis by (simp add: join_Cons)
  qed (use Nil in simp)
next
  case (Cons x xs)
  show ?case
  proof (cases ys)
    case Nil
    with Cons.prems(2) [of x] obtain c cs where "f x = c # cs" "c \<noteq> e" by (cases "f x") auto
    with Cons.prems(3) Nil show ?thesis by (simp add: join_Cons)
  next
    case ys: (Cons y ys')
    let ?rest = "\<lambda>zs t. if zs = [] then e # t else '','' @ join '','' (map f zs) @ e # t"
    have "f x @ ?rest xs r = f y @ ?rest ys' s"
      using Cons.prems(3) ys by (simp add: join_Cons)
    moreover have "delimited (?rest zs t)" for zs t using e by auto
    ultimately have "x = y" and rest: "?rest xs r = ?rest ys' s"
      using Cons.prems(1) [of x y "?rest xs r" "?rest ys' s"] ys by auto
    show ?thesis
    proof (cases "xs = [] \<or> ys' = []")
      case True
      with rest e ys \<open>x = y\<close> show ?thesis by (auto split: if_splits)
    next
      case False
      with rest have "join '','' (map f xs) @ e # r = join '','' (map f ys') @ e # s" by simp
      then have "xs = ys' \<and> r = s"
        using Cons.prems(1,2) ys by (intro Cons.IH) auto
      with ys \<open>x = y\<close> show ?thesis by simp
    qed
  qed
qed

definition field_text :: "string \<times> json \<Rightarrow> string" where
  "field_text f = quote (fst f) @ '':'' @ dumps (snd f)"

lemma dumps_JObj_sorted:
  assumes "sorted (map fst kvs)"
  shows "dumps (JObj kvs) = ''{'' @ join '','' (map field_text kvs) @ ''}''"
proof -
  have "sort_key fst (map (\<lambda>(k, v). (k, dumps v)) kvs) = map (\<lambda>(k, v). (k, dumps v)) kvs"
    by (rule sort_key_id_if_sorted) (simp add: assms comp_def case_prod_beta)
  then show ?thesis by (simp add: field_text_def [abs_def] case_prod_beta comp_def)
qed

lemma field_text_inj:
  assumes "\<And>r r'. dumps (snd x) @ r = dumps (snd y) @ r' \<Longrightarrow> delimited r \<Longrightarrow> delimited r' \<Longrightarrow>
      snd x = snd y \<and> r = r'"
    and "delimited r" "delimited r'" "field_text x @ r = field_text y @ r'"
  shows "x = y \<and> r = r'"
proof -
  from assms(4) have "quote (fst x) @ (CHR '':'' # dumps (snd x) @ r)
      = quote (fst y) @ (CHR '':'' # dumps (snd y) @ r')" by (simp add: field_text_def)
  from quote_inj [OF this] have k: "fst x = fst y" and "dumps (snd x) @ r = dumps (snd y) @ r'"
    by auto
  from assms(1) [OF this(2) assms(2,3)] k show ?thesis by (simp add: prod_eq_iff)
qed

lemma dumps_prefix_inj:
  assumes "canonical v" "canonical w" "delimited r" "delimited r'" "dumps v @ r = dumps w @ r'"
  shows "v = w \<and> r = r'"
  using assms
proof (induction v arbitrary: w r r')
  case (JInt i)
  from dumps_same_tag [OF JInt.prems(5,1,2)] obtain j where "w = JInt j"
    by (cases w) (auto split: if_splits)
  with JInt.prems show_int_inj [of r r' i j] show ?case by simp
next
  case (JStr s)
  from dumps_same_tag [OF JStr.prems(5,1,2)] obtain t where "w = JStr t"
    by (cases w) (auto split: if_splits)
  with JStr.prems quote_inj [of s r t r'] show ?case by simp
next
  case (JArr vs)
  from dumps_same_tag [OF JArr.prems(5,1,2)] obtain ws where w: "w = JArr ws"
    by (cases w) (auto split: if_splits)
  have "vs = ws \<and> r = r'"
  proof (rule join_inj [where f = dumps and e = "CHR '']''"])
    show "dumps x \<noteq> [] \<and> hd (dumps x) \<noteq> CHR '']''" if "x \<in> set vs \<union> set ws" for x
    proof -
      have "canonical x" using that JArr.prems(1,2) w by (auto simp: list_all_iff)
      then show ?thesis
        using dumps_head [of x] dumps_not_bracket [of x] by (metis list.collapse list.distinct(1))
    qed
  qed (use JArr w in \<open>auto simp: list_all_iff\<close>)
  with w show ?case by simp
next
  case (JObj kvs)
  from dumps_same_tag [OF JObj.prems(5,1,2)] obtain kws where w: "w = JObj kws"
    by (cases w) (auto split: if_splits)
  have "kvs = kws \<and> r = r'"
  proof (rule join_inj [where f = field_text and e = "CHR ''}''"])
    show "field_text x \<noteq> [] \<and> hd (field_text x) \<noteq> CHR ''}''" for x
      by (simp add: field_text_def quote_def dquote_def)
    show "x = y \<and> t = t'"
      if "x \<in> set kvs" "y \<in> set kws" "delimited t" "delimited t'" "field_text x @ t = field_text y @ t'"
      for x y t t'
    proof (rule field_text_inj [OF _ that(3-5)])
      have "canonical (snd x)" "canonical (snd y)"
        using that(1,2) JObj.prems(1,2) w by (auto simp: list_all_iff)
      then show "snd x = snd y \<and> u = u'"
        if "dumps (snd x) @ u = dumps (snd y) @ u'" "delimited u" "delimited u'" for u u'
        using JObj.IH [of x "snd x"] \<open>x \<in> set kvs\<close> that by (cases x) (auto intro: snds.intros)
    qed
    show "join '','' (map field_text kvs) @ CHR ''}'' # r = join '','' (map field_text kws) @ CHR ''}'' # r'"
      using JObj.prems(1,2,5) w by (simp add: dumps_JObj_sorted del: dumps.simps)
  qed simp
  with w show ?case by simp
next
  case JNull
  from dumps_same_tag [OF JNull.prems(5,1,2)] have "w = JNull"
    by (cases w) (auto split: if_splits)
  with JNull.prems show ?case by simp
next
  case (JBool b)
  from dumps_same_tag [OF JBool.prems(5,1,2)] have "w = JBool b"
    by (cases w) (auto split: if_splits)
  with JBool.prems show ?case by simp
qed simp

theorem dumps_inj: "canonical v \<Longrightarrow> canonical w \<Longrightarrow> dumps v = dumps w \<Longrightarrow> v = w"
  using dumps_prefix_inj [of v w "[]" "[]"] by (simp add: delimited_def)

text \<open>
  Two values collide when SHA-256 maps their different encodings to one digest. Identity by
  digest is identity of content exactly when the two encodings do not collide.
\<close>

definition collide :: "json \<Rightarrow> json \<Rightarrow> bool" where
  "collide v w \<longleftrightarrow> dumps v \<noteq> dumps w \<and> content_sha256 v = content_sha256 w"

lemma content_sha256_inj:
  "canonical v \<Longrightarrow> canonical w \<Longrightarrow> \<not> collide v w \<Longrightarrow> content_sha256 v = content_sha256 w \<Longrightarrow> v = w"
  by (auto simp: collide_def dest: dumps_inj)

end
