(* ===== verification/Methods.thy ===== *)
theory Methods
  imports Digest
begin

text \<open>
  \<open>methods/core.py\<close>: the candidate update, its validity, and the rule that fixes the round at
  which each publication policy may publish it. The payload of a candidate is a tuple of
  device tensors the code never reads; its type is a parameter.
\<close>

section \<open>Data\<close>

datatype method_policy = STATIC | FIXED_BARRIER | FIRST_READY_BOUNDARY

record 'p candidate_update =
  cu_payload :: "'p list"
  cu_source_round :: int
  cu_source_version :: int
  cu_cohort_epoch :: int
  cu_slot_generation :: int
  cu_ready_round :: int
  cu_buffer_generation :: int
  cu_optimizer_state_generation :: int
  cu_ready_event_id :: string
  cu_numerically_valid :: bool
  cu_memory_reservation_bytes :: int

text \<open>\<open>CandidateUpdate.__post_init__\<close>: the value, or the exception construction raises.\<close>

definition candidate_update_post_init :: "'p candidate_update \<Rightarrow> 'p candidate_update res" where
  "candidate_update_post_init c =
     rbind (raise_if (cu_payload c = []) (ValueError ''candidate payload must be non-empty'')) (\<lambda>_.
     rbind (raise_if (\<exists>v \<in> set [cu_source_round c, cu_source_version c, cu_cohort_epoch c,
                                cu_slot_generation c, cu_ready_round c, cu_buffer_generation c,
                                cu_optimizer_state_generation c, cu_memory_reservation_bytes c]. v < 0)
            (ValueError ''candidate counters must be non-negative'')) (\<lambda>_.
     rbind (raise_if (cu_ready_round c < cu_source_round c)
            (ValueError ''candidate cannot be ready before its source round'')) (\<lambda>_.
     rbind (raise_if (cu_ready_event_id c = [])
            (ValueError ''candidate readiness event identity must be non-empty'')) (\<lambda>_.
     Inr c))))"

definition require_sha256 :: "string \<Rightarrow> string \<Rightarrow> unit res" where
  "require_sha256 name value =
     raise_if (\<not> is_lower_hex 64 value)
       (ValueError (name @ '' digest must be an exact lowercase SHA-256''))"

record 'p candidate_replay_binding =
  rb_candidate :: "'p candidate_update"
  rb_source_state_sha256 :: string
  rb_proposal_evidence_sha256 :: string

definition candidate_replay_binding_post_init ::
  "'p candidate_replay_binding \<Rightarrow> 'p candidate_replay_binding res" where
  "candidate_replay_binding_post_init b =
     rbind (require_sha256 ''source-state'' (rb_source_state_sha256 b)) (\<lambda>_.
     rbind (require_sha256 ''proposal-evidence'' (rb_proposal_evidence_sha256 b)) (\<lambda>_.
     Inr b))"

datatype outcome = Published | Discarded

text \<open>
  \<open>CandidateTermination\<close> points at the candidate object; the type of that reference is a
  parameter, since the cohort compares candidates by object identity.
\<close>

record 'c candidate_termination =
  ct_candidate :: 'c
  ct_outcome :: outcome
  ct_reason :: string
  ct_published_version :: "int option"

definition candidate_termination_post_init ::
  "'c candidate_termination \<Rightarrow> 'c candidate_termination res" where
  "candidate_termination_post_init t =
     rbind (raise_if (ct_reason t = [])
            (ValueError ''candidate termination requires a reason code'')) (\<lambda>_.
     rbind (raise_if (ct_outcome t = Published \<and> ct_published_version t = None)
            (ValueError ''published candidate requires its committed version'')) (\<lambda>_.
     rbind (raise_if (ct_outcome t = Discarded \<and> ct_published_version t \<noteq> None)
            (ValueError ''discarded candidate cannot carry a published version'')) (\<lambda>_.
     Inr t)))"

record publication_delay_rec =
  pd_source_round :: int
  pd_intrinsic_ready_round :: int
  pd_publication_round :: int
  pd_extra_logical_rounds :: int

definition intrinsic_pipeline_rounds :: "publication_delay_rec \<Rightarrow> int" where
  "intrinsic_pipeline_rounds d = pd_intrinsic_ready_round d - pd_source_round d"

section \<open>Operations\<close>

definition policy_for :: "string \<Rightarrow> method_policy res" where
  "policy_for m =
     (if m = ''static'' then Inr STATIC
      else if m = ''tts'' then Inr FIXED_BARRIER
      else if m = ''l0'' then Inr FIRST_READY_BOUNDARY
      else Inl (ValueError (CHR 0x27 # m @ CHR 0x27 # '' is not a core method'')))"

definition publication_round ::
  "method_policy \<Rightarrow> 'p candidate_update \<Rightarrow> int \<Rightarrow> int \<Rightarrow> int option res" where
  "publication_round policy c stride extra =
     (if policy = STATIC then Inr None
      else if stride < 1 then Inl (ValueError ''stride must be positive'')
      else if extra < 0 then Inl (ValueError ''extra logical delay must be non-negative'')
      else let delayed_ready = cu_ready_round c + extra in
        if policy = FIRST_READY_BOUNDARY then Inr (Some delayed_ready)
        else let next_boundary = (cu_source_round c div stride + 1) * stride in
          Inr (Some (max delayed_ready next_boundary)))"

definition publication_delay ::
  "method_policy \<Rightarrow> 'p candidate_update \<Rightarrow> int \<Rightarrow> int \<Rightarrow> publication_delay_rec option res" where
  "publication_delay policy c stride extra =
     rbind (publication_round policy c stride extra) (\<lambda>published.
       case published of
         None \<Rightarrow> Inr None
       | Some p \<Rightarrow> Inr (Some \<lparr>pd_source_round = cu_source_round c,
                             pd_intrinsic_ready_round = cu_ready_round c,
                             pd_publication_round = p,
                             pd_extra_logical_rounds = p - cu_ready_round c\<rparr>))"

definition assert_candidate_equivalence ::
  "'p candidate_replay_binding \<Rightarrow> 'p candidate_replay_binding \<Rightarrow> unit res" where
  "assert_candidate_equivalence l r =
     rbind (raise_if (rb_source_state_sha256 l \<noteq> rb_source_state_sha256 r)
       (ValueError ''candidate equivalence requires identical replay source-state digests'')) (\<lambda>_.
     rbind (raise_if (rb_proposal_evidence_sha256 l \<noteq> rb_proposal_evidence_sha256 r)
       (ValueError ''candidate equivalence requires identical proposal-evidence digests'')) (\<lambda>_.
     raise_if (rb_candidate l \<noteq> rb_candidate r)
       (ValueError ''controlled replay produced different candidate updates'')))"

section \<open>When a candidate may be published\<close>

lemma next_boundary_gt:
  fixes s k :: int
  assumes "0 < k"
  shows "s < (s div k + 1) * k"
proof -
  have "(s div k + 1) * k = k * (s div k) + k" by (simp add: algebra_simps)
  then show ?thesis using pos_mod_bound [OF assms, of s] mult_div_mod_eq [of k s] by linarith
qed

lemma next_boundary_le:
  fixes s k :: int
  assumes "0 < k"
  shows "(s div k + 1) * k \<le> s + k"
proof -
  have "(s div k + 1) * k = k * (s div k) + k" by (simp add: algebra_simps)
  then show ?thesis using pos_mod_sign [OF assms, of s] mult_div_mod_eq [of k s] by linarith
qed

lemma next_boundary_least:
  fixes s :: int
  assumes "0 < k" "s < k * m"
  shows "(s div k + 1) * k \<le> k * m"
proof -
  have "k * (s div k) \<le> s"
    using pos_mod_sign [of k s] mult_div_mod_eq [of k s] assms(1) by linarith
  with assms have "k * (s div k) < k * m" by linarith
  with assms(1) have "s div k + 1 \<le> m" by (simp add: mult_less_cancel_left_pos)
  with assms(1) have "k * (s div k + 1) \<le> k * m" by (intro mult_left_mono) auto
  then show ?thesis by (simp add: mult.commute)
qed

text \<open>
  The specification of the fixed barrier: the publication round is the least round at which the
  delayed candidate is ready and at least one barrier (a multiple of the stride) has been passed
  since its source round.
\<close>

definition barrier_passed :: "int \<Rightarrow> int \<Rightarrow> int \<Rightarrow> bool" where
  "barrier_passed stride s r \<longleftrightarrow> (\<exists>m. s < stride * m \<and> stride * m \<le> r)"

lemma publication_round_first_ready:
  "publication_round FIRST_READY_BOUNDARY c stride extra = Inr (Some r) \<Longrightarrow> r = cu_ready_round c + extra"
  by (auto simp: publication_round_def Let_def split: if_splits)

lemma publication_round_None [simp]:
  "publication_round policy c stride extra = Inr None \<longleftrightarrow> policy = STATIC"
  by (auto simp: publication_round_def Let_def)

text \<open>Every round a policy names lies after the candidate is ready.\<close>

lemma publication_round_ge:
  "publication_round policy c stride extra = Inr (Some r) \<Longrightarrow>
     cu_ready_round c + extra \<le> r \<and> 1 \<le> stride \<and> 0 \<le> extra"
  by (auto simp: publication_round_def Let_def split: if_splits)

lemma publication_round_barrier_eq:
  "1 \<le> stride \<Longrightarrow> 0 \<le> extra \<Longrightarrow> publication_round FIXED_BARRIER c stride extra
     = Inr (Some (max (cu_ready_round c + extra) ((cu_source_round c div stride + 1) * stride)))"
  by (simp add: publication_round_def Let_def)

section \<open>Properties\<close>

definition sample_candidate :: "nat candidate_update" where
  "sample_candidate =
     \<lparr>cu_payload = [7], cu_source_round = 12, cu_source_version = 0, cu_cohort_epoch = 0,
      cu_slot_generation = 0, cu_ready_round = 14, cu_buffer_generation = 0,
      cu_optimizer_state_generation = 0, cu_ready_event_id = ''logical-ready'',
      cu_numerically_valid = True, cu_memory_reservation_bytes = 0\<rparr>"

text \<open>
  Under the fixed barrier (TTS) the publication round is the least round at which the candidate
  with its extra delay is ready and a multiple of the stride has been passed since its source
  round; so the barrier can neither be skipped nor waited for longer than needed.
\<close>

theorem publication_round_fixed_barrier:
  assumes "publication_round FIXED_BARRIER c stride extra = Inr (Some r)"
  shows "cu_ready_round c + extra \<le> r \<and> barrier_passed stride (cu_source_round c) r
    \<and> (\<forall>r'. cu_ready_round c + extra \<le> r' \<and> barrier_passed stride (cu_source_round c) r' \<longrightarrow> r \<le> r')"
proof -
  let ?b = "(cu_source_round c div stride + 1) * stride"
  from assms have s: "0 < stride" and r: "r = max (cu_ready_round c + extra) ?b"
    by (auto simp: publication_round_def Let_def split: if_splits)
  have "cu_source_round c < ?b"
    using s by (rule next_boundary_gt)
  then have "barrier_passed stride (cu_source_round c) r"
    unfolding barrier_passed_def r
    by (intro exI [of _ "cu_source_round c div stride + 1"]) (simp add: mult.commute)
  moreover have "?b \<le> r'" if "barrier_passed stride (cu_source_round c) r'" for r'
    using that next_boundary_least [OF s] unfolding barrier_passed_def by (blast intro: order_trans)
  ultimately show ?thesis using r by auto
qed

theorem publication_round_fixed_barrier_witness:
  "publication_round FIXED_BARRIER sample_candidate 10 1 = Inr (Some 20)
    \<and> cu_ready_round sample_candidate + 1 \<le> 20 \<and> barrier_passed 10 (cu_source_round sample_candidate) 20"
proof -
  have h: "publication_round FIXED_BARRIER sample_candidate 10 1 = Inr (Some 20)"
    by (simp add: publication_round_def sample_candidate_def)
  show ?thesis using h publication_round_fixed_barrier [OF h] by blast
qed

text \<open>
  For the same valid candidate the first-ready policy (L0) never publishes later than the fixed
  barrier, and the barrier delays publication by at most one stride.
\<close>

theorem fixed_barrier_cost:
  assumes "candidate_update_post_init c = Inr c"
    and "publication_round FIRST_READY_BOUNDARY c stride extra = Inr (Some first)"
    and "publication_round FIXED_BARRIER c stride extra = Inr (Some barrier)"
  shows "first \<le> barrier \<and> barrier \<le> first + stride"
proof -
  from assms(3) have s: "1 \<le> stride" "0 \<le> extra"
    by (auto simp: publication_round_def split: if_splits)
  from assms(1) have "cu_source_round c \<le> cu_ready_round c"
    by (auto simp: candidate_update_post_init_def split: if_splits)
  moreover have "(cu_source_round c div stride + 1) * stride \<le> cu_source_round c + stride"
    using s by (intro next_boundary_le) auto
  moreover have "first = cu_ready_round c + extra"
    using assms(2) by (rule publication_round_first_ready)
  moreover have "barrier = max (cu_ready_round c + extra) ((cu_source_round c div stride + 1) * stride)"
    using assms(3) publication_round_barrier_eq [OF s, of c] by simp
  ultimately show ?thesis using s by (auto simp: max_def)
qed

theorem fixed_barrier_cost_witness:
  "publication_round FIRST_READY_BOUNDARY sample_candidate 10 1 = Inr (Some 15)
    \<and> publication_round FIXED_BARRIER sample_candidate 10 1 = Inr (Some 20) \<and> (15::int) \<le> 20 \<and> (20::int) \<le> 15 + 10"
proof -
  have v: "candidate_update_post_init sample_candidate = Inr sample_candidate"
    by (simp add: candidate_update_post_init_def sample_candidate_def)
  have f: "publication_round FIRST_READY_BOUNDARY sample_candidate 10 1 = Inr (Some 15)"
    and b: "publication_round FIXED_BARRIER sample_candidate 10 1 = Inr (Some 20)"
    by (simp_all add: publication_round_def sample_candidate_def)
  show ?thesis using f b fixed_barrier_cost [OF v f b] by blast
qed

end
