(* ===== verification/Cohort.thy ===== *)
theory Cohort
  imports Methods PyFloat "HOL-Library.Multiset"
begin

text \<open>
  \<open>adaptation/cohort.py\<close>: the identity of a cohort, the batch that keeps one newest supervision
  signal per request, and the host-side runtime that lets at most one candidate be in flight and
  publishes it only against the version it was computed from. The device tensors are opaque.

  The runtime compares candidates by object identity (\<open>candidate is not self.in_flight\<close>). A
  candidate object is a pair of its identity and its (frozen) fields; \<open>cr_next_oid\<close> plays the
  allocator, so that every object \<open>begin_candidate\<close> creates is new.
\<close>

section \<open>Cohort identity\<close>

record cohort_identity =
  ci_target_revision :: string
  ci_drafter_revision :: string
  ci_algorithm :: string
  ci_sampling_profile_sha256 :: string
  ci_adaptation_group_id :: string
  ci_tenant_id :: string
  ci_update_mode :: string
  ci_parameter_scope :: string
  ci_parameter_layout_sha256 :: string
  ci_optimizer_identity :: string

definition cohort_identity_post_init :: "cohort_identity \<Rightarrow> cohort_identity res" where
  "cohort_identity_post_init i =
     rbind (check_all (\<lambda>(name, size, value).
              raise_if (\<not> is_lower_hex size value)
                (ValueError (name @ '' must be a lowercase immutable hash'')))
            [(''target_revision'', 40, ci_target_revision i),
             (''drafter_revision'', 40, ci_drafter_revision i),
             (''sampling_profile_sha256'', 64, ci_sampling_profile_sha256 i),
             (''parameter_layout_sha256'', 64, ci_parameter_layout_sha256 i)]) (\<lambda>_.
     rbind (check_all (\<lambda>(name, value).
              raise_if (value = []) (ValueError (name @ '' must be non-empty'')))
            [(''algorithm'', ci_algorithm i),
             (''adaptation_group_id'', ci_adaptation_group_id i),
             (''tenant_id'', ci_tenant_id i),
             (''update_mode'', ci_update_mode i),
             (''parameter_scope'', ci_parameter_scope i),
             (''optimizer_identity'', ci_optimizer_identity i)]) (\<lambda>_.
     Inr i))"

text \<open>The fields of \<open>self.__dict__\<close> in key order, and the digest of their canonical JSON.\<close>

definition cohort_identity_json :: "cohort_identity \<Rightarrow> json" where
  "cohort_identity_json i = JObj
     [(''adaptation_group_id'', JStr (ci_adaptation_group_id i)),
      (''algorithm'', JStr (ci_algorithm i)),
      (''drafter_revision'', JStr (ci_drafter_revision i)),
      (''optimizer_identity'', JStr (ci_optimizer_identity i)),
      (''parameter_layout_sha256'', JStr (ci_parameter_layout_sha256 i)),
      (''parameter_scope'', JStr (ci_parameter_scope i)),
      (''sampling_profile_sha256'', JStr (ci_sampling_profile_sha256 i)),
      (''target_revision'', JStr (ci_target_revision i)),
      (''tenant_id'', JStr (ci_tenant_id i)),
      (''update_mode'', JStr (ci_update_mode i))]"

definition cohort_identity_sha256 :: "cohort_identity \<Rightarrow> string" where
  "cohort_identity_sha256 i = content_sha256 (cohort_identity_json i)"

section \<open>Supervision signals and the latest-signal batch\<close>

record 'p supervision_signal =
  ss_cohort_sha256 :: string
  ss_request_id :: string
  ss_sequence_number :: int
  ss_source_version :: int
  ss_slot_generation :: int
  ss_tensors :: "'p list"
  ss_valid_positions :: int

definition supervision_signal_post_init :: "'p supervision_signal \<Rightarrow> 'p supervision_signal res" where
  "supervision_signal_post_init s =
     rbind (raise_if (\<not> is_lower_hex 64 (ss_cohort_sha256 s))
            (ValueError ''cohort_sha256 must be a lowercase SHA-256'')) (\<lambda>_.
     rbind (raise_if (ss_request_id s = []) (ValueError ''request_id must be non-empty'')) (\<lambda>_.
     rbind (raise_if (ss_sequence_number s < 0 \<or> ss_source_version s < 0
                      \<or> ss_slot_generation s < 0 \<or> ss_valid_positions s < 1)
            (ValueError ''signal counters are outside their valid range'')) (\<lambda>_.
     rbind (raise_if (ss_tensors s = [])
            (ValueError ''supervision signal tensors must be non-empty'')) (\<lambda>_.
     Inr s))))"

record 'p latest_signal_batch =
  lb_cohort_sha256 :: string
  lb_signals :: "(string \<times> 'p supervision_signal) list"

definition new_batch :: "string \<Rightarrow> 'p latest_signal_batch" where
  "new_batch sha = \<lparr>lb_cohort_sha256 = sha, lb_signals = []\<rparr>"

definition batch_offer ::
  "'p latest_signal_batch \<Rightarrow> 'p supervision_signal \<Rightarrow> ('p latest_signal_batch, bool) op_result" where
  "batch_offer b s =
     (if ss_cohort_sha256 s \<noteq> lb_cohort_sha256 b
      then (b, Inl (ValueError ''cross-cohort supervision is forbidden''))
      else case dget (lb_signals b) (ss_request_id s) of
        Some previous \<Rightarrow>
          if ss_sequence_number s \<le> ss_sequence_number previous then (b, Inr False)
          else (b\<lparr>lb_signals := dset (ss_request_id s) s (lb_signals b)\<rparr>, Inr True)
      | None \<Rightarrow> (b\<lparr>lb_signals := dset (ss_request_id s) s (lb_signals b)\<rparr>, Inr True))"

definition batch_drain ::
  "'p latest_signal_batch \<Rightarrow> 'p latest_signal_batch \<times> 'p supervision_signal list \<times> pyfloat" where
  "batch_drain b =
     (if lb_signals b = [] then (b, [], Fin 0)
      else let ordered = sort_key (\<lambda>s. (ss_request_id s, ss_sequence_number s)) (dvalues (lb_signals b))
           in (b\<lparr>lb_signals := []\<rparr>, ordered, fl (1 / of_nat (length ordered))))"

definition batch_discard_request :: "'p latest_signal_batch \<Rightarrow> string \<Rightarrow> 'p latest_signal_batch" where
  "batch_discard_request b request_id = b\<lparr>lb_signals := ddel request_id (lb_signals b)\<rparr>"

section \<open>The runtime of a cohort\<close>

type_synonym 'p cand_obj = "nat \<times> 'p candidate_update"

definition same_object :: "'p cand_obj \<Rightarrow> 'p cand_obj option \<Rightarrow> bool" where
  "same_object c m \<longleftrightarrow> m = Some c"

record 'p cohort_runtime =
  cr_identity :: cohort_identity
  cr_epoch :: int
  cr_active_version :: int
  cr_slot_generation :: int
  cr_buffer_generation :: int
  cr_optimizer_state_generation :: int
  cr_signals :: "'p latest_signal_batch"
  cr_in_flight :: "'p cand_obj option"
  cr_disabled_reason :: "string option"
  cr_last_termination :: "'p cand_obj candidate_termination option"
  cr_next_oid :: nat

definition new_cohort_runtime :: "cohort_identity \<Rightarrow> 'p cohort_runtime" where
  "new_cohort_runtime i =
     \<lparr>cr_identity = i, cr_epoch = 0, cr_active_version = 0, cr_slot_generation = 0,
      cr_buffer_generation = 0, cr_optimizer_state_generation = 0,
      cr_signals = new_batch (cohort_identity_sha256 i), cr_in_flight = None,
      cr_disabled_reason = None, cr_last_termination = None, cr_next_oid = 0\<rparr>"

definition enabled :: "'p cohort_runtime \<Rightarrow> bool" where
  "enabled r \<longleftrightarrow> cr_disabled_reason r = None"

definition offer_signal ::
  "'p cohort_runtime \<Rightarrow> 'p supervision_signal \<Rightarrow> ('p cohort_runtime, bool) op_result" where
  "offer_signal r s =
     (if \<not> enabled r then (r, Inr False)
      else if ss_source_version s \<noteq> cr_active_version r then (r, Inr False)
      else if ss_slot_generation s \<noteq> cr_slot_generation r then (r, Inr False)
      else case batch_offer (cr_signals r) s of (b, res) \<Rightarrow> (r\<lparr>cr_signals := b\<rparr>, res))"

definition begin_candidate ::
  "'p cohort_runtime \<Rightarrow> 'p list \<Rightarrow> int \<Rightarrow> int \<Rightarrow> ('p cohort_runtime, 'p cand_obj) op_result" where
  "begin_candidate r payload source_round ready_round =
     (case cr_disabled_reason r of
        Some reason \<Rightarrow> (r, Inl (RuntimeError (''cohort adaptation disabled: '' @ reason)))
      | None \<Rightarrow>
          if cr_in_flight r \<noteq> None then (r, Inl (RuntimeError ''max_in_flight=1''))
          else case candidate_update_post_init
                 \<lparr>cu_payload = payload, cu_source_round = source_round,
                  cu_source_version = cr_active_version r, cu_cohort_epoch = cr_epoch r,
                  cu_slot_generation = cr_slot_generation r, cu_ready_round = ready_round,
                  cu_buffer_generation = cr_buffer_generation r,
                  cu_optimizer_state_generation = cr_optimizer_state_generation r,
                  cu_ready_event_id = ''logical-ready'', cu_numerically_valid = True,
                  cu_memory_reservation_bytes = 0\<rparr> of
            Inl e \<Rightarrow> (r, Inl e)
          | Inr u \<Rightarrow>
              (r\<lparr>cr_in_flight := Some (cr_next_oid r, u), cr_next_oid := Suc (cr_next_oid r)\<rparr>,
               Inr (cr_next_oid r, u)))"

definition can_publish ::
  "'p cohort_runtime \<Rightarrow> 'p cand_obj \<Rightarrow> method_policy \<Rightarrow> int \<Rightarrow> int \<Rightarrow> int \<Rightarrow> (bool \<times> string) res" where
  "can_publish r c policy current_round stride extra =
     (let u = snd c in
      if stride < 1 then Inl (ValueError ''stride must be positive'')
      else if \<not> same_object c (cr_in_flight r) then Inr (False, ''not_active_candidate'')
      else if cu_cohort_epoch u \<noteq> cr_epoch r then Inr (False, ''stale_epoch'')
      else if cu_slot_generation u \<noteq> cr_slot_generation r then Inr (False, ''stale_slot_generation'')
      else if cu_source_version u \<noteq> cr_active_version r then Inr (False, ''source_version_conflict'')
      else if cu_buffer_generation u \<noteq> cr_buffer_generation r
        then Inr (False, ''stale_buffer_generation'')
      else if cu_optimizer_state_generation u \<noteq> cr_optimizer_state_generation r
        then Inr (False, ''stale_optimizer_state_generation'')
      else if \<not> cu_numerically_valid u then Inr (False, ''nonfinite_candidate'')
      else if current_round < cu_ready_round u then Inr (False, ''side_stream_not_ready'')
      else if policy = STATIC then Inr (False, ''static_disabled'')
      else rbind (publication_round policy u stride extra) (\<lambda>boundary.
        case boundary of
          None \<Rightarrow> Inr (False, ''static_disabled'')
        | Some b \<Rightarrow>
            if current_round < b
            then if current_round < cu_ready_round u + extra
                 then Inr (False, ''waiting_extra_logical_delay'')
                 else Inr (False, ''waiting_fixed_boundary'')
            else Inr (True, ''ready'')))"

definition terminate ::
  "'p cohort_runtime \<Rightarrow> 'p cand_obj \<Rightarrow> outcome \<Rightarrow> string \<Rightarrow> int option \<Rightarrow>
   ('p cohort_runtime, 'p cand_obj candidate_termination) op_result" where
  "terminate r c outcome reason published_version =
     (if same_object c (map_option ct_candidate (cr_last_termination r))
      then (r, Inl (RuntimeError ''candidate was already terminated''))
      else if \<not> same_object c (cr_in_flight r)
      then (r, Inl (RuntimeError ''candidate is not active''))
      else case candidate_termination_post_init
             \<lparr>ct_candidate = c, ct_outcome = outcome, ct_reason = reason,
              ct_published_version = published_version\<rparr> of
        Inl e \<Rightarrow> (r, Inl e)
      | Inr t \<Rightarrow> (r\<lparr>cr_in_flight := None, cr_last_termination := Some t\<rparr>, Inr t))"

definition commit ::
  "'p cohort_runtime \<Rightarrow> 'p cand_obj \<Rightarrow> method_policy \<Rightarrow> int \<Rightarrow> int \<Rightarrow> int \<Rightarrow> ('p cohort_runtime, int) op_result"
  where
  "commit r c policy current_round stride extra =
     (case can_publish r c policy current_round stride extra of
        Inl e \<Rightarrow> (r, Inl e)
      | Inr (allowed, reason) \<Rightarrow>
          if \<not> allowed
          then (r, Inl (RuntimeError (''candidate lacks publication authority: '' @ reason)))
          else let r1 = r\<lparr>cr_active_version := cr_active_version r + 1,
                          cr_optimizer_state_generation := cr_optimizer_state_generation r + 1\<rparr>
               in and_then (terminate r1 c Published ''committed'' (Some (cr_active_version r1)))
                    (\<lambda>r2 _. (r2, Inr (cr_active_version r2))))"

definition discard ::
  "'p cohort_runtime \<Rightarrow> 'p cand_obj \<Rightarrow> string \<Rightarrow>
   ('p cohort_runtime, 'p cand_obj candidate_termination) op_result" where
  "discard r c reason = terminate r c Discarded reason None"

text \<open>\<open>if self.in_flight is not None: self.discard(self.in_flight, reason)\<close>\<close>

definition discard_in_flight :: "'p cohort_runtime \<Rightarrow> string \<Rightarrow> ('p cohort_runtime, unit) op_result" where
  "discard_in_flight r reason =
     (case cr_in_flight r of
        None \<Rightarrow> (r, Inr ())
      | Some c \<Rightarrow> and_then (discard r c reason) (\<lambda>r' _. (r', Inr ())))"

definition cancel_request :: "'p cohort_runtime \<Rightarrow> string \<Rightarrow> ('p cohort_runtime, unit) op_result" where
  "cancel_request r request_id =
     and_then (discard_in_flight (r\<lparr>cr_signals := batch_discard_request (cr_signals r) request_id\<rparr>)
                 ''request_cancelled'')
       (\<lambda>r' _. (r'\<lparr>cr_slot_generation := cr_slot_generation r' + 1,
                   cr_buffer_generation := cr_buffer_generation r' + 1\<rparr>, Inr ()))"

definition reset :: "'p cohort_runtime \<Rightarrow> ('p cohort_runtime, unit) op_result" where
  "reset r =
     and_then (discard_in_flight r ''cohort_reset'')
       (\<lambda>r' _. (r'\<lparr>cr_epoch := cr_epoch r' + 1, cr_active_version := 0,
                   cr_slot_generation := cr_slot_generation r' + 1,
                   cr_buffer_generation := cr_buffer_generation r' + 1,
                   cr_optimizer_state_generation := 0,
                   cr_signals := new_batch (cohort_identity_sha256 (cr_identity r')),
                   cr_disabled_reason := None\<rparr>, Inr ()))"

definition disable :: "'p cohort_runtime \<Rightarrow> string \<Rightarrow> ('p cohort_runtime, unit) op_result" where
  "disable r reason =
     (if reason = [] then (r, Inl (ValueError ''disabled cohorts require an evidence reason''))
      else and_then (discard_in_flight r reason)
             (\<lambda>r' _. (r'\<lparr>cr_disabled_reason := Some reason\<rparr>, Inr ())))"

section \<open>What the operations keep\<close>

text \<open>
  The stored signals are filed under their request and belong to the cohort. A candidate in
  flight carries the counters of the runtime as they are now. The two counters a commit raises
  and the two a cancellation raises always agree.
\<close>

definition batch_inv :: "'p latest_signal_batch \<Rightarrow> bool" where
  "batch_inv b \<longleftrightarrow> distinct (dkeys (lb_signals b))
     \<and> (\<forall>(k, s) \<in> set (lb_signals b). ss_request_id s = k \<and> ss_cohort_sha256 s = lb_cohort_sha256 b)"

definition stamped :: "'p cohort_runtime \<Rightarrow> 'p candidate_update \<Rightarrow> bool" where
  "stamped r u \<longleftrightarrow> cu_cohort_epoch u = cr_epoch r \<and> cu_slot_generation u = cr_slot_generation r
     \<and> cu_source_version u = cr_active_version r \<and> cu_buffer_generation u = cr_buffer_generation r
     \<and> cu_optimizer_state_generation u = cr_optimizer_state_generation r
     \<and> cu_numerically_valid u \<and> cu_source_round u \<le> cu_ready_round u"

definition cohort_inv :: "'p cohort_runtime \<Rightarrow> bool" where
  "cohort_inv r \<longleftrightarrow>
     0 \<le> cr_epoch r \<and> 0 \<le> cr_active_version r \<and> cr_epoch r \<le> cr_slot_generation r
     \<and> cr_buffer_generation r = cr_slot_generation r
     \<and> cr_optimizer_state_generation r = cr_active_version r
     \<and> (\<forall>c. cr_in_flight r = Some c \<longrightarrow> fst c < cr_next_oid r \<and> stamped r (snd c) \<and> enabled r)
     \<and> (\<forall>t. cr_last_termination r = Some t \<longrightarrow> fst (ct_candidate t) < cr_next_oid r
            \<and> (\<forall>c. cr_in_flight r = Some c \<longrightarrow> fst (ct_candidate t) < fst c))
     \<and> batch_inv (cr_signals r) \<and> lb_cohort_sha256 (cr_signals r) = cohort_identity_sha256 (cr_identity r)"

lemmas cohort_defs = cohort_inv_def stamped_def enabled_def same_object_def

lemma batch_inv_new [simp]: "batch_inv (new_batch sha)"
  by (simp add: batch_inv_def new_batch_def)

lemma batch_inv_offer: "batch_inv b \<Longrightarrow> batch_inv (fst (batch_offer b s))"
  by (auto simp: batch_inv_def batch_offer_def dict_simps split: option.splits)

lemma batch_inv_discard: "batch_inv b \<Longrightarrow> batch_inv (batch_discard_request b rid)"
  by (auto simp: batch_inv_def batch_discard_request_def dict_simps)

lemma batch_inv_drain: "batch_inv b \<Longrightarrow> batch_inv (fst (batch_drain b))"
  by (simp add: batch_inv_def batch_drain_def Let_def)

lemma batch_drain_cohort [simp]: "lb_cohort_sha256 (fst (batch_drain b)) = lb_cohort_sha256 b"
  by (simp add: batch_drain_def Let_def)

lemma batch_discard_cohort [simp]:
  "lb_cohort_sha256 (batch_discard_request b rid) = lb_cohort_sha256 b"
  by (simp add: batch_discard_request_def)

lemma batch_offer_cohort [simp]: "lb_cohort_sha256 (fst (batch_offer b s)) = lb_cohort_sha256 b"
  by (simp add: batch_offer_def split: option.splits)

lemma cohort_inv_new: "cohort_inv (new_cohort_runtime i)"
  by (simp add: cohort_defs new_cohort_runtime_def) (simp add: new_batch_def)


lemma cohort_inv_offer_signal: "cohort_inv r \<Longrightarrow> cohort_inv (fst (offer_signal r s))"
  using batch_inv_offer [of "cr_signals r" s] batch_offer_cohort [of "cr_signals r" s]
  by (cases "batch_offer (cr_signals r) s") (auto simp: offer_signal_def cohort_defs simp del: batch_offer_cohort)

lemma cohort_inv_begin: "cohort_inv r \<Longrightarrow> cohort_inv (fst (begin_candidate r pl sr rr))"
  by (auto simp: begin_candidate_def candidate_update_post_init_def cohort_defs split: option.splits)

text \<open>
  On a runtime that satisfies the invariant the active candidate terminates, with the state
  it leaves behind written out.
\<close>

lemma terminate_active:
  assumes "cohort_inv r" "cr_in_flight r = Some c" "candidate_termination_post_init
     \<lparr>ct_candidate = c, ct_outcome = out, ct_reason = reason, ct_published_version = v\<rparr> = Inr t"
  shows "terminate r c out reason v = (r\<lparr>cr_in_flight := None, cr_last_termination := Some t\<rparr>, Inr t)"
  using assms by (auto simp: terminate_def cohort_inv_def same_object_def)

lemma discard_in_flight_eq:
  assumes "cohort_inv r" "reason \<noteq> []"
  shows "discard_in_flight r reason =
    ((case cr_in_flight r of None \<Rightarrow> r
      | Some c \<Rightarrow> r\<lparr>cr_in_flight := None, cr_last_termination := Some
          \<lparr>ct_candidate = c, ct_outcome = Discarded, ct_reason = reason, ct_published_version = None\<rparr>\<rparr>),
     Inr ())"
proof (cases "cr_in_flight r")
  case (Some c)
  have "candidate_termination_post_init \<lparr>ct_candidate = c, ct_outcome = Discarded, ct_reason = reason,
      ct_published_version = None\<rparr> = Inr \<lparr>ct_candidate = c, ct_outcome = Discarded, ct_reason = reason,
      ct_published_version = None\<rparr>"
    using assms by (simp add: candidate_termination_post_init_def)
  from terminate_active [OF assms(1) Some this] Some show ?thesis
    by (simp add: discard_in_flight_def discard_def)
qed (simp add: discard_in_flight_def)

lemma cohort_inv_discard_in_flight:
  "cohort_inv r \<Longrightarrow> reason \<noteq> [] \<Longrightarrow> cohort_inv (fst (discard_in_flight r reason))"
  by (auto simp: discard_in_flight_eq cohort_defs split: option.splits)

lemma cohort_inv_terminate: "cohort_inv r \<Longrightarrow> cohort_inv (fst (terminate r c out reason v))"
  by (cases c) (auto simp: terminate_def candidate_termination_post_init_def cohort_defs)

lemma cohort_inv_discard: "cohort_inv r \<Longrightarrow> cohort_inv (fst (discard r c reason))"
  by (simp add: discard_def cohort_inv_terminate)

text \<open>What it takes to be published.\<close>

lemma can_publish_True:
  "can_publish r c policy now stride extra = Inr (True, why) \<longleftrightarrow>
     why = ''ready'' \<and> 1 \<le> stride \<and> cr_in_flight r = Some c
     \<and> cu_cohort_epoch (snd c) = cr_epoch r \<and> cu_slot_generation (snd c) = cr_slot_generation r
     \<and> cu_source_version (snd c) = cr_active_version r
     \<and> cu_buffer_generation (snd c) = cr_buffer_generation r
     \<and> cu_optimizer_state_generation (snd c) = cr_optimizer_state_generation r
     \<and> cu_numerically_valid (snd c) \<and> cu_ready_round (snd c) \<le> now
     \<and> (\<exists>b. publication_round policy (snd c) stride extra = Inr (Some b) \<and> b \<le> now)"
  (is "?L \<longleftrightarrow> ?R")
proof
  assume ?L
  then show ?R
    by (auto simp: can_publish_def same_object_def Let_def split: if_splits option.splits)
next
  assume ?R
  moreover from this have "policy \<noteq> STATIC" by (auto simp: publication_round_def)
  ultimately show ?L by (auto simp: can_publish_def same_object_def Let_def)
qed

lemma commit_eq:
  assumes "cohort_inv r"
  shows "commit r c policy now stride extra =
    (case can_publish r c policy now stride extra of
       Inl e \<Rightarrow> (r, Inl e)
     | Inr (False, why) \<Rightarrow> (r, Inl (RuntimeError (''candidate lacks publication authority: '' @ why)))
     | Inr (True, why) \<Rightarrow>
         (r\<lparr>cr_active_version := cr_active_version r + 1,
            cr_optimizer_state_generation := cr_optimizer_state_generation r + 1, cr_in_flight := None,
            cr_last_termination := Some \<lparr>ct_candidate = c, ct_outcome = Published,
              ct_reason = ''committed'', ct_published_version = Some (cr_active_version r + 1)\<rparr>\<rparr>,
          Inr (cr_active_version r + 1)))"
proof -
  { fix why
    assume "can_publish r c policy now stride extra = Inr (True, why)"
    then have "cr_in_flight r = Some c" by (simp add: can_publish_True)
    with assms have "cr_last_termination r = Some t \<Longrightarrow> ct_candidate t \<noteq> c" for t
      by (auto simp: cohort_inv_def)
    with \<open>cr_in_flight r = Some c\<close> have "terminate (r\<lparr>cr_active_version := cr_active_version r + 1,
        cr_optimizer_state_generation := cr_optimizer_state_generation r + 1\<rparr>) c Published ''committed''
        (Some (cr_active_version r + 1)) =
      (r\<lparr>cr_active_version := cr_active_version r + 1,
         cr_optimizer_state_generation := cr_optimizer_state_generation r + 1, cr_in_flight := None,
         cr_last_termination := Some \<lparr>ct_candidate = c, ct_outcome = Published,
           ct_reason = ''committed'', ct_published_version = Some (cr_active_version r + 1)\<rparr>\<rparr>,
       Inr \<lparr>ct_candidate = c, ct_outcome = Published,
           ct_reason = ''committed'', ct_published_version = Some (cr_active_version r + 1)\<rparr>)"
      by (auto simp: terminate_def candidate_termination_post_init_def same_object_def) }
  then show ?thesis
    by (auto simp: commit_def Let_def split: sum.splits prod.splits bool.splits)
qed

lemma cohort_inv_commit:
  assumes "cohort_inv r"
  shows "cohort_inv (fst (commit r c policy now stride extra))"
  using assms
  by (cases c) (auto simp: commit_eq can_publish_True cohort_inv_def enabled_def
      split: sum.splits prod.splits bool.splits)

lemma cohort_inv_drop_signal [simp]:
  "cohort_inv r \<Longrightarrow> cohort_inv (r\<lparr>cr_signals := batch_discard_request (cr_signals r) rid\<rparr>)"
  by (simp add: cohort_defs batch_inv_discard)

lemma cohort_inv_cancel: "cohort_inv r \<Longrightarrow> cohort_inv (fst (cancel_request r rid))"
  by (auto simp: cancel_request_def discard_in_flight_eq)
    (auto simp: cohort_defs batch_inv_discard split: option.splits)

lemma cohort_inv_reset: "cohort_inv r \<Longrightarrow> cohort_inv (fst (reset r))"
  by (auto simp: reset_def discard_in_flight_eq) (auto simp: cohort_defs new_batch_def batch_inv_def split: option.splits)

lemma cohort_inv_disable: "cohort_inv r \<Longrightarrow> cohort_inv (fst (disable r reason))"
  by (auto simp: disable_def discard_in_flight_eq) (auto simp: cohort_defs split: option.splits)

section \<open>Runs\<close>

text \<open>
  One call on a runtime. The caller may pass any candidate object it ever held, a stale one
  included; a call that raises still leaves the runtime as the code leaves it.
\<close>

datatype 'p cohort_call =
    OfferSignal "'p supervision_signal"
  | Drain
  | BeginCandidate "'p list" int int
  | Commit "'p cand_obj" method_policy int int int
  | Discard "'p cand_obj" string
  | CancelRequest string
  | Reset
  | Disable string

fun cohort_step :: "'p cohort_runtime \<Rightarrow> 'p cohort_call \<Rightarrow> 'p cohort_runtime" where
  "cohort_step r (OfferSignal s) = fst (offer_signal r s)"
| "cohort_step r Drain = r\<lparr>cr_signals := fst (batch_drain (cr_signals r))\<rparr>"
| "cohort_step r (BeginCandidate payload source_round ready_round) =
     fst (begin_candidate r payload source_round ready_round)"
| "cohort_step r (Commit c policy now stride extra) = fst (commit r c policy now stride extra)"
| "cohort_step r (Discard c reason) = fst (discard r c reason)"
| "cohort_step r (CancelRequest rid) = fst (cancel_request r rid)"
| "cohort_step r Reset = fst (reset r)"
| "cohort_step r (Disable reason) = fst (disable r reason)"

lemma cohort_step_inv: "cohort_inv r \<Longrightarrow> cohort_inv (cohort_step r e)"
proof (cases e)
  case Drain
  moreover assume "cohort_inv r"
  ultimately show ?thesis by (simp add: cohort_inv_def stamped_def enabled_def batch_inv_drain)
qed (simp_all add: cohort_inv_offer_signal cohort_inv_begin cohort_inv_commit cohort_inv_discard
    cohort_inv_cancel cohort_inv_reset cohort_inv_disable)

text \<open>The epoch and, within an epoch, the version never go back.\<close>

definition cohort_le :: "'p cohort_runtime \<Rightarrow> 'p cohort_runtime \<Rightarrow> bool" where
  "cohort_le r r' \<longleftrightarrow> cr_identity r' = cr_identity r
     \<and> cr_slot_generation r \<le> cr_slot_generation r' \<and> cr_next_oid r \<le> cr_next_oid r'
     \<and> (cr_epoch r < cr_epoch r'
        \<or> cr_epoch r = cr_epoch r' \<and> cr_active_version r \<le> cr_active_version r')"

lemma cohort_frames:
  "cohort_inv r \<Longrightarrow> cohort_le r (fst (offer_signal r s))"
  "cohort_inv r \<Longrightarrow> cohort_le r (fst (begin_candidate r pl sr rr))"
  "cohort_inv r \<Longrightarrow> cohort_le r (fst (commit r c policy now stride extra))"
  "cohort_inv r \<Longrightarrow> cohort_le r (fst (discard r c reason))"
proof -
  show "cohort_le r (fst (offer_signal r s))"
    by (cases "batch_offer (cr_signals r) s") (simp add: offer_signal_def cohort_le_def)
  show "cohort_le r (fst (begin_candidate r pl sr rr))"
    by (simp add: begin_candidate_def cohort_le_def split: option.splits sum.splits)
  show "cohort_inv r \<Longrightarrow> cohort_le r (fst (commit r c policy now stride extra))"
    by (simp add: commit_eq cohort_le_def split: sum.splits prod.splits bool.splits)
  show "cohort_le r (fst (discard r c reason))"
    by (simp add: discard_def terminate_def cohort_le_def split: sum.splits)
qed

lemma cohort_discard_frames:
  assumes "cohort_inv r"
  shows "cohort_le r (fst (cancel_request r rid))" "cohort_le r (fst (reset r))"
    "cohort_le r (fst (disable r reason))"
  using assms
  by (simp_all add: cancel_request_def reset_def disable_def discard_in_flight_eq cohort_le_def
      split: option.splits)

lemma cohort_step_le: "cohort_inv r \<Longrightarrow> cohort_le r (cohort_step r e)"
  by (cases e) (simp_all add: cohort_frames cohort_discard_frames, simp add: cohort_le_def)

interpretation cohort: monotone_machine cohort_step cohort_inv cohort_le
proof unfold_locales
  show "cohort_le r t \<Longrightarrow> cohort_le t u \<Longrightarrow> cohort_le r u" for r t u :: "'p cohort_runtime"
    by (auto simp: cohort_le_def)
  show "cohort_le r r" for r :: "'p cohort_runtime"
    by (simp add: cohort_le_def)
qed (auto intro: cohort_step_inv cohort_step_le)

text \<open>The terminations a run records, in order.\<close>

fun termination_log ::
  "'p cohort_runtime \<Rightarrow> 'p cohort_call list \<Rightarrow> 'p cand_obj candidate_termination list" where
  "termination_log r [] = []"
| "termination_log r (e # es) =
     (let r' = cohort_step r e in
      (if cr_last_termination r' = cr_last_termination r then []
       else case cr_last_termination r' of None \<Rightarrow> [] | Some t \<Rightarrow> [t]) @ termination_log r' es)"

definition in_flight_oids :: "'p cohort_runtime \<Rightarrow> nat list" where
  "in_flight_oids r = (case cr_in_flight r of None \<Rightarrow> [] | Some c \<Rightarrow> [fst c])"

definition log_oids :: "'p cand_obj candidate_termination list \<Rightarrow> nat list" where
  "log_oids ts = map (\<lambda>t. fst (ct_candidate t)) ts"

text \<open>
  One call either terminates the candidate in flight, or starts one, or changes neither the
  candidate in flight nor the last termination.
\<close>

definition step_shape :: "'p cohort_runtime \<Rightarrow> 'p cohort_runtime \<Rightarrow> bool" where
  "step_shape r r' \<longleftrightarrow>
     cr_in_flight r' = cr_in_flight r \<and> cr_last_termination r' = cr_last_termination r
       \<and> cr_next_oid r' = cr_next_oid r
   \<or> (\<exists>c t. cr_in_flight r = Some c \<and> cr_in_flight r' = None \<and> cr_last_termination r' = Some t
          \<and> ct_candidate t = c \<and> cr_next_oid r' = cr_next_oid r)
   \<or> (\<exists>u. cr_in_flight r = None \<and> cr_in_flight r' = Some (cr_next_oid r, u)
          \<and> cr_last_termination r' = cr_last_termination r \<and> cr_next_oid r' = Suc (cr_next_oid r))"

lemma step_shape_discard_in_flight:
  "cohort_inv r \<Longrightarrow> reason \<noteq> [] \<Longrightarrow> step_shape r (fst (discard_in_flight r reason))"
  by (auto simp: step_shape_def discard_in_flight_eq split: option.splits)

lemma cohort_step_shape: "cohort_inv r \<Longrightarrow> step_shape r (cohort_step r e)"
proof (cases e)
  case (OfferSignal s)
  then show ?thesis
    by (cases "batch_offer (cr_signals r) s") (simp add: offer_signal_def step_shape_def)
next
  case (Commit c policy now stride extra)
  moreover assume "cohort_inv r"
  ultimately show ?thesis
    by (auto simp: commit_eq can_publish_True step_shape_def split: sum.splits prod.splits bool.splits)
next
  case (Discard c reason)
  then show ?thesis
    by (auto simp: discard_def terminate_def candidate_termination_post_init_def same_object_def step_shape_def)
next
  case (BeginCandidate payload sr rr)
  then show ?thesis
    by (cases "cr_in_flight r")
      (auto simp: begin_candidate_def step_shape_def split: option.splits sum.splits)
qed (auto simp: cancel_request_def reset_def disable_def discard_in_flight_eq step_shape_def
    split: option.splits sum.splits)

lemma termination_log_oids:
  "cohort_inv r \<Longrightarrow>
     log_oids (termination_log r es) @ in_flight_oids (foldl cohort_step r es)
     = in_flight_oids r @ [cr_next_oid r..<cr_next_oid (foldl cohort_step r es)]"
proof (induction es arbitrary: r)
  case Nil
  show ?case by (simp add: log_oids_def)
next
  case (Cons e es)
  let ?r = "cohort_step r e"
  let ?new = "if cr_last_termination ?r = cr_last_termination r then []
      else case cr_last_termination ?r of None \<Rightarrow> [] | Some t \<Rightarrow> [t]"
  have inv: "cohort_inv ?r" using Cons.prems by (rule cohort_step_inv)
  have mono: "cr_next_oid ?r \<le> cr_next_oid (foldl cohort_step ?r es)"
    using cohort.run_le [OF inv] by (simp add: cohort_le_def)
  have le: "cr_next_oid r \<le> cr_next_oid ?r"
    using cohort_step_le [OF Cons.prems, of e] by (simp add: cohort_le_def)
  have new: "log_oids ?new @ in_flight_oids ?r = in_flight_oids r @ [cr_next_oid r..<cr_next_oid ?r]"
    using cohort_step_shape [OF Cons.prems, of e] Cons.prems
    by (auto simp: step_shape_def log_oids_def in_flight_oids_def cohort_inv_def)
  have "log_oids ?new @ log_oids (termination_log ?r es) @ in_flight_oids (foldl cohort_step ?r es)
      = (log_oids ?new @ in_flight_oids ?r) @ [cr_next_oid ?r..<cr_next_oid (foldl cohort_step ?r es)]"
    using Cons.IH [OF inv] by simp
  also have "\<dots> = in_flight_oids r @ [cr_next_oid r..<cr_next_oid (foldl cohort_step ?r es)]"
    unfolding new by (simp add: upt_append [OF le mono])
  finally show ?case by (simp add: Let_def log_oids_def)
qed

section \<open>The latest-signal batch\<close>

definition offered :: "string \<Rightarrow> string \<Rightarrow> 'p supervision_signal list \<Rightarrow> 'p supervision_signal list" where
  "offered sha k ss = filter (\<lambda>s. ss_cohort_sha256 s = sha \<and> ss_request_id s = k) ss"

definition offer_all ::
  "'p latest_signal_batch \<Rightarrow> 'p supervision_signal list \<Rightarrow> 'p latest_signal_batch" where
  "offer_all b ss = foldl (\<lambda>b s. fst (batch_offer b s)) b ss"

text \<open>The signal a sequence of offers should leave: the first one with the greatest number.\<close>

definition first_newest :: "'p supervision_signal list \<Rightarrow> 'p supervision_signal \<Rightarrow> bool" where
  "first_newest ss s \<longleftrightarrow> (\<exists>pre post. ss = pre @ s # post
     \<and> (\<forall>t \<in> set pre. ss_sequence_number t < ss_sequence_number s)
     \<and> (\<forall>t \<in> set post. ss_sequence_number t \<le> ss_sequence_number s))"

lemma first_newest_snoc_old:
  assumes "first_newest ss p" "ss_sequence_number s \<le> ss_sequence_number p"
  shows "first_newest (ss @ [s]) p"
  using assms unfolding first_newest_def by fastforce

lemma first_newest_bound: "first_newest ss p \<Longrightarrow> t \<in> set ss \<Longrightarrow> ss_sequence_number t \<le> ss_sequence_number p"
  by (auto simp: first_newest_def) (blast intro: less_imp_le)

lemma first_newest_snoc_new:
  assumes "first_newest ss p" "ss_sequence_number p < ss_sequence_number s"
  shows "first_newest (ss @ [s]) s"
  unfolding first_newest_def
  using first_newest_bound [OF assms(1)] assms(2) by (intro exI [of _ ss] exI [of _ "[]"]) fastforce

lemma first_newest_unique: "first_newest ss s \<Longrightarrow> first_newest ss t \<Longrightarrow> s = t"
  by (fastforce simp: first_newest_def append_eq_append_conv2 Cons_eq_append_conv append_eq_Cons_conv)

lemma batch_offer_cohort_eq: "lb_cohort_sha256 (offer_all b ss) = lb_cohort_sha256 b"
  by (induction ss arbitrary: b) (simp_all add: offer_all_def)

lemma offer_all_newest:
  fixes ss :: "'p supervision_signal list"
  shows "case dget (lb_signals (offer_all (new_batch sha) ss)) k of
     None \<Rightarrow> offered sha k ss = []
   | Some s \<Rightarrow> first_newest (offered sha k ss) s"
proof (induction ss rule: rev_induct)
  case Nil
  show ?case by (simp add: offer_all_def new_batch_def offered_def)
next
  case (snoc s ss)
  let ?b = "offer_all (new_batch sha) ss :: 'p latest_signal_batch"
  have sha: "lb_cohort_sha256 ?b = sha" by (simp add: batch_offer_cohort_eq new_batch_def)
  have step: "offer_all (new_batch sha) (ss @ [s]) = fst (batch_offer ?b s)"
    by (simp add: offer_all_def)
  show ?case
  proof (cases "ss_cohort_sha256 s = sha \<and> ss_request_id s = k")
    case False
    then have "offered sha k (ss @ [s]) = offered sha k ss" by (auto simp: offered_def)
    moreover have "dget (lb_signals (fst (batch_offer ?b s))) k = dget (lb_signals ?b) k"
      using False sha by (auto simp: batch_offer_def dict_simps split: option.splits)
    ultimately show ?thesis using snoc.IH step by (simp split: option.splits)
  next
    case True
    then have off: "offered sha k (ss @ [s]) = offered sha k ss @ [s]" by (simp add: offered_def)
    show ?thesis
    proof (cases "dget (lb_signals ?b) k")
      case None
      with snoc.IH have "offered sha k ss = []" by simp
      moreover have "first_newest [s] s"
        unfolding first_newest_def by (intro exI [of _ "[]"]) simp
      ultimately show ?thesis
        using None True sha step off by (simp add: batch_offer_def dict_simps)
    next
      case (Some p)
      with snoc.IH have "first_newest (offered sha k ss) p" by simp
      then show ?thesis
        using Some True sha step off
        by (auto simp: batch_offer_def dict_simps intro: first_newest_snoc_old first_newest_snoc_new)
    qed
  qed
qed

lemma strict_sorted_fst:
  fixes ps :: "('a::linorder \<times> 'b::linorder) list"
  assumes "sorted ps" "distinct (map fst ps)"
  shows "sorted_wrt (<) (map fst ps)"
  using assms by (induction ps) (force simp: less_eq_prod_def)+

lemma batch_request_ids:
  "batch_inv b \<Longrightarrow> map ss_request_id (dvalues (lb_signals b)) = dkeys (lb_signals b)"
  by (auto simp: batch_inv_def)

text \<open>For the candidate in flight only the round decides.\<close>

lemma can_publish_active:
  assumes "cohort_inv r"
  shows "can_publish r c policy now stride extra = Inr (True, why) \<longleftrightarrow>
     why = ''ready'' \<and> cr_in_flight r = Some c
     \<and> (\<exists>b. publication_round policy (snd c) stride extra = Inr (Some b) \<and> b \<le> now)"
proof -
  have "cu_ready_round (snd c) \<le> b" "1 \<le> stride"
    if "publication_round policy (snd c) stride extra = Inr (Some b)" for b
    using publication_round_ge [OF that] by auto
  moreover have "stamped r (snd c)" if "cr_in_flight r = Some c"
    using assms that by (auto simp: cohort_inv_def)
  ultimately show ?thesis
    by (auto simp: can_publish_True stamped_def intro: order_trans)
qed

section \<open>Properties\<close>

definition sample_identity :: cohort_identity where
  "sample_identity =
     \<lparr>ci_target_revision = replicate 40 CHR ''a'', ci_drafter_revision = replicate 40 CHR ''b'',
      ci_algorithm = ''DFLASH'', ci_sampling_profile_sha256 = replicate 64 CHR ''c'',
      ci_adaptation_group_id = ''g'', ci_tenant_id = ''research'', ci_update_mode = ''lora'',
      ci_parameter_scope = ''last1'', ci_parameter_layout_sha256 = replicate 64 CHR ''d'',
      ci_optimizer_identity = ''adamw''\<rparr>"

definition sample_signal :: "string \<Rightarrow> int \<Rightarrow> int \<Rightarrow> nat supervision_signal" where
  "sample_signal request number version =
     \<lparr>ss_cohort_sha256 = cohort_identity_sha256 sample_identity, ss_request_id = request,
      ss_sequence_number = number, ss_source_version = version, ss_slot_generation = 0,
      ss_tensors = [1], ss_valid_positions = 1\<rparr>"

text \<open>
  C7: In every run of a cohort runtime, whatever calls are made and whatever stale candidates they
  pass, every candidate ever begun is either the one still in flight or has exactly one recorded
  termination, and the terminations come in the order in which the candidates were begun.
\<close>

theorem candidates_terminate_exactly_once:
  "log_oids (termination_log (new_cohort_runtime i) es)
     @ in_flight_oids (foldl cohort_step (new_cohort_runtime i) es)
   = [0..<cr_next_oid (foldl cohort_step (new_cohort_runtime i) es)]"
  using termination_log_oids [OF cohort_inv_new, of i es]
  by (simp add: new_cohort_runtime_def in_flight_oids_def)

text \<open>
  C9: After any run the epoch is at least the old one and, in the same epoch, the published version
  is at least the old one; slot generations never go back and the identity is fixed.
\<close>

theorem cohort_versions_monotone:
  "cohort_le (foldl cohort_step (new_cohort_runtime i) es)
             (foldl cohort_step (new_cohort_runtime i) (es @ fs))"
  using cohort.run_le [OF cohort.run_inv [OF cohort_inv_new]] by simp

text \<open>
  C8: A commit succeeds exactly when the candidate is the one in flight and its policy's publication
  round has come; it then raises the active version and the optimizer generation by one and
  empties the flight slot. Otherwise it raises and the runtime is untouched. The checks of
  epoch, generations, source version and numerical validity can never be what stops it.
\<close>

theorem commit_publishes_only_at_the_boundary:
  assumes "cohort_inv r"
  shows "(commit r c policy now stride extra = (r', Inr v) \<longleftrightarrow>
        cr_in_flight r = Some c
        \<and> (\<exists>b. publication_round policy (snd c) stride extra = Inr (Some b) \<and> b \<le> now)
        \<and> v = cr_active_version r + 1
        \<and> r' = r\<lparr>cr_active_version := v, cr_optimizer_state_generation := v, cr_in_flight := None,
            cr_last_termination := Some \<lparr>ct_candidate = c, ct_outcome = Published,
              ct_reason = ''committed'', ct_published_version = Some v\<rparr>\<rparr>)
      \<and> (commit r c policy now stride extra = (r', Inl e) \<longrightarrow> r' = r)"
proof -
  have "cr_optimizer_state_generation r = cr_active_version r"
    using assms by (simp add: cohort_inv_def)
  then show ?thesis
    using can_publish_active [OF assms, of c policy now stride extra]
    by (cases "can_publish r c policy now stride extra")
      (auto simp: commit_eq [OF assms] split: prod.splits bool.splits)
qed

definition sample_runtime :: "nat cohort_runtime" where
  "sample_runtime = foldl cohort_step (new_cohort_runtime sample_identity) [BeginCandidate [7] 12 14]"

lemma sample_runtime_in_flight: "cr_in_flight sample_runtime = Some (0, sample_candidate)"
  by (simp add: sample_runtime_def new_cohort_runtime_def begin_candidate_def
      candidate_update_post_init_def sample_candidate_def)

theorem commit_publishes_only_at_the_boundary_witness:
  "snd (commit sample_runtime (0, sample_candidate) FIXED_BARRIER 20 10 1) = Inr 1
   \<and> fst (commit sample_runtime (0, sample_candidate) FIXED_BARRIER 19 10 1) = sample_runtime"
proof -
  have inv: "cohort_inv sample_runtime"
    unfolding sample_runtime_def by (rule cohort.run_inv [OF cohort_inv_new])
  have v: "cr_active_version sample_runtime = 0"
    by (simp add: sample_runtime_def new_cohort_runtime_def begin_candidate_def
        candidate_update_post_init_def)
  have b: "publication_round FIXED_BARRIER (snd (0::nat, sample_candidate)) 10 1 = Inr (Some 20)"
    by (simp add: publication_round_def sample_candidate_def)
  have "snd (commit sample_runtime (0, sample_candidate) FIXED_BARRIER 20 10 1) = Inr 1"
    using commit_publishes_only_at_the_boundary [OF inv, of "(0, sample_candidate)" FIXED_BARRIER 20 10 1 _ 1]
      sample_runtime_in_flight v b by (metis add_0 order_refl snd_conv)
  moreover have "\<exists>e. snd (commit sample_runtime (0, sample_candidate) FIXED_BARRIER 19 10 1) = Inl e"
    using commit_publishes_only_at_the_boundary [OF inv, of "(0, sample_candidate)" FIXED_BARRIER 19 10 1] b
    by (cases "commit sample_runtime (0, sample_candidate) FIXED_BARRIER 19 10 1";
        cases "snd (commit sample_runtime (0, sample_candidate) FIXED_BARRIER 19 10 1)") auto
  then have "fst (commit sample_runtime (0, sample_candidate) FIXED_BARRIER 19 10 1) = sample_runtime"
    using commit_publishes_only_at_the_boundary [OF inv, of "(0, sample_candidate)" FIXED_BARRIER 19 10 1]
    by (metis prod.collapse)
  ultimately show ?thesis by blast
qed

text \<open>
  Whatever signals are offered to a fresh batch, it holds for each request the first of the
  signals with the greatest sequence number among those of the cohort, and nothing else.
\<close>

theorem batch_keeps_newest_signal:
  "dget (lb_signals (offer_all (new_batch sha) ss)) k = Some s \<longleftrightarrow> first_newest (offered sha k ss) s"
  using offer_all_newest [of sha k ss] first_newest_unique [of "offered sha k ss"]
  by (cases "dget (lb_signals (offer_all (new_batch sha) ss)) k") (auto simp: first_newest_def)

text \<open>
  Draining hands over every stored signal once, ordered by request and weighted equally, and
  empties the batch.
\<close>

theorem drain_is_complete_and_ordered:
  assumes "batch_inv b" and "batch_drain b = (b', out, w)"
  shows "lb_signals b' = [] \<and> mset out = mset (dvalues (lb_signals b))
    \<and> sorted_wrt (<) (map ss_request_id out)
    \<and> w = (if out = [] then Fin 0 else fl (1 / of_nat (length out)))"
proof -
  let ?f = "\<lambda>s. (ss_request_id s, ss_sequence_number s)"
  have "distinct (map ss_request_id (dvalues (lb_signals b)))"
    unfolding batch_request_ids [OF assms(1)] using assms(1) by (simp add: batch_inv_def)
  then have "distinct (map ss_request_id (sort_key ?f (dvalues (lb_signals b))))"
    by (simp only: distinct_map distinct_sort set_sort)
  then have "sorted_wrt (<) (map ss_request_id (sort_key ?f (dvalues (lb_signals b))))"
    using strict_sorted_fst [of "map ?f (sort_key ?f (dvalues (lb_signals b)))"] by (simp add: comp_def)
  note sorted = this
  have len: "length (sort_key ?f (dvalues (lb_signals b))) = length (lb_signals b)" by simp
  show ?thesis
  proof (cases "lb_signals b = []")
    case True
    with assms(2) show ?thesis by (auto simp: batch_drain_def)
  next
    case False
    with len have ne: "sort_key ?f (dvalues (lb_signals b)) \<noteq> []" by fastforce
    from False assms(2) have "b' = b\<lparr>lb_signals := []\<rparr>" "out = sort_key ?f (dvalues (lb_signals b))"
      "w = fl (1 / of_nat (length out))"
      by (auto simp: batch_drain_def Let_def)
    with sorted ne show ?thesis by simp
  qed
qed

theorem drain_is_complete_and_ordered_witness:
  "let b = offer_all (new_batch (cohort_identity_sha256 sample_identity))
             [sample_signal ''r2'' 1 0, sample_signal ''r1'' 3 0]
   in map ss_request_id (fst (snd (batch_drain b))) = [''r1'', ''r2''] \<and> lb_signals (fst (batch_drain b)) = []"
proof -
  let ?b = "offer_all (new_batch (cohort_identity_sha256 sample_identity))
             [sample_signal ''r2'' 1 0, sample_signal ''r1'' 3 0]"
  have "batch_inv ?b" by (simp add: offer_all_def batch_inv_offer)
  note d = drain_is_complete_and_ordered [OF this, of "fst (batch_drain ?b)" "fst (snd (batch_drain ?b))"
      "snd (snd (batch_drain ?b))"]
  have "map ss_request_id (fst (snd (batch_drain ?b))) = [''r1'', ''r2'']"
    by (simp add: batch_drain_def offer_all_def batch_offer_def new_batch_def sample_signal_def Let_def)
  with d show ?thesis by simp
qed

lemma cohort_identity_json_inj: "cohort_identity_json i = cohort_identity_json j \<Longrightarrow> i = j"
  by (cases i; cases j) (simp add: cohort_identity_json_def)

lemma cohort_identity_canonical: "canonical (cohort_identity_json i)"
proof -
  have "sorted [''adaptation_group_id'', ''algorithm'', ''drafter_revision'', ''optimizer_identity'',
      ''parameter_layout_sha256'', ''parameter_scope'', ''sampling_profile_sha256'',
      ''target_revision'', ''tenant_id'', ''update_mode'']"
    by code_simp
  then show ?thesis by (simp add: cohort_identity_json_def)
qed

text \<open>
  Two cohorts with the same digest have the same identity in every field, unless SHA-256
  collides on their two canonical encodings; supervision can therefore not cross cohorts by an
  ambiguous encoding.
\<close>

theorem cohort_digest_identifies:
  assumes "cohort_identity_sha256 i = cohort_identity_sha256 j"
    and "\<not> collide (cohort_identity_json i) (cohort_identity_json j)"
  shows "i = j"
  using assms content_sha256_inj [OF cohort_identity_canonical cohort_identity_canonical]
  by (auto simp: cohort_identity_sha256_def intro: cohort_identity_json_inj)

theorem cohort_digest_identifies_witness:
  "cohort_identity_sha256 sample_identity = cohort_identity_sha256 (sample_identity\<lparr>ci_algorithm := ''DFLASH''\<rparr>)
   \<and> sample_identity = sample_identity\<lparr>ci_algorithm := ''DFLASH''\<rparr>"
proof -
  have e: "sample_identity\<lparr>ci_algorithm := ''DFLASH''\<rparr> = sample_identity"
    by (simp add: sample_identity_def)
  show ?thesis
    using cohort_digest_identifies [of sample_identity "sample_identity\<lparr>ci_algorithm := ''DFLASH''\<rparr>"] e
    by (simp add: collide_def)
qed

text \<open>
  A drained batch can hold signals of two source versions: a commit raises the active version
  but leaves the stored signals in place, and draining does not look at their version.
\<close>

theorem drain_can_mix_versions:
  "\<exists>es :: nat cohort_call list. map (\<lambda>s. (ss_request_id s, ss_source_version s))
     (fst (snd (batch_drain (cr_signals (foldl cohort_step (new_cohort_runtime sample_identity) es)))))
     = [(''r1'', 0), (''r2'', 1)]"
proof -
  let ?es = "[OfferSignal (sample_signal ''r1'' 0 0), BeginCandidate [7] 12 14,
    Commit (0, sample_candidate) FIRST_READY_BOUNDARY 14 10 0, OfferSignal (sample_signal ''r2'' 0 1)]"
  have "map (\<lambda>s. (ss_request_id s, ss_source_version s))
     (fst (snd (batch_drain (cr_signals (foldl cohort_step (new_cohort_runtime sample_identity) ?es)))))
     = [(''r1'', 0), (''r2'', 1)]"
    by (simp add: new_cohort_runtime_def offer_signal_def enabled_def batch_offer_def new_batch_def
        sample_signal_def begin_candidate_def candidate_update_post_init_def commit_def can_publish_def
        same_object_def sample_candidate_def publication_round_def terminate_def
        candidate_termination_post_init_def batch_drain_def Let_def)
  then show ?thesis by (rule exI [of _ ?es])
qed

end
