(* ===== verification/KV_History.thy ===== *)
theory KV_History
  imports Prelude
begin

text \<open>
  \<open>adaptation/kv_history.py\<close>: the append-only record of which adapter version computed each
  token of the drafter's KV cache, kept as a list of half-open segments. The history refines the
  plain list of versions, one per token: appending adds a run, retracting takes a prefix, and
  looking a token up reads the list.
\<close>

section \<open>Data and operations\<close>

record kv_segment =
  ks_start_token :: int
  ks_end_token :: int
  ks_source_version :: int

definition kv_segment_post_init :: "kv_segment \<Rightarrow> kv_segment res" where
  "kv_segment_post_init s =
     (if ks_start_token s < 0 \<or> ks_end_token s \<le> ks_start_token s
      then Inl (ValueError ''KV segment must be a non-empty half-open interval'')
      else if ks_source_version s < 0
      then Inl (ValueError ''source_version must be non-negative'')
      else Inr s)"

definition mk_segment :: "int \<Rightarrow> int \<Rightarrow> int \<Rightarrow> kv_segment res" where
  "mk_segment a b v = kv_segment_post_init
     \<lparr>ks_start_token = a, ks_end_token = b, ks_source_version = v\<rparr>"

type_synonym frozen_kv_history = "kv_segment list"

definition kv_length :: "frozen_kv_history \<Rightarrow> int" where
  "kv_length h = (if h = [] then 0 else ks_end_token (last h))"

definition kv_append :: "frozen_kv_history \<Rightarrow> int \<Rightarrow> int \<Rightarrow> (frozen_kv_history, kv_segment) op_result" where
  "kv_append h token_count source_version =
     (if token_count < 1 then (h, Inl (ValueError ''token_count must be positive''))
      else let start = kv_length h in
        case mk_segment start (start + token_count) source_version of
          Inl e \<Rightarrow> (h, Inl e)
        | Inr segment \<Rightarrow>
            if h \<noteq> [] \<and> ks_source_version (last h) = source_version
            then case mk_segment (ks_start_token (last h)) (ks_end_token segment) source_version of
                   Inl e \<Rightarrow> (h, Inl e)
                 | Inr merged \<Rightarrow> (butlast h @ [merged], Inr merged)
            else (h @ [segment], Inr segment))"

fun retained :: "int \<Rightarrow> kv_segment list \<Rightarrow> kv_segment list res" where
  "retained n [] = Inr []"
| "retained n (s # ss) =
     (if n \<le> ks_start_token s then Inr []
      else rbind (mk_segment (ks_start_token s) (min (ks_end_token s) n) (ks_source_version s)) (\<lambda>t.
           rbind (retained n ss) (\<lambda>ts. Inr (t # ts))))"

definition kv_retract :: "frozen_kv_history \<Rightarrow> int \<Rightarrow> (frozen_kv_history, unit) op_result" where
  "kv_retract h new_length =
     (if new_length < 0 \<or> kv_length h < new_length
      then (h, Inl (ValueError ''retraction must remain inside the KV history''))
      else case retained new_length h of Inl e \<Rightarrow> (h, Inl e) | Inr ss \<Rightarrow> (ss, Inr ()))"

fun version_at :: "frozen_kv_history \<Rightarrow> int \<Rightarrow> int res" where
  "version_at [] i = Inl (IndexError i)"
| "version_at (s # ss) i =
     (if ks_start_token s \<le> i \<and> i < ks_end_token s then Inr (ks_source_version s)
      else version_at ss i)"

section \<open>Refinement of the list of versions\<close>

definition segment_versions :: "kv_segment \<Rightarrow> int list" where
  "segment_versions s = replicate (nat (ks_end_token s - ks_start_token s)) (ks_source_version s)"

definition kv_abs :: "frozen_kv_history \<Rightarrow> int list" where
  "kv_abs h = concat (map segment_versions h)"

text \<open>Segments are adjacent from a given start, non-empty, and neighbours differ in version.\<close>

fun kv_chain :: "int \<Rightarrow> kv_segment list \<Rightarrow> bool" where
  "kv_chain a [] = True"
| "kv_chain a (s # ss) \<longleftrightarrow> ks_start_token s = a \<and> a < ks_end_token s \<and> 0 \<le> ks_source_version s
     \<and> (ss \<noteq> [] \<longrightarrow> ks_source_version (hd ss) \<noteq> ks_source_version s)
     \<and> kv_chain (ks_end_token s) ss"

definition kv_inv :: "frozen_kv_history \<Rightarrow> bool" where
  "kv_inv h \<longleftrightarrow> kv_chain 0 h"

lemma kv_chain_length:
  "kv_chain a ss \<Longrightarrow> a + int (length (kv_abs ss)) = (if ss = [] then a else ks_end_token (last ss))"
  by (induction ss arbitrary: a) (auto simp: kv_abs_def segment_versions_def)

lemma kv_length_abs: "kv_inv h \<Longrightarrow> kv_length h = int (length (kv_abs h))"
  using kv_chain_length [of 0 h] by (simp add: kv_inv_def kv_length_def)

lemma kv_chain_append:
  "kv_chain a (xs @ ys) \<longleftrightarrow> kv_chain a xs
     \<and> kv_chain (if xs = [] then a else ks_end_token (last xs)) ys
     \<and> (xs \<noteq> [] \<and> ys \<noteq> [] \<longrightarrow> ks_source_version (hd ys) \<noteq> ks_source_version (last xs))"
  by (induction xs arbitrary: a) auto

lemma kv_chain_last: "kv_chain a ss \<Longrightarrow> ss \<noteq> [] \<Longrightarrow> a \<le> ks_start_token (last ss)
    \<and> ks_start_token (last ss) < ks_end_token (last ss) \<and> 0 \<le> ks_source_version (last ss)"
  by (induction ss arbitrary: a) fastforce+

lemma kv_append_correct:
  assumes "kv_inv h" "1 \<le> n" "0 \<le> v"
  shows "kv_inv (fst (kv_append h n v))" "kv_abs (fst (kv_append h n v)) = kv_abs h @ replicate (nat n) v"
    "is_ok (snd (kv_append h n v))"
proof -
  have "kv_inv (fst (kv_append h n v)) \<and> kv_abs (fst (kv_append h n v)) = kv_abs h @ replicate (nat n) v
    \<and> is_ok (snd (kv_append h n v))"
  proof (cases h rule: rev_cases)
    case Nil
    with assms show ?thesis
      by (simp add: kv_append_def kv_length_def mk_segment_def kv_segment_post_init_def kv_inv_def
          kv_abs_def segment_versions_def)
  next
    case (snoc ss s)
    let ?e = "ks_end_token s"
    from assms snoc have s: "kv_chain 0 (ss @ [s])" by (simp add: kv_inv_def)
    then have b: "0 \<le> ks_start_token s" "ks_start_token s < ?e" "0 \<le> ks_source_version s"
      using kv_chain_last [OF s] by auto
    have "nat (?e + n - ks_start_token s) = nat (?e - ks_start_token s) + nat n"
      using b assms by linarith
    with snoc s b assms show ?thesis
      by (auto simp: kv_append_def kv_length_def mk_segment_def kv_segment_post_init_def kv_inv_def
          kv_abs_def segment_versions_def Let_def kv_chain_append replicate_add)
  qed
  then show "kv_inv (fst (kv_append h n v))" "kv_abs (fst (kv_append h n v)) = kv_abs h @ replicate (nat n) v"
    "is_ok (snd (kv_append h n v))" by auto
qed

lemma retained_correct:
  "kv_chain a ss \<Longrightarrow> 0 \<le> a \<Longrightarrow> \<exists>ts. retained n ss = Inr ts \<and> kv_chain a ts
     \<and> kv_abs ts = take (nat (n - a)) (kv_abs ss) \<and> (ts \<noteq> [] \<longrightarrow> ss \<noteq> [] \<and> ks_source_version (hd ts) = ks_source_version (hd ss))"
proof (induction ss arbitrary: a)
  case Nil
  show ?case by (simp add: kv_abs_def)
next
  case (Cons s ss)
  then obtain ts where ts: "retained n ss = Inr ts" "kv_chain (ks_end_token s) ts"
    "kv_abs ts = take (nat (n - ks_end_token s)) (kv_abs ss)"
    "ts \<noteq> [] \<longrightarrow> ss \<noteq> [] \<and> ks_source_version (hd ts) = ks_source_version (hd ss)"
    by force
  let ?e = "ks_end_token s"
  have s: "ks_start_token s = a" "a < ?e" "0 \<le> ks_source_version s" using Cons.prems by auto
  consider "n \<le> a" | "a < n" "n \<le> ?e" | "?e < n" by linarith
  then show ?case
  proof cases
    case 1
    with s show ?thesis by (simp add: kv_abs_def)
  next
    case 2
    then have "ts = []" using ts(1) Cons.prems by (cases ss) auto
    with 2 s ts Cons.prems(2) show ?thesis
      by (simp add: mk_segment_def kv_segment_post_init_def kv_abs_def segment_versions_def)
  next
    case 3
    then have "nat (n - a) = nat (?e - a) + nat (n - ?e)" using s by linarith
    with 3 s ts Cons.prems show ?thesis
      by (auto simp: mk_segment_def kv_segment_post_init_def kv_abs_def segment_versions_def)
  qed
qed

lemma kv_retract_correct:
  assumes "kv_inv h" "0 \<le> n" "n \<le> kv_length h"
  shows "kv_inv (fst (kv_retract h n))" "kv_abs (fst (kv_retract h n)) = take (nat n) (kv_abs h)"
    "is_ok (snd (kv_retract h n))"
  using retained_correct [of 0 h n] assms by (auto simp: kv_retract_def kv_inv_def)

lemma version_at_chain:
  "kv_chain a ss \<Longrightarrow> version_at ss i =
     (if a \<le> i \<and> i < a + int (length (kv_abs ss)) then Inr (kv_abs ss ! nat (i - a)) else Inl (IndexError i))"
proof (induction ss arbitrary: a)
  case Nil
  show ?case by (simp add: kv_abs_def)
next
  case (Cons s ss)
  let ?e = "ks_end_token s"
  have s: "ks_start_token s = a" "a < ?e" "kv_chain ?e ss" using Cons.prems by auto
  have abs: "kv_abs (s # ss) = replicate (nat (?e - a)) (ks_source_version s) @ kv_abs ss"
    by (simp add: kv_abs_def segment_versions_def s)
  consider "i < a" | "a \<le> i" "i < ?e" | "?e \<le> i" by linarith
  then show ?case
  proof cases
    case 3
    then have "nat (i - a) - nat (?e - a) = nat (i - ?e)" using s by linarith
    with 3 s Cons.IH [OF s(3)] show ?thesis by (auto simp: abs nth_append)
  qed (use s Cons.IH [OF s(3)] in \<open>auto simp: abs nth_append\<close>)
qed

text \<open>
  The interface a reader of the history relies on: a log of versions that grows at its end, is cut
  at its end, and is otherwise never rewritten. Whatever happens later, a token that is never
  retracted keeps the version that computed it.
\<close>

datatype kv_op = Append int int | Retract int

definition keeps :: "int \<Rightarrow> kv_op \<Rightarrow> bool" where
  "keeps i e = (case e of Append _ _ \<Rightarrow> True | Retract n \<Rightarrow> i < n \<or> n < 0)"

locale version_log =
  fixes abs :: "'h \<Rightarrow> int list"
    and linv :: "'h \<Rightarrow> bool"
    and step :: "'h \<Rightarrow> kv_op \<Rightarrow> 'h"
    and at :: "'h \<Rightarrow> int \<Rightarrow> int res"
  assumes abs_append: "linv h \<Longrightarrow> abs (step h (Append n v)) =
      (if 1 \<le> n \<and> 0 \<le> v then abs h @ replicate (nat n) v else abs h)"
    and abs_retract: "linv h \<Longrightarrow> abs (step h (Retract n)) =
      (if 0 \<le> n \<and> n \<le> int (length (abs h)) then take (nat n) (abs h) else abs h)"
    and linv_step: "linv h \<Longrightarrow> linv (step h e)"
    and at_abs: "linv h \<Longrightarrow> at h i =
      (if 0 \<le> i \<and> i < int (length (abs h)) then Inr (abs h ! nat i) else Inl (IndexError i))"
begin

lemma at_step: "linv h \<Longrightarrow> at h i = Inr v \<Longrightarrow> keeps i e \<Longrightarrow> at (step h e) i = Inr v"
  by (cases e) (auto simp: at_abs linv_step abs_append abs_retract keeps_def nth_append split: if_splits)

lemma at_run: "linv h \<Longrightarrow> at h i = Inr v \<Longrightarrow> list_all (keeps i) es \<Longrightarrow> at (foldl step h es) i = Inr v"
  by (induction es arbitrary: h) (auto intro: at_step linv_step)

end

fun kv_step :: "frozen_kv_history \<Rightarrow> kv_op \<Rightarrow> frozen_kv_history" where
  "kv_step h (Append n v) = fst (kv_append h n v)"
| "kv_step h (Retract n) = fst (kv_retract h n)"

lemma kv_append_rejects: "\<not> (1 \<le> n \<and> 0 \<le> v) \<Longrightarrow> fst (kv_append h n v) = h"
  by (auto simp: kv_append_def mk_segment_def kv_segment_post_init_def Let_def)

lemma kv_retract_rejects: "\<not> (0 \<le> n \<and> n \<le> kv_length h) \<Longrightarrow> fst (kv_retract h n) = h"
  by (auto simp: kv_retract_def)

interpretation kv: version_log kv_abs kv_inv kv_step version_at
proof
  fix h :: frozen_kv_history and n v i :: int and e :: kv_op
  assume inv: "kv_inv h"
  show "kv_abs (kv_step h (Append n v)) = (if 1 \<le> n \<and> 0 \<le> v then kv_abs h @ replicate (nat n) v else kv_abs h)"
    using inv kv_append_correct(2) [OF inv] kv_append_rejects by auto
  show "kv_abs (kv_step h (Retract n)) =
      (if 0 \<le> n \<and> n \<le> int (length (kv_abs h)) then take (nat n) (kv_abs h) else kv_abs h)"
    using inv kv_retract_correct(2) [OF inv] kv_retract_rejects [of n h] by (auto simp: kv_length_abs)
  show "kv_inv (kv_step h e)"
  proof (cases e)
    case (Append m w)
    with inv kv_append_correct(1) [OF inv] kv_append_rejects [of m w h] show ?thesis
      by (cases "1 \<le> m \<and> 0 \<le> w") auto
  next
    case (Retract m)
    with inv kv_retract_correct(1) [OF inv] kv_retract_rejects [of m h] show ?thesis
      by (cases "0 \<le> m \<and> m \<le> kv_length h") auto
  qed
  show "version_at h i =
      (if 0 \<le> i \<and> i < int (length (kv_abs h)) then Inr (kv_abs h ! nat i) else Inl (IndexError i))"
    using version_at_chain [of 0 h i] inv by (simp add: kv_inv_def)
qed

interpretation kv_run: invariant_machine kv_step kv_inv
  by unfold_locales (rule kv.linv_step)

section \<open>Properties\<close>

text \<open>The list a run of operations should leave, computed without segments.\<close>

fun spec_step :: "int list \<Rightarrow> kv_op \<Rightarrow> int list" where
  "spec_step vs (Append n v) = (if 1 \<le> n \<and> 0 \<le> v then vs @ replicate (nat n) v else vs)"
| "spec_step vs (Retract n) = (if 0 \<le> n \<and> n \<le> int (length vs) then take (nat n) vs else vs)"

lemma kv_abs_step: "kv_inv h \<Longrightarrow> kv_abs (kv_step h e) = spec_step (kv_abs h) e"
  by (cases e) (simp_all only: kv.abs_append kv.abs_retract spec_step.simps)

lemma kv_abs_run: "kv_inv h \<Longrightarrow> kv_abs (foldl kv_step h es) = foldl spec_step (kv_abs h) es"
  by (induction es arbitrary: h) (simp_all add: kv_abs_step kv.linv_step del: kv_step.simps)

text \<open>
  C29: A history built by any sequence of appends and retractions is a faithful run-length encoding
  of the list of versions: its length is the length of that list, reading a token returns the version that list holds at its index, and
  an index outside the list raises IndexError.
\<close>

theorem kv_history_refines_version_list:
  "let h = foldl kv_step [] es; vs = foldl spec_step [] es in
     kv_length h = int (length vs)
     \<and> version_at h i = (if 0 \<le> i \<and> i < int (length vs) then Inr (vs ! nat i) else Inl (IndexError i))"
proof -
  have e: "kv_inv []" "kv_abs [] = []" by (simp_all add: kv_inv_def kv_abs_def)
  have "kv_abs (foldl kv_step [] es) = foldl spec_step [] es"
    using kv_abs_run [OF e(1), of es] e(2) by simp
  then show ?thesis
    using kv.at_abs [OF kv_run.run_inv [OF e(1)], where i = i] kv_length_abs [OF kv_run.run_inv [OF e(1)], of es]
    by (simp add: Let_def)
qed

text \<open>
  C30: The version recorded for a token never changes as long as no retraction cuts the token off:
  historical KV is frozen.
\<close>

theorem kv_history_is_frozen:
  assumes "version_at (foldl kv_step [] es) i = Inr v"
    and "list_all (keeps i) fs"
  shows "version_at (foldl kv_step [] (es @ fs)) i = Inr v"
proof -
  have e: "kv_inv []" by (simp add: kv_inv_def)
  show ?thesis
    using kv.at_run [OF kv_run.run_inv [OF e] assms] by simp
qed

theorem kv_history_is_frozen_witness:
  "version_at (foldl kv_step [] ([Append 3 0, Append 2 1] @ [Retract 4, Append 5 2])) 3 = Inr 1"
proof -
  have "version_at (foldl kv_step [] [Append 3 0, Append 2 1]) 3 = Inr 1"
    by (simp add: kv_append_def kv_length_def mk_segment_def kv_segment_post_init_def Let_def)
  then show ?thesis by (rule kv_history_is_frozen) (simp add: keeps_def)
qed

end
