(* ===== verification/Memory.thy ===== *)
theory Memory
  imports Prelude
begin

text \<open>
  \<open>adaptation/memory.py\<close> and the HBM half of \<open>adaptation/governor.py\<close>: the ledgers of byte
  counts, the KV budget left beside the adaptation state, and the all-rank admission test of the
  governor. Byte counts are Python integers. A \<open>type(value) is not int\<close> guard is settled by the
  types of the model.
\<close>

section \<open>The adaptation ledger\<close>

text \<open>A tensor is known by its element count and element size.\<close>

definition tensor_bytes :: "(int \<times> int) list \<Rightarrow> int" where
  "tensor_bytes ts = sum_list (map (\<lambda>(numel, element_size). numel * element_size) ts)"

record adaptation_memory_ledger =
  am_active_base :: int
  am_master_fp32 :: int
  am_gradients :: int
  am_first_moments :: int
  am_second_moments :: int
  am_online_state :: int
  am_staging :: int
  am_training_activations :: int
  am_kv_gather_scratch :: int
  am_candidate_scratch :: int
  am_graph_buffers :: int
  am_telemetry :: int

definition am_values :: "adaptation_memory_ledger \<Rightarrow> int list" where
  "am_values l = [am_active_base l, am_master_fp32 l, am_gradients l, am_first_moments l,
     am_second_moments l, am_online_state l, am_staging l, am_training_activations l,
     am_kv_gather_scratch l, am_candidate_scratch l, am_graph_buffers l, am_telemetry l]"

definition adaptation_memory_ledger_post_init ::
  "adaptation_memory_ledger \<Rightarrow> adaptation_memory_ledger res" where
  "adaptation_memory_ledger_post_init l =
     (if \<exists>v \<in> set (am_values l). v < 0
      then Inl (ValueError ''memory categories cannot be negative'') else Inr l)"

definition resident_bytes :: "adaptation_memory_ledger \<Rightarrow> int" where
  "resident_bytes l = am_active_base l + am_master_fp32 l + am_first_moments l + am_second_moments l
     + am_online_state l + am_staging l + am_graph_buffers l + am_telemetry l"

definition peak_bytes :: "adaptation_memory_ledger \<Rightarrow> int" where
  "peak_bytes l = resident_bytes l + am_gradients l + am_training_activations l
     + am_kv_gather_scratch l + am_candidate_scratch l"

definition kv_budget :: "adaptation_memory_ledger \<Rightarrow> int \<Rightarrow> int \<Rightarrow> int res" where
  "kv_budget l available_bytes reserve_bytes =
     (if available_bytes < 0 \<or> reserve_bytes < 0
      then Inl (ValueError ''memory budgets cannot be negative'')
      else let remaining = available_bytes - reserve_bytes - peak_bytes l in
        if remaining < 0
        then Inl (MemoryError ''adaptation reserve exceeds available HBM; no silent offload or mode downgrade is allowed'')
        else Inr remaining)"

lemma peak_bytes_sum: "peak_bytes l = sum_list (am_values l)"
  by (simp add: peak_bytes_def resident_bytes_def am_values_def)

section \<open>The HBM ledger of a rank\<close>

definition require_bytes :: "string \<Rightarrow> int \<Rightarrow> unit res" where
  "require_bytes name value =
     raise_if (value < 0) (ValueError (name @ '' must be a non-negative integer byte count''))"

definition require_positive_int :: "string \<Rightarrow> int \<Rightarrow> unit res" where
  "require_positive_int name value =
     raise_if (value < 1) (ValueError (name @ '' must be a positive integer''))"

definition require_hash :: "string \<Rightarrow> string \<Rightarrow> unit res" where
  "require_hash name value =
     raise_if (\<not> is_lower_hex 64 value) (ValueError (name @ '' must be a lowercase SHA-256''))"

record hbm_ledger =
  hl_target_weights_bytes :: int
  hl_drafter_weights_bytes :: int
  hl_target_kv_bytes :: int
  hl_drafter_kv_bytes :: int
  hl_active_merged_parameters_bytes :: int
  hl_fp32_masters_bytes :: int
  hl_gradients_bytes :: int
  hl_optimizer_tensors_bytes :: int
  hl_candidate_bytes :: int
  hl_staging_bytes :: int
  hl_merge_scratch_bytes :: int
  hl_differentiable_activations_bytes :: int
  hl_graph_private_pools_bytes :: int
  hl_library_workspace_bytes :: int
  hl_nccl_buffers_bytes :: int
  hl_kv_gather_scratch_bytes :: int
  hl_backend_scratch_bytes :: int
  hl_telemetry_staging_bytes :: int
  hl_fragmentation_margin_bytes :: int
  hl_allocator_allocated_peak_bytes :: int
  hl_allocator_reserved_peak_bytes :: int
  hl_nvml_process_peak_bytes :: int
  hl_nvml_global_peak_bytes :: int

definition hl_fields :: "hbm_ledger \<Rightarrow> (string \<times> int) list" where
  "hl_fields l =
    [(''target_weights_bytes'', hl_target_weights_bytes l),
     (''drafter_weights_bytes'', hl_drafter_weights_bytes l),
     (''target_kv_bytes'', hl_target_kv_bytes l),
     (''drafter_kv_bytes'', hl_drafter_kv_bytes l),
     (''active_merged_parameters_bytes'', hl_active_merged_parameters_bytes l),
     (''fp32_masters_bytes'', hl_fp32_masters_bytes l),
     (''gradients_bytes'', hl_gradients_bytes l),
     (''optimizer_tensors_bytes'', hl_optimizer_tensors_bytes l),
     (''candidate_bytes'', hl_candidate_bytes l),
     (''staging_bytes'', hl_staging_bytes l),
     (''merge_scratch_bytes'', hl_merge_scratch_bytes l),
     (''differentiable_activations_bytes'', hl_differentiable_activations_bytes l),
     (''graph_private_pools_bytes'', hl_graph_private_pools_bytes l),
     (''library_workspace_bytes'', hl_library_workspace_bytes l),
     (''nccl_buffers_bytes'', hl_nccl_buffers_bytes l),
     (''kv_gather_scratch_bytes'', hl_kv_gather_scratch_bytes l),
     (''backend_scratch_bytes'', hl_backend_scratch_bytes l),
     (''telemetry_staging_bytes'', hl_telemetry_staging_bytes l),
     (''fragmentation_margin_bytes'', hl_fragmentation_margin_bytes l),
     (''allocator_allocated_peak_bytes'', hl_allocator_allocated_peak_bytes l),
     (''allocator_reserved_peak_bytes'', hl_allocator_reserved_peak_bytes l),
     (''nvml_process_peak_bytes'', hl_nvml_process_peak_bytes l),
     (''nvml_global_peak_bytes'', hl_nvml_global_peak_bytes l)]"

definition hbm_ledger_post_init :: "hbm_ledger \<Rightarrow> hbm_ledger res" where
  "hbm_ledger_post_init l =
     rbind (check_all (\<lambda>(name, value). require_bytes name value) (hl_fields l)) (\<lambda>_.
     rbind (raise_if (hl_allocator_reserved_peak_bytes l < hl_allocator_allocated_peak_bytes l)
            (ValueError ''allocator reserved peak cannot be below allocated peak'')) (\<lambda>_.
     rbind (raise_if (hl_nvml_global_peak_bytes l < hl_nvml_process_peak_bytes l)
            (ValueError ''NVML global use cannot be below this process use'')) (\<lambda>_.
     Inr l)))"

definition predicted_resident_bytes :: "hbm_ledger \<Rightarrow> int" where
  "predicted_resident_bytes l = sum_list
     [hl_target_weights_bytes l, hl_drafter_weights_bytes l, hl_target_kv_bytes l,
      hl_drafter_kv_bytes l, hl_active_merged_parameters_bytes l, hl_fp32_masters_bytes l,
      hl_optimizer_tensors_bytes l, hl_candidate_bytes l, hl_staging_bytes l,
      hl_graph_private_pools_bytes l, hl_library_workspace_bytes l, hl_nccl_buffers_bytes l,
      hl_telemetry_staging_bytes l]"

definition predicted_peak_bytes :: "hbm_ledger \<Rightarrow> int" where
  "predicted_peak_bytes l = predicted_resident_bytes l + sum_list
     [hl_gradients_bytes l, hl_merge_scratch_bytes l, hl_differentiable_activations_bytes l,
      hl_kv_gather_scratch_bytes l, hl_backend_scratch_bytes l, hl_fragmentation_margin_bytes l]"

definition observed_process_peak_bytes :: "hbm_ledger \<Rightarrow> int" where
  "observed_process_peak_bytes l =
     max (max (hl_allocator_allocated_peak_bytes l) (hl_allocator_reserved_peak_bytes l))
         (hl_nvml_process_peak_bytes l)"

definition prediction_error_bytes :: "hbm_ledger \<Rightarrow> int" where
  "prediction_error_bytes l = observed_process_peak_bytes l - predicted_peak_bytes l"

definition adaptation_resident_bytes :: "hbm_ledger \<Rightarrow> int" where
  "adaptation_resident_bytes l = sum_list
     [hl_active_merged_parameters_bytes l, hl_fp32_masters_bytes l, hl_optimizer_tensors_bytes l,
      hl_candidate_bytes l, hl_staging_bytes l, hl_telemetry_staging_bytes l]"

record rank_memory_state =
  rm_rank :: int
  rm_capacity_bytes :: int
  rm_ledger :: hbm_ledger

definition rank_memory_state_post_init :: "rank_memory_state \<Rightarrow> rank_memory_state res" where
  "rank_memory_state_post_init s =
     rbind (raise_if (rm_rank s < 0) (ValueError ''rank must be a non-negative integer'')) (\<lambda>_.
     rbind (require_bytes ''capacity_bytes'' (rm_capacity_bytes s)) (\<lambda>_.
     rbind (raise_if (rm_capacity_bytes s = 0)
            (ValueError ''rank HBM capacity must be positive'')) (\<lambda>_.
     rbind (raise_if (rm_capacity_bytes s < hl_nvml_global_peak_bytes (rm_ledger s))
            (ValueError ''observed global HBM use exceeds device capacity'')) (\<lambda>_.
     Inr s))))"

definition charged_peak_bytes :: "rank_memory_state \<Rightarrow> int" where
  "charged_peak_bytes s =
     max (max (predicted_peak_bytes (rm_ledger s)) (observed_process_peak_bytes (rm_ledger s)))
         (hl_nvml_global_peak_bytes (rm_ledger s))"

section \<open>The governor\<close>

record hbm_admission_request =
  ar_adaptation_reserve_bytes :: int
  ar_target_kv_bytes :: int
  ar_drafter_kv_bytes :: int
  ar_safety_margin_bytes :: int

definition hbm_admission_request_post_init :: "hbm_admission_request \<Rightarrow> hbm_admission_request res" where
  "hbm_admission_request_post_init q =
     rbind (check_all (\<lambda>(name, value). require_bytes name value)
       [(''adaptation_reserve_bytes'', ar_adaptation_reserve_bytes q),
        (''target_kv_bytes'', ar_target_kv_bytes q),
        (''drafter_kv_bytes'', ar_drafter_kv_bytes q),
        (''safety_margin_bytes'', ar_safety_margin_bytes q)]) (\<lambda>_. Inr q)"

definition kv_bytes :: "hbm_admission_request \<Rightarrow> int" where
  "kv_bytes q = ar_target_kv_bytes q + ar_drafter_kv_bytes q"

datatype hbm_admission_reason =
    ADMITTED
  | ADAPTATION_RESERVE_EXCEEDS_LEAST_RANK
  | KV_ADMISSION_EXCEEDS_LEAST_RANK

record rank_headroom =
  rh_rank :: int
  rh_charged_peak_bytes :: int
  rh_after_adaptation_bytes :: int
  rh_projected_peak_bytes :: int
  rh_usable_limit_bytes :: int
  rh_headroom_bytes :: int

record hbm_admission =
  ha_admitted :: bool
  ha_reason :: hbm_admission_reason
  ha_limiting_rank :: int
  ha_ranks :: "rank_headroom list"

datatype memory_pressure_action =
    PRESERVE_IMMUTABLE_AND_CORRECTNESS
  | PRESERVE_ACTIVE_KV_AND_PUBLISHED_STATE
  | EVICT_NATIVE_INACTIVE_PREFIX
  | ABORT_PENDING_ADAPTATION
  | QUEUE_OR_REJECT_NEW_WORK
  | OFFLOAD_COLD_INACTIVE_COHORT

fun action_level :: "memory_pressure_action \<Rightarrow> int" where
  "action_level PRESERVE_IMMUTABLE_AND_CORRECTNESS = 1"
| "action_level PRESERVE_ACTIVE_KV_AND_PUBLISHED_STATE = 2"
| "action_level EVICT_NATIVE_INACTIVE_PREFIX = 3"
| "action_level ABORT_PENDING_ADAPTATION = 4"
| "action_level QUEUE_OR_REJECT_NEW_WORK = 5"
| "action_level OFFLOAD_COLD_INACTIVE_COHORT = 6"

type_synonym hbm_governor = "rank_memory_state list"

definition hbm_governor_init :: "rank_memory_state list \<Rightarrow> int \<Rightarrow> hbm_governor res" where
  "hbm_governor_init states expected_ranks =
     rbind (require_positive_int ''expected_ranks'' expected_ranks) (\<lambda>_.
     let ranks = map rm_rank states in
     rbind (raise_if (\<not> distinct ranks) (ValueError ''duplicate rank memory state'')) (\<lambda>_.
     rbind (raise_if (set ranks \<noteq> set (int_range 0 expected_ranks))
            (ValueError ''memory state lacks exact all-rank coverage'')) (\<lambda>_.
     Inr (sort_key rm_rank states))))"

definition headroom_row :: "hbm_admission_request \<Rightarrow> rank_memory_state \<Rightarrow> rank_headroom" where
  "headroom_row q s =
     (let usable = rm_capacity_bytes s - ar_safety_margin_bytes q;
          after_adaptation = charged_peak_bytes s + ar_adaptation_reserve_bytes q;
          projected = after_adaptation + kv_bytes q
      in \<lparr>rh_rank = rm_rank s, rh_charged_peak_bytes = charged_peak_bytes s,
          rh_after_adaptation_bytes = after_adaptation, rh_projected_peak_bytes = projected,
          rh_usable_limit_bytes = usable, rh_headroom_bytes = usable - projected\<rparr>)"

text \<open>The loop of \<open>assess\<close>: the rows so far and whether the adaptation reserve fits so far.\<close>

fun assess_loop ::
  "hbm_admission_request \<Rightarrow> rank_memory_state list \<Rightarrow> rank_headroom list \<Rightarrow> bool \<Rightarrow> rank_headroom list \<times> bool"
  where
  "assess_loop q [] rows fits = (rows, fits)"
| "assess_loop q (s # ss) rows fits =
     (let row = headroom_row q s in
      assess_loop q ss (rows @ [row])
        (fits \<and> rh_after_adaptation_bytes row \<le> rh_usable_limit_bytes row))"

definition assess :: "hbm_governor \<Rightarrow> hbm_admission_request \<Rightarrow> hbm_admission res" where
  "assess g q =
     (case assess_loop q g [] True of (rows, adaptation_fits) \<Rightarrow>
        rbind (py_min (\<lambda>row. (rh_headroom_bytes row, rh_rank row)) rows) (\<lambda>limiting.
          let admitted = 0 \<le> rh_headroom_bytes limiting;
              reason = (if admitted then ADMITTED
                        else if \<not> adaptation_fits then ADAPTATION_RESERVE_EXCEEDS_LEAST_RANK
                        else KV_ADMISSION_EXCEEDS_LEAST_RANK)
          in Inr \<lparr>ha_admitted = admitted, ha_reason = reason,
                   ha_limiting_rank = rh_rank limiting, ha_ranks = rows\<rparr>))"

definition pressure_plan :: "bool \<Rightarrow> (memory_pressure_action \<times> string) list" where
  "pressure_plan allow_cold_offload =
     [(PRESERVE_IMMUTABLE_AND_CORRECTNESS, ''preserve_immutable_runtime_and_active_correctness''),
      (PRESERVE_ACTIVE_KV_AND_PUBLISHED_STATE, ''preserve_active_kv_and_published_cohort''),
      (EVICT_NATIVE_INACTIVE_PREFIX, ''evict_native_inactive_prefix_only''),
      (ABORT_PENDING_ADAPTATION, ''abort_pending_adaptation_release_temporary_state''),
      (QUEUE_OR_REJECT_NEW_WORK, ''queue_or_reject_new_work'')]
     @ (if allow_cold_offload
        then [(OFFLOAD_COLD_INACTIVE_COHORT, ''cold_inactive_timed_offload'')] else [])"

lemma assess_loop_eq:
  "assess_loop q ss rows fits = (rows @ map (headroom_row q) ss,
     fits \<and> (\<forall>s \<in> set ss. charged_peak_bytes s + ar_adaptation_reserve_bytes q
                              \<le> rm_capacity_bytes s - ar_safety_margin_bytes q))"
  by (induction q ss rows fits rule: assess_loop.induct) (auto simp: headroom_row_def Let_def)

text \<open>What a rank would have to hold for a request, and the test that it fits.\<close>

definition rank_demand :: "hbm_admission_request \<Rightarrow> rank_memory_state \<Rightarrow> int" where
  "rank_demand q s = charged_peak_bytes s + ar_adaptation_reserve_bytes q + kv_bytes q
     + ar_safety_margin_bytes q"

definition rank_headroom_of :: "hbm_admission_request \<Rightarrow> rank_memory_state \<Rightarrow> int" where
  "rank_headroom_of q s = rm_capacity_bytes s - rank_demand q s"

lemma headroom_row_headroom: "rh_headroom_bytes (headroom_row q s) = rank_headroom_of q s"
  by (simp add: headroom_row_def Let_def rank_headroom_of_def rank_demand_def)

lemma headroom_row_rank: "rh_rank (headroom_row q s) = rm_rank s"
  by (simp add: headroom_row_def Let_def)

lemma hbm_governor_init_Inr:
  "hbm_governor_init states n = Inr g \<Longrightarrow>
     set g = set states \<and> g \<noteq> [] \<and> map rm_rank g = int_range 0 n \<and> distinct (map rm_rank g)"
proof -
  assume init: "hbm_governor_init states n = Inr g"
  then have n: "1 \<le> n" "distinct (map rm_rank states)" "set (map rm_rank states) = {0..<n}"
    and g: "g = sort_key rm_rank states"
    by (auto simp: hbm_governor_init_def require_positive_int_def Let_def split: if_splits)
  have d: "distinct (map rm_rank g)" using n(2) unfolding g distinct_map by simp
  have "map rm_rank g = int_range 0 n"
  proof (rule sorted_distinct_set_unique)
    show "sorted (map rm_rank g)" by (simp add: g)
    show "set (map rm_rank g) = set (int_range 0 n)" using n(3) by (simp add: g)
  qed (use d in auto)
  moreover from n(1,3) have "set g \<noteq> {}" unfolding g by (cases states) auto
  moreover have "set g = set states" by (simp add: g)
  ultimately show ?thesis using d by auto
qed

lemma hbm_admission_request_nonneg:
  "hbm_admission_request_post_init q = Inr q' \<Longrightarrow> 0 \<le> kv_bytes q"
  by (auto simp: hbm_admission_request_post_init_def require_bytes_def kv_bytes_def rbind_def
      raise_if_def split: if_splits)

lemma least_headroom:
  assumes "\<forall>s \<in> S. (rank_headroom_of q l, rm_rank l) \<le> (rank_headroom_of q s, rm_rank s)" "l \<in> S"
  shows "0 \<le> rank_headroom_of q l \<longleftrightarrow> (\<forall>s \<in> S. rank_demand q s \<le> rm_capacity_bytes s)"
proof -
  have "\<forall>s \<in> S. rank_headroom_of q l \<le> rank_headroom_of q s" using assms(1) by fastforce
  then show ?thesis using assms(2) by (fastforce simp: rank_headroom_of_def)
qed

lemma admitted_reserve_fits:
  assumes "0 \<le> kv_bytes q" "rank_demand q s \<le> rm_capacity_bytes s"
  shows "charged_peak_bytes s + ar_adaptation_reserve_bytes q
    \<le> rm_capacity_bytes s - ar_safety_margin_bytes q"
  using assms by (simp add: rank_demand_def)

section \<open>Properties\<close>

text \<open>
  C28: The governor admits a request exactly when every rank can hold its charged peak, the
  adaptation reserve, the KV bytes and the safety margin; the headroom it reports for a rank is exactly
  the capacity less this demand, in bytes, negative where the rank falls short; the limiting rank it names is the rank
  of least headroom, the lowest such rank on a tie; and it blames the adaptation reserve exactly
  when the request is refused and some rank cannot even hold the reserve without KV.
\<close>

theorem governor_admits_iff_every_rank_fits:
  assumes "hbm_governor_init states n = Inr g" and "hbm_admission_request_post_init q = Inr q"
  shows "\<exists>a. assess g q = Inr a
    \<and> (ha_admitted a \<longleftrightarrow> (\<forall>s \<in> set states. rank_demand q s \<le> rm_capacity_bytes s))
    \<and> (\<exists>l \<in> set states. rm_rank l = ha_limiting_rank a
          \<and> (\<forall>s \<in> set states. (rank_headroom_of q l, rm_rank l) \<le> (rank_headroom_of q s, rm_rank s)))
    \<and> (ha_reason a = ADAPTATION_RESERVE_EXCEEDS_LEAST_RANK \<longleftrightarrow>
        (\<exists>s \<in> set states. rm_capacity_bytes s - ar_safety_margin_bytes q
            < charged_peak_bytes s + ar_adaptation_reserve_bytes q))
    \<and> map rh_rank (ha_ranks a) = int_range 0 n
    \<and> (\<forall>row \<in> set (ha_ranks a). \<exists>s \<in> set states. rm_rank s = rh_rank row
          \<and> rh_headroom_bytes row = rm_capacity_bytes s - rank_demand q s)"
proof -
  note g = hbm_governor_init_Inr [OF assms(1)]
  let ?f = "\<lambda>row. (rh_headroom_bytes row, rh_rank row)"
  from g obtain m where m: "py_min ?f (map (headroom_row q) g) = Inr m"
    using py_min_ok [of "map (headroom_row q) g" ?f] by auto
  then obtain l where l: "l \<in> set states" "m = headroom_row q l"
    and least: "\<forall>s \<in> set states. (rank_headroom_of q l, rm_rank l) \<le> (rank_headroom_of q s, rm_rank s)"
    using py_min_Inr [OF m] g by (auto simp: headroom_row_headroom headroom_row_rank)
  have adm: "0 \<le> rank_headroom_of q l \<longleftrightarrow> (\<forall>s \<in> set states. rank_demand q s \<le> rm_capacity_bytes s)"
    by (rule least_headroom [OF least l(1)])
  have fit: "(\<forall>s \<in> set states. rank_demand q s \<le> rm_capacity_bytes s) \<Longrightarrow>
      (\<forall>s \<in> set states. charged_peak_bytes s + ar_adaptation_reserve_bytes q
          \<le> rm_capacity_bytes s - ar_safety_margin_bytes q)"
    using admitted_reserve_fits [OF hbm_admission_request_nonneg [OF assms(2)]] by blast
  have rows: "map rh_rank (map (headroom_row q) g) = int_range 0 n"
    using g by (simp add: headroom_row_rank comp_def)
  have exact: "\<forall>row \<in> set (map (headroom_row q) g). \<exists>s \<in> set states. rm_rank s = rh_rank row
      \<and> rh_headroom_bytes row = rm_capacity_bytes s - rank_demand q s"
    using g by (auto simp: headroom_row_def Let_def rank_demand_def)
  have reason: "(\<exists>s \<in> set states. rm_capacity_bytes s - ar_safety_margin_bytes q
            < charged_peak_bytes s + ar_adaptation_reserve_bytes q)
     \<longleftrightarrow> \<not> (\<forall>s \<in> set g. charged_peak_bytes s + ar_adaptation_reserve_bytes q
          \<le> rm_capacity_bytes s - ar_safety_margin_bytes q)"
    using g by (auto simp: not_le)
  show ?thesis
    unfolding assess_def assess_loop_eq reason
    using m l(1) least adm fit rows exact g
    by (simp add: l(2) headroom_row_headroom headroom_row_rank Let_def) blast
qed

text \<open>Two ranks for the witness: the second one is the tighter.\<close>

definition example_ledger :: "int \<Rightarrow> hbm_ledger" where
  "example_ledger w = \<lparr>hl_target_weights_bytes = w, hl_drafter_weights_bytes = 1, hl_target_kv_bytes = 1,
     hl_drafter_kv_bytes = 1, hl_active_merged_parameters_bytes = 1, hl_fp32_masters_bytes = 1,
     hl_gradients_bytes = 1, hl_optimizer_tensors_bytes = 1, hl_candidate_bytes = 1,
     hl_staging_bytes = 1, hl_merge_scratch_bytes = 1, hl_differentiable_activations_bytes = 1,
     hl_graph_private_pools_bytes = 1, hl_library_workspace_bytes = 1, hl_nccl_buffers_bytes = 1,
     hl_kv_gather_scratch_bytes = 1, hl_backend_scratch_bytes = 1, hl_telemetry_staging_bytes = 1,
     hl_fragmentation_margin_bytes = 1, hl_allocator_allocated_peak_bytes = 1,
     hl_allocator_reserved_peak_bytes = 2, hl_nvml_process_peak_bytes = 3,
     hl_nvml_global_peak_bytes = 4\<rparr>"

definition example_ranks :: "rank_memory_state list" where
  "example_ranks =
     [\<lparr>rm_rank = 1, rm_capacity_bytes = 80, rm_ledger = example_ledger 40\<rparr>,
      \<lparr>rm_rank = 0, rm_capacity_bytes = 100, rm_ledger = example_ledger 40\<rparr>]"

definition example_request :: "int \<Rightarrow> hbm_admission_request" where
  "example_request kv = \<lparr>ar_adaptation_reserve_bytes = 5, ar_target_kv_bytes = kv,
     ar_drafter_kv_bytes = 2, ar_safety_margin_bytes = 4\<rparr>"

theorem governor_admits_iff_every_rank_fits_witness:
  "is_ok (map_res rank_memory_state_post_init example_ranks)
   \<and> hbm_governor_init example_ranks 2 = Inr (rev example_ranks)
   \<and> (\<exists>a. assess (rev example_ranks) (example_request 20) = Inr a
        \<and> \<not> ha_admitted a \<and> ha_limiting_rank a = 1)"
proof -
  have init: "hbm_governor_init example_ranks 2 = Inr (rev example_ranks)" by code_simp
  have req: "hbm_admission_request_post_init (example_request 20) = Inr (example_request 20)"
    by code_simp
  have post: "is_ok (map_res rank_memory_state_post_init example_ranks)" by code_simp
  have tight: "\<not> (\<forall>s \<in> set example_ranks. rank_demand (example_request 20) s \<le> rm_capacity_bytes s)"
    by code_simp
  have "\<forall>l \<in> set example_ranks. rm_rank l \<noteq> 1 \<longrightarrow>
      \<not> (\<forall>s \<in> set example_ranks. (rank_headroom_of (example_request 20) l, rm_rank l)
            \<le> (rank_headroom_of (example_request 20) s, rm_rank s))"
    by code_simp
  with governor_admits_iff_every_rank_fits [OF init req] tight init post show ?thesis by metis
qed

text \<open>
  The KV budget beside an adaptation ledger is either exactly what the device has left after
  the reserve and the sum of all twelve ledger categories, or the call raises: \<open>MemoryError\<close> exactly
  when the categories and the reserve do not fit. Nothing is downgraded silently.
\<close>

theorem kv_budget_exact_or_raises:
  assumes "adaptation_memory_ledger_post_init l = Inr l" "0 \<le> available" "0 \<le> reserve"
  shows "case kv_budget l available reserve of
      Inr r \<Rightarrow> 0 \<le> r \<and> r \<le> available \<and> r + reserve + sum_list (am_values l) = available
    | Inl e \<Rightarrow> available < reserve + sum_list (am_values l) \<and> (\<exists>m. e = MemoryError m)"
proof -
  have "\<forall>v \<in> set (am_values l). 0 \<le> v"
    using assms(1) by (auto simp: adaptation_memory_ledger_post_init_def not_less split: if_splits)
  then have "0 \<le> sum_list (am_values l)" by (intro sum_list_nonneg) blast
  with assms(2,3) show ?thesis
    by (simp add: kv_budget_def Let_def peak_bytes_sum)
qed

definition example_adaptation_ledger :: adaptation_memory_ledger where
  "example_adaptation_ledger = \<lparr>am_active_base = 1, am_master_fp32 = 2, am_gradients = 3,
     am_first_moments = 4, am_second_moments = 5, am_online_state = 6, am_staging = 7,
     am_training_activations = 8, am_kv_gather_scratch = 9, am_candidate_scratch = 10,
     am_graph_buffers = 11, am_telemetry = 12\<rparr>"

theorem kv_budget_exact_or_raises_witness:
  "adaptation_memory_ledger_post_init example_adaptation_ledger = Inr example_adaptation_ledger
   \<and> kv_budget example_adaptation_ledger 100 10 = Inr 12
   \<and> 12 + 10 + sum_list (am_values example_adaptation_ledger) = 100"
proof -
  have ok: "adaptation_memory_ledger_post_init example_adaptation_ledger = Inr example_adaptation_ledger"
    by code_simp
  have r: "kv_budget example_adaptation_ledger 100 10 = Inr 12" by code_simp
  from kv_budget_exact_or_raises [OF ok, of 100 10] ok r show ?thesis by simp
qed

end
