(* ===== verification/Cohort_State.thy ===== *)
theory Cohort_State
  imports Memory PyFloat "HOL-Library.Multiset"
begin

text \<open>
  The bounded cohort-state manager of \<open>adaptation/governor.py\<close>: a fixed number of equal slabs
  shared by the cohorts of all tenants, tenant quotas, expiry and least-recently-used reclamation,
  and the optional cold tier on the host. The manager is a mutable object: an operation returns
  the manager after the call and the returned value or the exception.
\<close>

section \<open>Data\<close>

datatype cohort_offload_mode = DISABLED | COLD_INACTIVE_TIMED

record cohort_state_key =
  ck_tenant_id :: string
  ck_cohort_sha256 :: string
  ck_replica_id :: int

definition cohort_state_key_post_init :: "cohort_state_key \<Rightarrow> cohort_state_key res" where
  "cohort_state_key_post_init k =
     rbind (raise_if (\<not> canonical_text (ck_tenant_id k))
       (ValueError ''tenant_id must be a non-empty canonical identifier'')) (\<lambda>_.
     rbind (require_hash ''cohort_sha256'' (ck_cohort_sha256 k)) (\<lambda>_.
     rbind (raise_if (ck_replica_id k < 0)
       (ValueError ''replica_id must be a non-negative integer'')) (\<lambda>_.
     Inr k)))"

record cohort_state_snapshot =
  sn_key :: cohort_state_key
  sn_slab_id :: "int option"
  sn_slab_bytes :: int
  sn_version :: int
  sn_created_at :: pyfloat
  sn_last_used_at :: pyfloat
  sn_expires_at :: pyfloat
  sn_active_requests :: int
  sn_offloaded :: bool

record cohort_state =
  cs_key :: cohort_state_key
  cs_slab_id :: "int option"
  cs_slab_bytes :: int
  cs_version :: int
  cs_created_at :: pyfloat
  cs_last_used_at :: pyfloat
  cs_active_requests :: int
  cs_offloaded :: bool

datatype cohort_admission_reason =
    ADMITTED
  | ALREADY_RESIDENT
  | UNKNOWN_TENANT
  | TENANT_QUOTA
  | CAPACITY
  | OFFLOADED_RESTORE_REQUIRED

record cohort_admission =
  ca_admitted :: bool
  ca_reason :: cohort_admission_reason
  ca_state :: "cohort_state_snapshot option"

record cohort_reclamation_receipt =
  rr_key :: cohort_state_key
  rr_slab_id :: "int option"
  rr_reason_code :: string
  rr_reclaimed_at :: pyfloat

record cohort_transfer_receipt =
  tr_key :: cohort_state_key
  tr_operation :: string
  tr_slab_id :: int
  tr_bytes_transferred :: int
  tr_started_at :: pyfloat
  tr_completed_at :: pyfloat
  tr_mode :: cohort_offload_mode

record manager =
  m_capacity :: int
  m_slab_bytes :: int
  m_tenant_quotas :: "(string \<times> int) list"
  m_ttl_seconds :: pyfloat
  m_offload_mode :: cohort_offload_mode
  m_offloaded_capacity :: int
  m_free_slabs :: "int set"
  m_states :: "(cohort_state_key \<times> cohort_state) list"

section \<open>Operations\<close>

definition valid_time :: "pyfloat \<Rightarrow> bool" where
  "valid_time v \<longleftrightarrow> isfinite v \<and> \<not> pf_lt v (Fin 0)"

definition require_time :: "string \<Rightarrow> pyfloat \<Rightarrow> unit res" where
  "require_time name value =
     raise_if (\<not> valid_time value) (ValueError (name @ '' must be a finite non-negative time''))"

definition manager_init ::
  "int \<Rightarrow> int \<Rightarrow> (string \<times> int) list \<Rightarrow> pyfloat \<Rightarrow> cohort_offload_mode \<Rightarrow> int \<Rightarrow> manager res" where
  "manager_init capacity slab_bytes tenant_quotas ttl_seconds offload_mode offloaded_capacity =
     rbind (require_positive_int ''capacity'' capacity) (\<lambda>_.
     rbind (require_bytes ''slab_bytes'' slab_bytes) (\<lambda>_.
     rbind (raise_if (slab_bytes = 0) (ValueError ''slab_bytes must be positive'')) (\<lambda>_.
     rbind (require_time ''ttl_seconds'' ttl_seconds) (\<lambda>_.
     rbind (raise_if (ttl_seconds = Fin 0) (ValueError ''ttl_seconds must be positive'')) (\<lambda>_.
     rbind (raise_if (tenant_quotas = []) (ValueError ''at least one tenant quota is required'')) (\<lambda>_.
     rbind (require_bytes ''offloaded_capacity'' offloaded_capacity) (\<lambda>_.
     rbind (raise_if (offload_mode = DISABLED \<and> offloaded_capacity \<noteq> 0)
       (ValueError ''disabled offload mode cannot reserve a host tier'')) (\<lambda>_.
     rbind (raise_if (offload_mode = COLD_INACTIVE_TIMED \<and> offloaded_capacity = 0)
       (ValueError ''cold offload requires an explicit bounded host tier'')) (\<lambda>_.
     rbind (check_all (\<lambda>(tenant, quota).
         rbind (raise_if (\<not> canonical_text tenant)
           (ValueError ''tenant quota identity is not canonical'')) (\<lambda>_.
         rbind (require_positive_int ''tenant quota'' quota) (\<lambda>_.
         raise_if (capacity < quota)
           (ValueError ''tenant quota cannot exceed bounded K capacity'')))) tenant_quotas) (\<lambda>_.
     Inr \<lparr>m_capacity = capacity, m_slab_bytes = slab_bytes, m_tenant_quotas = tenant_quotas,
          m_ttl_seconds = ttl_seconds, m_offload_mode = offload_mode,
          m_offloaded_capacity = offloaded_capacity,
          m_free_slabs = set (int_range 0 capacity), m_states = []\<rparr>))))))))))"

definition resident :: "cohort_state \<Rightarrow> bool" where
  "resident s \<longleftrightarrow> cs_slab_id s \<noteq> None"

definition resident_count :: "manager \<Rightarrow> nat" where
  "resident_count m = dcount resident (m_states m)"

definition state_count :: "manager \<Rightarrow> nat" where
  "state_count m = length (m_states m)"

definition offloaded_count :: "manager \<Rightarrow> nat" where
  "offloaded_count m = dcount cs_offloaded (m_states m)"

definition tenant_resident_count :: "manager \<Rightarrow> string \<Rightarrow> nat" where
  "tenant_resident_count m t =
     dcount (\<lambda>s. ck_tenant_id (cs_key s) = t \<and> \<not> cs_offloaded s) (m_states m)"

definition snapshot_of :: "manager \<Rightarrow> cohort_state \<Rightarrow> cohort_state_snapshot" where
  "snapshot_of m s =
     \<lparr>sn_key = cs_key s, sn_slab_id = cs_slab_id s, sn_slab_bytes = cs_slab_bytes s,
      sn_version = cs_version s, sn_created_at = cs_created_at s,
      sn_last_used_at = cs_last_used_at s,
      sn_expires_at = pf_add (cs_last_used_at s) (m_ttl_seconds m),
      sn_active_requests = cs_active_requests s, sn_offloaded = cs_offloaded s\<rparr>"

definition snapshot :: "manager \<Rightarrow> cohort_state_key \<Rightarrow> cohort_state_snapshot option" where
  "snapshot m k = (case dget (m_states m) k of None \<Rightarrow> None | Some s \<Rightarrow> Some (snapshot_of m s))"

text \<open>The idiom \<open>state.last_used_at = max(state.last_used_at, now)\<close>, and writing a state back.\<close>

definition touch :: "pyfloat \<Rightarrow> cohort_state \<Rightarrow> cohort_state" where
  "touch now s = s\<lparr>cs_last_used_at := pf_max (cs_last_used_at s) now\<rparr>"

definition put :: "manager \<Rightarrow> cohort_state_key \<Rightarrow> cohort_state \<Rightarrow> manager" where
  "put m k s = m\<lparr>m_states := dset k s (m_states m)\<rparr>"

definition admit ::
  "manager \<Rightarrow> cohort_state_key \<Rightarrow> pyfloat \<Rightarrow> int \<Rightarrow> (manager, cohort_admission) op_result" where
  "admit m k now version =
    (if \<not> valid_time now then (m, Inl (ValueError ''now must be a finite non-negative time''))
     else if version < 0 then (m, Inl (ValueError ''version must be a non-negative integer''))
     else case dget (m_states m) k of
       Some existing \<Rightarrow>
         if cs_offloaded existing
         then (m, Inr \<lparr>ca_admitted = False, ca_reason = OFFLOADED_RESTORE_REQUIRED,
                       ca_state = Some (snapshot_of m existing)\<rparr>)
         else (put m k (touch now existing),
               Inr \<lparr>ca_admitted = True, ca_reason = ALREADY_RESIDENT,
                    ca_state = Some (snapshot_of m (touch now existing))\<rparr>)
     | None \<Rightarrow>
        (case dget (m_tenant_quotas m) (ck_tenant_id k) of
           None \<Rightarrow> (m, Inr \<lparr>ca_admitted = False, ca_reason = UNKNOWN_TENANT, ca_state = None\<rparr>)
         | Some quota \<Rightarrow>
             if quota \<le> int (tenant_resident_count m (ck_tenant_id k))
             then (m, Inr \<lparr>ca_admitted = False, ca_reason = TENANT_QUOTA, ca_state = None\<rparr>)
             else if m_capacity m + m_offloaded_capacity m \<le> int (state_count m)
                   \<or> m_capacity m \<le> int (resident_count m) \<or> m_free_slabs m = {}
             then (m, Inr \<lparr>ca_admitted = False, ca_reason = CAPACITY, ca_state = None\<rparr>)
             else let slab = Min (m_free_slabs m);
                      s = \<lparr>cs_key = k, cs_slab_id = Some slab, cs_slab_bytes = m_slab_bytes m,
                           cs_version = version, cs_created_at = now, cs_last_used_at = now,
                           cs_active_requests = 0, cs_offloaded = False\<rparr>
                  in (put (m\<lparr>m_free_slabs := m_free_slabs m - {slab}\<rparr>) k s,
                      Inr \<lparr>ca_admitted = True, ca_reason = ADMITTED,
                           ca_state = Some (snapshot_of m s)\<rparr>)))"

definition acquire ::
  "manager \<Rightarrow> cohort_state_key \<Rightarrow> pyfloat \<Rightarrow> (manager, cohort_state_snapshot) op_result" where
  "acquire m k now =
    (if \<not> valid_time now then (m, Inl (ValueError ''now must be a finite non-negative time''))
     else case dget (m_states m) k of
       None \<Rightarrow> (m, Inl (KeyError ''cohort state does not exist for this tenant identity''))
     | Some s \<Rightarrow>
         if cs_offloaded s \<or> cs_slab_id s = None
         then (m, Inl (RuntimeError ''cold cohort state must be restored before acquisition''))
         else let s' = touch now (s\<lparr>cs_active_requests := cs_active_requests s + 1\<rparr>)
              in (put m k s', Inr (snapshot_of m s')))"

definition release ::
  "manager \<Rightarrow> cohort_state_key \<Rightarrow> pyfloat \<Rightarrow> (manager, cohort_state_snapshot) op_result" where
  "release m k now =
    (if \<not> valid_time now then (m, Inl (ValueError ''now must be a finite non-negative time''))
     else case dget (m_states m) k of
       None \<Rightarrow> (m, Inl (KeyError ''cohort state does not exist for this tenant identity''))
     | Some s \<Rightarrow>
         if cs_active_requests s = 0
         then (m, Inl (RuntimeError ''cohort state has no active request to release''))
         else let s' = touch now (s\<lparr>cs_active_requests := cs_active_requests s - 1\<rparr>)
              in (put m k s', Inr (snapshot_of m s')))"

definition publish_version ::
  "manager \<Rightarrow> cohort_state_key \<Rightarrow> int \<Rightarrow> int \<Rightarrow> pyfloat \<Rightarrow> (manager, cohort_state_snapshot) op_result" where
  "publish_version m k source_version new_version now =
    (if \<not> valid_time now then (m, Inl (ValueError ''now must be a finite non-negative time''))
     else case dget (m_states m) k of
       None \<Rightarrow> (m, Inl (RuntimeError ''only resident cohort state can publish''))
     | Some s \<Rightarrow>
         if cs_offloaded s then (m, Inl (RuntimeError ''only resident cohort state can publish''))
         else if cs_version s \<noteq> source_version \<or> new_version \<noteq> source_version + 1
         then (m, Inl (ValueError ''cohort publication version conflict''))
         else let s' = touch now (s\<lparr>cs_version := new_version\<rparr>)
              in (put m k s', Inr (snapshot_of m s')))"

definition reclaim ::
  "manager \<Rightarrow> cohort_state_key \<Rightarrow> pyfloat \<Rightarrow> string \<Rightarrow> (manager, cohort_reclamation_receipt) op_result" where
  "reclaim m k now reason_code =
    (if \<not> valid_time now then (m, Inl (ValueError ''now must be a finite non-negative time''))
     else if \<not> canonical_text reason_code
     then (m, Inl (ValueError ''reclamation requires a canonical reason code''))
     else case dget (m_states m) k of
       None \<Rightarrow> (m, Inl (KeyError ''cohort state does not exist for this tenant identity''))
     | Some s \<Rightarrow>
         if cs_active_requests s \<noteq> 0
         then (m, Inl (RuntimeError ''active cohort state cannot be reclaimed''))
         else (m\<lparr>m_free_slabs := (case cs_slab_id s of None \<Rightarrow> m_free_slabs m
                                  | Some slab \<Rightarrow> insert slab (m_free_slabs m)),
                 m_states := ddel k (m_states m)\<rparr>,
               Inr \<lparr>rr_key = k, rr_slab_id = cs_slab_id s, rr_reason_code = reason_code,
                    rr_reclaimed_at = now\<rparr>))"

fun reclaim_each ::
  "manager \<Rightarrow> cohort_state list \<Rightarrow> pyfloat \<Rightarrow> string
     \<Rightarrow> (manager, cohort_reclamation_receipt list) op_result" where
  "reclaim_each m [] now reason_code = (m, Inr [])"
| "reclaim_each m (s # ss) now reason_code =
     and_then (reclaim m (cs_key s) now reason_code) (\<lambda>m r.
     and_then (reclaim_each m ss now reason_code) (\<lambda>m rs. (m, Inr (r # rs))))"

definition expired :: "manager \<Rightarrow> pyfloat \<Rightarrow> cohort_state \<Rightarrow> bool" where
  "expired m now s \<longleftrightarrow>
     cs_active_requests s = 0 \<and> pf_le (pf_add (cs_last_used_at s) (m_ttl_seconds m)) now"

definition reclaim_expired ::
  "manager \<Rightarrow> pyfloat \<Rightarrow> (manager, cohort_reclamation_receipt list) op_result" where
  "reclaim_expired m now =
    (if \<not> valid_time now then (m, Inl (ValueError ''now must be a finite non-negative time''))
     else reclaim_each m
       (sort_key (\<lambda>s. (cs_last_used_at s, ck_tenant_id (cs_key s), ck_cohort_sha256 (cs_key s),
                       ck_replica_id (cs_key s)))
          (filter (expired m now) (dvalues (m_states m))))
       now ''ttl_expired'')"

definition lru_key :: "cohort_state \<Rightarrow> pyfloat \<times> pyfloat \<times> string \<times> string \<times> int" where
  "lru_key s = (cs_last_used_at s, cs_created_at s, ck_tenant_id (cs_key s),
     ck_cohort_sha256 (cs_key s), ck_replica_id (cs_key s))"

definition reclaim_lru ::
  "manager \<Rightarrow> int \<Rightarrow> pyfloat \<Rightarrow> (manager, cohort_reclamation_receipt list) op_result" where
  "reclaim_lru m how_many now =
    (if how_many < 1 then (m, Inl (ValueError ''count must be a positive integer''))
     else if \<not> valid_time now then (m, Inl (ValueError ''now must be a finite non-negative time''))
     else reclaim_each m
       (take (nat how_many) (sort_key lru_key
          (filter (\<lambda>s. cs_active_requests s = 0) (dvalues (m_states m)))))
       now ''lru_reclaimed'')"

definition offload_cold ::
  "manager \<Rightarrow> cohort_state_key \<Rightarrow> pyfloat \<Rightarrow> pyfloat \<Rightarrow> (manager, cohort_transfer_receipt) op_result" where
  "offload_cold m k started_at completed_at =
    (if m_offload_mode m \<noteq> COLD_INACTIVE_TIMED
     then (m, Inl (RuntimeError ''cold offload mode is not explicitly enabled''))
     else if \<not> valid_time started_at
     then (m, Inl (ValueError ''started_at must be a finite non-negative time''))
     else if \<not> valid_time completed_at
     then (m, Inl (ValueError ''completed_at must be a finite non-negative time''))
     else if pf_lt completed_at started_at
     then (m, Inl (ValueError ''offload completion precedes its start''))
     else case dget (m_states m) k of
       None \<Rightarrow> (m, Inl (KeyError ''cohort state does not exist for this tenant identity''))
     | Some s \<Rightarrow>
         if cs_active_requests s \<noteq> 0
         then (m, Inl (RuntimeError ''active cohort state cannot be offloaded''))
         else (case cs_slab_id s of
           None \<Rightarrow> (m, Inl (RuntimeError ''cohort state is already offloaded''))
         | Some slab \<Rightarrow>
             if cs_offloaded s then (m, Inl (RuntimeError ''cohort state is already offloaded''))
             else if m_offloaded_capacity m \<le> int (offloaded_count m)
             then (m, Inl (MemoryError ''bounded cold-host cohort tier is full''))
             else (put (m\<lparr>m_free_slabs := insert slab (m_free_slabs m)\<rparr>) k
                     (touch completed_at (s\<lparr>cs_slab_id := None, cs_offloaded := True\<rparr>)),
                   Inr \<lparr>tr_key = k, tr_operation = ''cold_offload'', tr_slab_id = slab,
                        tr_bytes_transferred = cs_slab_bytes s, tr_started_at = started_at,
                        tr_completed_at = completed_at, tr_mode = m_offload_mode m\<rparr>)))"

definition restore_cold ::
  "manager \<Rightarrow> cohort_state_key \<Rightarrow> pyfloat \<Rightarrow> pyfloat \<Rightarrow> (manager, cohort_transfer_receipt) op_result" where
  "restore_cold m k started_at completed_at =
    (if m_offload_mode m \<noteq> COLD_INACTIVE_TIMED
     then (m, Inl (RuntimeError ''cold offload mode is not explicitly enabled''))
     else if \<not> valid_time started_at
     then (m, Inl (ValueError ''started_at must be a finite non-negative time''))
     else if \<not> valid_time completed_at
     then (m, Inl (ValueError ''completed_at must be a finite non-negative time''))
     else if pf_lt completed_at started_at
     then (m, Inl (ValueError ''restore completion precedes its start''))
     else case dget (m_states m) k of
       None \<Rightarrow> (m, Inl (KeyError ''cohort state does not exist for this tenant identity''))
     | Some s \<Rightarrow>
         if \<not> cs_offloaded s \<or> cs_slab_id s \<noteq> None
         then (m, Inl (RuntimeError ''cohort state is already resident''))
         else if m_free_slabs m = {}
         then (m, Inl (MemoryError ''no fixed cohort slab is available for restore''))
         else let slab = Min (m_free_slabs m) in
           (put (m\<lparr>m_free_slabs := m_free_slabs m - {slab}\<rparr>) k
              (touch completed_at (s\<lparr>cs_slab_id := Some slab, cs_offloaded := False\<rparr>)),
            Inr \<lparr>tr_key = k, tr_operation = ''cold_restore'', tr_slab_id = slab,
                 tr_bytes_transferred = cs_slab_bytes s, tr_started_at = started_at,
                 tr_completed_at = completed_at, tr_mode = m_offload_mode m\<rparr>))"

text \<open>A caller drives the manager by a sequence of these calls.\<close>

datatype manager_call =
    Admit cohort_state_key pyfloat int
  | Acquire cohort_state_key pyfloat
  | Release cohort_state_key pyfloat
  | Publish_Version cohort_state_key int int pyfloat
  | Reclaim cohort_state_key pyfloat string
  | Reclaim_Expired pyfloat
  | Reclaim_Lru int pyfloat
  | Offload_Cold cohort_state_key pyfloat pyfloat
  | Restore_Cold cohort_state_key pyfloat pyfloat

fun manager_step :: "manager \<Rightarrow> manager_call \<Rightarrow> manager" where
  "manager_step m (Admit k now v) = fst (admit m k now v)"
| "manager_step m (Acquire k now) = fst (acquire m k now)"
| "manager_step m (Release k now) = fst (release m k now)"
| "manager_step m (Publish_Version k s n now) = fst (publish_version m k s n now)"
| "manager_step m (Reclaim k now r) = fst (reclaim m k now r)"
| "manager_step m (Reclaim_Expired now) = fst (reclaim_expired m now)"
| "manager_step m (Reclaim_Lru c now) = fst (reclaim_lru m c now)"
| "manager_step m (Offload_Cold k a b) = fst (offload_cold m k a b)"
| "manager_step m (Restore_Cold k a b) = fst (restore_cold m k a b)"

abbreviation manager_run :: "manager \<Rightarrow> manager_call list \<Rightarrow> manager" where
  "manager_run \<equiv> foldl manager_step"

section \<open>The invariant\<close>

text \<open>The slabs held by the states, as a bag.\<close>

definition slab_of :: "cohort_state \<Rightarrow> int multiset" where
  "slab_of s = (case cs_slab_id s of None \<Rightarrow> {#} | Some i \<Rightarrow> {#i#})"

definition slab_bag :: "manager \<Rightarrow> int multiset" where
  "slab_bag m = dsum slab_of (m_states m)"

definition state_ok :: "manager \<Rightarrow> cohort_state_key \<Rightarrow> cohort_state \<Rightarrow> bool" where
  "state_ok m k s \<longleftrightarrow> cs_key s = k \<and> (cs_offloaded s \<longleftrightarrow> cs_slab_id s = None)
     \<and> 0 \<le> cs_active_requests s \<and> (cs_offloaded s \<longrightarrow> cs_active_requests s = 0)
     \<and> valid_time (cs_created_at s) \<and> valid_time (cs_last_used_at s)
     \<and> cs_slab_bytes s = m_slab_bytes m"

definition quota_of :: "manager \<Rightarrow> string \<Rightarrow> int" where
  "quota_of m t = (case dget (m_tenant_quotas m) t of None \<Rightarrow> 0 | Some q \<Rightarrow> q)"

definition manager_inv :: "manager \<Rightarrow> bool" where
  "manager_inv m \<longleftrightarrow>
     distinct (dkeys (m_states m)) \<and> finite (m_free_slabs m)
     \<and> slab_bag m + mset_set (m_free_slabs m) = mset_set {0..<m_capacity m}
     \<and> (\<forall>k s. dget (m_states m) k = Some s \<longrightarrow> state_ok m k s)
     \<and> int (offloaded_count m) \<le> m_offloaded_capacity m
     \<and> (m_offload_mode m = DISABLED \<longrightarrow> (\<forall>t. int (tenant_resident_count m t) \<le> quota_of m t))"

lemma manager_invD:
  assumes "manager_inv m"
  shows "distinct (dkeys (m_states m))" "finite (m_free_slabs m)"
    "slab_bag m + mset_set (m_free_slabs m) = mset_set {0..<m_capacity m}"
    "dget (m_states m) k = Some s \<Longrightarrow> state_ok m k s"
    "int (offloaded_count m) \<le> m_offloaded_capacity m"
    "m_offload_mode m = DISABLED \<Longrightarrow> int (tenant_resident_count m t) \<le> quota_of m t"
  using assms by (auto simp: manager_inv_def)

lemma valid_time_max: "valid_time a \<Longrightarrow> valid_time b \<Longrightarrow> valid_time (pf_max a b)"
  by (simp add: valid_time_def pf_max_def)

lemma put_simps [simp]:
  "m_capacity (put m k s) = m_capacity m" "m_slab_bytes (put m k s) = m_slab_bytes m"
  "m_tenant_quotas (put m k s) = m_tenant_quotas m" "m_ttl_seconds (put m k s) = m_ttl_seconds m"
  "m_offload_mode (put m k s) = m_offload_mode m"
  "m_offloaded_capacity (put m k s) = m_offloaded_capacity m"
  "m_free_slabs (put m k s) = m_free_slabs m" "m_states (put m k s) = dset k s (m_states m)"
  by (simp_all add: put_def)

lemma touch_simps [simp]:
  "cs_key (touch now s) = cs_key s" "cs_slab_id (touch now s) = cs_slab_id s"
  "cs_slab_bytes (touch now s) = cs_slab_bytes s" "cs_version (touch now s) = cs_version s"
  "cs_created_at (touch now s) = cs_created_at s"
  "cs_active_requests (touch now s) = cs_active_requests s"
  "cs_offloaded (touch now s) = cs_offloaded s"
  "cs_last_used_at (touch now s) = pf_max (cs_last_used_at s) now"
  by (simp_all add: touch_def)

lemma quota_of_cong: "m_tenant_quotas m' = m_tenant_quotas m \<Longrightarrow> quota_of m' t = quota_of m t"
  by (simp add: quota_of_def)

lemma state_ok_cong: "m_slab_bytes m' = m_slab_bytes m \<Longrightarrow> state_ok m' k s = state_ok m k s"
  by (simp add: state_ok_def)

text \<open>What rewriting or removing one state does to the sums over all states.\<close>

lemma sums_dset:
  assumes "distinct (dkeys (m_states m))" "m_states m' = dset k s' (m_states m)"
    "dget (m_states m) k = Some s"
  shows "slab_bag m' + slab_of s = slab_bag m + slab_of s'"
    "offloaded_count m' + of_bool (cs_offloaded s) = offloaded_count m + of_bool (cs_offloaded s')"
    "resident_count m' + of_bool (resident s) = resident_count m + of_bool (resident s')"
    "tenant_resident_count m' t + of_bool (ck_tenant_id (cs_key s) = t \<and> \<not> cs_offloaded s)
      = tenant_resident_count m t + of_bool (ck_tenant_id (cs_key s') = t \<and> \<not> cs_offloaded s')"
  unfolding slab_bag_def offloaded_count_def resident_count_def tenant_resident_count_def
  by (simp_all add: assms(2) dsum_dset [OF assms(1)] dcount_dset [OF assms(1)]
      dsum_split [OF assms(1,3)] dcount_split [OF assms(1,3)])

lemma sums_dset_new:
  assumes "distinct (dkeys (m_states m))" "m_states m' = dset k s' (m_states m)"
    "dget (m_states m) k = None"
  shows "slab_bag m' = slab_bag m + slab_of s'"
    "offloaded_count m' = offloaded_count m + of_bool (cs_offloaded s')"
    "resident_count m' = resident_count m + of_bool (resident s')"
    "tenant_resident_count m' t
      = tenant_resident_count m t + of_bool (ck_tenant_id (cs_key s') = t \<and> \<not> cs_offloaded s')"
  unfolding slab_bag_def offloaded_count_def resident_count_def tenant_resident_count_def
  by (simp_all add: assms(2) dsum_dset [OF assms(1)] dcount_dset [OF assms(1)]
      ddel_absent [OF assms(3)])

lemma sums_ddel:
  assumes "distinct (dkeys (m_states m))" "m_states m' = ddel k (m_states m)"
    "dget (m_states m) k = Some s"
  shows "slab_bag m' + slab_of s = slab_bag m"
    "offloaded_count m' + of_bool (cs_offloaded s) = offloaded_count m"
    "resident_count m' + of_bool (resident s) = resident_count m"
    "tenant_resident_count m' t + of_bool (ck_tenant_id (cs_key s) = t \<and> \<not> cs_offloaded s)
      = tenant_resident_count m t"
  unfolding slab_bag_def offloaded_count_def resident_count_def tenant_resident_count_def
  by (simp_all add: assms(2) dsum_split [OF assms(1,3)] dcount_split [OF assms(1,3)])

text \<open>Free slabs and held slabs are disjoint, and both are slabs of the pool.\<close>

lemma held_slab:
  assumes "manager_inv m" "dget (m_states m) k = Some s" "cs_slab_id s = Some i"
  shows "i \<in> {0..<m_capacity m}" "i \<notin> m_free_slabs m"
proof -
  note I = manager_invD [OF assms(1)]
  have "i \<in># slab_bag m"
    unfolding slab_bag_def dsum_split [OF I(1) assms(2)] by (simp add: slab_of_def assms(3))
  with I(3) have "i \<in># mset_set {0..<m_capacity m}" by (metis union_iff)
  then show "i \<in> {0..<m_capacity m}" by simp
  show "i \<notin> m_free_slabs m"
  proof
    assume "i \<in> m_free_slabs m"
    with \<open>i \<in># slab_bag m\<close> I(2) have "2 \<le> count (slab_bag m + mset_set (m_free_slabs m)) i"
      by (simp add: count_greater_zero_iff Suc_le_eq)
    then show False unfolding I(3) by (simp add: count_mset_set' split: if_splits)
  qed
qed

lemma free_slab:
  assumes "manager_inv m" "m_free_slabs m \<noteq> {}"
  shows "Min (m_free_slabs m) \<in> m_free_slabs m"
    "mset_set (m_free_slabs m) = add_mset (Min (m_free_slabs m)) (mset_set (m_free_slabs m - {Min (m_free_slabs m)}))"
proof -
  have fin: "finite (m_free_slabs m)" by (rule manager_invD(2) [OF assms(1)])
  show mem: "Min (m_free_slabs m) \<in> m_free_slabs m" using fin assms(2) by simp
  show "mset_set (m_free_slabs m) = add_mset (Min (m_free_slabs m)) (mset_set (m_free_slabs m - {Min (m_free_slabs m)}))"
    by (rule mset_set.remove [OF fin mem])
qed

text \<open>An operation that only rewrites a state's version, use count or time keeps the invariant.\<close>

lemma put_inv:
  assumes "manager_inv m" "dget (m_states m) k = Some s" "state_ok m k s'"
    "cs_slab_id s' = cs_slab_id s"
  shows "manager_inv (put m k s')"
proof -
  note I = manager_invD [OF assms(1)]
  have ok: "state_ok m k s" by (rule I(4) [OF assms(2)])
  then have same: "slab_of s' = slab_of s" "cs_offloaded s' = cs_offloaded s" "cs_key s' = cs_key s"
    using assms(3,4) by (simp_all add: slab_of_def state_ok_def)
  note S = sums_dset [OF I(1) put_simps(8) assms(2), of s', unfolded same]
  show ?thesis
    unfolding manager_inv_def
    using I S assms(3)
    by (auto simp: dict_simps quota_of_cong [of "put m k s'" m] state_ok_cong [of "put m k s'" m])
qed

lemma manager_init_inv:
  assumes "manager_init cap bytes quotas ttl mode offcap = Inr m"
  shows "manager_inv m"
proof -
  have "\<forall>(t, q) \<in> set quotas. 0 \<le> q" and c: "0 \<le> offcap"
    and m: "m_states m = []" "m_free_slabs m = {0..<cap}" "m_capacity m = cap"
      "m_offloaded_capacity m = offcap" "m_tenant_quotas m = quotas"
    using assms
    by (force simp: manager_init_def require_positive_int_def require_bytes_def require_time_def
        split: if_splits)+
  then have "0 \<le> quota_of m t" for t
    by (auto simp: quota_of_def dest: map_of_SomeD split: option.splits)
  with c m show ?thesis
    by (simp add: manager_inv_def slab_bag_def offloaded_count_def tenant_resident_count_def)
qed

lemma admit_inv [invariant_intros]:
  assumes "manager_inv m"
  shows "manager_inv (fst (admit m k now v))"
proof (cases "fst (admit m k now v) = m")
  case True
  with assms show ?thesis by simp
next
  case False
  note I = manager_invD [OF assms]
  show ?thesis
  proof (cases "dget (m_states m) k")
    case (Some s)
    with False have "fst (admit m k now v) = put m k (touch now s)" "valid_time now"
      by (simp_all add: admit_def split: if_splits)
    then show ?thesis
      using put_inv [OF assms Some, of "touch now s"] I(4) [OF Some]
      by (simp add: state_ok_def valid_time_max)
  next
    case None
    obtain q where q: "dget (m_tenant_quotas m) (ck_tenant_id k) = Some q"
      "int (tenant_resident_count m (ck_tenant_id k)) < q" and now: "valid_time now"
      and free: "m_free_slabs m \<noteq> {}"
      using False None by (simp add: admit_def not_le split: option.splits if_splits)
    define s where "s = \<lparr>cs_key = k, cs_slab_id = Some (Min (m_free_slabs m)), cs_slab_bytes = m_slab_bytes m,
        cs_version = v, cs_created_at = now, cs_last_used_at = now,
        cs_active_requests = 0, cs_offloaded = False\<rparr>"
    define m' where "m' = put (m\<lparr>m_free_slabs := m_free_slabs m - {Min (m_free_slabs m)}\<rparr>) k s"
    have eq: "fst (admit m k now v) = m'"
      using False None q by (simp add: admit_def Let_def s_def m'_def split: if_splits)
    have st: "m_states m' = dset k s (m_states m)" by (simp add: m'_def)
    note S = sums_dset_new [OF I(1) st None]
    have "slab_bag m' = slab_bag m + {#Min (m_free_slabs m)#}"
      using S(1) by (simp add: s_def slab_of_def)
    moreover have "m_free_slabs m' = m_free_slabs m - {Min (m_free_slabs m)}" by (simp add: m'_def)
    ultimately have "slab_bag m' + mset_set (m_free_slabs m') = mset_set {0..<m_capacity m}"
      using I(3) free_slab(2) [OF assms free] by simp
    then show ?thesis
      unfolding eq manager_inv_def
      using I(1,2,4,5,6) S(2,4) q now
      by (simp add: m'_def s_def dict_simps state_ok_def quota_of_def)
  qed
qed

lemma acquire_inv [invariant_intros]: "manager_inv m \<Longrightarrow> manager_inv (fst (acquire m k now))"
  by (auto simp: acquire_def Let_def state_ok_def valid_time_max split: option.splits
      dest: manager_invD(4) intro!: put_inv)

lemma release_inv [invariant_intros]: "manager_inv m \<Longrightarrow> manager_inv (fst (release m k now))"
  by (auto simp: release_def Let_def state_ok_def valid_time_max split: option.splits
      dest: manager_invD(4) intro!: put_inv)

lemma publish_version_inv [invariant_intros]:
  "manager_inv m \<Longrightarrow> manager_inv (fst (publish_version m k s n now))"
  by (auto simp: publish_version_def Let_def state_ok_def valid_time_max split: option.splits
      dest: manager_invD(4) intro!: put_inv)

lemma reclaim_Inr:
  "valid_time now \<Longrightarrow> canonical_text r \<Longrightarrow> dget (m_states m) k = Some s \<Longrightarrow> cs_active_requests s = 0 \<Longrightarrow>
     reclaim m k now r =
       (m\<lparr>m_free_slabs := m_free_slabs m \<union> set_mset (slab_of s), m_states := ddel k (m_states m)\<rparr>,
        Inr \<lparr>rr_key = k, rr_slab_id = cs_slab_id s, rr_reason_code = r, rr_reclaimed_at = now\<rparr>)"
  by (auto simp: reclaim_def slab_of_def split: option.splits)

lemma reclaim_inv [invariant_intros]:
  assumes "manager_inv m"
  shows "manager_inv (fst (reclaim m k now r))"
proof (cases "\<exists>s. dget (m_states m) k = Some s \<and> cs_active_requests s = 0 \<and> valid_time now \<and> canonical_text r")
  case False
  then have "fst (reclaim m k now r) = m"
    by (auto simp: reclaim_def split: option.splits)
  with assms show ?thesis by simp
next
  case True
  then obtain s where s: "dget (m_states m) k = Some s" "cs_active_requests s = 0" "valid_time now" "canonical_text r"
    by blast
  note I = manager_invD [OF assms]
  define m' where "m' = m\<lparr>m_free_slabs := m_free_slabs m \<union> set_mset (slab_of s), m_states := ddel k (m_states m)\<rparr>"
  have st: "m_states m' = ddel k (m_states m)" by (simp add: m'_def)
  note S = sums_ddel [OF I(1) st s(1)]
  have "mset_set (m_free_slabs m') = mset_set (m_free_slabs m) + slab_of s"
    using held_slab(2) [OF assms s(1)] I(2)
    by (auto simp: m'_def slab_of_def split: option.splits)
  with I(3) S(1) have "slab_bag m' + mset_set (m_free_slabs m') = mset_set {0..<m_capacity m}"
    by (metis add.assoc add.commute)
  moreover have "int (tenant_resident_count m' t) \<le> quota_of m t" if "m_offload_mode m = DISABLED" for t
    using S(4) [of t] I(6) [OF that, of t] by linarith
  ultimately have "manager_inv m'"
    unfolding manager_inv_def
    using I(1,2,4,5) S(2) by (auto simp: m'_def dict_simps state_ok_def quota_of_def)
  then show ?thesis using reclaim_Inr [OF s(3,4,1,2)] by (simp add: m'_def)
qed

lemma reclaim_each_inv [invariant_intros]:
  "manager_inv m \<Longrightarrow> manager_inv (fst (reclaim_each m ss now r))"
proof (induction ss arbitrary: m)
  case (Cons s ss)
  have "manager_inv (fst (reclaim m (cs_key s) now r))" by (rule reclaim_inv [OF Cons.prems])
  then show ?case
    using Cons.IH
    by (auto simp: and_then_def split: prod.splits sum.splits) (metis fst_conv)+
qed simp

lemma offload_cold_inv [invariant_intros]:
  assumes "manager_inv m"
  shows "manager_inv (fst (offload_cold m k a b))"
proof (cases "m_states m = m_states (fst (offload_cold m k a b)) \<and> fst (offload_cold m k a b) = m")
  case True
  with assms show ?thesis by simp
next
  case False
  then obtain s i where s: "dget (m_states m) k = Some s" "cs_slab_id s = Some i" "\<not> cs_offloaded s"
    "cs_active_requests s = 0" "int (offloaded_count m) < m_offloaded_capacity m" "valid_time b"
    "m_offload_mode m = COLD_INACTIVE_TIMED"
    by (auto simp: offload_cold_def split: option.splits if_splits)
  note I = manager_invD [OF assms]
  define s' where "s' = touch b (s\<lparr>cs_slab_id := None, cs_offloaded := True\<rparr>)"
  define m' where "m' = put (m\<lparr>m_free_slabs := insert i (m_free_slabs m)\<rparr>) k s'"
  have eq: "fst (offload_cold m k a b) = m'"
    using False s by (auto simp: offload_cold_def m'_def s'_def split: if_splits)
  have st: "m_states m' = dset k s' (m_states m)" by (simp add: m'_def)
  note S = sums_dset [OF I(1) st s(1)]
  have slabs: "mset_set (m_free_slabs m') = add_mset i (mset_set (m_free_slabs m))"
    using held_slab(2) [OF assms s(1,2)] I(2) by (simp add: m'_def)
  have "slab_bag m' + {#i#} = slab_bag m"
    using S(1) s(2) by (simp add: s'_def slab_of_def)
  with I(3) slabs have "slab_bag m' + mset_set (m_free_slabs m') = mset_set {0..<m_capacity m}"
    by (metis add_mset_add_single union_mset_add_mset_left union_mset_add_mset_right)
  then show ?thesis
    unfolding eq manager_inv_def
    using I(1,2,4) S(2) s I(4) [OF s(1)]
    by (auto simp: m'_def s'_def dict_simps state_ok_def valid_time_max)
qed

lemma restore_cold_inv [invariant_intros]:
  assumes "manager_inv m"
  shows "manager_inv (fst (restore_cold m k a b))"
proof (cases "fst (restore_cold m k a b) = m")
  case True
  with assms show ?thesis by simp
next
  case False
  then obtain s where s: "dget (m_states m) k = Some s" "cs_slab_id s = None" "cs_offloaded s"
    "m_free_slabs m \<noteq> {}" "valid_time b" "m_offload_mode m = COLD_INACTIVE_TIMED"
    by (auto simp: restore_cold_def split: option.splits if_splits)
  note I = manager_invD [OF assms]
  define i where "i = Min (m_free_slabs m)"
  define s' where "s' = touch b (s\<lparr>cs_slab_id := Some i, cs_offloaded := False\<rparr>)"
  define m' where "m' = put (m\<lparr>m_free_slabs := m_free_slabs m - {i}\<rparr>) k s'"
  have eq: "fst (restore_cold m k a b) = m'"
    using False s by (auto simp: restore_cold_def Let_def m'_def s'_def i_def split: if_splits)
  have st: "m_states m' = dset k s' (m_states m)" by (simp add: m'_def)
  note S = sums_dset [OF I(1) st s(1)]
  have "slab_bag m' = slab_bag m + {#i#}"
    using S(1) s(2) by (simp add: s'_def slab_of_def)
  then have "slab_bag m' + mset_set (m_free_slabs m') = mset_set {0..<m_capacity m}"
    using I(3) free_slab(2) [OF assms s(4)] by (simp add: m'_def i_def)
  then show ?thesis
    unfolding eq manager_inv_def
    using I(1,2,4,5) S(2) s I(4) [OF s(1)]
    by (auto simp: m'_def s'_def dict_simps state_ok_def valid_time_max)
qed

lemma manager_step_inv: "manager_inv m \<Longrightarrow> manager_inv (manager_step m c)"
  by (cases c) (auto simp: reclaim_expired_def reclaim_lru_def intro: invariant_intros)

text \<open>The configuration of a manager never changes.\<close>

definition manager_config ::
  "manager \<Rightarrow> int \<times> int \<times> (string \<times> int) list \<times> pyfloat \<times> cohort_offload_mode \<times> int" where
  "manager_config m = (m_capacity m, m_slab_bytes m, m_tenant_quotas m, m_ttl_seconds m,
     m_offload_mode m, m_offloaded_capacity m)"

lemma reclaim_config: "manager_config (fst (reclaim m k now r)) = manager_config m"
  by (auto simp: reclaim_def manager_config_def split: option.splits)

lemma reclaim_each_config: "manager_config (fst (reclaim_each m ss now r)) = manager_config m"
proof (induction ss arbitrary: m)
  case (Cons s ss)
  then show ?case
    using reclaim_config [of m "cs_key s" now r]
    by (auto simp: and_then_def split: prod.splits sum.splits) (metis fst_conv)+
qed simp

lemma manager_step_config: "manager_config (manager_step m c) = manager_config m"
proof (cases c)
  case (Reclaim k now r)
  then show ?thesis by (simp add: reclaim_config)
next
  case (Reclaim_Expired now)
  then show ?thesis by (simp add: reclaim_expired_def reclaim_each_config)
next
  case (Reclaim_Lru n now)
  then show ?thesis by (simp add: reclaim_lru_def reclaim_each_config)
qed (auto simp: admit_def acquire_def release_def publish_version_def offload_cold_def
      restore_cold_def Let_def put_def manager_config_def split: option.splits)

interpretation cohort_manager:
  monotone_machine manager_step manager_inv "\<lambda>m m'. manager_config m = manager_config m'"
  by unfold_locales (auto simp: manager_step_config intro: manager_step_inv)

text \<open>What the initial manager gives every run.\<close>

lemma manager_run_facts:
  assumes "manager_init cap bytes quotas ttl mode offcap = Inr m\<^sub>0"
  shows "manager_inv (manager_run m\<^sub>0 calls)"
    "manager_config (manager_run m\<^sub>0 calls) = (cap, bytes, quotas, ttl, mode, offcap)"
proof -
  have inv: "manager_inv m\<^sub>0" by (rule manager_init_inv [OF assms])
  then show "manager_inv (manager_run m\<^sub>0 calls)" by (rule cohort_manager.run_inv)
  have "manager_config m\<^sub>0 = (cap, bytes, quotas, ttl, mode, offcap)"
    using assms by (auto simp: manager_init_def manager_config_def)
  with cohort_manager.run_le [OF inv, of calls]
  show "manager_config (manager_run m\<^sub>0 calls) = (cap, bytes, quotas, ttl, mode, offcap)" by simp
qed

lemma size_slab_bag: "size (slab_bag m) = resident_count m"
proof -
  have "size (dsum slab_of d) = dcount resident d" for d :: "(cohort_state_key \<times> cohort_state) list"
    by (induction d) (auto simp: dcount_def slab_of_def resident_def split: option.splits)
  then show ?thesis by (simp add: slab_bag_def resident_count_def)
qed

lemma resident_offloaded_count:
  assumes "manager_inv m"
  shows "resident_count m + offloaded_count m = state_count m"
proof -
  have "resident_count m = dcount (\<lambda>s. \<not> cs_offloaded s) (m_states m)"
    unfolding resident_count_def dcount_filter
  proof (rule arg_cong [where f = length], rule filter_cong [OF refl])
    fix s assume "s \<in> set (dvalues (m_states m))"
    then obtain k where "(k, s) \<in> set (m_states m)" by auto
    with manager_invD(1) [OF assms] have "dget (m_states m) k = Some s" by simp
    then show "resident s \<longleftrightarrow> \<not> cs_offloaded s"
      using manager_invD(4) [OF assms] by (auto simp: state_ok_def resident_def)
  qed
  with dcount_compl [of cs_offloaded "m_states m"] show ?thesis
    by (simp add: offloaded_count_def state_count_def)
qed

lemma slab_counts:
  assumes "manager_inv m" "1 \<le> m_capacity m"
  shows "int (resident_count m) + int (card (m_free_slabs m)) = m_capacity m"
    "int (state_count m) \<le> m_capacity m + m_offloaded_capacity m"
proof -
  have "size (slab_bag m + mset_set (m_free_slabs m)) = nat (m_capacity m)"
    unfolding manager_invD(3) [OF assms(1)] by simp
  with assms(2) show c: "int (resident_count m) + int (card (m_free_slabs m)) = m_capacity m"
    by (simp add: size_slab_bag)
  with resident_offloaded_count [OF assms(1)] manager_invD(5) [OF assms(1)]
  show "int (state_count m) \<le> m_capacity m + m_offloaded_capacity m" by linarith
qed

lemma held_slabs_distinct:
  assumes "manager_inv m" "dget (m_states m) k = Some s" "dget (m_states m) k' = Some s'" "k \<noteq> k'"
    "cs_slab_id s = Some i" "cs_slab_id s' = Some i'"
  shows "i \<noteq> i'"
proof
  assume same: "i = i'"
  note I = manager_invD [OF assms(1)]
  have "dget (ddel k (m_states m)) k' = Some s'" using assms(3,4) by (simp add: dict_simps)
  then have "slab_bag m = dsum slab_of (ddel k' (ddel k (m_states m))) + slab_of s' + slab_of s"
    unfolding slab_bag_def dsum_split [OF I(1) assms(2)]
    by (simp add: dsum_split [OF distinct_ddel [OF I(1)]])
  then have "2 \<le> count (slab_bag m + mset_set (m_free_slabs m)) i"
    using assms(5,6) same by (simp add: slab_of_def)
  then show False unfolding I(3) by (simp add: count_mset_set' split: if_splits)
qed

text \<open>Reclaiming a list of idle states succeeds and removes exactly them.\<close>

lemma reclaim_each_ok:
  assumes "valid_time now" "canonical_text r" "distinct (map cs_key ss)"
    "\<forall>s \<in> set ss. dget (m_states m) (cs_key s) = Some s \<and> cs_active_requests s = 0"
  shows "\<exists>m' rs. reclaim_each m ss now r = (m', Inr rs) \<and> map rr_key rs = map cs_key ss
    \<and> (\<forall>k. dget (m_states m') k = (if k \<in> cs_key ` set ss then None else dget (m_states m) k))"
  using assms(3,4)
proof (induction ss arbitrary: m)
  case (Cons s ss)
  define m\<^sub>1 where "m\<^sub>1 = fst (reclaim m (cs_key s) now r)"
  have s: "dget (m_states m) (cs_key s) = Some s" "cs_active_requests s = 0" using Cons.prems by auto
  from reclaim_Inr [OF assms(1,2) s]
  obtain q where q: "reclaim m (cs_key s) now r = (m\<^sub>1, Inr q)" "rr_key q = cs_key s"
    and st: "m_states m\<^sub>1 = ddel (cs_key s) (m_states m)"
    by (simp add: m\<^sub>1_def)
  have "\<forall>s' \<in> set ss. cs_key s' \<noteq> cs_key s" using Cons.prems(1) by (auto simp: image_iff)
  then have "\<forall>s' \<in> set ss. dget (m_states m\<^sub>1) (cs_key s') = Some s' \<and> cs_active_requests s' = 0"
    using Cons.prems(2) by (simp add: st dict_simps)
  with Cons.IH [of m\<^sub>1] Cons.prems(1)
  obtain m' rs where "reclaim_each m\<^sub>1 ss now r = (m', Inr rs)" "map rr_key rs = map cs_key ss"
    "\<forall>k. dget (m_states m') k = (if k \<in> cs_key ` set ss then None else dget (m_states m\<^sub>1) k)"
    by auto
  then show ?case using q by (simp add: st dict_simps)
qed simp

lemma states_by_key:
  assumes "manager_inv m"
  shows "s \<in> set (dvalues (m_states m)) \<longleftrightarrow> dget (m_states m) (cs_key s) = Some s"
    "distinct (map cs_key (dvalues (m_states m)))"
proof -
  note I = manager_invD [OF assms]
  have key: "\<forall>p \<in> set (m_states m). cs_key (snd p) = fst p"
    using I(1,4) by (auto simp: state_ok_def)
  then have keys: "map cs_key (dvalues (m_states m)) = dkeys (m_states m)" by simp
  show "distinct (map cs_key (dvalues (m_states m)))" unfolding keys by (rule I(1))
  show "s \<in> set (dvalues (m_states m)) \<longleftrightarrow> dget (m_states m) (cs_key s) = Some s"
    using key I(1) by (force dest: map_of_SomeD)
qed

lemma distinct_some_keys:
  assumes "manager_inv m" "distinct ss" "set ss \<subseteq> set (dvalues (m_states m))"
  shows "distinct (map cs_key ss)"
proof -
  have "inj_on cs_key (set (dvalues (m_states m)))"
    using states_by_key(2) [OF assms(1)] by (simp only: distinct_map)
  with assms(2,3) show ?thesis by (simp only: distinct_map) (blast intro: inj_on_subset)
qed

text \<open>Reclaiming some of the idle states, in any order.\<close>

lemma reclaim_idle_ok:
  assumes "manager_inv m" "valid_time now" "canonical_text r" "distinct ss"
    "set ss \<subseteq> {s \<in> set (dvalues (m_states m)). cs_active_requests s = 0}"
  shows "\<exists>m' rs. reclaim_each m ss now r = (m', Inr rs) \<and> map rr_key rs = map cs_key ss
    \<and> (\<forall>k. dget (m_states m') k =
          (case dget (m_states m) k of None \<Rightarrow> None | Some s \<Rightarrow> if s \<in> set ss then None else Some s))"
proof -
  have mem: "\<forall>s \<in> set ss. dget (m_states m) (cs_key s) = Some s \<and> cs_active_requests s = 0"
    using assms(5) states_by_key(1) [OF assms(1)] by blast
  have "distinct (map cs_key ss)" by (rule distinct_some_keys [OF assms(1,4)]) (use assms(5) in blast)
  from reclaim_each_ok [OF assms(2,3) this mem] obtain m' rs where
    "reclaim_each m ss now r = (m', Inr rs)" "map rr_key rs = map cs_key ss"
    and d: "\<forall>k. dget (m_states m') k = (if k \<in> cs_key ` set ss then None else dget (m_states m) k)"
    by blast
  moreover have "dget (m_states m') k =
      (case dget (m_states m) k of None \<Rightarrow> None | Some s \<Rightarrow> if s \<in> set ss then None else Some s)" for k
  proof (cases "dget (m_states m) k")
    case (Some s)
    then have "cs_key s = k" using manager_invD(4) [OF assms(1)] by (simp add: state_ok_def)
    have "s' = s" if "s' \<in> set ss" "cs_key s' = k" for s'
      using mem that Some by auto
    with \<open>cs_key s = k\<close> have "k \<in> cs_key ` set ss \<longleftrightarrow> s \<in> set ss" by blast
    with d Some show ?thesis by simp
  qed (use d in simp)
  ultimately show ?thesis by blast
qed

lemma distinct_values: "manager_inv m \<Longrightarrow> distinct (dvalues (m_states m))"
  using states_by_key(2) by (simp only: distinct_map)

text \<open>What a call can do to a cohort with requests in flight.\<close>

definition kept_by :: "manager_call \<Rightarrow> cohort_state_key \<Rightarrow> cohort_state \<Rightarrow> manager \<Rightarrow> bool" where
  "kept_by c k s m \<longleftrightarrow> (\<exists>s'. dget (m_states m) k = Some s' \<and> cs_slab_id s' = cs_slab_id s
     \<and> \<not> cs_offloaded s' \<and> pf_le (cs_last_used_at s) (cs_last_used_at s')
     \<and> (cs_version s' = cs_version s
         \<or> (\<exists>now. c = Publish_Version k (cs_version s) (cs_version s + 1) now)
           \<and> cs_version s' = cs_version s + 1)
     \<and> (cs_active_requests s' < cs_active_requests s \<longrightarrow> (\<exists>now. c = Release k now)))"

lemma valid_time_le_max: "valid_time a \<Longrightarrow> valid_time b \<Longrightarrow> pf_le a (pf_max a b)"
  by (simp add: valid_time_def pf_le_max)

lemma valid_time_refl: "valid_time a \<Longrightarrow> pf_le a a"
  by (auto simp: valid_time_def isfinite_iff)

lemma kept_by_step:
  assumes "manager_inv m" "dget (m_states m) k = Some s" "0 < cs_active_requests s"
  shows "kept_by c k s (manager_step m c)"
proof -
  note I = manager_invD [OF assms(1)]
  have ok: "valid_time (cs_last_used_at s)" "\<not> cs_offloaded s" "cs_slab_id s \<noteq> None"
    using I(4) [OF assms(2)] assms(3) by (auto simp: state_ok_def)
  have same: "kept_by c k s m'" if "dget (m_states m') k = Some s" for m'
    using that ok by (simp add: kept_by_def valid_time_refl)
  have each: "dget (m_states (fst (reclaim_each m ss now r))) k = Some s"
    if "valid_time now" "canonical_text r" "distinct ss"
      "set ss \<subseteq> {s \<in> set (dvalues (m_states m)). cs_active_requests s = 0}" for ss now r
    using reclaim_idle_ok [OF assms(1) that] that(4) assms(2,3) by auto
  have code_ok: "canonical_text ''ttl_expired''" "canonical_text ''lru_reclaimed''" by code_simp+
  show ?thesis
  proof (cases c)
    case (Reclaim_Expired now)
    have "dget (m_states (manager_step m c)) k = Some s"
      using Reclaim_Expired assms(2) distinct_values [OF assms(1)]
      by (auto simp: reclaim_expired_def expired_def code_ok intro!: each)
    then show ?thesis by (rule same)
  next
    case (Reclaim_Lru n now)
    have "dget (m_states (manager_step m c)) k = Some s"
      using Reclaim_Lru assms(2) distinct_values [OF assms(1)]
      by (auto simp: reclaim_lru_def code_ok intro!: each dest!: in_set_takeD)
    then show ?thesis by (rule same)
  qed (use assms(2,3) ok in \<open>auto simp: admit_def acquire_def release_def publish_version_def
      reclaim_def offload_cold_def restore_cold_def Let_def dict_simps kept_by_def
      valid_time_le_max valid_time_refl split: option.splits\<close>)
qed

lemma expired_keys:
  assumes "manager_inv m"
  shows "set (map cs_key (sort_key f (filter P (dvalues (m_states m)))))
    = {k. \<exists>s. dget (m_states m) k = Some s \<and> P s}"
proof -
  have vals: "set (filter P (dvalues (m_states m))) = {s. dget (m_states m) (cs_key s) = Some s \<and> P s}"
    using states_by_key(1) [OF assms] by (simp only: set_filter)
  have key: "cs_key s = k" if "dget (m_states m) k = Some s" for k s
    using manager_invD(4) [OF assms that] by (simp add: state_ok_def)
  show ?thesis unfolding set_map set_sort vals
  proof (intro equalityI subsetI)
    fix k assume "k \<in> {k. \<exists>s. dget (m_states m) k = Some s \<and> P s}"
    then obtain s where "dget (m_states m) k = Some s" "P s" by blast
    with key [of k s] show "k \<in> cs_key ` {s. dget (m_states m) (cs_key s) = Some s \<and> P s}" by blast
  qed blast
qed

lemma key_mem:
  assumes "manager_inv m" "dget (m_states m) k = Some s" "set ss \<subseteq> set (dvalues (m_states m))"
  shows "k \<in> set (map cs_key ss) \<longleftrightarrow> s \<in> set ss"
proof -
  have "cs_key s = k" using manager_invD(4) [OF assms(1,2)] by (simp add: state_ok_def)
  moreover have "s' = s" if "s' \<in> set ss" "cs_key s' = k" for s'
    using that assms(2,3) states_by_key(1) [OF assms(1), of s'] by auto
  ultimately show ?thesis by auto
qed

lemma distinct_singleton_list: "distinct xs \<Longrightarrow> set xs = {x} \<Longrightarrow> xs = [x]"
  by (cases xs; cases "tl xs") auto

section \<open>Properties\<close>

text \<open>
  C10: Whatever sequence of calls a manager receives, every slab is held by at most one cohort
  or is free, every held slab is one of the fixed slabs \<open>0..<capacity\<close>, and the resident, offloaded
  and total counts stay within the capacities it was built with.
\<close>

theorem slabs_never_shared:
  assumes "manager_init cap bytes quotas ttl mode offcap = Inr m\<^sub>0" "m = manager_run m\<^sub>0 calls"
  shows "(\<forall>k s i. dget (m_states m) k = Some s \<and> cs_slab_id s = Some i \<longrightarrow>
            0 \<le> i \<and> i < cap \<and> i \<notin> m_free_slabs m)
    \<and> (\<forall>k k' s s' i. dget (m_states m) k = Some s \<and> dget (m_states m) k' = Some s'
          \<and> cs_slab_id s = Some i \<and> cs_slab_id s' = Some i \<longrightarrow> k = k')
    \<and> int (resident_count m) + int (card (m_free_slabs m)) = cap
    \<and> int (offloaded_count m) \<le> offcap \<and> int (state_count m) \<le> cap + offcap"
proof -
  note F = manager_run_facts [OF assms(1), of calls, folded assms(2)]
  have c: "m_capacity m = cap" "m_offloaded_capacity m = offcap"
    using F(2) by (simp_all add: manager_config_def)
  have cap: "1 \<le> cap" using assms(1) by (simp add: manager_init_def require_positive_int_def)
  have "0 \<le> i \<and> i < cap \<and> i \<notin> m_free_slabs m"
    if "dget (m_states m) k = Some s" "cs_slab_id s = Some i" for k s i
    using held_slab [OF F(1) that] by (simp add: c)
  moreover have "k = k'" if "dget (m_states m) k = Some s" "dget (m_states m) k' = Some s'"
    "cs_slab_id s = Some i" "cs_slab_id s' = Some i" for k k' s s' i
    using held_slabs_distinct [OF F(1) that(1,2) _ that(3,4)] by blast
  moreover have "int (resident_count m) + int (card (m_free_slabs m)) = cap
      \<and> int (state_count m) \<le> cap + offcap"
    using slab_counts [OF F(1)] cap by (simp add: c)
  moreover have "int (offloaded_count m) \<le> offcap" using manager_invD(5) [OF F(1)] by (simp add: c)
  ultimately show ?thesis by blast
qed

text \<open>The pool of the witnesses: two slabs, one tenant with a quota of one, one cold place.\<close>

definition example_key :: "char \<Rightarrow> cohort_state_key" where
  "example_key c = \<lparr>ck_tenant_id = ''t'', ck_cohort_sha256 = replicate 64 c, ck_replica_id = 0\<rparr>"

definition example_manager :: manager where
  "example_manager = \<lparr>m_capacity = 2, m_slab_bytes = 8, m_tenant_quotas = [(''t'', 1)],
     m_ttl_seconds = Fin 10, m_offload_mode = COLD_INACTIVE_TIMED, m_offloaded_capacity = 1,
     m_free_slabs = {0, 1}, m_states = []\<rparr>"

definition example_calls :: "manager_call list" where
  "example_calls =
     [Admit (example_key CHR ''a'') (Fin 1) 0, Offload_Cold (example_key CHR ''a'') (Fin 2) (Fin 3),
      Admit (example_key CHR ''b'') (Fin 4) 0, Restore_Cold (example_key CHR ''a'') (Fin 5) (Fin 6)]"

lemma example_key_eq [simp]: "example_key c = example_key d \<longleftrightarrow> c = d"
  by (simp add: example_key_def)

lemma example_key_tenant [simp]: "ck_tenant_id (example_key c) = ''t''"
  by (simp add: example_key_def)

lemma example_manager_init:
  "manager_init 2 8 [(''t'', 1)] (Fin 10) COLD_INACTIVE_TIMED 1 = Inr example_manager"
  by code_simp

lemmas manager_eval = admit_def acquire_def release_def publish_version_def reclaim_def
  offload_cold_def restore_cold_def put_def touch_def valid_time_def pf_max_def
  tenant_resident_count_def state_count_def resident_count_def offloaded_count_def resident_def
  dcount_def Let_def

lemma example_run:
  "tenant_resident_count (manager_run example_manager example_calls) ''t'' = 2"
  "resident_count (manager_run example_manager example_calls) = 2"
  by (simp_all add: example_manager_def example_calls_def manager_eval)

theorem slabs_never_shared_witness:
  "let m = manager_run example_manager example_calls in
     resident_count m = 2 \<and> card (m_free_slabs m) = 0"
  using slabs_never_shared [OF example_manager_init refl, of example_calls]
  by (simp add: Let_def example_run)

text \<open>
  C11: While a cohort has requests in flight, no call takes its slab, moves it to the cold tier
  or drops it; its version changes only by a publication from exactly its version to the next;
  its use time never goes back; and only its own release lowers its request count.
\<close>

theorem active_cohort_is_kept:
  assumes "manager_init cap bytes quotas ttl mode offcap = Inr m\<^sub>0" "m = manager_run m\<^sub>0 calls"
    "dget (m_states m) k = Some s" "0 < cs_active_requests s"
  shows "kept_by c k s (manager_step m c)"
  using kept_by_step [OF _ assms(3,4)] manager_run_facts(1) [OF assms(1)] assms(2) by blast

theorem active_cohort_is_kept_witness:
  "let k = example_key CHR ''a'';
       m = manager_run example_manager [Admit k (Fin 1) 0, Acquire k (Fin 2)]
   in dget (m_states (manager_step m (Reclaim_Lru 1 (Fin 90)))) k \<noteq> None"
proof -
  let ?k = "example_key CHR ''a''"
  let ?calls = "[Admit ?k (Fin 1) 0, Acquire ?k (Fin 2)]"
  obtain s where "dget (m_states (manager_run example_manager ?calls)) ?k = Some s" "0 < cs_active_requests s"
    by (simp add: example_manager_def manager_eval)
  from active_cohort_is_kept [OF example_manager_init refl this, of "Reclaim_Lru 1 (Fin 90)"]
  show ?thesis by (auto simp: kept_by_def Let_def)
qed

text \<open>
  C31: Without the cold tier, no sequence of calls lets a tenant hold more slabs than its quota,
  and a tenant without a quota holds none.
\<close>

theorem quota_bounds_every_tenant:
  assumes "manager_init cap bytes quotas ttl DISABLED offcap = Inr m\<^sub>0"
  shows "int (tenant_resident_count (manager_run m\<^sub>0 calls) t)
    \<le> (case dget quotas t of None \<Rightarrow> 0 | Some q \<Rightarrow> q)"
  using manager_invD(6) [OF manager_run_facts(1) [OF assms], of calls t]
    manager_run_facts(2) [OF assms, of calls]
  by (simp add: manager_config_def quota_of_def)

theorem quota_bounds_every_tenant_witness:
  "\<exists>m\<^sub>0. manager_init 2 8 [(''t'', 1)] (Fin 10) DISABLED 0 = Inr m\<^sub>0
     \<and> tenant_resident_count (manager_run m\<^sub>0 example_calls) ''t'' \<le> 1"
proof -
  have "is_ok (manager_init 2 8 [(''t'', 1)] (Fin 10) DISABLED 0)" by code_simp
  then obtain m\<^sub>0 where "manager_init 2 8 [(''t'', 1)] (Fin 10) DISABLED 0 = Inr m\<^sub>0"
    by (auto simp: is_ok_iff)
  from this quota_bounds_every_tenant [OF this, of example_calls "''t''"] show ?thesis by auto
qed

text \<open>
  With the cold tier enabled the quota is not kept. \<open>restore_cold\<close> does not look at the quota:
  a tenant that offloads a cohort, fills the freed quota with another one and restores the first
  holds more slabs than its quota allows.
\<close>

theorem restore_exceeds_quota:
  "\<exists>m\<^sub>0 calls. manager_init 2 8 [(''t'', 1)] (Fin 10) COLD_INACTIVE_TIMED 1 = Inr m\<^sub>0
     \<and> tenant_resident_count (manager_run m\<^sub>0 calls) ''t'' = 2"
  using example_manager_init example_run(1) by blast

text \<open>
  Expiry reclaims exactly the idle cohorts whose time has run out, whatever the order of the
  dictionary, and always succeeds; the receipts list each reclaimed cohort once.
\<close>

theorem reclaim_expired_exact:
  assumes "manager_init cap bytes quotas ttl mode offcap = Inr m\<^sub>0" "m = manager_run m\<^sub>0 calls"
    "valid_time now"
  shows "\<exists>m' rs. reclaim_expired m now = (m', Inr rs) \<and> distinct (map rr_key rs)
    \<and> set (map rr_key rs) = {k. \<exists>s. dget (m_states m) k = Some s \<and> expired m now s}
    \<and> (\<forall>k. dget (m_states m') k =
          (case dget (m_states m) k of None \<Rightarrow> None | Some s \<Rightarrow> if expired m now s then None else Some s))"
proof -
  have inv: "manager_inv m" using manager_run_facts(1) [OF assms(1)] assms(2) by simp
  let ?ss = "sort_key (\<lambda>s. (cs_last_used_at s, ck_tenant_id (cs_key s), ck_cohort_sha256 (cs_key s),
     ck_replica_id (cs_key s))) (filter (expired m now) (dvalues (m_states m)))"
  have "distinct ?ss" "set ?ss \<subseteq> {s \<in> set (dvalues (m_states m)). cs_active_requests s = 0}"
    using distinct_values [OF inv] by (auto simp: expired_def)
  moreover have "canonical_text ''ttl_expired''" by code_simp
  ultimately obtain m' rs where m': "reclaim_each m ?ss now ''ttl_expired'' = (m', Inr rs)"
    and keys: "map rr_key rs = map cs_key ?ss"
    and d: "\<forall>k. dget (m_states m') k =
      (case dget (m_states m) k of None \<Rightarrow> None | Some s \<Rightarrow> if s \<in> set ?ss then None else Some s)"
    using reclaim_idle_ok [OF inv assms(3)] by blast
  have mem: "s \<in> set ?ss \<longleftrightarrow> expired m now s" if "dget (m_states m) k = Some s" for k s
    using dget_mem [OF that] by force
  have "set (map rr_key rs) = {k. \<exists>s. dget (m_states m) k = Some s \<and> expired m now s}"
    unfolding keys by (rule expired_keys [OF inv])
  moreover have "distinct (map rr_key rs)"
    unfolding keys by (rule distinct_some_keys [OF inv]) (use distinct_values [OF inv] in auto)
  ultimately show ?thesis
    using m' d mem assms(3) by (auto simp: reclaim_expired_def split: option.splits)
qed

theorem reclaim_expired_exact_witness:
  "let k = example_key CHR ''a'';
       m = manager_run example_manager [Admit k (Fin 1) 0]
   in expired m (Fin 11) \<lparr>cs_key = k, cs_slab_id = Some 0, cs_slab_bytes = 8, cs_version = 0,
        cs_created_at = Fin 1, cs_last_used_at = Fin 1, cs_active_requests = 0, cs_offloaded = False\<rparr>
     \<and> (\<exists>m' rs. reclaim_expired m (Fin 11) = (m', Inr rs) \<and> map rr_key rs = [k])"
proof -
  let ?k = "example_key CHR ''a''"
  let ?m = "manager_run example_manager [Admit ?k (Fin 1) 0]"
  let ?s = "\<lparr>cs_key = ?k, cs_slab_id = Some 0, cs_slab_bytes = 8, cs_version = 0,
        cs_created_at = Fin 1, cs_last_used_at = Fin 1, cs_active_requests = 0, cs_offloaded = False\<rparr>"
  have fl: "fl 11 = Fin 11" by code_simp
  have st: "m_states ?m = [(?k, ?s)]" and ttl: "m_ttl_seconds ?m = Fin 10"
    by (simp_all add: example_manager_def manager_eval)
  have ex: "expired ?m (Fin 11) ?s" unfolding expired_def ttl by (simp add: fl)
  have now: "valid_time (Fin 11)" by (simp add: valid_time_def)
  obtain m' rs where r: "reclaim_expired ?m (Fin 11) = (m', Inr rs)" "distinct (map rr_key rs)"
    and "set (map rr_key rs) = {k. \<exists>s. dget (m_states ?m) k = Some s \<and> expired ?m (Fin 11) s}"
    using reclaim_expired_exact [OF example_manager_init refl now, of "[Admit ?k (Fin 1) 0]"] by blast
  then have "set (map rr_key rs) = {?k}" using ex unfolding st by auto
  with r(2) have "map rr_key rs = [?k]" by (rule distinct_singleton_list)
  with r(1) have "\<exists>m' rs. reclaim_expired ?m (Fin 11) = (m', Inr rs) \<and> map rr_key rs = [?k]"
    by (intro exI conjI)
  with ex show ?thesis unfolding Let_def by (rule conjI)
qed

text \<open>
  Reclaiming \<open>n\<close> least recently used cohorts always succeeds, reclaims \<open>n\<close> idle cohorts or all
  of them if there are fewer, and no idle cohort that stays comes before a reclaimed one in the
  order of last use (then creation, tenant, digest, replica).
\<close>

theorem reclaim_lru_takes_least_recent:
  assumes "manager_init cap bytes quotas ttl mode offcap = Inr m\<^sub>0" "m = manager_run m\<^sub>0 calls"
    "valid_time now" "1 \<le> n"
  shows "\<exists>m' rs. reclaim_lru m n now = (m', Inr rs)
    \<and> length rs = min (nat n) (dcount (\<lambda>s. cs_active_requests s = 0) (m_states m))
    \<and> (\<forall>k s. dget (m_states m) k = Some s \<longrightarrow>
          dget (m_states m') k = (if k \<in> set (map rr_key rs) then None else Some s)
          \<and> (k \<in> set (map rr_key rs) \<longrightarrow> cs_active_requests s = 0
              \<and> (\<forall>k' s'. dget (m_states m) k' = Some s' \<and> cs_active_requests s' = 0
                   \<and> k' \<notin> set (map rr_key rs) \<longrightarrow> lru_key s \<le> lru_key s')))"
proof -
  have inv: "manager_inv m" using manager_run_facts(1) [OF assms(1)] assms(2) by simp
  let ?idle = "filter (\<lambda>s. cs_active_requests s = 0) (dvalues (m_states m))"
  let ?ss = "take (nat n) (sort_key lru_key ?idle)"
  have sub: "set ?ss \<subseteq> {s \<in> set (dvalues (m_states m)). cs_active_requests s = 0}"
    by (auto dest!: in_set_takeD)
  have "distinct ?ss" using distinct_values [OF inv] by simp
  moreover have "canonical_text ''lru_reclaimed''" by code_simp
  ultimately obtain m' rs where m': "reclaim_each m ?ss now ''lru_reclaimed'' = (m', Inr rs)"
    and keys: "map rr_key rs = map cs_key ?ss"
    and d: "\<forall>k. dget (m_states m') k =
      (case dget (m_states m) k of None \<Rightarrow> None | Some s \<Rightarrow> if s \<in> set ?ss then None else Some s)"
    using reclaim_idle_ok [OF inv assms(3) _ _ sub] by blast
  have "length rs = length ?ss" using arg_cong [OF keys, of length] by simp
  then have len: "length rs = min (nat n) (dcount (\<lambda>s. cs_active_requests s = 0) (m_states m))"
    by (simp add: dcount_filter min.commute)
  have mem: "k \<in> set (map rr_key rs) \<longleftrightarrow> s \<in> set ?ss" if "dget (m_states m) k = Some s" for k s
    unfolding keys by (rule key_mem [OF inv that]) (use sub in blast)
  have idle: "cs_active_requests s = 0" if "s \<in> set ?ss" for s using sub that by blast
  have least: "lru_key s \<le> lru_key s'"
    if "s \<in> set ?ss" "dget (m_states m) k' = Some s'" "cs_active_requests s' = 0" "s' \<notin> set ?ss" for s s' k'
    by (rule sort_key_take_le [OF that(1) _ that(4)]) (use that(2,3) dget_mem in force)
  have "reclaim_lru m n now = (m', Inr rs)" using m' assms(3,4) by (simp add: reclaim_lru_def)
  moreover have "dget (m_states m') k = (if k \<in> set (map rr_key rs) then None else Some s)"
    if "dget (m_states m) k = Some s" for k s
    using d mem [OF that] that by simp
  moreover have "cs_active_requests s = 0 \<and> (\<forall>k' s'. dget (m_states m) k' = Some s'
      \<and> cs_active_requests s' = 0 \<and> k' \<notin> set (map rr_key rs) \<longrightarrow> lru_key s \<le> lru_key s')"
    if "dget (m_states m) k = Some s" "k \<in> set (map rr_key rs)" for k s
    using idle least mem that by metis
  ultimately show ?thesis using len by (intro exI [of _ m'] exI [of _ rs] conjI allI impI) auto
qed

theorem reclaim_lru_takes_least_recent_witness:
  "let m = manager_run example_manager [Admit (example_key CHR ''a'') (Fin 1) 0]
   in \<exists>m' rs. reclaim_lru m 5 (Fin 2) = (m', Inr rs) \<and> length rs = 1"
proof -
  let ?calls = "[Admit (example_key CHR ''a'') (Fin 1) 0]"
  have "dcount (\<lambda>s. cs_active_requests s = 0) (m_states (manager_run example_manager ?calls)) = 1"
    by (simp add: example_manager_def manager_eval)
  moreover have "valid_time (Fin 2)" "1 \<le> (5::int)" by (simp_all add: valid_time_def)
  note reclaim_lru_takes_least_recent [OF example_manager_init refl this, of ?calls]
  ultimately show ?thesis unfolding Let_def by auto
qed

end
