(* ===== verification/Publication.thy ===== *)
theory Publication
  imports Prelude "HOL-Library.Sublist"
begin

text \<open>
  \<open>runtime/publication.py\<close>: the ordering of a side-stream update and its publication at a fixed
  boundary. CUDA is outside the sources: \<open>torch\<close> says whether a call to it raises, and a call that
  does not raise is logged in the order the host issues it. Work the caller puts inside the update
  window is the entry \<open>Body\<close>, the publication callback is the entry \<open>Publish\<close>. The context manager
  is its two halves, so that a caller may interleave other calls with an open window.
\<close>

datatype cuda_event = Main_Ready | Side_Ready | Publish_Done

datatype cuda_stream = Side | Main nat

datatype cuda_op =
    Record cuda_event cuda_stream
  | Wait_Event cuda_stream cuda_event
  | Record_Stream nat cuda_stream
  | Set_Stream cuda_stream
  | Restore_Stream
  | Body
  | Publish

record publication_coordinator =
  pc_update_in_flight :: bool
  pc_side_event_recorded :: bool
  pc_log :: "cuda_op list"

type_synonym torch = "cuda_op \<Rightarrow> py_error option"

definition publication_coordinator_init :: "string \<Rightarrow> publication_coordinator res" where
  "publication_coordinator_init device_type =
     (if device_type \<noteq> ''cuda'' then Inl (ValueError ''CUDA publication requires a CUDA device'')
      else Inr \<lparr>pc_update_in_flight = False, pc_side_event_recorded = False, pc_log = []\<rparr>)"

text \<open>The calls issued in order until one raises.\<close>

fun issue :: "torch \<Rightarrow> cuda_op list \<Rightarrow> cuda_op list \<Rightarrow> cuda_op list \<times> unit res" where
  "issue torch [] log = (log, Inr ())"
| "issue torch (c # cs) log =
     (case torch c of Some e \<Rightarrow> (log, Inl e) | None \<Rightarrow> issue torch cs (log @ [c]))"

definition discard :: "publication_coordinator \<Rightarrow> publication_coordinator" where
  "discard p = p\<lparr>pc_update_in_flight := False, pc_side_event_recorded := False\<rparr>"

definition update_window_enter ::
  "torch \<Rightarrow> publication_coordinator \<Rightarrow> nat list \<Rightarrow> nat \<Rightarrow> (publication_coordinator, cuda_stream) op_result"
  where
  "update_window_enter torch p tensors main_stream =
     (if pc_update_in_flight p
      then (p, Inl (RuntimeError ''max_in_flight=1 publication window is occupied''))
      else let p = p\<lparr>pc_update_in_flight := True\<rparr> in
        (case issue torch ([Record Main_Ready (Main main_stream), Wait_Event Side Main_Ready]
               @ map (\<lambda>t. Record_Stream t Side) tensors @ [Set_Stream Side]) (pc_log p) of
           (log, Inl e) \<Rightarrow> (discard (p\<lparr>pc_log := log\<rparr>), Inl e)
         | (log, Inr _) \<Rightarrow> (p\<lparr>pc_log := log\<rparr>, Inr Side)))"

text \<open>Leaving the window: \<open>raised\<close> is the exception of the block, if it raised one.\<close>

definition update_window_exit ::
  "torch \<Rightarrow> publication_coordinator \<Rightarrow> py_error option \<Rightarrow> (publication_coordinator, unit) op_result"
  where
  "update_window_exit torch p raised =
     (case raised of
        Some e \<Rightarrow> (discard (p\<lparr>pc_log := pc_log p @ [Restore_Stream]\<rparr>), Inl e)
      | None \<Rightarrow>
         (case issue torch [Record Side_Ready Side] (pc_log p @ [Body]) of
            (log, Inl e) \<Rightarrow> (discard (p\<lparr>pc_log := log @ [Restore_Stream]\<rparr>), Inl e)
          | (log, Inr _) \<Rightarrow>
              (p\<lparr>pc_side_event_recorded := True, pc_log := log @ [Restore_Stream]\<rparr>, Inr ())))"

definition ready :: "(cuda_event \<Rightarrow> bool) \<Rightarrow> publication_coordinator \<Rightarrow> bool" where
  "ready query p \<longleftrightarrow> pc_side_event_recorded p \<and> query Side_Ready"

text \<open>\<open>publish\<close> is the exception of the callback, if it raises one.\<close>

definition publish_boundary ::
  "torch \<Rightarrow> publication_coordinator \<Rightarrow> py_error option \<Rightarrow> nat list \<Rightarrow> nat
     \<Rightarrow> (publication_coordinator, unit) op_result" where
  "publish_boundary torch p publish tensors main_stream =
     (if \<not> pc_update_in_flight p \<or> \<not> pc_side_event_recorded p
      then (p, Inl (RuntimeError ''no completed side-stream update is publishable''))
      else case issue torch [Wait_Event (Main main_stream) Side_Ready] (pc_log p) of
        (log, Inl e) \<Rightarrow> (p\<lparr>pc_log := log\<rparr>, Inl e)
      | (log, Inr _) \<Rightarrow>
         (case issue torch [Set_Stream (Main main_stream)] log of
            (log, Inl e) \<Rightarrow> (discard (p\<lparr>pc_log := log\<rparr>), Inl e)
          | (log, Inr _) \<Rightarrow>
             (case publish of
                Some e \<Rightarrow> (discard (p\<lparr>pc_log := log @ [Publish, Restore_Stream]\<rparr>), Inl e)
              | None \<Rightarrow>
                 (case issue torch (map (\<lambda>t. Record_Stream t (Main main_stream)) tensors
                          @ [Record Publish_Done (Main main_stream)]) (log @ [Publish]) of
                    (log, r) \<Rightarrow> (discard (p\<lparr>pc_log := log @ [Restore_Stream]\<rparr>), r)))))"

text \<open>
  A caller: the coordinator and the number of update windows it has open. A window can only be
  left after it was entered; an update may be discarded at any time.
\<close>

datatype publication_call =
    Enter_Window "nat list" nat
  | Exit_Window "py_error option"
  | Discard
  | Publish_Boundary "py_error option" "nat list" nat

fun publication_step ::
  "torch \<Rightarrow> publication_coordinator \<times> nat \<Rightarrow> publication_call \<Rightarrow> publication_coordinator \<times> nat" where
  "publication_step torch (p, n) (Enter_Window ts m) =
     (case update_window_enter torch p ts m of (p', r) \<Rightarrow> (p', if is_ok r then n + 1 else n))"
| "publication_step torch (p, n) (Exit_Window e) =
     (if n = 0 then (p, n) else (fst (update_window_exit torch p e), n - 1))"
| "publication_step torch (p, n) Discard = (discard p, n)"
| "publication_step torch (p, n) (Publish_Boundary e ts m) = (fst (publish_boundary torch p e ts m), n)"

text \<open>
  \<open>discard\<close> does not look whether a window is open. A caller that discards inside one can open a second window
  beside it; the discipline of a caller that does not is a guard on its calls.
\<close>

definition discards_outside :: "publication_coordinator \<times> nat \<Rightarrow> publication_call \<Rightarrow> bool" where
  "discards_outside s call \<longleftrightarrow> (call = Discard \<longrightarrow> snd s = 0)"

section \<open>Ordering\<close>

lemma issue_log: "fst (issue torch cs log) = log @ takeWhile (\<lambda>c. torch c = None) cs"
  by (induction torch cs log rule: issue.induct) (auto split: option.splits)

lemma issue_ok: "issue torch cs log = (log', Inr u) \<Longrightarrow> log' = log @ cs"
  by (induction torch cs log rule: issue.induct) (auto split: option.splits)

lemma issue_err: "issue torch cs log = (log', Inl e) \<Longrightarrow> \<exists>pre. prefix pre cs \<and> log' = log @ pre"
  by (metis fst_conv issue_log takeWhile_is_prefix)

text \<open>What was issued after the last publication.\<close>

definition since_publish :: "cuda_op list \<Rightarrow> cuda_op list" where
  "since_publish log = rev (takeWhile (\<lambda>c. c \<noteq> Publish) (rev log))"

lemma since_publish_append:
  "since_publish (log @ cs) = (if Publish \<in> set cs then since_publish cs else since_publish log @ cs)"
  by (auto simp: since_publish_def takeWhile_append)

definition window_opened :: "cuda_op list \<Rightarrow> bool" where
  "window_opened log \<longleftrightarrow> (\<exists>m. subseq [Record Main_Ready (Main m), Wait_Event Side Main_Ready] (since_publish log))"

definition update_recorded :: "cuda_op list \<Rightarrow> bool" where
  "update_recorded log \<longleftrightarrow> (\<exists>m. subseq [Record Main_Ready (Main m), Wait_Event Side Main_Ready, Body,
      Record Side_Ready Side] (since_publish log))"

lemma window_opened_append: "window_opened log \<Longrightarrow> Publish \<notin> set cs \<Longrightarrow> window_opened (log @ cs)"
  by (auto simp: window_opened_def since_publish_append intro: subseq_rev_drop_many)

lemma update_recorded_append: "update_recorded log \<Longrightarrow> Publish \<notin> set cs \<Longrightarrow> update_recorded (log @ cs)"
  by (auto simp: update_recorded_def since_publish_append intro: subseq_rev_drop_many)

definition publication_inv :: "publication_coordinator \<times> nat \<Rightarrow> bool" where
  "publication_inv s \<longleftrightarrow> (case s of (p, n) \<Rightarrow>
     (0 < n \<longrightarrow> n = 1 \<and> pc_update_in_flight p \<and> \<not> pc_side_event_recorded p \<and> window_opened (pc_log p))
     \<and> (pc_side_event_recorded p \<longrightarrow> pc_update_in_flight p \<and> update_recorded (pc_log p))
     \<and> (pc_update_in_flight p \<longrightarrow> 0 < n \<or> pc_side_event_recorded p))"

lemma enter_inv:
  assumes "publication_inv (p, n)"
  shows "publication_inv (publication_step torch (p, n) (Enter_Window ts m))"
proof (cases "pc_update_in_flight p")
  case True
  with assms show ?thesis by (simp add: update_window_enter_def)
next
  case False
  let ?pre = "[Record Main_Ready (Main m), Wait_Event Side Main_Ready]"
  let ?cs = "?pre @ map (\<lambda>t. Record_Stream t Side) ts @ [Set_Stream Side]"
  have n: "n = 0" "\<not> pc_side_event_recorded p" using assms False by (auto simp: publication_inv_def)
  obtain log r where i: "issue torch ?cs (pc_log p) = (log, r)" by fastforce
  show ?thesis
  proof (cases r)
    case (Inl e)
    with i False n show ?thesis
      by (simp add: update_window_enter_def Let_def publication_inv_def discard_def del: issue.simps append.simps)
  next
    case (Inr u)
    have "subseq ?pre (since_publish log)"
      using issue_ok [OF i [unfolded Inr]] by (auto simp: since_publish_append)
    then have "window_opened log" by (auto simp: window_opened_def)
    with i Inr False n show ?thesis
      by (simp add: update_window_enter_def Let_def publication_inv_def del: issue.simps append.simps)
  qed
qed

lemma exit_inv:
  assumes "publication_inv (p, n)"
  shows "publication_inv (publication_step torch (p, n) (Exit_Window e))"
proof (cases "n = 0 \<or> e \<noteq> None")
  case True
  with assms show ?thesis
    by (auto simp: publication_inv_def update_window_exit_def discard_def)
next
  case False
  then have w: "n = 1" "pc_update_in_flight p" "window_opened (pc_log p)"
    using assms by (auto simp: publication_inv_def)
  have "update_recorded (pc_log p @ [Body, Record Side_Ready Side, Restore_Stream])"
  proof -
    from w(3) obtain m where
      "subseq [Record Main_Ready (Main m), Wait_Event Side Main_Ready] (since_publish (pc_log p))"
      by (auto simp: window_opened_def)
    from list_emb_append_mono [OF this, of "[Body, Record Side_Ready Side]" "[Body, Record Side_Ready Side, Restore_Stream]"]
    show ?thesis by (auto simp: update_recorded_def since_publish_append)
  qed
  with False w show ?thesis
    by (auto simp: publication_inv_def update_window_exit_def discard_def split: option.splits)
qed

lemma publish_inv:
  assumes "publication_inv (p, n)"
  shows "publication_inv (publication_step torch (p, n) (Publish_Boundary e ts m))"
proof (cases "pc_update_in_flight p \<and> pc_side_event_recorded p")
  case False
  with assms show ?thesis by (simp add: publish_boundary_def)
next
  case True
  with assms have n: "n = 0" by (auto simp: publication_inv_def)
  have gone: "publication_inv (discard q, 0)" for q
    by (simp add: publication_inv_def discard_def)
  show ?thesis
  proof (cases "torch (Wait_Event (Main m) Side_Ready)")
    case (Some err)
    with True n assms show ?thesis by (simp add: publish_boundary_def)
  next
    case None
    with True n show ?thesis
      by (auto simp: publish_boundary_def intro: gone split: option.splits prod.splits)
  qed
qed

lemma publication_step_inv:
  assumes inv: "publication_inv s" and outside: "discards_outside s c"
  shows "publication_inv (publication_step torch s c)"
proof (cases s)
  case (Pair p n)
  show ?thesis
  proof (cases c)
    case Discard
    with inv outside Pair show ?thesis by (auto simp: publication_inv_def discard_def discards_outside_def)
  qed (use inv Pair enter_inv exit_inv publish_inv in auto)
qed

interpretation publication: guarded_machine "publication_step torch" discards_outside publication_inv
  for torch by unfold_locales (rule publication_step_inv)

section \<open>Properties\<close>

text \<open>
  C12: For a caller that never discards while an update window is open: whenever a publication
  succeeds, the operations issued since the previous publication contain, in this order: the main stream's ready event, the side stream's wait for it, a
  completed update body, the side stream's ready event, the main stream's wait for that event, the
  publication, and its done event. So no candidate is published twice, before its update finished,
  or without the main stream waiting for it.
\<close>

theorem publication_is_ordered:
  assumes "publication_coordinator_init device = Inr p\<^sub>0"
    and "guarded_run (publication_step torch) discards_outside (p\<^sub>0, 0) calls"
    and "foldl (publication_step torch) (p\<^sub>0, 0) calls = (p, n)"
    and "publish_boundary torch p publish tensors m = (p', Inr ())"
  shows "\<exists>m\<^sub>0 new. pc_log p' = pc_log p @ new \<and> count_list new Publish = 1
    \<and> subseq [Record Main_Ready (Main m\<^sub>0), Wait_Event Side Main_Ready, Body, Record Side_Ready Side,
        Wait_Event (Main m) Side_Ready, Publish, Record Publish_Done (Main m)]
       (since_publish (pc_log p) @ new)
    \<and> \<not> pc_update_in_flight p' \<and> \<not> pc_side_event_recorded p'"
proof -
  have "publication_inv (p\<^sub>0, 0)"
    using assms(1) by (auto simp: publication_coordinator_init_def publication_inv_def)
  then have inv: "publication_inv (p, n)"
    using publication.guarded_run_inv [OF _ assms(2)] assms(3) by simp
  have fl: "pc_side_event_recorded p" "pc_update_in_flight p"
    using assms(4) by (auto simp: publish_boundary_def split: if_splits)
  with inv obtain m\<^sub>0 where rec: "subseq [Record Main_Ready (Main m\<^sub>0), Wait_Event Side Main_Ready, Body,
      Record Side_Ready Side] (since_publish (pc_log p))"
    by (auto simp: publication_inv_def update_recorded_def)
  let ?recs = "map (\<lambda>t. Record_Stream t (Main m)) tensors"
  define new where "new = [Wait_Event (Main m) Side_Ready, Set_Stream (Main m), Publish] @ ?recs
      @ [Record Publish_Done (Main m), Restore_Stream]"
  have p': "p' = discard (p\<lparr>pc_log := pc_log p @ new\<rparr>)"
    using assms(4) fl
    by (auto simp: publish_boundary_def new_def split: option.splits prod.splits dest!: issue_ok)
  have "subseq [Wait_Event (Main m) Side_Ready, Publish, Record Publish_Done (Main m)] new"
    by (auto simp: new_def intro: list_emb_append2 subseq_rev_drop_many)
  from list_emb_append_mono [OF rec this] have
    "subseq [Record Main_Ready (Main m\<^sub>0), Wait_Event Side Main_Ready, Body, Record Side_Ready Side,
        Wait_Event (Main m) Side_Ready, Publish, Record Publish_Done (Main m)]
       (since_publish (pc_log p) @ new)" by simp
  moreover have "count_list ?recs Publish = 0" by (simp add: count_list_0_iff image_iff)
  then have "count_list new Publish = 1" by (simp add: new_def)
  ultimately show ?thesis by (auto simp: p' discard_def)
qed

theorem publication_is_ordered_witness:
  "\<exists>p\<^sub>0 p n p'. publication_coordinator_init ''cuda'' = Inr p\<^sub>0
     \<and> foldl (publication_step (\<lambda>_. None)) (p\<^sub>0, 0) [Discard, Enter_Window [4] 0, Exit_Window None] = (p, n)
     \<and> publish_boundary (\<lambda>_. None) p None [4] 0 = (p', Inr ()) \<and> \<not> pc_update_in_flight p'"
proof -
  let ?t = "\<lambda>_ :: cuda_op. None :: py_error option"
  obtain p\<^sub>0 where i: "publication_coordinator_init ''cuda'' = Inr p\<^sub>0"
    by (simp add: publication_coordinator_init_def)
  obtain p n where r: "foldl (publication_step ?t) (p\<^sub>0, 0) [Discard, Enter_Window [4] 0, Exit_Window None] = (p, n)"
    by fastforce
  have "pc_update_in_flight p \<and> pc_side_event_recorded p"
    using i r by (auto simp: publication_coordinator_init_def update_window_enter_def update_window_exit_def Let_def discard_def)
  then obtain p' where "publish_boundary ?t p None [4] 0 = (p', Inr ())"
    by (simp add: publish_boundary_def)
  moreover have "guarded_run (publication_step ?t) discards_outside (p\<^sub>0, 0) [Discard, Enter_Window [4] 0, Exit_Window None]"
    by (simp add: discards_outside_def)
  ultimately show ?thesis using publication_is_ordered [OF i _ r] i r by blast
qed

end
