(* ===== verification/Topology.thy ===== *)
theory Topology
  imports Digest
begin

text \<open>
  The rank topology of \<open>runtime/distributed.py\<close>: the registered runtime topologies and the release
  capabilities bound to them, the identity of a rank, the receipts that together cover a topology,
  the ownership of parameters by ranks, and the sticky routing of cohorts to replicas. The JSON
  digest \<open>_sha256\<close> is \<^const>\<open>content_sha256\<close>.
\<close>

section \<open>Registered topologies\<close>

datatype runtime_topology_mode = Tp1_Dp1 | Tp2_Dp1 | Tp1_Dp2

datatype distributed_control_mode_t = Single_Rank | Tp_All_Rank_Two_Phase | Dp_Sticky_Replica_Local

datatype adaptation_collective_mode_t = No_Collective | Tp_Shard_All_Rank

definition require_hash_n :: "string \<Rightarrow> nat \<Rightarrow> string \<Rightarrow> unit res" where
  "require_hash_n name len value =
     raise_if (\<not> is_lower_hex len value)
       (ValueError (name @ '' must be a lowercase '' @ show_nat (len * 4) @ ''-bit hash''))"

abbreviation require_sha256 :: "string \<Rightarrow> string \<Rightarrow> unit res" where
  "require_sha256 name \<equiv> require_hash_n name 64"

definition require_nonempty :: "string \<Rightarrow> string \<Rightarrow> unit res" where
  "require_nonempty name value =
     raise_if (\<not> canonical_text value) (ValueError (name @ '' must be a non-empty canonical identifier''))"

definition require_counter :: "int \<Rightarrow> string \<Rightarrow> int \<Rightarrow> unit res" where
  "require_counter minimum name value =
     raise_if (value < minimum) (ValueError (name @ '' must be an integer >= '' @ show_int minimum))"

definition registered_runtime_topologies :: "((int \<times> int) \<times> runtime_topology_mode) list" where
  "registered_runtime_topologies = [((1, 1), Tp1_Dp1), ((2, 1), Tp2_Dp1), ((1, 2), Tp1_Dp2)]"

definition registered_runtime_topology_mode :: "int \<Rightarrow> int \<Rightarrow> int \<Rightarrow> runtime_topology_mode res" where
  "registered_runtime_topology_mode tp dp node_count =
     rbind (check_all (\<lambda>(name, value). require_counter 1 name value)
       [(''tensor_parallel_size'', tp), (''data_parallel_size'', dp), (''node_count'', node_count)]) (\<lambda>_.
     rbind (raise_if (node_count \<noteq> 1)
       (ValueError ''multi-node runtime collectives are restricted to one host'')) (\<lambda>_.
     (case dget registered_runtime_topologies (tp, dp) of
        Some mode \<Rightarrow> Inr mode
      | None \<Rightarrow> Inl (ValueError ''runtime topology must be tp1_dp1, tp2_dp1, or tp1_dp2''))))"

fun distributed_control_mode :: "runtime_topology_mode \<Rightarrow> distributed_control_mode_t" where
  "distributed_control_mode Tp1_Dp1 = Single_Rank"
| "distributed_control_mode Tp2_Dp1 = Tp_All_Rank_Two_Phase"
| "distributed_control_mode Tp1_Dp2 = Dp_Sticky_Replica_Local"

definition adaptation_collective_mode :: "runtime_topology_mode \<Rightarrow> adaptation_collective_mode_t" where
  "adaptation_collective_mode mode = (if mode = Tp2_Dp1 then Tp_Shard_All_Rank else No_Collective)"

section \<open>Release capabilities\<close>

datatype evidence_status = CPU_CONTRACT_ONLY | GPU_VERIFIED

record release_capability =
  rc_schema_version :: int
  rc_topology_mode :: runtime_topology_mode
  rc_pinned_sglang_commit :: string
  rc_patched_sglang_tree :: string
  rc_semantic_patch_sha256 :: string
  rc_native_terminal_protocol_sha256 :: string
  rc_control_mode :: distributed_control_mode_t
  rc_process_group_backend :: string
  rc_adaptation_collective :: adaptation_collective_mode_t
  rc_evidence_status :: evidence_status
  rc_gpu_proof_sha256 :: "string option"

definition release_capability_post_init :: "release_capability \<Rightarrow> release_capability res" where
  "release_capability_post_init c =
     rbind (raise_if (rc_schema_version c \<noteq> 1)
       (ValueError ''distributed release capability schema is unsupported'')) (\<lambda>_.
     rbind (check_all (\<lambda>(label, value). require_hash_n label 40 value)
       [(''pinned SGLang commit'', rc_pinned_sglang_commit c),
        (''patched SGLang tree'', rc_patched_sglang_tree c)]) (\<lambda>_.
     rbind (check_all (\<lambda>(label, value). require_sha256 label value)
       [(''semantic patch'', rc_semantic_patch_sha256 c),
        (''native terminal protocol'', rc_native_terminal_protocol_sha256 c)]) (\<lambda>_.
     rbind (raise_if (rc_control_mode c \<noteq> distributed_control_mode (rc_topology_mode c))
       (ValueError ''distributed release control mode differs from topology'')) (\<lambda>_.
     rbind (raise_if (rc_adaptation_collective c \<noteq> adaptation_collective_mode (rc_topology_mode c))
       (ValueError ''distributed release adaptation collective differs from topology'')) (\<lambda>_.
     rbind (raise_if (rc_process_group_backend c
         \<noteq> (if rc_topology_mode c = Tp2_Dp1 then ''nccl'' else ''none''))
       (ValueError ''distributed release process-group backend differs from topology'')) (\<lambda>_.
     rbind (if rc_evidence_status c = GPU_VERIFIED then
         (case rc_gpu_proof_sha256 c of
            None \<Rightarrow> Inl (ValueError ''GPU-verified distributed release requires proof'')
          | Some proof \<Rightarrow> require_sha256 ''distributed GPU proof'' proof)
       else raise_if (rc_gpu_proof_sha256 c \<noteq> None)
         (ValueError ''CPU-only distributed capability cannot carry GPU proof'')) (\<lambda>_.
     Inr c)))))))"

fun mode_text :: "runtime_topology_mode \<Rightarrow> string" where
  "mode_text Tp1_Dp1 = ''tp1_dp1''"
| "mode_text Tp2_Dp1 = ''tp2_dp1''"
| "mode_text Tp1_Dp2 = ''tp1_dp2''"

fun control_text :: "distributed_control_mode_t \<Rightarrow> string" where
  "control_text Single_Rank = ''single_rank''"
| "control_text Tp_All_Rank_Two_Phase = ''tp_all_rank_two_phase''"
| "control_text Dp_Sticky_Replica_Local = ''dp_sticky_replica_local''"

fun collective_text :: "adaptation_collective_mode_t \<Rightarrow> string" where
  "collective_text No_Collective = ''none''"
| "collective_text Tp_Shard_All_Rank = ''tp_shard_all_rank''"

fun evidence_text :: "evidence_status \<Rightarrow> string" where
  "evidence_text CPU_CONTRACT_ONLY = ''CPU_CONTRACT_ONLY''"
| "evidence_text GPU_VERIFIED = ''GPU_VERIFIED''"

definition release_capability_sha256 :: "release_capability \<Rightarrow> string" where
  "release_capability_sha256 c = content_sha256 (JObj
     [(''adaptation_collective'', JStr (collective_text (rc_adaptation_collective c))),
      (''control_mode'', JStr (control_text (rc_control_mode c))),
      (''evidence_status'', JStr (evidence_text (rc_evidence_status c))),
      (''gpu_proof_sha256'', (case rc_gpu_proof_sha256 c of None \<Rightarrow> JNull | Some h \<Rightarrow> JStr h)),
      (''native_terminal_protocol_sha256'', JStr (rc_native_terminal_protocol_sha256 c)),
      (''patched_sglang_tree'', JStr (rc_patched_sglang_tree c)),
      (''pinned_sglang_commit'', JStr (rc_pinned_sglang_commit c)),
      (''process_group_backend'', JStr (rc_process_group_backend c)),
      (''schema_version'', JInt (rc_schema_version c)),
      (''semantic_patch_sha256'', JStr (rc_semantic_patch_sha256 c)),
      (''topology_mode'', JStr (mode_text (rc_topology_mode c)))])"

definition source_capability :: "runtime_topology_mode \<Rightarrow> release_capability" where
  "source_capability mode =
     \<lparr>rc_schema_version = 1, rc_topology_mode = mode,
      rc_pinned_sglang_commit = ''3312645a307453893a00778592f105581e3d1c3d'',
      rc_patched_sglang_tree = ''bb6371242e82592d1b8a2f5f4ba6d0630d8365cb'',
      rc_semantic_patch_sha256 = ''0c4db4f8798645c0ba65e97031030fb5e891d15f63cd75105fc1e1656c1a2874'',
      rc_native_terminal_protocol_sha256 =
        ''5c3113405e0646e0fa61bbd054e690d588996982e2f57ded94d77b6e0c072e02'',
      rc_control_mode = distributed_control_mode mode,
      rc_process_group_backend = (if mode = Tp2_Dp1 then ''nccl'' else ''none''),
      rc_adaptation_collective = adaptation_collective_mode mode,
      rc_evidence_status = CPU_CONTRACT_ONLY, rc_gpu_proof_sha256 = None\<rparr>"

definition release_capabilities :: "(runtime_topology_mode \<times> release_capability) list" where
  "release_capabilities = map (\<lambda>mode. (mode, source_capability mode)) [Tp2_Dp1, Tp1_Dp2]"

definition require_release_capability :: "runtime_topology_mode \<Rightarrow> string \<Rightarrow> release_capability res" where
  "require_release_capability topology_mode claimed =
     rbind (raise_if (topology_mode = Tp1_Dp1)
       (ValueError ''single-rank topology does not use a distributed capability'')) (\<lambda>_.
     rbind (require_sha256 ''claimed distributed release capability'' claimed) (\<lambda>_.
     (let blocked = Inl (AuthorityBlocked ''distributed_runtime_release_capability_unavailable''
        ''the release has no CPU-audited semantic patch identity for this mode'')
      in case dget release_capabilities topology_mode of
           None \<Rightarrow> blocked
         | Some c \<Rightarrow>
             if rc_topology_mode c \<noteq> topology_mode \<or> release_capability_sha256 c \<noteq> claimed
                \<or> rc_evidence_status c \<noteq> CPU_CONTRACT_ONLY
             then blocked else Inr c)))"

section \<open>Rank identities\<close>

record topology_identity =
  ti_tensor_parallel_size :: int
  ti_data_parallel_size :: int
  ti_node_count :: int
  ti_node_id :: string
  ti_node_rank :: int
  ti_global_rank :: int
  ti_local_rank :: int
  ti_tensor_parallel_rank :: int
  ti_data_parallel_rank :: int
  ti_device_id :: string
  ti_rendezvous_id :: string
  ti_router_id :: string
  ti_clock_id :: string

definition ti_world_size :: "topology_identity \<Rightarrow> int" where
  "ti_world_size t = ti_tensor_parallel_size t * ti_data_parallel_size t"

definition topology_identity_post_init :: "topology_identity \<Rightarrow> topology_identity res" where
  "topology_identity_post_init t =
     rbind (check_all (\<lambda>(name, value). require_counter 1 name value)
       [(''tensor_parallel_size'', ti_tensor_parallel_size t),
        (''data_parallel_size'', ti_data_parallel_size t), (''node_count'', ti_node_count t)]) (\<lambda>_.
     rbind (check_all (\<lambda>(name, value). require_counter 0 name value)
       [(''node_rank'', ti_node_rank t), (''global_rank'', ti_global_rank t),
        (''local_rank'', ti_local_rank t), (''tensor_parallel_rank'', ti_tensor_parallel_rank t),
        (''data_parallel_rank'', ti_data_parallel_rank t)]) (\<lambda>_.
     rbind (check_all (\<lambda>(name, value). require_nonempty name value)
       [(''node_id'', ti_node_id t), (''device_id'', ti_device_id t),
        (''rendezvous_id'', ti_rendezvous_id t), (''router_id'', ti_router_id t),
        (''clock_id'', ti_clock_id t)]) (\<lambda>_.
     rbind (raise_if (ti_node_count t \<le> ti_node_rank t)
       (ValueError ''node_rank is outside the declared node topology'')) (\<lambda>_.
     rbind (raise_if (ti_world_size t \<le> ti_global_rank t)
       (ValueError ''global_rank is outside the declared world'')) (\<lambda>_.
     rbind (raise_if (ti_tensor_parallel_size t \<le> ti_tensor_parallel_rank t)
       (ValueError ''tensor_parallel_rank is outside its TP group'')) (\<lambda>_.
     rbind (raise_if (ti_data_parallel_size t \<le> ti_data_parallel_rank t)
       (ValueError ''data_parallel_rank is outside its DP topology'')) (\<lambda>_.
     rbind (registered_runtime_topology_mode (ti_tensor_parallel_size t) (ti_data_parallel_size t)
         (ti_node_count t)) (\<lambda>_.
     rbind (raise_if (ti_global_rank t
         \<noteq> ti_data_parallel_rank t * ti_tensor_parallel_size t + ti_tensor_parallel_rank t)
       (ValueError ''global rank does not match the declared TP/DP ranks'')) (\<lambda>_.
     rbind (raise_if (ti_node_rank t \<noteq> 0 \<or> ti_local_rank t \<noteq> ti_global_rank t)
       (ValueError ''registered runtime ranks must be host-local with local_rank=global_rank'')) (\<lambda>_.
     Inr t))))))))))"

definition ti_mode :: "topology_identity \<Rightarrow> runtime_topology_mode res" where
  "ti_mode t = registered_runtime_topology_mode (ti_tensor_parallel_size t) (ti_data_parallel_size t)
     (ti_node_count t)"

definition topology_identity_json :: "topology_identity \<Rightarrow> json" where
  "topology_identity_json t = JObj
     [(''clock_id'', JStr (ti_clock_id t)),
      (''data_parallel_rank'', JInt (ti_data_parallel_rank t)),
      (''data_parallel_size'', JInt (ti_data_parallel_size t)),
      (''device_id'', JStr (ti_device_id t)),
      (''global_rank'', JInt (ti_global_rank t)),
      (''local_rank'', JInt (ti_local_rank t)),
      (''node_count'', JInt (ti_node_count t)),
      (''node_id'', JStr (ti_node_id t)),
      (''node_rank'', JInt (ti_node_rank t)),
      (''rendezvous_id'', JStr (ti_rendezvous_id t)),
      (''router_id'', JStr (ti_router_id t)),
      (''tensor_parallel_rank'', JInt (ti_tensor_parallel_rank t)),
      (''tensor_parallel_size'', JInt (ti_tensor_parallel_size t))]"

definition topology_identity_sha256 :: "topology_identity \<Rightarrow> string" where
  "topology_identity_sha256 t = content_sha256 (topology_identity_json t)"

definition common_identity :: "topology_identity \<Rightarrow> int \<times> int \<times> int \<times> string \<times> string \<times> string" where
  "common_identity t = (ti_tensor_parallel_size t, ti_data_parallel_size t, ti_node_count t,
     ti_rendezvous_id t, ti_router_id t, ti_clock_id t)"

record rank_topology_receipt =
  rt_topology :: topology_identity
  rt_process_id :: string
  rt_observed_world_size :: int

definition rank_topology_receipt_post_init :: "rank_topology_receipt \<Rightarrow> rank_topology_receipt res" where
  "rank_topology_receipt_post_init r =
     rbind (require_nonempty ''process_id'' (rt_process_id r)) (\<lambda>_.
     rbind (require_counter 1 ''observed_world_size'' (rt_observed_world_size r)) (\<lambda>_.
     rbind (raise_if (rt_observed_world_size r \<noteq> ti_world_size (rt_topology r))
       (ValueError ''rank observed a different process-group world size'')) (\<lambda>_.
     Inr r)))"

definition rank_topology_receipt_json :: "rank_topology_receipt \<Rightarrow> json" where
  "rank_topology_receipt_json r = JObj
     [(''observed_world_size'', JInt (rt_observed_world_size r)),
      (''process_id'', JStr (rt_process_id r)),
      (''topology'', topology_identity_json (rt_topology r))]"

definition rank_topology_receipt_sha256 :: "rank_topology_receipt \<Rightarrow> string" where
  "rank_topology_receipt_sha256 r = content_sha256 (rank_topology_receipt_json r)"

section \<open>Receipt sets\<close>

text \<open>A \<open>TopologyReceiptSet\<close> is its tuple of receipts.\<close>

type_synonym topology_receipt_set = "rank_topology_receipt list"

abbreviation receipt_rank :: "rank_topology_receipt \<Rightarrow> int" where
  "receipt_rank r \<equiv> ti_global_rank (rt_topology r)"

definition topology_receipt_set_post_init :: "topology_receipt_set \<Rightarrow> topology_receipt_set res" where
  "topology_receipt_set_post_init receipts =
    (case receipts of [] \<Rightarrow> Inl (ValueError ''topology receipts cannot be empty'')
     | head # _ \<Rightarrow>
       let first = rt_topology head;
           ranks = map receipt_rank receipts;
           devices = map (ti_device_id \<circ> rt_topology) receipts;
           node_pairs = (\<lambda>r. (ti_node_rank (rt_topology r), ti_node_id (rt_topology r))) ` set receipts;
           local_ranks = map (\<lambda>r. (ti_node_rank (rt_topology r), ti_local_rank (rt_topology r))) receipts
       in
       rbind (raise_if (\<not> distinct ranks) (ValueError ''duplicate topology rank receipt'')) (\<lambda>_.
       rbind (raise_if (set ranks \<noteq> set (int_range 0 (ti_world_size first)))
         (ValueError ''topology receipts do not cover every declared rank'')) (\<lambda>_.
       rbind (raise_if (card (set (map rt_process_id receipts)) \<noteq> length receipts)
         (ValueError ''topology process identities must be unique'')) (\<lambda>_.
       rbind (raise_if (\<exists>r \<in> set receipts. common_identity (rt_topology r) \<noteq> common_identity first)
         (ValueError ''rank receipts disagree on the common topology identity'')) (\<lambda>_.
       rbind (raise_if (\<not> distinct devices)
         (ValueError ''each rank must bind a distinct device identity'')) (\<lambda>_.
       rbind (raise_if (int (card (fst ` node_pairs)) \<noteq> ti_node_count first)
         (ValueError ''topology receipts do not cover every declared node'')) (\<lambda>_.
       rbind (raise_if (int (card (snd ` node_pairs)) \<noteq> ti_node_count first)
         (ValueError ''node ranks and node identities are not one-to-one'')) (\<lambda>_.
       rbind (raise_if (\<not> distinct local_ranks)
         (ValueError ''local rank is duplicated within a node'')) (\<lambda>_.
       Inr receipts)))))))))"

definition rs_world_size :: "topology_receipt_set \<Rightarrow> int" where
  "rs_world_size rs = ti_world_size (rt_topology (hd rs))"

definition rs_tensor_parallel_size :: "topology_receipt_set \<Rightarrow> int" where
  "rs_tensor_parallel_size rs = ti_tensor_parallel_size (rt_topology (hd rs))"

definition rs_data_parallel_size :: "topology_receipt_set \<Rightarrow> int" where
  "rs_data_parallel_size rs = ti_data_parallel_size (rt_topology (hd rs))"

definition rs_mode :: "topology_receipt_set \<Rightarrow> runtime_topology_mode res" where
  "rs_mode rs = ti_mode (rt_topology (hd rs))"

definition topology_json :: "topology_receipt_set \<Rightarrow> json" where
  "topology_json rs = JArr (map (topology_identity_json \<circ> rt_topology) (sort_key receipt_rank rs))"

definition topology_sha256 :: "topology_receipt_set \<Rightarrow> string" where
  "topology_sha256 rs = content_sha256 (topology_json rs)"

definition receipt_sha256 :: "topology_receipt_set \<Rightarrow> string" where
  "receipt_sha256 rs =
     content_sha256 (JArr (map (JStr \<circ> rank_topology_receipt_sha256) (sort_key receipt_rank rs)))"

definition receipt_for_rank :: "topology_receipt_set \<Rightarrow> int \<Rightarrow> rank_topology_receipt res" where
  "receipt_for_rank rs rank =
     rbind (require_counter 0 ''rank'' rank) (\<lambda>_.
     (case List.find (\<lambda>r. receipt_rank r = rank) rs of
        Some r \<Rightarrow> Inr r
      | None \<Rightarrow> Inl (KeyError (''rank '' @ show_int rank @ '' is outside the topology''))))"

definition tensor_parallel_group :: "topology_receipt_set \<Rightarrow> int \<Rightarrow> int list res" where
  "tensor_parallel_group rs data_parallel_rank =
     rbind (require_counter 0 ''data_parallel_rank'' data_parallel_rank) (\<lambda>_.
     rbind (raise_if (rs_data_parallel_size rs \<le> data_parallel_rank)
       (ValueError ''data_parallel_rank is outside the topology'')) (\<lambda>_.
     let start = data_parallel_rank * rs_tensor_parallel_size rs
     in Inr (int_range start (start + rs_tensor_parallel_size rs))))"

section \<open>Parameter ownership\<close>

datatype parameter_ownership = SHARDED | REPLICATED

record inference_parameter_ownership =
  ip_parameter_name :: string
  ip_ownership :: parameter_ownership
  ip_owner_ranks :: "int list"
  ip_shard_axis :: "int option"

definition parameter_ownership_post_init ::
  "inference_parameter_ownership \<Rightarrow> inference_parameter_ownership res" where
  "parameter_ownership_post_init p =
     rbind (require_nonempty ''parameter_name'' (ip_parameter_name p)) (\<lambda>_.
     rbind (raise_if (ip_owner_ranks p = [])
       (ValueError ''parameter ownership requires at least one rank'')) (\<lambda>_.
     rbind (raise_if (\<not> distinct (ip_owner_ranks p))
       (ValueError ''parameter owner ranks must be unique'')) (\<lambda>_.
     rbind (check_all (require_counter 0 ''owner rank'') (ip_owner_ranks p)) (\<lambda>_.
     rbind (if ip_ownership p = SHARDED then
         (case ip_shard_axis p of
            None \<Rightarrow> Inl (ValueError ''sharded parameters require a shard axis'')
          | Some axis \<Rightarrow> require_counter 0 ''shard_axis'' axis)
       else raise_if (ip_shard_axis p \<noteq> None)
         (ValueError ''replicated parameters cannot declare a shard axis'')) (\<lambda>_.
     Inr p)))))"

definition validate_ownership ::
  "inference_parameter_ownership \<Rightarrow> topology_receipt_set \<Rightarrow> unit res" where
  "validate_ownership p rs =
     rbind (raise_if (\<exists>rank \<in> set (ip_owner_ranks p). rs_world_size rs \<le> rank)
       (ValueError ''parameter owner rank is outside the topology'')) (\<lambda>_.
     check_all (\<lambda>replica.
       rbind (tensor_parallel_group rs replica) (\<lambda>group.
       let overlap = set group \<inter> set (ip_owner_ranks p)
       in raise_if (overlap \<noteq> {} \<and> overlap \<noteq> set group)
            (ValueError ''parameter ownership partially covers a TP replica'')))
       (int_range 0 (rs_data_parallel_size rs)))"

definition gradient_reduction_ranks ::
  "inference_parameter_ownership \<Rightarrow> int \<Rightarrow> topology_receipt_set \<Rightarrow> int list res" where
  "gradient_reduction_ranks p rank rs =
     rbind (validate_ownership p rs) (\<lambda>_.
     rbind (raise_if (rank \<notin> set (ip_owner_ranks p)) (ValueError ''rank does not own this parameter'')) (\<lambda>_.
     (if ip_ownership p = SHARDED then Inr [rank]
      else rbind (tensor_parallel_group rs (rank div rs_tensor_parallel_size rs)) (\<lambda>group.
        Inr (filter (\<lambda>member. member \<in> set (ip_owner_ranks p)) group)))))"

section \<open>Sticky routing\<close>

record cohort_route_identity =
  ri_tenant_id :: string
  ri_cohort_sha256 :: string
  ri_router_id :: string
  ri_topology_sha256 :: string

definition cohort_route_identity_post_init :: "cohort_route_identity \<Rightarrow> cohort_route_identity res" where
  "cohort_route_identity_post_init i =
     rbind (require_nonempty ''tenant_id'' (ri_tenant_id i)) (\<lambda>_.
     rbind (require_nonempty ''router_id'' (ri_router_id i)) (\<lambda>_.
     rbind (require_sha256 ''cohort_sha256'' (ri_cohort_sha256 i)) (\<lambda>_.
     rbind (require_sha256 ''topology_sha256'' (ri_topology_sha256 i)) (\<lambda>_.
     Inr i))))"

definition route_identity_sha256 :: "cohort_route_identity \<Rightarrow> string" where
  "route_identity_sha256 i = content_sha256 (JObj
     [(''cohort_sha256'', JStr (ri_cohort_sha256 i)), (''router_id'', JStr (ri_router_id i)),
      (''tenant_id'', JStr (ri_tenant_id i)), (''topology_sha256'', JStr (ri_topology_sha256 i))])"

record replica_local_router =
  rl_topology :: topology_receipt_set
  rl_routes :: "(string \<times> int) list"

definition router_init :: "topology_receipt_set \<Rightarrow> replica_local_router" where
  "router_init topology = \<lparr>rl_topology = topology, rl_routes = []\<rparr>"

text \<open>\<open>int(text, 16)\<close> on lower-case hexadecimal digits\<close>

definition int_of_hex :: "string \<Rightarrow> int" where
  "int_of_hex s = foldl (\<lambda>n c. 16 * n + int (hex_val c)) 0 s"

definition route ::
  "replica_local_router \<Rightarrow> cohort_route_identity \<Rightarrow> (replica_local_router, int) op_result" where
  "route r identity =
    (if ri_topology_sha256 identity \<noteq> topology_sha256 (rl_topology r)
     then (r, Inl (ValueError ''cohort route belongs to another topology''))
     else if ri_router_id identity \<noteq> ti_router_id (rt_topology (hd (rl_topology r)))
     then (r, Inl (ValueError ''cohort route belongs to another router''))
     else let digest = route_identity_sha256 identity in
       case dget (rl_routes r) digest of
         Some existing \<Rightarrow> (r, Inr existing)
       | None \<Rightarrow>
           let replica = int_of_hex (take 16 digest) mod rs_data_parallel_size (rl_topology r)
           in (r\<lparr>rl_routes := dset digest replica (rl_routes r)\<rparr>, Inr replica))"

definition ranks_for ::
  "replica_local_router \<Rightarrow> cohort_route_identity \<Rightarrow> (replica_local_router, int list) op_result" where
  "ranks_for r identity =
     and_then (route r identity) (\<lambda>r replica. (r, tensor_parallel_group (rl_topology r) replica))"

section \<open>What a capability check accepts\<close>

lemma require_release_capability_Inr:
  assumes "require_release_capability mode claimed = Inr c"
  shows "mode \<noteq> Tp1_Dp1" "c = source_capability mode" "claimed = release_capability_sha256 c"
  using assms
  by (cases mode; auto simp: require_release_capability_def release_capabilities_def Let_def
      split: if_splits)+

section \<open>Coverage of the ranks\<close>

text \<open>Receipts whose constructors accepted them.\<close>

definition valid_topology :: "topology_receipt_set \<Rightarrow> bool" where
  "valid_topology rs \<longleftrightarrow>
     (\<forall>r \<in> set rs. is_ok (topology_identity_post_init (rt_topology r))
        \<and> is_ok (rank_topology_receipt_post_init r))
     \<and> is_ok (topology_receipt_set_post_init rs)"

lemma registered_mode_Inr:
  "registered_runtime_topology_mode tp dp n = Inr mode \<Longrightarrow>
     n = 1 \<and> (tp = 1 \<and> dp = 1 \<and> mode = Tp1_Dp1 \<or> tp = 2 \<and> dp = 1 \<and> mode = Tp2_Dp1
       \<or> tp = 1 \<and> dp = 2 \<and> mode = Tp1_Dp2)"
  by (auto simp: registered_runtime_topology_mode_def registered_runtime_topologies_def
      split: option.splits if_splits)

lemma topology_identity_ok:
  assumes "is_ok (topology_identity_post_init t)"
  shows "\<exists>mode. registered_runtime_topology_mode (ti_tensor_parallel_size t) (ti_data_parallel_size t)
      (ti_node_count t) = Inr mode"
    "ti_global_rank t = ti_data_parallel_rank t * ti_tensor_parallel_size t + ti_tensor_parallel_rank t"
    "0 \<le> ti_tensor_parallel_rank t" "ti_tensor_parallel_rank t < ti_tensor_parallel_size t"
    "0 \<le> ti_data_parallel_rank t" "ti_data_parallel_rank t < ti_data_parallel_size t"
    "ti_node_rank t = 0" "ti_local_rank t = ti_global_rank t"
  using assms
  by (auto simp: is_ok_iff topology_identity_post_init_def require_counter_def)

lemma valid_topologyD:
  assumes "valid_topology rs"
  shows "rs \<noteq> []" "distinct (map receipt_rank rs)" "set (map receipt_rank rs) = {0..<rs_world_size rs}"
    "\<And>r. r \<in> set rs \<Longrightarrow> common_identity (rt_topology r) = common_identity (rt_topology (hd rs))"
    "\<And>r. r \<in> set rs \<Longrightarrow> is_ok (topology_identity_post_init (rt_topology r))"
    "distinct (map (ti_device_id \<circ> rt_topology) rs)"
proof -
  from assms obtain rs' where "topology_receipt_set_post_init rs = Inr rs'"
    by (auto simp: valid_topology_def is_ok_iff)
  then have ok: "topology_receipt_set_post_init rs = Inr rs"
    by (auto simp: topology_receipt_set_post_init_def Let_def split: list.splits)
  then obtain h tl where rs: "rs = h # tl" by (cases rs) (auto simp: topology_receipt_set_post_init_def)
  show "rs \<noteq> []" by (simp add: rs)
  note facts = ok [unfolded topology_receipt_set_post_init_def Let_def]
  show "distinct (map receipt_rank rs)" "set (map receipt_rank rs) = {0..<rs_world_size rs}"
    "distinct (map (ti_device_id \<circ> rt_topology) rs)"
    using facts by (simp_all add: rs rs_world_size_def)
  show "common_identity (rt_topology r) = common_identity (rt_topology (hd rs))" if "r \<in> set rs" for r
    using facts that by (auto simp: rs)
  show "is_ok (topology_identity_post_init (rt_topology r))" if "r \<in> set rs" for r
    using assms that by (simp add: valid_topology_def)
qed

lemma valid_topology_sizes:
  assumes "valid_topology rs"
  shows "(rs_tensor_parallel_size rs, rs_data_parallel_size rs) \<in> {(1, 1), (2, 1), (1, 2)}"
    "rs_world_size rs = rs_tensor_parallel_size rs * rs_data_parallel_size rs"
    "is_ok (rs_mode rs)"
proof -
  have "hd rs \<in> set rs" using valid_topologyD(1) [OF assms] by simp
  note ok = topology_identity_ok(1) [OF valid_topologyD(5) [OF assms this]]
  then show "(rs_tensor_parallel_size rs, rs_data_parallel_size rs) \<in> {(1, 1), (2, 1), (1, 2)}"
    by (auto simp: rs_tensor_parallel_size_def rs_data_parallel_size_def dest: registered_mode_Inr)
  show "is_ok (rs_mode rs)" using ok by (simp add: rs_mode_def ti_mode_def is_ok_iff)
  show "rs_world_size rs = rs_tensor_parallel_size rs * rs_data_parallel_size rs"
    by (simp add: rs_world_size_def ti_world_size_def rs_tensor_parallel_size_def rs_data_parallel_size_def)
qed

lemma receipt_sizes:
  assumes "valid_topology rs" "r \<in> set rs"
  shows "ti_tensor_parallel_size (rt_topology r) = rs_tensor_parallel_size rs"
    "ti_data_parallel_size (rt_topology r) = rs_data_parallel_size rs"
  using valid_topologyD(4) [OF assms]
  by (simp_all add: common_identity_def rs_tensor_parallel_size_def rs_data_parallel_size_def)

lemma receipt_for_rank_ok:
  assumes "valid_topology rs" "0 \<le> rank" "rank < rs_world_size rs"
  shows "\<exists>r \<in> set rs. receipt_for_rank rs rank = Inr r \<and> receipt_rank r = rank"
proof -
  have "rank \<in> set (map receipt_rank rs)" using valid_topologyD(3) [OF assms(1)] assms(2,3) by simp
  then obtain r where "List.find (\<lambda>r. receipt_rank r = rank) rs = Some r" "r \<in> set rs" "receipt_rank r = rank"
    by (cases "List.find (\<lambda>r. receipt_rank r = rank) rs")
      (auto simp: find_None_iff find_Some_iff)
  with assms(2) show ?thesis by (auto simp: receipt_for_rank_def require_counter_def)
qed

lemma tensor_parallel_group_ok:
  assumes "0 \<le> d" "d < rs_data_parallel_size rs"
  shows "tensor_parallel_group rs d =
    Inr (int_range (d * rs_tensor_parallel_size rs) (d * rs_tensor_parallel_size rs + rs_tensor_parallel_size rs))"
  using assms by (simp add: tensor_parallel_group_def require_counter_def Let_def)

lemma tensor_parallel_group_Inr:
  assumes "tensor_parallel_group rs d = Inr g"
  shows "0 \<le> d" "d < rs_data_parallel_size rs"
    "set g = {d * rs_tensor_parallel_size rs..<d * rs_tensor_parallel_size rs + rs_tensor_parallel_size rs}"
  using assms by (auto simp: tensor_parallel_group_def require_counter_def Let_def)

lemma block_index:
  fixes n :: int
  assumes "0 < n"
  shows "d * n \<le> x \<and> x < d * n + n \<longleftrightarrow> x div n = d"
proof
  assume "d * n \<le> x \<and> x < d * n + n"
  then show "x div n = d" by (intro int_div_pos_eq [of x n d "x - d * n"]) (auto simp: mult.commute)
next
  assume "x div n = d"
  then have "x = d * n + x mod n" by (metis div_mult_mod_eq)
  then show "d * n \<le> x \<and> x < d * n + n"
    using pos_mod_bound [OF assms, of x] pos_mod_sign [OF assms, of x] by linarith
qed

lemma tp_size_pos: "valid_topology rs \<Longrightarrow> 0 < rs_tensor_parallel_size rs"
  using valid_topology_sizes(1) by fastforce

section \<open>Properties\<close>

text \<open>
  C32: In an accepted topology every rank of the world has exactly one receipt, on its own device,
  and belongs to exactly one tensor-parallel group: the group of its data-parallel rank, in which
  its place is its tensor-parallel rank. The world never has more than two ranks.
\<close>

theorem topology_covers_every_rank_once:
  assumes "valid_topology rs" "0 \<le> rank" "rank < rs_world_size rs"
  shows "(\<exists>!r. r \<in> set rs \<and> receipt_rank r = rank)
    \<and> (\<exists>r g. receipt_for_rank rs rank = Inr r \<and> receipt_rank r = rank
        \<and> tensor_parallel_group rs (ti_data_parallel_rank (rt_topology r)) = Inr g
        \<and> g ! nat (ti_tensor_parallel_rank (rt_topology r)) = rank
        \<and> (\<forall>d g'. tensor_parallel_group rs d = Inr g' \<and> rank \<in> set g'
              \<longrightarrow> d = ti_data_parallel_rank (rt_topology r)))
    \<and> distinct (map (ti_device_id \<circ> rt_topology) rs) \<and> rs_world_size rs \<le> 2"
proof -
  let ?n = "rs_tensor_parallel_size rs"
  obtain r where r: "r \<in> set rs" "receipt_for_rank rs rank = Inr r" "receipt_rank r = rank"
    using receipt_for_rank_ok [OF assms] by blast
  have inj: "inj_on receipt_rank (set rs)"
    using valid_topologyD(2) [OF assms(1)] by (simp add: distinct_map)
  have one: "\<exists>!r. r \<in> set rs \<and> receipt_rank r = rank" using r inj by (auto dest: inj_onD)
  let ?t = "rt_topology r"
  note T = topology_identity_ok [OF valid_topologyD(5) [OF assms(1) r(1)],
      unfolded receipt_sizes [OF assms(1) r(1)]]
  let ?g = "int_range (ti_data_parallel_rank ?t * ?n) (ti_data_parallel_rank ?t * ?n + ?n)"
  have g: "tensor_parallel_group rs (ti_data_parallel_rank ?t) = Inr ?g"
    by (rule tensor_parallel_group_ok [OF T(5,6)])
  have place: "?g ! nat (ti_tensor_parallel_rank ?t) = rank"
    using T(2,3,4) r(3) by (simp add: int_range_def)
  have "rank div ?n = ti_data_parallel_rank ?t"
    using block_index [OF tp_size_pos [OF assms(1)], of "ti_data_parallel_rank ?t" rank] T(2,3,4) r(3) by simp
  then have "\<forall>d g'. tensor_parallel_group rs d = Inr g' \<and> rank \<in> set g' \<longrightarrow> d = ti_data_parallel_rank ?t"
    using block_index [OF tp_size_pos [OF assms(1)]] tensor_parallel_group_Inr(3) by fastforce
  moreover have "rs_world_size rs \<le> 2"
    using valid_topology_sizes(1,2) [OF assms(1)] by auto
  ultimately show ?thesis
    using one r g place valid_topologyD(6) [OF assms(1)] by blast
qed

text \<open>Two tensor-parallel ranks on one host, for the witnesses.\<close>

definition example_rank :: "int \<Rightarrow> rank_topology_receipt" where
  "example_rank k = \<lparr>rt_topology = \<lparr>ti_tensor_parallel_size = 2, ti_data_parallel_size = 1,
       ti_node_count = 1, ti_node_id = ''n'', ti_node_rank = 0, ti_global_rank = k, ti_local_rank = k,
       ti_tensor_parallel_rank = k, ti_data_parallel_rank = 0, ti_device_id = show_int k,
       ti_rendezvous_id = ''v'', ti_router_id = ''r'', ti_clock_id = ''c''\<rparr>,
     rt_process_id = show_int k, rt_observed_world_size = 2\<rparr>"

definition example_topology :: topology_receipt_set where
  "example_topology = [example_rank 1, example_rank 0]"

lemma example_topology_valid: "valid_topology example_topology"
  by code_simp

lemma example_topology_sizes:
  "rs_world_size example_topology = 2" "rs_tensor_parallel_size example_topology = 2"
  "rs_data_parallel_size example_topology = 1"
  by (simp_all add: example_topology_def example_rank_def rs_world_size_def ti_world_size_def
      rs_tensor_parallel_size_def rs_data_parallel_size_def)

theorem topology_covers_every_rank_once_witness:
  "valid_topology example_topology \<and> (\<exists>!r. r \<in> set example_topology \<and> receipt_rank r = 1)"
  using topology_covers_every_rank_once [OF example_topology_valid, of 1] example_topology_valid
  by (simp add: example_topology_sizes)

lemma validate_ownership_Inr:
  assumes "validate_ownership p rs = Inr u" "tensor_parallel_group rs d = Inr g"
  shows "set g \<inter> set (ip_owner_ranks p) = {} \<or> set g \<subseteq> set (ip_owner_ranks p)"
    "\<forall>rank \<in> set (ip_owner_ranks p). rank < rs_world_size rs"
proof -
  have "d \<in> {0..<rs_data_parallel_size rs}" using tensor_parallel_group_Inr(1,2) [OF assms(2)] by simp
  then have "d \<in> set (int_range 0 (rs_data_parallel_size rs))" by simp
  with assms(1) have "rbind (tensor_parallel_group rs d) (\<lambda>group.
       let overlap = set group \<inter> set (ip_owner_ranks p)
       in raise_if (overlap \<noteq> {} \<and> overlap \<noteq> set group)
            (ValueError ''parameter ownership partially covers a TP replica'')) = Inr ()"
    unfolding validate_ownership_def rbind_raise_if guard_Inr check_all_Inr by blast
  then show "set g \<inter> set (ip_owner_ranks p) = {} \<or> set g \<subseteq> set (ip_owner_ranks p)"
    by (auto simp: assms(2) Let_def)
  show "\<forall>rank \<in> set (ip_owner_ranks p). rank < rs_world_size rs"
    using assms(1) by (auto simp: validate_ownership_def not_le)
qed

lemma owner_group:
  assumes "valid_topology rs" "0 \<le> rank" "rank < rs_world_size rs"
  shows "\<exists>g. tensor_parallel_group rs (rank div rs_tensor_parallel_size rs) = Inr g \<and> rank \<in> set g"
proof -
  let ?n = "rs_tensor_parallel_size rs"
  have pos: "0 < ?n" by (rule tp_size_pos [OF assms(1)])
  have "rank div ?n < rs_data_parallel_size rs"
  proof (rule ccontr)
    assume "\<not> rank div ?n < rs_data_parallel_size rs"
    then have "rs_data_parallel_size rs * ?n \<le> rank div ?n * ?n" using pos by (simp add: mult_right_mono)
    moreover have "rank div ?n * ?n \<le> rank" using block_index [OF pos, of "rank div ?n" rank] by simp
    ultimately show False using assms(3) valid_topology_sizes(2) [OF assms(1)] by (simp add: mult.commute)
  qed
  moreover have "0 \<le> rank div ?n" using assms(2) pos by (simp add: pos_imp_zdiv_nonneg_iff)
  ultimately show ?thesis
    using block_index [OF pos, of "rank div ?n" rank] by (simp add: tensor_parallel_group_ok)
qed

text \<open>
  The ranks a gradient is reduced over always contain the asking rank and lie inside its
  own tensor-parallel group, all of them owners of the parameter: gradients never cross
  data-parallel replicas. For a replicated parameter they are the whole group, for a sharded one
  the rank alone.
\<close>

theorem gradients_stay_in_the_replica:
  assumes "valid_topology rs" "parameter_ownership_post_init p = Inr p"
    "gradient_reduction_ranks p rank rs = Inr members"
  shows "\<exists>g. tensor_parallel_group rs (rank div rs_tensor_parallel_size rs) = Inr g
    \<and> rank \<in> set members \<and> set members \<subseteq> set g \<and> set members \<subseteq> set (ip_owner_ranks p)
    \<and> (if ip_ownership p = SHARDED then members = [rank] else members = g)"
proof -
  have own: "rank \<in> set (ip_owner_ranks p)" and val: "validate_ownership p rs = Inr ()"
    using assms(3) by (auto simp: gradient_reduction_ranks_def)
  have "0 \<le> rank" using assms(2) own by (auto simp: parameter_ownership_post_init_def require_counter_def)
  moreover have "rank < rs_world_size rs"
    using val own by (auto simp: validate_ownership_def not_le)
  ultimately obtain g where g: "tensor_parallel_group rs (rank div rs_tensor_parallel_size rs) = Inr g"
    "rank \<in> set g" using owner_group [OF assms(1)] by blast
  have "set g \<subseteq> set (ip_owner_ranks p)"
    using validate_ownership_Inr(1) [OF val g(1)] g(2) own by blast
  then have "filter (\<lambda>member. member \<in> set (ip_owner_ranks p)) g = g" by (auto simp: filter_id_conv)
  with assms(3) g own \<open>set g \<subseteq> set (ip_owner_ranks p)\<close> show ?thesis
    by (auto simp: gradient_reduction_ranks_def split: if_splits)
qed

definition example_parameter :: inference_parameter_ownership where
  "example_parameter = \<lparr>ip_parameter_name = ''w'', ip_ownership = REPLICATED,
     ip_owner_ranks = [0, 1], ip_shard_axis = None\<rparr>"

theorem gradients_stay_in_the_replica_witness:
  "gradient_reduction_ranks example_parameter 1 example_topology = Inr [0, 1]
   \<and> 1 \<in> set [0, 1 :: int]"
proof -
  have p: "parameter_ownership_post_init example_parameter = Inr example_parameter" by code_simp
  have r: "gradient_reduction_ranks example_parameter 1 example_topology = Inr [0, 1]" by code_simp
  from gradients_stay_in_the_replica [OF example_topology_valid p r] r show ?thesis by blast
qed

section \<open>Routing\<close>

text \<open>The specification of the router: a replica computed from the identity alone.\<close>

definition route_spec :: "topology_receipt_set \<Rightarrow> cohort_route_identity \<Rightarrow> int res" where
  "route_spec rs identity =
    (if ri_topology_sha256 identity \<noteq> topology_sha256 rs
     then Inl (ValueError ''cohort route belongs to another topology'')
     else if ri_router_id identity \<noteq> ti_router_id (rt_topology (hd rs))
     then Inl (ValueError ''cohort route belongs to another router'')
     else Inr (int_of_hex (take 16 (route_identity_sha256 identity)) mod rs_data_parallel_size rs))"

definition router_inv :: "topology_receipt_set \<Rightarrow> replica_local_router \<Rightarrow> bool" where
  "router_inv rs r \<longleftrightarrow> rl_topology r = rs
     \<and> (\<forall>h v. dget (rl_routes r) h = Some v \<longrightarrow> v = int_of_hex (take 16 h) mod rs_data_parallel_size rs)"

lemma route_refines: "router_inv rs r \<Longrightarrow> snd (route r i) = route_spec rs i"
  by (auto simp: router_inv_def route_def route_spec_def Let_def split: option.splits)

lemma route_inv: "router_inv rs r \<Longrightarrow> router_inv rs (fst (route r i))"
  by (auto simp: router_inv_def route_def Let_def dict_simps split: option.splits)

interpretation router: invariant_machine "\<lambda>r i. fst (route r i)" "router_inv rs" for rs
  by unfold_locales (rule route_inv)

text \<open>
  Routing is sticky. Whatever other cohorts were routed before, a cohort is always sent to the
  same replica of the topology, and the ranks it is served by are one tensor-parallel group.
\<close>

theorem routing_is_sticky:
  assumes "valid_topology rs"
  shows "snd (route (foldl (\<lambda>r i. fst (route r i)) (router_init rs) earlier) i) = route_spec rs i
    \<and> (\<forall>d. route_spec rs i = Inr d \<longrightarrow> 0 \<le> d \<and> d < rs_data_parallel_size rs
        \<and> snd (ranks_for (foldl (\<lambda>r i. fst (route r i)) (router_init rs) earlier) i)
            = tensor_parallel_group rs d
        \<and> is_ok (tensor_parallel_group rs d))"
proof -
  let ?r = "foldl (\<lambda>r i. fst (route r i)) (router_init rs) earlier"
  have "router_inv rs (router_init rs)" by (simp add: router_inv_def router_init_def)
  then have inv: "router_inv rs ?r" by (rule router.run_inv)
  have d: "0 \<le> d \<and> d < rs_data_parallel_size rs" if "route_spec rs i = Inr d" for d
  proof -
    have "0 < rs_data_parallel_size rs" using valid_topology_sizes(1) [OF assms] by auto
    with that show ?thesis by (auto simp: route_spec_def)
  qed
  have "snd (ranks_for ?r i) = tensor_parallel_group rs d" if "route_spec rs i = Inr d" for d
    using route_refines [OF inv, of i] route_inv [OF inv, of i] that
    by (cases "route ?r i") (auto simp: ranks_for_def router_inv_def)
  with d route_refines [OF inv, of i] show ?thesis
    by (auto simp: tensor_parallel_group_ok)
qed

theorem routing_is_sticky_witness:
  "let i = \<lparr>ri_tenant_id = ''t'', ri_cohort_sha256 = replicate 64 CHR ''a'', ri_router_id = ''r'',
            ri_topology_sha256 = topology_sha256 example_topology\<rparr>
   in \<exists>d. snd (route (fst (route (router_init example_topology) i)) i) = Inr d \<and> 0 \<le> d \<and> d < 1"
proof -
  let ?i = "\<lparr>ri_tenant_id = ''t'', ri_cohort_sha256 = replicate 64 CHR ''a'', ri_router_id = ''r'',
            ri_topology_sha256 = topology_sha256 example_topology\<rparr>"
  obtain d where "route_spec example_topology ?i = Inr d"
    by (simp add: route_spec_def example_topology_def example_rank_def)
  with routing_is_sticky [OF example_topology_valid, of "[?i]" ?i] show ?thesis
    by (auto simp: Let_def example_topology_sizes)
qed

section \<open>Digests of a topology\<close>

lemma topology_identity_canonical: "canonical (topology_identity_json t)"
proof -
  have "sorted [''clock_id'', ''data_parallel_rank'', ''data_parallel_size'', ''device_id'',
      ''global_rank'', ''local_rank'', ''node_count'', ''node_id'', ''node_rank'',
      ''rendezvous_id'', ''router_id'', ''tensor_parallel_rank'', ''tensor_parallel_size'']"
    by code_simp
  then show ?thesis by (simp add: topology_identity_json_def)
qed

lemma topology_identity_json_inj: "topology_identity_json t = topology_identity_json t' \<Longrightarrow> t = t'"
  by (cases t; cases t') (simp add: topology_identity_json_def)

lemma topology_json_canonical: "canonical (topology_json rs)"
  by (simp add: topology_json_def list_all_iff topology_identity_canonical)

text \<open>
  The topology digest identifies the topology. Two accepted receipt sets with the same digest
  hold the same rank identities, rank by rank, unless SHA-256 collides on their encodings; only the
  process identities may differ. A restarted process group can therefore not change its shape.
\<close>

theorem topology_digest_identifies:
  assumes "topology_sha256 rs = topology_sha256 rs'" "\<not> collide (topology_json rs) (topology_json rs')"
  shows "map rt_topology (sort_key receipt_rank rs) = map rt_topology (sort_key receipt_rank rs')"
proof -
  have "topology_json rs = topology_json rs'"
    using content_sha256_inj [OF topology_json_canonical topology_json_canonical assms(2)] assms(1)
    by (simp add: topology_sha256_def)
  then have "map topology_identity_json (map rt_topology (sort_key receipt_rank rs))
      = map topology_identity_json (map rt_topology (sort_key receipt_rank rs'))"
    by (simp add: topology_json_def)
  moreover have "inj topology_identity_json" by (rule injI) (rule topology_identity_json_inj)
  ultimately show ?thesis by (simp only: inj_map_eq_map)
qed

theorem topology_digest_identifies_witness:
  "let rs = rev (map (\<lambda>r. r\<lparr>rt_process_id := ''q''\<rparr>) example_topology) in
     topology_sha256 rs = topology_sha256 example_topology
     \<and> map rt_topology (sort_key receipt_rank rs) = map rt_topology (sort_key receipt_rank example_topology)"
proof -
  let ?rs = "rev (map (\<lambda>r. r\<lparr>rt_process_id := ''q''\<rparr>) example_topology)"
  have same: "topology_json ?rs = topology_json example_topology"
    by (simp add: topology_json_def example_topology_def example_rank_def)
  then have digest: "topology_sha256 ?rs = topology_sha256 example_topology"
    by (simp add: topology_sha256_def)
  from topology_digest_identifies [OF digest] same digest show ?thesis
    by (simp add: Let_def collide_def)
qed

end
