(* ===== verification/AllRank.thy ===== *)
theory AllRank
  imports Topology
begin

text \<open>
  The two-phase publication of \<open>runtime/distributed.py\<close>: every rank votes on a candidate
  (\<open>prepare\<close>), the coordinator derives one outcome (\<open>decide\<close>), and the service opens again only
  when every rank has receipted that same outcome (\<open>finalize\<close>). The coordinator is a mutable
  object; the Gloo transport drives one coordinator per rank through collectives, which are
  parameters.
\<close>

section \<open>Identities and votes\<close>

record update_identity =
  ui_cohort_sha256 :: string
  ui_source_version :: int
  ui_cohort_epoch :: int
  ui_sequence_number :: int
  ui_source_rows_sha256 :: string

definition update_identity_post_init :: "update_identity \<Rightarrow> update_identity res" where
  "update_identity_post_init u =
     rbind (require_sha256 ''cohort_sha256'' (ui_cohort_sha256 u)) (\<lambda>_.
     rbind (require_sha256 ''source_rows_sha256'' (ui_source_rows_sha256 u)) (\<lambda>_.
     rbind (check_all (\<lambda>(name, value). require_counter 0 name value)
       [(''source_version'', ui_source_version u), (''cohort_epoch'', ui_cohort_epoch u),
        (''sequence_number'', ui_sequence_number u)]) (\<lambda>_.
     Inr u)))"

definition update_identity_sha256 :: "update_identity \<Rightarrow> string" where
  "update_identity_sha256 u = content_sha256 (JObj
     [(''cohort_epoch'', JInt (ui_cohort_epoch u)), (''cohort_sha256'', JStr (ui_cohort_sha256 u)),
      (''sequence_number'', JInt (ui_sequence_number u)),
      (''source_rows_sha256'', JStr (ui_source_rows_sha256 u)),
      (''source_version'', JInt (ui_source_version u))])"

record publication_candidate =
  pc_update :: update_identity
  pc_buffer_generation :: int
  pc_optimizer_generation :: int

definition publication_candidate_post_init :: "publication_candidate \<Rightarrow> publication_candidate res" where
  "publication_candidate_post_init c =
     rbind (require_counter 0 ''buffer_generation'' (pc_buffer_generation c)) (\<lambda>_.
     rbind (require_counter 0 ''optimizer_generation'' (pc_optimizer_generation c)) (\<lambda>_.
     Inr c))"

definition publication_candidate_sha256 :: "publication_candidate \<Rightarrow> string" where
  "publication_candidate_sha256 c = content_sha256 (JObj
     [(''buffer_generation'', JInt (pc_buffer_generation c)),
      (''optimizer_generation'', JInt (pc_optimizer_generation c)),
      (''update_sha256'', JStr (update_identity_sha256 (pc_update c)))])"

record rank_prepare =
  rp_rank :: int
  rp_topology_receipt_sha256 :: string
  rp_candidate_sha256 :: string
  rp_source_version :: int
  rp_cohort_epoch :: int
  rp_buffer_generation :: int
  rp_optimizer_generation :: int
  rp_ready :: bool
  rp_finite :: bool
  rp_memory_reserved :: bool
  rp_safe_boundary :: bool
  rp_process_group_healthy :: bool

definition rank_prepare_post_init :: "rank_prepare \<Rightarrow> rank_prepare res" where
  "rank_prepare_post_init v =
     rbind (require_counter 0 ''rank'' (rp_rank v)) (\<lambda>_.
     rbind (require_sha256 ''topology_receipt_sha256'' (rp_topology_receipt_sha256 v)) (\<lambda>_.
     rbind (require_sha256 ''candidate_sha256'' (rp_candidate_sha256 v)) (\<lambda>_.
     rbind (check_all (\<lambda>(name, value). require_counter 0 name value)
       [(''source_version'', rp_source_version v), (''cohort_epoch'', rp_cohort_epoch v),
        (''buffer_generation'', rp_buffer_generation v),
        (''optimizer_generation'', rp_optimizer_generation v)]) (\<lambda>_.
     Inr v))))"

datatype prepare_disposition = COMMIT_READY | PREPARE_ABORT_STATIC | PREPARE_PROCESS_GROUP_FAILURE

record prepared_publication =
  pp_update_sha256 :: string
  pp_candidate_sha256 :: string
  pp_topology_sha256 :: string
  pp_disposition :: prepare_disposition
  pp_reasons :: "string list"
  pp_ranks :: "int list"

definition prepared_publication_post_init :: "prepared_publication \<Rightarrow> prepared_publication res" where
  "prepared_publication_post_init p =
     rbind (check_all (\<lambda>(name, value). require_sha256 name value)
       [(''prepared update'', pp_update_sha256 p), (''prepared candidate'', pp_candidate_sha256 p),
        (''prepared topology'', pp_topology_sha256 p)]) (\<lambda>_.
     rbind (raise_if (pp_reasons p = [] \<or> pp_reasons p \<noteq> sorted_set (pp_reasons p))
       (ValueError ''prepared publication reasons must be canonical'')) (\<lambda>_.
     rbind (raise_if (pp_ranks p \<noteq> int_range 0 (int (length (pp_ranks p))) \<or> pp_ranks p = [])
       (ValueError ''prepared publication requires exact all-rank coverage'')) (\<lambda>_.
     Inr p)))"

fun disposition_text :: "prepare_disposition \<Rightarrow> string" where
  "disposition_text COMMIT_READY = ''commit_ready''"
| "disposition_text PREPARE_ABORT_STATIC = ''abort_static''"
| "disposition_text PREPARE_PROCESS_GROUP_FAILURE = ''process_group_failure''"

definition prepared_json :: "prepared_publication \<Rightarrow> json" where
  "prepared_json p = JObj
     [(''candidate_sha256'', JStr (pp_candidate_sha256 p)),
      (''disposition'', JStr (disposition_text (pp_disposition p))),
      (''ranks'', JArr (map JInt (pp_ranks p))), (''reasons'', JArr (map JStr (pp_reasons p))),
      (''topology_sha256'', JStr (pp_topology_sha256 p)),
      (''update_sha256'', JStr (pp_update_sha256 p))]"

definition prepared_sha256 :: "prepared_publication \<Rightarrow> string" where
  "prepared_sha256 p = content_sha256 (prepared_json p)"

section \<open>Decisions\<close>

datatype publication_outcome = COMMIT | ABORT_STATIC | PROCESS_GROUP_FAILURE

record publication_decision =
  pd_update_sha256 :: string
  pd_candidate_sha256 :: string
  pd_topology_sha256 :: string
  pd_outcome :: publication_outcome
  pd_reasons :: "string list"
  pd_ranks :: "int list"
  pd_service_ready :: bool
  pd_admission_allowed :: bool
  pd_restart_required :: bool

definition publication_decision_post_init :: "publication_decision \<Rightarrow> publication_decision res" where
  "publication_decision_post_init d =
     rbind (check_all (\<lambda>(name, value). require_sha256 name value)
       [(''decision update'', pd_update_sha256 d), (''decision candidate'', pd_candidate_sha256 d),
        (''decision topology'', pd_topology_sha256 d)]) (\<lambda>_.
     rbind (raise_if (pd_reasons d = [] \<or> pd_reasons d \<noteq> sorted_set (pd_reasons d))
       (ValueError ''publication decision reasons must be canonical'')) (\<lambda>_.
     rbind (raise_if (pd_ranks d \<noteq> int_range 0 (int (length (pd_ranks d))) \<or> pd_ranks d = [])
       (ValueError ''publication decision requires exact all-rank coverage'')) (\<lambda>_.
     rbind (raise_if ((pd_service_ready d, pd_admission_allowed d, pd_restart_required d)
         \<noteq> (if pd_outcome d = PROCESS_GROUP_FAILURE then (False, False, True) else (False, False, False)))
       (ValueError ''publication decision service state is not fail-closed'')) (\<lambda>_.
     Inr d))))"

fun outcome_text :: "publication_outcome \<Rightarrow> string" where
  "outcome_text COMMIT = ''commit''"
| "outcome_text ABORT_STATIC = ''abort_static''"
| "outcome_text PROCESS_GROUP_FAILURE = ''process_group_failure''"

definition decision_json :: "publication_decision \<Rightarrow> json" where
  "decision_json d = JObj
     [(''admission_allowed'', JBool (pd_admission_allowed d)),
      (''candidate_sha256'', JStr (pd_candidate_sha256 d)),
      (''outcome'', JStr (outcome_text (pd_outcome d))),
      (''ranks'', JArr (map JInt (pd_ranks d))), (''reasons'', JArr (map JStr (pd_reasons d))),
      (''restart_required'', JBool (pd_restart_required d)),
      (''service_ready'', JBool (pd_service_ready d)),
      (''topology_sha256'', JStr (pd_topology_sha256 d)),
      (''update_sha256'', JStr (pd_update_sha256 d))]"

definition decision_sha256 :: "publication_decision \<Rightarrow> string" where
  "decision_sha256 d = content_sha256 (decision_json d)"

record rank_decision_receipt =
  dr_rank :: int
  dr_topology_receipt_sha256 :: string
  dr_decision_sha256 :: string
  dr_applied :: bool

definition rank_decision_receipt_post_init :: "rank_decision_receipt \<Rightarrow> rank_decision_receipt res" where
  "rank_decision_receipt_post_init r =
     rbind (require_counter 0 ''rank'' (dr_rank r)) (\<lambda>_.
     rbind (require_sha256 ''topology_receipt_sha256'' (dr_topology_receipt_sha256 r)) (\<lambda>_.
     rbind (require_sha256 ''decision_sha256'' (dr_decision_sha256 r)) (\<lambda>_.
     Inr r)))"

text \<open>The body of the loop over the receipts.\<close>

definition check_decision_receipt ::
  "publication_decision \<Rightarrow> topology_receipt_set \<Rightarrow> rank_decision_receipt \<Rightarrow> unit res" where
  "check_decision_receipt decision topology receipt =
     rbind (receipt_for_rank topology (dr_rank receipt)) (\<lambda>topology_receipt.
     rbind (raise_if (dr_topology_receipt_sha256 receipt \<noteq> rank_topology_receipt_sha256 topology_receipt)
       (ValueError ''publication receipt binds another rank topology'')) (\<lambda>_.
     rbind (raise_if (dr_decision_sha256 receipt \<noteq> decision_sha256 decision)
       (ValueError ''ranks did not observe one publication decision'')) (\<lambda>_.
     raise_if (dr_applied receipt \<noteq> (pd_outcome decision = COMMIT))
       (ValueError ''publication receipt would create a partial model''))))"

definition validate_decision_receipts ::
  "publication_decision \<Rightarrow> rank_decision_receipt list \<Rightarrow> topology_receipt_set \<Rightarrow> unit res" where
  "validate_decision_receipts decision receipts topology =
     rbind (raise_if (pd_topology_sha256 decision \<noteq> topology_sha256 topology)
       (ValueError ''publication decision belongs to another topology'')) (\<lambda>_.
     rbind (raise_if (pd_ranks decision \<noteq> int_range 0 (rs_world_size topology))
       (ValueError ''publication decision lacks exact all-rank coverage'')) (\<lambda>_.
     rbind (raise_if (\<not> distinct (map dr_rank receipts))
       (ValueError ''duplicate publication decision receipt'')) (\<lambda>_.
     rbind (raise_if (set (map dr_rank receipts) \<noteq> set (int_range 0 (rs_world_size topology)))
       (ValueError ''publication decision receipts lack all-rank coverage'')) (\<lambda>_.
     check_all (check_decision_receipt decision topology) receipts))))"

section \<open>The coordinator\<close>

record coordinator =
  co_topology :: topology_receipt_set
  co_service_ready :: bool
  co_admission_allowed :: bool
  co_restart_required :: bool
  co_pending :: "prepared_publication option"
  co_pending_decision :: "publication_decision option"
  co_consumed_updates :: "string set"

definition coordinator_init :: "topology_receipt_set \<Rightarrow> coordinator" where
  "coordinator_init topology =
     \<lparr>co_topology = topology, co_service_ready = True, co_admission_allowed = True,
      co_restart_required = False, co_pending = None, co_pending_decision = None,
      co_consumed_updates = {}\<rparr>"

definition rank_text :: "int \<Rightarrow> string \<Rightarrow> string" where
  "rank_text rank reason = ''rank_'' @ show_int rank @ '':'' @ reason"

definition vote_checks :: "publication_candidate \<Rightarrow> rank_prepare \<Rightarrow> (bool \<times> string) list" where
  "vote_checks candidate vote =
     [(rp_candidate_sha256 vote = publication_candidate_sha256 candidate, ''candidate_identity''),
      (rp_source_version vote = ui_source_version (pc_update candidate), ''source_version''),
      (rp_cohort_epoch vote = ui_cohort_epoch (pc_update candidate), ''cohort_epoch''),
      (rp_buffer_generation vote = pc_buffer_generation candidate, ''buffer_generation''),
      (rp_optimizer_generation vote = pc_optimizer_generation candidate, ''optimizer_generation''),
      (rp_ready vote, ''readiness''), (rp_finite vote, ''finiteness''),
      (rp_memory_reserved vote, ''memory_reservation''), (rp_safe_boundary vote, ''safe_boundary'')]"

text \<open>One turn of the loop over the votes: the process failures and the invalidities it appends.\<close>

definition vote_findings ::
  "topology_receipt_set \<Rightarrow> publication_candidate \<Rightarrow> rank_prepare \<Rightarrow> (string list \<times> string list) res" where
  "vote_findings topology candidate vote =
     (if rp_rank vote \<notin> set (int_range 0 (rs_world_size topology)) then Inr ([], [])
      else rbind (receipt_for_rank topology (rp_rank vote)) (\<lambda>topology_receipt.
        Inr ((if rp_topology_receipt_sha256 vote \<noteq> rank_topology_receipt_sha256 topology_receipt
              then [rank_text (rp_rank vote) ''topology_receipt_mismatch''] else [])
             @ (if \<not> rp_process_group_healthy vote
                then [rank_text (rp_rank vote) ''process_group_failed''] else []),
             map (\<lambda>(passed, reason). rank_text (rp_rank vote) reason)
               (filter (\<lambda>(passed, reason). \<not> passed) (vote_checks candidate vote)))))"

definition prepare ::
  "coordinator \<Rightarrow> publication_candidate \<Rightarrow> rank_prepare list \<Rightarrow> (coordinator, prepared_publication) op_result" where
  "prepare c candidate votes =
    (if co_restart_required c
     then (c, Inl (RuntimeError ''process group restart is required before preparation''))
     else if co_pending c \<noteq> None \<or> co_pending_decision c \<noteq> None
     then (c, Inl (RuntimeError ''a publication decision is already pending''))
     else if \<not> distinct (map rp_rank votes)
     then (c, Inl (ValueError ''duplicate rank prepare vote''))
     else
       let expected_ranks = int_range 0 (rs_world_size (co_topology c));
           missing = filter (\<lambda>r. r \<notin> set (map rp_rank votes)) expected_ranks;
           unexpected = sort (filter (\<lambda>r. r \<notin> set expected_ranks) (map rp_rank votes))
       in case map_res (vote_findings (co_topology c) candidate) (sort_key rp_rank votes) of
            Inl e \<Rightarrow> (c, Inl e)
          | Inr findings \<Rightarrow>
              let process_failures =
                    (if missing \<noteq> [] then [''missing_ranks:'' @ join '','' (map show_int missing)] else [])
                    @ (if unexpected \<noteq> []
                       then [''unexpected_ranks:'' @ join '','' (map show_int unexpected)] else [])
                    @ concat (map fst findings);
                  invalid =
                    (if update_identity_sha256 (pc_update candidate) \<in> co_consumed_updates c
                     then [''duplicate_update_identity''] else [])
                    @ concat (map snd findings);
                  verdict =
                    (if process_failures \<noteq> [] then (PREPARE_PROCESS_GROUP_FAILURE, sorted_set process_failures)
                     else if invalid \<noteq> [] then (PREPARE_ABORT_STATIC, sorted_set invalid)
                     else (COMMIT_READY, [''all_ranks_prepared'']))
              in case prepared_publication_post_init
                     \<lparr>pp_update_sha256 = update_identity_sha256 (pc_update candidate),
                      pp_candidate_sha256 = publication_candidate_sha256 candidate,
                      pp_topology_sha256 = topology_sha256 (co_topology c),
                      pp_disposition = fst verdict, pp_reasons = snd verdict,
                      pp_ranks = expected_ranks\<rparr> of
                   Inl e \<Rightarrow> (c, Inl e)
                 | Inr prepared \<Rightarrow> (c\<lparr>co_pending := Some prepared\<rparr>, Inr prepared))"

fun outcome_of :: "prepare_disposition \<Rightarrow> publication_outcome" where
  "outcome_of COMMIT_READY = COMMIT"
| "outcome_of PREPARE_ABORT_STATIC = ABORT_STATIC"
| "outcome_of PREPARE_PROCESS_GROUP_FAILURE = PROCESS_GROUP_FAILURE"

definition decision_of :: "prepared_publication \<Rightarrow> publication_decision" where
  "decision_of prepared =
     (let outcome = outcome_of (pp_disposition prepared) in
      \<lparr>pd_update_sha256 = pp_update_sha256 prepared, pd_candidate_sha256 = pp_candidate_sha256 prepared,
       pd_topology_sha256 = pp_topology_sha256 prepared, pd_outcome = outcome,
       pd_reasons = pp_reasons prepared, pd_ranks = pp_ranks prepared, pd_service_ready = False,
       pd_admission_allowed = False, pd_restart_required = (outcome = PROCESS_GROUP_FAILURE)\<rparr>)"

definition decide ::
  "coordinator \<Rightarrow> prepared_publication \<Rightarrow> (coordinator, publication_decision) op_result" where
  "decide c prepared =
    (case co_pending c of
       None \<Rightarrow> (c, Inl (RuntimeError ''prepared publication is not the active collective''))
     | Some pending \<Rightarrow>
         if prepared_sha256 prepared \<noteq> prepared_sha256 pending
         then (c, Inl (RuntimeError ''prepared publication is not the active collective''))
         else case publication_decision_post_init (decision_of prepared) of
           Inl e \<Rightarrow> (c, Inl e)
         | Inr decision \<Rightarrow>
             let c = c\<lparr>co_service_ready := pd_service_ready decision,
                       co_admission_allowed := pd_admission_allowed decision,
                       co_restart_required := pd_restart_required decision, co_pending := None\<rparr>
             in (if pd_outcome decision = PROCESS_GROUP_FAILURE
                 then c\<lparr>co_pending_decision := None,
                        co_consumed_updates := insert (pp_update_sha256 prepared) (co_consumed_updates c)\<rparr>
                 else c\<lparr>co_pending_decision := Some decision\<rparr>,
                 Inr decision))"

definition mark_collective_failed :: "coordinator \<Rightarrow> coordinator" where
  "mark_collective_failed c =
     c\<lparr>co_pending := None, co_pending_decision := None, co_service_ready := False,
       co_admission_allowed := False, co_restart_required := True\<rparr>"

definition finalize ::
  "coordinator \<Rightarrow> publication_decision \<Rightarrow> rank_decision_receipt list \<Rightarrow> (coordinator, unit) op_result" where
  "finalize c decision receipts =
    (case co_pending_decision c of
       None \<Rightarrow> (c, Inl (RuntimeError ''publication decision is not awaiting finalization''))
     | Some pending \<Rightarrow>
         if decision_sha256 decision \<noteq> decision_sha256 pending
         then (c, Inl (RuntimeError ''publication decision is not awaiting finalization''))
         else case validate_decision_receipts decision receipts (co_topology c) of
           Inl (ValueError m) \<Rightarrow> (mark_collective_failed c, Inl (ValueError m))
         | Inl e \<Rightarrow> (c, Inl e)
         | Inr _ \<Rightarrow>
             (c\<lparr>co_consumed_updates := insert (pd_update_sha256 decision) (co_consumed_updates c),
                co_pending_decision := None, co_service_ready := True, co_admission_allowed := True,
                co_restart_required := False\<rparr>, Inr ()))"

definition mark_process_group_restarted ::
  "coordinator \<Rightarrow> topology_receipt_set \<Rightarrow> (coordinator, unit) op_result" where
  "mark_process_group_restarted c topology =
    (if \<not> co_restart_required c then (c, Inl (RuntimeError ''no process-group restart is pending''))
     else if topology_sha256 topology \<noteq> topology_sha256 (co_topology c)
     then (c, Inl (ValueError ''restart topology differs from the failed topology''))
     else (c\<lparr>co_topology := topology, co_service_ready := True, co_admission_allowed := True,
             co_restart_required := False, co_pending_decision := None\<rparr>, Inr ()))"

section \<open>The Gloo transport\<close>

text \<open>
  \<open>torch.distributed\<close> is outside the sources. What the transport asks about the process group is the
  record \<open>process_group\<close>; a collective is a function from the local object to the gathered list, in
  which \<open>None\<close> stands for an entry that is not of the expected class, or to the exception it raises.
\<close>

record process_group =
  pg_initialized :: bool
  pg_backend :: string
  pg_world_size :: int
  pg_rank :: int

record gloo_transport =
  gt_topology :: topology_receipt_set
  gt_local_rank :: int
  gt_coordinator :: coordinator

definition gloo_transport_init :: "topology_receipt_set \<Rightarrow> int \<Rightarrow> gloo_transport res" where
  "gloo_transport_init topology local_rank =
     rbind (require_counter 0 ''local_rank'' local_rank) (\<lambda>_.
     rbind (raise_if (rs_world_size topology \<le> local_rank)
       (ValueError ''local rank is outside the topology'')) (\<lambda>_.
     Inr \<lparr>gt_topology = topology, gt_local_rank = local_rank,
          gt_coordinator = coordinator_init topology\<rparr>))"

definition check_distributed :: "gloo_transport \<Rightarrow> process_group \<Rightarrow> unit res" where
  "check_distributed g pg =
     rbind (raise_if (\<not> pg_initialized pg)
       (RuntimeError ''a live gloo process group is required'')) (\<lambda>_.
     rbind (raise_if (pg_backend pg \<noteq> ''gloo'')
       (RuntimeError ''CPU publication harness requires the gloo backend'')) (\<lambda>_.
     rbind (raise_if (pg_world_size pg \<noteq> rs_world_size (gt_topology g))
       (RuntimeError ''process-group world size differs from topology receipts'')) (\<lambda>_.
     raise_if (pg_rank pg \<noteq> gt_local_rank g)
       (RuntimeError ''process-group rank differs from the local topology rank''))))"

definition gloo_failed :: "gloo_transport \<Rightarrow> gloo_transport" where
  "gloo_failed g = g\<lparr>gt_coordinator := mark_collective_failed (gt_coordinator g)\<rparr>"

text \<open>
  The body of the \<open>try\<close> block of \<open>prepare_and_decide\<close>: what the rank derives from the gathered votes, and the
  comparison of its digest with those of all ranks.
\<close>

definition derived_decision ::
  "gloo_transport \<Rightarrow> (rank_prepare \<Rightarrow> rank_prepare option list res) \<Rightarrow> publication_candidate \<Rightarrow> rank_prepare
     \<Rightarrow> (gloo_transport, publication_decision) op_result" where
  "derived_decision g gather_votes candidate local_vote =
     and_then (g, gather_votes local_vote) (\<lambda>g gathered.
     if None \<in> set gathered
     then (g, Inl (RuntimeError ''collective returned an invalid prepare vote''))
     else case prepare (gt_coordinator g) candidate (map the gathered) of
       (c, Inl e) \<Rightarrow> (g\<lparr>gt_coordinator := c\<rparr>, Inl e)
     | (c, Inr prepared) \<Rightarrow>
        (case decide c prepared of
           (c, Inl e) \<Rightarrow> (g\<lparr>gt_coordinator := c\<rparr>, Inl e)
         | (c, Inr decision) \<Rightarrow> (g\<lparr>gt_coordinator := c\<rparr>, Inr decision)))"

definition collective_decision ::
  "gloo_transport \<Rightarrow> (rank_prepare \<Rightarrow> rank_prepare option list res) \<Rightarrow> (string \<Rightarrow> string list res)
     \<Rightarrow> publication_candidate \<Rightarrow> rank_prepare \<Rightarrow> (gloo_transport, publication_decision) op_result" where
  "collective_decision g gather_votes gather_decisions candidate local_vote =
     and_then (derived_decision g gather_votes candidate local_vote) (\<lambda>g decision.
     and_then (g, gather_decisions (decision_sha256 decision)) (\<lambda>g decisions.
     if decisions \<noteq> replicate (nat (rs_world_size (gt_topology g))) (decision_sha256 decision)
     then (g, Inl (RuntimeError ''ranks derived different publication decisions''))
     else (g, Inr decision)))"

definition prepare_and_decide ::
  "gloo_transport \<Rightarrow> process_group \<Rightarrow> (rank_prepare \<Rightarrow> rank_prepare option list res)
     \<Rightarrow> (string \<Rightarrow> string list res) \<Rightarrow> publication_candidate \<Rightarrow> rank_prepare
     \<Rightarrow> (gloo_transport, publication_decision) op_result" where
  "prepare_and_decide g pg gather_votes gather_decisions candidate local_vote =
    (if rp_rank local_vote \<noteq> gt_local_rank g
     then (g, Inl (ValueError ''local prepare vote belongs to another rank''))
     else case check_distributed g pg of
       Inl e \<Rightarrow> (g, Inl e)
     | Inr _ \<Rightarrow>
        (case collective_decision g gather_votes gather_decisions candidate local_vote of
           (g, Inl e) \<Rightarrow> (gloo_failed g, Inl e)
         | (g, Inr decision) \<Rightarrow> (g, Inr decision)))"

definition collective_finalize ::
  "gloo_transport \<Rightarrow> process_group \<Rightarrow> (rank_decision_receipt \<Rightarrow> rank_decision_receipt option list res)
     \<Rightarrow> publication_decision \<Rightarrow> bool \<Rightarrow> (gloo_transport, rank_decision_receipt list) op_result" where
  "collective_finalize g pg gather_receipts decision applied =
    (case rbind (check_distributed g pg) (\<lambda>_.
            rbind (receipt_for_rank (gt_topology g) (gt_local_rank g)) (\<lambda>r.
            rank_decision_receipt_post_init
              \<lparr>dr_rank = gt_local_rank g, dr_topology_receipt_sha256 = rank_topology_receipt_sha256 r,
               dr_decision_sha256 = decision_sha256 decision, dr_applied = applied\<rparr>)) of
       Inl e \<Rightarrow> (g, Inl e)
     | Inr local_receipt \<Rightarrow>
        (case gather_receipts local_receipt of
           Inl e \<Rightarrow> (gloo_failed g, Inl e)
         | Inr gathered \<Rightarrow>
             if None \<in> set gathered
             then (gloo_failed g, Inl (RuntimeError ''collective returned an invalid decision receipt''))
             else case finalize (gt_coordinator g) decision (map the gathered) of
               (c, Inl e) \<Rightarrow> (gloo_failed (g\<lparr>gt_coordinator := c\<rparr>), Inl e)
             | (c, Inr _) \<Rightarrow> (g\<lparr>gt_coordinator := c\<rparr>, Inr (map the gathered))))"

section \<open>Runs of the coordinator\<close>

text \<open>
  A coordinator driven by calls, with the update digests of the finalized commits as a ghost
  record. A topology object exists only if its constructors accepted it.
\<close>

datatype coordinator_call =
    Prepare publication_candidate "rank_prepare list"
  | Decide prepared_publication
  | Finalize publication_decision "rank_decision_receipt list"
  | Process_Group_Restarted topology_receipt_set
  | Collective_Failed

type_synonym coordinator_history = "coordinator \<times> string list"

fun coordinator_step :: "coordinator_history \<Rightarrow> coordinator_call \<Rightarrow> coordinator_history" where
  "coordinator_step (c, commits) (Prepare candidate votes) = (fst (prepare c candidate votes), commits)"
| "coordinator_step (c, commits) (Decide p) = (fst (decide c p), commits)"
| "coordinator_step (c, commits) (Finalize d rs) =
     (fst (finalize c d rs),
      if is_ok (snd (finalize c d rs)) \<and> pd_outcome d = COMMIT then commits @ [pd_update_sha256 d] else commits)"
| "coordinator_step (c, commits) (Process_Group_Restarted topology) =
     (if valid_topology topology then fst (mark_process_group_restarted c topology) else c, commits)"
| "coordinator_step (c, commits) Collective_Failed = (mark_collective_failed c, commits)"

text \<open>
  The coordinator recognises its own objects by digest. A call is honest when the object passed
  to it does not collide with the one awaited.
\<close>

fun honest :: "coordinator_history \<Rightarrow> coordinator_call \<Rightarrow> bool" where
  "honest (c, commits) (Decide p) \<longleftrightarrow>
     (case co_pending c of None \<Rightarrow> True | Some q \<Rightarrow> \<not> collide (prepared_json p) (prepared_json q))"
| "honest (c, commits) (Finalize d rs) \<longleftrightarrow>
     (case co_pending_decision c of None \<Rightarrow> True | Some e \<Rightarrow> \<not> collide (decision_json d) (decision_json e))"
| "honest (c, commits) _ \<longleftrightarrow> True"

fun honest_run :: "coordinator_history \<Rightarrow> coordinator_call list \<Rightarrow> bool" where
  "honest_run s [] \<longleftrightarrow> True"
| "honest_run s (x # xs) \<longleftrightarrow> honest s x \<and> honest_run (coordinator_step s x) xs"

abbreviation coordinator_run :: "topology_receipt_set \<Rightarrow> coordinator_call list \<Rightarrow> coordinator_history" where
  "coordinator_run topology \<equiv> foldl coordinator_step (coordinator_init topology, [])"

section \<open>Digests of the records\<close>

lemma prepared_json_canonical: "canonical (prepared_json p)"
proof -
  have "sorted [''candidate_sha256'', ''disposition'', ''ranks'', ''reasons'', ''topology_sha256'', ''update_sha256'']"
    by code_simp
  then show ?thesis by (simp add: prepared_json_def list_all_iff)
qed

lemma decision_json_canonical: "canonical (decision_json d)"
proof -
  have "sorted [''admission_allowed'', ''candidate_sha256'', ''outcome'', ''ranks'', ''reasons'',
      ''restart_required'', ''service_ready'', ''topology_sha256'', ''update_sha256'']"
    by code_simp
  then show ?thesis by (simp add: decision_json_def list_all_iff)
qed

lemma disposition_text_inj: "disposition_text a = disposition_text b \<Longrightarrow> a = b"
  by (cases a; cases b) simp_all

lemma outcome_text_inj: "outcome_text a = outcome_text b \<Longrightarrow> a = b"
  by (cases a; cases b) simp_all

lemma inj_json_leaves: "inj JInt" "inj JStr"
  by (simp_all add: inj_def)

lemma prepared_json_inj: "prepared_json p = prepared_json q \<Longrightarrow> p = q"
  by (cases p; cases q) (auto simp: prepared_json_def inj_map_eq_map inj_json_leaves dest: disposition_text_inj)

lemma decision_json_inj: "decision_json p = decision_json q \<Longrightarrow> p = q"
  by (cases p; cases q) (auto simp: decision_json_def inj_map_eq_map inj_json_leaves dest: outcome_text_inj)

lemma prepared_digest:
  "prepared_sha256 p = prepared_sha256 q \<Longrightarrow> \<not> collide (prepared_json p) (prepared_json q) \<Longrightarrow> p = q"
  unfolding prepared_sha256_def
  by (rule prepared_json_inj) (rule content_sha256_inj [OF prepared_json_canonical prepared_json_canonical])

lemma decision_digest:
  "decision_sha256 p = decision_sha256 q \<Longrightarrow> \<not> collide (decision_json p) (decision_json q) \<Longrightarrow> p = q"
  unfolding decision_sha256_def
  by (rule decision_json_inj) (rule content_sha256_inj [OF decision_json_canonical decision_json_canonical])

lemma digests_hex [simp]:
  "is_lower_hex 64 (update_identity_sha256 u)" "is_lower_hex 64 (publication_candidate_sha256 k)"
  "is_lower_hex 64 (topology_sha256 rs)"
  by (simp_all add: update_identity_sha256_def publication_candidate_sha256_def topology_sha256_def)

section \<open>What a vote round finds\<close>

text \<open>The specification of a round: the ranks answer, are healthy, and agree on the candidate.\<close>

definition rank_answers :: "topology_receipt_set \<Rightarrow> rank_prepare \<Rightarrow> bool" where
  "rank_answers topology vote \<longleftrightarrow>
     rp_process_group_healthy vote
     \<and> (\<exists>r \<in> set topology. receipt_rank r = rp_rank vote
          \<and> rp_topology_receipt_sha256 vote = rank_topology_receipt_sha256 r)"

definition rank_agrees :: "publication_candidate \<Rightarrow> rank_prepare \<Rightarrow> bool" where
  "rank_agrees candidate vote \<longleftrightarrow>
     rp_candidate_sha256 vote = publication_candidate_sha256 candidate
     \<and> rp_source_version vote = ui_source_version (pc_update candidate)
     \<and> rp_cohort_epoch vote = ui_cohort_epoch (pc_update candidate)
     \<and> rp_buffer_generation vote = pc_buffer_generation candidate
     \<and> rp_optimizer_generation vote = pc_optimizer_generation candidate
     \<and> rp_ready vote \<and> rp_finite vote \<and> rp_memory_reserved vote \<and> rp_safe_boundary vote"

definition all_ranks_answer :: "topology_receipt_set \<Rightarrow> rank_prepare list \<Rightarrow> bool" where
  "all_ranks_answer topology votes \<longleftrightarrow>
     set (map rp_rank votes) = {0..<rs_world_size topology} \<and> (\<forall>v \<in> set votes. rank_answers topology v)"

lemma vote_checks_ok: "filter (\<lambda>(passed, reason). \<not> passed) (vote_checks candidate vote) = []
    \<longleftrightarrow> rank_agrees candidate vote"
  by (simp add: vote_checks_def rank_agrees_def)

lemma vote_findings_ok:
  assumes "valid_topology rs"
  shows "\<exists>pf inv. vote_findings rs candidate v = Inr (pf, inv)
    \<and> (rp_rank v \<in> {0..<rs_world_size rs} \<longrightarrow>
         (pf = [] \<longleftrightarrow> rank_answers rs v) \<and> (inv = [] \<longleftrightarrow> rank_agrees candidate v))"
proof (cases "rp_rank v \<in> {0..<rs_world_size rs}")
  case True
  then obtain r where r: "r \<in> set rs" "receipt_for_rank rs (rp_rank v) = Inr r" "receipt_rank r = rp_rank v"
    using receipt_for_rank_ok [OF assms] by fastforce
  have "inj_on receipt_rank (set rs)" using valid_topologyD(2) [OF assms] by (simp add: distinct_map)
  then have "rank_answers rs v \<longleftrightarrow>
      rp_process_group_healthy v \<and> rp_topology_receipt_sha256 v = rank_topology_receipt_sha256 r"
    using r(1,3) unfolding rank_answers_def by (metis inj_onD)
  then show ?thesis
    using True r(2) vote_checks_ok [of candidate v] by (simp add: vote_findings_def)
qed (auto simp: vote_findings_def)

definition round_disposition ::
  "topology_receipt_set \<Rightarrow> bool \<Rightarrow> publication_candidate \<Rightarrow> rank_prepare list \<Rightarrow> prepare_disposition" where
  "round_disposition topology duplicate candidate votes =
     (if \<not> all_ranks_answer topology votes then PREPARE_PROCESS_GROUP_FAILURE
      else if duplicate \<or> (\<exists>v \<in> set votes. \<not> rank_agrees candidate v) then PREPARE_ABORT_STATIC
      else COMMIT_READY)"

text \<open>When the guards of \<open>prepare\<close> pass, the round always ends in a well-formed prepared record.\<close>

definition prepare_open :: "coordinator \<Rightarrow> rank_prepare list \<Rightarrow> bool" where
  "prepare_open c votes \<longleftrightarrow> \<not> co_restart_required c \<and> co_pending c = None
     \<and> co_pending_decision c = None \<and> distinct (map rp_rank votes)"

lemma world_size_pos: "valid_topology rs \<Longrightarrow> 0 < rs_world_size rs"
  using valid_topology_sizes by fastforce

lemma prepare_closed: "\<not> prepare_open c votes \<Longrightarrow> fst (prepare c k votes) = c \<and> \<not> is_ok (snd (prepare c k votes))"
  by (auto simp: prepare_def prepare_open_def)

lemma process_failures_empty:
  assumes "missing = filter (\<lambda>r. r \<notin> set (map rp_rank votes)) (int_range 0 n)"
    "unexpected = sort (filter (\<lambda>r. r \<notin> set (int_range 0 n)) (map rp_rank votes))"
  shows "missing = [] \<and> unexpected = [] \<longleftrightarrow> set (map rp_rank votes) = {0..<n}"
proof -
  have "unexpected = [] \<longleftrightarrow> filter (\<lambda>r. r \<notin> set (int_range 0 n)) (map rp_rank votes) = []"
    unfolding assms(2) by (metis set_sort set_empty)
  then show ?thesis unfolding assms(1) by (auto simp: filter_empty_conv)
qed

lemma prepare_Inr:
  assumes "valid_topology (co_topology c)" "prepare_open c votes"
  shows "\<exists>p. prepare c candidate votes = (c\<lparr>co_pending := Some p\<rparr>, Inr p)
    \<and> pp_update_sha256 p = update_identity_sha256 (pc_update candidate)
    \<and> pp_candidate_sha256 p = publication_candidate_sha256 candidate
    \<and> pp_topology_sha256 p = topology_sha256 (co_topology c)
    \<and> pp_ranks p = int_range 0 (rs_world_size (co_topology c))
    \<and> pp_reasons p \<noteq> [] \<and> pp_reasons p = sorted_set (pp_reasons p)
    \<and> (pp_disposition p = COMMIT_READY \<longrightarrow> pp_reasons p = [''all_ranks_prepared''])
    \<and> pp_disposition p = round_disposition (co_topology c)
        (update_identity_sha256 (pc_update candidate) \<in> co_consumed_updates c) candidate votes"
proof -
  let ?rs = "co_topology c"
  let ?dup = "update_identity_sha256 (pc_update candidate) \<in> co_consumed_updates c"
  define F where "F v = projr (vote_findings ?rs candidate v)" for v
  have F: "vote_findings ?rs candidate v = Inr (F v)"
    and F_ok: "rp_rank v \<in> {0..<rs_world_size ?rs} \<Longrightarrow>
       (fst (F v) = [] \<longleftrightarrow> rank_answers ?rs v) \<and> (snd (F v) = [] \<longleftrightarrow> rank_agrees candidate v)" for v
    using vote_findings_ok [OF assms(1), of candidate v] by (auto simp: F_def)
  define missing where "missing = filter (\<lambda>r. r \<notin> set (map rp_rank votes)) (int_range 0 (rs_world_size ?rs))"
  define unexpected where "unexpected =
    sort (filter (\<lambda>r. r \<notin> set (int_range 0 (rs_world_size ?rs))) (map rp_rank votes))"
  define pf where "pf = (if missing \<noteq> [] then [''missing_ranks:'' @ join '','' (map show_int missing)] else [])
      @ (if unexpected \<noteq> [] then [''unexpected_ranks:'' @ join '','' (map show_int unexpected)] else [])
      @ concat (map fst (map F (sort_key rp_rank votes)))"
  define inv where "inv = (if ?dup then [''duplicate_update_identity''] else [])
      @ concat (map snd (map F (sort_key rp_rank votes)))"
  define verdict where "verdict = (if pf \<noteq> [] then (PREPARE_PROCESS_GROUP_FAILURE, sorted_set pf)
      else if inv \<noteq> [] then (PREPARE_ABORT_STATIC, sorted_set inv)
      else (COMMIT_READY, [''all_ranks_prepared'']))"
  define p where "p = \<lparr>pp_update_sha256 = update_identity_sha256 (pc_update candidate),
      pp_candidate_sha256 = publication_candidate_sha256 candidate,
      pp_topology_sha256 = topology_sha256 ?rs, pp_disposition = fst verdict,
      pp_reasons = snd verdict, pp_ranks = int_range 0 (rs_world_size ?rs)\<rparr>"
  have covered: "(fst (F v) = [] \<longleftrightarrow> rank_answers ?rs v) \<and> (snd (F v) = [] \<longleftrightarrow> rank_agrees candidate v)"
    if "set (map rp_rank votes) = {0..<rs_world_size ?rs}" "v \<in> set votes" for v
    by (rule F_ok) (use that in force)
  have pf: "pf = [] \<longleftrightarrow> all_ranks_answer ?rs votes"
  proof -
    have "pf = [] \<longleftrightarrow> (missing = [] \<and> unexpected = []) \<and> (\<forall>v \<in> set votes. fst (F v) = [])"
      by (simp add: pf_def)
    also have "\<dots> \<longleftrightarrow> all_ranks_answer ?rs votes"
      unfolding process_failures_empty [OF missing_def unexpected_def] all_ranks_answer_def
      by (rule conj_cong [OF refl ball_cong [OF refl]]) (simp add: covered)
    finally show ?thesis .
  qed
  have inv: "inv = [] \<longleftrightarrow> \<not> ?dup \<and> (\<forall>v \<in> set votes. rank_agrees candidate v)" if "pf = []"
  proof -
    have "set (map rp_rank votes) = {0..<rs_world_size ?rs}"
      using pf that unfolding all_ranks_answer_def by blast
    from covered [OF this] show ?thesis by (auto simp: inv_def)
  qed
  have reasons: "snd verdict \<noteq> []" "sorted_set (snd verdict) = snd verdict"
    by (auto simp: verdict_def)
  have ranks: "int_range 0 (int (length (pp_ranks p))) = pp_ranks p" "pp_ranks p \<noteq> []"
    using world_size_pos [OF assms(1)] by (simp_all add: p_def int_range_def)
  have "prepared_publication_post_init p = Inr p"
    unfolding prepared_publication_post_init_def ranks using reasons ranks(2)
    by (simp add: p_def require_hash_n_def)
  moreover have mr: "map_res (vote_findings ?rs candidate) (sort_key rp_rank votes)
      = Inr (map F (sort_key rp_rank votes))" by (rule map_res_ok) (simp add: F)
  have g: "co_restart_required c = False" "(co_pending c \<noteq> None \<or> co_pending_decision c \<noteq> None) = False"
    "(\<not> distinct (map rp_rank votes)) = False" using assms(2) by (auto simp: prepare_open_def)
  have "prepare c candidate votes = (case prepared_publication_post_init p of
      Inl e \<Rightarrow> (c, Inl e) | Inr prepared \<Rightarrow> (c\<lparr>co_pending := Some prepared\<rparr>, Inr prepared))"
    unfolding prepare_def p_def verdict_def inv_def pf_def missing_def unexpected_def Let_def mr g
    by (simp only: if_False sum.case)
  ultimately have "prepare c candidate votes = (c\<lparr>co_pending := Some p\<rparr>, Inr p)" by simp
  moreover have "fst verdict = round_disposition ?rs ?dup candidate votes"
    using pf inv by (auto simp: verdict_def round_disposition_def)
  moreover have "fst verdict = COMMIT_READY \<Longrightarrow> snd verdict = [''all_ranks_prepared'']"
    by (simp add: verdict_def split: if_splits)
  ultimately show ?thesis using reasons by (auto simp: p_def)
qed

section \<open>The invariant of the coordinator\<close>

definition coordinator_inv :: "coordinator_history \<Rightarrow> bool" where
  "coordinator_inv s \<longleftrightarrow> (case s of (c, commits) \<Rightarrow>
     valid_topology (co_topology c)
     \<and> co_admission_allowed c = co_service_ready c
     \<and> (co_service_ready c \<longleftrightarrow> co_pending_decision c = None \<and> \<not> co_restart_required c)
     \<and> (co_restart_required c \<longrightarrow> co_pending c = None \<and> co_pending_decision c = None)
     \<and> (co_pending_decision c \<noteq> None \<longrightarrow> co_pending c = None)
     \<and> (\<forall>p. co_pending c = Some p \<and> pp_disposition p = COMMIT_READY \<longrightarrow>
           pp_update_sha256 p \<notin> co_consumed_updates c)
     \<and> (\<forall>d. co_pending_decision c = Some d \<and> pd_outcome d = COMMIT \<longrightarrow>
           pd_update_sha256 d \<notin> co_consumed_updates c)
     \<and> set commits \<subseteq> co_consumed_updates c \<and> distinct commits)"

lemma coordinator_init_inv: "valid_topology rs \<Longrightarrow> coordinator_inv (coordinator_init rs, [])"
  by (simp add: coordinator_inv_def coordinator_init_def)

lemma round_disposition_commit:
  "round_disposition rs dup k votes = COMMIT_READY \<longleftrightarrow>
     all_ranks_answer rs votes \<and> \<not> dup \<and> (\<forall>v \<in> set votes. rank_agrees k v)"
  by (auto simp: round_disposition_def)

lemma prepare_inv:
  assumes "coordinator_inv (c, commits)"
  shows "coordinator_inv (fst (prepare c k votes), commits)"
proof (cases "prepare_open c votes")
  case False
  with assms show ?thesis using prepare_closed by simp
next
  case True
  have "valid_topology (co_topology c)" using assms by (simp add: coordinator_inv_def)
  from prepare_Inr [OF this True, of k] obtain p where
    p: "fst (prepare c k votes) = c\<lparr>co_pending := Some p\<rparr>"
      "pp_update_sha256 p = update_identity_sha256 (pc_update k)"
      "pp_disposition p = round_disposition (co_topology c)
        (update_identity_sha256 (pc_update k) \<in> co_consumed_updates c) k votes"
    by auto
  with assms True show ?thesis
    by (auto simp: coordinator_inv_def prepare_open_def round_disposition_commit)
qed

lemma decide_Inr:
  assumes "decide c p = (c', Inr d)"
  shows "d = decision_of p" "\<exists>q. co_pending c = Some q \<and> prepared_sha256 p = prepared_sha256 q"
    "c' = (if pd_outcome d = PROCESS_GROUP_FAILURE
       then c\<lparr>co_service_ready := False, co_admission_allowed := False, co_restart_required := True,
              co_pending := None, co_pending_decision := None,
              co_consumed_updates := insert (pp_update_sha256 p) (co_consumed_updates c)\<rparr>
       else c\<lparr>co_service_ready := False, co_admission_allowed := False, co_restart_required := False,
              co_pending := None, co_pending_decision := Some d\<rparr>)"
  using assms
  by (auto simp: decide_def publication_decision_post_init_def decision_of_def Let_def
      split: option.splits if_splits sum.splits)

lemma decide_Inl: "decide c p = (c', Inl e) \<Longrightarrow> c' = c"
  by (auto simp: decide_def Let_def split: option.splits if_splits sum.splits)

lemma decide_inv:
  assumes "coordinator_inv (c, commits)" "honest (c, commits) (Decide p)"
  shows "coordinator_inv (fst (decide c p), commits)"
proof (cases "decide c p")
  case (Pair c' r)
  show ?thesis
  proof (cases r)
    case (Inl e)
    with Pair assms(1) show ?thesis using decide_Inl by fastforce
  next
    case (Inr d)
    note D = decide_Inr [OF Pair [unfolded Inr]]
    from D(2) assms(2) have "co_pending c = Some p" by (auto dest: prepared_digest)
    moreover have "pd_outcome d = COMMIT \<longleftrightarrow> pp_disposition p = COMMIT_READY"
      by (cases "pp_disposition p") (simp_all add: D(1) decision_of_def Let_def)
    ultimately show ?thesis
      using assms(1) D Pair
      by (auto simp: coordinator_inv_def decision_of_def Let_def)
  qed
qed

lemma finalize_cases:
  obtains
    (refused) "fst (finalize c d rs) = c" "\<not> is_ok (snd (finalize c d rs))"
  | (failed) "fst (finalize c d rs) = mark_collective_failed c" "\<not> is_ok (snd (finalize c d rs))"
  | (settled) q where "co_pending_decision c = Some q" "decision_sha256 d = decision_sha256 q"
      "validate_decision_receipts d rs (co_topology c) = Inr ()"
      "finalize c d rs = (c\<lparr>co_consumed_updates := insert (pd_update_sha256 d) (co_consumed_updates c),
         co_pending_decision := None, co_service_ready := True, co_admission_allowed := True,
         co_restart_required := False\<rparr>, Inr ())"
proof (cases "co_pending_decision c")
  case None
  then show thesis by (intro refused) (simp_all add: finalize_def)
next
  case (Some q)
  show thesis
  proof (cases "decision_sha256 d = decision_sha256 q")
    case False
    with Some show thesis by (intro refused) (simp_all add: finalize_def)
  next
    case True
    show thesis
    proof (cases "validate_decision_receipts d rs (co_topology c)")
      case (Inl e)
      with Some True have "finalize c d rs = (mark_collective_failed c, Inl e) \<or> finalize c d rs = (c, Inl e)"
        by (cases e) (simp_all add: finalize_def)
      then show thesis using refused failed by auto
    next
      case (Inr u)
      with Some True show thesis by (intro settled) (simp_all add: finalize_def)
    qed
  qed
qed

lemma mark_collective_failed_inv:
  "coordinator_inv (c, commits) \<Longrightarrow> coordinator_inv (mark_collective_failed c, commits)"
  by (simp add: coordinator_inv_def mark_collective_failed_def)

lemma finalize_inv:
  assumes "coordinator_inv (c, commits)" "honest (c, commits) (Finalize d rs)"
  shows "coordinator_inv (coordinator_step (c, commits) (Finalize d rs))"
proof (cases rule: finalize_cases [of c d rs])
  case refused
  with assms(1) show ?thesis by simp
next
  case failed
  with assms(1) show ?thesis by (simp add: mark_collective_failed_inv)
next
  case (settled q)
  with assms(2) have "co_pending_decision c = Some d" by (auto dest: decision_digest)
  with assms(1) settled show ?thesis by (auto simp: coordinator_inv_def)
qed

lemma coordinator_step_inv:
  assumes "coordinator_inv s" "honest s x"
  shows "coordinator_inv (coordinator_step s x)"
proof (cases s)
  case (Pair c commits)
  show ?thesis
  proof (cases x)
    case (Process_Group_Restarted rs)
    with assms(1) Pair show ?thesis
      by (auto simp: mark_process_group_restarted_def coordinator_inv_def)
  qed (use assms Pair prepare_inv decide_inv finalize_inv mark_collective_failed_inv in auto)
qed

interpretation all_rank:
  invariant_machine "\<lambda>s x. if honest s x then coordinator_step s x else s" coordinator_inv
  by unfold_locales (simp add: coordinator_step_inv)

lemma honest_run_step:
  "honest_run s xs \<Longrightarrow> foldl coordinator_step s xs = foldl (\<lambda>s x. if honest s x then coordinator_step s x else s) s xs"
  by (induction xs arbitrary: s) auto

lemma coordinator_run_inv:
  assumes "valid_topology rs" "honest_run (coordinator_init rs, []) calls"
  shows "coordinator_inv (coordinator_run rs calls)"
  unfolding honest_run_step [OF assms(2)]
  by (rule all_rank.run_inv) (rule coordinator_init_inv [OF assms(1)])

section \<open>What a receipt round accepts\<close>

definition unanimous ::
  "publication_decision \<Rightarrow> rank_decision_receipt list \<Rightarrow> topology_receipt_set \<Rightarrow> bool" where
  "unanimous d receipts rs \<longleftrightarrow>
     pd_topology_sha256 d = topology_sha256 rs \<and> pd_ranks d = int_range 0 (rs_world_size rs)
     \<and> distinct (map dr_rank receipts) \<and> set (map dr_rank receipts) = {0..<rs_world_size rs}
     \<and> (\<forall>q \<in> set receipts. dr_decision_sha256 q = decision_sha256 d
          \<and> (dr_applied q \<longleftrightarrow> pd_outcome d = COMMIT)
          \<and> (\<exists>r \<in> set rs. receipt_rank r = dr_rank q
               \<and> dr_topology_receipt_sha256 q = rank_topology_receipt_sha256 r))"

lemma receipt_for_rank_unique:
  assumes "valid_topology rs" "r \<in> set rs"
  shows "receipt_for_rank rs (receipt_rank r) = Inr r"
proof -
  have "receipt_rank r \<in> {0..<rs_world_size rs}"
    using valid_topologyD(3) [OF assms(1)] assms(2) by auto
  then obtain r' where r': "r' \<in> set rs" "receipt_for_rank rs (receipt_rank r) = Inr r'"
    "receipt_rank r' = receipt_rank r"
    using receipt_for_rank_ok [OF assms(1)] by fastforce
  have "inj_on receipt_rank (set rs)" using valid_topologyD(2) [OF assms(1)] by (simp add: distinct_map)
  with r' assms(2) have "r' = r" by (auto dest: inj_onD)
  with r'(2) show ?thesis by simp
qed

lemma covered_receipt:
  assumes "valid_topology rs" "set (map dr_rank receipts) = {0..<rs_world_size rs}" "q \<in> set receipts"
  shows "\<exists>r \<in> set rs. receipt_rank r = dr_rank q \<and> receipt_for_rank rs (dr_rank q) = Inr r"
proof -
  have "dr_rank q \<in> {0..<rs_world_size rs}" using assms(2,3) by auto
  then show ?thesis using receipt_for_rank_ok [OF assms(1), of "dr_rank q"] by fastforce
qed

lemma check_decision_receipt_ok:
  assumes "valid_topology rs" "set (map dr_rank receipts) = {0..<rs_world_size rs}" "q \<in> set receipts"
  shows "check_decision_receipt d rs q = Inr () \<longleftrightarrow>
      dr_decision_sha256 q = decision_sha256 d \<and> (dr_applied q \<longleftrightarrow> pd_outcome d = COMMIT)
      \<and> (\<exists>r \<in> set rs. receipt_rank r = dr_rank q
          \<and> dr_topology_receipt_sha256 q = rank_topology_receipt_sha256 r)"
    and "check_decision_receipt d rs q = Inl e \<Longrightarrow> \<exists>m. e = ValueError m"
proof -
  obtain r where r: "r \<in> set rs" "receipt_rank r = dr_rank q" "receipt_for_rank rs (dr_rank q) = Inr r"
    using covered_receipt [OF assms] by blast
  have "r' = r" if "r' \<in> set rs" "receipt_rank r' = dr_rank q" for r'
    using receipt_for_rank_unique [OF assms(1) that(1)] that(2) r(3) by simp
  with r(1,2) have ex: "(\<exists>r \<in> set rs. receipt_rank r = dr_rank q
          \<and> dr_topology_receipt_sha256 q = rank_topology_receipt_sha256 r)
      \<longleftrightarrow> dr_topology_receipt_sha256 q = rank_topology_receipt_sha256 r" by metis
  show "check_decision_receipt d rs q = Inr () \<longleftrightarrow>
      dr_decision_sha256 q = decision_sha256 d \<and> (dr_applied q \<longleftrightarrow> pd_outcome d = COMMIT)
      \<and> (\<exists>r \<in> set rs. receipt_rank r = dr_rank q
          \<and> dr_topology_receipt_sha256 q = rank_topology_receipt_sha256 r)"
    unfolding ex check_decision_receipt_def r(3) rbind_Inr rbind_raise_if guard_Inr raise_if_Inr
    by blast
  show "check_decision_receipt d rs q = Inl e \<Longrightarrow> \<exists>m. e = ValueError m"
    unfolding check_decision_receipt_def r(3) rbind_Inr rbind_raise_if
    by (auto split: if_splits)
qed

lemma validate_iff_unanimous:
  assumes "valid_topology rs"
  shows "validate_decision_receipts d receipts rs = Inr () \<longleftrightarrow> unanimous d receipts rs"
proof (cases "set (map dr_rank receipts) = {0..<rs_world_size rs}")
  case False
  then show ?thesis by (auto simp: validate_decision_receipts_def unanimous_def)
next
  case True
  with check_decision_receipt_ok(1) [OF assms True] show ?thesis
    by (simp add: validate_decision_receipts_def unanimous_def)
qed

lemma validate_raises_value_error:
  assumes "valid_topology rs" "validate_decision_receipts d receipts rs = Inl e"
  shows "\<exists>m. e = ValueError m"
proof (cases "set (map dr_rank receipts) = {0..<rs_world_size rs}")
  case False
  with assms(2) show ?thesis by (auto simp: validate_decision_receipts_def split: if_splits)
next
  case True
  with assms(2) consider m where "e = ValueError m"
    | q where "q \<in> set receipts" "check_decision_receipt d rs q = Inl e"
    by (auto simp: validate_decision_receipts_def dest!: check_all_Inl split: if_splits)
  then show ?thesis using check_decision_receipt_ok(2) [OF assms(1) True] by cases blast+
qed

section \<open>A committed round\<close>

text \<open>A complete round of two ranks, for the witnesses.\<close>

definition example_candidate :: publication_candidate where
  "example_candidate = \<lparr>pc_update = \<lparr>ui_cohort_sha256 = replicate 64 CHR ''a'', ui_source_version = 3,
       ui_cohort_epoch = 1, ui_sequence_number = 5, ui_source_rows_sha256 = replicate 64 CHR ''b''\<rparr>,
     pc_buffer_generation = 2, pc_optimizer_generation = 4\<rparr>"

definition example_vote :: "int \<Rightarrow> rank_prepare" where
  "example_vote k = \<lparr>rp_rank = k, rp_topology_receipt_sha256 = rank_topology_receipt_sha256 (example_rank k),
     rp_candidate_sha256 = publication_candidate_sha256 example_candidate, rp_source_version = 3,
     rp_cohort_epoch = 1, rp_buffer_generation = 2, rp_optimizer_generation = 4, rp_ready = True,
     rp_finite = True, rp_memory_reserved = True, rp_safe_boundary = True,
     rp_process_group_healthy = True\<rparr>"

definition example_votes :: "rank_prepare list" where
  "example_votes = [example_vote 0, example_vote 1]"

definition example_prepared :: prepared_publication where
  "example_prepared = \<lparr>pp_update_sha256 = update_identity_sha256 (pc_update example_candidate),
     pp_candidate_sha256 = publication_candidate_sha256 example_candidate,
     pp_topology_sha256 = topology_sha256 example_topology, pp_disposition = COMMIT_READY,
     pp_reasons = [''all_ranks_prepared''], pp_ranks = [0, 1]\<rparr>"

definition example_receipts :: "rank_decision_receipt list" where
  "example_receipts = map (\<lambda>k. \<lparr>dr_rank = k,
     dr_topology_receipt_sha256 = rank_topology_receipt_sha256 (example_rank k),
     dr_decision_sha256 = decision_sha256 (decision_of example_prepared), dr_applied = True\<rparr>) [1, 0]"

definition example_round :: "coordinator_call list" where
  "example_round = [Prepare example_candidate example_votes, Decide example_prepared]"

definition example_commit :: "coordinator_call list" where
  "example_commit = example_round @ [Finalize (decision_of example_prepared) example_receipts]"

lemma int_range_2: "int_range 0 2 = [0, 1]"
  by (simp add: int_range_def upto.simps)

lemma example_rank_rank [simp]: "receipt_rank (example_rank k) = k"
  by (simp add: example_rank_def)

lemma example_all_answer: "all_ranks_answer example_topology example_votes"
  by (auto simp: all_ranks_answer_def rank_answers_def example_votes_def example_vote_def
      example_topology_sizes) (auto simp: example_topology_def)

lemma example_all_agree: "v \<in> set example_votes \<Longrightarrow> rank_agrees example_candidate v"
  by (auto simp: rank_agrees_def example_votes_def example_vote_def example_candidate_def)

lemma example_prepare:
  "prepare (coordinator_init example_topology) example_candidate example_votes
   = ((coordinator_init example_topology)\<lparr>co_pending := Some example_prepared\<rparr>, Inr example_prepared)"
proof -
  let ?c = "coordinator_init example_topology"
  have "prepare_open ?c example_votes"
    by (simp add: prepare_open_def coordinator_init_def example_votes_def example_vote_def)
  then obtain p where p: "prepare ?c example_candidate example_votes = (?c\<lparr>co_pending := Some p\<rparr>, Inr p)"
    "pp_update_sha256 p = update_identity_sha256 (pc_update example_candidate)"
    "pp_candidate_sha256 p = publication_candidate_sha256 example_candidate"
    "pp_topology_sha256 p = topology_sha256 example_topology" "pp_ranks p = int_range 0 2"
    "pp_disposition p = COMMIT_READY" "pp_reasons p = [''all_ranks_prepared'']"
    using prepare_Inr [of ?c example_votes example_candidate] example_topology_valid example_all_answer
      example_all_agree
    by (auto simp: coordinator_init_def round_disposition_def example_topology_sizes)
  then have "p = example_prepared" by (cases p) (simp add: example_prepared_def int_range_2)
  with p(1) show ?thesis by simp
qed

definition example_waiting :: coordinator where
  "example_waiting = (coordinator_init example_topology)\<lparr>co_service_ready := False,
     co_admission_allowed := False, co_pending_decision := Some (decision_of example_prepared)\<rparr>"

lemma example_decision_ok:
  "publication_decision_post_init (decision_of example_prepared) = Inr (decision_of example_prepared)"
  by (simp add: publication_decision_post_init_def decision_of_def example_prepared_def Let_def
      require_hash_n_def int_range_2)

lemma example_decide:
  "decide ((coordinator_init example_topology)\<lparr>co_pending := Some example_prepared\<rparr>) example_prepared
   = (example_waiting, Inr (decision_of example_prepared))"
  unfolding decide_def
  by (simp add: example_decision_ok Let_def)
    (simp add: decision_of_def example_prepared_def example_waiting_def coordinator_init_def Let_def)

lemma example_round_run: "coordinator_run example_topology example_round = (example_waiting, [])"
  by (simp add: example_round_def example_prepare example_decide)

lemma example_round_honest: "honest_run (coordinator_init example_topology, []) example_round"
  by (simp add: example_round_def example_prepare collide_def)

lemma example_unanimous: "unanimous (decision_of example_prepared) example_receipts example_topology"
  by (auto simp: unanimous_def decision_of_def example_prepared_def example_receipts_def Let_def
      example_topology_sizes int_range_2) (auto simp: example_topology_def)

lemma example_finalize:
  "snd (finalize example_waiting (decision_of example_prepared) example_receipts) = Inr ()"
  using validate_iff_unanimous [OF example_topology_valid, of "decision_of example_prepared" example_receipts]
    example_unanimous
  by (simp add: finalize_def example_waiting_def coordinator_init_def)

section \<open>Properties\<close>

text \<open>
  C2: A round of votes has exactly one outcome. When the coordinator is open and no rank votes
  twice, \<open>prepare\<close> always succeeds, and the candidate becomes ready to commit exactly when every rank
  of the topology answered with its own receipt and a healthy process group, every rank agrees on
  the candidate, versions, generations and readiness, and the update was never consumed before. A
  missing, foreign or unhealthy rank is a process-group failure; anything else aborts statically.
\<close>

theorem prepare_commits_iff_every_rank_agrees:
  assumes "valid_topology rs" "honest_run (coordinator_init rs, []) calls"
    and "coordinator_run rs calls = (c, commits)" "prepare_open c votes"
  shows "\<exists>p. prepare c candidate votes = (c\<lparr>co_pending := Some p\<rparr>, Inr p)
    \<and> pp_ranks p = int_range 0 (rs_world_size (co_topology c))
    \<and> (pp_disposition p = COMMIT_READY \<longleftrightarrow>
         all_ranks_answer (co_topology c) votes \<and> (\<forall>v \<in> set votes. rank_agrees candidate v)
         \<and> update_identity_sha256 (pc_update candidate) \<notin> co_consumed_updates c)
    \<and> (pp_disposition p = PREPARE_PROCESS_GROUP_FAILURE \<longleftrightarrow> \<not> all_ranks_answer (co_topology c) votes)"
proof -
  have "valid_topology (co_topology c)"
    using coordinator_run_inv [OF assms(1,2)] assms(3) by (simp add: coordinator_inv_def)
  from prepare_Inr [OF this assms(4), of candidate] obtain p where
    "prepare c candidate votes = (c\<lparr>co_pending := Some p\<rparr>, Inr p)"
    "pp_ranks p = int_range 0 (rs_world_size (co_topology c))"
    "pp_disposition p = round_disposition (co_topology c)
        (update_identity_sha256 (pc_update candidate) \<in> co_consumed_updates c) candidate votes"
    by blast
  then show ?thesis by (auto simp: round_disposition_def)
qed

theorem prepare_commits_iff_every_rank_agrees_witness:
  "\<exists>p. prepare (coordinator_init example_topology) example_candidate example_votes
     = ((coordinator_init example_topology)\<lparr>co_pending := Some p\<rparr>, Inr p)
     \<and> pp_disposition p = COMMIT_READY"
proof -
  have "prepare_open (coordinator_init example_topology) example_votes"
    by (simp add: prepare_open_def coordinator_init_def example_votes_def example_vote_def)
  then show ?thesis
    using prepare_commits_iff_every_rank_agrees
        [OF example_topology_valid, of "[]" "coordinator_init example_topology" "[]" example_votes
            example_candidate]
      example_all_answer example_all_agree
    by (auto simp: coordinator_init_def)
qed

text \<open>
  C1: An update is committed at most once. In every run in which the digests of the records do not
  collide, the updates of the finalized commits are pairwise different.
\<close>

theorem updates_commit_at_most_once:
  assumes "valid_topology rs" "honest_run (coordinator_init rs, []) calls"
  shows "distinct (snd (coordinator_run rs calls))
    \<and> set (snd (coordinator_run rs calls)) \<subseteq> co_consumed_updates (fst (coordinator_run rs calls))"
  using coordinator_run_inv [OF assms] by (auto simp: coordinator_inv_def split: prod.splits)

theorem updates_commit_at_most_once_witness:
  "snd (coordinator_run example_topology example_commit)
     = [update_identity_sha256 (pc_update example_candidate)]
   \<and> update_identity_sha256 (pc_update example_candidate)
       \<in> co_consumed_updates (fst (coordinator_run example_topology example_commit))"
proof -
  have "honest (example_waiting, []) (Finalize (decision_of example_prepared) example_receipts)"
    by (simp add: example_waiting_def coordinator_init_def collide_def)
  then have honest: "honest_run (coordinator_init example_topology, []) example_commit"
    using example_round_honest example_round_run
    by (simp add: example_commit_def example_round_def example_prepare example_decide collide_def)
  have "snd (coordinator_run example_topology example_commit)
      = [update_identity_sha256 (pc_update example_candidate)]"
    using example_round_run example_finalize
    by (simp add: example_commit_def) (simp add: decision_of_def example_prepared_def Let_def)
  with updates_commit_at_most_once [OF example_topology_valid honest] show ?thesis by simp
qed

text \<open>
  C4: The service is fail-closed. Admission is open exactly when no decision awaits the ranks and
  no restart is required; while a restart is required nothing is pending and no candidate can be
  prepared, decided or finalized.
\<close>

theorem service_is_fail_closed:
  assumes "valid_topology rs" "honest_run (coordinator_init rs, []) calls"
    and "coordinator_run rs calls = (c, commits)"
  shows "(co_admission_allowed c \<longleftrightarrow> co_pending_decision c = None \<and> \<not> co_restart_required c)
    \<and> co_service_ready c = co_admission_allowed c
    \<and> (co_restart_required c \<longrightarrow> co_pending c = None \<and> co_pending_decision c = None
        \<and> (\<forall>k vs. \<not> is_ok (snd (prepare c k vs))) \<and> (\<forall>p. \<not> is_ok (snd (decide c p)))
        \<and> (\<forall>d ds. \<not> is_ok (snd (finalize c d ds))))"
  using coordinator_run_inv [OF assms(1,2)] assms(3)
  by (auto simp: coordinator_inv_def prepare_def decide_def finalize_def)

theorem service_is_fail_closed_witness:
  "\<not> co_admission_allowed (fst (coordinator_run example_topology example_round))
   \<and> \<not> co_service_ready (fst (coordinator_run example_topology example_round))"
  using service_is_fail_closed [OF example_topology_valid example_round_honest example_round_run]
  by (simp add: example_round_run) (simp add: example_waiting_def)

text \<open>
  C3: Finalization opens the service only on unanimity. It succeeds only for the awaited decision
  and receipts that cover every rank of the topology once, each bound to the rank's own topology
  receipt, to this decision, and applied exactly if the outcome is a commit; it then marks the
  update consumed. If the decision is the awaited one and the receipts are not like that, the
  coordinator is closed and requires a restart.
\<close>

theorem finalize_needs_unanimity:
  assumes "valid_topology rs" "honest_run (coordinator_init rs, []) calls"
    and "coordinator_run rs calls = (c, commits)" "co_pending_decision c = Some d"
  shows "if unanimous d receipts (co_topology c)
    then snd (finalize c d receipts) = Inr () \<and> co_admission_allowed (fst (finalize c d receipts))
      \<and> pd_update_sha256 d \<in> co_consumed_updates (fst (finalize c d receipts))
    else \<not> is_ok (snd (finalize c d receipts)) \<and> co_restart_required (fst (finalize c d receipts))
      \<and> \<not> co_admission_allowed (fst (finalize c d receipts))"
proof -
  have valid: "valid_topology (co_topology c)"
    using coordinator_run_inv [OF assms(1,2)] assms(3) by (simp add: coordinator_inv_def)
  show ?thesis
  proof (cases "validate_decision_receipts d receipts (co_topology c)")
    case (Inl e)
    then obtain m where "e = ValueError m" using validate_raises_value_error [OF valid] by blast
    with Inl assms(4) validate_iff_unanimous [OF valid, of d receipts] show ?thesis
      by (simp add: finalize_def mark_collective_failed_def)
  next
    case (Inr u)
    with assms(4) validate_iff_unanimous [OF valid, of d receipts] show ?thesis
      by (simp add: finalize_def)
  qed
qed

theorem finalize_needs_unanimity_witness:
  "unanimous (decision_of example_prepared) example_receipts example_topology
   \<and> snd (finalize example_waiting (decision_of example_prepared) example_receipts) = Inr ()
   \<and> \<not> is_ok (snd (finalize example_waiting (decision_of example_prepared) []))"
proof -
  have pending: "co_pending_decision example_waiting = Some (decision_of example_prepared)"
    and top: "co_topology example_waiting = example_topology"
    by (simp_all add: example_waiting_def coordinator_init_def)
  have "\<not> unanimous (decision_of example_prepared) [] example_topology"
    by (simp add: unanimous_def example_topology_sizes)
  then show ?thesis
    using finalize_needs_unanimity [OF example_topology_valid example_round_honest example_round_run pending,
        of example_receipts]
      finalize_needs_unanimity [OF example_topology_valid example_round_honest example_round_run pending, of "[]"]
      example_unanimous
    by (simp add: top)
qed

section \<open>Agreement of the ranks\<close>

text \<open>
  One round of the transport at one rank: its own transport and coordinator, and the answers its two collectives
  give it. The ranks of a world may be in different states and be asked about different candidates.
\<close>

record gloo_round =
  gr_transport :: gloo_transport
  gr_group :: process_group
  gr_gather_votes :: "rank_prepare \<Rightarrow> rank_prepare option list res"
  gr_gather_decisions :: "string \<Rightarrow> string list res"
  gr_candidate :: publication_candidate
  gr_vote :: rank_prepare

definition round_derived :: "gloo_round \<Rightarrow> (gloo_transport, publication_decision) op_result" where
  "round_derived r = derived_decision (gr_transport r) (gr_gather_votes r) (gr_candidate r) (gr_vote r)"

definition round_result :: "gloo_round \<Rightarrow> (gloo_transport, publication_decision) op_result" where
  "round_result r = prepare_and_decide (gr_transport r) (gr_group r) (gr_gather_votes r) (gr_gather_decisions r)
     (gr_candidate r) (gr_vote r)"

text \<open>
  The contract of the second \<open>all_gather_object\<close>: a rank to which it returns a list is given what every rank
  contributed, in rank order. It does not return while some rank has contributed nothing; that it returns at all is
  not part of the contract.
\<close>

definition contributed :: "gloo_round \<Rightarrow> string res" where
  "contributed r = rbind (snd (round_derived r)) (\<lambda>d. Inr (decision_sha256 d))"

definition gathers_decisions :: "int \<Rightarrow> (int \<Rightarrow> gloo_round) \<Rightarrow> bool" where
  "gathers_decisions n rounds \<longleftrightarrow> (\<forall>k \<in> {0..<n}. \<forall>s digests. gr_gather_decisions (rounds k) s = Inr digests
     \<longrightarrow> map_res (contributed \<circ> rounds) (int_range 0 n) = Inr digests)"

lemma derived_topology: "derived_decision g gather_votes candidate v = (g', r) \<Longrightarrow> gt_topology g' = gt_topology g"
  by (auto simp: derived_decision_def and_then_def split: if_splits prod.splits sum.splits)

lemma round_result_Inr:
  assumes "round_result r = (g', Inr d)"
  shows "round_derived r = (g', Inr d)"
    "gr_gather_decisions r (decision_sha256 d)
       = Inr (replicate (nat (rs_world_size (gt_topology (gr_transport r)))) (decision_sha256 d))"
proof -
  obtain h x where derived: "derived_decision (gr_transport r) (gr_gather_votes r) (gr_candidate r) (gr_vote r) = (h, x)"
    by fastforce
  have "collective_decision (gr_transport r) (gr_gather_votes r) (gr_gather_decisions r) (gr_candidate r) (gr_vote r)
      = (g', Inr d)"
    using assms unfolding round_result_def prepare_and_decide_def by (auto split: if_splits prod.splits sum.splits)
  then have g: "derived_decision (gr_transport r) (gr_gather_votes r) (gr_candidate r) (gr_vote r) = (g', Inr d)"
    "gr_gather_decisions r (decision_sha256 d) = Inr (replicate (nat (rs_world_size (gt_topology g'))) (decision_sha256 d))"
    unfolding collective_decision_def and_then_def derived by (auto split: if_splits sum.splits)
  with derived_topology [OF g(1)] show "round_derived r = (g', Inr d)"
    "gr_gather_decisions r (decision_sha256 d)
       = Inr (replicate (nat (rs_world_size (gt_topology (gr_transport r)))) (decision_sha256 d))"
    by (simp_all add: round_derived_def)
qed

definition gloo_group :: "topology_receipt_set \<Rightarrow> int \<Rightarrow> process_group" where
  "gloo_group rs rank = \<lparr>pg_initialized = True, pg_backend = ''gloo'',
     pg_world_size = rs_world_size rs, pg_rank = rank\<rparr>"

definition gloo_rank :: "coordinator \<Rightarrow> int \<Rightarrow> gloo_transport" where
  "gloo_rank c rank = \<lparr>gt_topology = co_topology c, gt_local_rank = rank, gt_coordinator = c\<rparr>"

text \<open>
  C5: No rank publishes alone. Whatever state the coordinators of the ranks are in, whatever candidates and votes
  they are given and whatever the first collective delivers to each: if the second collective hands a rank only
  what all ranks contributed, then a rank of the transport returns a decision only when every rank of the world has
  derived that decision (the same record, unless SHA-256 collides on the two), and no rank returns another one; a
  rank that does not return it raises.
\<close>

theorem gloo_ranks_agree:
  assumes "gathers_decisions n rounds" "k \<in> {0..<n}" "rs_world_size (gt_topology (gr_transport (rounds k))) = n"
    and "round_result (rounds k) = (g', Inr d)"
  shows "\<forall>j \<in> {0..<n}. \<exists>g d'. round_derived (rounds j) = (g, Inr d') \<and> decision_sha256 d' = decision_sha256 d
    \<and> (d' = d \<or> collide (decision_json d') (decision_json d))
    \<and> (round_result (rounds j) = (g, Inr d') \<or> (\<exists>h e. round_result (rounds j) = (h, Inl e)))"
proof
  fix j assume j: "j \<in> {0..<n}"
  note own = round_result_Inr [OF assms(4)]
  have "map_res (contributed \<circ> rounds) (int_range 0 n) = Inr (replicate (nat n) (decision_sha256 d))"
    using assms(1,2) own(2) unfolding gathers_decisions_def assms(3) by blast
  then have all: "list_all2 (\<lambda>i s. contributed (rounds i) = Inr s) (int_range 0 n) (replicate (nat n) (decision_sha256 d))"
    by (simp add: map_res_Inr)
  have "j \<in> set (int_range 0 n)" using j by (simp add: image_iff)
  then obtain i where "i < length (int_range 0 n)" "int_range 0 n ! i = j" unfolding in_set_conv_nth by blast
  then have "contributed (rounds j) = Inr (decision_sha256 d)"
    using list_all2_nthD [OF all, of i] list_all2_lengthD [OF all] by auto
  then obtain g d' where d': "round_derived (rounds j) = (g, Inr d')" "decision_sha256 d' = decision_sha256 d"
    unfolding contributed_def by (cases "round_derived (rounds j)") auto
  have "round_result (rounds j) = (g, Inr d') \<or> (\<exists>h e. round_result (rounds j) = (h, Inl e))"
  proof (cases "round_result (rounds j)")
    case (Pair h r)
    then show ?thesis using round_result_Inr(1) [of "rounds j" h] d'(1) by (cases r) auto
  qed
  moreover have "d' = d \<or> collide (decision_json d') (decision_json d)" using decision_digest [OF d'(2)] by blast
  ultimately show "\<exists>g d'. round_derived (rounds j) = (g, Inr d') \<and> decision_sha256 d' = decision_sha256 d
      \<and> (d' = d \<or> collide (decision_json d') (decision_json d))
      \<and> (round_result (rounds j) = (g, Inr d') \<or> (\<exists>h e. round_result (rounds j) = (h, Inl e)))"
    using d' by blast
qed

text \<open>Witness: two fresh ranks that both vote for the example candidate.\<close>

definition example_rank_round :: "int \<Rightarrow> gloo_round" where
  "example_rank_round k =
     \<lparr>gr_transport = gloo_rank (coordinator_init example_topology) k, gr_group = gloo_group example_topology k,
      gr_gather_votes = \<lambda>_. Inr (map Some example_votes),
      gr_gather_decisions = \<lambda>_. Inr (replicate 2 (decision_sha256 (decision_of example_prepared))),
      gr_candidate = example_candidate, gr_vote = example_vote k\<rparr>"

lemma example_rank_derives:
  "\<exists>g. round_derived (example_rank_round k) = (g, Inr (decision_of example_prepared))
     \<and> gt_topology g = example_topology"
  by (simp add: round_derived_def example_rank_round_def derived_decision_def gloo_rank_def example_prepare example_decide
      comp_def) (simp add: coordinator_init_def)

theorem gloo_ranks_agree_witness:
  "\<exists>g' d. round_result (example_rank_round 0) = (g', Inr d) \<and> pd_outcome d = COMMIT
     \<and> (\<exists>g d'. round_derived (example_rank_round 1) = (g, Inr d') \<and> decision_sha256 d' = decision_sha256 d)"
proof -
  let ?d = "decision_of example_prepared"
  have contributed: "contributed (example_rank_round k) = Inr (decision_sha256 ?d)" for k
    using example_rank_derives [of k] by (auto simp: contributed_def)
  have delivered: "gr_gather_decisions (example_rank_round k) s = Inr (replicate 2 (decision_sha256 ?d))" for k s
    by (simp add: example_rank_round_def)
  have gathers: "gathers_decisions 2 example_rank_round"
    by (simp add: gathers_decisions_def delivered int_range_2 contributed numeral_2_eq_2)
  have size: "rs_world_size (gt_topology (gr_transport (example_rank_round 0))) = 2"
    by (simp add: example_rank_round_def gloo_rank_def coordinator_init_def example_topology_sizes)
  obtain g where g: "round_derived (example_rank_round 0) = (g, Inr ?d)" "gt_topology g = example_topology"
    using example_rank_derives by blast
  then have result: "round_result (example_rank_round 0) = (g, Inr ?d)"
    unfolding round_derived_def round_result_def prepare_and_decide_def collective_decision_def
    by (simp add: example_rank_round_def gloo_rank_def gloo_group_def check_distributed_def coordinator_init_def
        example_topology_sizes example_vote_def)
  have "pd_outcome ?d = COMMIT" by (simp add: decision_of_def Let_def example_prepared_def)
  with gloo_ranks_agree [OF gathers _ size result] result show ?thesis by force
qed

text \<open>
  C6: Once a collective has begun, every failure of it closes the rank: if \<open>prepare_and_decide\<close>
  raises after its own checks, for whatever reason (a collective that raises, an invalid entry, a
  refused prepare or decide, or ranks that derived different decisions), the coordinator of the
  rank requires a restart and admits nothing.
\<close>

theorem gloo_failure_closes_the_rank:
  assumes "rp_rank local_vote = gt_local_rank g" "check_distributed g pg = Inr ()"
    and "prepare_and_decide g pg gather_votes gather_decisions candidate local_vote = (g', Inl e)"
  shows "co_restart_required (gt_coordinator g') \<and> \<not> co_admission_allowed (gt_coordinator g')
    \<and> \<not> co_service_ready (gt_coordinator g') \<and> co_pending (gt_coordinator g') = None
    \<and> co_pending_decision (gt_coordinator g') = None"
proof -
  from assms obtain g'' where "g' = gloo_failed g''"
    by (auto simp: prepare_and_decide_def split: prod.splits sum.splits)
  then show ?thesis by (simp add: gloo_failed_def mark_collective_failed_def)
qed

theorem gloo_failure_closes_the_rank_witness:
  "\<exists>g' e. prepare_and_decide (gloo_rank (coordinator_init example_topology) 0)
       (gloo_group example_topology 0) (\<lambda>_. Inl (RuntimeError ''gloo'')) (\<lambda>_. Inr []) example_candidate
       (example_vote 0) = (g', Inl e) \<and> co_restart_required (gt_coordinator g')"
proof -
  let ?g = "gloo_rank (coordinator_init example_topology) 0"
  have rank: "rp_rank (example_vote 0) = gt_local_rank ?g"
    by (simp add: example_vote_def gloo_rank_def)
  have ok: "check_distributed ?g (gloo_group example_topology 0) = Inr ()"
    by (simp add: check_distributed_def gloo_rank_def gloo_group_def coordinator_init_def)
  have "\<exists>g'. prepare_and_decide ?g (gloo_group example_topology 0) (\<lambda>_. Inl (RuntimeError ''gloo''))
      (\<lambda>_. Inr []) example_candidate (example_vote 0) = (g', Inl (RuntimeError ''gloo''))"
    by (simp add: prepare_and_decide_def rank ok collective_decision_def derived_decision_def)
  with gloo_failure_closes_the_rank [OF rank ok] show ?thesis by blast
qed

end
