(* ===== verification/Execution.thy ===== *)
theory Execution
  imports Digest
begin

text \<open>
  The execution policies of \<open>execution.py\<close>: the controlled policy, the fixed-address graph policy,
  their digests and the comparison with what a live server reports. The fields of the dataclasses
  are whatever the caller passed, so they are JSON values here and the type tests of \<open>validate\<close> are
  tests on the constructor. The digest of the native release capability is a constant of
  \<open>runtime/readiness.py\<close> and an argument here. Publishing and loading policy files is not modelled.
\<close>

datatype execution_role = Target_Reference | Speculative

fun is_json_bool :: "json \<Rightarrow> bool" where
  "is_json_bool (JBool _) = True"
| "is_json_bool _ = False"

fun is_json_int :: "json \<Rightarrow> bool" where
  "is_json_int (JInt _) = True"
| "is_json_int _ = False"

text \<open>Truth of a value that was tested to be a Boolean.\<close>

definition is_true :: "json \<Rightarrow> bool" where
  "is_true v \<longleftrightarrow> v = JBool True"

section \<open>The controlled policy\<close>

record controlled_execution_policy =
  ep_schema_version :: json
  ep_context_length :: json
  ep_random_seed :: json
  ep_disable_radix_cache :: json
  ep_disable_cuda_graph :: json
  ep_target_reference_disable_overlap_schedule :: json
  ep_speculative_disable_overlap_schedule :: json
  ep_enable_deterministic_inference :: json
  ep_incremental_streaming_output :: json

text \<open>The dataclass defaults.\<close>

definition controlled_policy :: "int \<Rightarrow> controlled_execution_policy" where
  "controlled_policy seed =
     \<lparr>ep_schema_version = JInt 2, ep_context_length = JInt 40960, ep_random_seed = JInt seed,
      ep_disable_radix_cache = JBool True, ep_disable_cuda_graph = JBool True,
      ep_target_reference_disable_overlap_schedule = JBool True,
      ep_speculative_disable_overlap_schedule = JBool False,
      ep_enable_deterministic_inference = JBool False,
      ep_incremental_streaming_output = JBool False\<rparr>"

definition controlled_validate :: "controlled_execution_policy \<Rightarrow> unit res" where
  "controlled_validate p =
     rbind (raise_if (ep_schema_version p \<noteq> JInt 2)
       (ValueError ''execution policy must use schema version 2'')) (\<lambda>_.
     rbind (raise_if (ep_context_length p \<noteq> JInt 40960)
       (ValueError ''execution context must equal the locked model limit'')) (\<lambda>_.
     rbind (raise_if (case ep_random_seed p of JInt n \<Rightarrow> n < 0 | _ \<Rightarrow> True)
       (ValueError ''execution random seed must be a non-negative integer'')) (\<lambda>_.
     rbind (raise_if (\<not> list_all is_json_bool
           [ep_disable_radix_cache p, ep_disable_cuda_graph p,
            ep_target_reference_disable_overlap_schedule p,
            ep_speculative_disable_overlap_schedule p, ep_enable_deterministic_inference p,
            ep_incremental_streaming_output p])
       (ValueError ''execution switches must be booleans'')) (\<lambda>_.
     rbind (raise_if (\<not> is_true (ep_disable_radix_cache p) \<or> \<not> is_true (ep_disable_cuda_graph p))
       (ValueError ''formal DFlash exactness requires radix cache and CUDA graph disabled'')) (\<lambda>_.
     rbind (raise_if (\<not> is_true (ep_target_reference_disable_overlap_schedule p))
       (ValueError ''target reference must disable overlap scheduling'')) (\<lambda>_.
     rbind (raise_if (is_true (ep_speculative_disable_overlap_schedule p))
       (ValueError ''formal speculative runs must retain overlap scheduling'')) (\<lambda>_.
     rbind (raise_if (is_true (ep_enable_deterministic_inference p))
       (ValueError ''unregistered deterministic execution variant'')) (\<lambda>_.
     raise_if (is_true (ep_incremental_streaming_output p))
       (ValueError ''formal evidence requires complete output token IDs'')))))))))"

definition controlled_json :: "controlled_execution_policy \<Rightarrow> json" where
  "controlled_json p = JObj
     [(''context_length'', ep_context_length p),
      (''disable_cuda_graph'', ep_disable_cuda_graph p),
      (''disable_radix_cache'', ep_disable_radix_cache p),
      (''enable_deterministic_inference'', ep_enable_deterministic_inference p),
      (''incremental_streaming_output'', ep_incremental_streaming_output p),
      (''random_seed'', ep_random_seed p),
      (''schema_version'', ep_schema_version p),
      (''speculative_disable_overlap_schedule'', ep_speculative_disable_overlap_schedule p),
      (''target_reference_disable_overlap_schedule'', ep_target_reference_disable_overlap_schedule p)]"

definition controlled_to_dict :: "controlled_execution_policy \<Rightarrow> json res" where
  "controlled_to_dict p = rbind (controlled_validate p) (\<lambda>_. Inr (controlled_json p))"

definition controlled_sha256 :: "controlled_execution_policy \<Rightarrow> string res" where
  "controlled_sha256 p = rbind (controlled_to_dict p) (\<lambda>v. Inr (content_sha256 v))"

definition controlled_overlap_disabled ::
  "controlled_execution_policy \<Rightarrow> execution_role \<Rightarrow> json res" where
  "controlled_overlap_disabled p role =
     rbind (controlled_validate p) (\<lambda>_. Inr (case role of
       Target_Reference \<Rightarrow> ep_target_reference_disable_overlap_schedule p
     | Speculative \<Rightarrow> ep_speculative_disable_overlap_schedule p))"

definition controlled_server_info_fields ::
  "controlled_execution_policy \<Rightarrow> execution_role \<Rightarrow> (string \<times> json) list res" where
  "controlled_server_info_fields p role =
     rbind (controlled_validate p) (\<lambda>_.
     rbind (controlled_overlap_disabled p role) (\<lambda>overlap. Inr
       [(''context_length'', ep_context_length p), (''random_seed'', ep_random_seed p),
        (''disable_radix_cache'', ep_disable_radix_cache p),
        (''disable_cuda_graph'', ep_disable_cuda_graph p), (''disable_overlap_schedule'', overlap),
        (''enable_deterministic_inference'', ep_enable_deterministic_inference p),
        (''incremental_streaming_output'', ep_incremental_streaming_output p)]))"

definition controlled_validate_server_info ::
  "controlled_execution_policy \<Rightarrow> json \<Rightarrow> execution_role \<Rightarrow> unit res" where
  "controlled_validate_server_info p server_info role =
     (case server_info of
        JObj info \<Rightarrow> rbind (controlled_server_info_fields p role) (\<lambda>fields.
          check_all (\<lambda>(name, expected). raise_if (dget info name \<noteq> Some expected)
            (ValueError (''server execution policy mismatch: '' @ name))) fields)
      | _ \<Rightarrow> Inl (TypeError ''server_info must be an object''))"

definition controlled_from_dict :: "json \<Rightarrow> controlled_execution_policy res" where
  "controlled_from_dict value =
     (case value of
        JObj kvs \<Rightarrow>
          (case controlled_json (controlled_policy 1) of
             JObj expected \<Rightarrow>
               if set (dkeys kvs) \<noteq> set (dkeys expected)
               then Inl (ValueError ''execution policy fields do not match schema-v2'')
               else let get = (\<lambda>name. the (dget kvs name));
                        p = \<lparr>ep_schema_version = get ''schema_version'',
                             ep_context_length = get ''context_length'',
                             ep_random_seed = get ''random_seed'',
                             ep_disable_radix_cache = get ''disable_radix_cache'',
                             ep_disable_cuda_graph = get ''disable_cuda_graph'',
                             ep_target_reference_disable_overlap_schedule =
                               get ''target_reference_disable_overlap_schedule'',
                             ep_speculative_disable_overlap_schedule =
                               get ''speculative_disable_overlap_schedule'',
                             ep_enable_deterministic_inference = get ''enable_deterministic_inference'',
                             ep_incremental_streaming_output = get ''incremental_streaming_output''\<rparr>
                    in rbind (controlled_validate p) (\<lambda>_. Inr p)
           | _ \<Rightarrow> Inl (ValueError ''execution policy fields do not match schema-v2''))
      | _ \<Rightarrow> Inl (ValueError ''execution policy fields do not match schema-v2''))"

section \<open>The fixed-address graph policy\<close>

definition pinned_sglang_commit :: string where
  "pinned_sglang_commit = ''3312645a307453893a00778592f105581e3d1c3d''"

definition pinned_sglang_tree :: string where
  "pinned_sglang_tree = ''bb6371242e82592d1b8a2f5f4ba6d0630d8365cb''"

definition graph_execution_protocol_sha256 :: string where
  "graph_execution_protocol_sha256 = content_sha256 (JObj
     [(''blocking_d2h_allowed'', JBool False), (''eager_fallback_allowed'', JBool False),
      (''fixed_addresses_required'', JBool True),
      (''formal_authority'', JStr ''dynamic_native_hot_path_gpu_proof''),
      (''graph_batch_sizes'', JArr [JInt 1]), (''host_synchronization_allowed'', JBool False),
      (''kind'', JStr ''fixed_address_publication_graph_execution_policy''),
      (''patched_sglang_tree'', JStr pinned_sglang_tree),
      (''pinned_sglang_commit'', JStr pinned_sglang_commit), (''schema_version'', JInt 1)])"

record graph_execution_policy =
  gp_schema_version :: json
  gp_kind :: json
  gp_protocol_sha256 :: json
  gp_native_runtime_release_capability_sha256 :: string
  gp_context_length :: json
  gp_random_seed :: json
  gp_disable_radix_cache :: json
  gp_disable_cuda_graph :: json
  gp_target_reference_disable_overlap_schedule :: json
  gp_speculative_disable_overlap_schedule :: json
  gp_enable_deterministic_inference :: json
  gp_incremental_streaming_output :: json
  gp_graph_batch_sizes :: "json list"
  gp_fixed_addresses_required :: json
  gp_eager_fallback_allowed :: json
  gp_blocking_d2h_allowed :: json
  gp_host_synchronization_allowed :: json

definition graph_policy :: "string \<Rightarrow> int \<Rightarrow> graph_execution_policy" where
  "graph_policy native seed =
     \<lparr>gp_schema_version = JInt 1, gp_kind = JStr ''fixed_address_publication_graph_execution_policy'',
      gp_protocol_sha256 = JStr graph_execution_protocol_sha256,
      gp_native_runtime_release_capability_sha256 = native, gp_context_length = JInt 40960,
      gp_random_seed = JInt seed, gp_disable_radix_cache = JBool True,
      gp_disable_cuda_graph = JBool False, gp_target_reference_disable_overlap_schedule = JBool True,
      gp_speculative_disable_overlap_schedule = JBool False,
      gp_enable_deterministic_inference = JBool False,
      gp_incremental_streaming_output = JBool False, gp_graph_batch_sizes = [JInt 1],
      gp_fixed_addresses_required = JBool True, gp_eager_fallback_allowed = JBool False,
      gp_blocking_d2h_allowed = JBool False, gp_host_synchronization_allowed = JBool False\<rparr>"

text \<open>Python's \<open>value == 1\<close>: \<open>True == 1\<close> holds.\<close>

definition equals_one :: "json \<Rightarrow> bool" where
  "equals_one v \<longleftrightarrow> v = JInt 1 \<or> v = JBool True"

definition graph_validate :: "string \<Rightarrow> graph_execution_policy \<Rightarrow> unit res" where
  "graph_validate native p =
     rbind (raise_if (gp_schema_version p \<noteq> JInt 1
         \<or> gp_kind p \<noteq> JStr ''fixed_address_publication_graph_execution_policy''
         \<or> gp_protocol_sha256 p \<noteq> JStr graph_execution_protocol_sha256)
       (ValueError ''fixed-address graph policy schema is unsupported'')) (\<lambda>_.
     rbind (raise_if (\<not> is_lower_hex 64 (gp_native_runtime_release_capability_sha256 p))
       (ValueError ''fixed-address graph policy lacks source capability'')) (\<lambda>_.
     rbind (raise_if (gp_native_runtime_release_capability_sha256 p \<noteq> native)
       (ValueError ''fixed-address graph policy source capability is unregistered'')) (\<lambda>_.
     rbind (raise_if (gp_context_length p \<noteq> JInt 40960)
       (ValueError ''graph execution context must equal the locked model limit'')) (\<lambda>_.
     rbind (raise_if (case gp_random_seed p of JInt n \<Rightarrow> n < 0 | _ \<Rightarrow> True)
       (ValueError ''graph execution random seed must be non-negative'')) (\<lambda>_.
     rbind (raise_if (\<not> list_all is_json_bool
           [gp_disable_radix_cache p, gp_disable_cuda_graph p,
            gp_target_reference_disable_overlap_schedule p,
            gp_speculative_disable_overlap_schedule p, gp_enable_deterministic_inference p,
            gp_incremental_streaming_output p, gp_fixed_addresses_required p,
            gp_eager_fallback_allowed p, gp_blocking_d2h_allowed p,
            gp_host_synchronization_allowed p])
       (ValueError ''graph execution switches must be booleans'')) (\<lambda>_.
     raise_if (\<not> is_true (gp_disable_radix_cache p) \<or> is_true (gp_disable_cuda_graph p)
         \<or> \<not> is_true (gp_target_reference_disable_overlap_schedule p)
         \<or> is_true (gp_speculative_disable_overlap_schedule p)
         \<or> is_true (gp_enable_deterministic_inference p)
         \<or> is_true (gp_incremental_streaming_output p)
         \<or> \<not> is_true (gp_fixed_addresses_required p)
         \<or> is_true (gp_eager_fallback_allowed p) \<or> is_true (gp_blocking_d2h_allowed p)
         \<or> is_true (gp_host_synchronization_allowed p)
         \<or> \<not> (case gp_graph_batch_sizes p of [v] \<Rightarrow> equals_one v | _ \<Rightarrow> False))
       (ValueError ''fixed-address graph policy weakens the registered contract'')))))))"

definition graph_json :: "graph_execution_policy \<Rightarrow> json" where
  "graph_json p = JObj
     [(''blocking_d2h_allowed'', gp_blocking_d2h_allowed p),
      (''context_length'', gp_context_length p),
      (''disable_cuda_graph'', gp_disable_cuda_graph p),
      (''disable_radix_cache'', gp_disable_radix_cache p),
      (''eager_fallback_allowed'', gp_eager_fallback_allowed p),
      (''enable_deterministic_inference'', gp_enable_deterministic_inference p),
      (''fixed_addresses_required'', gp_fixed_addresses_required p),
      (''graph_batch_sizes'', JArr (gp_graph_batch_sizes p)),
      (''host_synchronization_allowed'', gp_host_synchronization_allowed p),
      (''incremental_streaming_output'', gp_incremental_streaming_output p),
      (''kind'', gp_kind p),
      (''native_runtime_release_capability_sha256'', JStr (gp_native_runtime_release_capability_sha256 p)),
      (''protocol_sha256'', gp_protocol_sha256 p),
      (''random_seed'', gp_random_seed p),
      (''schema_version'', gp_schema_version p),
      (''speculative_disable_overlap_schedule'', gp_speculative_disable_overlap_schedule p),
      (''target_reference_disable_overlap_schedule'', gp_target_reference_disable_overlap_schedule p)]"

definition graph_to_dict :: "string \<Rightarrow> graph_execution_policy \<Rightarrow> json res" where
  "graph_to_dict native p = rbind (graph_validate native p) (\<lambda>_. Inr (graph_json p))"

definition graph_sha256 :: "string \<Rightarrow> graph_execution_policy \<Rightarrow> string res" where
  "graph_sha256 native p = rbind (graph_to_dict native p) (\<lambda>v. Inr (content_sha256 v))"

definition graph_overlap_disabled ::
  "string \<Rightarrow> graph_execution_policy \<Rightarrow> execution_role \<Rightarrow> json res" where
  "graph_overlap_disabled native p role =
     rbind (graph_validate native p) (\<lambda>_. Inr (case role of
       Target_Reference \<Rightarrow> gp_target_reference_disable_overlap_schedule p
     | Speculative \<Rightarrow> gp_speculative_disable_overlap_schedule p))"

definition graph_server_info_fields ::
  "string \<Rightarrow> graph_execution_policy \<Rightarrow> execution_role \<Rightarrow> (string \<times> json) list res" where
  "graph_server_info_fields native p role =
     rbind (graph_validate native p) (\<lambda>_.
     rbind (graph_overlap_disabled native p role) (\<lambda>overlap. Inr
       [(''context_length'', gp_context_length p), (''random_seed'', gp_random_seed p),
        (''disable_radix_cache'', gp_disable_radix_cache p),
        (''disable_cuda_graph'', gp_disable_cuda_graph p), (''disable_overlap_schedule'', overlap),
        (''enable_deterministic_inference'', gp_enable_deterministic_inference p),
        (''incremental_streaming_output'', gp_incremental_streaming_output p),
        (''lightcone_fixed_address_publication_graph'', JBool True),
        (''lightcone_graph_batch_sizes'', JArr (gp_graph_batch_sizes p)),
        (''lightcone_graph_eager_fallback'', gp_eager_fallback_allowed p)]))"

section \<open>What the validators accept\<close>

lemma is_true_cases: "is_json_bool v \<Longrightarrow> is_true v \<or> v = JBool False"
  by (cases v) (auto simp: is_true_def)

text \<open>A validated controlled policy is the registered one, up to its seed.\<close>

lemma controlled_validate_iff:
  "controlled_validate p = Inr () \<longleftrightarrow> (\<exists>seed. 0 \<le> seed \<and> p = controlled_policy seed)"
proof
  assume "controlled_validate p = Inr ()"
  then show "\<exists>seed. 0 \<le> seed \<and> p = controlled_policy seed"
    by (cases p) (auto simp: controlled_validate_def controlled_policy_def is_true_def not_less
        split: json.splits elim!: is_json_bool.elims)
next
  assume "\<exists>seed. 0 \<le> seed \<and> p = controlled_policy seed"
  then show "controlled_validate p = Inr ()"
    by (auto simp: controlled_validate_def controlled_policy_def is_true_def)
qed

lemma controlled_json_canonical:
  "canonical (controlled_json (controlled_policy seed))"
proof -
  have "sorted [''context_length'', ''disable_cuda_graph'', ''disable_radix_cache'',
      ''enable_deterministic_inference'', ''incremental_streaming_output'', ''random_seed'',
      ''schema_version'', ''speculative_disable_overlap_schedule'',
      ''target_reference_disable_overlap_schedule'']"
    by code_simp
  then show ?thesis by (simp add: controlled_json_def controlled_policy_def)
qed

lemma graph_json_canonical:
  assumes "list_all canonical (gp_graph_batch_sizes p)"
    "p = (graph_policy native seed)\<lparr>gp_graph_batch_sizes := gp_graph_batch_sizes p\<rparr>"
  shows "canonical (graph_json p)"
proof -
  have "sorted [''blocking_d2h_allowed'', ''context_length'', ''disable_cuda_graph'', ''disable_radix_cache'',
      ''eager_fallback_allowed'', ''enable_deterministic_inference'', ''fixed_addresses_required'',
      ''graph_batch_sizes'', ''host_synchronization_allowed'', ''incremental_streaming_output'', ''kind'',
      ''native_runtime_release_capability_sha256'', ''protocol_sha256'', ''random_seed'',
      ''schema_version'', ''speculative_disable_overlap_schedule'',
      ''target_reference_disable_overlap_schedule'']"
    by code_simp
  then show ?thesis
    by (subst assms(2)) (simp add: graph_json_def graph_policy_def assms(1))
qed

section \<open>Properties\<close>

text \<open>
  A controlled execution policy has a digest exactly when it is the registered policy with a
  non-negative seed, and the digest then identifies the policy: two policies with the same digest
  are equal unless SHA-256 collides on them.
\<close>

theorem execution_policy_digest_identifies:
  assumes "controlled_sha256 p = Inr h" "controlled_sha256 q = Inr h"
    and "\<not> collide (controlled_json p) (controlled_json q)"
  shows "p = q \<and> (\<exists>seed. 0 \<le> seed \<and> p = controlled_policy seed)"
proof -
  have "controlled_validate p = Inr ()" "controlled_validate q = Inr ()"
    using assms by (auto simp: controlled_sha256_def controlled_to_dict_def)
  then obtain s t where s: "0 \<le> s" "p = controlled_policy s" and t: "q = controlled_policy t"
    by (auto simp: controlled_validate_iff)
  have "content_sha256 (controlled_json p) = content_sha256 (controlled_json q)"
    using assms(1,2) by (auto simp: controlled_sha256_def controlled_to_dict_def)
  then have "controlled_json p = controlled_json q"
    using content_sha256_inj controlled_json_canonical assms(3) s(2) t by blast
  then have "s = t" by (simp add: s t controlled_json_def controlled_policy_def)
  with s t show ?thesis by blast
qed

theorem execution_policy_digest_identifies_witness:
  "\<exists>h. controlled_sha256 (controlled_policy 1) = Inr h
     \<and> (\<exists>seed. 0 \<le> seed \<and> controlled_policy 1 = controlled_policy seed)"
proof -
  have v: "controlled_validate (controlled_policy 1) = Inr ()" by code_simp
  obtain h where h: "controlled_sha256 (controlled_policy 1) = Inr h"
    using v by (simp add: controlled_sha256_def controlled_to_dict_def)
  from execution_policy_digest_identifies [OF h h] h show ?thesis by (simp add: collide_def)
qed

text \<open>
  A live server passes the comparison with a policy exactly when it reports every registered
  field with the registered value and type; a target reference must report overlap scheduling
  disabled and a speculative endpoint must report it enabled.
\<close>

theorem server_info_matches_policy:
  assumes "0 \<le> seed"
  shows "controlled_validate_server_info (controlled_policy seed) (JObj info) role = Inr () \<longleftrightarrow>
    dget info ''context_length'' = Some (JInt 40960) \<and> dget info ''random_seed'' = Some (JInt seed)
    \<and> dget info ''disable_radix_cache'' = Some (JBool True)
    \<and> dget info ''disable_cuda_graph'' = Some (JBool True)
    \<and> dget info ''disable_overlap_schedule'' = Some (JBool (role = Target_Reference))
    \<and> dget info ''enable_deterministic_inference'' = Some (JBool False)
    \<and> dget info ''incremental_streaming_output'' = Some (JBool False)"
proof -
  have v: "controlled_validate (controlled_policy seed) = Inr ()"
    using assms by (auto simp: controlled_validate_iff)
  show ?thesis
    by (cases role) (simp_all add: controlled_validate_server_info_def controlled_server_info_fields_def
        controlled_overlap_disabled_def v, simp_all add: controlled_policy_def)
qed

theorem server_info_matches_policy_witness:
  "controlled_validate_server_info (controlled_policy 1) (JObj
     [(''context_length'', JInt 40960), (''random_seed'', JInt 1), (''disable_radix_cache'', JBool True),
      (''disable_cuda_graph'', JBool True), (''disable_overlap_schedule'', JBool False),
      (''enable_deterministic_inference'', JBool False), (''incremental_streaming_output'', JBool False)])
     Speculative = Inr ()"
  using server_info_matches_policy [of 1] by simp

text \<open>
  The graph policy is not identified by its digest in the same way. Its validator compares the
  batch sizes with \<open>(1,)\<close> without a type test, so a policy whose batch size is the Boolean
  \<open>True\<close> is accepted beside the registered one, with a different canonical encoding.
\<close>

theorem graph_policy_accepts_boolean_batch_size:
  "\<exists>native p q. graph_validate native p = Inr () \<and> graph_validate native q = Inr ()
     \<and> p = graph_policy native 1 \<and> q = p\<lparr>gp_graph_batch_sizes := [JBool True]\<rparr>
     \<and> dumps (graph_json p) \<noteq> dumps (graph_json q)"
proof -
  let ?n = "replicate 64 CHR ''a''"
  let ?p = "graph_policy ?n 1"
  let ?q = "?p\<lparr>gp_graph_batch_sizes := [JBool True]\<rparr>"
  have hex: "is_lower_hex 64 ?n" by code_simp
  have p: "graph_validate ?n ?p = Inr ()"
    using hex by (simp add: graph_validate_def graph_policy_def is_true_def equals_one_def)
  have q: "graph_validate ?n ?q = Inr ()"
    using hex by (simp add: graph_validate_def graph_policy_def is_true_def equals_one_def)
  have "canonical (graph_json ?p)" "canonical (graph_json ?q)"
    by (rule graph_json_canonical [of _ ?n 1]; simp add: graph_policy_def)+
  moreover have "graph_json ?p \<noteq> graph_json ?q" by (simp add: graph_json_def graph_policy_def)
  ultimately have "dumps (graph_json ?p) \<noteq> dumps (graph_json ?q)" using dumps_inj by blast
  with p q show ?thesis by blast
qed

end
