(* ===== verification/Config.thy ===== *)
theory Config
  imports Topology Execution PyFloat
begin

text \<open>
  The strict run configuration of \<open>config/schema.py\<close>. A \<open>Literal\<close> of the schema is a datatype, the
  other field constraints are checked first (\<open>*_fields\<close>, the part the schema library does from the
  declarations), then the validator of the class runs (\<open>validate_*\<close>). \<open>native\<close> is the digest of the
  native release capability, a constant of \<open>runtime/readiness.py\<close>.
\<close>

datatype run_method = Target_Only | Static | Tts | L0 | Onlinespec_Ogd | Onlinespec_Opt | Onlinespec_Ens

fun method_text :: "run_method \<Rightarrow> string" where
  "method_text Target_Only = ''target_only''"
| "method_text Static = ''static''"
| "method_text Tts = ''tts''"
| "method_text L0 = ''l0''"
| "method_text Onlinespec_Ogd = ''onlinespec_ogd''"
| "method_text Onlinespec_Opt = ''onlinespec_opt''"
| "method_text Onlinespec_Ens = ''onlinespec_ens''"

text \<open>A failed field constraint.\<close>

definition field :: "string \<Rightarrow> bool \<Rightarrow> unit res" where
  "field name ok = raise_if (\<not> ok) (ValueError (''invalid field '' @ name))"

definition opt_field :: "string \<Rightarrow> ('a \<Rightarrow> bool) \<Rightarrow> 'a option \<Rightarrow> unit res" where
  "opt_field name ok v = field name (case v of None \<Rightarrow> True | Some x \<Rightarrow> ok x)"

definition pf_pos :: "pyfloat \<Rightarrow> bool" where
  "pf_pos x \<longleftrightarrow> isfinite x \<and> pf_lt (Fin 0) x"

definition pf_nonneg :: "pyfloat \<Rightarrow> bool" where
  "pf_nonneg x \<longleftrightarrow> isfinite x \<and> pf_le (Fin 0) x"

definition pf_open_unit :: "pyfloat \<Rightarrow> bool" where
  "pf_open_unit x \<longleftrightarrow> pf_pos x \<and> pf_lt x (Fin 1)"

section \<open>The model pair\<close>

datatype algorithm = DFLASH | DSPARK | EAGLE | EAGLE3 | NEXTN

fun algorithm_text :: "algorithm \<Rightarrow> string" where
  "algorithm_text DFLASH = ''DFLASH''"
| "algorithm_text DSPARK = ''DSPARK''"
| "algorithm_text EAGLE = ''EAGLE''"
| "algorithm_text EAGLE3 = ''EAGLE3''"
| "algorithm_text NEXTN = ''NEXTN''"

datatype nextn_mtp_mode = External_Drafter | Built_In_Mtp

record model_pair =
  mp_key :: string
  mp_target :: string
  mp_drafter :: string
  mp_target_revision :: string
  mp_drafter_revision :: string
  mp_algorithm :: algorithm
  mp_max_context_length :: int
  mp_draft_depth :: int
  mp_nextn_mtp_mode :: nextn_mtp_mode
  mp_target_snapshot_sha256 :: "string option"
  mp_mtp_component_sha256 :: "string option"

definition model_pair_fields :: "model_pair \<Rightarrow> unit res" where
  "model_pair_fields m =
     rbind (field ''target_revision'' (is_lower_hex 40 (mp_target_revision m))) (\<lambda>_.
     rbind (field ''drafter_revision'' (is_lower_hex 40 (mp_drafter_revision m))) (\<lambda>_.
     rbind (field ''max_context_length'' (1 \<le> mp_max_context_length m)) (\<lambda>_.
     rbind (field ''draft_depth'' (1 \<le> mp_draft_depth m)) (\<lambda>_.
     rbind (opt_field ''target_snapshot_sha256'' (is_lower_hex 64) (mp_target_snapshot_sha256 m)) (\<lambda>_.
     opt_field ''mtp_component_sha256'' (is_lower_hex 64) (mp_mtp_component_sha256 m))))))"

definition validate_nextn_model_source :: "model_pair \<Rightarrow> model_pair res" where
  "validate_nextn_model_source m =
     rbind (if mp_nextn_mtp_mode m = Built_In_Mtp then
         raise_if (mp_algorithm m \<noteq> NEXTN \<or> mp_target m \<noteq> mp_drafter m
             \<or> mp_target_revision m \<noteq> mp_drafter_revision m
             \<or> mp_target_snapshot_sha256 m = None \<or> mp_mtp_component_sha256 m = None
             \<or> mp_target_snapshot_sha256 m = mp_mtp_component_sha256 m)
           (ValueError ''built-in NEXTN requires one frozen target snapshot and a distinct embedded MTP component identity'')
       else raise_if (mp_target_snapshot_sha256 m \<noteq> None \<or> mp_mtp_component_sha256 m \<noteq> None)
         (ValueError ''external drafter mode cannot carry a built-in MTP identity'')) (\<lambda>_.
     rbind (raise_if (mp_algorithm m \<noteq> NEXTN \<and> mp_nextn_mtp_mode m \<noteq> External_Drafter)
       (ValueError ''built-in MTP mode is defined only for NEXTN'')) (\<lambda>_.
     Inr m))"

section \<open>The optimizer\<close>

datatype optimizer_name =
  Adam | Adamw | Sgd | Sgdm | Nag | Muon | Lion | Chronobelief | No_Optimizer

fun optimizer_text :: "optimizer_name \<Rightarrow> string" where
  "optimizer_text Adam = ''adam''"
| "optimizer_text Adamw = ''adamw''"
| "optimizer_text Sgd = ''sgd''"
| "optimizer_text Sgdm = ''sgdm''"
| "optimizer_text Nag = ''nag''"
| "optimizer_text Muon = ''muon''"
| "optimizer_text Lion = ''lion''"
| "optimizer_text Chronobelief = ''chronobelief''"
| "optimizer_text No_Optimizer = ''none''"

datatype lr_schedule = Constant | Inverse_Sqrt_Published_Update | Cosine_To_Zero

record optimizer_config =
  oc_name :: optimizer_name
  oc_learning_rate :: pyfloat
  oc_weight_decay :: pyfloat
  oc_beta1 :: pyfloat
  oc_beta2 :: pyfloat
  oc_epsilon :: pyfloat
  oc_grad_clip :: "pyfloat option"
  oc_momentum :: "pyfloat option"
  oc_muon_ns_steps :: "int option"
  oc_muon_auxiliary_learning_rate :: "pyfloat option"
  oc_muon_auxiliary_weight_decay :: "pyfloat option"
  oc_schedule :: lr_schedule
  oc_schedule_total_published_updates :: "int option"

definition default_beta1 :: pyfloat where
  "default_beta1 = fl (9 / 10)"

definition default_beta2 :: pyfloat where
  "default_beta2 = fl (999 / 1000)"

definition default_epsilon :: pyfloat where
  "default_epsilon = fl (1 / 10 ^ 8)"

definition optimizer_fields :: "optimizer_config \<Rightarrow> unit res" where
  "optimizer_fields c =
     rbind (field ''learning_rate'' (pf_nonneg (oc_learning_rate c))) (\<lambda>_.
     rbind (field ''weight_decay'' (pf_nonneg (oc_weight_decay c))) (\<lambda>_.
     rbind (field ''beta1'' (pf_open_unit (oc_beta1 c))) (\<lambda>_.
     rbind (field ''beta2'' (pf_open_unit (oc_beta2 c))) (\<lambda>_.
     rbind (field ''epsilon'' (pf_pos (oc_epsilon c))) (\<lambda>_.
     rbind (opt_field ''grad_clip'' pf_pos (oc_grad_clip c)) (\<lambda>_.
     rbind (opt_field ''momentum'' pf_open_unit (oc_momentum c)) (\<lambda>_.
     rbind (opt_field ''muon_ns_steps'' (\<lambda>n. 1 \<le> n \<and> n \<le> 20) (oc_muon_ns_steps c)) (\<lambda>_.
     rbind (opt_field ''muon_auxiliary_learning_rate'' pf_pos (oc_muon_auxiliary_learning_rate c)) (\<lambda>_.
     rbind (opt_field ''muon_auxiliary_weight_decay'' pf_nonneg (oc_muon_auxiliary_weight_decay c)) (\<lambda>_.
     opt_field ''schedule_total_published_updates'' (\<lambda>n. 2 \<le> n)
       (oc_schedule_total_published_updates c)))))))))))"

definition validate_optimizer :: "optimizer_config \<Rightarrow> optimizer_config res" where
  "validate_optimizer c =
     rbind (if oc_name c = No_Optimizer then
         raise_if (oc_learning_rate c \<noteq> Fin 0 \<or> oc_weight_decay c \<noteq> Fin 0)
           (ValueError ''optimizer=none requires zero lr and weight decay'')
       else raise_if (pf_le (oc_learning_rate c) (Fin 0))
         (ValueError ''an enabled optimizer requires a positive learning rate'')) (\<lambda>_.
     rbind (raise_if (oc_name c \<notin> {Adamw, Sgdm, Nag, Muon, Lion, Chronobelief} \<and> oc_weight_decay c \<noteq> Fin 0)
       (ValueError ''weight_decay is unsupported for this optimizer'')) (\<lambda>_.
     rbind (raise_if (oc_name c \<in> {Sgdm, Nag, Muon} \<and> oc_momentum c = None)
       (ValueError (optimizer_text (oc_name c) @ '' requires explicit momentum''))) (\<lambda>_.
     rbind (raise_if (oc_name c \<notin> {Sgdm, Nag, Muon} \<and> oc_momentum c \<noteq> None)
       (ValueError (''momentum is not a parameter of optimizer='' @ optimizer_text (oc_name c)))) (\<lambda>_.
     rbind (raise_if (oc_name c \<in> {Sgd, Sgdm, Nag, No_Optimizer}
         \<and> (oc_beta1 c \<noteq> default_beta1 \<or> oc_beta2 c \<noteq> default_beta2 \<or> oc_epsilon c \<noteq> default_epsilon))
       (ValueError (''unused Adam fields must stay canonical for optimizer='' @ optimizer_text (oc_name c)))) (\<lambda>_.
     rbind (raise_if (oc_name c = Lion \<and> oc_epsilon c \<noteq> default_epsilon)
       (ValueError ''unused epsilon must stay canonical for optimizer=lion'')) (\<lambda>_.
     rbind (raise_if (oc_name c = Muon \<and> oc_muon_ns_steps c = None)
       (ValueError ''muon requires explicit muon_ns_steps'')) (\<lambda>_.
     rbind (raise_if (oc_name c \<noteq> Muon \<and> oc_muon_ns_steps c \<noteq> None)
       (ValueError ''muon_ns_steps is only defined for optimizer=muon'')) (\<lambda>_.
     rbind (raise_if (oc_name c = Muon
         \<and> (oc_muon_auxiliary_learning_rate c = None \<or> oc_muon_auxiliary_weight_decay c = None))
       (ValueError ''muon requires explicit auxiliary AdamW lr and weight decay'')) (\<lambda>_.
     rbind (raise_if (oc_name c \<noteq> Muon
         \<and> (oc_muon_auxiliary_learning_rate c \<noteq> None \<or> oc_muon_auxiliary_weight_decay c \<noteq> None))
       (ValueError ''Muon auxiliary AdamW fields require optimizer=muon'')) (\<lambda>_.
     rbind (raise_if ((oc_schedule c = Cosine_To_Zero) \<noteq> (oc_schedule_total_published_updates c \<noteq> None))
       (ValueError ''cosine_to_zero requires exactly one published-update horizon'')) (\<lambda>_.
     Inr c)))))))))))"

section \<open>The adaptation\<close>

definition lora_ranks :: "int list" where
  "lora_ranks = [1, 2, 4, 8, 16, 32, 64]"

definition layer_scopes :: "string list" where
  "layer_scopes = [''last1'', ''last3'', ''last5'', ''all'']"

definition dspark_hybrid_scopes :: "string list" where
  "dspark_hybrid_scopes = [''last1_native_heads'', ''last3_native_heads'', ''last5_native_heads'']"

datatype weight_update_mode = Lora | Full

datatype reset_scope = Request_Reset | Cohort_Reset

datatype admission_policy = Serialized_Native_Scheduler | Cohort_Batching

datatype head_policy = Frozen_Heads | Full_Heads

datatype teacher_row_policy = Update_Round | Quota_Shadow

datatype verification_mode = Native_Scheduler | Fixed_Budget

record adaptation_config =
  ac_weight_update_mode :: weight_update_mode
  ac_parameter_scope :: string
  ac_reset_scope :: reset_scope
  ac_request_admission_policy :: admission_policy
  ac_adaptation_group_id :: string
  ac_optimizer :: optimizer_config
  ac_rank :: "int option"
  ac_lora_alpha :: "int option"
  ac_native_head_policy :: head_policy
  ac_stride :: int
  ac_max_in_flight :: int
  ac_canvas_tokens :: int
  ac_loss_position_decay :: pyfloat
  ac_extra_logical_delay :: int
  ac_teacher_row_policy :: teacher_row_policy
  ac_verification_mode :: verification_mode
  ac_fixed_verification_budget :: "int option"
  ac_confidence_loss_weight :: "pyfloat option"
  ac_chronobelief_release_capability_sha256 :: "string option"
  ac_chronobelief_gpu_proof_sha256 :: "string option"
  ac_eagle3_e0_execution_authority_sha256 :: "string option"
  ac_eagle3_compatibility_authority_sha256 :: "string option"
  ac_eagle3_model_selector_sha256 :: "string option"
  ac_eagle3_native_gpu_proof_sha256 :: "string option"
  ac_eagle3_qualification_compatibility_authority_sha256 :: "string option"
  ac_eagle3_qualification_model_selector_sha256 :: "string option"

definition adaptation_fields :: "adaptation_config \<Rightarrow> unit res" where
  "adaptation_fields a =
     rbind (field ''parameter_scope''
       (1 \<le> length (ac_parameter_scope a) \<and> length (ac_parameter_scope a) \<le> 64)) (\<lambda>_.
     rbind (field ''adaptation_group_id''
       (1 \<le> length (ac_adaptation_group_id a) \<and> length (ac_adaptation_group_id a) \<le> 128)) (\<lambda>_.
     rbind (opt_field ''rank'' (\<lambda>n. 1 \<le> n) (ac_rank a)) (\<lambda>_.
     rbind (opt_field ''lora_alpha'' (\<lambda>n. 1 \<le> n) (ac_lora_alpha a)) (\<lambda>_.
     rbind (field ''stride'' (1 \<le> ac_stride a)) (\<lambda>_.
     rbind (field ''max_in_flight'' (ac_max_in_flight a = 1)) (\<lambda>_.
     rbind (field ''canvas_tokens'' (2 \<le> ac_canvas_tokens a)) (\<lambda>_.
     rbind (field ''loss_position_decay''
       (pf_pos (ac_loss_position_decay a) \<and> pf_le (ac_loss_position_decay a) (Fin 1))) (\<lambda>_.
     rbind (field ''extra_logical_delay'' (0 \<le> ac_extra_logical_delay a)) (\<lambda>_.
     rbind (opt_field ''fixed_verification_budget'' (\<lambda>n. 1 \<le> n) (ac_fixed_verification_budget a)) (\<lambda>_.
     rbind (opt_field ''confidence_loss_weight'' pf_nonneg (ac_confidence_loss_weight a)) (\<lambda>_.
     check_all (\<lambda>h. opt_field ''sha256'' (is_lower_hex 64) h)
       [ac_chronobelief_release_capability_sha256 a, ac_chronobelief_gpu_proof_sha256 a,
        ac_eagle3_e0_execution_authority_sha256 a, ac_eagle3_compatibility_authority_sha256 a,
        ac_eagle3_model_selector_sha256 a, ac_eagle3_native_gpu_proof_sha256 a,
        ac_eagle3_qualification_compatibility_authority_sha256 a,
        ac_eagle3_qualification_model_selector_sha256 a])))))))))))"

definition validate_mode :: "string \<Rightarrow> adaptation_config \<Rightarrow> adaptation_config res" where
  "validate_mode native a =
     rbind (raise_if (ac_request_admission_policy a
         \<noteq> (if ac_reset_scope a = Request_Reset then Serialized_Native_Scheduler else Cohort_Batching))
       (ValueError ''adaptation reset scope and request admission policy disagree'')) (\<lambda>_.
     rbind (if ac_weight_update_mode a = Full then
         raise_if (ac_rank a \<noteq> None \<or> ac_lora_alpha a \<noteq> None)
           (ValueError ''full updates require rank and lora_alpha to be null'')
       else raise_if (ac_rank a \<notin> Some ` set lora_ranks \<or> ac_lora_alpha a \<noteq> ac_rank a)
         (ValueError ''LoRA requires a registered rank and alpha/r=1'')) (\<lambda>_.
     rbind (raise_if (oc_name (ac_optimizer a) = No_Optimizer)
       (ValueError ''adaptation requires an enabled optimizer'')) (\<lambda>_.
     rbind (raise_if ((ac_verification_mode a = Fixed_Budget) \<noteq> (ac_fixed_verification_budget a \<noteq> None))
       (ValueError ''fixed-budget verification requires exactly one budget'')) (\<lambda>_.
     rbind (if oc_name (ac_optimizer a) = Chronobelief then
         raise_if (ac_chronobelief_release_capability_sha256 a \<noteq> Some native
             \<or> ac_chronobelief_gpu_proof_sha256 a = None)
           (ValueError ''ChronoBelief requires source capability and exact GPU proof'')
       else raise_if (ac_chronobelief_release_capability_sha256 a \<noteq> None
           \<or> ac_chronobelief_gpu_proof_sha256 a \<noteq> None)
         (ValueError ''ChronoBelief GPU authority is forbidden for another optimizer'')) (\<lambda>_.
     Inr a)))))"

record online_spec_config =
  os_projection_radius :: "pyfloat option"
  os_additional_learning_rates :: "pyfloat list"
  os_hedge_learning_rate :: "pyfloat option"

definition online_spec_fields :: "online_spec_config \<Rightarrow> unit res" where
  "online_spec_fields c =
     rbind (opt_field ''projection_radius'' pf_pos (os_projection_radius c)) (\<lambda>_.
     rbind (field ''additional_learning_rates'' (list_all isfinite (os_additional_learning_rates c))) (\<lambda>_.
     opt_field ''hedge_learning_rate'' pf_pos (os_hedge_learning_rate c)))"

definition validate_finite_grid :: "online_spec_config \<Rightarrow> online_spec_config res" where
  "validate_finite_grid c =
     (let rates = os_additional_learning_rates c in
      rbind (raise_if (\<exists>rate \<in> set rates. pf_le rate (Fin 0))
        (ValueError ''OnlineSPEC learning rates must be positive'')) (\<lambda>_.
      rbind (raise_if (\<not> distinct rates \<or> sort rates \<noteq> rates)
        (ValueError ''OnlineSPEC additional learning rates must be unique and increasing'')) (\<lambda>_.
      Inr c)))"

section \<open>The runtime\<close>

datatype cuda_graph_mode = Graph_Disabled | Fixed_Address_Publication

datatype runtime_capability = Single_Rank_Capability | Patched_Two_Gpu

datatype stream_priority = Default_Priority | High_Priority

record runtime_config =
  rn_sampling_profile_sha256 :: string
  rn_execution_policy_sha256 :: string
  rn_context_length :: int
  rn_random_seed :: int
  rn_disable_radix_cache :: bool
  rn_cuda_graph_mode :: cuda_graph_mode
  rn_disable_cuda_graph :: bool
  rn_cuda_graph_batch_sizes :: "int list"
  rn_native_graph_release_capability_sha256 :: "string option"
  rn_target_reference_disable_overlap_schedule :: bool
  rn_speculative_disable_overlap_schedule :: bool
  rn_enable_deterministic_inference :: bool
  rn_incremental_streaming_output :: bool
  rn_speculation_enabled :: bool
  rn_tensor_parallel_size :: int
  rn_data_parallel_size :: int
  rn_tp_rank :: int
  rn_dp_rank :: int
  rn_node_count :: int
  rn_node_rank :: int
  rn_device_identity :: string
  rn_rendezvous_identity :: string
  rn_router_identity :: string
  rn_clock_identity :: string
  rn_process_group_backend :: string
  rn_distributed_runtime_capability :: runtime_capability
  rn_distributed_release_capability_sha256 :: "string option"
  rn_distributed_capability_receipt_sha256 :: "string option"
  rn_speculative_num_draft_tokens :: int
  rn_speculative_eagle_topk :: "int option"
  rn_use_rejection_sampling :: bool
  rn_max_running_requests :: int
  rn_adaptation_microbatch_size :: int
  rn_adaptation_publication_coalescing :: int
  rn_adaptation_stream_priority :: stream_priority
  rn_prefill_decode_disaggregation :: bool
  rn_two_batch_overlap :: bool

definition runtime_fields :: "runtime_config \<Rightarrow> unit res" where
  "runtime_fields r =
     check_all (\<lambda>(name, ok). field name ok)
       [(''sampling_profile_sha256'', is_lower_hex 64 (rn_sampling_profile_sha256 r)),
        (''execution_policy_sha256'', is_lower_hex 64 (rn_execution_policy_sha256 r)),
        (''context_length'', rn_context_length r = 40960),
        (''random_seed'', rn_random_seed r = 1),
        (''disable_radix_cache'', rn_disable_radix_cache r),
        (''native_graph_release_capability_sha256'',
           case rn_native_graph_release_capability_sha256 r of None \<Rightarrow> True | Some h \<Rightarrow> is_lower_hex 64 h),
        (''target_reference_disable_overlap_schedule'', rn_target_reference_disable_overlap_schedule r),
        (''speculative_disable_overlap_schedule'', \<not> rn_speculative_disable_overlap_schedule r),
        (''enable_deterministic_inference'', \<not> rn_enable_deterministic_inference r),
        (''incremental_streaming_output'', \<not> rn_incremental_streaming_output r),
        (''tensor_parallel_size'', 1 \<le> rn_tensor_parallel_size r \<and> rn_tensor_parallel_size r \<le> 2),
        (''data_parallel_size'', 1 \<le> rn_data_parallel_size r \<and> rn_data_parallel_size r \<le> 2),
        (''tp_rank'', 0 \<le> rn_tp_rank r), (''dp_rank'', 0 \<le> rn_dp_rank r),
        (''node_count'', 1 \<le> rn_node_count r), (''node_rank'', 0 \<le> rn_node_rank r),
        (''device_identity'', rn_device_identity r \<noteq> []),
        (''rendezvous_identity'', rn_rendezvous_identity r \<noteq> []),
        (''router_identity'', rn_router_identity r \<noteq> []),
        (''clock_identity'', rn_clock_identity r \<noteq> []),
        (''process_group_backend'', rn_process_group_backend r \<in> {''nccl'', ''gloo'', ''none''}),
        (''distributed_release_capability_sha256'',
           case rn_distributed_release_capability_sha256 r of None \<Rightarrow> True | Some h \<Rightarrow> is_lower_hex 64 h),
        (''distributed_capability_receipt_sha256'',
           case rn_distributed_capability_receipt_sha256 r of None \<Rightarrow> True | Some h \<Rightarrow> is_lower_hex 64 h),
        (''speculative_num_draft_tokens'', 2 \<le> rn_speculative_num_draft_tokens r),
        (''speculative_eagle_topk'', case rn_speculative_eagle_topk r of None \<Rightarrow> True | Some k \<Rightarrow> 1 \<le> k),
        (''max_running_requests'', 1 \<le> rn_max_running_requests r),
        (''adaptation_microbatch_size'', rn_adaptation_microbatch_size r \<in> {1, 2, 4, 8}),
        (''adaptation_publication_coalescing'', rn_adaptation_publication_coalescing r \<in> {1, 2, 4, 8}),
        (''prefill_decode_disaggregation'', \<not> rn_prefill_decode_disaggregation r),
        (''two_batch_overlap'', \<not> rn_two_batch_overlap r)]"

text \<open>The two execution policies a runtime may name, built from its own switches.\<close>

definition runtime_controlled_policy :: "runtime_config \<Rightarrow> controlled_execution_policy" where
  "runtime_controlled_policy r =
     (controlled_policy (rn_random_seed r))
       \<lparr>ep_context_length := JInt (rn_context_length r),
        ep_disable_radix_cache := JBool (rn_disable_radix_cache r),
        ep_disable_cuda_graph := JBool (rn_disable_cuda_graph r),
        ep_target_reference_disable_overlap_schedule := JBool (rn_target_reference_disable_overlap_schedule r),
        ep_speculative_disable_overlap_schedule := JBool (rn_speculative_disable_overlap_schedule r),
        ep_enable_deterministic_inference := JBool (rn_enable_deterministic_inference r),
        ep_incremental_streaming_output := JBool (rn_incremental_streaming_output r)\<rparr>"

definition runtime_graph_policy :: "string \<Rightarrow> runtime_config \<Rightarrow> graph_execution_policy" where
  "runtime_graph_policy capability r =
     (graph_policy capability (rn_random_seed r))
       \<lparr>gp_context_length := JInt (rn_context_length r),
        gp_disable_radix_cache := JBool (rn_disable_radix_cache r),
        gp_disable_cuda_graph := JBool (rn_disable_cuda_graph r),
        gp_target_reference_disable_overlap_schedule := JBool (rn_target_reference_disable_overlap_schedule r),
        gp_speculative_disable_overlap_schedule := JBool (rn_speculative_disable_overlap_schedule r),
        gp_enable_deterministic_inference := JBool (rn_enable_deterministic_inference r),
        gp_incremental_streaming_output := JBool (rn_incremental_streaming_output r),
        gp_graph_batch_sizes := map JInt (rn_cuda_graph_batch_sizes r)\<rparr>"

definition runtime_policy_sha256 :: "string \<Rightarrow> runtime_config \<Rightarrow> string res" where
  "runtime_policy_sha256 native r =
     (if rn_cuda_graph_mode r = Graph_Disabled then
        rbind (raise_if (\<not> rn_disable_cuda_graph r \<or> rn_native_graph_release_capability_sha256 r \<noteq> None)
          (ValueError ''disabled CUDA graph mode cannot claim graph capability'')) (\<lambda>_.
        controlled_sha256 (runtime_controlled_policy r))
      else
        rbind (raise_if (rn_disable_cuda_graph r
            \<or> rn_native_graph_release_capability_sha256 r \<noteq> Some native)
          (ValueError ''fixed-address CUDA graph mode lacks source capability'')) (\<lambda>_.
        graph_sha256 native (runtime_graph_policy native r)))"

definition validate_topology :: "string \<Rightarrow> runtime_config \<Rightarrow> runtime_config res" where
  "validate_topology native r =
     rbind (raise_if (rn_cuda_graph_batch_sizes r \<noteq> [1])
       (ValueError ''runtime CUDA graph batch sizes are not registered'')) (\<lambda>_.
     rbind (runtime_policy_sha256 native r) (\<lambda>policy_sha256.
     rbind (raise_if (rn_execution_policy_sha256 r \<noteq> policy_sha256)
       (ValueError ''runtime execution-policy identity mismatch'')) (\<lambda>_.
     rbind (raise_if (rn_tensor_parallel_size r \<le> rn_tp_rank r)
       (ValueError ''tp_rank is outside tensor_parallel_size'')) (\<lambda>_.
     rbind (raise_if (rn_data_parallel_size r \<le> rn_dp_rank r)
       (ValueError ''dp_rank is outside data_parallel_size'')) (\<lambda>_.
     rbind (raise_if (rn_node_count r \<le> rn_node_rank r)
       (ValueError ''node_rank is outside node_count'')) (\<lambda>_.
     rbind (registered_runtime_topology_mode (rn_tensor_parallel_size r) (rn_data_parallel_size r)
         (rn_node_count r)) (\<lambda>topology_mode.
     rbind (raise_if (rn_node_rank r \<noteq> 0)
       (ValueError ''registered runtime ranks must remain on the local host'')) (\<lambda>_.
     rbind (raise_if (1 < rn_data_parallel_size r \<and> rn_router_identity r = ''single-replica'')
       (ValueError ''DP replicas require an explicit sticky router identity'')) (\<lambda>_.
     rbind (raise_if (rn_prefill_decode_disaggregation r \<or> rn_two_batch_overlap r)
       (ValueError ''unregistered serving overlap mode is forbidden'')) (\<lambda>_.
     rbind (if 1 < rn_tensor_parallel_size r * rn_data_parallel_size r then
         rbind (raise_if (rn_distributed_runtime_capability r \<noteq> Patched_Two_Gpu)
           (ValueError ''distributed topology requires patched_two_gpu_v1 capability'')) (\<lambda>_.
         (case rn_distributed_release_capability_sha256 r of
            None \<Rightarrow> Inl (ValueError ''distributed topology requires a source-owned release capability'')
          | Some claimed \<Rightarrow>
              rbind (raise_if (rn_distributed_capability_receipt_sha256 r = None)
                (ValueError ''distributed topology requires a runtime-envelope receipt'')) (\<lambda>_.
              rbind (require_release_capability topology_mode claimed) (\<lambda>capability.
              raise_if (rc_process_group_backend capability \<noteq> rn_process_group_backend r)
                (ValueError ''runtime process-group backend differs from release capability'')))))
       else raise_if (rn_distributed_runtime_capability r \<noteq> Single_Rank_Capability
           \<or> rn_distributed_release_capability_sha256 r \<noteq> None
           \<or> rn_distributed_capability_receipt_sha256 r \<noteq> None)
         (ValueError ''single-rank runs cannot claim a distributed runtime capability'')) (\<lambda>_.
     Inr r)))))))))))"

section \<open>The run\<close>

record run_config =
  cf_schema_version :: int
  cf_method :: run_method
  cf_model :: model_pair
  cf_runtime :: runtime_config
  cf_adaptation :: "adaptation_config option"
  cf_online_spec :: "online_spec_config option"
  cf_tenant_id :: string

definition validate_backend_scope :: "run_config \<Rightarrow> adaptation_config \<Rightarrow> unit res" where
  "validate_backend_scope c a =
     (let algorithm = mp_algorithm (cf_model c);
          scope = ac_parameter_scope a;
          hybrid = scope \<in> set dspark_hybrid_scopes
      in
      rbind (raise_if (scope \<notin> (if algorithm = DSPARK then set layer_scopes \<union> set dspark_hybrid_scopes
            else set layer_scopes))
        (ValueError (algorithm_text algorithm @ '' parameter scope is not registered''))) (\<lambda>_.
      rbind (raise_if (ac_native_head_policy a \<noteq> (if hybrid then Full_Heads else Frozen_Heads))
        (ValueError ''DSpark hybrid scopes require Full W1/W2/acceptance; layer-only scopes freeze every native head'')) (\<lambda>_.
      rbind (raise_if (algorithm \<noteq> DSPARK \<and> (ac_verification_mode a \<noteq> Native_Scheduler
            \<or> ac_confidence_loss_weight a \<noteq> None))
        (ValueError ''DSpark verification/confidence fields are backend-owned'')) (\<lambda>_.
      rbind (if algorithm = DSPARK then
          rbind (raise_if (hybrid \<and> ac_confidence_loss_weight a = None)
            (ValueError ''composite DSpark candidates require confidence loss'')) (\<lambda>_.
          raise_if (\<not> hybrid \<and> ac_confidence_loss_weight a \<noteq> None)
            (ValueError ''layer-only DSpark keeps the confidence head frozen''))
        else Inr ()) (\<lambda>_.
      raise_if (algorithm \<in> {EAGLE, EAGLE3} \<and> rn_speculative_eagle_topk (cf_runtime c) \<noteq> Some 1)
        (ValueError ''adapted EAGLE/EAGLE3 currently requires topk=1''))))))"

definition validate_onlinespec :: "run_config \<Rightarrow> adaptation_config \<Rightarrow> unit res" where
  "validate_onlinespec c a =
     (case cf_online_spec c of
        None \<Rightarrow> Inl (ValueError ''OnlineSPEC baselines require online_spec state'')
      | Some spec \<Rightarrow>
         rbind (raise_if (oc_name (ac_optimizer a) \<noteq> Sgd)
           (ValueError ''OnlineSPEC baselines preserve their SGD update'')) (\<lambda>_.
         rbind (raise_if (oc_schedule (ac_optimizer a) \<noteq> Constant)
           (ValueError ''OnlineSPEC baselines preserve their constant schedule'')) (\<lambda>_.
         rbind (raise_if (rn_tensor_parallel_size (cf_runtime c) \<noteq> 1 \<or> rn_data_parallel_size (cf_runtime c) \<noteq> 1)
           (ValueError ''OnlineSPEC comparisons retain separate TP1/DP1 tuning'')) (\<lambda>_.
         rbind (raise_if (\<not> rn_use_rejection_sampling (cf_runtime c))
           (ValueError ''OnlineSPEC requires exact rejection sampling'')) (\<lambda>_.
         (if cf_method c = Onlinespec_Ens then
            let rates = oc_learning_rate (ac_optimizer a) # os_additional_learning_rates spec in
            rbind (raise_if (length rates < 2 \<or> sort rates \<noteq> rates)
              (ValueError ''OnlineSPEC Hedge requires an increasing multi-rate grid'')) (\<lambda>_.
            raise_if (os_hedge_learning_rate spec = None)
              (ValueError ''OnlineSPEC Hedge requires hedge_learning_rate''))
          else raise_if (os_additional_learning_rates spec \<noteq> [] \<or> os_hedge_learning_rate spec \<noteq> None)
            (ValueError ''ensemble fields are only valid for onlinespec_ens'')))))))"

definition validate_eagle3_authority :: "run_config \<Rightarrow> adaptation_config \<Rightarrow> unit res" where
  "validate_eagle3_authority c a =
     (let authority = [ac_eagle3_e0_execution_authority_sha256 a,
            ac_eagle3_compatibility_authority_sha256 a, ac_eagle3_model_selector_sha256 a,
            ac_eagle3_native_gpu_proof_sha256 a];
          qualification_pair = [ac_eagle3_qualification_compatibility_authority_sha256 a,
            ac_eagle3_qualification_model_selector_sha256 a];
          formal = None \<notin> set authority;
          qualification = None \<notin> set qualification_pair
      in if mp_algorithm (cf_model c) = EAGLE3 then
           rbind (raise_if (formal = qualification
               \<or> (\<not> formal \<and> (\<exists>v \<in> set authority. v \<noteq> None))
               \<or> (\<not> qualification \<and> (\<exists>v \<in> set qualification_pair. v \<noteq> None)))
             (ValueError ''adaptive EAGLE3 requires exactly one formal-E0 or eagle3_tp1 qualification authority'')) (\<lambda>_.
           raise_if (rn_tensor_parallel_size (cf_runtime c) \<noteq> 1 \<or> rn_data_parallel_size (cf_runtime c) \<noteq> 1
               \<or> rn_node_count (cf_runtime c) \<noteq> 1)
             (ValueError ''adaptive EAGLE3 E0 is registered only for TP1/DP1''))
         else raise_if (\<exists>v \<in> set (authority @ qualification_pair). v \<noteq> None)
           (ValueError ''EAGLE3 E0 authority is forbidden for another backend''))"

definition mechanism_defaults :: "run_config \<Rightarrow> bool" where
  "mechanism_defaults c \<longleftrightarrow> rn_adaptation_microbatch_size (cf_runtime c) = 1
     \<and> rn_adaptation_publication_coalescing (cf_runtime c) = 1
     \<and> rn_adaptation_stream_priority (cf_runtime c) = Default_Priority"

definition is_onlinespec :: "run_method \<Rightarrow> bool" where
  "is_onlinespec m \<longleftrightarrow> m \<in> {Onlinespec_Ogd, Onlinespec_Opt, Onlinespec_Ens}"

text \<open>The part of the validator that concerns the adapted methods.\<close>

definition validate_adapted :: "run_config \<Rightarrow> adaptation_config \<Rightarrow> unit res" where
  "validate_adapted c a =
     rbind (raise_if (mp_algorithm (cf_model c) \<notin> {DFLASH, DSPARK, EAGLE3, NEXTN})
       (ValueError (''the pinned schema-v3 patch has no signed native adaptation authority for ''
          @ algorithm_text (mp_algorithm (cf_model c))))) (\<lambda>_.
     rbind (validate_eagle3_authority c a) (\<lambda>_.
     rbind (validate_backend_scope c a) (\<lambda>_.
     (if is_onlinespec (cf_method c) then
        rbind (raise_if (\<not> mechanism_defaults c)
          (ValueError ''OnlineSPEC cannot inherit LightCone E4 mechanism tuning'')) (\<lambda>_.
        rbind (raise_if (ac_reset_scope a \<noteq> Cohort_Reset \<or> ac_request_admission_policy a \<noteq> Cohort_Batching)
          (ValueError ''OnlineSPEC requires cohort-persistent batched adaptation state'')) (\<lambda>_.
        validate_onlinespec c a))
      else
        rbind (raise_if (cf_online_spec c \<noteq> None)
          (ValueError ''online_spec state is only valid for OnlineSPEC methods'')) (\<lambda>_.
        rbind (raise_if (\<not> rn_use_rejection_sampling (cf_runtime c))
          (ValueError ''TTS/L0 requires exact full-vocabulary rejection sampling'')) (\<lambda>_.
        rbind (raise_if (cf_method c = Tts \<and> (ac_reset_scope a \<noteq> Request_Reset
              \<or> ac_request_admission_policy a \<noteq> Serialized_Native_Scheduler))
          (ValueError ''TTS requires request-reset serialized native adaptation'')) (\<lambda>_.
        rbind (raise_if (oc_name (ac_optimizer a) \<notin> {Adam, Adamw, Sgdm, Nag, Muon, Lion, Chronobelief})
          (ValueError ''unsupported optimizer for TTS/L0 speed tuning'')) (\<lambda>_.
        raise_if (ac_canvas_tokens a \<noteq> rn_speculative_num_draft_tokens (cf_runtime c))
          (ValueError ''adaptation canvas width must equal the speculative width'')))))))))"

definition validate_method_contract :: "run_config \<Rightarrow> run_config res" where
  "validate_method_contract c =
     (if cf_method c = Target_Only then
        rbind (raise_if (rn_speculation_enabled (cf_runtime c))
          (ValueError ''target_only requires speculation_enabled=false'')) (\<lambda>_.
        rbind (raise_if (cf_adaptation c \<noteq> None \<or> cf_online_spec c \<noteq> None)
          (ValueError ''target_only must not allocate adaptation state'')) (\<lambda>_.
        rbind (raise_if (\<not> mechanism_defaults c)
          (ValueError ''target_only cannot carry adaptation mechanism tuning'')) (\<lambda>_.
        Inr c)))
      else
        rbind (raise_if (\<not> rn_speculation_enabled (cf_runtime c))
          (ValueError ''speculative methods require speculation_enabled=true'')) (\<lambda>_.
        rbind (raise_if (rn_speculative_num_draft_tokens (cf_runtime c) \<noteq> mp_draft_depth (cf_model c) + 1)
          (ValueError (algorithm_text (mp_algorithm (cf_model c)) @ '' verify width must equal draft_depth + 1''))) (\<lambda>_.
        rbind (if mp_algorithm (cf_model c) \<in> {DFLASH, DSPARK, NEXTN} then
            raise_if (rn_speculative_eagle_topk (cf_runtime c) \<noteq> None)
              (ValueError ''speculative_eagle_topk is only valid for EAGLE backends'')
          else raise_if (rn_speculative_eagle_topk (cf_runtime c) = None)
            (ValueError ''EAGLE backends require speculative_eagle_topk'')) (\<lambda>_.
        (if cf_method c = Static then
           rbind (raise_if (cf_adaptation c \<noteq> None \<or> cf_online_spec c \<noteq> None)
             (ValueError ''static must not allocate adaptation state'')) (\<lambda>_.
           rbind (raise_if (\<not> mechanism_defaults c)
             (ValueError ''static cannot carry adaptation mechanism tuning'')) (\<lambda>_.
           Inr c))
         else (case cf_adaptation c of
             None \<Rightarrow> Inl (ValueError (''method='' @ method_text (cf_method c) @ '' requires adaptation configuration''))
           | Some a \<Rightarrow> rbind (validate_adapted c a) (\<lambda>_. Inr c)))))))"

text \<open>Building a run configuration: the nested models first, then the fields and the validator.\<close>

definition build_adaptation :: "string \<Rightarrow> adaptation_config \<Rightarrow> unit res" where
  "build_adaptation native a =
     rbind (optimizer_fields (ac_optimizer a)) (\<lambda>_.
     rbind (validate_optimizer (ac_optimizer a)) (\<lambda>_.
     rbind (adaptation_fields a) (\<lambda>_.
     rbind (validate_mode native a) (\<lambda>_. Inr ()))))"

definition build_run_config :: "string \<Rightarrow> run_config \<Rightarrow> run_config res" where
  "build_run_config native c =
     rbind (model_pair_fields (cf_model c)) (\<lambda>_.
     rbind (validate_nextn_model_source (cf_model c)) (\<lambda>_.
     rbind (runtime_fields (cf_runtime c)) (\<lambda>_.
     rbind (validate_topology native (cf_runtime c)) (\<lambda>_.
     rbind (case cf_adaptation c of None \<Rightarrow> Inr () | Some a \<Rightarrow> build_adaptation native a) (\<lambda>_.
     rbind (case cf_online_spec c of None \<Rightarrow> Inr ()
        | Some s \<Rightarrow> rbind (online_spec_fields s) (\<lambda>_. rbind (validate_finite_grid s) (\<lambda>_. Inr ()))) (\<lambda>_.
     rbind (field ''schema_version'' (cf_schema_version c = 3)) (\<lambda>_.
     rbind (field ''tenant_id'' (1 \<le> length (cf_tenant_id c) \<and> length (cf_tenant_id c) \<le> 128)) (\<lambda>_.
     validate_method_contract c))))))))"

section \<open>What an accepted configuration satisfies\<close>

lemma field_Inr [simp]: "field name ok = Inr u \<longleftrightarrow> ok"
  by (simp add: field_def)

lemma opt_field_Inr [simp]: "opt_field name ok v = Inr u \<longleftrightarrow> (case v of None \<Rightarrow> True | Some x \<Rightarrow> ok x)"
  by (simp add: opt_field_def)

lemma build_run_config_Inr:
  assumes "build_run_config native c = Inr c'"
  shows "runtime_fields (cf_runtime c) = Inr ()" "is_ok (validate_topology native (cf_runtime c))"
    "cf_adaptation c = Some a \<Longrightarrow> build_adaptation native a = Inr ()"
    "validate_method_contract c = Inr c'"
  using assms by (auto simp: build_run_config_def is_ok_iff)

lemma unadapted_contract:
  assumes "validate_method_contract c = Inr c'" "cf_method c \<in> {Target_Only, Static}"
  shows "c' = c" "cf_adaptation c = None" "cf_online_spec c = None"
    "rn_speculation_enabled (cf_runtime c) \<longleftrightarrow> cf_method c \<noteq> Target_Only"
  using assms unfolding validate_method_contract_def by (auto split: if_splits)

lemma adapted_contract:
  assumes "validate_method_contract c = Inr c'" "cf_method c \<notin> {Target_Only, Static}"
  shows "\<exists>a. cf_adaptation c = Some a \<and> validate_adapted c a = Inr ()
    \<and> rn_speculation_enabled (cf_runtime c) \<and> c' = c"
  using assms unfolding validate_method_contract_def by (cases "cf_adaptation c") auto

lemma build_adaptation_Inr:
  assumes "build_adaptation native a = Inr ()"
  shows "oc_name (ac_optimizer a) \<noteq> No_Optimizer" "pf_pos (oc_learning_rate (ac_optimizer a))"
    "ac_request_admission_policy a = (if ac_reset_scope a = Request_Reset
       then Serialized_Native_Scheduler else Cohort_Batching)"
    "ac_max_in_flight a = 1" "1 \<le> ac_stride a"
    "if ac_weight_update_mode a = Full then ac_rank a = None \<and> ac_lora_alpha a = None
     else ac_lora_alpha a = ac_rank a \<and> ac_rank a \<in> Some ` set lora_ranks"
proof -
  from assms have f: "optimizer_fields (ac_optimizer a) = Inr ()"
    "is_ok (validate_optimizer (ac_optimizer a))" "adaptation_fields a = Inr ()"
    "is_ok (validate_mode native a)"
    by (auto simp: build_adaptation_def is_ok_iff)
  show n: "oc_name (ac_optimizer a) \<noteq> No_Optimizer"
    and "ac_request_admission_policy a = (if ac_reset_scope a = Request_Reset
       then Serialized_Native_Scheduler else Cohort_Batching)"
    and "if ac_weight_update_mode a = Full then ac_rank a = None \<and> ac_lora_alpha a = None
     else ac_lora_alpha a = ac_rank a \<and> ac_rank a \<in> Some ` set lora_ranks"
    using f(4) by (auto simp: validate_mode_def is_ok_iff split: if_splits)
  show "ac_max_in_flight a = 1" "1 \<le> ac_stride a"
    using f(3) by (simp_all add: adaptation_fields_def)
  have "pf_nonneg (oc_learning_rate (ac_optimizer a))" using f(1) by (simp add: optimizer_fields_def)
  moreover have "\<not> pf_le (oc_learning_rate (ac_optimizer a)) (Fin 0)"
    using f(2) n by (simp add: validate_optimizer_def is_ok_iff)
  ultimately show "pf_pos (oc_learning_rate (ac_optimizer a))"
    by (auto simp: pf_nonneg_def pf_pos_def isfinite_iff)
qed

lemma validate_onlinespec_Inr:
  "validate_onlinespec c a = Inr () \<Longrightarrow> cf_online_spec c \<noteq> None
     \<and> oc_name (ac_optimizer a) = Sgd \<and> oc_schedule (ac_optimizer a) = Constant
     \<and> rn_tensor_parallel_size (cf_runtime c) = 1 \<and> rn_data_parallel_size (cf_runtime c) = 1
     \<and> rn_use_rejection_sampling (cf_runtime c)"
  by (auto simp: validate_onlinespec_def split: option.splits)

lemma validate_adapted_Inr:
  assumes "validate_adapted c a = Inr ()"
  shows "mp_algorithm (cf_model c) \<noteq> EAGLE" "rn_use_rejection_sampling (cf_runtime c)"
    "cf_online_spec c \<noteq> None \<longleftrightarrow> is_onlinespec (cf_method c)"
    "is_onlinespec (cf_method c) \<Longrightarrow> oc_name (ac_optimizer a) = Sgd \<and> oc_schedule (ac_optimizer a) = Constant
       \<and> ac_reset_scope a = Cohort_Reset \<and> rn_tensor_parallel_size (cf_runtime c) = 1
       \<and> rn_data_parallel_size (cf_runtime c) = 1 \<and> mechanism_defaults c"
    "\<not> is_onlinespec (cf_method c) \<Longrightarrow> oc_name (ac_optimizer a) \<noteq> Sgd
       \<and> ac_canvas_tokens a = rn_speculative_num_draft_tokens (cf_runtime c)"
    "cf_method c = Tts \<Longrightarrow> ac_reset_scope a = Request_Reset"
    "ac_parameter_scope a \<in> set layer_scopes \<union> set dspark_hybrid_scopes"
proof -
  show "mp_algorithm (cf_model c) \<noteq> EAGLE"
    using assms by (auto simp: validate_adapted_def)
  show "ac_parameter_scope a \<in> set layer_scopes \<union> set dspark_hybrid_scopes"
    using assms by (auto simp: validate_adapted_def validate_backend_scope_def Let_def split: if_splits)
  have tts: "\<not> is_onlinespec Tts" by (simp add: is_onlinespec_def)
  consider (online) "is_onlinespec (cf_method c)" "mechanism_defaults c" "ac_reset_scope a = Cohort_Reset"
      "validate_onlinespec c a = Inr ()"
    | (native) "\<not> is_onlinespec (cf_method c)" "cf_online_spec c = None" "rn_use_rejection_sampling (cf_runtime c)"
      "cf_method c = Tts \<longrightarrow> ac_reset_scope a = Request_Reset" "oc_name (ac_optimizer a) \<noteq> Sgd"
      "ac_canvas_tokens a = rn_speculative_num_draft_tokens (cf_runtime c)"
    using assms by (auto simp: validate_adapted_def split: if_splits)
  note cases = this
  show "rn_use_rejection_sampling (cf_runtime c)"
    "cf_online_spec c \<noteq> None \<longleftrightarrow> is_onlinespec (cf_method c)"
    by (cases rule: cases; use validate_onlinespec_Inr in blast)+
  show "is_onlinespec (cf_method c) \<Longrightarrow> oc_name (ac_optimizer a) = Sgd \<and> oc_schedule (ac_optimizer a) = Constant
       \<and> ac_reset_scope a = Cohort_Reset \<and> rn_tensor_parallel_size (cf_runtime c) = 1
       \<and> rn_data_parallel_size (cf_runtime c) = 1 \<and> mechanism_defaults c"
    by (cases rule: cases; use validate_onlinespec_Inr in blast)
  show "\<not> is_onlinespec (cf_method c) \<Longrightarrow> oc_name (ac_optimizer a) \<noteq> Sgd
       \<and> ac_canvas_tokens a = rn_speculative_num_draft_tokens (cf_runtime c)"
    by (cases rule: cases) blast+
  show "cf_method c = Tts \<Longrightarrow> ac_reset_scope a = Request_Reset"
    by (cases rule: cases) (use tts in auto)
qed

section \<open>Properties\<close>

text \<open>
  C33: An accepted run configuration honours the contract of its method. Adaptation state exists
  exactly for the adapted methods and OnlineSPEC state exactly for the OnlineSPEC baselines;
  speculation is off exactly for the target-only reference; an adapted method has an enabled
  optimizer with a positive learning rate, one update in flight, exact rejection sampling, an
  admission policy that matches its reset scope, and a registered backend; TTS resets per request;
  the baselines keep plain SGD with a constant schedule on one rank.
\<close>

theorem accepted_config_honours_method:
  assumes "build_run_config native c = Inr c'"
  shows "c' = c \<and> (cf_adaptation c = None \<longleftrightarrow> cf_method c \<in> {Target_Only, Static})
    \<and> (cf_online_spec c \<noteq> None \<longleftrightarrow> is_onlinespec (cf_method c))
    \<and> (rn_speculation_enabled (cf_runtime c) \<longleftrightarrow> cf_method c \<noteq> Target_Only)
    \<and> (\<forall>a. cf_adaptation c = Some a \<longrightarrow>
          oc_name (ac_optimizer a) \<noteq> No_Optimizer \<and> pf_pos (oc_learning_rate (ac_optimizer a))
          \<and> ac_max_in_flight a = 1 \<and> rn_use_rejection_sampling (cf_runtime c)
          \<and> mp_algorithm (cf_model c) \<noteq> EAGLE
          \<and> (ac_request_admission_policy a = Serialized_Native_Scheduler \<longleftrightarrow> ac_reset_scope a = Request_Reset)
          \<and> (cf_method c = Tts \<longrightarrow> ac_reset_scope a = Request_Reset)
          \<and> (is_onlinespec (cf_method c) \<longleftrightarrow> oc_name (ac_optimizer a) = Sgd)
          \<and> (is_onlinespec (cf_method c) \<longrightarrow> oc_schedule (ac_optimizer a) = Constant
              \<and> ac_reset_scope a = Cohort_Reset \<and> rn_tensor_parallel_size (cf_runtime c) = 1
              \<and> rn_data_parallel_size (cf_runtime c) = 1))"
proof -
  note B = build_run_config_Inr [OF assms]
  show ?thesis
  proof (cases "cf_method c \<in> {Target_Only, Static}")
    case True
    note R = unadapted_contract [OF B(4) True]
    from True have "\<not> is_onlinespec (cf_method c)" by (auto simp: is_onlinespec_def)
    with True R show ?thesis by simp
  next
    case False
    then obtain a where a: "cf_adaptation c = Some a" "validate_adapted c a = Inr ()"
      "rn_speculation_enabled (cf_runtime c)" "c' = c"
      using adapted_contract [OF B(4)] by blast
    note A = build_adaptation_Inr [OF B(3) [OF a(1)]]
    note V = validate_adapted_Inr [OF a(2)]
    have "is_onlinespec (cf_method c) \<longleftrightarrow> oc_name (ac_optimizer a) = Sgd" using V(4,5) by blast
    moreover have "ac_request_admission_policy a = Serialized_Native_Scheduler \<longleftrightarrow> ac_reset_scope a = Request_Reset"
      using A(3) by simp
    ultimately show ?thesis using False a A(1,2,4) V(1-4,6) by auto
  qed
qed

text \<open>A single-rank TTS configuration for the witnesses.\<close>

definition example_runtime :: runtime_config where
  "example_runtime = \<lparr>rn_sampling_profile_sha256 = replicate 64 CHR ''a'',
     rn_execution_policy_sha256 = content_sha256 (controlled_json (controlled_policy 1)),
     rn_context_length = 40960, rn_random_seed = 1, rn_disable_radix_cache = True,
     rn_cuda_graph_mode = Graph_Disabled, rn_disable_cuda_graph = True,
     rn_cuda_graph_batch_sizes = [1], rn_native_graph_release_capability_sha256 = None,
     rn_target_reference_disable_overlap_schedule = True,
     rn_speculative_disable_overlap_schedule = False, rn_enable_deterministic_inference = False,
     rn_incremental_streaming_output = False, rn_speculation_enabled = True,
     rn_tensor_parallel_size = 1, rn_data_parallel_size = 1, rn_tp_rank = 0, rn_dp_rank = 0,
     rn_node_count = 1, rn_node_rank = 0, rn_device_identity = ''d'', rn_rendezvous_identity = ''v'',
     rn_router_identity = ''single-replica'', rn_clock_identity = ''c'',
     rn_process_group_backend = ''nccl'', rn_distributed_runtime_capability = Single_Rank_Capability,
     rn_distributed_release_capability_sha256 = None,
     rn_distributed_capability_receipt_sha256 = None, rn_speculative_num_draft_tokens = 16,
     rn_speculative_eagle_topk = None, rn_use_rejection_sampling = True, rn_max_running_requests = 1,
     rn_adaptation_microbatch_size = 1, rn_adaptation_publication_coalescing = 1,
     rn_adaptation_stream_priority = Default_Priority, rn_prefill_decode_disaggregation = False,
     rn_two_batch_overlap = False\<rparr>"

definition example_model :: model_pair where
  "example_model = \<lparr>mp_key = ''k'', mp_target = ''t'', mp_drafter = ''d'',
     mp_target_revision = replicate 40 CHR ''0'', mp_drafter_revision = replicate 40 CHR ''1'',
     mp_algorithm = DFLASH, mp_max_context_length = 40960, mp_draft_depth = 15,
     mp_nextn_mtp_mode = External_Drafter, mp_target_snapshot_sha256 = None,
     mp_mtp_component_sha256 = None\<rparr>"

definition example_optimizer :: "optimizer_name \<Rightarrow> optimizer_config" where
  "example_optimizer name = \<lparr>oc_name = name, oc_learning_rate = Fin (1 / 8), oc_weight_decay = Fin 0,
     oc_beta1 = Fin (1 / 2), oc_beta2 = Fin (1 / 2), oc_epsilon = Fin (1 / 16),
     oc_grad_clip = None, oc_momentum = None, oc_muon_ns_steps = None,
     oc_muon_auxiliary_learning_rate = None, oc_muon_auxiliary_weight_decay = None,
     oc_schedule = Constant, oc_schedule_total_published_updates = None\<rparr>"

definition example_adaptation :: "optimizer_name \<Rightarrow> reset_scope \<Rightarrow> admission_policy \<Rightarrow> adaptation_config" where
  "example_adaptation name reset policy = \<lparr>ac_weight_update_mode = Full, ac_parameter_scope = ''last1'',
     ac_reset_scope = reset, ac_request_admission_policy = policy, ac_adaptation_group_id = ''g'',
     ac_optimizer = example_optimizer name, ac_rank = None, ac_lora_alpha = None,
     ac_native_head_policy = Frozen_Heads, ac_stride = 10, ac_max_in_flight = 1,
     ac_canvas_tokens = 16, ac_loss_position_decay = Fin 1, ac_extra_logical_delay = 0,
     ac_teacher_row_policy = Update_Round, ac_verification_mode = Native_Scheduler,
     ac_fixed_verification_budget = None, ac_confidence_loss_weight = None,
     ac_chronobelief_release_capability_sha256 = None, ac_chronobelief_gpu_proof_sha256 = None,
     ac_eagle3_e0_execution_authority_sha256 = None, ac_eagle3_compatibility_authority_sha256 = None,
     ac_eagle3_model_selector_sha256 = None, ac_eagle3_native_gpu_proof_sha256 = None,
     ac_eagle3_qualification_compatibility_authority_sha256 = None,
     ac_eagle3_qualification_model_selector_sha256 = None\<rparr>"

definition example_run :: run_config where
  "example_run = \<lparr>cf_schema_version = 3, cf_method = Tts, cf_model = example_model,
     cf_runtime = example_runtime,
     cf_adaptation = Some (example_adaptation Adam Request_Reset Serialized_Native_Scheduler),
     cf_online_spec = None, cf_tenant_id = ''research''\<rparr>"

lemma example_hex: "CHR ''a'' \<in> set hex_digits" "CHR ''0'' \<in> set hex_digits" "CHR ''1'' \<in> set hex_digits"
  by (simp_all add: hex_digits_def)

lemma example_runtime_fields: "runtime_fields example_runtime = Inr ()"
  by (simp add: runtime_fields_def example_runtime_def example_hex)

lemma example_runtime_ok: "validate_topology native example_runtime = Inr example_runtime"
proof -
  have "runtime_controlled_policy example_runtime = controlled_policy 1"
    by (simp add: runtime_controlled_policy_def example_runtime_def controlled_policy_def)
  moreover have "controlled_validate (controlled_policy 1) = Inr ()" by (simp add: controlled_validate_def controlled_policy_def is_true_def)
  ultimately have "runtime_policy_sha256 native example_runtime
      = Inr (content_sha256 (controlled_json (controlled_policy 1)))"
    by (simp add: runtime_policy_sha256_def controlled_sha256_def controlled_to_dict_def)
      (simp add: example_runtime_def)
  moreover have "registered_runtime_topology_mode 1 1 1 = Inr Tp1_Dp1" by code_simp
  ultimately show ?thesis
    by (simp add: validate_topology_def) (simp add: example_runtime_def)
qed

lemma example_adaptation_ok:
  "build_adaptation native (example_adaptation Adam Request_Reset Serialized_Native_Scheduler) = Inr ()"
  by (simp add: build_adaptation_def optimizer_fields_def validate_optimizer_def adaptation_fields_def
      validate_mode_def example_adaptation_def example_optimizer_def pf_pos_def pf_nonneg_def pf_open_unit_def)

lemma example_model_ok:
  "model_pair_fields example_model = Inr ()" "validate_nextn_model_source example_model = Inr example_model"
  by (simp_all add: model_pair_fields_def validate_nextn_model_source_def example_model_def example_hex)

lemma example_contract_ok: "validate_method_contract example_run = Inr example_run"
  by (simp add: validate_method_contract_def validate_adapted_def validate_eagle3_authority_def
      validate_backend_scope_def example_run_def example_model_def example_runtime_def
      example_adaptation_def example_optimizer_def is_onlinespec_def Let_def layer_scopes_def
      dspark_hybrid_scopes_def)

lemma example_run_simps:
  "cf_model example_run = example_model" "cf_runtime example_run = example_runtime"
  "cf_adaptation example_run = Some (example_adaptation Adam Request_Reset Serialized_Native_Scheduler)"
  "cf_online_spec example_run = None" "cf_schema_version example_run = 3"
  "cf_tenant_id example_run = ''research''"
  by (simp_all add: example_run_def)

lemma example_run_ok: "build_run_config native example_run = Inr example_run"
  unfolding build_run_config_def
  by (simp add: example_run_simps example_model_ok example_runtime_fields example_runtime_ok
      example_adaptation_ok example_contract_ok)

theorem accepted_config_honours_method_witness:
  "build_run_config (replicate 64 CHR ''a'') example_run = Inr example_run
   \<and> (is_onlinespec (cf_method example_run) \<longleftrightarrow> False)"
  using accepted_config_honours_method [OF example_run_ok]
    example_run_ok [of "replicate 64 CHR ''a''"]
  by (simp add: example_run_simps)

text \<open>
  An accepted runtime is one of the three registered single-host topologies, with its ranks in
  range. A topology of more than one rank carries exactly the digest of the source capability of
  its mode and the process-group backend of that capability (NCCL for tensor parallelism, none for
  data-parallel replicas, which share no adaptation collective and have their own router); a
  single rank claims no capability at all.
\<close>

theorem accepted_runtime_is_registered:
  assumes "runtime_fields r = Inr ()" "validate_topology native r = Inr r'"
  shows "r' = r \<and> rn_node_count r = 1 \<and> rn_node_rank r = 0
    \<and> 0 \<le> rn_tp_rank r \<and> rn_tp_rank r < rn_tensor_parallel_size r
    \<and> 0 \<le> rn_dp_rank r \<and> rn_dp_rank r < rn_data_parallel_size r
    \<and> (\<exists>mode. registered_runtime_topology_mode (rn_tensor_parallel_size r) (rn_data_parallel_size r) 1
          = Inr mode
        \<and> (if mode = Tp1_Dp1 then rn_distributed_release_capability_sha256 r = None
           else rn_distributed_release_capability_sha256 r
                  = Some (release_capability_sha256 (source_capability mode))
             \<and> rn_process_group_backend r = (if mode = Tp2_Dp1 then ''nccl'' else ''none''))
        \<and> (mode = Tp1_Dp2 \<longrightarrow> adaptation_collective_mode mode = No_Collective
             \<and> rn_router_identity r \<noteq> ''single-replica''))"
proof -
  have f: "0 \<le> rn_tp_rank r" "0 \<le> rn_dp_rank r" using assms(1) by (simp_all add: runtime_fields_def)
  obtain mode where m: "registered_runtime_topology_mode (rn_tensor_parallel_size r)
      (rn_data_parallel_size r) (rn_node_count r) = Inr mode"
    and v: "rn_tp_rank r < rn_tensor_parallel_size r" "rn_dp_rank r < rn_data_parallel_size r"
      "rn_node_rank r = 0" "r' = r"
      "1 < rn_data_parallel_size r \<longrightarrow> rn_router_identity r \<noteq> ''single-replica''"
    and dist: "1 < rn_tensor_parallel_size r * rn_data_parallel_size r \<Longrightarrow>
      \<exists>claimed capability. rn_distributed_release_capability_sha256 r = Some claimed
        \<and> require_release_capability mode claimed = Inr capability
        \<and> rc_process_group_backend capability = rn_process_group_backend r"
    and single: "\<not> 1 < rn_tensor_parallel_size r * rn_data_parallel_size r \<Longrightarrow>
      rn_distributed_release_capability_sha256 r = None"
    using assms(2) by (auto simp: validate_topology_def split: option.splits if_splits)
  note sizes = registered_mode_Inr [OF m]
  have cap: "rn_distributed_release_capability_sha256 r = Some (release_capability_sha256 (source_capability mode))
      \<and> rn_process_group_backend r = (if mode = Tp2_Dp1 then ''nccl'' else ''none'')" if "mode \<noteq> Tp1_Dp1"
  proof -
    have "1 < rn_tensor_parallel_size r * rn_data_parallel_size r" using sizes that by auto
    from dist [OF this] require_release_capability_Inr show ?thesis
      by (fastforce simp: source_capability_def)
  qed
  have "mode = Tp1_Dp1 \<Longrightarrow> rn_distributed_release_capability_sha256 r = None"
    by (rule single) (use sizes in auto)
  moreover have "mode = Tp1_Dp2 \<Longrightarrow> rn_router_identity r \<noteq> ''single-replica''"
    using v(5) sizes by auto
  ultimately show ?thesis
    using f v m sizes cap by (auto simp: adaptation_collective_mode_def)
qed

theorem accepted_runtime_is_registered_witness:
  "rn_node_count example_runtime = 1 \<and> rn_distributed_release_capability_sha256 example_runtime = None
   \<and> registered_runtime_topology_mode 1 1 1 = Inr Tp1_Dp1"
proof -
  have "registered_runtime_topology_mode 1 1 1 = Inr Tp1_Dp1" by code_simp
  with accepted_runtime_is_registered [OF example_runtime_fields example_runtime_ok] show ?thesis
    by (auto simp: example_runtime_def)
qed

text \<open>
  The OnlineSPEC ensemble validator asks for an increasing grid of learning rates but compares
  with the sorted grid, which is not strict: a grid that repeats the optimizer's own rate is
  accepted.
\<close>

theorem hedge_grid_accepts_repeated_rate:
  "\<exists>c a spec rate. cf_method c = Onlinespec_Ens \<and> cf_online_spec c = Some spec
     \<and> is_ok (validate_finite_grid spec) \<and> validate_onlinespec c a = Inr ()
     \<and> oc_learning_rate (ac_optimizer a) # os_additional_learning_rates spec = [rate, rate]"
proof -
  let ?spec = "\<lparr>os_projection_radius = None, os_additional_learning_rates = [Fin (1 / 8)],
    os_hedge_learning_rate = Some (Fin 1)\<rparr>"
  let ?a = "example_adaptation Sgd Cohort_Reset Cohort_Batching"
  let ?c = "example_run\<lparr>cf_method := Onlinespec_Ens, cf_online_spec := Some ?spec, cf_adaptation := Some ?a\<rparr>"
  have "is_ok (validate_finite_grid ?spec)" by (simp add: validate_finite_grid_def Let_def)
  moreover have "validate_onlinespec ?c ?a = Inr ()"
    by (simp add: validate_onlinespec_def example_adaptation_def example_optimizer_def example_run_def
        example_runtime_def Let_def)
  moreover have "oc_learning_rate (ac_optimizer ?a) # os_additional_learning_rates ?spec = [Fin (1 / 8), Fin (1 / 8)]"
    by (simp add: example_adaptation_def example_optimizer_def)
  ultimately show ?thesis
    by (intro exI [of _ ?c] exI [of _ ?a] exI [of _ ?spec] exI [of _ "Fin (1 / 8)"]) simp
qed

end
