(* ===== verification/Protocol.thy ===== *)
theory Protocol
  imports Config "HOL-Library.Multiset"
begin

text \<open>
  \<open>experiments/protocol.py\<close>: the tuning stages and grid, successive halving, the paired confirmation
  blocks, the choice of the static load, and the checks of a confirmation slice. Scores and
  measurements are floats. The digest of a tuning candidate prints floats and is an argument
  (\<open>candidate_id\<close>); the pseudo-random shuffle of a block is an argument (\<open>shuffle\<close>).
\<close>

section \<open>Stages and candidates\<close>

definition dflash_safe_context_limit :: int where
  "dflash_safe_context_limit = 40960 - 2 * 16"

definition tuning_stages :: "(int \<times> int) list" where
  "tuning_stages = [(2, 4096), (4, 8192), (8, 16384), (16, dflash_safe_context_limit)]"

definition formal_concurrency_grid :: "int list" where
  "formal_concurrency_grid = [1, 2, 4, 8, 16, 32]"

definition tuning_stage :: "int \<Rightarrow> (int \<times> int) res" where
  "tuning_stage stage =
     (if stage \<notin> {0..<int (length tuning_stages)} then Inl (ValueError ''tuning stage must be in [0, 4)'')
      else Inr (tuning_stages ! nat stage))"

record tuning_candidate =
  tc_weight_update_mode :: weight_update_mode
  tc_parameter_scope :: string
  tc_optimizer :: optimizer_name
  tc_learning_rate :: pyfloat
  tc_weight_decay :: pyfloat
  tc_rank :: "int option"
  tc_stride :: int
  tc_lora_alpha :: "int option"
  tc_schedule :: lr_schedule
  tc_schedule_total_published_updates :: "int option"
  tc_grad_clip :: "pyfloat option"
  tc_beta1 :: pyfloat
  tc_beta2 :: pyfloat
  tc_momentum :: "pyfloat option"
  tc_muon_ns_steps :: "int option"
  tc_muon_auxiliary_learning_rate :: "pyfloat option"
  tc_muon_auxiliary_weight_decay :: "pyfloat option"

definition grid_candidate ::
  "weight_update_mode \<Rightarrow> string \<Rightarrow> optimizer_name \<Rightarrow> pyfloat \<Rightarrow> pyfloat \<Rightarrow> int option \<Rightarrow> pyfloat option \<Rightarrow> tuning_candidate"
  where
  "grid_candidate mode scope optimizer learning_rate weight_decay rank momentum =
     \<lparr>tc_weight_update_mode = mode, tc_parameter_scope = scope, tc_optimizer = optimizer,
      tc_learning_rate = learning_rate, tc_weight_decay = weight_decay, tc_rank = rank,
      tc_stride = 10, tc_lora_alpha = rank, tc_schedule = Constant,
      tc_schedule_total_published_updates = None, tc_grad_clip = Some (Fin 1),
      tc_beta1 = default_beta1, tc_beta2 = default_beta2, tc_momentum = momentum,
      tc_muon_ns_steps = None, tc_muon_auxiliary_learning_rate = None,
      tc_muon_auxiliary_weight_decay = None\<rparr>"

text \<open>\<open>x / 10\<close> on a finite float\<close>

fun pf_tenth :: "pyfloat \<Rightarrow> pyfloat" where
  "pf_tenth (Fin q) = fl (q / 10)"
| "pf_tenth x = x"

definition grid_anchors :: "(optimizer_name \<times> pyfloat \<times> pyfloat \<times> pyfloat option) list" where
  "grid_anchors = [(Adamw, fl (1 / 10 ^ 4), fl (1 / 100), None), (Sgdm, fl (1 / 1000), Fin 0, Some (fl (9 / 10)))]"

definition tuning_grid :: "tuning_candidate list" where
  "tuning_grid = concat (map (\<lambda>scope. concat (map (\<lambda>(optimizer, learning_rate, weight_decay, momentum).
       grid_candidate Full scope optimizer (pf_tenth learning_rate) weight_decay None momentum
       # map (\<lambda>rank. grid_candidate Lora scope optimizer learning_rate weight_decay (Some rank) momentum)
           lora_ranks) grid_anchors)) layer_scopes)"

definition tuning_candidates :: "(tuning_candidate \<Rightarrow> string) \<Rightarrow> tuning_candidate list res" where
  "tuning_candidates candidate_id =
     (if \<not> distinct (map candidate_id tuning_grid)
      then Inl (RuntimeError ''tuning grid contains duplicate identities'') else Inr tuning_grid)"

section \<open>Successive halving\<close>

fun pf_neg :: "pyfloat \<Rightarrow> pyfloat" where
  "pf_neg (Fin q) = Fin (- q)"
| "pf_neg PInf = NInf"
| "pf_neg NInf = PInf"
| "pf_neg NaN = NaN"

text \<open>\<open>int(n * x)\<close> for an integer and a finite float: the product is rounded, then truncated.\<close>

definition scaled_int :: "nat \<Rightarrow> pyfloat \<Rightarrow> int" where
  "scaled_int n x =
     (case (fl (of_nat n), x) of
        (Fin a, Fin b) \<Rightarrow> (case fl (a * b) of Fin q \<Rightarrow> (if 0 \<le> q then \<lfloor>q\<rfloor> else \<lceil>q\<rceil>) | _ \<Rightarrow> 0)
      | _ \<Rightarrow> 0)"

definition halving_key :: "(string \<times> pyfloat) list \<Rightarrow> string \<Rightarrow> pyfloat \<times> string" where
  "halving_key scores key = (pf_neg (the (dget scores key)), key)"

definition successive_halving ::
  "string list \<Rightarrow> (string \<times> pyfloat) list \<Rightarrow> pyfloat \<Rightarrow> string list res" where
  "successive_halving candidate_ids scores keep_fraction =
     (if \<not> (pf_lt (Fin 0) keep_fraction \<and> pf_le keep_fraction (Fin 1))
      then Inl (ValueError ''keep_fraction must be in (0, 1]'')
      else if \<not> set candidate_ids \<subseteq> set (dkeys scores)
      then Inl (ValueError ''every candidate needs a tuning-only score'')
      else if \<not> distinct candidate_ids
      then Inl (ValueError ''candidate identities must be unique'')
      else if \<exists>key \<in> set candidate_ids. \<not> isfinite (the (dget scores key))
      then Inl (ValueError ''candidate scores must be finite'')
      else let keep = max 1 (scaled_int (length candidate_ids) keep_fraction)
           in Inr (take (nat keep) (sort_key (halving_key scores) candidate_ids)))"

section \<open>Confirmation blocks\<close>

record confirmation_block =
  cb_block :: int
  cb_method_order :: "string list"
  cb_reset_cohort_before_each :: bool

text \<open>
  \<open>random.Random(seed).shuffle\<close> is a state and a function from the state and a list to the next
  state and the shuffled list.
\<close>

fun blocks_from ::
  "('g \<Rightarrow> string list \<Rightarrow> 'g \<times> string list) \<Rightarrow> 'g \<Rightarrow> string list \<Rightarrow> int list \<Rightarrow> confirmation_block list" where
  "blocks_from shuffle g methods [] = []"
| "blocks_from shuffle g methods (b # bs) =
     (case shuffle g methods of (g', order) \<Rightarrow>
        \<lparr>cb_block = b, cb_method_order = order, cb_reset_cohort_before_each = True\<rparr>
        # blocks_from shuffle g' methods bs)"

definition paired_blocks ::
  "('g \<Rightarrow> string list \<Rightarrow> 'g \<times> string list) \<Rightarrow> 'g \<Rightarrow> string list \<Rightarrow> int \<Rightarrow> confirmation_block list res" where
  "paired_blocks shuffle seeded methods how_many =
     (if how_many < 1 then Inl (ValueError ''at least one confirmation block is required'')
      else if length methods < 2 \<or> \<not> distinct methods
      then Inl (ValueError ''paired blocks require unique comparison methods'')
      else Inr (blocks_from shuffle seeded methods (int_range 0 how_many)))"

definition confirmation_blocks ::
  "('g \<Rightarrow> string list \<Rightarrow> 'g \<times> string list) \<Rightarrow> 'g \<Rightarrow> int \<Rightarrow> confirmation_block list res" where
  "confirmation_blocks shuffle seeded how_many =
     paired_blocks shuffle seeded [''static'', ''tts'', ''l0''] how_many"

definition onlinespec_blocks ::
  "('g \<Rightarrow> string list \<Rightarrow> 'g \<times> string list) \<Rightarrow> 'g \<Rightarrow> int \<Rightarrow> confirmation_block list res" where
  "onlinespec_blocks shuffle seeded how_many =
     paired_blocks shuffle seeded [''static'', ''onlinespec_ogd'', ''onlinespec_opt'', ''onlinespec_ens''] how_many"

section \<open>The static load\<close>

record load_row =
  lr_concurrency :: int
  lr_decode_goodput_tps :: pyfloat
  lr_itl_p99_ms :: pyfloat
  lr_oom_events :: int
  lr_retractions :: int
  lr_kv_token_capacity :: int

definition confirmation_prompts :: int where
  "confirmation_prompts = 32"

text \<open>\<open>2.0 * x\<close>\<close>

fun pf_double :: "pyfloat \<Rightarrow> pyfloat" where
  "pf_double (Fin q) = fl (2 * q)"
| "pf_double x = x"

definition check_load_row :: "load_row \<Rightarrow> unit res" where
  "check_load_row row =
     rbind (raise_if (\<not> isfinite (lr_decode_goodput_tps row) \<or> pf_le (lr_decode_goodput_tps row) (Fin 0))
       (ValueError ''static goodput must be finite and positive'')) (\<lambda>_.
     rbind (raise_if (\<not> isfinite (lr_itl_p99_ms row) \<or> pf_lt (lr_itl_p99_ms row) (Fin 0))
       (ValueError ''static p99 ITL must be finite and non-negative'')) (\<lambda>_.
     raise_if (lr_oom_events row < 0 \<or> lr_retractions row < 0 \<or> lr_kv_token_capacity row < 1)
       (ValueError ''static safety counters cannot be negative'')))"

definition load_eligible :: "pyfloat \<Rightarrow> int \<Rightarrow> load_row \<Rightarrow> bool" where
  "load_eligible threshold required_context_limit row \<longleftrightarrow>
     lr_oom_events row = 0 \<and> lr_retractions row = 0 \<and> lr_concurrency row \<le> confirmation_prompts
     \<and> lr_concurrency row * required_context_limit \<le> lr_kv_token_capacity row
     \<and> pf_le (lr_itl_p99_ms row) threshold"

text \<open>\<open>max(xs, key=f)\<close> on a non-empty list: the first element with the greatest key.\<close>

fun max_key_from :: "('a \<Rightarrow> 'b::linorder) \<Rightarrow> 'a \<Rightarrow> 'a list \<Rightarrow> 'a" where
  "max_key_from f m [] = m"
| "max_key_from f m (y # ys) = max_key_from f (if f m < f y then y else m) ys"

definition load_key :: "load_row \<Rightarrow> pyfloat \<times> int" where
  "load_key row = (lr_decode_goodput_tps row, - lr_concurrency row)"

definition select_static_load :: "load_row list \<Rightarrow> int \<Rightarrow> int res" where
  "select_static_load rows required_context_limit =
     rbind (raise_if (required_context_limit < 1)
       (ValueError ''required context limit must be positive'')) (\<lambda>_.
     rbind (raise_if (set (map lr_concurrency rows) \<noteq> set (formal_concurrency_grid @ [48])
         \<or> length rows \<noteq> length (formal_concurrency_grid @ [48]))
       (ValueError ''static load screen must cover the complete grid'')) (\<lambda>_.
     rbind (check_all check_load_row rows) (\<lambda>_.
     (case List.find (\<lambda>row. lr_concurrency row = 1) rows of
        None \<Rightarrow> Inl (RuntimeError ''StopIteration'')
      | Some c1 \<Rightarrow>
         (case filter (load_eligible (pf_double (lr_itl_p99_ms c1)) required_context_limit) rows of
            [] \<Rightarrow> Inl (ValueError ''no concurrency satisfies the static safety envelope'')
          | row # others \<Rightarrow> Inr (lr_concurrency (max_key_from load_key row others)))))))"

section \<open>Confirmation slices\<close>

definition candidate_fields :: "tuning_candidate \<Rightarrow> tuning_candidate" where
  "candidate_fields candidate = candidate"

definition adaptation_candidate_fields :: "adaptation_config \<Rightarrow> tuning_candidate" where
  "adaptation_candidate_fields a =
     \<lparr>tc_weight_update_mode = ac_weight_update_mode a, tc_parameter_scope = ac_parameter_scope a,
      tc_optimizer = oc_name (ac_optimizer a), tc_learning_rate = oc_learning_rate (ac_optimizer a),
      tc_weight_decay = oc_weight_decay (ac_optimizer a), tc_rank = ac_rank a, tc_stride = ac_stride a,
      tc_lora_alpha = ac_lora_alpha a, tc_schedule = oc_schedule (ac_optimizer a),
      tc_schedule_total_published_updates = oc_schedule_total_published_updates (ac_optimizer a),
      tc_grad_clip = oc_grad_clip (ac_optimizer a), tc_beta1 = oc_beta1 (ac_optimizer a),
      tc_beta2 = oc_beta2 (ac_optimizer a), tc_momentum = oc_momentum (ac_optimizer a),
      tc_muon_ns_steps = oc_muon_ns_steps (ac_optimizer a),
      tc_muon_auxiliary_learning_rate = oc_muon_auxiliary_learning_rate (ac_optimizer a),
      tc_muon_auxiliary_weight_decay = oc_muon_auxiliary_weight_decay (ac_optimizer a)\<rparr>"

definition assert_confirmation_slice_config ::
  "run_config \<Rightarrow> run_method \<Rightarrow> tuning_candidate \<Rightarrow> int \<Rightarrow> unit res" where
  "assert_confirmation_slice_config config arm selected_candidate selected_concurrency =
     rbind (raise_if (arm \<notin> {Static, Tts, L0}) (ValueError ''unknown formal confirmation method'')) (\<lambda>_.
     rbind (raise_if (cf_method config \<noteq> arm)
       (ValueError ''method config is bound to the wrong endpoint'')) (\<lambda>_.
     rbind (raise_if (rn_max_running_requests (cf_runtime config) < selected_concurrency)
       (ValueError ''selected load exceeds an endpoint admission limit'')) (\<lambda>_.
     (if arm = Static then
        raise_if (cf_adaptation config \<noteq> None) (ValueError ''Static must not carry adaptation state'')
      else (case cf_adaptation config of
          None \<Rightarrow> Inl (ValueError ''adapted slice lacks adaptation configuration'')
        | Some a \<Rightarrow> raise_if (adaptation_candidate_fields a \<noteq> candidate_fields selected_candidate)
            (ValueError ''confirmation config does not match the tuning winner''))))))"

definition assert_historical_matched_recipe ::
  "(run_method \<times> run_config) list \<Rightarrow> tuning_candidate \<Rightarrow> int \<Rightarrow> unit res" where
  "assert_historical_matched_recipe configs selected_candidate selected_concurrency =
     (if set (dkeys configs) \<noteq> {Static, Tts, L0}
      then Inl (ValueError ''historical matched-recipe diagnostic requires exactly three configs'')
      else
       rbind (check_all (\<lambda>(arm, config). assert_confirmation_slice_config config arm
           selected_candidate selected_concurrency) configs) (\<lambda>_.
       let static = the (dget configs Static) in
       rbind (check_all (\<lambda>config.
           rbind (raise_if (cf_model config \<noteq> cf_model static)
             (ValueError ''formal methods must use one immutable model pair'')) (\<lambda>_.
           raise_if (cf_runtime config \<noteq> cf_runtime static)
             (ValueError ''formal methods must use one runtime configuration''))) (dvalues configs)) (\<lambda>_.
       (case (cf_adaptation (the (dget configs Tts)), cf_adaptation (the (dget configs L0))) of
          (Some tts, Some asynchronous) \<Rightarrow>
            rbind (raise_if (tts \<noteq> asynchronous)
              (ValueError ''historical matched-recipe diagnostic requires identical adaptation'')) (\<lambda>_.
            raise_if (adaptation_candidate_fields tts \<noteq> candidate_fields selected_candidate)
              (ValueError ''historical matched-recipe diagnostic does not match its old winner''))
        | _ \<Rightarrow> Inl (ValueError ''historical matched-recipe diagnostic requires identical adaptation'')))))"

section \<open>Properties\<close>

lemma max_key_from:
  "max_key_from f m xs \<in> set (m # xs) \<and> (\<forall>y \<in> set (m # xs). f y \<le> f (max_key_from f m xs))"
proof (induction xs arbitrary: m)
  case (Cons y ys)
  let ?m = "if f m < f y then y else m"
  from Cons.IH [of ?m] have "f ?m \<le> f (max_key_from f ?m ys)"
    "max_key_from f ?m ys \<in> set (?m # ys)" "\<forall>z \<in> set ys. f z \<le> f (max_key_from f ?m ys)"
    by simp_all
  then show ?case by (auto split: if_splits)
qed simp

text \<open>
  Successive halving keeps at least one candidate of a non-empty field and never invents one;
  every kept candidate scores at least as high as every dropped one, ties going to the smaller
  identity, and the survivors come in descending order of score.
\<close>

theorem halving_keeps_the_best:
  assumes "successive_halving ids scores fraction = Inr kept" "ids \<noteq> []"
  shows "kept \<noteq> [] \<and> set kept \<subseteq> set ids \<and> distinct kept
    \<and> sorted (map (halving_key scores) kept)
    \<and> (\<forall>k \<in> set kept. \<forall>d \<in> set ids - set kept.
          pf_le (the (dget scores d)) (the (dget scores k)))"
proof -
  let ?n = "nat (max 1 (scaled_int (length ids) fraction))"
  let ?s = "sort_key (halving_key scores) ids"
  have kept: "kept = take ?n ?s" and d: "distinct ids"
    and fin: "\<forall>key \<in> set ids. isfinite (the (dget scores key))"
    using assms(1) unfolding successive_halving_def guard_Inr Let_def by simp_all
  have "?s \<noteq> []" using assms(2) by (metis set_sort set_empty)
  then have "kept \<noteq> []" by (simp add: kept)
  moreover have sub: "set kept \<subseteq> set ids" unfolding kept using set_take_subset [of ?n ?s] by simp
  moreover have "distinct kept" using d by (simp add: kept)
  moreover have "sorted (map (halving_key scores) kept)"
    unfolding kept take_map [symmetric] by (rule sorted_wrt_take) simp
  moreover have "pf_le (the (dget scores x)) (the (dget scores k))"
    if "k \<in> set kept" "x \<in> set ids - set kept" for k x
  proof -
    have "halving_key scores k \<le> halving_key scores x"
      using sort_key_take_le [of k ?n "halving_key scores" ids x] that by (simp add: kept)
    then have "pf_neg (the (dget scores k)) \<le> pf_neg (the (dget scores x))"
      by (auto simp: halving_key_def)
    moreover have "isfinite (the (dget scores k))" "isfinite (the (dget scores x))"
      using fin sub that by auto
    ultimately show ?thesis by (auto simp: isfinite_iff)
  qed
  ultimately show ?thesis by blast
qed

definition example_scores :: "(string \<times> pyfloat) list" where
  "example_scores = [(''a'', Fin 1), (''b'', Fin 3), (''c'', Fin 2)]"

theorem halving_keeps_the_best_witness:
  "\<exists>kept. successive_halving [''a'', ''b'', ''c''] example_scores (Fin (1 / 4)) = Inr kept \<and> kept \<noteq> []"
proof -
  obtain kept where k: "successive_halving [''a'', ''b'', ''c''] example_scores (Fin (1 / 4)) = Inr kept"
    by (simp add: successive_halving_def example_scores_def Let_def)
  from halving_keeps_the_best [OF k] k show ?thesis by blast
qed

text \<open>
  The static load that is selected comes from the registered grid (the extra point of the scan,
  48, is never selected), was measured without out-of-memory events or retractions, fits the KV
  capacity at the required context, keeps its tail latency within twice that of a single request,
  and has the highest goodput of all loads that satisfy this, the lowest such load on a tie.
\<close>

theorem static_load_is_safe_and_best:
  assumes "select_static_load rows limit = Inr load"
  shows "load \<in> set formal_concurrency_grid
    \<and> (\<exists>row \<in> set rows. \<exists>c1 \<in> set rows. lr_concurrency row = load \<and> lr_concurrency c1 = 1
        \<and> load_eligible (pf_double (lr_itl_p99_ms c1)) limit row
        \<and> (\<forall>other \<in> set rows. load_eligible (pf_double (lr_itl_p99_ms c1)) limit other \<longrightarrow>
             load_key other \<le> load_key row))"
proof -
  have cover: "set (map lr_concurrency rows) = set (formal_concurrency_grid @ [48])"
    using assms by (simp add: select_static_load_def)
  obtain c1 where c1: "List.find (\<lambda>row. lr_concurrency row = 1) rows = Some c1"
    using assms by (auto simp: select_static_load_def split: option.splits)
  let ?E = "load_eligible (pf_double (lr_itl_p99_ms c1)) limit"
  from assms c1 obtain r rs where f: "filter ?E rows = r # rs"
    and load: "load = lr_concurrency (max_key_from load_key r rs)"
    by (auto simp: select_static_load_def split: list.splits)
  let ?w = "max_key_from load_key r rs"
  have w: "?w \<in> set (filter ?E rows)" "\<forall>y \<in> set (filter ?E rows). load_key y \<le> load_key ?w"
    unfolding f using max_key_from [of load_key r rs] by blast+
  then have row: "?w \<in> set rows" "?E ?w" by auto
  have "c1 \<in> set rows" "lr_concurrency c1 = 1" using c1 by (auto simp: find_Some_iff)
  moreover have "load \<in> set (formal_concurrency_grid @ [48])"
    using row(1) load cover by (metis imageI set_map)
  moreover have "load \<le> 32" using row(2) load by (simp add: load_eligible_def confirmation_prompts_def)
  ultimately show ?thesis using row w(2) load by (auto simp: formal_concurrency_grid_def)
qed

definition example_rows :: "load_row list" where
  "example_rows = map (\<lambda>c. \<lparr>lr_concurrency = c, lr_decode_goodput_tps = Fin (of_int c),
     lr_itl_p99_ms = Fin 4, lr_oom_events = 0, lr_retractions = 0, lr_kv_token_capacity = 400\<rparr>)
     [1, 2, 4, 8, 16, 32, 48]"

theorem static_load_is_safe_and_best_witness:
  "\<exists>load. select_static_load example_rows 20 = Inr load \<and> load \<in> set formal_concurrency_grid"
proof -
  have "fl 8 = Fin 8" by code_simp
  then have "is_ok (select_static_load example_rows 20)"
    by (simp add: select_static_load_def example_rows_def formal_concurrency_grid_def check_load_row_def
        load_eligible_def confirmation_prompts_def insert_commute)
  then obtain load where l: "select_static_load example_rows 20 = Inr load" by (auto simp: is_ok_iff)
  from static_load_is_safe_and_best [OF l] l show ?thesis by blast
qed

lemma blocks_from_ok:
  assumes "\<forall>g xs. mset (snd (shuffle g xs)) = mset xs"
  shows "map cb_block (blocks_from shuffle g methods bs) = bs
    \<and> (\<forall>b \<in> set (blocks_from shuffle g methods bs). mset (cb_method_order b) = mset methods
          \<and> cb_reset_cohort_before_each b)"
proof (induction bs arbitrary: g)
  case (Cons b bs)
  obtain g' order where s: "shuffle g methods = (g', order)" by fastforce
  then have "mset order = mset methods" using assms by (metis snd_conv)
  with Cons.IH [of g'] s show ?case by simp
qed simp

text \<open>
  If the shuffle permutes its list, the confirmation blocks are numbered from 0, as many as
  asked, and each compares every method exactly once: the comparison is paired within each block.
\<close>

theorem confirmation_blocks_are_paired:
  assumes "\<forall>g xs. mset (snd (shuffle g xs)) = mset xs"
    and "paired_blocks shuffle seeded methods n = Inr blocks"
  shows "map cb_block blocks = int_range 0 n \<and> blocks \<noteq> []
    \<and> (\<forall>b \<in> set blocks. distinct (cb_method_order b) \<and> set (cb_method_order b) = set methods
          \<and> 2 \<le> length (cb_method_order b))"
proof -
  have b: "blocks = blocks_from shuffle seeded methods (int_range 0 n)" and n: "1 \<le> n"
    and m: "2 \<le> length methods" "distinct methods"
    using assms(2) by (auto simp: paired_blocks_def)
  note B = blocks_from_ok [OF assms(1), of seeded methods "int_range 0 n", folded b]
  have "blocks \<noteq> []" using B n by (auto simp: int_range_def)
  moreover have "distinct (cb_method_order x) \<and> set (cb_method_order x) = set methods
      \<and> 2 \<le> length (cb_method_order x)" if "x \<in> set blocks" for x
  proof -
    have "mset (cb_method_order x) = mset methods" using B that by blast
    then show ?thesis using m by (metis mset_eq_imp_distinct_iff mset_eq_setD size_mset)
  qed
  ultimately show ?thesis using B by blast
qed

theorem confirmation_blocks_are_paired_witness:
  "\<exists>blocks. confirmation_blocks (\<lambda>g xs. (g, rev xs)) () 8 = Inr blocks
     \<and> map cb_block blocks = int_range 0 8"
proof -
  let ?s = "\<lambda>g xs. (g :: unit, rev xs :: string list)"
  have perm: "\<forall>g xs. mset (snd (?s g xs)) = mset xs" by simp
  obtain blocks where b: "paired_blocks ?s () [''static'', ''tts'', ''l0''] 8 = Inr blocks"
    by (simp add: paired_blocks_def)
  from confirmation_blocks_are_paired [OF perm b] b show ?thesis
    by (auto simp: confirmation_blocks_def)
qed

text \<open>
  A confirmation slice that passes against the tuning winner agrees with it on all seventeen
  candidate fields, but not on the optimizer's \<open>epsilon\<close>: the comparison leaves it out, so two
  configurations that differ only in \<open>epsilon\<close> both pass against one winner.
\<close>

theorem slice_check_ignores_epsilon:
  "\<exists>c c' winner. assert_confirmation_slice_config c Tts winner 1 = Inr ()
     \<and> assert_confirmation_slice_config c' Tts winner 1 = Inr ()
     \<and> map_option (oc_epsilon \<circ> ac_optimizer) (cf_adaptation c)
         \<noteq> map_option (oc_epsilon \<circ> ac_optimizer) (cf_adaptation c')"
proof -
  let ?a = "example_adaptation Adam Request_Reset Serialized_Native_Scheduler"
  let ?a' = "?a\<lparr>ac_optimizer := (ac_optimizer ?a)\<lparr>oc_epsilon := Fin (1 / 4)\<rparr>\<rparr>"
  let ?c' = "example_run\<lparr>cf_adaptation := Some ?a'\<rparr>"
  let ?w = "adaptation_candidate_fields ?a"
  have "adaptation_candidate_fields ?a' = ?w" by (simp add: adaptation_candidate_fields_def)
  then have "assert_confirmation_slice_config ?c' Tts ?w 1 = Inr ()"
    by (simp add: assert_confirmation_slice_config_def candidate_fields_def)
      (simp add: example_run_def example_runtime_def)
  moreover have "assert_confirmation_slice_config example_run Tts ?w 1 = Inr ()"
    by (simp add: assert_confirmation_slice_config_def example_run_def example_runtime_def
        candidate_fields_def)
  moreover have "map_option (oc_epsilon \<circ> ac_optimizer) (cf_adaptation example_run)
      \<noteq> map_option (oc_epsilon \<circ> ac_optimizer) (cf_adaptation ?c')"
    by (simp add: example_run_def example_adaptation_def example_optimizer_def)
  ultimately show ?thesis by blast
qed

end
