(* ===== verification/Strict_Values.thy ===== *)
theory Strict_Values
  imports Digest
begin

text \<open>
  The strict decoding helpers of \<open>experiments/gpu_pool.py\<close>: a JSON value read back is accepted only
  with exactly the expected fields and types. Also the artifact sidecar, the canonical form of a PCI
  bus identity, and the union of monotonic intervals. The lemmas in \<open>strict_simps\<close> say what each
  helper accepts; they carry the round-trip proofs of the pool records.
\<close>

named_theorems strict_simps \<open>what the strict decoders accept\<close>

section \<open>Text\<close>

text \<open>\<open>repr\<close> of a \<open>str\<close> and of a list of them, as the messages print it.\<close>

definition py_printable :: "char \<Rightarrow> bool" where
  "py_printable c \<longleftrightarrow>
     (let n = of_char c :: nat in 32 \<le> n \<and> n \<le> 126 \<or> 161 \<le> n \<and> n \<noteq> 173)"

definition repr_char :: "char \<Rightarrow> char \<Rightarrow> string" where
  "repr_char q c =
     (if c = q \<or> c = CHR 0x5C then [CHR 0x5C, c]
      else if c = CHR 0x0A then [CHR 0x5C, CHR ''n'']
      else if c = CHR 0x0D then [CHR 0x5C, CHR ''r'']
      else if c = CHR 0x09 then [CHR 0x5C, CHR ''t'']
      else if py_printable c then [c]
      else let n = of_char c :: nat in
        CHR 0x5C # ''x'' @ [hex_digits ! (n div 16), hex_digits ! (n mod 16)])"

definition repr_str :: "string \<Rightarrow> string" where
  "repr_str s =
     (let q = (if CHR 0x27 \<in> set s \<and> dquote \<notin> set s then dquote else CHR 0x27)
      in q # concat (map (repr_char q) s) @ [q])"

definition repr_list :: "string list \<Rightarrow> string" where
  "repr_list xs = ''['' @ join '', '' (map repr_str xs) @ '']''"

definition repr_tuple :: "string list \<Rightarrow> string" where
  "repr_tuple xs =
     ''('' @ join '', '' (map repr_str xs) @ (if length xs = 1 then '','' else []) @ '')''"

text \<open>\<open>str.lower\<close> on the code points below 256.\<close>

definition lower_char :: "char \<Rightarrow> char" where
  "lower_char c =
     (let n = of_char c :: nat in
      if 65 \<le> n \<and> n \<le> 90 \<or> 192 \<le> n \<and> n \<le> 222 \<and> n \<noteq> 215 then char_of (n + 32) else c)"

definition py_lower :: "string \<Rightarrow> string" where
  "py_lower s = map lower_char s"

section \<open>Guards\<close>

definition single_line_text :: "string \<Rightarrow> bool" where
  "single_line_text s \<longleftrightarrow> strip s \<noteq> [] \<and> CHR 0x0A \<notin> set s"

definition require_text :: "string \<Rightarrow> string \<Rightarrow> unit res" where
  "require_text name value =
     raise_if (\<not> single_line_text value) (ValueError (name @ '' must be non-empty single-line text''))"

definition is_sha256 :: "string \<Rightarrow> bool" where
  "is_sha256 s \<longleftrightarrow> is_lower_hex 64 s"

definition require_sha256_text :: "string \<Rightarrow> string \<Rightarrow> unit res" where
  "require_sha256_text name value =
     raise_if (\<not> is_sha256 value) (ValueError (name @ '' must be a lower-case SHA-256''))"

definition positive_finite :: "pyfloat \<Rightarrow> bool" where
  "positive_finite x \<longleftrightarrow> isfinite x \<and> \<not> pf_le x (Fin 0)"

definition require_positive_finite :: "string \<Rightarrow> pyfloat \<Rightarrow> unit res" where
  "require_positive_finite name value =
     raise_if (\<not> positive_finite value) (ValueError (name @ '' must be finite and positive''))"

lemma require_text_Inr [simp]: "require_text name v = Inr u \<longleftrightarrow> single_line_text v"
  by (simp add: require_text_def)

lemma require_sha256_text_Inr [simp]: "require_sha256_text name v = Inr u \<longleftrightarrow> is_sha256 v"
  by (simp add: require_sha256_text_def)

lemma require_positive_finite_Inr [simp]: "require_positive_finite name v = Inr u \<longleftrightarrow> positive_finite v"
  by (simp add: require_positive_finite_def)

lemma is_sha256_content [simp]: "is_sha256 (content_sha256 v)"
  by (simp add: is_sha256_def)

lemma hex_not_space: "c \<in> set hex_digits \<Longrightarrow> \<not> py_space c \<and> c \<noteq> CHR 0x0A"
proof -
  have "list_all (\<lambda>c. \<not> py_space c \<and> c \<noteq> CHR 0x0A) hex_digits" by code_simp
  then show "c \<in> set hex_digits \<Longrightarrow> \<not> py_space c \<and> c \<noteq> CHR 0x0A" by (simp add: list_all_iff)
qed

lemma strip_nonempty: "c \<in> set s \<Longrightarrow> \<not> py_space c \<Longrightarrow> strip s \<noteq> []"
proof -
  assume "c \<in> set s" "\<not> py_space c"
  then have d: "dropWhile py_space s \<noteq> []" by (auto simp: dropWhile_eq_Nil_conv)
  then have "hd (dropWhile py_space s) \<in> set (rev (dropWhile py_space s))"
    "\<not> py_space (hd (dropWhile py_space s))"
    using hd_dropWhile [OF d] by auto
  then have "dropWhile py_space (rev (dropWhile py_space s)) \<noteq> []"
    by (metis dropWhile_eq_Nil_conv)
  then show "strip s \<noteq> []" by (simp add: strip_def)
qed

lemma sha256_single_line [simp]: "is_sha256 s \<Longrightarrow> single_line_text s"
proof -
  assume s: "is_sha256 s"
  then obtain c t where "s = c # t" by (cases s) (auto simp: is_sha256_def is_lower_hex_def)
  with s have "c \<in> set hex_digits" "\<forall>d \<in> set s. d \<in> set hex_digits"
    by (auto simp: is_sha256_def is_lower_hex_def list_all_iff)
  with \<open>s = c # t\<close> show ?thesis
    using hex_not_space strip_nonempty [of c s] by (auto simp: single_line_text_def)
qed

section \<open>Strict decoding\<close>

definition strict_object :: "string \<Rightarrow> json \<Rightarrow> string list \<Rightarrow> (string \<times> json) list res" where
  "strict_object name value fields =
     (case value of
        JObj row \<Rightarrow>
          let missing = filter (\<lambda>f. f \<notin> set (dkeys row)) (sort fields);
              unknown = filter (\<lambda>k. k \<notin> set fields) (sort (dkeys row))
          in if missing \<noteq> [] \<or> unknown \<noteq> []
             then Inl (ValueError (name @ '' fields differ: missing='' @ repr_list missing
                       @ '', unknown='' @ repr_list unknown))
             else Inr row
      | _ \<Rightarrow> Inl (TypeError (name @ '' must be an object with string keys'')))"

text \<open>\<open>row["key"]\<close>, with \<open>row\<close> a dictionary that has the key.\<close>

definition jfield :: "(string \<times> json) list \<Rightarrow> string \<Rightarrow> json" where
  "jfield row k = (case dget row k of Some v \<Rightarrow> v | None \<Rightarrow> JNull)"

definition strict_list :: "string \<Rightarrow> json \<Rightarrow> json list res" where
  "strict_list name value =
     (case value of JArr vs \<Rightarrow> Inr vs | _ \<Rightarrow> Inl (TypeError (name @ '' must be a JSON array'')))"

definition strict_int :: "string \<Rightarrow> json \<Rightarrow> int res" where
  "strict_int name value =
     (case value of JInt i \<Rightarrow> Inr i | _ \<Rightarrow> Inl (TypeError (name @ '' must be an integer'')))"

definition float_of_int :: "int \<Rightarrow> pyfloat res" where
  "float_of_int i =
     (let x = fl (of_int i)
      in if isfinite x then Inr x else Inl (OverflowError ''int too large to convert to float''))"

definition strict_float :: "string \<Rightarrow> json \<Rightarrow> pyfloat res" where
  "strict_float name value =
     (case value of
        JInt i \<Rightarrow> float_of_int i
      | JFloat x \<Rightarrow> if isfinite x then Inr x else Inl (ValueError (name @ '' must be finite''))
      | _ \<Rightarrow> Inl (TypeError (name @ '' must be numeric'')))"

definition strict_bool :: "string \<Rightarrow> json \<Rightarrow> bool res" where
  "strict_bool name value =
     (case value of JBool b \<Rightarrow> Inr b | _ \<Rightarrow> Inl (TypeError (name @ '' must be a boolean'')))"

definition strict_text :: "string \<Rightarrow> json \<Rightarrow> string res" where
  "strict_text name value =
     (case value of
        JStr s \<Rightarrow> rbind (require_text name s) (\<lambda>_. Inr s)
      | _ \<Rightarrow> Inl (TypeError (name @ '' must be text'')))"

definition optional_text :: "string \<Rightarrow> json \<Rightarrow> string option res" where
  "optional_text name value =
     (if value = JNull then Inr None else rbind (strict_text name value) (\<lambda>s. Inr (Some s)))"

definition optional_int :: "string \<Rightarrow> json \<Rightarrow> int option res" where
  "optional_int name value =
     (if value = JNull then Inr None else rbind (strict_int name value) (\<lambda>i. Inr (Some i)))"

definition optional_float :: "string \<Rightarrow> json \<Rightarrow> pyfloat option res" where
  "optional_float name value =
     (if value = JNull then Inr None else rbind (strict_float name value) (\<lambda>x. Inr (Some x)))"

text \<open>\<open>tuple(_strict_text(name, item) for item in _strict_list(list_name, value))\<close> and its integer form\<close>

definition strict_texts :: "string \<Rightarrow> string \<Rightarrow> json \<Rightarrow> string list res" where
  "strict_texts list_name name value = rbind (strict_list list_name value) (map_res (strict_text name))"

definition strict_ints :: "string \<Rightarrow> string \<Rightarrow> json \<Rightarrow> int list res" where
  "strict_ints list_name name value = rbind (strict_list list_name value) (map_res (strict_int name))"

text \<open>Encoding of optional values and tuples of text.\<close>

definition jopt :: "('a \<Rightarrow> json) \<Rightarrow> 'a option \<Rightarrow> json" where
  "jopt f x = (case x of None \<Rightarrow> JNull | Some y \<Rightarrow> f y)"

abbreviation jstrs :: "string list \<Rightarrow> json" where
  "jstrs xs \<equiv> JArr (map JStr xs)"

abbreviation jints :: "int list \<Rightarrow> json" where
  "jints xs \<equiv> JArr (map JInt xs)"

lemma strict_object_ok [strict_simps]:
  "set (dkeys row) = set fields \<Longrightarrow> strict_object name (JObj row) fields = Inr row"
  by (auto simp: strict_object_def filter_empty_conv)

lemma strict_object_Inr:
  "strict_object name v fields = Inr row \<longleftrightarrow> v = JObj row \<and> set (dkeys row) = set fields"
  by (cases v) (auto simp: strict_object_def Let_def filter_empty_conv)

lemma strict_list_ok [strict_simps]: "strict_list name (JArr vs) = Inr vs"
  by (simp add: strict_list_def)

lemma strict_int_ok [strict_simps]: "strict_int name (JInt i) = Inr i"
  by (simp add: strict_int_def)

lemma strict_float_ok [strict_simps]: "isfinite x \<Longrightarrow> strict_float name (JFloat x) = Inr x"
  by (simp add: strict_float_def)

lemma strict_bool_ok [strict_simps]: "strict_bool name (JBool b) = Inr b"
  by (simp add: strict_bool_def)

lemma strict_text_ok [strict_simps]: "single_line_text s \<Longrightarrow> strict_text name (JStr s) = Inr s"
  by (simp add: strict_text_def require_text_def)

lemma optional_text_ok [strict_simps]:
  "(\<forall>s. x = Some s \<longrightarrow> single_line_text s) \<Longrightarrow> optional_text name (jopt JStr x) = Inr x"
  by (cases x) (simp_all add: optional_text_def jopt_def strict_text_ok)

lemma optional_int_ok [strict_simps]: "optional_int name (jopt JInt x) = Inr x"
  by (cases x) (simp_all add: optional_int_def jopt_def strict_int_ok)

lemma optional_float_ok [strict_simps]:
  "(\<forall>y. x = Some y \<longrightarrow> isfinite y) \<Longrightarrow> optional_float name (jopt JFloat x) = Inr x"
  by (cases x) (simp_all add: optional_float_def jopt_def strict_float_ok)

lemma map_res_map: "\<forall>x \<in> set xs. g (f x) = Inr (h x) \<Longrightarrow> map_res g (map f xs) = Inr (map h xs)"
  by (induction xs) auto

lemma map_res_decode [strict_simps]: "\<forall>x \<in> set xs. g (f x) = Inr x \<Longrightarrow> map_res g (map f xs) = Inr xs"
  using map_res_map [of xs g f id] by simp

lemma strict_texts_ok [strict_simps]:
  "\<forall>x \<in> set xs. single_line_text x \<Longrightarrow> strict_texts list_name name (jstrs xs) = Inr xs"
  by (simp add: strict_texts_def strict_simps)

lemma strict_ints_ok [strict_simps]: "strict_ints list_name name (jints xs) = Inr xs"
  by (simp add: strict_ints_def strict_simps)

lemma positive_finite_isfinite [strict_simps]: "positive_finite x \<Longrightarrow> isfinite x"
  by (simp add: positive_finite_def)

section \<open>Artifact sidecars\<close>

record artifact_sidecar =
  as_schema_version :: int
  as_artifact_kind :: string
  as_artifact_sha256 :: string

definition artifact_sidecar_post_init :: "artifact_sidecar \<Rightarrow> artifact_sidecar res" where
  "artifact_sidecar_post_init s =
     rbind (raise_if (as_schema_version s \<noteq> 1)
       (ValueError ''only artifact-sidecar schema version 1 is supported'')) (\<lambda>_.
     rbind (require_text ''artifact_kind'' (as_artifact_kind s)) (\<lambda>_.
     rbind (require_sha256_text ''artifact_sha256'' (as_artifact_sha256 s)) (\<lambda>_. Inr s)))"

definition artifact_sidecar_to_dict :: "artifact_sidecar \<Rightarrow> json" where
  "artifact_sidecar_to_dict s = JObj
     [(''schema_version'', JInt (as_schema_version s)),
      (''artifact_kind'', JStr (as_artifact_kind s)),
      (''artifact_sha256'', JStr (as_artifact_sha256 s))]"

definition artifact_sidecar_from_dict :: "json \<Rightarrow> artifact_sidecar res" where
  "artifact_sidecar_from_dict value =
     rbind (strict_object ''artifact sidecar'' value
       [''schema_version'', ''artifact_kind'', ''artifact_sha256'']) (\<lambda>row.
     rbind (strict_int ''sidecar schema_version'' (jfield row ''schema_version'')) (\<lambda>version.
     rbind (strict_text ''artifact_kind'' (jfield row ''artifact_kind'')) (\<lambda>kind.
     rbind (strict_text ''artifact_sha256'' (jfield row ''artifact_sha256'')) (\<lambda>sha.
     artifact_sidecar_post_init
       \<lparr>as_schema_version = version, as_artifact_kind = kind, as_artifact_sha256 = sha\<rparr>))))"

text \<open>The argument \<open>sidecar: ArtifactSidecar | Mapping | None\<close>.\<close>

datatype sidecar_argument = No_Sidecar | Sidecar artifact_sidecar | Sidecar_Mapping json

definition validate_sidecar :: "string \<Rightarrow> string \<Rightarrow> sidecar_argument \<Rightarrow> unit res" where
  "validate_sidecar artifact_kind artifact_sha256 sidecar =
     (case sidecar of
        No_Sidecar \<Rightarrow> Inr ()
      | _ \<Rightarrow>
         rbind (case sidecar of Sidecar s \<Rightarrow> Inr s
                | Sidecar_Mapping j \<Rightarrow> artifact_sidecar_from_dict j) (\<lambda>parsed.
         rbind (raise_if (as_artifact_kind parsed \<noteq> artifact_kind)
           (ValueError ''artifact sidecar kind mismatch'')) (\<lambda>_.
         raise_if (as_artifact_sha256 parsed \<noteq> artifact_sha256)
           (ValueError ''artifact sidecar SHA-256 mismatch''))))"

lemma jfield_Cons [strict_simps]:
  "jfield ((k, v) # row) k' = (if k' = k then v else jfield row k')"
  by (simp add: jfield_def)

lemma artifact_sidecar_round_trip:
  "artifact_sidecar_post_init s = Inr s \<Longrightarrow> artifact_sidecar_from_dict (artifact_sidecar_to_dict s) = Inr s"
  by (simp add: artifact_sidecar_post_init_def artifact_sidecar_from_dict_def artifact_sidecar_to_dict_def
      strict_simps)

section \<open>PCI bus identities\<close>

definition is_hex_char :: "char \<Rightarrow> bool" where
  "is_hex_char c \<longleftrightarrow> c \<in> set ''0123456789abcdefABCDEF''"

text \<open>
  \<open>_PCI_QUERY_BDF.fullmatch\<close> for a domain of \<open>n\<close> digits: the groups domain, bus, device and function.
\<close>

definition pci_groups :: "nat \<Rightarrow> string \<Rightarrow> (string \<times> string \<times> string \<times> string) option" where
  "pci_groups n s =
     (let domain = take n s; bus = take 2 (drop (n + 1) s); device = take 2 (drop (n + 4) s);
          f = drop (n + 7) s
      in if length s = n + 8 \<and> s ! n = CHR '':'' \<and> s ! (n + 3) = CHR '':'' \<and> s ! (n + 6) = CHR ''.''
            \<and> list_all is_hex_char (domain @ bus @ device) \<and> list_all (\<lambda>c. c \<in> set ''01234567'') f
         then Some (domain, bus, device, f) else None)"

definition pci_match :: "string \<Rightarrow> (string \<times> string \<times> string \<times> string) option" where
  "pci_match s = (case pci_groups 4 s of Some g \<Rightarrow> Some g | None \<Rightarrow> pci_groups 8 s)"

definition canonical_pci_bus_id :: "string \<Rightarrow> string res" where
  "canonical_pci_bus_id pci_bus_id =
     (case pci_match (py_lower pci_bus_id) of
        None \<Rightarrow> Inl (ValueError ''GPU PCI bus identity is invalid'')
      | Some (domain, bus, device, f) \<Rightarrow>
          rbind (raise_if (31 < foldl (\<lambda>a c. 16 * a + hex_val c) 0 device)
            (ValueError ''GPU PCI bus identity is invalid'')) (\<lambda>_.
          rbind (if length domain = 8
                 then if take 4 domain \<noteq> ''0000'' then Inl (ValueError ''GPU PCI bus identity is invalid'')
                      else Inr (drop 4 domain)
                 else Inr domain) (\<lambda>sysfs_domain.
          Inr (sysfs_domain @ '':'' @ bus @ '':'' @ device @ ''.'' @ f))))"

section \<open>Monotonic intervals\<close>

text \<open>The loop over the sorted intervals; \<open>merged\<close> is kept with its last element first.\<close>

fun merge_loop :: "(int \<times> int) list \<Rightarrow> (int \<times> int) list \<Rightarrow> (int \<times> int) list res" where
  "merge_loop merged [] = Inr (rev merged)"
| "merge_loop merged ((start, finish) # rest) =
     (if start < 0 \<or> finish < start
      then Inl (ValueError ''monotonic intervals require 0 <= start <= finish'')
      else case merged of
        [] \<Rightarrow> merge_loop [(start, finish)] rest
      | (prior_start, prior_finish) # earlier \<Rightarrow>
          if prior_finish < start then merge_loop ((start, finish) # merged) rest
          else merge_loop ((prior_start, max prior_finish finish) # earlier) rest)"

definition merge_monotonic_intervals :: "(int \<times> int) list \<Rightarrow> (int \<times> int) list res" where
  "merge_monotonic_intervals intervals = merge_loop [] (sort intervals)"

definition interval_union_ns :: "(int \<times> int) list \<Rightarrow> int res" where
  "interval_union_ns intervals =
     rbind (merge_monotonic_intervals intervals) (\<lambda>merged.
     Inr (sum_list (map (\<lambda>(start, finish). finish - start) merged)))"

section \<open>Correctness of the helpers\<close>

text \<open>
  The nanoseconds an interval list covers, and the canonical lists: ordered intervals with a gap
  between any two.
\<close>

definition covered :: "(int \<times> int) list \<Rightarrow> int set" where
  "covered xs = (\<Union>(s, f) \<in> set xs. {s..<f})"

definition separated :: "(int \<times> int) list \<Rightarrow> bool" where
  "separated xs \<longleftrightarrow> sorted_wrt (\<lambda>a b. snd a < fst b) xs \<and> (\<forall>p \<in> set xs. fst p \<le> snd p)"

lemma covered_simps [simp]:
  "covered [] = {}" "covered (p # xs) = {fst p..<snd p} \<union> covered xs"
  "covered (xs @ ys) = covered xs \<union> covered ys" "covered (rev xs) = covered xs"
  by (auto simp: covered_def)

lemma covered_sort [simp]: "covered (sort xs) = covered xs"
  by (simp add: covered_def)

lemma merge_loop_ok:
  assumes "sorted rest" "\<forall>p \<in> set rest. 0 \<le> fst p \<and> fst p \<le> snd p" "separated (rev merged)"
    and "merged \<noteq> [] \<longrightarrow> (\<forall>p \<in> set rest. fst (hd merged) \<le> fst p)"
  shows "\<exists>ys. merge_loop merged rest = Inr ys \<and> separated ys \<and> covered ys = covered merged \<union> covered rest"
  using assms
proof (induction merged rest rule: merge_loop.induct)
  case (2 merged start finish rest)
  then have sf: "\<not> (start < 0 \<or> finish < start)" and rest: "\<forall>p \<in> set rest. start \<le> fst p" by force+
  show ?case
  proof (cases merged)
    case Nil
    with 2(1) [OF sf Nil] 2(4,5) rest sf show ?thesis by (simp add: separated_def)
  next
    case (Cons p earlier)
    obtain ps pf where p: "p = (ps, pf)" by (cases p)
    have le: "ps \<le> start" using 2(7) Cons p by simp
    show ?thesis
    proof (cases "pf < start")
      case True
      then show ?thesis
        using 2(2) [OF sf Cons p [symmetric]] 2(4-6) rest sf Cons p
        by (force simp: separated_def sorted_wrt_append)
    next
      case False
      have union: "{ps..<max pf finish} = {ps..<pf} \<union> {start..<finish}" using False le sf by auto
      from False show ?thesis
        using 2(3) [OF sf Cons p [symmetric]] 2(4-6) rest sf Cons p le
        by (fastforce simp: separated_def sorted_wrt_append union [simplified])
    qed
  qed
qed simp

lemma merge_loop_raises:
  "\<exists>p \<in> set rest. fst p < 0 \<or> snd p < fst p \<Longrightarrow>
   merge_loop merged rest = Inl (ValueError ''monotonic intervals require 0 <= start <= finish'')"
proof (induction rest arbitrary: merged)
  case (Cons p rest)
  show ?case
  proof (cases "fst p < 0 \<or> snd p < fst p")
    case False
    with Cons.prems have "\<exists>p \<in> set rest. fst p < 0 \<or> snd p < fst p" by auto
    note Cons.IH [OF this]
    with False show ?thesis by (cases p; cases merged) auto
  qed (cases p; auto)
qed simp

lemma separated_card:
  "separated xs \<Longrightarrow> int (card (covered xs)) = sum_list (map (\<lambda>(s, f). f - s) xs)"
proof (induction xs)
  case (Cons p xs)
  have "{fst p..<snd p} \<inter> covered xs = {}"
    using Cons.prems by (fastforce simp: separated_def covered_def)
  moreover have "finite (covered xs)" by (auto simp: covered_def)
  ultimately show ?case
    using Cons by (simp add: card_Un_disjoint separated_def case_prod_beta)
qed (simp add: separated_def)

lemma interval_union_exact:
  "if \<forall>(s, f) \<in> set xs. 0 \<le> s \<and> s \<le> f
   then \<exists>ys. merge_monotonic_intervals xs = Inr ys \<and> separated ys \<and> covered ys = covered xs
          \<and> interval_union_ns xs = Inr (int (card (covered xs)))
   else \<not> is_ok (merge_monotonic_intervals xs) \<and> \<not> is_ok (interval_union_ns xs)"
proof (cases "\<forall>(s, f) \<in> set xs. 0 \<le> s \<and> s \<le> f")
  case True
  then obtain ys where "merge_monotonic_intervals xs = Inr ys" "separated ys" "covered ys = covered xs"
    using merge_loop_ok [of "sort xs" "[]"]
    by (force simp: merge_monotonic_intervals_def separated_def)
  then show ?thesis using True using separated_card [of ys] by (simp add: interval_union_ns_def)
next
  case False
  then have "\<exists>p \<in> set (sort xs). fst p < 0 \<or> snd p < fst p" by force
  from merge_loop_raises [OF this, of "[]"] False show ?thesis
    by (auto simp: merge_monotonic_intervals_def interval_union_ns_def)
qed

lemma merge_monotonic_intervals_Inr:
  assumes "merge_monotonic_intervals xs = Inr ys"
  shows "\<forall>(s, f) \<in> set xs. 0 \<le> s \<and> s \<le> f" "separated ys" "covered ys = covered xs"
    "interval_union_ns xs = Inr (int (card (covered xs)))"
proof -
  from assms show valid: "\<forall>(s, f) \<in> set xs. 0 \<le> s \<and> s \<le> f"
    using interval_union_exact [of xs] by (auto split: if_splits)
  with assms interval_union_exact [of xs] show "separated ys" "covered ys = covered xs"
    "interval_union_ns xs = Inr (int (card (covered xs)))" by auto
qed

text \<open>
  Merging monotonic intervals returns the canonical list of separated intervals that covers
  exactly the same nanoseconds, and the union time is the number of nanoseconds covered, however
  the intervals overlap and in whatever order they come. It raises exactly when some interval is
  negative or reversed.
\<close>

theorem interval_union_is_exact:
  "if \<forall>(s, f) \<in> set xs. 0 \<le> s \<and> s \<le> f
   then \<exists>ys. merge_monotonic_intervals xs = Inr ys \<and> separated ys \<and> covered ys = covered xs
          \<and> interval_union_ns xs = Inr (int (card (covered xs)))
   else \<not> is_ok (merge_monotonic_intervals xs) \<and> \<not> is_ok (interval_union_ns xs)"
  by (rule interval_union_exact)

theorem interval_union_is_exact_witness:
  "interval_union_ns [(5, 9), (0, 4), (3, 6)] = Inr 9
   \<and> int (card (covered [(5, 9), (0, 4), (3, 6)])) = 9"
proof -
  have "interval_union_ns [(5, 9), (0, 4), (3, 6)] = Inr 9" by code_simp
  then show ?thesis
    using interval_union_is_exact [of "[(5, 9), (0, 4), (3, 6)]"] by (auto simp del: covered_simps)
qed

lemma lower_char_idem [simp]: "lower_char (lower_char c) = lower_char c"
  by (simp add: lower_char_def Let_def of_char_of)

lemma py_lower_idem [simp]: "py_lower (py_lower s) = py_lower s"
  by (simp add: py_lower_def)

lemma py_lower_fix: "py_lower s = s \<longleftrightarrow> (\<forall>c \<in> set s. lower_char c = c)"
  by (induction s) (auto simp: py_lower_def)

lemma pci_groups_Some:
  assumes "pci_groups n s = Some (domain, bus, device, f)"
  shows "s = domain @ CHR '':'' # bus @ CHR '':'' # device @ CHR ''.'' # f"
    and "length domain = n" "length bus = 2" "length device = 2" "length f = 1"
    and "list_all is_hex_char (domain @ bus @ device)" "list_all (\<lambda>c. c \<in> set ''01234567'') f"
proof -
  from assms have s: "length s = n + 8" "s ! n = CHR '':''" "s ! (n + 3) = CHR '':''" "s ! (n + 6) = CHR ''.''"
    and g: "domain = take n s" "bus = take 2 (drop (n + 1) s)" "device = take 2 (drop (n + 4) s)"
      "f = drop (n + 7) s"
    and h: "list_all is_hex_char (domain @ bus @ device)" "list_all (\<lambda>c. c \<in> set ''01234567'') f"
    by (auto simp: pci_groups_def Let_def split: if_splits)
  show "length domain = n" "length bus = 2" "length device = 2" "length f = 1" using s(1) g by simp_all
  show "list_all is_hex_char (domain @ bus @ device)" "list_all (\<lambda>c. c \<in> set ''01234567'') f"
    by (fact h)+
  have d1: "drop n s = CHR '':'' # drop (n + 1) s"
    and d2: "drop (n + 3) s = CHR '':'' # drop (n + 4) s"
    and d3: "drop (n + 6) s = CHR ''.'' # drop (n + 7) s"
    using s Cons_nth_drop_Suc [of n s] Cons_nth_drop_Suc [of "n + 3" s] Cons_nth_drop_Suc [of "n + 6" s]
    by (simp_all add: add.commute [of _ n])
  have "2 + (n + 1) = n + 3" "2 + (n + 4) = n + 6" by simp_all
  then have "drop (n + 1) s = bus @ drop (n + 3) s" "drop (n + 4) s = device @ drop (n + 6) s"
    unfolding g by (metis append_take_drop_id drop_drop)+
  with d1 d2 d3 g(1,4) show "s = domain @ CHR '':'' # bus @ CHR '':'' # device @ CHR ''.'' # f"
    by (metis append_take_drop_id)
qed

lemma pci_groups_build:
  assumes "length domain = n" "length bus = 2" "length device = 2" "length f = 1"
    and "list_all is_hex_char (domain @ bus @ device)" "list_all (\<lambda>c. c \<in> set ''01234567'') f"
  shows "pci_groups n (domain @ CHR '':'' # bus @ CHR '':'' # device @ CHR ''.'' # f)
    = Some (domain, bus, device, f)"
proof -
  from assms(2-4) obtain a b c d e where "bus = [a, b]" "device = [c, d]" "f = [e]"
    by (auto simp: numeral_2_eq_2 length_Suc_conv)
  then show ?thesis using assms by (auto simp: pci_groups_def Let_def nth_append)
qed

text \<open>
  The canonical form of a PCI bus identity is a fixed point: what the function returns it accepts
  unchanged, and it always has twelve characters. So the test of a device declaration accepts exactly
  the canonical identities.
\<close>

theorem canonical_pci_idempotent:
  assumes "canonical_pci_bus_id x = Inr y"
  shows "canonical_pci_bus_id y = Inr y \<and> length y = 12"
proof -
  obtain domain bus device f where pm: "pci_match (py_lower x) = Some (domain, bus, device, f)"
    using assms by (auto simp: canonical_pci_bus_id_def split: option.splits)
  then obtain n where n: "n = 4 \<or> n = 8" and m: "pci_groups n (py_lower x) = Some (domain, bus, device, f)"
    by (auto simp: pci_match_def split: option.splits)
  define d where "d = (if n = 8 then drop 4 domain else domain)"
  note g = pci_groups_Some [OF m]
  have dev: "\<not> 31 < foldl (\<lambda>a c. 16 * a + hex_val c) 0 device"
    and y: "y = d @ CHR '':'' # bus @ CHR '':'' # device @ CHR ''.'' # f"
    using assms n g(2) by (simp_all add: canonical_pci_bus_id_def pm d_def split: if_splits)
  have d: "length d = 4" "set d \<subseteq> set domain" using g(2) n by (auto simp: d_def dest: in_set_dropD)
  have "\<forall>c \<in> set (py_lower x). lower_char c = c" using py_lower_fix [of "py_lower x"] by simp
  moreover have "set y \<subseteq> set (py_lower x)" unfolding y g(1) using d(2) by auto
  ultimately have low: "py_lower y = y" by (auto simp: py_lower_fix)
  have "list_all is_hex_char (d @ bus @ device)" using g(6) d(2) by (auto simp: list_all_iff)
  from pci_groups_build [OF d(1) g(3-5) this g(7)]
  have "pci_groups 4 y = Some (d, bus, device, f)" by (simp only: y)
  then have "pci_match (py_lower y) = Some (d, bus, device, f)" unfolding low by (simp add: pci_match_def)
  with dev d(1) g(3-5) show ?thesis by (simp add: canonical_pci_bus_id_def) (simp add: y)
qed

theorem canonical_pci_idempotent_witness:
  "canonical_pci_bus_id ''00000000:3B:00.0'' = Inr ''0000:3b:00.0''
   \<and> canonical_pci_bus_id ''0000:3b:00.0'' = Inr ''0000:3b:00.0''"
proof -
  have "canonical_pci_bus_id ''00000000:3B:00.0'' = Inr ''0000:3b:00.0''" by code_simp
  then show ?thesis using canonical_pci_idempotent [of "''00000000:3B:00.0''"] by simp
qed

end
