(* ===== verification/Registry.thy ===== *)
theory Registry
  imports Strict_Values
begin

text \<open>
  The cells and receipts of the experiment registry (\<open>experiments/registry.py\<close>), their strict JSON
  form (\<open>experiments/gpu_pool.py\<close>), and the release predicates that decide whether a cell can be
  dispatched (\<open>experiments/stage_activation.py\<close>). A registry is its definitions, its cells and its
  digest; how the digest and the recipe declarations are computed is not modelled. Shown: the strict
  JSON form of a cell reads back to the same cell, valid receipts always form a prefix of the
  experiment order and the ready experiment is the next one, and what a dispatchable cell is.
\<close>

section \<open>Cells\<close>

datatype workload_class = TUNING | CORRECTNESS | HEADLINE | PROFILE | DOWNLOAD | COMPILE

fun workload_text :: "workload_class \<Rightarrow> string" where
  "workload_text TUNING = ''tuning''"
| "workload_text CORRECTNESS = ''correctness''"
| "workload_text HEADLINE = ''headline''"
| "workload_text PROFILE = ''profile''"
| "workload_text DOWNLOAD = ''download''"
| "workload_text COMPILE = ''compile''"

datatype cell_status = UNMEASURED | BLOCKED | NOT_APPLICABLE

fun status_text :: "cell_status \<Rightarrow> string" where
  "status_text UNMEASURED = ''UNMEASURED''"
| "status_text BLOCKED = ''BLOCKED''"
| "status_text NOT_APPLICABLE = ''N/A''"

text \<open>The call of a string enumeration, \<open>Kind(value)\<close>.\<close>

definition enum_of :: "string \<Rightarrow> ('a \<Rightarrow> string) \<Rightarrow> 'a list \<Rightarrow> string \<Rightarrow> 'a res" where
  "enum_of kind text members value =
     (case find (\<lambda>m. text m = value) members of
        Some m \<Rightarrow> Inr m
      | None \<Rightarrow> Inl (ValueError (repr_str value @ '' is not a valid '' @ kind)))"

abbreviation workload_classes :: "workload_class list" where
  "workload_classes \<equiv> [TUNING, CORRECTNESS, HEADLINE, PROFILE, DOWNLOAD, COMPILE]"

definition workload_of_text :: "string \<Rightarrow> workload_class res" where
  "workload_of_text = enum_of ''WorkloadClass'' workload_text workload_classes"

definition status_of_text :: "string \<Rightarrow> cell_status res" where
  "status_of_text = enum_of ''CellStatus'' status_text [UNMEASURED, BLOCKED, NOT_APPLICABLE]"

record cell_identity =
  xi_experiment :: string
  xi_model :: string
  xi_backend :: string
  xi_task :: string
  xi_method :: string
  xi_scope :: "string option"
  xi_rank :: "int option"
  xi_alpha_over_rank :: "pyfloat option"
  xi_optimizer :: "string option"
  xi_learning_rate :: "pyfloat option"
  xi_schedule :: "string option"
  xi_context :: "int option"
  xi_regime :: string
  xi_width :: "int option"
  xi_arrival :: string
  xi_slo :: string
  xi_cohort :: string
  xi_topology :: string
  xi_seed :: int
  xi_block :: int
  xi_gpu_uuids :: "string list"
  xi_parameterization :: string
  xi_variant :: string
  xi_concurrency :: "int option"
  xi_load_factor :: "pyfloat option"
  xi_cohort_count :: int

definition opt_text :: "string \<Rightarrow> string option \<Rightarrow> unit res" where
  "opt_text name x = (case x of None \<Rightarrow> Inr () | Some s \<Rightarrow> require_text name s)"

abbreviation below_one :: "int option \<Rightarrow> bool" where
  "below_one x \<equiv> (case x of None \<Rightarrow> False | Some i \<Rightarrow> i < 1)"

abbreviation not_positive :: "pyfloat option \<Rightarrow> bool" where
  "not_positive x \<equiv> (case x of None \<Rightarrow> False | Some y \<Rightarrow> \<not> positive_finite y)"

definition cell_identity_post_init :: "cell_identity \<Rightarrow> cell_identity res" where
  "cell_identity_post_init i =
     rbind (check_all (\<lambda>(name, value). require_text name value)
       [(''experiment'', xi_experiment i), (''model'', xi_model i), (''backend'', xi_backend i),
        (''task'', xi_task i), (''method'', xi_method i), (''regime'', xi_regime i),
        (''arrival'', xi_arrival i), (''slo'', xi_slo i), (''cohort'', xi_cohort i),
        (''topology'', xi_topology i), (''parameterization'', xi_parameterization i),
        (''variant'', xi_variant i)]) (\<lambda>_.
     rbind (opt_text ''scope'' (xi_scope i)) (\<lambda>_.
     rbind (opt_text ''optimizer'' (xi_optimizer i)) (\<lambda>_.
     rbind (opt_text ''schedule'' (xi_schedule i)) (\<lambda>_.
     rbind (raise_if (below_one (xi_rank i)) (ValueError ''rank must be positive'')) (\<lambda>_.
     rbind (raise_if (not_positive (xi_alpha_over_rank i))
       (ValueError ''alpha_over_rank must be finite and positive'')) (\<lambda>_.
     rbind (if xi_parameterization i = ''lora''
            then raise_if (xi_rank i = None \<or> xi_alpha_over_rank i = None)
              (ValueError ''LoRA identities require rank and alpha_over_rank'')
            else raise_if (xi_rank i \<noteq> None \<or> xi_alpha_over_rank i \<noteq> None)
              (ValueError ''rank fields are valid only for LoRA identities'')) (\<lambda>_.
     rbind (raise_if (not_positive (xi_learning_rate i))
       (ValueError ''learning_rate must be finite and positive'')) (\<lambda>_.
     rbind (raise_if (below_one (xi_context i)) (ValueError ''context must be positive'')) (\<lambda>_.
     rbind (raise_if (below_one (xi_width i)) (ValueError ''width must be positive'')) (\<lambda>_.
     rbind (raise_if (xi_seed i < 0 \<or> xi_block i < 0)
       (ValueError ''seed and block must be non-negative'')) (\<lambda>_.
     rbind (raise_if (below_one (xi_concurrency i)) (ValueError ''concurrency must be positive'')) (\<lambda>_.
     rbind (raise_if (not_positive (xi_load_factor i))
       (ValueError ''load_factor must be finite and positive'')) (\<lambda>_.
     rbind (raise_if (xi_cohort_count i < 1) (ValueError ''cohort_count must be positive'')) (\<lambda>_.
     rbind (raise_if (xi_gpu_uuids i = [] \<or> \<not> distinct (xi_gpu_uuids i))
       (ValueError ''a cell must identify one or more distinct GPU slots'')) (\<lambda>_.
     rbind (check_all (require_text ''GPU UUID'') (xi_gpu_uuids i)) (\<lambda>_. Inr i))))))))))))))))"

definition cell_identity_to_dict :: "cell_identity \<Rightarrow> json" where
  "cell_identity_to_dict i = JObj
     [(''experiment'', JStr (xi_experiment i)), (''model'', JStr (xi_model i)),
      (''backend'', JStr (xi_backend i)), (''task'', JStr (xi_task i)), (''method'', JStr (xi_method i)),
      (''scope'', jopt JStr (xi_scope i)), (''rank'', jopt JInt (xi_rank i)),
      (''alpha_over_rank'', jopt JFloat (xi_alpha_over_rank i)),
      (''optimizer'', jopt JStr (xi_optimizer i)),
      (''learning_rate'', jopt JFloat (xi_learning_rate i)), (''schedule'', jopt JStr (xi_schedule i)),
      (''context'', jopt JInt (xi_context i)), (''regime'', JStr (xi_regime i)),
      (''width'', jopt JInt (xi_width i)), (''arrival'', JStr (xi_arrival i)), (''slo'', JStr (xi_slo i)),
      (''cohort'', JStr (xi_cohort i)), (''topology'', JStr (xi_topology i)), (''seed'', JInt (xi_seed i)),
      (''block'', JInt (xi_block i)), (''gpu_uuids'', jstrs (xi_gpu_uuids i)),
      (''parameterization'', JStr (xi_parameterization i)), (''variant'', JStr (xi_variant i)),
      (''concurrency'', jopt JInt (xi_concurrency i)), (''load_factor'', jopt JFloat (xi_load_factor i)),
      (''cohort_count'', JInt (xi_cohort_count i))]"

definition cell_identity_fields :: "string list" where
  "cell_identity_fields =
     [''experiment'', ''model'', ''backend'', ''task'', ''method'', ''scope'', ''rank'', ''alpha_over_rank'',
      ''optimizer'', ''learning_rate'', ''schedule'', ''context'', ''regime'', ''width'', ''arrival'', ''slo'',
      ''cohort'', ''topology'', ''seed'', ''block'', ''gpu_uuids'', ''parameterization'', ''variant'',
      ''concurrency'', ''load_factor'', ''cohort_count'']"

definition cell_identity_from_dict :: "json \<Rightarrow> cell_identity res" where
  "cell_identity_from_dict value =
     rbind (strict_object ''cell identity'' value cell_identity_fields) (\<lambda>row.
     rbind (strict_text ''experiment'' (jfield row ''experiment'')) (\<lambda>experiment.
     rbind (strict_text ''model'' (jfield row ''model'')) (\<lambda>model.
     rbind (strict_text ''backend'' (jfield row ''backend'')) (\<lambda>backend.
     rbind (strict_text ''task'' (jfield row ''task'')) (\<lambda>task.
     rbind (strict_text ''method'' (jfield row ''method'')) (\<lambda>arm.
     rbind (optional_text ''scope'' (jfield row ''scope'')) (\<lambda>scope.
     rbind (optional_int ''rank'' (jfield row ''rank'')) (\<lambda>rank.
     rbind (optional_float ''alpha_over_rank'' (jfield row ''alpha_over_rank'')) (\<lambda>alpha_over_rank.
     rbind (optional_text ''optimizer'' (jfield row ''optimizer'')) (\<lambda>optimizer.
     rbind (optional_float ''learning_rate'' (jfield row ''learning_rate'')) (\<lambda>learning_rate.
     rbind (optional_text ''schedule'' (jfield row ''schedule'')) (\<lambda>schedule.
     rbind (optional_int ''context'' (jfield row ''context'')) (\<lambda>ctx.
     rbind (strict_text ''regime'' (jfield row ''regime'')) (\<lambda>regime.
     rbind (optional_int ''width'' (jfield row ''width'')) (\<lambda>width.
     rbind (strict_text ''arrival'' (jfield row ''arrival'')) (\<lambda>arrival.
     rbind (strict_text ''slo'' (jfield row ''slo'')) (\<lambda>slo.
     rbind (strict_text ''cohort'' (jfield row ''cohort'')) (\<lambda>cohort.
     rbind (strict_text ''topology'' (jfield row ''topology'')) (\<lambda>topology.
     rbind (strict_int ''seed'' (jfield row ''seed'')) (\<lambda>seed.
     rbind (strict_int ''block'' (jfield row ''block'')) (\<lambda>block.
     rbind (strict_texts ''gpu_uuids'' ''cell GPU UUID'' (jfield row ''gpu_uuids'')) (\<lambda>gpu_uuids.
     rbind (strict_text ''parameterization'' (jfield row ''parameterization'')) (\<lambda>parameterization.
     rbind (strict_text ''variant'' (jfield row ''variant'')) (\<lambda>variant.
     rbind (optional_int ''concurrency'' (jfield row ''concurrency'')) (\<lambda>concurrency.
     rbind (optional_float ''load_factor'' (jfield row ''load_factor'')) (\<lambda>load_factor.
     rbind (strict_int ''cohort_count'' (jfield row ''cohort_count'')) (\<lambda>cohort_count.
     cell_identity_post_init
       \<lparr>xi_experiment = experiment, xi_model = model, xi_backend = backend, xi_task = task,
        xi_method = arm, xi_scope = scope, xi_rank = rank, xi_alpha_over_rank = alpha_over_rank,
        xi_optimizer = optimizer, xi_learning_rate = learning_rate, xi_schedule = schedule,
        xi_context = ctx, xi_regime = regime, xi_width = width, xi_arrival = arrival, xi_slo = slo,
        xi_cohort = cohort, xi_topology = topology, xi_seed = seed, xi_block = block,
        xi_gpu_uuids = gpu_uuids, xi_parameterization = parameterization, xi_variant = variant,
        xi_concurrency = concurrency, xi_load_factor = load_factor,
        xi_cohort_count = cohort_count\<rparr>)))))))))))))))))))))))))))"

text \<open>
  \<open>content_sha256(self)\<close> of a dataclass: \<open>_canonical\<close> turns it into the dictionary of its fields, which
  is the dictionary above.
\<close>

definition cell_identity_digest :: "cell_identity \<Rightarrow> string" where
  "cell_identity_digest i = content_sha256 (cell_identity_to_dict i)"

lemma opt_text_Inr [simp]: "opt_text name x = Inr u \<longleftrightarrow> (\<forall>s. x = Some s \<longrightarrow> single_line_text s)"
  by (auto simp: opt_text_def split: option.splits)

lemma optional_positive [strict_simps]: "\<not> not_positive x \<Longrightarrow> optional_float name (jopt JFloat x) = Inr x"
  by (rule optional_float_ok) (auto simp: positive_finite_def)

lemma cell_identity_post_init_Inr:
  assumes "cell_identity_post_init i = Inr i"
  shows "single_line_text (xi_experiment i)" "single_line_text (xi_model i)" "single_line_text (xi_backend i)"
      "single_line_text (xi_task i)" "single_line_text (xi_method i)" "single_line_text (xi_regime i)"
      "single_line_text (xi_arrival i)" "single_line_text (xi_slo i)" "single_line_text (xi_cohort i)"
      "single_line_text (xi_topology i)" "single_line_text (xi_parameterization i)"
      "single_line_text (xi_variant i)"
    and "\<forall>s. xi_scope i = Some s \<longrightarrow> single_line_text s" "\<forall>s. xi_optimizer i = Some s \<longrightarrow> single_line_text s"
      "\<forall>s. xi_schedule i = Some s \<longrightarrow> single_line_text s"
    and "\<not> not_positive (xi_alpha_over_rank i)" "\<not> not_positive (xi_learning_rate i)"
      "\<not> not_positive (xi_load_factor i)"
    and "\<forall>u \<in> set (xi_gpu_uuids i). single_line_text u"
  using assms by (simp_all add: cell_identity_post_init_def)

lemma cell_identity_round_trip:
  assumes "cell_identity_post_init i = Inr i"
  shows "cell_identity_from_dict (cell_identity_to_dict i) = Inr i"
  by (simp add: cell_identity_from_dict_def cell_identity_to_dict_def cell_identity_fields_def strict_simps
      cell_identity_post_init_Inr [OF assms]) (use assms in \<open>cases i; simp\<close>)

subsection \<open>Resource claims and cells\<close>

record resource_claim =
  rc_gpu_uuids :: "string list"
  rc_ports :: "int list"
  rc_cache_root :: string
  rc_evidence_root :: string
  rc_workload_class :: workload_class

definition resource_claim_post_init :: "resource_claim \<Rightarrow> resource_claim res" where
  "resource_claim_post_init c =
     rbind (raise_if (rc_gpu_uuids c = [] \<or> \<not> distinct (rc_gpu_uuids c))
       (ValueError ''a resource claim must reserve one or more GPUs'')) (\<lambda>_.
     rbind (raise_if (rc_ports c = [] \<or> \<not> distinct (rc_ports c))
       (ValueError ''resource ports must be non-empty and unique'')) (\<lambda>_.
     rbind (raise_if (list_ex (\<lambda>port. port < 1024 \<or> 65535 < port) (rc_ports c))
       (ValueError ''resource ports must be in [1024, 65535]'')) (\<lambda>_.
     rbind (require_text ''cache_root'' (rc_cache_root c)) (\<lambda>_.
     rbind (require_text ''evidence_root'' (rc_evidence_root c)) (\<lambda>_. Inr c)))))"

definition rc_gpu_count :: "resource_claim \<Rightarrow> int" where
  "rc_gpu_count c = int (length (rc_gpu_uuids c))"

definition rc_exclusive :: "resource_claim \<Rightarrow> bool" where
  "rc_exclusive c \<longleftrightarrow> 1 < rc_gpu_count c \<or> rc_workload_class c \<in> {PROFILE, DOWNLOAD, COMPILE}"

definition resource_claim_to_dict :: "resource_claim \<Rightarrow> json" where
  "resource_claim_to_dict c = JObj
     [(''gpu_uuids'', jstrs (rc_gpu_uuids c)), (''ports'', jints (rc_ports c)),
      (''cache_root'', JStr (rc_cache_root c)), (''evidence_root'', JStr (rc_evidence_root c)),
      (''workload_class'', JStr (workload_text (rc_workload_class c)))]"

definition resource_claim_from_dict :: "json \<Rightarrow> resource_claim res" where
  "resource_claim_from_dict value =
     rbind (strict_object ''registered resource claim'' value
       [''gpu_uuids'', ''ports'', ''cache_root'', ''evidence_root'', ''workload_class'']) (\<lambda>row.
     rbind (strict_texts ''gpu_uuids'' ''registered GPU UUID'' (jfield row ''gpu_uuids'')) (\<lambda>gpu_uuids.
     rbind (strict_ints ''ports'' ''registered port'' (jfield row ''ports'')) (\<lambda>ports.
     rbind (strict_text ''cache_root'' (jfield row ''cache_root'')) (\<lambda>cache_root.
     rbind (strict_text ''evidence_root'' (jfield row ''evidence_root'')) (\<lambda>evidence_root.
     rbind (rbind (strict_text ''workload_class'' (jfield row ''workload_class'')) workload_of_text)
       (\<lambda>workload.
     resource_claim_post_init
       \<lparr>rc_gpu_uuids = gpu_uuids, rc_ports = ports, rc_cache_root = cache_root,
        rc_evidence_root = evidence_root, rc_workload_class = workload\<rparr>))))))"

record experiment_cell =
  xc_identity :: cell_identity
  xc_resources :: resource_claim
  xc_status :: cell_status
  xc_reason_code :: string
  xc_reason :: string

text \<open>\<open>_REASON_CODE = re.compile(r"[a-z0-9][a-z0-9_.-]*").fullmatch\<close>\<close>

definition reason_head :: string where
  "reason_head = ''abcdefghijklmnopqrstuvwxyz0123456789''"

definition reason_tail :: string where
  "reason_tail = ''abcdefghijklmnopqrstuvwxyz0123456789_.-''"

definition is_reason_code :: "string \<Rightarrow> bool" where
  "is_reason_code s \<longleftrightarrow>
     (case s of [] \<Rightarrow> False
      | c # t \<Rightarrow> c \<in> set reason_head \<and> list_all (\<lambda>d. d \<in> set reason_tail) t)"

definition experiment_cell_post_init :: "experiment_cell \<Rightarrow> experiment_cell res" where
  "experiment_cell_post_init c =
     rbind (raise_if (xi_gpu_uuids (xc_identity c) \<noteq> rc_gpu_uuids (xc_resources c))
       (ValueError ''cell identity and resource GPU assignments differ'')) (\<lambda>_.
     rbind (raise_if (\<not> is_reason_code (xc_reason_code c))
       (ValueError ''reason_code must be a stable lower-case token'')) (\<lambda>_.
     rbind (require_text ''reason'' (xc_reason c)) (\<lambda>_. Inr c)))"

definition cell_id :: "experiment_cell \<Rightarrow> string" where
  "cell_id c = cell_identity_digest (xc_identity c)"

definition experiment_cell_to_dict :: "experiment_cell \<Rightarrow> json" where
  "experiment_cell_to_dict c = JObj
     [(''identity'', cell_identity_to_dict (xc_identity c)),
      (''resources'', resource_claim_to_dict (xc_resources c)),
      (''status'', JStr (status_text (xc_status c))),
      (''reason_code'', JStr (xc_reason_code c)), (''reason'', JStr (xc_reason c))]"

definition experiment_cell_sha256 :: "experiment_cell \<Rightarrow> string" where
  "experiment_cell_sha256 c = content_sha256 (experiment_cell_to_dict c)"

definition experiment_cell_from_dict :: "json \<Rightarrow> experiment_cell res" where
  "experiment_cell_from_dict value =
     rbind (strict_object ''experiment cell'' value
       [''identity'', ''resources'', ''status'', ''reason_code'', ''reason'']) (\<lambda>row.
     rbind (cell_identity_from_dict (jfield row ''identity'')) (\<lambda>identity.
     rbind (resource_claim_from_dict (jfield row ''resources'')) (\<lambda>resources.
     rbind (rbind (strict_text ''cell status'' (jfield row ''status'')) status_of_text) (\<lambda>status.
     rbind (strict_text ''reason_code'' (jfield row ''reason_code'')) (\<lambda>reason_code.
     rbind (strict_text ''reason'' (jfield row ''reason'')) (\<lambda>reason.
     experiment_cell_post_init
       \<lparr>xc_identity = identity, xc_resources = resources, xc_status = status,
        xc_reason_code = reason_code, xc_reason = reason\<rparr>))))))"

definition runnable :: "experiment_cell \<Rightarrow> bool" where
  "runnable c \<longleftrightarrow> xc_status c = UNMEASURED"

definition with_status :: "experiment_cell \<Rightarrow> cell_status \<Rightarrow> string \<Rightarrow> string \<Rightarrow> experiment_cell res" where
  "with_status c status reason_code reason =
     experiment_cell_post_init
       (c\<lparr>xc_status := status, xc_reason_code := reason_code, xc_reason := reason\<rparr>)"

text \<open>A cell object exists only if all three constructors accepted it.\<close>

definition valid_cell :: "experiment_cell \<Rightarrow> bool" where
  "valid_cell c \<longleftrightarrow> cell_identity_post_init (xc_identity c) = Inr (xc_identity c)
     \<and> resource_claim_post_init (xc_resources c) = Inr (xc_resources c)
     \<and> experiment_cell_post_init c = Inr c"

lemma single_line_enum [simp]:
  "single_line_text (workload_text w)" "single_line_text (status_text s)"
proof -
  have "list_all (\<lambda>w. single_line_text (workload_text w)) workload_classes" by code_simp
  then show "single_line_text (workload_text w)" by (cases w) simp_all
  have "list_all (\<lambda>s. single_line_text (status_text s)) [UNMEASURED, BLOCKED, NOT_APPLICABLE]" by code_simp
  then show "single_line_text (status_text s)" by (cases s) simp_all
qed

lemma enum_of_text [strict_simps]:
  "workload_of_text (workload_text w) = Inr w" "status_of_text (status_text s) = Inr s"
  by (cases w; simp add: workload_of_text_def enum_of_def)
    (cases s; simp add: status_of_text_def enum_of_def)

lemma reason_code_text: "is_reason_code s \<Longrightarrow> single_line_text s"
proof -
  have "list_all (\<lambda>c. \<not> py_space c \<and> c \<noteq> CHR 0x0A) reason_tail"
    "list_all (\<lambda>c. c \<in> set reason_tail) reason_head" by code_simp+
  then have ok: "c \<in> set reason_tail \<Longrightarrow> \<not> py_space c \<and> c \<noteq> CHR 0x0A"
    "c \<in> set reason_head \<Longrightarrow> c \<in> set reason_tail" for c
    by (simp_all add: list_all_iff)
  assume "is_reason_code s"
  then obtain c t where "s = c # t" "\<forall>d \<in> set s. d \<in> set reason_tail"
    using ok(2) by (auto simp: is_reason_code_def list_all_iff split: list.splits)
  with ok(1) strip_nonempty [of c s] show "single_line_text s" by (auto simp: single_line_text_def)
qed

lemma resource_claim_round_trip:
  assumes "resource_claim_post_init c = Inr c" "\<forall>u \<in> set (rc_gpu_uuids c). single_line_text u"
  shows "resource_claim_from_dict (resource_claim_to_dict c) = Inr c"
proof -
  have t: "single_line_text (rc_cache_root c)" "single_line_text (rc_evidence_root c)"
    using assms(1) by (simp_all add: resource_claim_post_init_def)
  show ?thesis
    by (simp add: resource_claim_from_dict_def resource_claim_to_dict_def strict_simps assms(2) t)
      (use assms in \<open>cases c; simp\<close>)
qed

lemma experiment_cell_round_trip [strict_simps]:
  assumes "valid_cell c"
  shows "experiment_cell_from_dict (experiment_cell_to_dict c) = Inr c"
proof -
  note v = assms [unfolded valid_cell_def]
  have i: "cell_identity_from_dict (cell_identity_to_dict (xc_identity c)) = Inr (xc_identity c)"
    using v cell_identity_round_trip by blast
  have "\<forall>u \<in> set (rc_gpu_uuids (xc_resources c)). single_line_text u"
    using v cell_identity_post_init_Inr(19) [of "xc_identity c"] by (simp add: experiment_cell_post_init_def)
  then have r: "resource_claim_from_dict (resource_claim_to_dict (xc_resources c)) = Inr (xc_resources c)"
    using v resource_claim_round_trip by blast
  have t: "single_line_text (xc_reason_code c)" "single_line_text (xc_reason c)"
    using v by (auto simp: experiment_cell_post_init_def reason_code_text)
  show ?thesis
    by (simp add: experiment_cell_from_dict_def experiment_cell_to_dict_def strict_simps i r t)
      (use v in \<open>cases c; simp\<close>)
qed

end
