(* ===== verification/Stages.thy ===== *)
theory Stages
  imports Registry
begin

text \<open>
  The stages of the registry: experiment definitions, sealed receipts, receipt validation and the
  next ready experiment (\<open>experiments/registry.py\<close>), and the release predicates on cells
  (\<open>experiments/stage_activation.py\<close>). Shown: receipts that validate complete a prefix of the
  experiment order with a hash chain through it, the ready experiment is the next one, and a sealed
  receipt extends the chain; and which cells a release can dispatch.
\<close>

section \<open>Definitions and receipts\<close>

record axis_spec =
  ax_name :: string
  ax_values :: "json list"

definition axis_spec_post_init :: "axis_spec \<Rightarrow> axis_spec res" where
  "axis_spec_post_init a =
     rbind (require_text ''axis name'' (ax_name a)) (\<lambda>_.
     rbind (raise_if (ax_values a = []) (ValueError ''an experiment axis cannot be empty'')) (\<lambda>_.
     rbind (raise_if (\<not> distinct (map content_sha256 (ax_values a)))
       (ValueError (''axis '' @ repr_str (ax_name a) @ '' contains duplicate values''))) (\<lambda>_. Inr a)))"

record experiment_definition =
  ed_name :: string
  ed_dependencies :: "string list"
  ed_locked_outputs :: "string list"
  ed_axes :: "axis_spec list"

definition experiment_definition_post_init :: "experiment_definition \<Rightarrow> experiment_definition res" where
  "experiment_definition_post_init d =
     rbind (require_text ''experiment name'' (ed_name d)) (\<lambda>_.
     rbind (raise_if (\<not> distinct (ed_dependencies d))
       (ValueError ''experiment dependencies must be unique'')) (\<lambda>_.
     rbind (raise_if (ed_locked_outputs d = [] \<or> \<not> distinct (ed_locked_outputs d))
       (ValueError ''locked outputs must be non-empty and unique'')) (\<lambda>_.
     rbind (raise_if (\<not> distinct (map ax_name (ed_axes d)))
       (ValueError ''experiment axis names must be unique'')) (\<lambda>_. Inr d))))"

record locked_output =
  lo_name :: string
  lo_content_sha256 :: string

definition locked_output_post_init :: "locked_output \<Rightarrow> locked_output res" where
  "locked_output_post_init l =
     rbind (require_text ''locked output name'' (lo_name l)) (\<lambda>_.
     rbind (raise_if (\<not> is_sha256 (lo_content_sha256 l))
       (ValueError ''locked output content_sha256 must be lower-case SHA-256'')) (\<lambda>_. Inr l))"

record experiment_receipt =
  er_experiment :: string
  er_registry_sha256 :: string
  er_runtime_sha256 :: string
  er_split_sha256 :: string
  er_completed_cells_sha256 :: string
  er_dependency_receipts :: "locked_output list"
  er_outputs :: "locked_output list"
  er_selection_state :: string

definition experiment_receipt_post_init :: "experiment_receipt \<Rightarrow> experiment_receipt res" where
  "experiment_receipt_post_init r =
     rbind (require_text ''receipt experiment'' (er_experiment r)) (\<lambda>_.
     rbind (raise_if (\<not> is_sha256 (er_registry_sha256 r))
       (ValueError ''receipt registry_sha256 must be lower-case SHA-256'')) (\<lambda>_.
     rbind (check_all (\<lambda>(name, digest). raise_if (\<not> is_sha256 digest)
         (ValueError (''receipt '' @ name @ '' must be lower-case SHA-256'')))
       [(''runtime_sha256'', er_runtime_sha256 r), (''split_sha256'', er_split_sha256 r),
        (''completed_cells_sha256'', er_completed_cells_sha256 r)]) (\<lambda>_.
     rbind (raise_if (\<not> distinct (map lo_name (er_dependency_receipts r)))
       (ValueError ''receipt dependency identities must be unique'')) (\<lambda>_.
     rbind (raise_if (er_outputs r = [] \<or> \<not> distinct (map lo_name (er_outputs r)))
       (ValueError ''receipt outputs must be non-empty and unique'')) (\<lambda>_.
     rbind (raise_if (er_selection_state r \<noteq> ''sealed_before_downstream_unblinding'')
       (ValueError ''selection outputs must be sealed before downstream use'')) (\<lambda>_. Inr r))))))"

definition locked_output_json :: "locked_output \<Rightarrow> json" where
  "locked_output_json l =
     JObj [(''content_sha256'', JStr (lo_content_sha256 l)), (''name'', JStr (lo_name l))]"

definition experiment_receipt_to_dict :: "experiment_receipt \<Rightarrow> json" where
  "experiment_receipt_to_dict r = JObj
     [(''completed_cells_sha256'', JStr (er_completed_cells_sha256 r)),
      (''dependency_receipts'', JArr (map locked_output_json (sort_key lo_name (er_dependency_receipts r)))),
      (''experiment'', JStr (er_experiment r)),
      (''outputs'', JArr (map locked_output_json (sort_key lo_name (er_outputs r)))),
      (''registry_sha256'', JStr (er_registry_sha256 r)),
      (''runtime_sha256'', JStr (er_runtime_sha256 r)),
      (''selection_state'', JStr (er_selection_state r)),
      (''split_sha256'', JStr (er_split_sha256 r))]"

definition experiment_receipt_sha256 :: "experiment_receipt \<Rightarrow> string" where
  "experiment_receipt_sha256 r = content_sha256 (experiment_receipt_to_dict r)"

section \<open>The registry\<close>

record experiment_registry =
  rg_sha256 :: string
  rg_definitions :: "experiment_definition list"
  rg_cells :: "experiment_cell list"

definition industrial_experiment_order :: "string list" where
  "industrial_experiment_order =
     [''preflight'', ''E3a'', ''TTS-Cal'', ''E1'', ''E2'', ''E4'', ''E3b'', ''E1a'', ''E5'', ''E6'', ''E0'']"

text \<open>The part of \<open>__post_init__\<close> that fixes the order of the definitions.\<close>

definition check_definition_order :: "experiment_definition list \<Rightarrow> unit res" where
  "check_definition_order ds =
     (let definition_names = map ed_name ds
      in rbind (raise_if (definition_names \<noteq> industrial_experiment_order)
           (ValueError ''industrial experiment dependency order is immutable'')) (\<lambda>_.
         check_all (\<lambda>(index, d).
           let expected = (if index = 0 then [] else [definition_names ! (index - 1)])
           in raise_if (ed_dependencies d \<noteq> expected)
                (ValueError (''experiment '' @ ed_name d @ '' must depend exactly on '' @ repr_tuple expected)))
           (zip [0..<length ds] ds)))"

definition registry_definition :: "experiment_registry \<Rightarrow> string \<Rightarrow> experiment_definition res" where
  "registry_definition g experiment =
     (case find (\<lambda>d. ed_name d = experiment) (rg_definitions g) of
        Some d \<Rightarrow> Inr d
      | None \<Rightarrow> Inl (ValueError (''unknown experiment '' @ repr_str experiment)))"

definition cells_for :: "experiment_registry \<Rightarrow> string \<Rightarrow> experiment_cell list res" where
  "cells_for g experiment =
     rbind (registry_definition g experiment) (\<lambda>_.
     Inr (sort_key cell_id (filter (\<lambda>c. xi_experiment (xc_identity c) = experiment) (rg_cells g))))"

text \<open>A dictionary built from pairs, and equality of dictionaries.\<close>

definition dict_of :: "('k \<times> 'v) list \<Rightarrow> ('k \<times> 'v) list" where
  "dict_of ps = foldl (\<lambda>d (k, v). dset k v d) [] ps"

definition dict_eq :: "('k \<times> 'v) list \<Rightarrow> ('k \<times> 'v) list \<Rightarrow> bool" where
  "dict_eq d e \<longleftrightarrow> set d = set e"

fun index_receipts ::
  "experiment_registry \<Rightarrow> (string \<times> experiment_receipt) list \<Rightarrow> experiment_receipt list
     \<Rightarrow> (string \<times> experiment_receipt) list res" where
  "index_receipts g by_experiment [] = Inr by_experiment"
| "index_receipts g by_experiment (r # rs) =
     (if er_registry_sha256 r \<noteq> rg_sha256 g
      then Inl (ValueError ''dependency receipt belongs to another registry'')
      else if er_experiment r \<in> set (dkeys by_experiment)
      then Inl (ValueError ''duplicate dependency receipt'')
      else rbind (registry_definition g (er_experiment r)) (\<lambda>d.
        if set (map lo_name (er_outputs r)) \<noteq> set (ed_locked_outputs d)
        then Inl (ValueError ''dependency receipt has incomplete or extra outputs'')
        else index_receipts g (dset (er_experiment r) r by_experiment) rs))"

definition expected_dependencies ::
  "(string \<times> experiment_receipt) list \<Rightarrow> experiment_definition \<Rightarrow> (string \<times> string) list" where
  "expected_dependencies by_experiment d =
     dict_of (map (\<lambda>n. (n, experiment_receipt_sha256 (the (dget by_experiment n)))) (ed_dependencies d))"

definition actual_dependencies :: "experiment_receipt \<Rightarrow> (string \<times> string) list" where
  "actual_dependencies receipt =
     dict_of (map (\<lambda>row. (lo_name row, lo_content_sha256 row)) (er_dependency_receipts receipt))"

definition check_chain ::
  "(string \<times> experiment_receipt) list \<Rightarrow> experiment_definition \<Rightarrow> unit res" where
  "check_chain by_experiment d =
     (case dget by_experiment (ed_name d) of
        None \<Rightarrow> Inr ()
      | Some receipt \<Rightarrow>
         let missing = filter (\<lambda>n. n \<notin> set (dkeys by_experiment)) (sort (ed_dependencies d))
         in rbind (raise_if (missing \<noteq> [])
              (ValueError (''receipt for '' @ ed_name d @ '' is missing dependencies '' @ repr_list missing)))
            (\<lambda>_. raise_if
               (\<not> dict_eq (actual_dependencies receipt) (expected_dependencies by_experiment d))
               (ValueError (''receipt for '' @ ed_name d @ '' does not bind exact dependencies''))))"

definition validate_receipts ::
  "experiment_registry \<Rightarrow> experiment_receipt list \<Rightarrow> (string \<times> experiment_receipt) list res" where
  "validate_receipts g receipts =
     rbind (index_receipts g [] receipts) (\<lambda>by_experiment.
     rbind (check_all (check_chain by_experiment) (rg_definitions g)) (\<lambda>_. Inr by_experiment))"

definition ready_experiment :: "experiment_registry \<Rightarrow> experiment_receipt list \<Rightarrow> string option res" where
  "ready_experiment g receipts =
     rbind (validate_receipts g receipts) (\<lambda>completed.
     Inr (map_option ed_name (find (\<lambda>d. ed_name d \<notin> set (dkeys completed)
       \<and> list_all (\<lambda>n. n \<in> set (dkeys completed)) (ed_dependencies d)) (rg_definitions g))))"

definition make_receipt ::
  "experiment_registry \<Rightarrow> string \<Rightarrow> (string \<times> string) list \<Rightarrow> string \<Rightarrow> string \<Rightarrow> string
     \<Rightarrow> experiment_receipt list \<Rightarrow> experiment_receipt res" where
  "make_receipt g experiment outputs runtime_sha256 split_sha256 completed_cells_sha256 dependencies =
     rbind (registry_definition g experiment) (\<lambda>d.
     rbind (raise_if (set (dkeys outputs) \<noteq> set (ed_locked_outputs d))
       (ValueError ''receipt must bind every and only registered locked output'')) (\<lambda>_.
     rbind (validate_receipts g dependencies) (\<lambda>by_name.
     rbind (raise_if (\<not> list_all (\<lambda>n. n \<in> set (dkeys by_name)) (ed_dependencies d))
       (ValueError ''receipt dependencies must include every direct dependency'')) (\<lambda>_.
     rbind (map_res (\<lambda>n. locked_output_post_init
         \<lparr>lo_name = n, lo_content_sha256 = experiment_receipt_sha256 (the (dget by_name n))\<rparr>)
       (ed_dependencies d)) (\<lambda>dependency_receipts.
     rbind (map_res (\<lambda>n. locked_output_post_init
         \<lparr>lo_name = n, lo_content_sha256 = the (dget outputs n)\<rparr>) (ed_locked_outputs d)) (\<lambda>locked.
     experiment_receipt_post_init
       \<lparr>er_experiment = experiment, er_registry_sha256 = rg_sha256 g, er_runtime_sha256 = runtime_sha256,
        er_split_sha256 = split_sha256, er_completed_cells_sha256 = completed_cells_sha256,
        er_dependency_receipts = dependency_receipts, er_outputs = locked,
        er_selection_state = ''sealed_before_downstream_unblinding''\<rparr>))))))"

section \<open>Release capability of a cell\<close>

definition frozen_tts_recipe_sentinel :: string where
  "frozen_tts_recipe_sentinel = ''frozen_tts_recipe''"

definition sealed_e2_recipe_sentinel :: string where
  "sealed_e2_recipe_sentinel = ''sealed_e2_recipe''"

definition e0_methods :: "string list" where
  "e0_methods = [''target_only'', ''static'', ''tts'', ''l0'', ''onlinespec_ogd'', ''onlinespec_opt'', ''onlinespec_ens'']"

definition unresolved_semantic_fragments :: "string list" where
  "unresolved_semantic_fragments =
     [''selected'', ''transferred'', ''locked_'', ''common_load'', ''common_feasible_load'', ''matched'',
      ''deployment_optimal'', ''_grid'']"

text \<open>\<open>sub in s\<close> and \<open>s.startswith(p)\<close>\<close>

definition py_in :: "string \<Rightarrow> string \<Rightarrow> bool" where
  "py_in sub s \<longleftrightarrow> list_ex (\<lambda>i. take (length sub) (drop i s) = sub) [0..<Suc (length s)]"

definition startswith :: "string \<Rightarrow> string \<Rightarrow> bool" where
  "startswith s p \<longleftrightarrow> take (length p) s = p"

definition unresolved_semantic_placeholder :: "experiment_cell \<Rightarrow> string option" where
  "unresolved_semantic_placeholder c =
     (let i = xc_identity c in
      find (\<lambda>v. list_ex (\<lambda>f. py_in f (py_lower v)) unresolved_semantic_fragments)
        (concat (map (\<lambda>x. case x of None \<Rightarrow> [] | Some v \<Rightarrow> [v])
           [xi_scope i, xi_optimizer i, xi_schedule i, Some (xi_parameterization i), Some (xi_arrival i)])))"

definition serving_cell_rejection_reason :: "experiment_cell \<Rightarrow> string option" where
  "serving_cell_rejection_reason c =
     (let i = xc_identity c in
      if \<not> runnable c then Some ''only UNMEASURED registry cells are runnable''
      else if xi_experiment i = ''preflight'' then Some ''preflight cells use their dedicated non-serving executor''
      else if rc_workload_class (xc_resources c) \<in> {DOWNLOAD, COMPILE}
      then Some ''DOWNLOAD/COMPILE cells are not serving runtime cells''
      else if xi_method i \<notin> set e0_methods then Some ''cell method is outside the canonical method set''
      else case unresolved_semantic_placeholder c of
        Some placeholder \<Rightarrow>
          Some (''cell contains unresolved semantic placeholder '' @ repr_str placeholder)
      | None \<Rightarrow>
          if xi_context i = None then Some ''serving cells require an exact context''
          else if xi_concurrency i = None then Some ''serving cells require an exact concurrency/admission cap''
          else if xi_method i \<noteq> ''target_only'' \<and> xi_width i = None
          then Some ''speculative serving cells require an exact draft width''
          else if xi_backend i \<notin> {''DFLASH'', ''DSPARK'', ''EAGLE'', ''EAGLE3'', ''NEXTN'', ''NONE''}
          then Some ''cell backend is not one native serving backend''
          else if xi_method i \<noteq> ''target_only'' \<and> xi_backend i = ''NONE''
          then Some ''speculative methods cannot use backend=NONE''
          else if xi_topology i \<notin> {''tp1_dp1'', ''tp2_dp1'', ''two_replica_tp1_dp2''}
          then Some ''cell topology has no exact serving runtime mapping''
          else None)"

definition is_serving_interference_calibration_cell :: "experiment_cell \<Rightarrow> bool" where
  "is_serving_interference_calibration_cell c \<longleftrightarrow>
     xi_experiment (xc_identity c) = ''preflight''
     \<and> xi_task (xc_identity c) = ''simultaneous_single_gpu_interference''
     \<and> xi_method (xc_identity c) = ''static'' \<and> rc_workload_class (xc_resources c) = CORRECTNESS"

definition release_execution_capability_rejection_reason :: "experiment_cell \<Rightarrow> string option" where
  "release_execution_capability_rejection_reason c =
     (let i = xc_identity c; workload = rc_workload_class (xc_resources c);
          markers = {xi_optimizer i, xi_schedule i}
      in if xc_status c \<noteq> UNMEASURED then Some (xc_reason_code c)
      else if workload = COMPILE
      then if xi_experiment i = ''preflight'' \<and> xi_task i = ''environment_and_patch_preflight'' then None
           else Some ''release_compile_assignment_contract_unavailable''
      else if workload = DOWNLOAD then Some ''release_download_assignment_contract_unavailable''
      else if xi_experiment i = ''preflight''
      then if is_serving_interference_calibration_cell c then None
           else if xi_task i = ''exactness_memory_telemetry_preflight'' \<and> xi_method i = ''static''
                   \<and> workload = CORRECTNESS then None
           else Some ''release_preflight_method_unsupported''
      else if xi_topology i \<noteq> ''tp1_dp1'' then Some ''release_topology_executor_unsupported''
      else if xi_method i \<in> {''target_only'', ''static''} then None
      else if Some frozen_tts_recipe_sentinel \<in> markers then Some ''tts_official_recipe_unavailable''
      else if Some sealed_e2_recipe_sentinel \<in> markers then Some ''sealed_e2_recipe_receipt_required''
      else if xi_method i = ''tts'' then Some ''tts_frozen_recipe_authority_required''
      else if xi_method i = ''l0'' \<and> xi_experiment i \<notin> {''E1'', ''E2''}
      then Some ''sealed_e2_recipe_receipt_required''
      else if xi_method i = ''l0'' \<and> xi_backend i = ''DFLASH'' then None
      else if xi_method i = ''l0'' then Some ''release_adaptive_backend_unsupported''
      else if startswith (xi_method i) ''onlinespec_''
      then Some ''release_onlinespec_execution_contract_unavailable''
      else Some ''release_method_capability_unsupported'')"

definition release_dispatch_rejection_reason :: "experiment_cell \<Rightarrow> string option" where
  "release_dispatch_rejection_reason c =
     (case release_execution_capability_rejection_reason c of
        Some capability \<Rightarrow> Some capability
      | None \<Rightarrow>
          if xi_experiment (xc_identity c) = ''preflight'' then None
          else if is_serving_interference_calibration_cell c then None
          else if serving_cell_rejection_reason c \<noteq> None then Some ''release_serving_contract_unresolved''
          else if xi_method (xc_identity c) \<notin> {''target_only'', ''static'', ''tts'', ''l0''}
          then Some ''release_method_capability_unsupported''
          else None)"

section \<open>Receipts complete a prefix of the stages\<close>

lemma industrial_order [simp]:
  "distinct industrial_experiment_order" "length industrial_experiment_order = 11"
proof -
  show "distinct industrial_experiment_order" by code_simp
  show "length industrial_experiment_order = 11" by (simp add: industrial_experiment_order_def)
qed

lemma check_definition_order_Inr:
  assumes "check_definition_order ds = Inr ()"
  shows "map ed_name ds = industrial_experiment_order"
    and "i < length ds \<Longrightarrow>
      ed_dependencies (ds ! i) = (if i = 0 then [] else [industrial_experiment_order ! (i - 1)])"
proof -
  let ?n = industrial_experiment_order
  show names: "map ed_name ds = ?n"
    using assms by (simp add: check_definition_order_def Let_def)
  have all: "\<forall>(j, d) \<in> set (zip [0..<length ds] ds).
      ed_dependencies d = (if j = 0 then [] else [?n ! (j - 1)])"
    using assms names by (auto simp: check_definition_order_def Let_def)
  assume "i < length ds"
  then have "(i, ds ! i) \<in> set (zip [0..<length ds] ds)" by (auto simp: set_zip intro!: exI [of _ i])
  with all show "ed_dependencies (ds ! i) = (if i = 0 then [] else [?n ! (i - 1)])" by blast
qed

lemma downward_closed_prefix:
  assumes "K \<subseteq> set xs" "\<And>i. Suc i < length xs \<Longrightarrow> xs ! Suc i \<in> K \<Longrightarrow> xs ! i \<in> K" "distinct xs"
  shows "\<exists>n \<le> length xs. K = set (take n xs)"
  using assms
proof (induction xs rule: rev_induct)
  case (snoc x xs)
  show ?case
  proof (cases "x \<in> K")
    case True
    have "(xs @ [x]) ! i \<in> K" if "i \<le> length xs" for i
      using that
    proof (induction rule: inc_induct)
      case (step j)
      then show ?case using snoc.prems(2) [of j] by simp
    qed (simp add: True)
    then have "set (xs @ [x]) \<subseteq> K" by (metis in_set_conv_nth length_append_singleton less_Suc_eq_le subsetI)
    with snoc.prems(1) have "K = set (take (length (xs @ [x])) (xs @ [x]))" by auto
    then show ?thesis by blast
  next
    case False
    have "\<exists>n \<le> length xs. K = set (take n xs)"
    proof (rule snoc.IH)
      show "K \<subseteq> set xs" using False snoc.prems(1) by auto
      show "xs ! i \<in> K" if "Suc i < length xs" "xs ! Suc i \<in> K" for i
        using snoc.prems(2) [of i] that by (simp add: nth_append)
    qed (use snoc.prems(3) in simp)
    then show ?thesis by (metis le_SucI length_append_singleton take_append take_all_iff diff_is_0_eq
        append_Nil2 take_eq_Nil)
  qed
qed simp

lemma registry_definition_Inr:
  "registry_definition g e = Inr d \<Longrightarrow> d \<in> set (rg_definitions g) \<and> ed_name d = e"
  by (auto simp: registry_definition_def find_Some_iff split: option.splits)

lemma dset_new: "k \<notin> set (dkeys d) \<Longrightarrow> dset k v d = d @ [(k, v)]"
  by (induction d) auto

lemma index_receipts_Cons:
  "index_receipts g known (r # rs) = Inr known' \<longleftrightarrow>
     er_registry_sha256 r = rg_sha256 g \<and> er_experiment r \<notin> set (dkeys known)
     \<and> (\<exists>d. registry_definition g (er_experiment r) = Inr d
          \<and> set (map lo_name (er_outputs r)) = set (ed_locked_outputs d))
     \<and> index_receipts g (known @ [(er_experiment r, r)]) rs = Inr known'"
  by (auto simp: dset_new)

lemma index_receipts_Inr:
  "index_receipts g known rs = Inr known' \<Longrightarrow>
   known' = known @ map (\<lambda>r. (er_experiment r, r)) rs
   \<and> (distinct (dkeys known) \<longrightarrow> distinct (dkeys known'))
   \<and> (\<forall>r \<in> set rs. er_experiment r \<in> set (map ed_name (rg_definitions g)))"
proof (induction rs arbitrary: known)
  case (Cons r rs)
  then obtain d where d: "registry_definition g (er_experiment r) = Inr d"
    "er_experiment r \<notin> set (dkeys known)" "index_receipts g (known @ [(er_experiment r, r)]) rs = Inr known'"
    unfolding index_receipts_Cons by blast
  from registry_definition_Inr [OF d(1)] have "er_experiment r \<in> set (map ed_name (rg_definitions g))"
    by force
  note IH = Cons.IH [OF d(3)]
  from IH have "known' = known @ map (\<lambda>r. (er_experiment r, r)) (r # rs)" by simp
  moreover have "distinct (dkeys known')" if "distinct (dkeys known)"
  proof -
    have "distinct (dkeys (known @ [(er_experiment r, r)]))" using that d(2) by simp
    with IH show ?thesis by blast
  qed
  ultimately show ?case using IH \<open>er_experiment r \<in> _\<close> by simp
qed simp

lemma index_receipts_append:
  "index_receipts g known rs = Inr known' \<Longrightarrow>
   index_receipts g known (rs @ ss) = index_receipts g known' ss"
proof (induction rs arbitrary: known)
  case (Cons r rs)
  then obtain d where "er_registry_sha256 r = rg_sha256 g" "er_experiment r \<notin> set (dkeys known)"
    "registry_definition g (er_experiment r) = Inr d"
    "set (map lo_name (er_outputs r)) = set (ed_locked_outputs d)"
    "index_receipts g (known @ [(er_experiment r, r)]) rs = Inr known'"
    unfolding index_receipts_Cons by blast
  with Cons.IH show ?case by (simp add: dset_new)
qed simp

text \<open>The receipt of \<open>e\<close> names the receipt of \<open>e'\<close> by its digest, and nothing else.\<close>

definition binds :: "(string \<times> experiment_receipt) list \<Rightarrow> string \<Rightarrow> string \<Rightarrow> bool" where
  "binds completed e e' \<longleftrightarrow>
     set (actual_dependencies (the (dget completed e)))
     = {(e', experiment_receipt_sha256 (the (dget completed e')))}"

lemma check_chain_Inr:
  assumes "check_chain completed d = Inr ()" "ed_name d \<in> set (dkeys completed)"
  shows "set (ed_dependencies d) \<subseteq> set (dkeys completed)"
    and "ed_dependencies d = [e] \<Longrightarrow> binds completed (ed_name d) e"
proof -
  from assms(2) obtain r where r: "dget completed (ed_name d) = Some r"
    by (metis image_set map_of_eq_None_iff not_Some_eq)
  with assms(1) have miss: "filter (\<lambda>n. n \<notin> set (dkeys completed)) (sort (ed_dependencies d)) = []"
    by (simp add: check_chain_def Let_def)
  then show "set (ed_dependencies d) \<subseteq> set (dkeys completed)" by (auto simp: filter_empty_conv)
  show "ed_dependencies d = [e] \<Longrightarrow> binds completed (ed_name d) e"
    using assms(1) r miss by (simp add: check_chain_def Let_def binds_def dict_eq_def expected_dependencies_def)
      (simp add: dict_of_def)
qed

lemma validate_receipts_prefix:
  assumes order: "check_definition_order (rg_definitions g) = Inr ()"
    and valid: "validate_receipts g receipts = Inr completed"
  shows "\<exists>n \<le> 11. set (dkeys completed) = set (take n industrial_experiment_order)
    \<and> (\<forall>i. Suc i < n \<longrightarrow> binds completed (industrial_experiment_order ! Suc i)
          (industrial_experiment_order ! i))"
proof -
  let ?o = industrial_experiment_order and ?ds = "rg_definitions g"
  note o = check_definition_order_Inr [OF order]
  have len: "length ?ds = 11" using o(1) industrial_order(2) by (metis length_map)
  have name: "ed_name (?ds ! i) = ?o ! i" if "i < 11" for i
    using o(1) len that by (metis nth_map)
  from valid have index: "index_receipts g [] receipts = Inr completed"
    and chain: "\<forall>d \<in> set ?ds. check_chain completed d = Inr ()"
    by (auto simp: validate_receipts_def)
  have sub: "set (dkeys completed) \<subseteq> set ?o"
  proof -
    have "completed = map (\<lambda>r. (er_experiment r, r)) receipts"
      "\<forall>r \<in> set receipts. er_experiment r \<in> set ?o"
      using index_receipts_Inr [OF index] unfolding o(1) by simp_all
    then show ?thesis by auto
  qed
  have dep: "?o ! i \<in> set (dkeys completed) \<and> binds completed (?o ! Suc i) (?o ! i)"
    if "Suc i < 11" "?o ! Suc i \<in> set (dkeys completed)" for i
  proof -
    have "?ds ! Suc i \<in> set ?ds" using that(1) len by simp
    with chain have c: "check_chain completed (?ds ! Suc i) = Inr ()" by blast
    have d: "ed_dependencies (?ds ! Suc i) = [?o ! i]" using o(2) [of "Suc i"] that(1) len by simp
    show ?thesis using check_chain_Inr [OF c] d name [OF that(1)] that(2) by simp
  qed
  from downward_closed_prefix [OF sub] dep obtain n where
    n: "n \<le> 11" "set (dkeys completed) = set (take n ?o)" by auto
  have "binds completed (?o ! Suc i) (?o ! i)" if "Suc i < n" for i
  proof (rule dep [THEN conjunct2])
    show "Suc i < 11" using that n(1) by simp
    show "?o ! Suc i \<in> set (dkeys completed)"
      unfolding n(2) using that n(1) by (auto simp: in_set_conv_nth intro!: exI [of _ "Suc i"])
  qed
  with n show ?thesis by blast
qed

lemma dget_append: "k \<in> set (dkeys c) \<Longrightarrow> dget (c @ x) k = dget c k"
  by (induction c) auto

lemma check_chain_append:
  assumes "check_chain c d = Inr ()" "ed_name d \<in> set (dkeys c)"
  shows "check_chain (c @ x) d = Inr ()"
proof -
  obtain r where r: "dget c (ed_name d) = Some r"
    using assms(2) by (metis image_set map_of_eq_None_iff not_Some_eq)
  have deps: "\<forall>n \<in> set (ed_dependencies d). n \<in> set (dkeys c)" using check_chain_Inr(1) [OF assms] by blast
  then have "expected_dependencies (c @ x) d = expected_dependencies c d"
    unfolding expected_dependencies_def by (intro arg_cong [of _ _ dict_of] map_cong refl) (metis dget_append)
  then show ?thesis
    using assms r deps by (simp add: check_chain_def Let_def dget_append filter_empty_conv del: map_of_append)
qed

lemma make_receipt_Inr:
  assumes "make_receipt g e outputs rt sp cc rs = Inr r" "validate_receipts g rs = Inr completed"
  shows "\<exists>d. registry_definition g e = Inr d \<and> er_experiment r = e \<and> er_registry_sha256 r = rg_sha256 g
    \<and> map lo_name (er_outputs r) = ed_locked_outputs d
    \<and> set (ed_dependencies d) \<subseteq> set (dkeys completed)
    \<and> map (\<lambda>row. (lo_name row, lo_content_sha256 row)) (er_dependency_receipts r)
        = map (\<lambda>n. (n, experiment_receipt_sha256 (the (dget completed n)))) (ed_dependencies d)"
proof -
  have lo: "locked_output_post_init l = Inr l' \<Longrightarrow> l' = l" for l l'
    by (simp add: locked_output_post_init_def)
  have rows: "map_res (\<lambda>n. locked_output_post_init (f n)) ns = Inr ls \<Longrightarrow> ls = map f ns" for f ns ls
    by (induction ns arbitrary: ls) (auto dest: lo)
  from assms obtain d deps locked where d: "registry_definition g e = Inr d"
    "list_all (\<lambda>n. n \<in> set (dkeys completed)) (ed_dependencies d)"
    and deps: "map_res (\<lambda>n. locked_output_post_init
         \<lparr>lo_name = n, lo_content_sha256 = experiment_receipt_sha256 (the (dget completed n))\<rparr>)
       (ed_dependencies d) = Inr deps"
    and locked: "map_res (\<lambda>n. locked_output_post_init
         \<lparr>lo_name = n, lo_content_sha256 = the (dget outputs n)\<rparr>) (ed_locked_outputs d) = Inr locked"
    and r: "r = \<lparr>er_experiment = e, er_registry_sha256 = rg_sha256 g, er_runtime_sha256 = rt,
        er_split_sha256 = sp, er_completed_cells_sha256 = cc, er_dependency_receipts = deps,
        er_outputs = locked, er_selection_state = ''sealed_before_downstream_unblinding''\<rparr>"
    by (auto simp: make_receipt_def experiment_receipt_post_init_def)
  show ?thesis using d rows [OF deps] rows [OF locked] by (auto simp: r list_all_iff comp_def)
qed

lemma ready_experiment_next:
  assumes order: "check_definition_order (rg_definitions g) = Inr ()"
    and valid: "validate_receipts g receipts = Inr completed"
  shows "\<exists>n \<le> 11. set (dkeys completed) = set (take n industrial_experiment_order)
    \<and> (\<forall>i. Suc i < n \<longrightarrow> binds completed (industrial_experiment_order ! Suc i)
          (industrial_experiment_order ! i))
    \<and> ready_experiment g receipts = Inr (if n < 11 then Some (industrial_experiment_order ! n) else None)"
proof -
  let ?o = industrial_experiment_order and ?ds = "rg_definitions g"
  note o = check_definition_order_Inr [OF order]
  have len: "length ?ds = 11" using o(1) industrial_order(2) by (metis length_map)
  have name: "ed_name (?ds ! i) = ?o ! i" if "i < 11" for i
    using o(1) len that by (metis nth_map)
  obtain n where n: "n \<le> 11" "set (dkeys completed) = set (take n ?o)"
    "\<forall>i. Suc i < n \<longrightarrow> binds completed (?o ! Suc i) (?o ! i)"
    using validate_receipts_prefix [OF assms] by blast
  have mem: "?o ! i \<in> set (dkeys completed) \<longleftrightarrow> i < n" if "i < 11" for i
    unfolding n(2) using that n(1) by (auto simp: in_set_conv_nth nth_eq_iff_index_eq)
  define P where "P = (\<lambda>d :: experiment_definition. ed_name d \<notin> set (dkeys completed)
       \<and> list_all (\<lambda>e. e \<in> set (dkeys completed)) (ed_dependencies d))"
  have P: "P (?ds ! i) \<longleftrightarrow> i = n" if "i < 11" for i
    unfolding P_def using that name [OF that] mem [OF that] mem [of "i - 1"] o(2) [of i] len n(1) by (auto simp: list_all_iff)
  have "map_option ed_name (find P ?ds) = (if n < 11 then Some (?o ! n) else None)"
  proof (cases "n < 11")
    case True
    then have "P (?ds ! n)" "\<forall>j < n. \<not> P (?ds ! j)"
      using P [OF True] P by (blast, metis less_trans nat_neq_iff)
    with True have "find P ?ds = Some (?ds ! n)"
      unfolding find_Some_iff using len by (intro exI [of _ n]) simp
    then show ?thesis using True name by simp
  next
    case False
    then have "find P ?ds = None" using P len by (auto simp: find_None_iff in_set_conv_nth)
    then show ?thesis using False by simp
  qed
  then have "ready_experiment g receipts = Inr (if n < 11 then Some (?o ! n) else None)"
    unfolding ready_experiment_def valid rbind_Inr P_def by (simp only:)
  with n show ?thesis by blast
qed

text \<open>A small registry and the receipt of its first stage, for the witnesses.\<close>

definition example_definitions :: "experiment_definition list" where
  "example_definitions = map2 (\<lambda>n deps. \<lparr>ed_name = n, ed_dependencies = deps,
     ed_locked_outputs = [''report''], ed_axes = []\<rparr>) industrial_experiment_order
     ([] # map (\<lambda>n. [n]) (butlast industrial_experiment_order))"

definition example_registry :: experiment_registry where
  "example_registry =
     \<lparr>rg_sha256 = replicate 64 (CHR ''a''), rg_definitions = example_definitions, rg_cells = []\<rparr>"

definition example_receipt :: experiment_receipt where
  "example_receipt =
     \<lparr>er_experiment = ''preflight'', er_registry_sha256 = replicate 64 (CHR ''a''),
      er_runtime_sha256 = replicate 64 (CHR ''b''), er_split_sha256 = replicate 64 (CHR ''c''),
      er_completed_cells_sha256 = replicate 64 (CHR ''d''), er_dependency_receipts = [],
      er_outputs = [\<lparr>lo_name = ''report'', lo_content_sha256 = replicate 64 (CHR ''e'')\<rparr>],
      er_selection_state = ''sealed_before_downstream_unblinding''\<rparr>"

lemma example_order: "check_definition_order (rg_definitions example_registry) = Inr ()"
  by code_simp

lemma example_receipts_valid:
  "validate_receipts example_registry [] = Inr []"
  "validate_receipts example_registry [example_receipt] = Inr [(''preflight'', example_receipt)]"
  by (simp_all add: validate_receipts_def example_registry_def example_definitions_def check_chain_def
      industrial_experiment_order_def registry_definition_def dict_eq_def expected_dependencies_def
      actual_dependencies_def example_receipt_def)

lemma example_texts: "single_line_text ''preflight''" "single_line_text ''report''"
  by code_simp+

text \<open>
  C39: Receipts that validate against a registry complete a prefix of the registered experiment order,
  every receipt of the prefix names the receipt before it by its digest and nothing else, and the
  ready experiment is the next one of the order, or none once all are complete.
\<close>

theorem ready_experiment_is_next_stage:
  assumes order: "check_definition_order (rg_definitions g) = Inr ()"
    and valid: "validate_receipts g receipts = Inr completed"
  shows "\<exists>n \<le> 11. set (dkeys completed) = set (take n industrial_experiment_order)
    \<and> (\<forall>i. Suc i < n \<longrightarrow> binds completed (industrial_experiment_order ! Suc i)
          (industrial_experiment_order ! i))
    \<and> ready_experiment g receipts = Inr (if n < 11 then Some (industrial_experiment_order ! n) else None)"
  using assms by (rule ready_experiment_next)

theorem ready_experiment_is_next_stage_witness:
  "ready_experiment example_registry [example_receipt] = Inr (Some ''E3a'')
   \<and> (\<exists>n \<le> 11. {''preflight''} = set (take n industrial_experiment_order))"
proof -
  have "ready_experiment example_registry [example_receipt] = Inr (Some ''E3a'')"
    by (simp add: ready_experiment_def example_receipts_valid)
      (simp add: example_registry_def example_definitions_def industrial_experiment_order_def)
  with ready_experiment_is_next_stage [OF example_order example_receipts_valid(2)] show ?thesis by auto
qed

text \<open>
  C40: Sealing the ready stage extends the chain. Whatever receipts have been accepted, a receipt that
  \<open>make_receipt\<close> seals over them for the ready experiment is accepted together with them, and the
  stage then counts as complete.
\<close>

theorem sealed_receipt_extends_the_chain:
  assumes order: "check_definition_order (rg_definitions g) = Inr ()"
    and valid: "validate_receipts g rs = Inr completed" and ready: "ready_experiment g rs = Inr (Some e)"
    and made: "make_receipt g e outputs rt sp cc rs = Inr r"
  shows "validate_receipts g (rs @ [r]) = Inr (completed @ [(e, r)])"
proof -
  let ?c = "completed @ [(e, r)]"
  from make_receipt_Inr [OF made valid] obtain d where d: "registry_definition g e = Inr d"
    "er_experiment r = e" "er_registry_sha256 r = rg_sha256 g"
    "map lo_name (er_outputs r) = ed_locked_outputs d"
    "set (ed_dependencies d) \<subseteq> set (dkeys completed)"
    "map (\<lambda>row. (lo_name row, lo_content_sha256 row)) (er_dependency_receipts r)
      = map (\<lambda>n. (n, experiment_receipt_sha256 (the (dget completed n)))) (ed_dependencies d)" by blast
  have new: "e \<notin> set (dkeys completed)"
    using ready valid by (auto simp: ready_experiment_def find_Some_iff)
  from valid have index: "index_receipts g [] rs = Inr completed"
    and chain: "\<forall>d \<in> set (rg_definitions g). check_chain completed d = Inr ()"
    by (auto simp: validate_receipts_def)
  have "set (map lo_name (er_outputs r)) = set (ed_locked_outputs d)" by (simp only: d(4))
  with d(1-3) new have "index_receipts g [] (rs @ [r]) = Inr ?c"
    unfolding index_receipts_append [OF index] index_receipts_Cons by simp
  moreover have "check_chain ?c d' = Inr ()" if d': "d' \<in> set (rg_definitions g)" for d'
  proof (cases "ed_name d' \<in> set (dkeys completed)")
    case True
    with chain d' show ?thesis by (intro check_chain_append) auto
  next
    case False
    show ?thesis
    proof (cases "ed_name d' = e")
      case True
      have "distinct (map ed_name (rg_definitions g))"
        using check_definition_order_Inr(1) [OF order] by simp
      with registry_definition_Inr [OF d(1)] d' True have "d' = d" by (metis (full_types) distinct_map inj_onD)
      have "expected_dependencies ?c d = actual_dependencies r"
        unfolding expected_dependencies_def actual_dependencies_def d(6)
        using d(5) by (intro arg_cong [of _ _ dict_of] map_cong refl) (metis dget_append subsetD)
      moreover have "dget ?c e = Some r" using new by (simp add: map_add_def map_of_eq_None_iff [THEN iffD2])
      ultimately show ?thesis
        unfolding \<open>d' = d\<close> using True \<open>d' = d\<close> d(5)
        by (auto simp: check_chain_def Let_def filter_empty_conv dict_eq_def simp del: map_of_append)
    next
      case other: False
      then have "dget ?c (ed_name d') = None" using False by (simp add: map_of_eq_None_iff)
      then show ?thesis by (simp add: check_chain_def del: map_of_append)
    qed
  qed
  ultimately show ?thesis by (simp add: validate_receipts_def)
qed

theorem sealed_receipt_extends_the_chain_witness:
  "make_receipt example_registry ''preflight'' [(''report'', replicate 64 (CHR ''e''))]
     (replicate 64 (CHR ''b'')) (replicate 64 (CHR ''c'')) (replicate 64 (CHR ''d'')) [] = Inr example_receipt
   \<and> validate_receipts example_registry ([] @ [example_receipt]) = Inr ([] @ [(''preflight'', example_receipt)])"
proof -
  have m: "make_receipt example_registry ''preflight'' [(''report'', replicate 64 (CHR ''e''))]
     (replicate 64 (CHR ''b'')) (replicate 64 (CHR ''c'')) (replicate 64 (CHR ''d'')) [] = Inr example_receipt"
    using example_texts by (simp add: make_receipt_def example_receipts_valid(1))
      (simp add: example_registry_def example_definitions_def industrial_experiment_order_def
        registry_definition_def locked_output_post_init_def experiment_receipt_post_init_def
        is_sha256_def hex_digits_def example_receipt_def)
  have r: "ready_experiment example_registry [] = Inr (Some ''preflight'')"
    by (simp add: ready_experiment_def example_receipts_valid)
      (simp add: example_registry_def example_definitions_def industrial_experiment_order_def)
  show ?thesis
    using m sealed_receipt_extends_the_chain [OF example_order example_receipts_valid(1) r m] by blast
qed

section \<open>What a release dispatches\<close>

text \<open>
  A cell that passes the release predicate has not been measured and is not a download, and
  outside preflight it runs on one rank, with an exact context and concurrency and without an
  unresolved placeholder, and its method is target-only, static, or the first-ready method on the
  DFlash backend within E1 or E2; no TTS and no OnlineSPEC cell is dispatched.
\<close>

theorem dispatchable_cell_is_resolved:
  assumes "release_dispatch_rejection_reason c = None"
  shows "runnable c \<and> rc_workload_class (xc_resources c) \<noteq> DOWNLOAD
    \<and> (xi_experiment (xc_identity c) \<noteq> ''preflight'' \<longrightarrow>
        xi_topology (xc_identity c) = ''tp1_dp1'' \<and> xi_context (xc_identity c) \<noteq> None
        \<and> xi_concurrency (xc_identity c) \<noteq> None \<and> unresolved_semantic_placeholder c = None
        \<and> (xi_method (xc_identity c) = ''target_only''
           \<or> xi_width (xc_identity c) \<noteq> None
             \<and> (xi_method (xc_identity c) = ''static''
               \<or> xi_method (xc_identity c) = ''l0'' \<and> xi_backend (xc_identity c) = ''DFLASH''
                 \<and> xi_experiment (xc_identity c) \<in> {''E1'', ''E2''})))"
proof (cases "xi_experiment (xc_identity c) = ''preflight''")
  case True
  have "release_execution_capability_rejection_reason c = None"
    using assms by (simp add: release_dispatch_rejection_reason_def split: option.splits)
  with True show ?thesis
    by (auto simp: release_execution_capability_rejection_reason_def Let_def runnable_def split: if_splits)
next
  case False
  then have cap: "release_execution_capability_rejection_reason c = None"
    and serving: "serving_cell_rejection_reason c = None"
    using assms
    by (auto simp: release_dispatch_rejection_reason_def is_serving_interference_calibration_cell_def
        split: option.splits if_splits)
  from cap False have "xi_topology (xc_identity c) = ''tp1_dp1''"
    "xi_method (xc_identity c) = ''target_only'' \<or> xi_method (xc_identity c) = ''static''
      \<or> xi_method (xc_identity c) = ''l0'' \<and> xi_backend (xc_identity c) = ''DFLASH''
        \<and> xi_experiment (xc_identity c) \<in> {''E1'', ''E2''}"
    "rc_workload_class (xc_resources c) \<noteq> DOWNLOAD" "runnable c"
    by (auto simp: release_execution_capability_rejection_reason_def Let_def runnable_def split: if_splits)
  moreover from serving have "xi_context (xc_identity c) \<noteq> None" "xi_concurrency (xc_identity c) \<noteq> None"
    "unresolved_semantic_placeholder c = None"
    "xi_method (xc_identity c) = ''target_only'' \<or> xi_width (xc_identity c) \<noteq> None"
    by (auto simp: serving_cell_rejection_reason_def Let_def split: option.splits if_splits)
  ultimately show ?thesis by blast
qed

definition example_identity :: cell_identity where
  "example_identity =
     \<lparr>xi_experiment = ''E3a'', xi_model = ''Qwen/Qwen3-8B'', xi_backend = ''DFLASH'', xi_task = ''GSM8K'',
      xi_method = ''static'', xi_scope = None, xi_rank = None, xi_alpha_over_rank = None,
      xi_optimizer = None, xi_learning_rate = None, xi_schedule = None, xi_context = Some 4096,
      xi_regime = ''thinking'', xi_width = Some 16, xi_arrival = ''closed_loop'', xi_slo = ''production'',
      xi_cohort = ''single'', xi_topology = ''tp1_dp1'', xi_seed = 7, xi_block = 0,
      xi_gpu_uuids = [''slot-0''], xi_parameterization = ''none'', xi_variant = ''default'',
      xi_concurrency = Some 8, xi_load_factor = None, xi_cohort_count = 1\<rparr>"

definition example_cell :: experiment_cell where
  "example_cell =
     \<lparr>xc_identity = example_identity,
      xc_resources = \<lparr>rc_gpu_uuids = [''slot-0''], rc_ports = [24000], rc_cache_root = ''/cache/a'',
        rc_evidence_root = ''/evidence/a'', rc_workload_class = HEADLINE\<rparr>,
      xc_status = UNMEASURED, xc_reason_code = ''registered'', xc_reason = ''registered cell''\<rparr>"

theorem dispatchable_cell_is_resolved_witness:
  "release_dispatch_rejection_reason example_cell = None \<and> runnable example_cell
   \<and> unresolved_semantic_placeholder example_cell = None"
proof -
  have "release_dispatch_rejection_reason example_cell = None" by code_simp
  moreover have "xi_experiment (xc_identity example_cell) \<noteq> ''preflight''"
    by (simp add: example_cell_def example_identity_def)
  ultimately show ?thesis using dispatchable_cell_is_resolved [of example_cell] by blast
qed

end
