(* ===== verification/Pool_Claims.thy ===== *)
theory Pool_Claims
  imports Pool
begin

text \<open>
  Resource requests of the GPU pool (\<open>experiments/gpu_pool.py\<close>): gang shapes, device constraints,
  resource claims and work items with their strict JSON form, and how a registry cell is turned into
  a work item. Shown: claims and work items survive \<open>to_dict\<close> and \<open>from_dict\<close>, and the claim made from
  a cell reserves exactly the GPUs, ports and roots of the cell.
\<close>

section \<open>Gang shapes and device constraints\<close>

record gang_shape =
  gs_tensor_parallel_size :: int
  gs_data_parallel_size :: int

definition gang_shape_post_init :: "gang_shape \<Rightarrow> gang_shape res" where
  "gang_shape_post_init g =
     rbind (check_all (\<lambda>(name, value). raise_if (value < 1) (ValueError (name @ '' must be a positive integer'')))
       [(''tensor_parallel_size'', gs_tensor_parallel_size g), (''data_parallel_size'', gs_data_parallel_size g)])
     (\<lambda>_. Inr g)"

definition gs_gpu_count :: "gang_shape \<Rightarrow> int" where
  "gs_gpu_count g = gs_tensor_parallel_size g * gs_data_parallel_size g"

definition gs_signature :: "gang_shape \<Rightarrow> string" where
  "gs_signature g = ''tp'' @ show_int (gs_tensor_parallel_size g) @ ''_dp'' @ show_int (gs_data_parallel_size g)"

definition gang_shape_to_dict :: "gang_shape \<Rightarrow> json" where
  "gang_shape_to_dict g = JObj
     [(''tensor_parallel_size'', JInt (gs_tensor_parallel_size g)),
      (''data_parallel_size'', JInt (gs_data_parallel_size g))]"

definition gang_shape_from_dict :: "json \<Rightarrow> gang_shape res" where
  "gang_shape_from_dict value =
     rbind (strict_object ''gang shape'' value [''tensor_parallel_size'', ''data_parallel_size'']) (\<lambda>row.
     rbind (strict_int ''tensor_parallel_size'' (jfield row ''tensor_parallel_size'')) (\<lambda>tp.
     rbind (strict_int ''data_parallel_size'' (jfield row ''data_parallel_size'')) (\<lambda>dp.
     gang_shape_post_init \<lparr>gs_tensor_parallel_size = tp, gs_data_parallel_size = dp\<rparr>)))"

record device_constraint =
  hc_model :: "string option"
  hc_minimum_memory_bytes :: int
  hc_minimum_compute_capability :: "int list"
  hc_allowed_peer_access_classes :: "string list"

definition default_constraint :: device_constraint where
  "default_constraint =
     \<lparr>hc_model = None, hc_minimum_memory_bytes = 1, hc_minimum_compute_capability = [0, 0],
      hc_allowed_peer_access_classes = []\<rparr>"

definition device_constraint_post_init :: "device_constraint \<Rightarrow> device_constraint res" where
  "device_constraint_post_init h =
     rbind (opt_text ''constraint model'' (hc_model h)) (\<lambda>_.
     rbind (raise_if (hc_minimum_memory_bytes h < 1)
       (ValueError ''minimum_memory_bytes must be a positive integer'')) (\<lambda>_.
     rbind (raise_if (length (hc_minimum_compute_capability h) \<noteq> 2
         \<or> list_ex (\<lambda>v. v < 0) (hc_minimum_compute_capability h))
       (ValueError ''minimum_compute_capability must be two non-negative integers'')) (\<lambda>_.
     rbind (raise_if (\<not> distinct (hc_allowed_peer_access_classes h))
       (ValueError ''allowed peer-access classes must be unique'')) (\<lambda>_.
     rbind (raise_if (sort (hc_allowed_peer_access_classes h) \<noteq> hc_allowed_peer_access_classes h)
       (ValueError ''allowed peer-access classes must be canonically sorted'')) (\<lambda>_.
     rbind (check_all (require_text ''allowed peer-access class'') (hc_allowed_peer_access_classes h)) (\<lambda>_.
     Inr h))))))"

definition hc_accepts :: "device_constraint \<Rightarrow> gpu_device \<Rightarrow> bool" where
  "hc_accepts h d \<longleftrightarrow>
     gd_ready d \<and> (hc_model h = None \<or> hc_model h = Some (gd_model d))
     \<and> hc_minimum_memory_bytes h \<le> gd_memory_bytes d
     \<and> hc_minimum_compute_capability h \<le> gd_compute_capability d
     \<and> (hc_allowed_peer_access_classes h = []
        \<or> gd_peer_access_class d \<in> set (hc_allowed_peer_access_classes h))"

definition device_constraint_to_dict :: "device_constraint \<Rightarrow> json" where
  "device_constraint_to_dict h = JObj
     [(''model'', jopt JStr (hc_model h)), (''minimum_memory_bytes'', JInt (hc_minimum_memory_bytes h)),
      (''minimum_compute_capability'', jints (hc_minimum_compute_capability h)),
      (''allowed_peer_access_classes'', jstrs (hc_allowed_peer_access_classes h))]"

definition device_constraint_from_dict :: "json \<Rightarrow> device_constraint res" where
  "device_constraint_from_dict value =
     rbind (strict_object ''homogeneous device constraint'' value
       [''model'', ''minimum_memory_bytes'', ''minimum_compute_capability'', ''allowed_peer_access_classes'']) (\<lambda>row.
     rbind (strict_list ''minimum_compute_capability'' (jfield row ''minimum_compute_capability'')) (\<lambda>compute.
     rbind (optional_text ''constraint model'' (jfield row ''model'')) (\<lambda>model.
     rbind (strict_int ''minimum_memory_bytes'' (jfield row ''minimum_memory_bytes'')) (\<lambda>memory.
     rbind (map_res (strict_int ''minimum compute capability component'') compute) (\<lambda>capability.
     rbind (strict_texts ''allowed_peer_access_classes'' ''allowed peer-access class''
       (jfield row ''allowed_peer_access_classes'')) (\<lambda>classes.
     device_constraint_post_init
       \<lparr>hc_model = model, hc_minimum_memory_bytes = memory, hc_minimum_compute_capability = capability,
        hc_allowed_peer_access_classes = classes\<rparr>))))))"

section \<open>Resource claims\<close>

record pool_resource_claim =
  pr_gang_shape :: gang_shape
  pr_exact_gpu_uuids :: "string list"
  pr_homogeneous :: device_constraint
  pr_allowed_topology_groups :: "string list"
  pr_allowed_fabrics :: "string list"
  pr_same_host :: bool
  pr_exclusive_gpu :: bool
  pr_exclusive_host :: bool
  pr_cpu_cores :: int
  pr_numa_nodes :: "int list"
  pr_ram_bytes :: int
  pr_disk_io_class :: string
  pr_network_class :: string
  pr_port_count :: int
  pr_exact_ports :: "int list"
  pr_cache_root :: string
  pr_evidence_root :: string
  pr_workload_class :: workload_class
  pr_interference_class :: string
  pr_load_envelope :: string
  pr_estimated_duration_seconds :: pyfloat
  pr_estimated_gpu_seconds :: pyfloat

abbreviation exclusive_host_classes :: "workload_class set" where
  "exclusive_host_classes \<equiv> {PROFILE, DOWNLOAD, COMPILE}"

abbreviation port_out_of_range :: "int \<Rightarrow> bool" where
  "port_out_of_range port \<equiv> port < 1024 \<or> 65535 < port"

definition claim_sets_check :: "pool_resource_claim \<Rightarrow> unit res" where
  "claim_sets_check c =
     rbind (if pr_exact_gpu_uuids c = [] then Inr ()
            else rbind (raise_if (int (length (pr_exact_gpu_uuids c)) \<noteq> gs_gpu_count (pr_gang_shape c)
                     \<or> \<not> distinct (pr_exact_gpu_uuids c))
                   (ValueError ''exact GPU UUIDs must cover the complete gang'')) (\<lambda>_.
                 check_all (require_text ''exact GPU UUID'') (pr_exact_gpu_uuids c))) (\<lambda>_.
     rbind (raise_if (\<not> distinct (pr_allowed_topology_groups c))
       (ValueError ''allowed topology groups must be unique'')) (\<lambda>_.
     rbind (raise_if (\<not> distinct (pr_allowed_fabrics c)) (ValueError ''allowed fabrics must be unique'')) (\<lambda>_.
     rbind (raise_if (sort (pr_allowed_topology_groups c) \<noteq> pr_allowed_topology_groups c)
       (ValueError ''allowed topology groups must be canonically sorted'')) (\<lambda>_.
     rbind (raise_if (sort (pr_allowed_fabrics c) \<noteq> pr_allowed_fabrics c)
       (ValueError ''allowed fabrics must be canonically sorted'')) (\<lambda>_.
     rbind (check_all (require_text ''allowed topology group'') (pr_allowed_topology_groups c)) (\<lambda>_.
     check_all (require_text ''allowed fabric'') (pr_allowed_fabrics c)))))))"

definition claim_numbers_check :: "pool_resource_claim \<Rightarrow> unit res" where
  "claim_numbers_check c =
     rbind (raise_if (\<not> pr_same_host c)
       (ValueError ''this release supports same-host resource claims only'')) (\<lambda>_.
     rbind (check_all (\<lambda>(name, value, minimum). raise_if (value < minimum)
         (ValueError (name @ '' is outside its supported range'')))
       [(''cpu_cores'', pr_cpu_cores c, 1), (''ram_bytes'', pr_ram_bytes c, 0 :: int),
        (''port_count'', pr_port_count c, 1)]) (\<lambda>_.
     rbind (raise_if (\<not> distinct (pr_numa_nodes c) \<or> list_ex (\<lambda>n. n < 0) (pr_numa_nodes c))
       (ValueError ''NUMA nodes must be unique non-negative integers'')) (\<lambda>_.
     rbind (raise_if (sort (pr_numa_nodes c) \<noteq> pr_numa_nodes c)
       (ValueError ''NUMA nodes must be canonically sorted'')) (\<lambda>_.
     if pr_exact_ports c = [] then Inr ()
     else rbind (raise_if (int (length (pr_exact_ports c)) \<noteq> pr_port_count c)
            (ValueError ''exact ports must cover port_count'')) (\<lambda>_.
          rbind (raise_if (\<not> distinct (pr_exact_ports c)) (ValueError ''exact ports must be unique'')) (\<lambda>_.
          raise_if (list_ex port_out_of_range (pr_exact_ports c))
            (ValueError ''exact ports must be in [1024, 65535]'')))))))"

definition claim_estimates_check :: "pool_resource_claim \<Rightarrow> unit res" where
  "claim_estimates_check c =
     rbind (require_positive_finite ''estimated_duration_seconds'' (pr_estimated_duration_seconds c)) (\<lambda>_.
     rbind (require_positive_finite ''estimated_gpu_seconds'' (pr_estimated_gpu_seconds c)) (\<lambda>_.
     rbind (float_of_int (gs_gpu_count (pr_gang_shape c))) (\<lambda>gpus.
     raise_if (\<not> isclose_abs (pr_estimated_gpu_seconds c) (pf_mul (pr_estimated_duration_seconds c) gpus)
         (fl (1 / 10 ^ 9)))
       (ValueError ''estimated_gpu_seconds must equal duration times requested GPUs''))))"

definition pool_resource_claim_post_init :: "pool_resource_claim \<Rightarrow> pool_resource_claim res" where
  "pool_resource_claim_post_init c =
     rbind (claim_sets_check c) (\<lambda>_.
     rbind (claim_numbers_check c) (\<lambda>_.
     rbind (check_all (\<lambda>(name, value). require_text name value)
       [(''disk_io_class'', pr_disk_io_class c), (''network_class'', pr_network_class c),
        (''cache_root'', pr_cache_root c), (''evidence_root'', pr_evidence_root c),
        (''interference_class'', pr_interference_class c),
        (''load_thermal_power_envelope'', pr_load_envelope c)]) (\<lambda>_.
     rbind (claim_estimates_check c) (\<lambda>_.
     rbind (raise_if (pr_workload_class c \<in> exclusive_host_classes \<and> \<not> pr_exclusive_host c)
       (ValueError ''profile/download/compile claims must request exclusive-host access'')) (\<lambda>_. Inr c)))))"

definition contention_class_of :: "int \<Rightarrow> int list \<Rightarrow> string \<Rightarrow> string \<Rightarrow> string" where
  "contention_class_of cpu_cores numa_nodes disk_io_class network_class = content_sha256 (JObj
     [(''cpu_cores'', JInt cpu_cores), (''numa_nodes'', jints numa_nodes),
      (''disk_io_class'', JStr disk_io_class), (''network_class'', JStr network_class)])"

definition contention_class :: "pool_resource_claim \<Rightarrow> string" where
  "contention_class c =
     contention_class_of (pr_cpu_cores c) (pr_numa_nodes c) (pr_disk_io_class c) (pr_network_class c)"

definition pool_resource_claim_to_dict :: "pool_resource_claim \<Rightarrow> json" where
  "pool_resource_claim_to_dict c = JObj
     [(''gang_shape'', gang_shape_to_dict (pr_gang_shape c)),
      (''exact_gpu_uuids'', jstrs (pr_exact_gpu_uuids c)),
      (''homogeneous'', device_constraint_to_dict (pr_homogeneous c)),
      (''allowed_topology_groups'', jstrs (pr_allowed_topology_groups c)),
      (''allowed_fabrics'', jstrs (pr_allowed_fabrics c)),
      (''same_host'', JBool (pr_same_host c)), (''exclusive_gpu'', JBool (pr_exclusive_gpu c)),
      (''exclusive_host'', JBool (pr_exclusive_host c)), (''cpu_cores'', JInt (pr_cpu_cores c)),
      (''numa_nodes'', jints (pr_numa_nodes c)), (''ram_bytes'', JInt (pr_ram_bytes c)),
      (''disk_io_class'', JStr (pr_disk_io_class c)), (''network_class'', JStr (pr_network_class c)),
      (''port_count'', JInt (pr_port_count c)), (''exact_ports'', jints (pr_exact_ports c)),
      (''cache_root'', JStr (pr_cache_root c)), (''evidence_root'', JStr (pr_evidence_root c)),
      (''workload_class'', JStr (workload_text (pr_workload_class c))),
      (''interference_class'', JStr (pr_interference_class c)),
      (''load_thermal_power_envelope'', JStr (pr_load_envelope c)),
      (''estimated_duration_seconds'', JFloat (pr_estimated_duration_seconds c)),
      (''estimated_gpu_seconds'', JFloat (pr_estimated_gpu_seconds c))]"

definition pool_resource_claim_fields :: "string list" where
  "pool_resource_claim_fields =
     [''gang_shape'', ''exact_gpu_uuids'', ''homogeneous'', ''allowed_topology_groups'', ''allowed_fabrics'',
      ''same_host'', ''exclusive_gpu'', ''exclusive_host'', ''cpu_cores'', ''numa_nodes'', ''ram_bytes'',
      ''disk_io_class'', ''network_class'', ''port_count'', ''exact_ports'', ''cache_root'', ''evidence_root'',
      ''workload_class'', ''interference_class'', ''load_thermal_power_envelope'',
      ''estimated_duration_seconds'', ''estimated_gpu_seconds'']"

definition pool_resource_claim_from_dict :: "json \<Rightarrow> pool_resource_claim res" where
  "pool_resource_claim_from_dict value =
     rbind (strict_object ''pool resource claim'' value pool_resource_claim_fields) (\<lambda>row.
     rbind (gang_shape_from_dict (jfield row ''gang_shape'')) (\<lambda>shape.
     rbind (strict_texts ''exact_gpu_uuids'' ''exact GPU UUID'' (jfield row ''exact_gpu_uuids'')) (\<lambda>exact.
     rbind (device_constraint_from_dict (jfield row ''homogeneous'')) (\<lambda>homogeneous.
     rbind (strict_texts ''allowed_topology_groups'' ''allowed topology group''
       (jfield row ''allowed_topology_groups'')) (\<lambda>groups.
     rbind (strict_texts ''allowed_fabrics'' ''allowed fabric'' (jfield row ''allowed_fabrics'')) (\<lambda>fabrics.
     rbind (strict_bool ''same_host'' (jfield row ''same_host'')) (\<lambda>same_host.
     rbind (strict_bool ''exclusive_gpu'' (jfield row ''exclusive_gpu'')) (\<lambda>exclusive_gpu.
     rbind (strict_bool ''exclusive_host'' (jfield row ''exclusive_host'')) (\<lambda>exclusive_host.
     rbind (strict_int ''cpu_cores'' (jfield row ''cpu_cores'')) (\<lambda>cpu_cores.
     rbind (strict_ints ''numa_nodes'' ''NUMA node'' (jfield row ''numa_nodes'')) (\<lambda>numa_nodes.
     rbind (strict_int ''ram_bytes'' (jfield row ''ram_bytes'')) (\<lambda>ram_bytes.
     rbind (strict_text ''disk_io_class'' (jfield row ''disk_io_class'')) (\<lambda>disk_io_class.
     rbind (strict_text ''network_class'' (jfield row ''network_class'')) (\<lambda>network_class.
     rbind (strict_int ''port_count'' (jfield row ''port_count'')) (\<lambda>port_count.
     rbind (strict_ints ''exact_ports'' ''exact port'' (jfield row ''exact_ports'')) (\<lambda>exact_ports.
     rbind (strict_text ''cache_root'' (jfield row ''cache_root'')) (\<lambda>cache_root.
     rbind (strict_text ''evidence_root'' (jfield row ''evidence_root'')) (\<lambda>evidence_root.
     rbind (rbind (strict_text ''workload_class'' (jfield row ''workload_class'')) workload_of_text) (\<lambda>workload.
     rbind (strict_text ''interference_class'' (jfield row ''interference_class'')) (\<lambda>interference_class.
     rbind (strict_text ''load_thermal_power_envelope'' (jfield row ''load_thermal_power_envelope'')) (\<lambda>envelope.
     rbind (strict_float ''estimated_duration_seconds'' (jfield row ''estimated_duration_seconds'')) (\<lambda>duration.
     rbind (strict_float ''estimated_gpu_seconds'' (jfield row ''estimated_gpu_seconds'')) (\<lambda>gpu_seconds.
     pool_resource_claim_post_init
       \<lparr>pr_gang_shape = shape, pr_exact_gpu_uuids = exact, pr_homogeneous = homogeneous,
        pr_allowed_topology_groups = groups, pr_allowed_fabrics = fabrics, pr_same_host = same_host,
        pr_exclusive_gpu = exclusive_gpu, pr_exclusive_host = exclusive_host, pr_cpu_cores = cpu_cores,
        pr_numa_nodes = numa_nodes, pr_ram_bytes = ram_bytes, pr_disk_io_class = disk_io_class,
        pr_network_class = network_class, pr_port_count = port_count, pr_exact_ports = exact_ports,
        pr_cache_root = cache_root, pr_evidence_root = evidence_root, pr_workload_class = workload,
        pr_interference_class = interference_class, pr_load_envelope = envelope,
        pr_estimated_duration_seconds = duration,
        pr_estimated_gpu_seconds = gpu_seconds\<rparr>)))))))))))))))))))))))"

section \<open>Work items\<close>

record pool_work_item =
  wi_cell :: experiment_cell
  wi_claim :: pool_resource_claim
  wi_affinity_key :: "string option"
  wi_serial_group_key :: "string option"

definition opt_sha256 :: "string \<Rightarrow> string option \<Rightarrow> unit res" where
  "opt_sha256 name x = (case x of None \<Rightarrow> Inr () | Some s \<Rightarrow> require_sha256_text name s)"

definition pool_work_item_post_init :: "pool_work_item \<Rightarrow> pool_work_item res" where
  "pool_work_item_post_init w =
     rbind (opt_sha256 ''affinity_key'' (wi_affinity_key w)) (\<lambda>_.
     rbind (opt_sha256 ''serial_group_key'' (wi_serial_group_key w)) (\<lambda>_. Inr w))"

definition item_id :: "pool_work_item \<Rightarrow> string" where
  "item_id w = cell_id (wi_cell w)"

definition pool_work_item_to_dict :: "pool_work_item \<Rightarrow> json" where
  "pool_work_item_to_dict w = JObj
     [(''cell'', experiment_cell_to_dict (wi_cell w)),
      (''cell_sha256'', JStr (experiment_cell_sha256 (wi_cell w))),
      (''claim'', pool_resource_claim_to_dict (wi_claim w)),
      (''affinity_key'', jopt JStr (wi_affinity_key w)),
      (''serial_group_key'', jopt JStr (wi_serial_group_key w))]"

definition pool_work_item_sha256 :: "pool_work_item \<Rightarrow> string" where
  "pool_work_item_sha256 w = content_sha256 (pool_work_item_to_dict w)"

definition pool_work_item_from_dict :: "json \<Rightarrow> pool_work_item res" where
  "pool_work_item_from_dict value =
     rbind (strict_object ''pool work item'' value
       [''cell'', ''cell_sha256'', ''claim'', ''affinity_key'', ''serial_group_key'']) (\<lambda>row.
     rbind (experiment_cell_from_dict (jfield row ''cell'')) (\<lambda>cell.
     rbind (strict_text ''cell_sha256'' (jfield row ''cell_sha256'')) (\<lambda>declared.
     rbind (require_sha256_text ''cell_sha256'' declared) (\<lambda>_.
     rbind (raise_if (declared \<noteq> experiment_cell_sha256 cell)
       (ValueError ''work-item cell SHA-256 mismatch'')) (\<lambda>_.
     rbind (pool_resource_claim_from_dict (jfield row ''claim'')) (\<lambda>claim.
     rbind (optional_text ''affinity_key'' (jfield row ''affinity_key'')) (\<lambda>affinity.
     rbind (optional_text ''serial_group_key'' (jfield row ''serial_group_key'')) (\<lambda>serial.
     pool_work_item_post_init
       \<lparr>wi_cell = cell, wi_claim = claim, wi_affinity_key = affinity, wi_serial_group_key = serial\<rparr>))))))))"

section \<open>From a registry cell to a work item\<close>

definition identity_without_method_or_gpu :: "experiment_cell \<Rightarrow> (string \<times> json) list" where
  "identity_without_method_or_gpu c =
     (let i = xc_identity c in
      [(''experiment'', JStr (xi_experiment i)), (''model'', JStr (xi_model i)),
       (''backend'', JStr (xi_backend i)), (''task'', JStr (xi_task i)), (''scope'', jopt JStr (xi_scope i)),
       (''rank'', jopt JInt (xi_rank i)), (''alpha_over_rank'', jopt JFloat (xi_alpha_over_rank i)),
       (''optimizer'', jopt JStr (xi_optimizer i)), (''learning_rate'', jopt JFloat (xi_learning_rate i)),
       (''schedule'', jopt JStr (xi_schedule i)), (''context'', jopt JInt (xi_context i)),
       (''regime'', JStr (xi_regime i)), (''width'', jopt JInt (xi_width i)), (''arrival'', JStr (xi_arrival i)),
       (''slo'', JStr (xi_slo i)), (''cohort'', JStr (xi_cohort i)), (''topology'', JStr (xi_topology i)),
       (''seed'', JInt (xi_seed i)), (''block'', JInt (xi_block i)),
       (''parameterization'', JStr (xi_parameterization i)), (''variant'', JStr (xi_variant i)),
       (''concurrency'', jopt JInt (xi_concurrency i)), (''load_factor'', jopt JFloat (xi_load_factor i)),
       (''cohort_count'', JInt (xi_cohort_count i))])"

definition confirmation_serial_key :: "experiment_cell \<Rightarrow> string" where
  "confirmation_serial_key c =
     (let i = xc_identity c;
          backend = (if xi_experiment i = ''E3b'' \<and> xi_backend i = ''NONE'' then ''DFLASH'' else xi_backend i)
      in content_sha256 (JObj
       [(''experiment'', JStr (xi_experiment i)), (''model'', JStr (xi_model i)),
        (''backend_family'', JStr backend), (''task'', JStr (xi_task i)), (''context'', jopt JInt (xi_context i)),
        (''regime'', JStr (xi_regime i)), (''arrival'', JStr (xi_arrival i)), (''slo'', JStr (xi_slo i)),
        (''cohort'', JStr (xi_cohort i)), (''topology'', JStr (xi_topology i)), (''seed'', JInt (xi_seed i)),
        (''block'', JInt (xi_block i)), (''variant'', JStr (xi_variant i)),
        (''concurrency'', jopt JInt (xi_concurrency i)), (''load_factor'', jopt JFloat (xi_load_factor i)),
        (''cohort_count'', JInt (xi_cohort_count i))]))"

definition registry_gang_shape :: "experiment_cell \<Rightarrow> gang_shape res" where
  "registry_gang_shape c =
     (let topology = py_lower (xi_topology (xc_identity c)); gpu_count = rc_gpu_count (xc_resources c)
      in rbind (gang_shape_post_init
           (if topology = ''two_replica_tp1_dp2'' \<or> py_in ''two_independent_tp1'' topology
            then \<lparr>gs_tensor_parallel_size = 1, gs_data_parallel_size = gpu_count\<rparr>
            else if py_in ''tp2'' topology
            then \<lparr>gs_tensor_parallel_size = 2, gs_data_parallel_size = gpu_count div 2\<rparr>
            else \<lparr>gs_tensor_parallel_size = gpu_count, gs_data_parallel_size = 1\<rparr>)) (\<lambda>shape.
         rbind (raise_if (gs_gpu_count shape \<noteq> gpu_count)
           (ValueError ''registry topology and resource GPU count disagree'')) (\<lambda>_. Inr shape)))"

text \<open>\<open>str(variant).split("_slot_", maxsplit=1)[0]\<close>: the text before the first separator.\<close>

fun before_separator :: "string \<Rightarrow> string \<Rightarrow> string" where
  "before_separator sep [] = []"
| "before_separator sep (c # s) = (if startswith (c # s) sep then [] else c # before_separator sep s)"

definition calibration_cell :: "experiment_cell \<Rightarrow> bool" where
  "calibration_cell c \<longleftrightarrow> xi_experiment (xc_identity c) = ''preflight''
     \<and> xi_task (xc_identity c) = ''simultaneous_single_gpu_interference''"

definition interference_class_of :: "experiment_cell \<Rightarrow> gang_shape \<Rightarrow> string" where
  "interference_class_of c shape =
     (let i = xc_identity c; contention = contention_class_of 1 [] ''registered'' ''registered''
      in if calibration_cell c
         then content_sha256 (JObj
           [(''schema_version'', JInt 1), (''kind'', JStr ''interference_calibration_bootstrap_class''),
            (''model'', JStr (xi_model i)), (''backend'', JStr (xi_backend i)), (''task'', JStr (xi_task i)),
            (''repetition'', JInt (xi_block i)), (''context'', jopt JInt (xi_context i)),
            (''arrival'', JStr (xi_arrival i)), (''concurrency'', jopt JInt (xi_concurrency i)),
            (''gang_shape'', JStr (gs_signature shape)), (''contention_class'', JStr contention)])
         else content_sha256 (JObj
           [(''workload_class'', JStr (workload_text (rc_workload_class (xc_resources c)))),
            (''experiment'', JStr (xi_experiment i)), (''gang_shape'', JStr (gs_signature shape)),
            (''contention_class'', JStr contention)]))"

definition registry_pool_work_item :: "experiment_cell \<Rightarrow> pyfloat \<Rightarrow> pool_work_item res" where
  "registry_pool_work_item c estimated_duration_seconds =
     (let i = xc_identity c; r = xc_resources c;
          confirmation = xi_experiment i \<in> {''E3b'', ''E5''};
          serial = (if confirmation then Some (confirmation_serial_key c) else None);
          affinity = (if confirmation then serial
            else if xi_method i \<in> {''tts'', ''l0''} \<and> xi_experiment i \<in> {''E1'', ''E2'', ''E1a''}
            then Some (content_sha256 (JObj (identity_without_method_or_gpu c))) else None);
          calibration_mode = (if calibration_cell c then Some (before_separator ''_slot_'' (xi_variant i)) else None)
      in rbind (require_positive_finite ''estimated_duration_seconds'' estimated_duration_seconds) (\<lambda>_.
         rbind (registry_gang_shape c) (\<lambda>shape.
         rbind (raise_if (calibration_cell c \<and> calibration_mode \<notin> {Some ''isolated'', Some ''concurrent''})
           (ValueError ''calibration cell has an invalid registered mode'')) (\<lambda>_.
         rbind (float_of_int (gs_gpu_count shape)) (\<lambda>gpus.
         rbind (pool_resource_claim_post_init
           \<lparr>pr_gang_shape = shape, pr_exact_gpu_uuids = [], pr_homogeneous = default_constraint,
            pr_allowed_topology_groups = [], pr_allowed_fabrics = [], pr_same_host = True,
            pr_exclusive_gpu = True,
            pr_exclusive_host = (rc_workload_class r \<in> exclusive_host_classes
              \<or> calibration_mode = Some ''isolated''),
            pr_cpu_cores = 1, pr_numa_nodes = [], pr_ram_bytes = 0, pr_disk_io_class = ''registered'',
            pr_network_class = ''registered'', pr_port_count = int (length (rc_ports r)), pr_exact_ports = [],
            pr_cache_root = rc_cache_root r, pr_evidence_root = rc_evidence_root r,
            pr_workload_class = rc_workload_class r, pr_interference_class = interference_class_of c shape,
            pr_load_envelope = ''registered'', pr_estimated_duration_seconds = estimated_duration_seconds,
            pr_estimated_gpu_seconds = pf_mul estimated_duration_seconds gpus\<rparr>) (\<lambda>claim.
         pool_work_item_post_init
           \<lparr>wi_cell = c, wi_claim = claim, wi_affinity_key = affinity,
            wi_serial_group_key = serial\<rparr>))))))"

end
