(* ===== verification/Pool_Plan.thy ===== *)
theory Pool_Plan
  imports Pool_Claims
begin

text \<open>
  Dispatch artifacts of the GPU pool (\<open>experiments/gpu_pool.py\<close>): interference rules and envelopes,
  assignments of work items to GPUs and ports, dispatch waves and the dispatch plan, with their
  constructors and strict JSON forms. The reader of a plan needs the planning context of the whole
  registry and is left out. Shown: rules, envelopes, assignments and waves survive \<open>to_dict\<close> and
  \<open>from_dict\<close>; what an accepted wave and plan guarantee.
\<close>

section \<open>Interference rules\<close>

record interference_rule =
  ir_hardware_envelope_sha256 :: string
  ir_workload_class :: workload_class
  ir_co_run_signature :: string
  ir_simultaneous_jobs :: int
  ir_gang_shape :: string
  ir_load_envelope :: string
  ir_contention_class :: string
  ir_evidence_sha256 :: string
  ir_status :: string

definition interference_rule_post_init :: "interference_rule \<Rightarrow> interference_rule res" where
  "interference_rule_post_init r =
     rbind (require_sha256_text ''hardware_envelope_sha256'' (ir_hardware_envelope_sha256 r)) (\<lambda>_.
     rbind (check_all (\<lambda>(name, value). require_text name value)
       [(''co_run_signature'', ir_co_run_signature r), (''gang_shape'', ir_gang_shape r),
        (''load_thermal_power_envelope'', ir_load_envelope r),
        (''contention_class'', ir_contention_class r)]) (\<lambda>_.
     rbind (raise_if (ir_simultaneous_jobs r < 2)
       (ValueError ''interference rules require at least two jobs'')) (\<lambda>_.
     rbind (require_sha256_text ''interference evidence_sha256'' (ir_evidence_sha256 r)) (\<lambda>_.
     rbind (raise_if (ir_status r \<notin> {''PASS'', ''FAIL''})
       (ValueError ''interference rule status must be PASS or FAIL'')) (\<lambda>_. Inr r)))))"

type_synonym rule_key = "string \<times> string \<times> string \<times> int \<times> string \<times> string \<times> string"

definition rule_key :: "interference_rule \<Rightarrow> rule_key" where
  "rule_key r =
     (ir_hardware_envelope_sha256 r, workload_text (ir_workload_class r), ir_co_run_signature r,
      ir_simultaneous_jobs r, ir_gang_shape r, ir_load_envelope r, ir_contention_class r)"

definition interference_rule_to_dict :: "interference_rule \<Rightarrow> json" where
  "interference_rule_to_dict r = JObj
     [(''hardware_envelope_sha256'', JStr (ir_hardware_envelope_sha256 r)),
      (''workload_class'', JStr (workload_text (ir_workload_class r))),
      (''co_run_signature'', JStr (ir_co_run_signature r)),
      (''simultaneous_jobs'', JInt (ir_simultaneous_jobs r)), (''gang_shape'', JStr (ir_gang_shape r)),
      (''load_thermal_power_envelope'', JStr (ir_load_envelope r)),
      (''contention_class'', JStr (ir_contention_class r)), (''evidence_sha256'', JStr (ir_evidence_sha256 r)),
      (''status'', JStr (ir_status r))]"

definition interference_rule_from_dict :: "json \<Rightarrow> interference_rule res" where
  "interference_rule_from_dict value =
     rbind (strict_object ''interference rule'' value
       [''hardware_envelope_sha256'', ''workload_class'', ''co_run_signature'', ''simultaneous_jobs'', ''gang_shape'',
        ''load_thermal_power_envelope'', ''contention_class'', ''evidence_sha256'', ''status'']) (\<lambda>row.
     rbind (strict_text ''hardware_envelope_sha256'' (jfield row ''hardware_envelope_sha256'')) (\<lambda>hardware.
     rbind (rbind (strict_text ''workload_class'' (jfield row ''workload_class'')) workload_of_text) (\<lambda>workload.
     rbind (strict_text ''co_run_signature'' (jfield row ''co_run_signature'')) (\<lambda>signature.
     rbind (strict_int ''simultaneous_jobs'' (jfield row ''simultaneous_jobs'')) (\<lambda>jobs.
     rbind (strict_text ''gang_shape'' (jfield row ''gang_shape'')) (\<lambda>gang.
     rbind (strict_text ''load_thermal_power_envelope'' (jfield row ''load_thermal_power_envelope'')) (\<lambda>load.
     rbind (strict_text ''contention_class'' (jfield row ''contention_class'')) (\<lambda>contention.
     rbind (strict_text ''evidence_sha256'' (jfield row ''evidence_sha256'')) (\<lambda>evidence.
     rbind (strict_text ''interference status'' (jfield row ''status'')) (\<lambda>status.
     interference_rule_post_init
       \<lparr>ir_hardware_envelope_sha256 = hardware, ir_workload_class = workload, ir_co_run_signature = signature,
        ir_simultaneous_jobs = jobs, ir_gang_shape = gang, ir_load_envelope = load,
        ir_contention_class = contention, ir_evidence_sha256 = evidence, ir_status = status\<rparr>))))))))))"

definition rule_for_claim ::
  "gpu_device \<Rightarrow> pool_resource_claim \<Rightarrow> int \<Rightarrow> string \<Rightarrow> string \<Rightarrow> interference_rule res" where
  "rule_for_claim device claim simultaneous_jobs evidence_sha256 status =
     interference_rule_post_init
       \<lparr>ir_hardware_envelope_sha256 = hardware_envelope_sha256 device,
        ir_workload_class = pr_workload_class claim, ir_co_run_signature = pr_interference_class claim,
        ir_simultaneous_jobs = simultaneous_jobs, ir_gang_shape = gs_signature (pr_gang_shape claim),
        ir_load_envelope = pr_load_envelope claim, ir_contention_class = contention_class claim,
        ir_evidence_sha256 = evidence_sha256, ir_status = status\<rparr>"

record interference_envelope =
  ie_schema_version :: int
  ie_rules :: "interference_rule list"
  ie_source_receipt_sha256 :: string

definition interference_envelope_post_init :: "interference_envelope \<Rightarrow> interference_envelope res" where
  "interference_envelope_post_init e =
     rbind (raise_if (ie_schema_version e \<noteq> 1)
       (ValueError ''only interference-envelope schema version 1 is supported'')) (\<lambda>_.
     rbind (require_sha256_text ''source_receipt_sha256'' (ie_source_receipt_sha256 e)) (\<lambda>_.
     rbind (raise_if (\<not> distinct (map rule_key (ie_rules e)))
       (ValueError ''interference envelope contains duplicate rule keys'')) (\<lambda>_.
     rbind (raise_if (sort (map rule_key (ie_rules e)) \<noteq> map rule_key (ie_rules e))
       (ValueError ''interference rules must be in canonical key order'')) (\<lambda>_. Inr e))))"

definition interference_envelope_to_dict :: "interference_envelope \<Rightarrow> json" where
  "interference_envelope_to_dict e = JObj
     [(''schema_version'', JInt (ie_schema_version e)),
      (''rules'', JArr (map interference_rule_to_dict (ie_rules e))),
      (''source_receipt_sha256'', JStr (ie_source_receipt_sha256 e))]"

definition interference_envelope_sha256 :: "interference_envelope \<Rightarrow> string" where
  "interference_envelope_sha256 e = content_sha256 (interference_envelope_to_dict e)"

definition interference_envelope_from_dict :: "json \<Rightarrow> sidecar_argument \<Rightarrow> interference_envelope res" where
  "interference_envelope_from_dict value sidecar =
     rbind (strict_object ''interference envelope'' value
       [''schema_version'', ''rules'', ''source_receipt_sha256'']) (\<lambda>row.
     rbind (strict_int ''schema_version'' (jfield row ''schema_version'')) (\<lambda>version.
     rbind (rbind (strict_list ''rules'' (jfield row ''rules'')) (map_res interference_rule_from_dict)) (\<lambda>rules.
     rbind (strict_text ''source_receipt_sha256'' (jfield row ''source_receipt_sha256'')) (\<lambda>receipt.
     rbind (interference_envelope_post_init
       \<lparr>ie_schema_version = version, ie_rules = rules, ie_source_receipt_sha256 = receipt\<rparr>) (\<lambda>e.
     rbind (validate_sidecar ''interference_envelope.v1'' (interference_envelope_sha256 e) sidecar)
       (\<lambda>_. Inr e))))))"

definition interference_envelope_sidecar :: "interference_envelope \<Rightarrow> artifact_sidecar res" where
  "interference_envelope_sidecar e = artifact_sidecar_post_init
     \<lparr>as_schema_version = 1, as_artifact_kind = ''interference_envelope.v1'',
      as_artifact_sha256 = interference_envelope_sha256 e\<rparr>"

definition serial_envelope :: "string \<Rightarrow> interference_envelope res" where
  "serial_envelope source_receipt_sha256 = interference_envelope_post_init
     \<lparr>ie_schema_version = 1, ie_rules = [], ie_source_receipt_sha256 = source_receipt_sha256\<rparr>"

section \<open>Assignments\<close>

record gpu_assignment =
  ga_work_item :: pool_work_item
  ga_gpu_uuids :: "string list"
  ga_rank_groups :: "string list list"
  ga_ports :: "int list"

abbreviation ga_claim :: "gpu_assignment \<Rightarrow> pool_resource_claim" where
  "ga_claim a \<equiv> wi_claim (ga_work_item a)"

definition gpu_assignment_post_init :: "gpu_assignment \<Rightarrow> gpu_assignment res" where
  "gpu_assignment_post_init a =
     (let claim = ga_claim a; shape = pr_gang_shape claim
      in rbind (raise_if (int (length (ga_gpu_uuids a)) \<noteq> gs_gpu_count shape \<or> \<not> distinct (ga_gpu_uuids a))
           (ValueError ''assignment must bind every gang rank to one unique GPU'')) (\<lambda>_.
         rbind (raise_if (concat (ga_rank_groups a) \<noteq> ga_gpu_uuids a)
           (ValueError ''rank groups must exactly partition ordered GPU UUIDs'')) (\<lambda>_.
         rbind (raise_if (int (length (ga_rank_groups a)) \<noteq> gs_data_parallel_size shape
             \<or> list_ex (\<lambda>g. int (length g) \<noteq> gs_tensor_parallel_size shape) (ga_rank_groups a))
           (ValueError ''rank groups do not match the TP/DP gang shape'')) (\<lambda>_.
         rbind (raise_if (int (length (ga_ports a)) \<noteq> pr_port_count claim \<or> \<not> distinct (ga_ports a))
           (ValueError ''assignment ports must exactly satisfy port_count'')) (\<lambda>_.
         rbind (raise_if (list_ex port_out_of_range (ga_ports a))
           (ValueError ''assignment ports must be in [1024, 65535]'')) (\<lambda>_.
         rbind (raise_if (pr_exact_gpu_uuids claim \<noteq> [] \<and> ga_gpu_uuids a \<noteq> pr_exact_gpu_uuids claim)
           (ValueError ''assignment differs from exact requested GPU UUIDs'')) (\<lambda>_.
         rbind (raise_if (pr_exact_ports claim \<noteq> [] \<and> ga_ports a \<noteq> pr_exact_ports claim)
           (ValueError ''assignment differs from exact requested ports'')) (\<lambda>_. Inr a))))))))"

definition gpu_assignment_to_dict :: "gpu_assignment \<Rightarrow> json" where
  "gpu_assignment_to_dict a = JObj
     [(''work_item'', pool_work_item_to_dict (ga_work_item a)),
      (''work_item_sha256'', JStr (pool_work_item_sha256 (ga_work_item a))),
      (''gpu_uuids'', jstrs (ga_gpu_uuids a)), (''rank_groups'', JArr (map jstrs (ga_rank_groups a))),
      (''ports'', jints (ga_ports a))]"

definition assignment_id :: "gpu_assignment \<Rightarrow> string" where
  "assignment_id a = content_sha256 (gpu_assignment_to_dict a)"

definition gpu_assignment_from_dict :: "json \<Rightarrow> gpu_assignment res" where
  "gpu_assignment_from_dict value =
     rbind (strict_object ''GPU assignment'' value
       [''work_item'', ''work_item_sha256'', ''gpu_uuids'', ''rank_groups'', ''ports'']) (\<lambda>row.
     rbind (pool_work_item_from_dict (jfield row ''work_item'')) (\<lambda>work_item.
     rbind (strict_text ''work_item_sha256'' (jfield row ''work_item_sha256'')) (\<lambda>declared.
     rbind (require_sha256_text ''work_item_sha256'' declared) (\<lambda>_.
     rbind (raise_if (declared \<noteq> pool_work_item_sha256 work_item)
       (ValueError ''assignment work-item SHA-256 mismatch'')) (\<lambda>_.
     rbind (rbind (strict_list ''rank_groups'' (jfield row ''rank_groups''))
       (map_res (strict_texts ''rank group'' ''rank GPU UUID''))) (\<lambda>rank_groups.
     rbind (strict_texts ''gpu_uuids'' ''assigned GPU UUID'' (jfield row ''gpu_uuids'')) (\<lambda>gpu_uuids.
     rbind (strict_ints ''ports'' ''assigned port'' (jfield row ''ports'')) (\<lambda>ports.
     gpu_assignment_post_init
       \<lparr>ga_work_item = work_item, ga_gpu_uuids = gpu_uuids, ga_rank_groups = rank_groups,
        ga_ports = ports\<rparr>))))))))"

section \<open>Co-tenancy\<close>

text \<open>\<open>len(set(values)) == 1\<close>\<close>

definition one_value :: "'a list \<Rightarrow> bool" where
  "one_value xs \<longleftrightarrow> length (remdups xs) = 1"

definition permits :: "interference_envelope \<Rightarrow> gpu_inventory \<Rightarrow> gpu_assignment list \<Rightarrow> bool res" where
  "permits e v assignments =
     (if length assignments \<le> 1 then Inr True
      else let claims = map ga_claim assignments;
               workload = pr_workload_class (hd claims);
               co_run = map pr_interference_class claims;
               shapes = map (\<lambda>c. gs_signature (pr_gang_shape c)) claims;
               loads = map pr_load_envelope claims;
               contentions = map contention_class claims
      in if \<not> one_value (map pr_workload_class claims) then Inr False
         else if list_ex pr_exclusive_host claims then Inr False
         else if workload \<in> exclusive_host_classes then Inr False
         else if workload = HEADLINE \<and> list_ex (\<lambda>c. pr_workload_class c \<noteq> HEADLINE) claims then Inr False
         else rbind (map_res (inventory_device v) (concat (map ga_gpu_uuids assignments))) (\<lambda>devices.
           let envelopes = map hardware_envelope_sha256 devices
           in if \<not> (one_value co_run \<and> one_value shapes \<and> one_value loads \<and> one_value contentions
                   \<and> one_value envelopes)
              then Inr False
              else Inr (list_ex (\<lambda>r. rule_key r =
                   (hd envelopes, workload_text workload, hd co_run, int (length assignments), hd shapes,
                    hd loads, hd contentions) \<and> ir_status r = ''PASS'') (ie_rules e))))"

section \<open>Waves\<close>

record gpu_dispatch_wave =
  gw_wave_index :: int
  gw_assignments :: "gpu_assignment list"
  gw_interference_envelope_sha256 :: string

text \<open>The resources the loop of a wave has collected.\<close>

record wave_usage =
  us_gpus :: "string set"
  us_ports :: "int set"
  us_caches :: "string set"
  us_evidence :: "string set"
  us_serials :: "string set"

definition no_usage :: wave_usage where
  "no_usage = \<lparr>us_gpus = {}, us_ports = {}, us_caches = {}, us_evidence = {}, us_serials = {}\<rparr>"

definition add_usage :: "wave_usage \<Rightarrow> gpu_assignment \<Rightarrow> wave_usage" where
  "add_usage u a =
     \<lparr>us_gpus = us_gpus u \<union> set (ga_gpu_uuids a), us_ports = us_ports u \<union> set (ga_ports a),
      us_caches = insert (pr_cache_root (ga_claim a)) (us_caches u),
      us_evidence = insert (pr_evidence_root (ga_claim a)) (us_evidence u),
      us_serials = (case wi_serial_group_key (ga_work_item a) of
          None \<Rightarrow> us_serials u | Some k \<Rightarrow> insert k (us_serials u))\<rparr>"

abbreviation overlaps :: "'a set \<Rightarrow> 'a list \<Rightarrow> bool" where
  "overlaps used xs \<equiv> list_ex (\<lambda>x. x \<in> used) xs"

abbreviation serial_used :: "wave_usage \<Rightarrow> gpu_assignment \<Rightarrow> bool" where
  "serial_used u a \<equiv> (case wi_serial_group_key (ga_work_item a) of None \<Rightarrow> False | Some k \<Rightarrow> k \<in> us_serials u)"

fun wave_check :: "wave_usage \<Rightarrow> gpu_assignment list \<Rightarrow> unit res" where
  "wave_check u [] = Inr ()"
| "wave_check u (a # rest) =
     (if overlaps (us_gpus u) (ga_gpu_uuids a) then Inl (ValueError ''dispatch wave overlaps a GPU'')
      else if overlaps (us_ports u) (ga_ports a) then Inl (ValueError ''dispatch wave overlaps a port'')
      else if pr_cache_root (ga_claim a) \<in> us_caches u
      then Inl (ValueError ''dispatch wave overlaps a cache writer'')
      else if pr_evidence_root (ga_claim a) \<in> us_evidence u
      then Inl (ValueError ''dispatch wave overlaps an evidence root'')
      else if serial_used u a then Inl (ValueError ''serial scientific group cannot share a wave'')
      else wave_check (add_usage u a) rest)"

definition gpu_dispatch_wave_post_init :: "gpu_dispatch_wave \<Rightarrow> gpu_dispatch_wave res" where
  "gpu_dispatch_wave_post_init w =
     rbind (raise_if (gw_wave_index w < 0) (ValueError ''wave_index must be a non-negative integer'')) (\<lambda>_.
     rbind (raise_if (gw_assignments w = []) (ValueError ''a dispatch wave cannot be empty'')) (\<lambda>_.
     rbind (require_sha256_text ''interference_envelope_sha256'' (gw_interference_envelope_sha256 w)) (\<lambda>_.
     rbind (raise_if (\<not> distinct (map assignment_id (gw_assignments w)))
       (ValueError ''dispatch wave contains duplicate assignments'')) (\<lambda>_.
     rbind (wave_check no_usage (gw_assignments w)) (\<lambda>_.
     rbind (raise_if (1 < length (gw_assignments w)
         \<and> list_ex (\<lambda>a. pr_exclusive_host (ga_claim a)) (gw_assignments w))
       (ValueError ''exclusive-host work cannot share a dispatch wave'')) (\<lambda>_. Inr w))))))"

definition gpu_dispatch_wave_to_dict :: "gpu_dispatch_wave \<Rightarrow> json" where
  "gpu_dispatch_wave_to_dict w = JObj
     [(''wave_index'', JInt (gw_wave_index w)),
      (''assignments'', JArr (map gpu_assignment_to_dict (gw_assignments w))),
      (''assignment_sha256'', jstrs (map assignment_id (gw_assignments w))),
      (''interference_envelope_sha256'', JStr (gw_interference_envelope_sha256 w))]"

definition gpu_dispatch_wave_from_dict :: "json \<Rightarrow> gpu_dispatch_wave res" where
  "gpu_dispatch_wave_from_dict value =
     rbind (strict_object ''GPU dispatch wave'' value
       [''wave_index'', ''assignments'', ''assignment_sha256'', ''interference_envelope_sha256'']) (\<lambda>row.
     rbind (rbind (strict_list ''assignments'' (jfield row ''assignments'')) (map_res gpu_assignment_from_dict))
       (\<lambda>assignments.
     rbind (strict_texts ''assignment_sha256'' ''assignment_sha256'' (jfield row ''assignment_sha256'')) (\<lambda>declared.
     rbind (raise_if (declared \<noteq> map assignment_id assignments)
       (ValueError ''dispatch-wave assignment SHA-256 list mismatch'')) (\<lambda>_.
     rbind (strict_int ''wave_index'' (jfield row ''wave_index'')) (\<lambda>index.
     rbind (strict_text ''interference_envelope_sha256'' (jfield row ''interference_envelope_sha256'')) (\<lambda>envelope.
     gpu_dispatch_wave_post_init
       \<lparr>gw_wave_index = index, gw_assignments = assignments,
        gw_interference_envelope_sha256 = envelope\<rparr>))))))"

section \<open>The plan\<close>

record gpu_dispatch_plan =
  gp_schema_version :: int
  gp_registry_sha256 :: string
  gp_inventory_sha256 :: string
  gp_receipts_sha256 :: string
  gp_interference_envelope_sha256 :: string
  gp_budget_sha256_by_cell :: "(string \<times> string) list"
  gp_seed :: int
  gp_waves :: "gpu_dispatch_wave list"
  gp_completed_cell_ids :: "string list"

abbreviation plan_assignments :: "gpu_dispatch_plan \<Rightarrow> gpu_assignment list" where
  "plan_assignments p \<equiv> concat (map gw_assignments (gp_waves p))"

abbreviation plan_cell_ids :: "gpu_dispatch_plan \<Rightarrow> string list" where
  "plan_cell_ids p \<equiv> map (\<lambda>a. item_id (ga_work_item a)) (plan_assignments p)"

definition gpu_dispatch_plan_post_init :: "gpu_dispatch_plan \<Rightarrow> gpu_dispatch_plan res" where
  "gpu_dispatch_plan_post_init p =
     (let cell_ids = plan_cell_ids p; budgets = gp_budget_sha256_by_cell p;
          completed = gp_completed_cell_ids p
      in rbind (raise_if (gp_schema_version p \<noteq> 1)
           (ValueError ''only GPU dispatch-plan schema version 1 is supported'')) (\<lambda>_.
         rbind (check_all (\<lambda>(name, value). require_sha256_text name value)
           [(''registry_sha256'', gp_registry_sha256 p), (''inventory_sha256'', gp_inventory_sha256 p),
            (''receipts_sha256'', gp_receipts_sha256 p),
            (''interference_envelope_sha256'', gp_interference_envelope_sha256 p)]) (\<lambda>_.
         rbind (raise_if (gp_seed p < 0) (ValueError ''seed must be a non-negative integer'')) (\<lambda>_.
         rbind (raise_if (map gw_wave_index (gp_waves p) \<noteq> map int [0..<length (gp_waves p)])
           (ValueError ''dispatch wave indexes must be contiguous'')) (\<lambda>_.
         rbind (raise_if (\<not> distinct (map assignment_id (plan_assignments p)))
           (ValueError ''dispatch plan contains duplicate assignments'')) (\<lambda>_.
         rbind (raise_if (\<not> distinct cell_ids) (ValueError ''dispatch plan contains duplicate cells'')) (\<lambda>_.
         rbind (raise_if (sort budgets \<noteq> budgets \<or> \<not> distinct (map fst budgets))
           (ValueError ''dispatch budget bindings must be canonical and unique'')) (\<lambda>_.
         rbind (raise_if (budgets \<noteq> [] \<and> set (map fst budgets) \<noteq> set cell_ids)
           (ValueError ''dispatch budget bindings must cover every scheduled cell exactly'')) (\<lambda>_.
         rbind (check_all (\<lambda>(cell, budget).
             rbind (require_sha256_text ''dispatch budget cell ID'' cell) (\<lambda>_.
             require_sha256_text ''dispatch ExperimentBudget SHA-256'' budget)) budgets) (\<lambda>_.
         rbind (raise_if (\<not> distinct completed) (ValueError ''completed cell IDs must be unique'')) (\<lambda>_.
         rbind (raise_if (list_ex (\<lambda>c. \<not> is_sha256 c) completed)
           (ValueError ''completed cell IDs must be lower-case SHA-256'')) (\<lambda>_.
         rbind (raise_if (sort completed \<noteq> completed)
           (ValueError ''completed cell IDs must be canonically sorted'')) (\<lambda>_.
         rbind (raise_if (list_ex (\<lambda>c. c \<in> set cell_ids) completed)
           (ValueError ''completed cells cannot remain in dispatch waves'')) (\<lambda>_. Inr p))))))))))))))"

definition scientific_budget_bound :: "gpu_dispatch_plan \<Rightarrow> bool" where
  "scientific_budget_bound p \<longleftrightarrow> gp_budget_sha256_by_cell p \<noteq> [] \<or> gp_waves p = []"

definition budget_sha256_for :: "gpu_dispatch_plan \<Rightarrow> string \<Rightarrow> string res" where
  "budget_sha256_for p cell =
     (let matches = map snd (filter (\<lambda>(bound, digest). bound = cell) (gp_budget_sha256_by_cell p))
      in if length matches \<noteq> 1
         then Inl (ValueError ''dispatch cell lacks one exact ExperimentBudget binding'')
         else Inr (hd matches))"

end
