(* ===== verification/Pool_Codec.thy ===== *)
theory Pool_Codec
  imports Pool_Plan
begin

text \<open>
  The strict JSON forms of the GPU pool: every artifact that went through its constructors survives
  \<open>to_dict\<close> and \<open>from_dict\<close> unchanged. The contract is the locale \<open>strict_codec\<close>, interpreted on devices,
  topology groups, claims, work items, rules, assignments and waves; inventories and envelopes are read
  back against their own sidecar.
\<close>

section \<open>Strict codecs\<close>

text \<open>
  The contract of \<open>to_dict\<close> and \<open>from_dict\<close>: a value that went through its constructor is read back. Then
  distinct values have distinct documents, and a list of documents is read back entry by entry.
\<close>

locale strict_codec =
  fixes valid :: "'a \<Rightarrow> bool" and to_dict :: "'a \<Rightarrow> json" and from_dict :: "json \<Rightarrow> 'a res"
  assumes round_trip: "valid x \<Longrightarrow> from_dict (to_dict x) = Inr x"
begin

lemma decode_list: "\<forall>x \<in> set xs. valid x \<Longrightarrow> map_res from_dict (map to_dict xs) = Inr xs"
  by (rule map_res_decode) (simp add: round_trip)

lemma to_dict_inj: "valid x \<Longrightarrow> valid y \<Longrightarrow> to_dict x = to_dict y \<Longrightarrow> x = y"
  by (metis round_trip sum.inject(2))

end

section \<open>The inventory\<close>

lemma availability_round_trip [strict_simps]: "availability_of_text (availability_text a) = Inr a"
proof -
  have "list_all (\<lambda>a. availability_of_text (availability_text a) = Inr a) availabilities" by code_simp
  then show ?thesis by (cases a) simp_all
qed

lemma availability_text_ok [strict_simps]: "single_line_text (availability_text a)"
proof -
  have "list_all (\<lambda>a. single_line_text (availability_text a)) availabilities" by code_simp
  then show ?thesis by (cases a) simp_all
qed

lemma gpu_device_post_init_Inr:
  assumes "gpu_device_post_init d = Inr d"
  shows "single_line_text (gd_uuid d)" "single_line_text (gd_host_id d)" "single_line_text (gd_model d)"
    "single_line_text (gd_pci_bus_id d)" "single_line_text (gd_pci_root d)"
    "single_line_text (gd_peer_access_class d)" "single_line_text (gd_clock_policy d)"
    "\<forall>x \<in> set (gd_interconnects d). single_line_text x" "\<forall>x \<in> set (gd_reserved_processes d). single_line_text x"
    "\<forall>x \<in> set (gd_allowed_topology_groups d). single_line_text x"
    "isfinite (gd_power_limit_watts d)" "isfinite (gd_thermal_limit_celsius d)"
  using assms by (simp_all add: gpu_device_post_init_def positive_finite_def)

lemma gpu_device_round_trip [strict_simps]:
  assumes "gpu_device_post_init d = Inr d"
  shows "gpu_device_from_dict (gpu_device_to_dict d) = Inr d"
  by (simp add: gpu_device_from_dict_def gpu_device_to_dict_def strict_simps gpu_device_post_init_Inr [OF assms])
    (use assms in \<open>cases d; simp\<close>)

interpretation device_codec: strict_codec "\<lambda>d. gpu_device_post_init d = Inr d" gpu_device_to_dict gpu_device_from_dict
  by unfold_locales (rule gpu_device_round_trip)

lemma gpu_topology_group_round_trip [strict_simps]:
  assumes "gpu_topology_group_post_init g = Inr g"
  shows "gpu_topology_group_from_dict (gpu_topology_group_to_dict g) = Inr g"
proof -
  have "single_line_text (tg_group_id g)" "single_line_text (tg_host_id g)" "single_line_text (tg_fabric g)"
    "single_line_text (tg_bandwidth_class g)" "\<forall>u \<in> set (tg_gpu_uuids g). single_line_text u"
    using assms by (simp_all add: gpu_topology_group_post_init_def)
  then show ?thesis
    by (simp add: gpu_topology_group_from_dict_def gpu_topology_group_to_dict_def strict_simps)
      (use assms in \<open>cases g; simp\<close>)
qed

interpretation group_codec: strict_codec "\<lambda>g. gpu_topology_group_post_init g = Inr g" gpu_topology_group_to_dict gpu_topology_group_from_dict
  by unfold_locales (rule gpu_topology_group_round_trip)

text \<open>An inventory whose parts went through their constructors.\<close>

definition valid_inventory :: "gpu_inventory \<Rightarrow> bool" where
  "valid_inventory v \<longleftrightarrow> (\<forall>d \<in> set (iv_devices v). gpu_device_post_init d = Inr d)
     \<and> (\<forall>g \<in> set (iv_topology_groups v). gpu_topology_group_post_init g = Inr g)
     \<and> gpu_inventory_post_init v = Inr v"

lemma inventory_round_trip:
  assumes "valid_inventory v" "gpu_inventory_sidecar v = Inr sidecar"
  shows "gpu_inventory_from_dict (gpu_inventory_to_dict v) (Sidecar sidecar) = Inr v"
proof -
  have v: "gpu_inventory_post_init v = Inr v" using assms(1) by (simp add: valid_inventory_def)
  then have receipt: "single_line_text (iv_source_receipt_sha256 v)"
    by (auto simp: gpu_inventory_post_init_def Let_def)
  have parts: "map_res gpu_device_from_dict (map gpu_device_to_dict (iv_devices v)) = Inr (iv_devices v)"
    "map_res gpu_topology_group_from_dict (map gpu_topology_group_to_dict (iv_topology_groups v))
      = Inr (iv_topology_groups v)"
    using assms(1) by (auto simp: valid_inventory_def intro!: device_codec.decode_list group_codec.decode_list)
  have side: "as_artifact_kind sidecar = ''gpu_inventory.v1''" "as_artifact_sha256 sidecar = gpu_inventory_sha256 v"
    using assms(2) by (auto simp: gpu_inventory_sidecar_def artifact_sidecar_post_init_def)
  show ?thesis
    by (simp add: gpu_inventory_from_dict_def gpu_inventory_to_dict_def strict_simps receipt parts)
      (use v side in \<open>cases v; simp add: validate_sidecar_def\<close>)
qed

section \<open>Claims and work items\<close>

lemma gang_shape_round_trip [strict_simps]:
  "gang_shape_post_init g = Inr g \<Longrightarrow> gang_shape_from_dict (gang_shape_to_dict g) = Inr g"
  by (cases g) (simp add: gang_shape_from_dict_def gang_shape_to_dict_def strict_simps)

lemma device_constraint_round_trip [strict_simps]:
  assumes "device_constraint_post_init h = Inr h"
  shows "device_constraint_from_dict (device_constraint_to_dict h) = Inr h"
proof -
  have "\<forall>s. hc_model h = Some s \<longrightarrow> single_line_text s"
    "\<forall>x \<in> set (hc_allowed_peer_access_classes h). single_line_text x"
    using assms by (auto simp: device_constraint_post_init_def opt_text_def)
  then show ?thesis
    by (simp add: device_constraint_from_dict_def device_constraint_to_dict_def strict_simps)
      (use assms in \<open>cases h; simp\<close>)
qed

definition valid_claim :: "pool_resource_claim \<Rightarrow> bool" where
  "valid_claim c \<longleftrightarrow> gang_shape_post_init (pr_gang_shape c) = Inr (pr_gang_shape c)
     \<and> device_constraint_post_init (pr_homogeneous c) = Inr (pr_homogeneous c)
     \<and> pool_resource_claim_post_init c = Inr c"

lemma pool_resource_claim_post_init_Inr:
  assumes "pool_resource_claim_post_init c = Inr c"
  shows "\<forall>x \<in> set (pr_exact_gpu_uuids c). single_line_text x"
    "\<forall>x \<in> set (pr_allowed_topology_groups c). single_line_text x"
    "\<forall>x \<in> set (pr_allowed_fabrics c). single_line_text x"
    "single_line_text (pr_disk_io_class c)" "single_line_text (pr_network_class c)"
    "single_line_text (pr_cache_root c)" "single_line_text (pr_evidence_root c)"
    "single_line_text (pr_interference_class c)" "single_line_text (pr_load_envelope c)"
    "isfinite (pr_estimated_duration_seconds c)" "isfinite (pr_estimated_gpu_seconds c)"
  using assms by (auto simp: pool_resource_claim_post_init_def claim_sets_check_def claim_estimates_check_def
      positive_finite_def split: if_splits)

lemma pool_resource_claim_round_trip [strict_simps]:
  assumes "valid_claim c"
  shows "pool_resource_claim_from_dict (pool_resource_claim_to_dict c) = Inr c"
proof -
  note v = assms [unfolded valid_claim_def]
  note t = pool_resource_claim_post_init_Inr [OF conjunct2 [OF conjunct2 [OF v]]]
  show ?thesis
    using v by (simp add: pool_resource_claim_from_dict_def pool_resource_claim_to_dict_def
        pool_resource_claim_fields_def strict_simps t) (use v in \<open>cases c; simp\<close>)
qed

interpretation claim_codec: strict_codec "valid_claim" pool_resource_claim_to_dict pool_resource_claim_from_dict
  by unfold_locales (rule pool_resource_claim_round_trip)

definition valid_work_item :: "pool_work_item \<Rightarrow> bool" where
  "valid_work_item w \<longleftrightarrow> valid_cell (wi_cell w) \<and> valid_claim (wi_claim w) \<and> pool_work_item_post_init w = Inr w"

lemma pool_work_item_round_trip [strict_simps]:
  assumes "valid_work_item w"
  shows "pool_work_item_from_dict (pool_work_item_to_dict w) = Inr w"
proof -
  note v = assms [unfolded valid_work_item_def]
  have keys: "\<forall>s. wi_affinity_key w = Some s \<longrightarrow> single_line_text s"
    "\<forall>s. wi_serial_group_key w = Some s \<longrightarrow> single_line_text s"
    using v by (auto simp: pool_work_item_post_init_def opt_sha256_def)
  have sha: "is_sha256 (experiment_cell_sha256 (wi_cell w))" by (simp add: experiment_cell_sha256_def)
  then show ?thesis
    using v by (simp add: pool_work_item_from_dict_def pool_work_item_to_dict_def strict_simps keys)
      (use v in \<open>cases w; simp\<close>)
qed

interpretation item_codec: strict_codec "valid_work_item" pool_work_item_to_dict pool_work_item_from_dict
  by unfold_locales (rule pool_work_item_round_trip)

section \<open>Rules and envelopes\<close>

lemma interference_rule_round_trip [strict_simps]:
  assumes "interference_rule_post_init r = Inr r"
  shows "interference_rule_from_dict (interference_rule_to_dict r) = Inr r"
proof -
  have status: "single_line_text ''PASS''" "single_line_text ''FAIL''" by code_simp+
  have "single_line_text (ir_hardware_envelope_sha256 r)" "single_line_text (ir_co_run_signature r)"
    "single_line_text (ir_gang_shape r)" "single_line_text (ir_load_envelope r)"
    "single_line_text (ir_contention_class r)" "single_line_text (ir_evidence_sha256 r)"
    "single_line_text (ir_status r)"
    using assms status by (auto simp: interference_rule_post_init_def)
  then show ?thesis
    by (simp add: interference_rule_from_dict_def interference_rule_to_dict_def strict_simps)
      (use assms in \<open>cases r; simp\<close>)
qed

interpretation rule_codec: strict_codec "\<lambda>r. interference_rule_post_init r = Inr r" interference_rule_to_dict interference_rule_from_dict
  by unfold_locales (rule interference_rule_round_trip)

definition valid_envelope :: "interference_envelope \<Rightarrow> bool" where
  "valid_envelope e \<longleftrightarrow> (\<forall>r \<in> set (ie_rules e). interference_rule_post_init r = Inr r)
     \<and> interference_envelope_post_init e = Inr e"

lemma envelope_round_trip:
  assumes "valid_envelope e" "interference_envelope_sidecar e = Inr sidecar"
  shows "interference_envelope_from_dict (interference_envelope_to_dict e) (Sidecar sidecar) = Inr e"
proof -
  note v = assms(1) [unfolded valid_envelope_def]
  have receipt: "single_line_text (ie_source_receipt_sha256 e)"
    using v by (auto simp: interference_envelope_post_init_def)
  have rules: "map_res interference_rule_from_dict (map interference_rule_to_dict (ie_rules e)) = Inr (ie_rules e)"
    using v by (intro rule_codec.decode_list) blast
  have side: "as_artifact_kind sidecar = ''interference_envelope.v1''"
    "as_artifact_sha256 sidecar = interference_envelope_sha256 e"
    using assms(2) by (auto simp: interference_envelope_sidecar_def artifact_sidecar_post_init_def)
  show ?thesis
    by (simp add: interference_envelope_from_dict_def interference_envelope_to_dict_def strict_simps receipt rules)
      (use v side in \<open>cases e; simp add: validate_sidecar_def\<close>)
qed

section \<open>Assignments and waves\<close>

definition valid_assignment :: "gpu_assignment \<Rightarrow> bool" where
  "valid_assignment a \<longleftrightarrow> valid_work_item (ga_work_item a) \<and> (\<forall>u \<in> set (ga_gpu_uuids a). single_line_text u)
     \<and> gpu_assignment_post_init a = Inr a"

lemma gpu_assignment_round_trip [strict_simps]:
  assumes "valid_assignment a"
  shows "gpu_assignment_from_dict (gpu_assignment_to_dict a) = Inr a"
proof -
  note v = assms [unfolded valid_assignment_def]
  have "concat (ga_rank_groups a) = ga_gpu_uuids a" using v by (auto simp: gpu_assignment_post_init_def Let_def)
  then have "set (concat (ga_rank_groups a)) = set (ga_gpu_uuids a)" by simp
  then have groups: "\<forall>g \<in> set (ga_rank_groups a). strict_texts ''rank group'' ''rank GPU UUID'' (jstrs g) = Inr g"
    using v by (auto intro!: strict_texts_ok)
  have sha: "is_sha256 (pool_work_item_sha256 (ga_work_item a))" by (simp add: pool_work_item_sha256_def)
  show ?thesis
    using v sha by (simp add: gpu_assignment_from_dict_def gpu_assignment_to_dict_def strict_simps groups)
      (use v in \<open>cases a; simp\<close>)
qed

interpretation assignment_codec: strict_codec "valid_assignment" gpu_assignment_to_dict gpu_assignment_from_dict
  by unfold_locales (rule gpu_assignment_round_trip)

definition valid_wave :: "gpu_dispatch_wave \<Rightarrow> bool" where
  "valid_wave w \<longleftrightarrow> (\<forall>a \<in> set (gw_assignments w). valid_assignment a) \<and> gpu_dispatch_wave_post_init w = Inr w"

lemma wave_round_trip:
  assumes "valid_wave w"
  shows "gpu_dispatch_wave_from_dict (gpu_dispatch_wave_to_dict w) = Inr w"
proof -
  note v = assms [unfolded valid_wave_def]
  have envelope: "single_line_text (gw_interference_envelope_sha256 w)"
    using v by (auto simp: gpu_dispatch_wave_post_init_def)
  have parts: "map_res gpu_assignment_from_dict (map gpu_assignment_to_dict (gw_assignments w))
      = Inr (gw_assignments w)" using v by (intro assignment_codec.decode_list) blast
  have ids: "\<forall>x \<in> set (map assignment_id (gw_assignments w)). single_line_text x"
    by (auto simp: assignment_id_def)
  have digests: "strict_texts ''assignment_sha256'' ''assignment_sha256'' (jstrs (map assignment_id (gw_assignments w)))
      = Inr (map assignment_id (gw_assignments w))" by (rule strict_texts_ok [OF ids])
  show ?thesis
    by (simp add: gpu_dispatch_wave_from_dict_def gpu_dispatch_wave_to_dict_def strict_simps envelope parts
        digests [unfolded map_map]) (use v in \<open>cases w; simp\<close>)
qed

interpretation wave_codec: strict_codec valid_wave gpu_dispatch_wave_to_dict gpu_dispatch_wave_from_dict
  by unfold_locales (rule wave_round_trip)

end
