(* ===== verification/Pool_Schedule.thy ===== *)
theory Pool_Schedule
  imports Pool_Codec
begin

text \<open>
  The deterministic scheduler of the GPU pool (\<open>GpuPoolScheduler\<close> in \<open>experiments/gpu_pool.py\<close>): the
  admission of work items, the candidate gangs of an item, the choice of the least loaded gang, the
  binding of ports and the first-fit packing of placements into waves. The selection of pending cells
  by stage activation (\<open>schedule\<close>) is left out; \<open>schedule_work_items\<close> is its low-level entry point.
\<close>

section \<open>The scheduler\<close>

record gpu_pool_scheduler =
  sc_registry :: experiment_registry
  sc_inventory :: gpu_inventory
  sc_envelope :: interference_envelope
  sc_port_start :: int
  sc_port_end :: int
  sc_seed :: int

definition gpu_pool_scheduler_post_init :: "gpu_pool_scheduler \<Rightarrow> gpu_pool_scheduler res" where
  "gpu_pool_scheduler_post_init s =
     rbind (raise_if (length (host_ids (sc_inventory s)) \<noteq> 1)
       (ValueError ''multi-host inventories are unsupported; use one same-host inventory'')) (\<lambda>_.
     rbind (raise_if (\<not> (1024 \<le> sc_port_start s \<and> sc_port_start s \<le> sc_port_end s \<and> sc_port_end s \<le> 65535))
       (ValueError ''scheduler port range is invalid'')) (\<lambda>_.
     rbind (raise_if (sc_seed s < 0) (ValueError ''scheduler seed must be a non-negative integer'')) (\<lambda>_.
     Inr s)))"

definition dispatchable :: "experiment_cell \<Rightarrow> bool \<Rightarrow> bool" where
  "dispatchable c reducer_authorized =
     (if reducer_authorized then release_execution_capability_rejection_reason c = None
      else release_dispatch_rejection_reason c = None)"

definition dispatch_order_key :: "pool_work_item \<Rightarrow> int \<Rightarrow> int \<times> int \<times> string \<times> string \<times> string" where
  "dispatch_order_key w registry_seed =
     (let i = xc_identity (wi_cell w);
          phase = (if xi_block i \<in> {0, 1, 2, 3} then 0 else 1);
          paired_group = (case wi_serial_group_key w of
            Some k \<Rightarrow> if k = [] then content_sha256 (JObj (identity_without_method_or_gpu (wi_cell w)
                @ [(''registry_seed'', JInt registry_seed)])) else k
          | None \<Rightarrow> content_sha256 (JObj (identity_without_method_or_gpu (wi_cell w)
                @ [(''registry_seed'', JInt registry_seed)])));
          method_order = content_sha256 (JObj [(''paired_group'', JStr paired_group),
            (''method'', JStr (xi_method i)), (''seed'', JInt (xi_seed i))])
      in (phase, xi_block i, paired_group, method_order, item_id w))"

definition calibration_concurrent_slot :: "pool_work_item \<Rightarrow> int option res" where
  "calibration_concurrent_slot w =
     (let i = xc_identity (wi_cell w); prefix = ''concurrent_slot_'';
          raw_slot = drop (length prefix) (xi_variant i)
      in if xi_experiment i \<noteq> ''preflight'' \<or> xi_task i \<noteq> ''simultaneous_single_gpu_interference''
            \<or> xi_method i \<noteq> ''static'' \<or> pr_workload_class (wi_claim w) \<noteq> CORRECTNESS then Inr None
         else if \<not> startswith (xi_variant i) prefix then Inr None
         else if raw_slot = ''0'' then Inr (Some 0)
         else if raw_slot = ''1'' then Inr (Some 1)
         else Inl (ValueError ''calibration concurrent slot is not registered''))"

subsection \<open>Candidate gangs\<close>

text \<open>\<open>itertools.combinations\<close>\<close>

fun combinations :: "'a list \<Rightarrow> nat \<Rightarrow> 'a list list" where
  "combinations xs 0 = [[]]"
| "combinations [] (Suc n) = []"
| "combinations (x # xs) (Suc n) = map (Cons x) (combinations xs n) @ combinations xs (Suc n)"

definition topology_accepts :: "gpu_pool_scheduler \<Rightarrow> string list \<Rightarrow> pool_resource_claim \<Rightarrow> bool" where
  "topology_accepts s candidate claim =
     (let tp = gs_tensor_parallel_size (pr_gang_shape claim);
          groups = filter (\<lambda>g.
              (pr_allowed_topology_groups claim = [] \<or> tg_group_id g \<in> set (pr_allowed_topology_groups claim))
              \<and> (pr_allowed_fabrics claim = [] \<or> tg_fabric g \<in> set (pr_allowed_fabrics claim)))
            (iv_topology_groups (sc_inventory s))
      in if tp = 1 then True
         else if groups = [] then False
         else list_all (\<lambda>replica.
             let rank_group = take (nat tp) (drop (nat (replica * tp)) candidate)
             in list_ex (\<lambda>g. list_all (\<lambda>u. u \<in> set (tg_gpu_uuids g)) rank_group) groups)
           (int_range 0 (gs_data_parallel_size (pr_gang_shape claim))))"

definition gang_accepted :: "gpu_pool_scheduler \<Rightarrow> pool_resource_claim \<Rightarrow> string list \<Rightarrow> bool" where
  "gang_accepted s claim candidate =
     (let devices = map (\<lambda>u. the (dget (device_by_uuid (iv_devices (sc_inventory s))) u)) candidate
      in list_all (hc_accepts (pr_homogeneous claim)) devices
         \<and> one_value (map gd_host_id devices) \<and> one_value (map hardware_envelope_sha256 devices)
         \<and> topology_accepts s candidate claim)"

definition candidate_gangs :: "gpu_pool_scheduler \<Rightarrow> pool_work_item \<Rightarrow> string list list" where
  "candidate_gangs s w =
     (let claim = wi_claim w; devices = iv_devices (sc_inventory s); uuids = map gd_uuid devices
      in if pr_exact_gpu_uuids claim \<noteq> [] \<and> \<not> list_all (\<lambda>u. u \<in> set uuids) (pr_exact_gpu_uuids claim) then []
         else let raw_candidates =
                (if pr_exact_gpu_uuids claim \<noteq> [] then [pr_exact_gpu_uuids claim]
                 else combinations (map gd_uuid (filter (hc_accepts (pr_homogeneous claim)) devices))
                        (nat (gs_gpu_count (pr_gang_shape claim))))
              in sort (filter (gang_accepted s claim) raw_candidates))"

subsection \<open>Placement\<close>

definition peak_load :: "(string \<times> pyfloat) list \<Rightarrow> string list \<Rightarrow> pyfloat" where
  "peak_load loads gang =
     (case map (\<lambda>u. the (dget loads u)) gang of [] \<Rightarrow> NaN | x # xs \<Rightarrow> foldl pf_max x xs)"

definition gang_load_key ::
  "(string \<times> pyfloat) list \<Rightarrow> (string \<times> int) list \<Rightarrow> int \<Rightarrow> int \<Rightarrow> string list
     \<Rightarrow> pyfloat \<times> int list \<times> string list" where
  "gang_load_key loads device_order rotation pool_size gang =
     (peak_load loads gang, map (\<lambda>u. (the (dget device_order u) - rotation) mod pool_size) gang, gang)"

definition device_order :: "gpu_pool_scheduler \<Rightarrow> (string \<times> int) list" where
  "device_order s = (let ds = iv_devices (sc_inventory s) in zip (map gd_uuid ds) (map int [0..<length ds]))"

definition rotation_of :: "gpu_pool_scheduler \<Rightarrow> pool_work_item \<Rightarrow> int" where
  "rotation_of s w =
     int (foldl (\<lambda>a c. 16 * a + hex_val c) 0 (take 16 (content_sha256 (JObj
       [(''seed'', JInt (sc_seed s)), (''affinity_key'', jopt JStr (wi_affinity_key w)),
        (''item_id'', JStr (item_id w))]))))"

definition select_gang ::
  "gpu_pool_scheduler \<Rightarrow> (string \<times> pyfloat) list \<Rightarrow> pool_work_item \<Rightarrow> string list list \<Rightarrow> string list res" where
  "select_gang s loads w gangs =
     rbind (calibration_concurrent_slot w) (\<lambda>slot. case slot of
       Some k \<Rightarrow>
         if length gangs < 2
         then Inl (CapabilityRejectionError ''two-way calibration has fewer than two compatible GPUs'')
         else let ordered_gangs = sort_key (map (\<lambda>u. the (dget (device_order s) u))) gangs
              in Inr (ordered_gangs ! nat ((xi_block (xc_identity (wi_cell w)) + k) mod int (length ordered_gangs)))
     | None \<Rightarrow>
         py_min (gang_load_key loads (device_order s) (rotation_of s w)
           (int (length (iv_devices (sc_inventory s))))) gangs)"

definition rank_groups_of :: "gang_shape \<Rightarrow> string list \<Rightarrow> string list list" where
  "rank_groups_of shape selected =
     map (\<lambda>replica. map (\<lambda>rank. selected ! nat (replica * gs_tensor_parallel_size shape + rank))
            (int_range 0 (gs_tensor_parallel_size shape)))
       (int_range 0 (gs_data_parallel_size shape))"

definition placeholder_ports :: "gpu_pool_scheduler \<Rightarrow> pool_resource_claim \<Rightarrow> int list" where
  "placeholder_ports s claim =
     (if pr_exact_ports claim \<noteq> [] then pr_exact_ports claim
      else int_range (sc_port_start s) (sc_port_start s + pr_port_count claim))"

text \<open>The gangs an item may take: all its candidates, or the gang its affinity group is bound to.\<close>

definition eligible_gangs ::
  "gpu_pool_scheduler \<Rightarrow> (string \<times> string list) list \<Rightarrow> pool_work_item \<Rightarrow> string list list res" where
  "eligible_gangs s affinity w =
     rbind (case wi_affinity_key w of
         None \<Rightarrow> Inr (candidate_gangs s w)
       | Some k \<Rightarrow> (case dget affinity k of
           None \<Rightarrow> Inr (candidate_gangs s w)
         | Some bound \<Rightarrow>
             let gangs = filter (\<lambda>g. g = bound) (candidate_gangs s w)
             in if gangs = []
                then Inl (CapabilityRejectionError
                  ''affinity group has no common capability/topology placement'')
                else Inr gangs)) (\<lambda>gangs.
     if gangs = []
     then Inl (CapabilityRejectionError
       (''cell '' @ item_id w @ '' has no ready capability/topology placement''))
     else Inr gangs)"

definition bind_affinity ::
  "pool_work_item \<Rightarrow> string list \<Rightarrow> (string \<times> string list) list \<Rightarrow> (string \<times> string list) list" where
  "bind_affinity w selected affinity =
     (case wi_affinity_key w of
        None \<Rightarrow> affinity
      | Some k \<Rightarrow> if k \<in> set (dkeys affinity) then affinity else dset k selected affinity)"

definition add_load ::
  "pool_work_item \<Rightarrow> string list \<Rightarrow> (string \<times> pyfloat) list \<Rightarrow> (string \<times> pyfloat) list" where
  "add_load w selected loads =
     foldl (\<lambda>l u. dset u (pf_add (the (dget l u)) (pr_estimated_duration_seconds (wi_claim w))) l) loads selected"

fun place_loop ::
  "gpu_pool_scheduler \<Rightarrow> (string \<times> string list) list \<Rightarrow> (string \<times> pyfloat) list \<Rightarrow> pool_work_item list
     \<Rightarrow> gpu_assignment list res" where
  "place_loop s affinity loads [] = Inr []"
| "place_loop s affinity loads (w # ws) =
     rbind (eligible_gangs s affinity w) (\<lambda>gangs.
     rbind (select_gang s loads w gangs) (\<lambda>selected.
     rbind (gpu_assignment_post_init
       \<lparr>ga_work_item = w, ga_gpu_uuids = selected,
        ga_rank_groups = rank_groups_of (pr_gang_shape (wi_claim w)) selected,
        ga_ports = placeholder_ports s (wi_claim w)\<rparr>) (\<lambda>placement.
     rbind (place_loop s (bind_affinity w selected affinity) (add_load w selected loads) ws) (\<lambda>placements.
     Inr (placement # placements)))))"

subsection \<open>Ports and waves\<close>

text \<open>The loop over \<open>range(port_start, port_end + 1)\<close>; \<open>k\<close> ports are left in the range, \<open>n\<close> are still needed.\<close>

fun collect_ports :: "int set \<Rightarrow> nat \<Rightarrow> int \<Rightarrow> nat \<Rightarrow> int list" where
  "collect_ports used 0 port n = []"
| "collect_ports used (Suc k) port n =
     (let taken = (if port \<in> used then [] else [port]); n' = n - length taken
      in taken @ (if n' = 0 then [] else collect_ports used k (port + 1) n'))"

definition ports_for :: "gpu_pool_scheduler \<Rightarrow> int set \<Rightarrow> pool_resource_claim \<Rightarrow> int list option" where
  "ports_for s used claim =
     (if pr_exact_ports claim \<noteq> []
      then if overlaps used (pr_exact_ports claim)
              \<or> list_ex (\<lambda>p. p < sc_port_start s) (pr_exact_ports claim)
              \<or> list_ex (\<lambda>p. sc_port_end s < p) (pr_exact_ports claim)
           then None else Some (pr_exact_ports claim)
      else let ports = collect_ports used (nat (sc_port_end s + 1 - sc_port_start s)) (sc_port_start s)
                         (nat (pr_port_count claim))
           in if int (length ports) \<noteq> pr_port_count claim then None else Some ports)"

fun bind_ports_loop ::
  "gpu_pool_scheduler \<Rightarrow> int set \<Rightarrow> gpu_assignment list \<Rightarrow> gpu_assignment list option res" where
  "bind_ports_loop s used [] = Inr (Some [])"
| "bind_ports_loop s used (a # rest) =
     (case ports_for s used (ga_claim a) of
        None \<Rightarrow> Inr None
      | Some ports \<Rightarrow>
          rbind (gpu_assignment_post_init (a\<lparr>ga_ports := ports\<rparr>)) (\<lambda>b.
          rbind (bind_ports_loop s (used \<union> set ports) rest) (\<lambda>bound.
          Inr (map_option (Cons b) bound))))"

definition bind_wave_ports ::
  "gpu_pool_scheduler \<Rightarrow> gpu_assignment list \<Rightarrow> gpu_assignment list option res" where
  "bind_wave_ports s assignments = bind_ports_loop s {} assignments"

fun wave_free :: "wave_usage \<Rightarrow> gpu_assignment list \<Rightarrow> bool" where
  "wave_free u [] = True"
| "wave_free u (a # rest) =
     (if overlaps (us_gpus u) (ga_gpu_uuids a) then False
      else if overlaps (us_ports u) (ga_ports a) then False
      else if pr_cache_root (ga_claim a) \<in> us_caches u \<or> pr_evidence_root (ga_claim a) \<in> us_evidence u
      then False
      else if serial_used u a then False
      else wave_free (add_usage u a) rest)"

definition wave_compatible :: "gpu_pool_scheduler \<Rightarrow> gpu_assignment list \<Rightarrow> bool res" where
  "wave_compatible s assignments =
     (if \<not> wave_free no_usage assignments then Inr False
      else permits (sc_envelope s) (sc_inventory s) assignments)"

text \<open>First fit: the first wave that takes the placement, if any.\<close>

fun insert_wave ::
  "gpu_pool_scheduler \<Rightarrow> gpu_assignment list list \<Rightarrow> gpu_assignment \<Rightarrow> gpu_assignment list list option res" where
  "insert_wave s [] p = Inr None"
| "insert_wave s (w # ws) p =
     rbind (bind_wave_ports s (w @ [p])) (\<lambda>candidate.
     rbind (case candidate of None \<Rightarrow> Inr False | Some c \<Rightarrow> wave_compatible s c) (\<lambda>fits.
     if fits then Inr (Some (the candidate # ws))
     else rbind (insert_wave s ws p) (\<lambda>rest. Inr (map_option (Cons w) rest))))"

fun pack_waves ::
  "gpu_pool_scheduler \<Rightarrow> gpu_assignment list list \<Rightarrow> gpu_assignment list \<Rightarrow> gpu_assignment list list res" where
  "pack_waves s waves [] = Inr waves"
| "pack_waves s waves (p # ps) =
     rbind (insert_wave s waves p) (\<lambda>placed. case placed of
       Some waves' \<Rightarrow> pack_waves s waves' ps
     | None \<Rightarrow>
         rbind (bind_wave_ports s [p]) (\<lambda>bound. case bound of
           None \<Rightarrow> Inl (CapabilityRejectionError
             ''scheduler port range cannot satisfy one atomic assignment'')
         | Some wave \<Rightarrow>
             rbind (wave_compatible s wave) (\<lambda>ok.
             if ok then pack_waves s (waves @ [wave]) ps
             else Inl (CapabilityRejectionError ''single assignment violates its resource declaration''))))"

subsection \<open>Admission of work items\<close>

definition check_registered_claim :: "gpu_pool_scheduler \<Rightarrow> pool_work_item \<Rightarrow> unit res" where
  "check_registered_claim s w =
     (case find (\<lambda>c. cell_id c = item_id w) (rg_cells (sc_registry s)) of
        None \<Rightarrow> Inl (KeyError (item_id w))
      | Some registered \<Rightarrow>
        let claim = wi_claim w; r = xc_resources registered in
        rbind (raise_if (experiment_cell_sha256 (wi_cell w) \<noteq> experiment_cell_sha256 registered)
          (ValueError ''work item changes its registered cell declaration'')) (\<lambda>_.
        rbind (registry_gang_shape registered) (\<lambda>shape.
        rbind (raise_if (pr_gang_shape claim \<noteq> shape \<or> pr_port_count claim \<noteq> int (length (rc_ports r))
            \<or> pr_cache_root claim \<noteq> rc_cache_root r \<or> pr_evidence_root claim \<noteq> rc_evidence_root r
            \<or> pr_workload_class claim \<noteq> rc_workload_class r)
          (ValueError ''pool claim changes a registered resource invariant'')) (\<lambda>_.
        rbind (registry_pool_work_item registered (pr_estimated_duration_seconds claim)) (\<lambda>item.
        let canonical_claim = wi_claim item in
        raise_if (pr_exclusive_gpu claim \<noteq> pr_exclusive_gpu canonical_claim
            \<or> pr_exclusive_host claim \<noteq> pr_exclusive_host canonical_claim
            \<or> pr_cpu_cores claim \<noteq> pr_cpu_cores canonical_claim
            \<or> pr_numa_nodes claim \<noteq> pr_numa_nodes canonical_claim
            \<or> pr_ram_bytes claim \<noteq> pr_ram_bytes canonical_claim
            \<or> pr_disk_io_class claim \<noteq> pr_disk_io_class canonical_claim
            \<or> pr_network_class claim \<noteq> pr_network_class canonical_claim
            \<or> pr_interference_class claim \<noteq> pr_interference_class canonical_claim
            \<or> pr_load_envelope claim \<noteq> pr_load_envelope canonical_claim)
          (ValueError ''pool claim changes its registered isolation class''))))))"

definition admit_work_items ::
  "gpu_pool_scheduler \<Rightarrow> pool_work_item list \<Rightarrow> string \<Rightarrow> string list \<Rightarrow> (string \<times> string) list \<Rightarrow> string set
     \<Rightarrow> unit res" where
  "admit_work_items s items receipts_sha256 completed budgets reducer_authorized =
     (let ids = map item_id items; registry_ids = map cell_id (rg_cells (sc_registry s))
      in rbind (require_sha256_text ''receipts_sha256'' receipts_sha256) (\<lambda>_.
         rbind (raise_if (\<not> distinct ids) (ValueError ''work items contain duplicate cell identities'')) (\<lambda>_.
         rbind (raise_if (budgets \<noteq> [] \<and> set (dkeys budgets) \<noteq> set ids)
           (ValueError ''dispatch budget bindings must cover every work item exactly'')) (\<lambda>_.
         rbind (check_all (\<lambda>(cell, budget).
             rbind (require_sha256_text ''dispatch budget cell ID'' cell) (\<lambda>_.
             require_sha256_text ''dispatch ExperimentBudget SHA-256'' budget)) budgets) (\<lambda>_.
         rbind (raise_if (\<not> reducer_authorized \<subseteq> set ids)
           (ValueError ''reducer-authorized cells differ from the work-item set'')) (\<lambda>_.
         rbind (raise_if (list_ex (\<lambda>w. \<not> dispatchable (wi_cell w) (item_id w \<in> reducer_authorized)) items)
           (ValueError ''work items contain a blocked or non-executable method/capability'')) (\<lambda>_.
         rbind (raise_if (list_ex (\<lambda>i. i \<notin> set registry_ids) ids)
           (ValueError ''work item is not bound to this registry'')) (\<lambda>_.
         rbind (raise_if (\<not> distinct completed) (ValueError ''completed cell identities must be unique'')) (\<lambda>_.
         rbind (raise_if (list_ex (\<lambda>c. \<not> is_sha256 c) completed)
           (ValueError ''completed cell identities must be lower-case SHA-256'')) (\<lambda>_.
         rbind (raise_if (list_ex (\<lambda>c. c \<notin> set registry_ids) completed)
           (ValueError ''completed cells include an identity outside the registry'')) (\<lambda>_.
         rbind (raise_if (list_ex (\<lambda>c. c \<in> set ids) completed)
           (ValueError ''completed cells cannot remain in the work-item set'')) (\<lambda>_.
         check_all (check_registered_claim s) items))))))))))))"

definition ordered_items :: "gpu_pool_scheduler \<Rightarrow> pool_work_item list \<Rightarrow> pool_work_item list" where
  "ordered_items s items = sort_key (\<lambda>w. dispatch_order_key w (sc_seed s)) items"

definition initial_loads :: "gpu_pool_scheduler \<Rightarrow> (string \<times> pyfloat) list" where
  "initial_loads s = map (\<lambda>d. (gd_uuid d, Fin 0)) (iv_devices (sc_inventory s))"

fun freeze_waves :: "string \<Rightarrow> int \<Rightarrow> gpu_assignment list list \<Rightarrow> gpu_dispatch_wave list res" where
  "freeze_waves envelope index [] = Inr []"
| "freeze_waves envelope index (w # ws) =
     rbind (gpu_dispatch_wave_post_init
       \<lparr>gw_wave_index = index, gw_assignments = w, gw_interference_envelope_sha256 = envelope\<rparr>) (\<lambda>wave.
     rbind (freeze_waves envelope (index + 1) ws) (\<lambda>waves. Inr (wave # waves)))"

definition schedule_items ::
  "gpu_pool_scheduler \<Rightarrow> pool_work_item list \<Rightarrow> string \<Rightarrow> string list \<Rightarrow> (string \<times> string) list \<Rightarrow> string set
     \<Rightarrow> gpu_dispatch_plan res" where
  "schedule_items s items receipts_sha256 completed budgets reducer_authorized =
     rbind (admit_work_items s items receipts_sha256 completed budgets reducer_authorized) (\<lambda>_.
     rbind (place_loop s [] (initial_loads s) (ordered_items s items)) (\<lambda>placements.
     rbind (pack_waves s [] placements) (\<lambda>waves.
     rbind (freeze_waves (interference_envelope_sha256 (sc_envelope s)) 0 waves) (\<lambda>frozen.
     gpu_dispatch_plan_post_init
       \<lparr>gp_schema_version = 1, gp_registry_sha256 = rg_sha256 (sc_registry s),
        gp_inventory_sha256 = gpu_inventory_sha256 (sc_inventory s), gp_receipts_sha256 = receipts_sha256,
        gp_interference_envelope_sha256 = interference_envelope_sha256 (sc_envelope s),
        gp_budget_sha256_by_cell = sort budgets, gp_seed = sc_seed s, gp_waves = frozen,
        gp_completed_cell_ids = sort completed\<rparr>))))"

definition schedule_work_items ::
  "gpu_pool_scheduler \<Rightarrow> pool_work_item list \<Rightarrow> string \<Rightarrow> string list \<Rightarrow> (string \<times> string) list
     \<Rightarrow> gpu_dispatch_plan res" where
  "schedule_work_items s items receipts_sha256 completed budgets =
     schedule_items s items receipts_sha256 completed budgets {}"

end
