(* ===== verification/Budget.thy ===== *)
theory Budget
  imports Pool_Schedule
begin

text \<open>
  Experiment budgets (\<open>experiments/planning.py\<close>): scenario durations, counts, the per-cell budget and its
  validation, job policies, capacity requirements and the capacity check of a ready plan, and the report
  that reduces the budgets of the activated cells and replays the scheduler for an exact wall time.
  Shown: the arithmetic of accepted values never raises and keeps the scenario order, the groups of a
  report partition its totals, and an accepted capacity covers every attempt the retries allow.
\<close>

section \<open>Scenario durations and counts\<close>

datatype budget_scenario = OPTIMISTIC | REGISTERED | QUOTA_ENVELOPE

fun scenario_text :: "budget_scenario \<Rightarrow> string" where
  "scenario_text OPTIMISTIC = ''optimistic''"
| "scenario_text REGISTERED = ''registered''"
| "scenario_text QUOTA_ENVELOPE = ''quota_envelope''"

abbreviation budget_scenarios :: "budget_scenario list" where
  "budget_scenarios \<equiv> [OPTIMISTIC, REGISTERED, QUOTA_ENVELOPE]"

definition require_nonnegative_int :: "string \<Rightarrow> int \<Rightarrow> unit res" where
  "require_nonnegative_int name value =
     raise_if (value < 0) (ValueError (name @ '' must be a non-negative integer''))"

lemma require_nonnegative_int_Inr [simp]: "require_nonnegative_int name v = Inr u \<longleftrightarrow> 0 \<le> v"
  by (auto simp: require_nonnegative_int_def)

record scenario_milliseconds =
  sm_optimistic :: int
  sm_registered :: int
  sm_quota_envelope :: int

definition scenario_milliseconds_post_init :: "scenario_milliseconds \<Rightarrow> scenario_milliseconds res" where
  "scenario_milliseconds_post_init s =
     rbind (check_all (\<lambda>(name, value). require_nonnegative_int name value)
       [(''optimistic'', sm_optimistic s), (''registered'', sm_registered s),
        (''quota_envelope'', sm_quota_envelope s)]) (\<lambda>_.
     rbind (raise_if (\<not> (sm_optimistic s \<le> sm_registered s \<and> sm_registered s \<le> sm_quota_envelope s))
       (ValueError ''budget scenarios must be monotone'')) (\<lambda>_. Inr s))"

fun sm_value :: "scenario_milliseconds \<Rightarrow> budget_scenario \<Rightarrow> int" where
  "sm_value s OPTIMISTIC = sm_optimistic s"
| "sm_value s REGISTERED = sm_registered s"
| "sm_value s QUOTA_ENVELOPE = sm_quota_envelope s"

definition sm_add :: "scenario_milliseconds \<Rightarrow> scenario_milliseconds \<Rightarrow> scenario_milliseconds res" where
  "sm_add a b = scenario_milliseconds_post_init
     \<lparr>sm_optimistic = sm_optimistic a + sm_optimistic b, sm_registered = sm_registered a + sm_registered b,
      sm_quota_envelope = sm_quota_envelope a + sm_quota_envelope b\<rparr>"

definition sm_scale :: "scenario_milliseconds \<Rightarrow> int \<Rightarrow> scenario_milliseconds res" where
  "sm_scale s multiplier =
     rbind (require_nonnegative_int ''scenario multiplier'' multiplier) (\<lambda>_.
     scenario_milliseconds_post_init
       \<lparr>sm_optimistic = sm_optimistic s * multiplier, sm_registered = sm_registered s * multiplier,
        sm_quota_envelope = sm_quota_envelope s * multiplier\<rparr>)"

definition zero_milliseconds :: scenario_milliseconds where
  "zero_milliseconds = \<lparr>sm_optimistic = 0, sm_registered = 0, sm_quota_envelope = 0\<rparr>"

text \<open>The loop \<open>total += value\<close>, shared by \<open>wall_time\<close> and \<open>_sum_scenarios\<close>.\<close>

fun sum_from :: "scenario_milliseconds \<Rightarrow> scenario_milliseconds list \<Rightarrow> scenario_milliseconds res" where
  "sum_from acc [] = Inr acc"
| "sum_from acc (x # xs) = rbind (sm_add acc x) (\<lambda>acc. sum_from acc xs)"

definition sum_scenarios :: "scenario_milliseconds list \<Rightarrow> scenario_milliseconds res" where
  "sum_scenarios xs = sum_from zero_milliseconds xs"

record expected_maximum_count =
  ec_expected :: int
  ec_maximum :: int

definition expected_maximum_count_post_init :: "expected_maximum_count \<Rightarrow> expected_maximum_count res" where
  "expected_maximum_count_post_init c =
     rbind (require_nonnegative_int ''expected count'' (ec_expected c)) (\<lambda>_.
     rbind (require_nonnegative_int ''maximum count'' (ec_maximum c)) (\<lambda>_.
     rbind (raise_if (ec_maximum c < ec_expected c)
       (ValueError ''expected count cannot exceed maximum count'')) (\<lambda>_. Inr c)))"

definition count_add :: "expected_maximum_count \<Rightarrow> expected_maximum_count \<Rightarrow> expected_maximum_count res" where
  "count_add a b = expected_maximum_count_post_init
     \<lparr>ec_expected = ec_expected a + ec_expected b, ec_maximum = ec_maximum a + ec_maximum b\<rparr>"

definition zero_count :: expected_maximum_count where
  "zero_count = \<lparr>ec_expected = 0, ec_maximum = 0\<rparr>"

fun count_from :: "expected_maximum_count \<Rightarrow> expected_maximum_count list \<Rightarrow> expected_maximum_count res" where
  "count_from acc [] = Inr acc"
| "count_from acc (x # xs) = rbind (count_add acc x) (\<lambda>acc. count_from acc xs)"

definition sum_counts :: "expected_maximum_count list \<Rightarrow> expected_maximum_count res" where
  "sum_counts xs = count_from zero_count xs"

record exact_scenario_hours =
  eh_optimistic :: int
  eh_registered :: int
  eh_quota_envelope :: int
  eh_denominator :: int

definition exact_scenario_hours_post_init :: "exact_scenario_hours \<Rightarrow> exact_scenario_hours res" where
  "exact_scenario_hours_post_init h =
     rbind (check_all (\<lambda>(name, value). require_nonnegative_int name value)
       [(''optimistic_millisecond_numerator'', eh_optimistic h),
        (''registered_millisecond_numerator'', eh_registered h),
        (''quota_envelope_millisecond_numerator'', eh_quota_envelope h)]) (\<lambda>_.
     rbind (raise_if (eh_denominator h \<noteq> 3600000)
       (ValueError ''hour accounting denominator is fixed at 3,600,000 ms'')) (\<lambda>_.
     rbind (raise_if (\<not> (eh_optimistic h \<le> eh_registered h \<and> eh_registered h \<le> eh_quota_envelope h))
       (ValueError ''exact hour scenarios must be monotone'')) (\<lambda>_. Inr h)))"

definition hours_from_milliseconds :: "scenario_milliseconds \<Rightarrow> exact_scenario_hours res" where
  "hours_from_milliseconds s = exact_scenario_hours_post_init
     \<lparr>eh_optimistic = sm_optimistic s, eh_registered = sm_registered s,
      eh_quota_envelope = sm_quota_envelope s, eh_denominator = 3600000\<rparr>"

section \<open>The budget of a cell\<close>

datatype budget_job_kind = STANDARD | SHORT | P99_ANCHOR | SOAK | PROFILER | FAILURE | COMPILE_JOB | DOWNLOAD_JOB

fun job_kind_text :: "budget_job_kind \<Rightarrow> string" where
  "job_kind_text STANDARD = ''standard''"
| "job_kind_text SHORT = ''short''"
| "job_kind_text P99_ANCHOR = ''p99_anchor''"
| "job_kind_text SOAK = ''soak''"
| "job_kind_text PROFILER = ''profiler''"
| "job_kind_text FAILURE = ''failure''"
| "job_kind_text COMPILE_JOB = ''compile''"
| "job_kind_text DOWNLOAD_JOB = ''download''"

datatype p99_anchor_status = NOT_REQUIRED | REQUIRED_UNRESOLVED | LOCKED

fun p99_text :: "p99_anchor_status \<Rightarrow> string" where
  "p99_text NOT_REQUIRED = ''not_required''"
| "p99_text REQUIRED_UNRESOLVED = ''required_unresolved''"
| "p99_text LOCKED = ''locked''"

definition require_planning_sha256 :: "string \<Rightarrow> string \<Rightarrow> unit res" where
  "require_planning_sha256 name value =
     raise_if (\<not> is_sha256 value) (ValueError (name @ '' must be lower-case SHA-256''))"

definition require_planning_text :: "string \<Rightarrow> string \<Rightarrow> unit res" where
  "require_planning_text name value =
     raise_if (\<not> single_line_text value) (ValueError (name @ '' must be non-empty single-line text''))"

record experiment_budget =
  eb_schema_version :: int
  eb_cell_id :: string
  eb_experiment :: string
  eb_method :: string
  eb_workload_class :: workload_class
  eb_job_kind :: budget_job_kind
  eb_startup_model_load :: scenario_milliseconds
  eb_compile_jit_graph_prewarm :: scenario_milliseconds
  eb_excluded_warmup :: scenario_milliseconds
  eb_excluded_warmup_requests :: expected_maximum_count
  eb_scored_arrival :: scenario_milliseconds
  eb_request_deadline :: scenario_milliseconds
  eb_drain :: scenario_milliseconds
  eb_reset_finalization :: scenario_milliseconds
  eb_evidence_flush_shutdown :: scenario_milliseconds
  eb_output_tokens :: expected_maximum_count
  eb_minimum_completed_requests :: int
  eb_p99_anchor_status :: p99_anchor_status
  eb_soak :: scenario_milliseconds
  eb_failure_injection :: scenario_milliseconds
  eb_retry :: scenario_milliseconds
  eb_retry_allowance :: int
  eb_profiler :: scenario_milliseconds
  eb_download_compile_reservation :: scenario_milliseconds
  eb_gpu_count :: int
  eb_topology :: string
  eb_reserved_gpu_ms :: scenario_milliseconds
  eb_measured_gpu_ms :: "int option"
  eb_fixed_instance_billed_gpu_ms :: scenario_milliseconds

definition additive_duration_fields :: "(string \<times> (experiment_budget \<Rightarrow> scenario_milliseconds)) list" where
  "additive_duration_fields =
     [(''startup_model_load'', eb_startup_model_load), (''compile_jit_graph_prewarm'', eb_compile_jit_graph_prewarm),
      (''excluded_warmup'', eb_excluded_warmup), (''scored_arrival'', eb_scored_arrival), (''drain'', eb_drain),
      (''reset_finalization'', eb_reset_finalization),
      (''evidence_flush_shutdown'', eb_evidence_flush_shutdown), (''soak'', eb_soak),
      (''failure_injection'', eb_failure_injection), (''retry'', eb_retry), (''profiler'', eb_profiler),
      (''download_compile_reservation'', eb_download_compile_reservation)]"

definition wall_time :: "experiment_budget \<Rightarrow> scenario_milliseconds res" where
  "wall_time b = sum_from zero_milliseconds (map (\<lambda>(name, field). field b) additive_duration_fields)"

definition compute_gpu_ms :: "experiment_budget \<Rightarrow> scenario_milliseconds res" where
  "compute_gpu_ms b = rbind (wall_time b) (\<lambda>w. sm_scale w (eb_gpu_count b))"

definition p99_minimum_completions :: int where
  "p99_minimum_completions = 10000"

fun required_component :: "experiment_budget \<Rightarrow> budget_job_kind \<Rightarrow> scenario_milliseconds option" where
  "required_component b SOAK = Some (eb_soak b)"
| "required_component b PROFILER = Some (eb_profiler b)"
| "required_component b FAILURE = Some (eb_failure_injection b)"
| "required_component b COMPILE_JOB = Some (eb_compile_jit_graph_prewarm b)"
| "required_component b DOWNLOAD_JOB = Some (eb_download_compile_reservation b)"
| "required_component b _ = None"

definition budget_load_check :: "experiment_budget \<Rightarrow> unit res" where
  "budget_load_check b =
     rbind (raise_if (eb_retry_allowance b = 0 \<and> sm_registered (eb_retry b) \<noteq> 0)
       (ValueError ''retry time requires a positive retry allowance'')) (\<lambda>_.
     rbind (raise_if (0 < eb_retry_allowance b \<and> sm_registered (eb_retry b) = 0)
       (ValueError ''retry allowance requires an explicit retry duration'')) (\<lambda>_.
     rbind (raise_if (0 < sm_registered (eb_excluded_warmup b) \<and> ec_maximum (eb_excluded_warmup_requests b) = 0)
       (ValueError ''excluded warm-up duration requires a request pool'')) (\<lambda>_.
     rbind (raise_if (sm_registered (eb_excluded_warmup b) = 0 \<and> 0 < ec_maximum (eb_excluded_warmup_requests b))
       (ValueError ''excluded warm-up requests require an explicit duration'')) (\<lambda>_.
     if 0 < sm_registered (eb_scored_arrival b)
     then rbind (raise_if (sm_registered (eb_request_deadline b) \<le> 0)
            (ValueError ''scored arrivals require an explicit request deadline'')) (\<lambda>_.
          rbind (raise_if (ec_maximum (eb_output_tokens b) \<le> 0)
            (ValueError ''scored arrivals require an output-token budget'')) (\<lambda>_.
          raise_if (eb_minimum_completed_requests b \<le> 0)
            (ValueError ''scored arrivals require a minimum completion count'')))
     else Inr ()))))"

definition budget_kind_check :: "experiment_budget \<Rightarrow> unit res" where
  "budget_kind_check b =
     rbind (if eb_job_kind b = P99_ANCHOR
            then rbind (raise_if (eb_p99_anchor_status b = NOT_REQUIRED)
                   (ValueError ''p99-anchor jobs require an explicit anchor status'')) (\<lambda>_.
                 raise_if (eb_minimum_completed_requests b < p99_minimum_completions)
                   (ValueError ''p99-anchor jobs require at least 10,000 completed requests''))
            else raise_if (eb_p99_anchor_status b \<noteq> NOT_REQUIRED)
              (ValueError ''p99 anchor status is valid only for preregistered p99-anchor jobs'')) (\<lambda>_.
     case required_component b (eb_job_kind b) of
       None \<Rightarrow> Inr ()
     | Some c \<Rightarrow> raise_if (sm_registered c \<le> 0)
         (ValueError (job_kind_text (eb_job_kind b) @ '' jobs require their explicit duration component'')))"

definition budget_gpu_check :: "experiment_budget \<Rightarrow> unit res" where
  "budget_gpu_check b =
     rbind (compute_gpu_ms b) (\<lambda>compute.
     check_all (\<lambda>scenario.
         rbind (raise_if (sm_value (eb_reserved_gpu_ms b) scenario < sm_value compute scenario)
           (ValueError ''reserved GPU time cannot be below compute GPU time'')) (\<lambda>_.
         raise_if (sm_value (eb_fixed_instance_billed_gpu_ms b) scenario < sm_value compute scenario)
           (ValueError ''fixed-instance billed GPU time cannot be below compute GPU time'')))
       budget_scenarios)"

definition experiment_budget_post_init :: "experiment_budget \<Rightarrow> experiment_budget res" where
  "experiment_budget_post_init b =
     rbind (raise_if (eb_schema_version b \<noteq> 1)
       (ValueError ''only ExperimentBudget schema version 1 is supported'')) (\<lambda>_.
     rbind (require_planning_sha256 ''budget cell_id'' (eb_cell_id b)) (\<lambda>_.
     rbind (check_all (\<lambda>(name, value). require_planning_text name value)
       [(''experiment'', eb_experiment b), (''method'', eb_method b), (''topology'', eb_topology b)]) (\<lambda>_.
     rbind (require_nonnegative_int ''minimum_completed_requests'' (eb_minimum_completed_requests b)) (\<lambda>_.
     rbind (require_nonnegative_int ''retry_allowance'' (eb_retry_allowance b)) (\<lambda>_.
     rbind (raise_if (eb_gpu_count b < 1) (ValueError ''gpu_count must be positive'')) (\<lambda>_.
     rbind (case eb_measured_gpu_ms b of None \<Rightarrow> Inr ()
            | Some m \<Rightarrow> require_nonnegative_int ''measured_gpu_ms'' m) (\<lambda>_.
     rbind (budget_load_check b) (\<lambda>_.
     rbind (budget_kind_check b) (\<lambda>_.
     rbind (budget_gpu_check b) (\<lambda>_. Inr b))))))))))"

definition scenario_json :: "scenario_milliseconds \<Rightarrow> json" where
  "scenario_json s = JObj [(''optimistic'', JInt (sm_optimistic s)), (''registered'', JInt (sm_registered s)),
     (''quota_envelope'', JInt (sm_quota_envelope s))]"

definition count_json :: "expected_maximum_count \<Rightarrow> json" where
  "count_json c = JObj [(''expected'', JInt (ec_expected c)), (''maximum'', JInt (ec_maximum c))]"

definition experiment_budget_json :: "experiment_budget \<Rightarrow> json" where
  "experiment_budget_json b = JObj
     [(''schema_version'', JInt (eb_schema_version b)), (''cell_id'', JStr (eb_cell_id b)),
      (''experiment'', JStr (eb_experiment b)), (''method'', JStr (eb_method b)),
      (''workload_class'', JStr (workload_text (eb_workload_class b))),
      (''job_kind'', JStr (job_kind_text (eb_job_kind b))),
      (''startup_model_load'', scenario_json (eb_startup_model_load b)),
      (''compile_jit_graph_prewarm'', scenario_json (eb_compile_jit_graph_prewarm b)),
      (''excluded_warmup'', scenario_json (eb_excluded_warmup b)),
      (''excluded_warmup_requests'', count_json (eb_excluded_warmup_requests b)),
      (''scored_arrival'', scenario_json (eb_scored_arrival b)),
      (''request_deadline'', scenario_json (eb_request_deadline b)), (''drain'', scenario_json (eb_drain b)),
      (''reset_finalization'', scenario_json (eb_reset_finalization b)),
      (''evidence_flush_shutdown'', scenario_json (eb_evidence_flush_shutdown b)),
      (''output_tokens'', count_json (eb_output_tokens b)),
      (''minimum_completed_requests'', JInt (eb_minimum_completed_requests b)),
      (''p99_anchor_status'', JStr (p99_text (eb_p99_anchor_status b))), (''soak'', scenario_json (eb_soak b)),
      (''failure_injection'', scenario_json (eb_failure_injection b)), (''retry'', scenario_json (eb_retry b)),
      (''retry_allowance'', JInt (eb_retry_allowance b)), (''profiler'', scenario_json (eb_profiler b)),
      (''download_compile_reservation'', scenario_json (eb_download_compile_reservation b)),
      (''gpu_count'', JInt (eb_gpu_count b)), (''topology'', JStr (eb_topology b)),
      (''reserved_gpu_ms'', scenario_json (eb_reserved_gpu_ms b)),
      (''measured_gpu_ms'', jopt JInt (eb_measured_gpu_ms b)),
      (''fixed_instance_billed_gpu_ms'', scenario_json (eb_fixed_instance_billed_gpu_ms b))]"

definition experiment_budget_sha256 :: "experiment_budget \<Rightarrow> string" where
  "experiment_budget_sha256 b = content_sha256 (experiment_budget_json b)"

section \<open>Inventory identity, job policies and capacity\<close>

record budget_inventory_identity =
  bi_schema_version :: int
  bi_host_sha256 :: string
  bi_gpu_uuids :: "string list"
  bi_topology_sha256 :: string

definition budget_inventory_identity_post_init :: "budget_inventory_identity \<Rightarrow> budget_inventory_identity res" where
  "budget_inventory_identity_post_init v =
     rbind (raise_if (bi_schema_version v \<noteq> 1)
       (ValueError ''only budget inventory schema version 1 is supported'')) (\<lambda>_.
     rbind (require_planning_sha256 ''inventory host_sha256'' (bi_host_sha256 v)) (\<lambda>_.
     rbind (require_planning_sha256 ''inventory topology_sha256'' (bi_topology_sha256 v)) (\<lambda>_.
     rbind (raise_if (bi_gpu_uuids v = [] \<or> \<not> distinct (bi_gpu_uuids v))
       (ValueError ''inventory requires unique GPU UUIDs'')) (\<lambda>_.
     rbind (check_all (require_planning_text ''inventory GPU UUID'') (bi_gpu_uuids v)) (\<lambda>_. Inr v)))))"

definition bi_gpu_count :: "budget_inventory_identity \<Rightarrow> int" where
  "bi_gpu_count v = int (length (bi_gpu_uuids v))"

definition budget_inventory_identity_from_gpu_inventory :: "gpu_inventory \<Rightarrow> budget_inventory_identity res" where
  "budget_inventory_identity_from_gpu_inventory v = budget_inventory_identity_post_init
     \<lparr>bi_schema_version = 1, bi_host_sha256 = content_sha256 (jstrs (host_ids v)),
      bi_gpu_uuids = map gd_uuid (iv_devices v),
      bi_topology_sha256 = content_sha256 (JArr (map gpu_topology_group_to_dict (iv_topology_groups v)))\<rparr>"

record budget_job_policy =
  jp_job_kind :: budget_job_kind
  jp_startup_model_load :: scenario_milliseconds
  jp_compile_jit_graph_prewarm :: scenario_milliseconds
  jp_reset_finalization :: scenario_milliseconds
  jp_evidence_flush_shutdown :: scenario_milliseconds
  jp_retry :: scenario_milliseconds
  jp_retry_allowance :: int
  jp_download_compile_reservation :: scenario_milliseconds
  jp_reserved_gpu_overhead :: scenario_milliseconds

definition budget_job_policy_post_init :: "budget_job_policy \<Rightarrow> budget_job_policy res" where
  "budget_job_policy_post_init p =
     rbind (require_nonnegative_int ''budget job retry allowance'' (jp_retry_allowance p)) (\<lambda>_.
     rbind (raise_if (jp_retry_allowance p = 0 \<and> jp_retry p \<noteq> zero_milliseconds)
       (ValueError ''budget job retry duration and allowance must be explicitly aligned'')) (\<lambda>_.
     rbind (raise_if (0 < jp_retry_allowance p \<and> sm_registered (jp_retry p) \<le> 0)
       (ValueError ''budget job retry duration and allowance must be explicitly aligned'')) (\<lambda>_.
     rbind (raise_if (jp_job_kind p = COMPILE_JOB \<and> sm_registered (jp_compile_jit_graph_prewarm p) \<le> 0)
       (ValueError ''compile policy requires an explicit compile duration'')) (\<lambda>_.
     rbind (raise_if (jp_job_kind p \<noteq> COMPILE_JOB \<and> jp_compile_jit_graph_prewarm p \<noteq> zero_milliseconds)
       (ValueError ''compile/prewarm duration is valid only for the compile policy'')) (\<lambda>_.
     rbind (raise_if (jp_job_kind p = DOWNLOAD_JOB \<and> sm_registered (jp_download_compile_reservation p) \<le> 0)
       (ValueError ''download policy requires an explicit reservation duration'')) (\<lambda>_.
     rbind (raise_if (jp_job_kind p \<noteq> DOWNLOAD_JOB \<and> jp_download_compile_reservation p \<noteq> zero_milliseconds)
       (ValueError ''download reservation is valid only for the explicit download policy'')) (\<lambda>_. Inr p)))))))"

record budget_policy =
  bp_schema_version :: int
  bp_policy_name :: string
  bp_reducer_protocol_sha256 :: string
  bp_job_policies :: "budget_job_policy list"

text \<open>\<open>tuple(sorted(BudgetJobKind, key=lambda value: value.value))\<close>; the digest of the registered reducer
  protocol is a constant of the module and a parameter here.\<close>

definition canonical_job_kinds :: "budget_job_kind list" where
  "canonical_job_kinds = sort_key job_kind_text
     [STANDARD, SHORT, P99_ANCHOR, SOAK, PROFILER, FAILURE, COMPILE_JOB, DOWNLOAD_JOB]"

definition budget_policy_post_init :: "string \<Rightarrow> budget_policy \<Rightarrow> budget_policy res" where
  "budget_policy_post_init protocol_sha256 p =
     rbind (raise_if (bp_schema_version p \<noteq> 1)
       (ValueError ''only BudgetPolicy schema version 1 is supported'')) (\<lambda>_.
     rbind (require_planning_text ''budget policy name'' (bp_policy_name p)) (\<lambda>_.
     rbind (raise_if (bp_reducer_protocol_sha256 p \<noteq> protocol_sha256)
       (ValueError ''budget policy uses an unregistered reducer protocol'')) (\<lambda>_.
     rbind (raise_if (map jp_job_kind (bp_job_policies p) \<noteq> canonical_job_kinds)
       (ValueError ''budget policy must cover every job kind once in canonical order'')) (\<lambda>_. Inr p))))"

definition policy_for_job :: "budget_policy \<Rightarrow> budget_job_kind \<Rightarrow> budget_job_policy res" where
  "policy_for_job p kind =
     (let matches = filter (\<lambda>row. jp_job_kind row = kind) (bp_job_policies p)
      in if length matches \<noteq> 1 then Inl (ValueError ''budget policy does not resolve one exact job kind'')
         else Inr (hd matches))"

record cell_capacity_requirement =
  cq_cell_id :: string
  cq_maximum_evidence_bytes :: int
  cq_model_staging_bytes :: int
  cq_compile_overlay_bytes :: int

definition cell_capacity_requirement_post_init :: "cell_capacity_requirement \<Rightarrow> cell_capacity_requirement res" where
  "cell_capacity_requirement_post_init r =
     rbind (require_planning_sha256 ''capacity requirement cell_id'' (cq_cell_id r)) (\<lambda>_.
     rbind (check_all (\<lambda>(name, value). require_nonnegative_int (''capacity requirement '' @ name) value)
       [(''maximum_evidence_bytes'', cq_maximum_evidence_bytes r), (''model_staging_bytes'', cq_model_staging_bytes r),
        (''compile_overlay_bytes'', cq_compile_overlay_bytes r)]) (\<lambda>_. Inr r))"

definition maximum_attempt_bytes :: "cell_capacity_requirement \<Rightarrow> int" where
  "maximum_attempt_bytes r = cq_maximum_evidence_bytes r + cq_model_staging_bytes r + cq_compile_overlay_bytes r"

record capacity_envelope =
  ce_schema_version :: int
  ce_budget_inventory_sha256 :: string
  ce_provider_quota_gpu_ms :: int
  ce_host_free_bytes :: int
  ce_host_quota_bytes :: int
  ce_cell_requirements :: "cell_capacity_requirement list"
  ce_source_receipt_sha256 :: string

definition capacity_envelope_post_init :: "capacity_envelope \<Rightarrow> capacity_envelope res" where
  "capacity_envelope_post_init e =
     rbind (raise_if (ce_schema_version e \<noteq> 1)
       (ValueError ''only CapacityEnvelope schema version 1 is supported'')) (\<lambda>_.
     rbind (require_planning_sha256 ''capacity budget inventory'' (ce_budget_inventory_sha256 e)) (\<lambda>_.
     rbind (require_planning_sha256 ''capacity source receipt'' (ce_source_receipt_sha256 e)) (\<lambda>_.
     rbind (check_all (\<lambda>(name, value). require_nonnegative_int (''capacity '' @ name) value)
       [(''provider_quota_gpu_ms'', ce_provider_quota_gpu_ms e), (''host_free_bytes'', ce_host_free_bytes e),
        (''host_quota_bytes'', ce_host_quota_bytes e)]) (\<lambda>_.
     rbind (raise_if (map cq_cell_id (ce_cell_requirements e) \<noteq> sorted_set (map cq_cell_id (ce_cell_requirements e)))
       (ValueError ''capacity requirements must be cell-sorted and unique'')) (\<lambda>_. Inr e)))))"

definition effective_host_bytes :: "capacity_envelope \<Rightarrow> int" where
  "effective_host_bytes e = min (ce_host_free_bytes e) (ce_host_quota_bytes e)"

text \<open>The dictionaries keyed by cell: a later row replaces an earlier one.\<close>

definition by_cell :: "('a \<Rightarrow> string) \<Rightarrow> 'a list \<Rightarrow> (string \<times> 'a) list" where
  "by_cell key rows = foldl (\<lambda>d r. dset (key r) r d) [] rows"

definition ready_capacity_rejection_reason :: "capacity_envelope \<Rightarrow> experiment_budget list \<Rightarrow> string option" where
  "ready_capacity_rejection_reason e budgets =
     (let requirement_by_cell = by_cell cq_cell_id (ce_cell_requirements e);
          budget_by_cell = by_cell eb_cell_id budgets;
          provider_gpu_ms = sum_list (map (\<lambda>(cell, b).
            sm_quota_envelope (eb_fixed_instance_billed_gpu_ms b) * (eb_retry_allowance b + 1)) budget_by_cell);
          durable_bytes = sum_list (map (\<lambda>(cell, b).
            maximum_attempt_bytes (the (dget requirement_by_cell cell)) * (eb_retry_allowance b + 1)) budget_by_cell)
      in if set (dkeys requirement_by_cell) \<noteq> set (dkeys budget_by_cell)
         then Some ''capacity_requirement_coverage_incomplete''
         else if ce_provider_quota_gpu_ms e < provider_gpu_ms then Some ''capacity_provider_quota_exceeded''
         else if effective_host_bytes e < durable_bytes then Some ''capacity_host_disk_exceeded''
         else None)"

end
