(* ===== verification/Dispatch.thy ===== *)
theory Dispatch
  imports Budget
begin

text \<open>
  The records of a dispatch execution (\<open>experiments/gpu_pool.py\<close> and the terminal bindings of
  \<open>experiments/completion_authority.py\<close>): digests of waves and plans, the receipt of an assignment with its
  attempts and its cost, the receipts of a wave and of a schedule, the wave-ordered state machine, and the
  validation of a receipt that a later run resumes from.
\<close>

section \<open>Digests of waves and plans\<close>

text \<open>\<open>sum\<close> of a non-empty sequence of floats: from CPython 3.12 on with the compensation of Neumaier. The
  first addition, to the integer start value 0, is exact.\<close>

fun pf_minus :: "pyfloat \<Rightarrow> pyfloat" where
  "pf_minus (Fin a) = Fin (- a)"
| "pf_minus PInf = NInf"
| "pf_minus NInf = PInf"
| "pf_minus NaN = NaN"

fun pf_abs :: "pyfloat \<Rightarrow> pyfloat" where
  "pf_abs (Fin a) = Fin \<bar>a\<bar>"
| "pf_abs NInf = PInf"
| "pf_abs x = x"

fun compensated_sum :: "pyfloat \<Rightarrow> pyfloat \<Rightarrow> pyfloat list \<Rightarrow> pyfloat" where
  "compensated_sum s c [] = (if c \<noteq> Fin 0 \<and> isfinite c then pf_add s c else s)"
| "compensated_sum s c (x # xs) =
     (let t = pf_add s x;
          c' = (if pf_le (pf_abs x) (pf_abs s) then pf_add c (pf_add (pf_add s (pf_minus t)) x)
                else pf_add c (pf_add (pf_add x (pf_minus t)) s))
      in compensated_sum t c' xs)"

definition py_sum_json :: "pyfloat list \<Rightarrow> json" where
  "py_sum_json xs = (case xs of [] \<Rightarrow> JInt 0 | x # rest \<Rightarrow> JFloat (compensated_sum x (Fin 0) rest))"

definition wave_estimated_wall_seconds :: "gpu_dispatch_wave \<Rightarrow> pyfloat" where
  "wave_estimated_wall_seconds w =
     (case map (\<lambda>a. pr_estimated_duration_seconds (ga_claim a)) (gw_assignments w) of
        [] \<Rightarrow> NaN | x # xs \<Rightarrow> foldl pf_max x xs)"

definition wave_estimated_gpu_seconds :: "gpu_dispatch_wave \<Rightarrow> pyfloat" where
  "wave_estimated_gpu_seconds w =
     (case map (\<lambda>a. pr_estimated_gpu_seconds (ga_claim a)) (gw_assignments w) of
        [] \<Rightarrow> Fin 0 | x # xs \<Rightarrow> compensated_sum x (Fin 0) xs)"

definition wave_sha256 :: "gpu_dispatch_wave \<Rightarrow> string" where
  "wave_sha256 w = content_sha256 (gpu_dispatch_wave_to_dict w)"

definition plan_gpu_hours_json :: "gpu_dispatch_plan \<Rightarrow> json" where
  "plan_gpu_hours_json p =
     (case map wave_estimated_gpu_seconds (gp_waves p) of
        [] \<Rightarrow> JFloat (Fin 0)
      | x # xs \<Rightarrow> JFloat (case compensated_sum x (Fin 0) xs of Fin q \<Rightarrow> fl (q / 3600) | other \<Rightarrow> other))"

definition gpu_dispatch_plan_to_dict :: "gpu_dispatch_plan \<Rightarrow> json" where
  "gpu_dispatch_plan_to_dict p = JObj
     [(''schema_version'', JInt (gp_schema_version p)), (''registry_sha256'', JStr (gp_registry_sha256 p)),
      (''inventory_sha256'', JStr (gp_inventory_sha256 p)), (''receipts_sha256'', JStr (gp_receipts_sha256 p)),
      (''interference_envelope_sha256'', JStr (gp_interference_envelope_sha256 p)),
      (''budget_sha256_by_cell'', JArr (map (\<lambda>(cell, budget).
         JObj [(''cell_id'', JStr cell), (''experiment_budget_sha256'', JStr budget)])
         (gp_budget_sha256_by_cell p))),
      (''scientific_budget_bound'', JBool (scientific_budget_bound p)), (''seed'', JInt (gp_seed p)),
      (''waves'', JArr (map gpu_dispatch_wave_to_dict (gp_waves p))),
      (''wave_sha256'', jstrs (map wave_sha256 (gp_waves p))),
      (''completed_cell_ids'', jstrs (gp_completed_cell_ids p)),
      (''estimated_wall_seconds'', py_sum_json (map wave_estimated_wall_seconds (gp_waves p))),
      (''estimated_gpu_seconds'', py_sum_json (map wave_estimated_gpu_seconds (gp_waves p))),
      (''estimated_gpu_hours'', plan_gpu_hours_json p)]"

definition plan_sha256 :: "gpu_dispatch_plan \<Rightarrow> string" where
  "plan_sha256 p = content_sha256 (gpu_dispatch_plan_to_dict p)"

section \<open>Terminal bindings\<close>

record terminal_binding =
  tb_authority_sha256 :: string
  tb_cell_id :: string
  tb_assignment_sha256 :: string
  tb_budget_sha256 :: string
  tb_inventory_sha256 :: string
  tb_physical_gpu_uuids :: "string list"
  tb_execution_plan_sha256 :: string
  tb_dispatch_plan_sha256 :: string
  tb_run_id :: string
  tb_run_nonce_sha256 :: string
  tb_terminal_receipt_path :: string
  tb_terminal_receipt_sha256 :: string
  tb_budget_observation_path :: string
  tb_budget_observation_sha256 :: string
  tb_budget_observation_sidecar_path :: string
  tb_budget_observation_sidecar_sha256 :: string
  tb_native_terminal_artifact_path :: string
  tb_native_terminal_raw_sha256 :: string
  tb_native_terminal_sha256 :: string
  tb_trusted_attester_policy_sha256 :: string
  tb_evidence_file_paths :: "string list"
  tb_evidence_file_sha256s :: "string list"

text \<open>Whether a path is absolute and resolved is a question to the file system: the parameter \<open>resolved\<close>.\<close>

definition terminal_binding_post_init :: "(string \<Rightarrow> bool) \<Rightarrow> terminal_binding \<Rightarrow> terminal_binding res" where
  "terminal_binding_post_init resolved b =
     rbind (check_all (\<lambda>(name, value). raise_if (\<not> is_sha256 value)
         (ValueError (name @ '' must be a lower-case SHA-256'')))
       [(''authority_sha256'', tb_authority_sha256 b), (''cell_id'', tb_cell_id b),
        (''assignment_sha256'', tb_assignment_sha256 b), (''budget_sha256'', tb_budget_sha256 b),
        (''inventory_sha256'', tb_inventory_sha256 b), (''execution_plan_sha256'', tb_execution_plan_sha256 b),
        (''dispatch_plan_sha256'', tb_dispatch_plan_sha256 b), (''run_nonce_sha256'', tb_run_nonce_sha256 b),
        (''terminal_receipt_sha256'', tb_terminal_receipt_sha256 b),
        (''budget_observation_sha256'', tb_budget_observation_sha256 b),
        (''budget_observation_sidecar_sha256'', tb_budget_observation_sidecar_sha256 b),
        (''native_terminal_raw_sha256'', tb_native_terminal_raw_sha256 b),
        (''native_terminal_sha256'', tb_native_terminal_sha256 b),
        (''trusted_attester_policy_sha256'', tb_trusted_attester_policy_sha256 b)]) (\<lambda>_.
     rbind (raise_if (tb_physical_gpu_uuids b = [] \<or> \<not> distinct (tb_physical_gpu_uuids b))
       (ValueError ''assignment terminal binding has invalid GPU coverage'')) (\<lambda>_.
     rbind (raise_if (tb_run_id b = [] \<or> CHR 0x0A \<in> set (tb_run_id b))
       (ValueError ''assignment terminal run ID is invalid'')) (\<lambda>_.
     rbind (raise_if (list_ex (\<lambda>path. \<not> resolved path)
         ([tb_terminal_receipt_path b, tb_budget_observation_path b, tb_budget_observation_sidecar_path b,
           tb_native_terminal_artifact_path b] @ tb_evidence_file_paths b))
       (ValueError ''assignment terminal path must be absolute and resolved'')) (\<lambda>_.
     rbind (raise_if (tb_evidence_file_paths b = []
         \<or> sort (tb_evidence_file_paths b) \<noteq> tb_evidence_file_paths b \<or> \<not> distinct (tb_evidence_file_paths b)
         \<or> length (tb_evidence_file_paths b) \<noteq> length (tb_evidence_file_sha256s b)
         \<or> list_ex (\<lambda>v. \<not> is_sha256 v) (tb_evidence_file_sha256s b))
       (ValueError ''assignment terminal evidence coverage is malformed'')) (\<lambda>_. Inr b)))))"

definition terminal_binding_to_dict :: "terminal_binding \<Rightarrow> json" where
  "terminal_binding_to_dict b = JObj
     [(''authority_sha256'', JStr (tb_authority_sha256 b)), (''cell_id'', JStr (tb_cell_id b)),
      (''assignment_sha256'', JStr (tb_assignment_sha256 b)), (''budget_sha256'', JStr (tb_budget_sha256 b)),
      (''inventory_sha256'', JStr (tb_inventory_sha256 b)),
      (''physical_gpu_uuids'', jstrs (tb_physical_gpu_uuids b)),
      (''execution_plan_sha256'', JStr (tb_execution_plan_sha256 b)),
      (''dispatch_plan_sha256'', JStr (tb_dispatch_plan_sha256 b)), (''run_id'', JStr (tb_run_id b)),
      (''run_nonce_sha256'', JStr (tb_run_nonce_sha256 b)),
      (''terminal_receipt_path'', JStr (tb_terminal_receipt_path b)),
      (''terminal_receipt_sha256'', JStr (tb_terminal_receipt_sha256 b)),
      (''budget_observation_path'', JStr (tb_budget_observation_path b)),
      (''budget_observation_sha256'', JStr (tb_budget_observation_sha256 b)),
      (''budget_observation_sidecar_path'', JStr (tb_budget_observation_sidecar_path b)),
      (''budget_observation_sidecar_sha256'', JStr (tb_budget_observation_sidecar_sha256 b)),
      (''native_terminal_artifact_path'', JStr (tb_native_terminal_artifact_path b)),
      (''native_terminal_raw_sha256'', JStr (tb_native_terminal_raw_sha256 b)),
      (''native_terminal_sha256'', JStr (tb_native_terminal_sha256 b)),
      (''trusted_attester_policy_sha256'', JStr (tb_trusted_attester_policy_sha256 b)),
      (''evidence_file_paths'', jstrs (tb_evidence_file_paths b)),
      (''evidence_file_sha256s'', jstrs (tb_evidence_file_sha256s b))]"

definition terminal_binding_sha256 :: "terminal_binding \<Rightarrow> string" where
  "terminal_binding_sha256 b = content_sha256 (terminal_binding_to_dict b)"

text \<open>
  The authority a runner returns. What its execution left behind is read back from files by
  \<open>revalidate_industrial_execution_result\<close>: the parameter \<open>ta_reopen\<close>, the fields of a binding (its own
  budget is \<open>experiment_budget_sha256\<close>) and whether a trusted attester signed it.
\<close>

record terminal_authority =
  ta_sha256 :: string
  ta_registry :: experiment_registry
  ta_inventory :: gpu_inventory
  ta_cell_id :: string
  ta_policy_release_ready :: bool
  ta_policy_sha256 :: string
  ta_reopen :: "(terminal_binding \<times> bool) res"

definition revalidate ::
  "(string \<Rightarrow> bool) \<Rightarrow> terminal_authority \<Rightarrow> experiment_registry \<Rightarrow> gpu_inventory \<Rightarrow> string \<Rightarrow> string \<Rightarrow> string list
     \<Rightarrow> terminal_binding res" where
  "revalidate resolved t registry inventory assignment_sha256 budget_sha256 gpu_uuids =
     rbind (raise_if (ta_registry t \<noteq> registry \<or> ta_inventory t \<noteq> inventory)
       (ValueError ''assignment terminal authority is foreign'')) (\<lambda>_.
     rbind (ta_reopen t) (\<lambda>(b, trusted_attestation).
     rbind (raise_if (tb_cell_id b \<noteq> ta_cell_id t \<or> tb_assignment_sha256 b \<noteq> assignment_sha256
         \<or> tb_budget_sha256 b \<noteq> budget_sha256 \<or> tb_inventory_sha256 b \<noteq> gpu_inventory_sha256 inventory
         \<or> tb_physical_gpu_uuids b \<noteq> gpu_uuids)
       (ValueError ''assignment terminal differs from scheduler assignment/budget'')) (\<lambda>_.
     rbind (raise_if (\<not> ta_policy_release_ready t \<or> \<not> trusted_attestation
         \<or> tb_trusted_attester_policy_sha256 b \<noteq> ta_policy_sha256 t)
       (CompletionAuthorityUnavailableError (''assignment terminal authority is BLOCKED: ''
          @ ''trusted_hardware_attester_unavailable''))) (\<lambda>_.
     terminal_binding_post_init resolved (b\<lparr>tb_authority_sha256 := ta_sha256 t\<rparr>)))))"

section \<open>The receipt of an assignment\<close>

datatype assignment_status = SUCCEEDED | ASSIGNMENT_FAILED

fun assignment_status_text :: "assignment_status \<Rightarrow> string" where
  "assignment_status_text SUCCEEDED = ''SUCCEEDED''"
| "assignment_status_text ASSIGNMENT_FAILED = ''FAILED''"

record assignment_receipt =
  ar_plan_sha256 :: string
  ar_wave_sha256 :: string
  ar_assignment_sha256 :: string
  ar_budget_sha256 :: string
  ar_attempt :: int
  ar_status :: assignment_status
  ar_terminal_receipt_sha256 :: "string option"
  ar_terminal_binding :: "terminal_binding option"
  ar_failure_sha256 :: "string option"
  ar_prior_attempt_receipt_sha256 :: "string option"
  ar_gpu_count :: int
  ar_fixed_instance_gpu_count :: int
  ar_intervals :: "(int \<times> int) list"
  ar_attributed_gpu_ns :: int
  ar_attributed_fixed_instance_gpu_ns :: int
  ar_accounting_semantics :: string

definition opt_is_sha256 :: "string option \<Rightarrow> bool" where
  "opt_is_sha256 x = (case x of None \<Rightarrow> False | Some s \<Rightarrow> is_sha256 s)"

definition receipt_cost_check :: "assignment_receipt \<Rightarrow> unit res" where
  "receipt_cost_check r =
     rbind (check_all (\<lambda>(name, value). raise_if (value < 1) (ValueError (name @ '' must be a positive integer'')))
       [(''gpu_count'', ar_gpu_count r), (''fixed_instance_gpu_count'', ar_fixed_instance_gpu_count r)]) (\<lambda>_.
     rbind (raise_if (ar_fixed_instance_gpu_count r < ar_gpu_count r)
       (ValueError ''fixed-instance GPU count cannot be below gang size'')) (\<lambda>_.
     rbind (interval_union_ns (ar_intervals r)) (\<lambda>elapsed.
     rbind (raise_if (ar_attributed_gpu_ns r \<noteq> elapsed * ar_gpu_count r)
       (ValueError ''assignment GPU attribution differs from monotonic time'')) (\<lambda>_.
     rbind (raise_if (ar_attributed_fixed_instance_gpu_ns r \<noteq> elapsed * ar_fixed_instance_gpu_count r)
       (ValueError ''assignment fixed-instance attribution differs from monotonic time'')) (\<lambda>_.
     raise_if (ar_accounting_semantics r \<noteq> ''per_assignment_attribution_not_schedule_ledger_v1'')
       (ValueError ''assignment accounting semantics are unsupported''))))))"

definition receipt_outcome_check :: "assignment_receipt \<Rightarrow> unit res" where
  "receipt_outcome_check r =
     (case ar_status r of
        SUCCEEDED \<Rightarrow>
          rbind (raise_if (\<not> opt_is_sha256 (ar_terminal_receipt_sha256 r))
            (ValueError ''successful assignment needs a terminal receipt'')) (\<lambda>_.
          (case ar_terminal_binding r of
             None \<Rightarrow> Inl (TypeError ''successful assignment needs an exact raw terminal binding'')
           | Some b \<Rightarrow>
               rbind (raise_if (ar_terminal_receipt_sha256 r \<noteq> Some (terminal_binding_sha256 b)
                   \<or> tb_assignment_sha256 b \<noteq> ar_assignment_sha256 r \<or> tb_budget_sha256 b \<noteq> ar_budget_sha256 r)
                 (ValueError ''successful assignment terminal binding identity mismatch'')) (\<lambda>_.
               raise_if (ar_failure_sha256 r \<noteq> None)
                 (ValueError ''successful assignment cannot carry failure evidence''))))
      | ASSIGNMENT_FAILED \<Rightarrow>
          rbind (raise_if (\<not> opt_is_sha256 (ar_failure_sha256 r))
            (ValueError ''failed assignment needs bound failure evidence'')) (\<lambda>_.
          rbind (raise_if (ar_terminal_receipt_sha256 r \<noteq> None)
            (ValueError ''failed assignment cannot carry a terminal receipt'')) (\<lambda>_.
          raise_if (ar_terminal_binding r \<noteq> None)
            (ValueError ''failed assignment cannot carry a terminal binding''))))"

definition assignment_receipt_post_init :: "assignment_receipt \<Rightarrow> assignment_receipt res" where
  "assignment_receipt_post_init r =
     rbind (check_all (\<lambda>(name, value). require_sha256_text name value)
       [(''plan_sha256'', ar_plan_sha256 r), (''wave_sha256'', ar_wave_sha256 r),
        (''assignment_sha256'', ar_assignment_sha256 r), (''budget_sha256'', ar_budget_sha256 r)]) (\<lambda>_.
     rbind (raise_if (ar_attempt r < 1) (ValueError ''attempt must be a positive integer'')) (\<lambda>_.
     rbind (raise_if (ar_attempt r \<noteq> int (length (ar_intervals r)))
       (ValueError ''attempt intervals must cover every cumulative attempt'')) (\<lambda>_.
     rbind (merge_monotonic_intervals (ar_intervals r)) (\<lambda>canonical.
     rbind (raise_if (canonical \<noteq> ar_intervals r)
       (ValueError ''assignment attempt intervals must be sorted and non-overlapping'')) (\<lambda>_.
     rbind (if ar_attempt r = 1
            then raise_if (ar_prior_attempt_receipt_sha256 r \<noteq> None)
              (ValueError ''first attempt cannot bind a prior attempt receipt'')
            else raise_if (\<not> opt_is_sha256 (ar_prior_attempt_receipt_sha256 r))
              (ValueError ''retried assignment must bind its prior attempt receipt'')) (\<lambda>_.
     rbind (receipt_cost_check r) (\<lambda>_.
     rbind (receipt_outcome_check r) (\<lambda>_. Inr r))))))))"

text \<open>The union that \<open>to_dict\<close> records; a receipt that went through its constructor has one.\<close>

definition union_json :: "(int \<times> int) list \<Rightarrow> json" where
  "union_json xs = (case interval_union_ns xs of Inr n \<Rightarrow> JInt n | Inl _ \<Rightarrow> JNull)"

definition intervals_json :: "(int \<times> int) list \<Rightarrow> json" where
  "intervals_json xs = JArr (map (\<lambda>(start, finish). JArr [JInt start, JInt finish]) xs)"

definition assignment_receipt_to_dict :: "assignment_receipt \<Rightarrow> json" where
  "assignment_receipt_to_dict r = JObj
     [(''plan_sha256'', JStr (ar_plan_sha256 r)), (''wave_sha256'', JStr (ar_wave_sha256 r)),
      (''assignment_sha256'', JStr (ar_assignment_sha256 r)), (''budget_sha256'', JStr (ar_budget_sha256 r)),
      (''attempt'', JInt (ar_attempt r)), (''status'', JStr (assignment_status_text (ar_status r))),
      (''terminal_receipt_sha256'', jopt JStr (ar_terminal_receipt_sha256 r)),
      (''terminal_binding'', jopt terminal_binding_to_dict (ar_terminal_binding r)),
      (''failure_sha256'', jopt JStr (ar_failure_sha256 r)),
      (''prior_attempt_receipt_sha256'', jopt JStr (ar_prior_attempt_receipt_sha256 r)),
      (''gpu_count'', JInt (ar_gpu_count r)),
      (''fixed_instance_gpu_count'', JInt (ar_fixed_instance_gpu_count r)),
      (''attempt_intervals_monotonic_ns'', intervals_json (ar_intervals r)),
      (''cumulative_elapsed_ns'', union_json (ar_intervals r)),
      (''attributed_gpu_ns'', JInt (ar_attributed_gpu_ns r)),
      (''attributed_fixed_instance_gpu_ns'', JInt (ar_attributed_fixed_instance_gpu_ns r)),
      (''accounting_semantics'', JStr (ar_accounting_semantics r))]"

definition assignment_receipt_sha256 :: "assignment_receipt \<Rightarrow> string" where
  "assignment_receipt_sha256 r = content_sha256 (assignment_receipt_to_dict r)"

section \<open>The receipt of a wave\<close>

record wave_receipt =
  wr_plan_sha256 :: string
  wr_wave_index :: int
  wr_wave_sha256 :: string
  wr_assignment_receipts :: "assignment_receipt list"
  wr_inventory_sha256 :: string
  wr_fixed_instance_gpu_count :: int
  wr_active_intervals :: "(int \<times> int) list"
  wr_billed_gpu_ns :: int
  wr_attributed_gpu_ns :: int
  wr_attributed_fixed_instance_gpu_ns :: int
  wr_accounting_semantics :: string

definition wave_receipt_post_init :: "wave_receipt \<Rightarrow> wave_receipt res" where
  "wave_receipt_post_init r =
     rbind (require_sha256_text ''plan_sha256'' (wr_plan_sha256 r)) (\<lambda>_.
     rbind (require_sha256_text ''wave_sha256'' (wr_wave_sha256 r)) (\<lambda>_.
     rbind (require_sha256_text ''inventory_sha256'' (wr_inventory_sha256 r)) (\<lambda>_.
     rbind (raise_if (wr_wave_index r < 0) (ValueError ''wave_index must be a non-negative integer'')) (\<lambda>_.
     rbind (raise_if (wr_assignment_receipts r = [])
       (ValueError ''wave receipt requires assignment receipts'')) (\<lambda>_.
     rbind (raise_if (\<not> distinct (map ar_assignment_sha256 (wr_assignment_receipts r)))
       (ValueError ''wave receipt contains duplicate assignment receipts'')) (\<lambda>_.
     rbind (raise_if (wr_fixed_instance_gpu_count r < 1)
       (ValueError ''wave fixed-instance GPU count must be positive'')) (\<lambda>_.
     rbind (merge_monotonic_intervals (concat (map ar_intervals (wr_assignment_receipts r)))) (\<lambda>expected.
     rbind (raise_if (wr_active_intervals r \<noteq> expected)
       (ValueError ''wave active intervals differ from assignment attempts'')) (\<lambda>_.
     rbind (interval_union_ns (wr_active_intervals r)) (\<lambda>union_ns.
     rbind (raise_if (wr_billed_gpu_ns r \<noteq> union_ns * wr_fixed_instance_gpu_count r)
       (ValueError ''wave fixed-instance ledger differs from interval union'')) (\<lambda>_.
     rbind (raise_if (wr_attributed_gpu_ns r \<noteq> sum_list (map ar_attributed_gpu_ns (wr_assignment_receipts r)))
       (ValueError ''wave per-assignment GPU attribution mismatch'')) (\<lambda>_.
     rbind (raise_if (wr_attributed_fixed_instance_gpu_ns r
           \<noteq> sum_list (map ar_attributed_fixed_instance_gpu_ns (wr_assignment_receipts r)))
       (ValueError ''wave per-assignment fixed attribution mismatch'')) (\<lambda>_.
     rbind (raise_if (list_ex (\<lambda>a. ar_fixed_instance_gpu_count a \<noteq> wr_fixed_instance_gpu_count r)
           (wr_assignment_receipts r))
       (ValueError ''wave assignments disagree on fixed-instance GPU count'')) (\<lambda>_.
     rbind (raise_if (wr_accounting_semantics r \<noteq> ''interval_union_schedule_ledger_v1'')
       (ValueError ''wave accounting semantics are unsupported'')) (\<lambda>_. Inr r)))))))))))))))"

definition wave_succeeded :: "wave_receipt \<Rightarrow> bool" where
  "wave_succeeded r = list_all (\<lambda>a. ar_status a = SUCCEEDED) (wr_assignment_receipts r)"

definition partial_sibling_failure :: "wave_receipt \<Rightarrow> bool" where
  "partial_sibling_failure r \<longleftrightarrow> set (map ar_status (wr_assignment_receipts r)) = {SUCCEEDED, ASSIGNMENT_FAILED}"

definition wave_receipt_to_dict :: "wave_receipt \<Rightarrow> json" where
  "wave_receipt_to_dict r = JObj
     [(''plan_sha256'', JStr (wr_plan_sha256 r)), (''wave_index'', JInt (wr_wave_index r)),
      (''wave_sha256'', JStr (wr_wave_sha256 r)),
      (''assignment_receipts'', JArr (map assignment_receipt_to_dict (wr_assignment_receipts r))),
      (''assignment_receipt_sha256'', jstrs (map assignment_receipt_sha256 (wr_assignment_receipts r))),
      (''inventory_sha256'', JStr (wr_inventory_sha256 r)),
      (''fixed_instance_gpu_count'', JInt (wr_fixed_instance_gpu_count r)),
      (''active_intervals_monotonic_ns'', intervals_json (wr_active_intervals r)),
      (''active_interval_union_ns'', union_json (wr_active_intervals r)),
      (''fixed_instance_actual_billed_gpu_ns'', JInt (wr_billed_gpu_ns r)),
      (''per_assignment_attributed_gpu_ns'', JInt (wr_attributed_gpu_ns r)),
      (''per_assignment_attributed_fixed_instance_gpu_ns'', JInt (wr_attributed_fixed_instance_gpu_ns r)),
      (''accounting_semantics'', JStr (wr_accounting_semantics r))]"

definition wave_receipt_sha256 :: "wave_receipt \<Rightarrow> string" where
  "wave_receipt_sha256 r = content_sha256 (wave_receipt_to_dict r)"

section \<open>The state machine\<close>

datatype dispatch_phase = PLANNED | RUNNING | FAILED | COMPLETE

fun phase_text :: "dispatch_phase \<Rightarrow> string" where
  "phase_text PLANNED = ''PLANNED''"
| "phase_text RUNNING = ''RUNNING''"
| "phase_text FAILED = ''FAILED''"
| "phase_text COMPLETE = ''COMPLETE''"

record dispatch_state =
  ds_plan_sha256 :: string
  ds_phase :: dispatch_phase
  ds_next_wave_index :: int
  ds_wave_receipt_sha256 :: "string list"

definition dispatch_state_post_init :: "dispatch_state \<Rightarrow> dispatch_state res" where
  "dispatch_state_post_init s =
     rbind (require_sha256_text ''plan_sha256'' (ds_plan_sha256 s)) (\<lambda>_.
     rbind (raise_if (ds_next_wave_index s < 0) (ValueError ''next_wave_index must be non-negative'')) (\<lambda>_.
     rbind (raise_if (int (length (ds_wave_receipt_sha256 s)) \<noteq> ds_next_wave_index s)
       (ValueError ''state receipt chain must cover every attempted wave'')) (\<lambda>_.
     rbind (check_all (require_sha256_text ''wave receipt digest'') (ds_wave_receipt_sha256 s)) (\<lambda>_. Inr s))))"

definition ds_begin :: "dispatch_state \<Rightarrow> int \<Rightarrow> dispatch_state res" where
  "ds_begin s total_waves =
     rbind (raise_if (ds_phase s \<notin> {PLANNED, FAILED})
       (ValueError ''only planned or failed execution can begin'')) (\<lambda>_.
     rbind (raise_if (total_waves < ds_next_wave_index s)
       (ValueError ''execution state exceeds dispatch-plan wave count'')) (\<lambda>_.
     dispatch_state_post_init (s\<lparr>ds_phase := RUNNING\<rparr>)))"

definition ds_accept :: "dispatch_state \<Rightarrow> wave_receipt \<Rightarrow> int \<Rightarrow> dispatch_state res" where
  "ds_accept s receipt total_waves =
     rbind (raise_if (ds_phase s \<noteq> RUNNING) (ValueError ''wave receipt requires RUNNING execution state'')) (\<lambda>_.
     rbind (raise_if (wr_plan_sha256 receipt \<noteq> ds_plan_sha256 s)
       (ValueError ''wave receipt belongs to another dispatch plan'')) (\<lambda>_.
     rbind (raise_if (wr_wave_index receipt \<noteq> ds_next_wave_index s)
       (ValueError ''wave receipt is not the next contiguous wave'')) (\<lambda>_.
     dispatch_state_post_init
       \<lparr>ds_plan_sha256 = ds_plan_sha256 s,
        ds_phase = (if \<not> wave_succeeded receipt then FAILED
                    else if ds_next_wave_index s + 1 = total_waves then COMPLETE else RUNNING),
        ds_next_wave_index = ds_next_wave_index s + 1,
        ds_wave_receipt_sha256 = ds_wave_receipt_sha256 s @ [wave_receipt_sha256 receipt]\<rparr>)))"

section \<open>The receipt of a schedule\<close>

record schedule_receipt =
  sr_plan_sha256 :: string
  sr_phase :: dispatch_phase
  sr_wave_receipts :: "wave_receipt list"
  sr_inventory_sha256 :: string
  sr_fixed_instance_gpu_count :: int
  sr_active_intervals :: "(int \<times> int) list"
  sr_billed_gpu_ns :: int
  sr_attributed_gpu_ns :: int
  sr_attributed_fixed_instance_gpu_ns :: int
  sr_prior_schedule_receipt_sha256 :: "string option"
  sr_accounting_semantics :: string

definition schedule_phase_check :: "schedule_receipt \<Rightarrow> unit res" where
  "schedule_phase_check r =
     (let waves = sr_wave_receipts r
      in case sr_phase r of
           COMPLETE \<Rightarrow> raise_if (\<not> list_all wave_succeeded waves)
             (ValueError ''COMPLETE schedule receipt contains failed work'')
         | RUNNING \<Rightarrow> raise_if (waves = [] \<or> \<not> list_all wave_succeeded waves)
             (ValueError ''RUNNING schedule receipt must contain a successful wave prefix'')
         | FAILED \<Rightarrow> raise_if (waves = [] \<or> wave_succeeded (last waves))
             (ValueError ''FAILED schedule receipt lacks a failed terminal wave'')
         | PLANNED \<Rightarrow> Inl (ValueError ''durable schedule receipts must be RUNNING, COMPLETE, or FAILED''))"

definition schedule_receipt_post_init :: "schedule_receipt \<Rightarrow> schedule_receipt res" where
  "schedule_receipt_post_init r =
     (let waves = sr_wave_receipts r in
     rbind (require_sha256_text ''plan_sha256'' (sr_plan_sha256 r)) (\<lambda>_.
     rbind (require_sha256_text ''inventory_sha256'' (sr_inventory_sha256 r)) (\<lambda>_.
     rbind (raise_if (map wr_wave_index waves \<noteq> map int [0..<length waves])
       (ValueError ''schedule receipt must be a contiguous wave prefix'')) (\<lambda>_.
     rbind (raise_if (list_ex (\<lambda>w. wr_plan_sha256 w \<noteq> sr_plan_sha256 r) waves)
       (ValueError ''schedule receipt mixes dispatch plans'')) (\<lambda>_.
     rbind (raise_if (sr_fixed_instance_gpu_count r < 1)
       (ValueError ''schedule fixed-instance GPU count must be positive'')) (\<lambda>_.
     rbind (raise_if (list_ex (\<lambda>w. wr_inventory_sha256 w \<noteq> sr_inventory_sha256 r
           \<or> wr_fixed_instance_gpu_count w \<noteq> sr_fixed_instance_gpu_count r) waves)
       (ValueError ''schedule receipt mixes inventory billing identities'')) (\<lambda>_.
     rbind (merge_monotonic_intervals (concat (map wr_active_intervals waves))) (\<lambda>expected.
     rbind (raise_if (sr_active_intervals r \<noteq> expected)
       (ValueError ''schedule intervals differ from its wave receipts'')) (\<lambda>_.
     rbind (interval_union_ns (sr_active_intervals r)) (\<lambda>union_ns.
     rbind (raise_if (sr_billed_gpu_ns r \<noteq> union_ns * sr_fixed_instance_gpu_count r)
       (ValueError ''schedule fixed-instance ledger differs from interval union'')) (\<lambda>_.
     rbind (raise_if (sr_attributed_gpu_ns r \<noteq> sum_list (map wr_attributed_gpu_ns waves))
       (ValueError ''schedule per-assignment GPU attribution mismatch'')) (\<lambda>_.
     rbind (raise_if (sr_attributed_fixed_instance_gpu_ns r
           \<noteq> sum_list (map wr_attributed_fixed_instance_gpu_ns waves))
       (ValueError ''schedule per-assignment fixed attribution mismatch'')) (\<lambda>_.
     rbind (raise_if (sr_accounting_semantics r \<noteq> ''interval_union_schedule_ledger_v1'')
       (ValueError ''schedule accounting semantics are unsupported'')) (\<lambda>_.
     rbind (case sr_prior_schedule_receipt_sha256 r of None \<Rightarrow> Inr ()
            | Some s \<Rightarrow> require_sha256_text ''prior_schedule_receipt_sha256'' s) (\<lambda>_.
     rbind (schedule_phase_check r) (\<lambda>_. Inr r))))))))))))))))"

definition schedule_receipt_to_dict :: "schedule_receipt \<Rightarrow> json" where
  "schedule_receipt_to_dict r = JObj
     [(''plan_sha256'', JStr (sr_plan_sha256 r)), (''phase'', JStr (phase_text (sr_phase r))),
      (''wave_receipts'', JArr (map wave_receipt_to_dict (sr_wave_receipts r))),
      (''wave_receipt_sha256'', jstrs (map wave_receipt_sha256 (sr_wave_receipts r))),
      (''inventory_sha256'', JStr (sr_inventory_sha256 r)),
      (''fixed_instance_gpu_count'', JInt (sr_fixed_instance_gpu_count r)),
      (''active_intervals_monotonic_ns'', intervals_json (sr_active_intervals r)),
      (''active_interval_union_ns'', union_json (sr_active_intervals r)),
      (''fixed_instance_actual_billed_gpu_ns'', JInt (sr_billed_gpu_ns r)),
      (''per_assignment_attributed_gpu_ns'', JInt (sr_attributed_gpu_ns r)),
      (''per_assignment_attributed_fixed_instance_gpu_ns'', JInt (sr_attributed_fixed_instance_gpu_ns r)),
      (''prior_schedule_receipt_sha256'', jopt JStr (sr_prior_schedule_receipt_sha256 r)),
      (''accounting_semantics'', JStr (sr_accounting_semantics r))]"

definition schedule_receipt_sha256 :: "schedule_receipt \<Rightarrow> string" where
  "schedule_receipt_sha256 r = content_sha256 (schedule_receipt_to_dict r)"

definition schedule_receipt_sidecar :: "schedule_receipt \<Rightarrow> artifact_sidecar res" where
  "schedule_receipt_sidecar r = artifact_sidecar_post_init
     \<lparr>as_schema_version = 1, as_artifact_kind = ''dispatch_schedule_receipt.v1'',
      as_artifact_sha256 = schedule_receipt_sha256 r\<rparr>"

section \<open>What a resumed run accepts\<close>

text \<open>
  The execution context as far as the engine reads it. Whether the plan is the one that the trusted inputs
  of the scheduler issue (\<open>validate_dispatch_plan_for_execution\<close>) is answered by replaying the raw authorities
  of the context, which are files: the parameter \<open>ex_validate_plan\<close>.
\<close>

record execution_context =
  ex_registry :: experiment_registry
  ex_inventory :: gpu_inventory
  ex_budgets :: "experiment_budget list"
  ex_resume_terminal_authorities :: "terminal_authority list"
  ex_validate_plan :: "gpu_dispatch_plan \<Rightarrow> unit res"
  ex_resolved :: "string \<Rightarrow> bool"

definition budgets_by_cell_id :: "execution_context \<Rightarrow> (string \<times> experiment_budget) list" where
  "budgets_by_cell_id c = by_cell eb_cell_id (ex_budgets c)"

definition budget_of :: "execution_context \<Rightarrow> gpu_assignment \<Rightarrow> experiment_budget res" where
  "budget_of c a =
     (case dget (budgets_by_cell_id c) (item_id (ga_work_item a)) of
        None \<Rightarrow> Inl (KeyError (item_id (ga_work_item a))) | Some b \<Rightarrow> Inr b)"

definition fixed_count :: "execution_context \<Rightarrow> int" where
  "fixed_count c = int (length (iv_devices (ex_inventory c)))"

definition check_assignment_row ::
  "execution_context \<Rightarrow> gpu_dispatch_plan \<Rightarrow> gpu_dispatch_wave \<Rightarrow> gpu_assignment \<Rightarrow> assignment_receipt \<Rightarrow> unit res" where
  "check_assignment_row c plan wave a row =
     rbind (budget_of c a) (\<lambda>budget.
     rbind (raise_if (ar_plan_sha256 row \<noteq> plan_sha256 plan \<or> ar_wave_sha256 row \<noteq> wave_sha256 wave)
       (ValueError ''resume assignment receipt plan/wave mismatch'')) (\<lambda>_.
     rbind (raise_if (ar_budget_sha256 row \<noteq> experiment_budget_sha256 budget)
       (ValueError ''resume assignment receipt budget mismatch'')) (\<lambda>_.
     rbind (raise_if (ar_gpu_count row \<noteq> int (length (ga_gpu_uuids a)))
       (ValueError ''resume assignment receipt gang-size mismatch'')) (\<lambda>_.
     rbind (raise_if (eb_retry_allowance budget + 1 < ar_attempt row)
       (ValueError ''resume assignment receipt exceeds retry allowance'')) (\<lambda>_.
     if ar_status row = SUCCEEDED
     then case ar_terminal_binding row of
            None \<Rightarrow> Inl (ValueError ''resume success lacks a raw terminal binding'')
          | Some b \<Rightarrow> raise_if (tb_cell_id b \<noteq> item_id (ga_work_item a)
                \<or> tb_inventory_sha256 b \<noteq> gpu_inventory_sha256 (ex_inventory c)
                \<or> tb_physical_gpu_uuids b \<noteq> ga_gpu_uuids a)
              (ValueError ''resume terminal binding differs from its assignment/inventory'')
     else Inr ())))))"

definition validate_wave_receipt ::
  "execution_context \<Rightarrow> gpu_dispatch_plan \<Rightarrow> gpu_dispatch_wave \<Rightarrow> wave_receipt \<Rightarrow> unit res" where
  "validate_wave_receipt c plan wave receipt =
     rbind (raise_if (wr_plan_sha256 receipt \<noteq> plan_sha256 plan \<or> wr_wave_sha256 receipt \<noteq> wave_sha256 wave)
       (ValueError ''resume wave receipt identity mismatch'')) (\<lambda>_.
     rbind (raise_if (set (map assignment_id (gw_assignments wave))
           \<noteq> set (map ar_assignment_sha256 (wr_assignment_receipts receipt)))
       (ValueError ''resume wave receipt has incomplete or extra assignments'')) (\<lambda>_.
     rbind (raise_if (wr_inventory_sha256 receipt \<noteq> gpu_inventory_sha256 (ex_inventory c)
           \<or> wr_fixed_instance_gpu_count receipt \<noteq> fixed_count c)
       (ValueError ''resume wave receipt belongs to another inventory ledger'')) (\<lambda>_.
     check_all (\<lambda>row. check_assignment_row c plan wave
         (the (dget (by_cell assignment_id (gw_assignments wave)) (ar_assignment_sha256 row))) row)
       (wr_assignment_receipts receipt))))"

definition resume_phase_check :: "gpu_dispatch_plan \<Rightarrow> schedule_receipt \<Rightarrow> unit res" where
  "resume_phase_check plan receipt =
     (let waves = sr_wave_receipts receipt; succeeded = map wave_succeeded waves in
      rbind (raise_if (sr_phase receipt = COMPLETE \<and> length waves \<noteq> length (gp_waves plan))
        (ValueError ''complete resume receipt does not cover the whole plan'')) (\<lambda>_.
      case sr_phase receipt of
        PLANNED \<Rightarrow> raise_if (waves \<noteq> []) (ValueError ''planned resume receipt cannot contain a wave'')
      | RUNNING \<Rightarrow> raise_if (waves = [] \<or> length (gp_waves plan) \<le> length waves \<or> \<not> list_all id succeeded)
          (ValueError ''running resume receipt must be a nonempty successful wave prefix'')
      | FAILED \<Rightarrow> raise_if (waves = [] \<or> wave_succeeded (last waves) \<or> \<not> list_all id (butlast succeeded))
          (ValueError (''failed resume receipt must end in one failed wave after a '' @ ''successful prefix''))
      | COMPLETE \<Rightarrow> raise_if (\<not> list_all id succeeded) (ValueError ''complete resume receipt contains a failed wave'')))"

definition validate_dispatch_resume_structure ::
  "execution_context \<Rightarrow> gpu_dispatch_plan \<Rightarrow> schedule_receipt \<Rightarrow> unit res" where
  "validate_dispatch_resume_structure c plan receipt =
     rbind (ex_validate_plan c plan) (\<lambda>_.
     rbind (raise_if (sr_plan_sha256 receipt \<noteq> plan_sha256 plan)
       (ValueError ''resume receipt belongs to another dispatch plan'')) (\<lambda>_.
     rbind (raise_if (sr_inventory_sha256 receipt \<noteq> gpu_inventory_sha256 (ex_inventory c)
           \<or> sr_fixed_instance_gpu_count receipt \<noteq> fixed_count c)
       (ValueError ''resume receipt belongs to another inventory ledger'')) (\<lambda>_.
     rbind (raise_if (length (gp_waves plan) < length (sr_wave_receipts receipt))
       (ValueError ''resume receipt exceeds dispatch-plan wave count'')) (\<lambda>_.
     rbind (check_all (\<lambda>w. validate_wave_receipt c plan (gp_waves plan ! nat (wr_wave_index w)) w)
       (sr_wave_receipts receipt)) (\<lambda>_.
     resume_phase_check plan receipt)))))"

record journal_replay =
  jr_journal_path :: string
  jr_manifest_sha256 :: string
  jr_head_event_sha256 :: string
  jr_event_count :: int
  jr_schedule_receipt_sha256 :: string

definition journal_replay_post_init :: "journal_replay \<Rightarrow> journal_replay res" where
  "journal_replay_post_init r =
     rbind (require_text ''attempt journal path'' (jr_journal_path r)) (\<lambda>_.
     rbind (check_all (\<lambda>(name, value). require_sha256_text name value)
       [(''manifest_sha256'', jr_manifest_sha256 r), (''head_event_sha256'', jr_head_event_sha256 r),
        (''schedule_receipt_sha256'', jr_schedule_receipt_sha256 r)]) (\<lambda>_.
     rbind (raise_if (jr_event_count r < 1)
       (ValueError ''attempt journal replay requires at least one event'')) (\<lambda>_. Inr r)))"

text \<open>The authorities that the successful rows of a receipt refer to.\<close>

definition required_authorities :: "schedule_receipt \<Rightarrow> string set" where
  "required_authorities receipt =
     set (List.map_filter (\<lambda>row. if ar_status row = SUCCEEDED
         then map_option tb_authority_sha256 (ar_terminal_binding row) else None)
       (concat (map wr_assignment_receipts (sr_wave_receipts receipt))))"

definition revalidate_row ::
  "execution_context \<Rightarrow> gpu_dispatch_wave \<Rightarrow> assignment_receipt \<Rightarrow> unit res" where
  "revalidate_row c wave row =
     (if ar_status row \<noteq> SUCCEEDED then Inr ()
      else case ar_terminal_binding row of
        None \<Rightarrow> Inl (ValueError ''resume success lacks a raw terminal binding'')
      | Some binding \<Rightarrow>
          (let a = the (dget (by_cell assignment_id (gw_assignments wave)) (ar_assignment_sha256 row));
               authority = the (dget (by_cell ta_sha256 (ex_resume_terminal_authorities c))
                 (tb_authority_sha256 binding)) in
           rbind (budget_of c a) (\<lambda>budget.
           rbind (revalidate (ex_resolved c) authority (ex_registry c) (ex_inventory c) (assignment_id a)
               (experiment_budget_sha256 budget) (ga_gpu_uuids a)) (\<lambda>expected.
           raise_if (binding \<noteq> expected)
             (ValueError ''resume terminal binding differs from freshly revalidated raw files'')))))"

definition validate_dispatch_resume ::
  "execution_context \<Rightarrow> gpu_dispatch_plan \<Rightarrow> schedule_receipt \<Rightarrow> journal_replay option \<Rightarrow> unit res" where
  "validate_dispatch_resume c plan receipt replay =
     rbind (validate_dispatch_resume_structure c plan receipt) (\<lambda>_.
     rbind (raise_if (sr_wave_receipts receipt \<noteq> [] \<and> replay = None)
       (ValueError (''dispatch resume is blocked without a release-owned append-only '' @ ''attempt/cost authority''))) (\<lambda>_.
     rbind (case replay of None \<Rightarrow> Inr ()
            | Some j \<Rightarrow> raise_if (jr_schedule_receipt_sha256 j \<noteq> schedule_receipt_sha256 receipt)
                (ValueError ''attempt journal replay differs from the resumed schedule receipt'')) (\<lambda>_.
     rbind (raise_if (set (map ta_sha256 (ex_resume_terminal_authorities c)) \<noteq> required_authorities receipt)
       (ValueError (''resume requires the exact raw terminal authority set referenced by '' @ ''successful assignments''))) (\<lambda>_.
     check_all (\<lambda>(wave, wave_receipt). check_all (revalidate_row c wave) (wr_assignment_receipts wave_receipt))
       (zip (take (length (sr_wave_receipts receipt)) (gp_waves plan)) (sr_wave_receipts receipt))))))"

end
