(* ===== verification/Dispatch_Run.thy ===== *)
theory Dispatch_Run
  imports Dispatch
begin

text \<open>
  The execution of a dispatch plan (\<open>execute_dispatch_plan\<close> and \<open>_run_assignment\<close> in \<open>experiments/gpu_pool.py\<close>).

  The assignments of a wave run as concurrent tasks. A task reads the clock, the journal and its own runner,
  and no other task; what the world answers to attempt \<open>n\<close> of an assignment is the record \<open>attempt_outcome\<close>, so
  that every interleaving of the tasks is some choice of these answers, and the receipts are joined in the
  order of the wave. A task that raises makes the task group raise, whichever siblings it still cancels.
\<close>

section \<open>The world outside\<close>

record journal_token =
  jt_started_monotonic_ns :: int
  jt_intent_sha256 :: string

definition journal_token_post_init :: "journal_token \<Rightarrow> journal_token res" where
  "journal_token_post_init t =
     rbind (raise_if (jt_started_monotonic_ns t < 0)
       (ValueError ''attempt intent monotonic time must be non-negative'')) (\<lambda>_.
     rbind (require_sha256_text ''attempt intent SHA-256'' (jt_intent_sha256 t)) (\<lambda>_. Inr t))"

text \<open>
  \<open>ao_token\<close> and \<open>ao_finish\<close> are the answers of the journal, \<open>ao_runner\<close> the authority that the runner returns
  or the name and the message of the exception it raises, \<open>ao_started\<close>, \<open>ao_finished\<close> and \<open>ao_caught\<close> the
  readings of the monotonic clock before the run, after it, and in the exception handler.
\<close>

record attempt_outcome =
  ao_token :: "journal_token res"
  ao_started :: int
  ao_runner :: "(string \<times> string) + terminal_authority"
  ao_finished :: int
  ao_caught :: int
  ao_finish :: "unit res"

record dispatch_world =
  dw_journal :: bool
  dw_begin_wave :: "gpu_dispatch_wave \<Rightarrow> (gpu_assignment \<times> int) list \<Rightarrow> unit res"
  dw_attempt :: "gpu_assignment \<Rightarrow> int \<Rightarrow> attempt_outcome"

text \<open>\<open>type(error).__qualname__\<close> and \<open>str(error)\<close> of an exception of the engine itself.\<close>

fun exception_text :: "py_error \<Rightarrow> string \<times> string" where
  "exception_text (ValueError m) = (''ValueError'', m)"
| "exception_text (TypeError m) = (''TypeError'', m)"
| "exception_text (RuntimeError m) = (''RuntimeError'', m)"
| "exception_text (KeyError k) = (''KeyError'', repr_str k)"
| "exception_text (IndexError i) = (''IndexError'', ''list index out of range'')"
| "exception_text (MemoryError m) = (''MemoryError'', m)"
| "exception_text (OverflowError m) = (''OverflowError'', m)"
| "exception_text (CapabilityRejectionError m) = (''CapabilityRejectionError'', m)"
| "exception_text (AuthorityBlocked r m) = (''AuthorityBlocked'', m)"
| "exception_text (CompletionAuthorityUnavailableError m) = (''CompletionAuthorityUnavailableError'', m)"
| "exception_text (ExceptionGroup m) = (''ExceptionGroup'', m)"

section \<open>One attempt\<close>

record attempt =
  at_assignment :: gpu_assignment
  at_number :: int
  at_budget :: experiment_budget
  at_prior :: "assignment_receipt option"

definition attempt_intervals :: "attempt \<Rightarrow> int \<Rightarrow> int \<Rightarrow> (int \<times> int) list" where
  "attempt_intervals t started finished =
     (case at_prior t of None \<Rightarrow> [] | Some p \<Rightarrow> ar_intervals p) @ [(started, finished)]"

text \<open>The receipt of an attempt; \<open>outcome\<close> is its binding or the digest of its failure.\<close>

definition attempt_receipt ::
  "execution_context \<Rightarrow> gpu_dispatch_plan \<Rightarrow> gpu_dispatch_wave \<Rightarrow> attempt \<Rightarrow> int \<Rightarrow> int \<Rightarrow> string + terminal_binding
     \<Rightarrow> assignment_receipt res" where
  "attempt_receipt c plan wave t started finished outcome =
     (let intervals = attempt_intervals t started finished; gpus = int (length (ga_gpu_uuids (at_assignment t))) in
      rbind (interval_union_ns intervals) (\<lambda>elapsed.
      assignment_receipt_post_init
        \<lparr>ar_plan_sha256 = plan_sha256 plan, ar_wave_sha256 = wave_sha256 wave,
         ar_assignment_sha256 = assignment_id (at_assignment t),
         ar_budget_sha256 = experiment_budget_sha256 (at_budget t), ar_attempt = at_number t,
         ar_status = (case outcome of Inl _ \<Rightarrow> ASSIGNMENT_FAILED | Inr _ \<Rightarrow> SUCCEEDED),
         ar_terminal_receipt_sha256 = (case outcome of Inl _ \<Rightarrow> None | Inr b \<Rightarrow> Some (terminal_binding_sha256 b)),
         ar_terminal_binding = (case outcome of Inl _ \<Rightarrow> None | Inr b \<Rightarrow> Some b),
         ar_failure_sha256 = (case outcome of Inl f \<Rightarrow> Some f | Inr _ \<Rightarrow> None),
         ar_prior_attempt_receipt_sha256 = map_option assignment_receipt_sha256 (at_prior t),
         ar_gpu_count = gpus, ar_fixed_instance_gpu_count = fixed_count c, ar_intervals = intervals,
         ar_attributed_gpu_ns = elapsed * gpus, ar_attributed_fixed_instance_gpu_ns = elapsed * fixed_count c,
         ar_accounting_semantics = ''per_assignment_attribution_not_schedule_ledger_v1''\<rparr>))"

definition failure_sha256 :: "attempt \<Rightarrow> int \<Rightarrow> int \<Rightarrow> string \<times> string \<Rightarrow> string" where
  "failure_sha256 t started finished error = content_sha256 (JObj
     [(''exception_type'', JStr (fst error)), (''message'', JStr (snd error)),
      (''assignment_sha256'', JStr (assignment_id (at_assignment t))),
      (''budget_sha256'', JStr (experiment_budget_sha256 (at_budget t))), (''attempt'', JInt (at_number t)),
      (''started_monotonic_ns'', JInt started), (''finished_monotonic_ns'', JInt finished)])"

text \<open>The body of the \<open>try\<close> block: the runner, the revalidation of what it returns and the success receipt.\<close>

definition try_attempt ::
  "execution_context \<Rightarrow> gpu_dispatch_plan \<Rightarrow> gpu_dispatch_wave \<Rightarrow> attempt \<Rightarrow> attempt_outcome \<Rightarrow> int
     \<Rightarrow> (string \<times> string) + assignment_receipt" where
  "try_attempt c plan wave t answer started =
     (case ao_runner answer of
        Inl error \<Rightarrow> Inl error
      | Inr authority \<Rightarrow>
          (case rbind (revalidate (ex_resolved c) authority (ex_registry c) (ex_inventory c)
                  (assignment_id (at_assignment t)) (experiment_budget_sha256 (at_budget t))
                  (ga_gpu_uuids (at_assignment t)))
                (\<lambda>binding. attempt_receipt c plan wave t started (ao_finished answer) (Inr binding)) of
             Inl error \<Rightarrow> Inl (exception_text error)
           | Inr receipt \<Rightarrow> Inr receipt))"

definition run_assignment ::
  "dispatch_world \<Rightarrow> execution_context \<Rightarrow> gpu_dispatch_plan \<Rightarrow> gpu_dispatch_wave \<Rightarrow> attempt
     \<Rightarrow> assignment_receipt res" where
  "run_assignment env c plan wave t =
     (let answer = dw_attempt env (at_assignment t) (at_number t) in
      rbind (if dw_journal env then rbind (ao_token answer) (\<lambda>token. Inr (jt_started_monotonic_ns token))
             else Inr (ao_started answer)) (\<lambda>started.
      rbind (case try_attempt c plan wave t answer started of
               Inr receipt \<Rightarrow> Inr receipt
             | Inl error \<Rightarrow> attempt_receipt c plan wave t started (ao_caught answer)
                 (Inl (failure_sha256 t started (ao_caught answer) error))) (\<lambda>receipt.
      rbind (if dw_journal env then ao_finish answer else Inr ()) (\<lambda>_. Inr receipt))))"

section \<open>One wave\<close>

text \<open>The receipts of the failed wave that the run resumes, by assignment.\<close>

definition receipts_with :: "assignment_status \<Rightarrow> wave_receipt option \<Rightarrow> (string \<times> assignment_receipt) list" where
  "receipts_with status failed_prior =
     (case failed_prior of None \<Rightarrow> []
      | Some w \<Rightarrow> by_cell ar_assignment_sha256 (filter (\<lambda>r. ar_status r = status) (wr_assignment_receipts w)))"

definition pending_attempt ::
  "execution_context \<Rightarrow> wave_receipt option \<Rightarrow> gpu_assignment \<Rightarrow> attempt res" where
  "pending_attempt c failed_prior a =
     (let prior = dget (receipts_with ASSIGNMENT_FAILED failed_prior) (assignment_id a);
          number = (case prior of None \<Rightarrow> 1 | Some p \<Rightarrow> ar_attempt p + 1) in
      rbind (budget_of c a) (\<lambda>budget.
      rbind (raise_if (eb_retry_allowance budget + 1 < number)
        (ValueError ''dispatch retry would exceed the ExperimentBudget allowance'')) (\<lambda>_.
      Inr \<lparr>at_assignment = a, at_number = number, at_budget = budget, at_prior = prior\<rparr>)))"

definition pending_attempts ::
  "execution_context \<Rightarrow> gpu_dispatch_wave \<Rightarrow> wave_receipt option \<Rightarrow> attempt list res" where
  "pending_attempts c wave failed_prior =
     map_res (pending_attempt c failed_prior)
       (filter (\<lambda>a. dget (receipts_with SUCCEEDED failed_prior) (assignment_id a) = None) (gw_assignments wave))"

text \<open>\<open>async with asyncio.TaskGroup()\<close>: all tasks end; if one raises, the group raises.\<close>

definition task_group :: "('a \<Rightarrow> 'b res) \<Rightarrow> 'a list \<Rightarrow> 'b list res" where
  "task_group task xs =
     (case map_res task xs of
        Inl _ \<Rightarrow> Inl (ExceptionGroup ''unhandled errors in a TaskGroup'') | Inr results \<Rightarrow> Inr results)"

definition make_wave_receipt ::
  "execution_context \<Rightarrow> gpu_dispatch_plan \<Rightarrow> gpu_dispatch_wave \<Rightarrow> assignment_receipt list \<Rightarrow> wave_receipt res" where
  "make_wave_receipt c plan wave receipts =
     rbind (merge_monotonic_intervals (concat (map ar_intervals receipts))) (\<lambda>intervals.
     rbind (interval_union_ns intervals) (\<lambda>union_ns.
     wave_receipt_post_init
       \<lparr>wr_plan_sha256 = plan_sha256 plan, wr_wave_index = gw_wave_index wave, wr_wave_sha256 = wave_sha256 wave,
        wr_assignment_receipts = receipts, wr_inventory_sha256 = gpu_inventory_sha256 (ex_inventory c),
        wr_fixed_instance_gpu_count = fixed_count c, wr_active_intervals = intervals,
        wr_billed_gpu_ns = union_ns * fixed_count c,
        wr_attributed_gpu_ns = sum_list (map ar_attributed_gpu_ns receipts),
        wr_attributed_fixed_instance_gpu_ns = sum_list (map ar_attributed_fixed_instance_gpu_ns receipts),
        wr_accounting_semantics = ''interval_union_schedule_ledger_v1''\<rparr>))"

definition run_wave ::
  "dispatch_world \<Rightarrow> execution_context \<Rightarrow> gpu_dispatch_plan \<Rightarrow> gpu_dispatch_wave \<Rightarrow> wave_receipt option
     \<Rightarrow> wave_receipt res" where
  "run_wave env c plan wave failed_prior =
     rbind (pending_attempts c wave failed_prior) (\<lambda>pending.
     rbind (if dw_journal env then dw_begin_wave env wave (map (\<lambda>t. (at_assignment t, at_number t)) pending)
            else Inr ()) (\<lambda>_.
     rbind (task_group (run_assignment env c plan wave) pending) (\<lambda>results.
     make_wave_receipt c plan wave
       (map (\<lambda>a. case dget (receipts_with SUCCEEDED failed_prior) (assignment_id a) of
            Some receipt \<Rightarrow> receipt
          | None \<Rightarrow> the (dget (zip (map (\<lambda>t. assignment_id (at_assignment t)) pending) results) (assignment_id a)))
         (gw_assignments wave)))))"

section \<open>The schedule\<close>

definition make_schedule_receipt ::
  "execution_context \<Rightarrow> gpu_dispatch_plan \<Rightarrow> dispatch_phase \<Rightarrow> wave_receipt list \<Rightarrow> string option
     \<Rightarrow> schedule_receipt res" where
  "make_schedule_receipt c plan phase waves prior =
     rbind (merge_monotonic_intervals (concat (map wr_active_intervals waves))) (\<lambda>intervals.
     rbind (interval_union_ns intervals) (\<lambda>union_ns.
     schedule_receipt_post_init
       \<lparr>sr_plan_sha256 = plan_sha256 plan, sr_phase = phase, sr_wave_receipts = waves,
        sr_inventory_sha256 = gpu_inventory_sha256 (ex_inventory c), sr_fixed_instance_gpu_count = fixed_count c,
        sr_active_intervals = intervals, sr_billed_gpu_ns = union_ns * fixed_count c,
        sr_attributed_gpu_ns = sum_list (map wr_attributed_gpu_ns waves),
        sr_attributed_fixed_instance_gpu_ns = sum_list (map wr_attributed_fixed_instance_gpu_ns waves),
        sr_prior_schedule_receipt_sha256 = prior,
        sr_accounting_semantics = ''interval_union_schedule_ledger_v1''\<rparr>))"

text \<open>The loop over the waves; \<open>failed_prior\<close> is the failed wave that is still to be repeated.\<close>

fun run_waves ::
  "dispatch_world \<Rightarrow> execution_context \<Rightarrow> gpu_dispatch_plan \<Rightarrow> gpu_dispatch_wave list \<Rightarrow> wave_receipt option
     \<Rightarrow> dispatch_state \<Rightarrow> wave_receipt list \<Rightarrow> schedule_receipt option \<Rightarrow> schedule_receipt res" where
  "run_waves env c plan [] failed_prior state priors current =
     (case current of
        None \<Rightarrow> Inl (RuntimeError ''dispatch execution produced no schedule receipt'')
      | Some receipt \<Rightarrow> Inr receipt)"
| "run_waves env c plan (wave # rest) failed_prior state priors current =
     (let repeated = (case failed_prior of None \<Rightarrow> None
                      | Some f \<Rightarrow> if gw_wave_index wave = wr_wave_index f then Some f else None) in
      rbind (run_wave env c plan wave repeated) (\<lambda>receipt.
      rbind (ds_accept state receipt (int (length (gp_waves plan)))) (\<lambda>state.
      rbind (make_schedule_receipt c plan (ds_phase state) (priors @ [receipt])
              (map_option schedule_receipt_sha256 current)) (\<lambda>schedule.
      if ds_phase state = FAILED then Inr schedule
      else run_waves env c plan rest (if repeated = None then failed_prior else None) state (priors @ [receipt])
             (Some schedule)))))"

text \<open>Where a run starts: the receipts it keeps, the failed wave it repeats and the index of its first wave.\<close>

definition resume_point :: "schedule_receipt option \<Rightarrow> wave_receipt list \<times> wave_receipt option \<times> int" where
  "resume_point resume =
     (case resume of
        None \<Rightarrow> ([], None, 0)
      | Some r \<Rightarrow>
          if sr_phase r = FAILED
          then (butlast (sr_wave_receipts r), Some (last (sr_wave_receipts r)),
                wr_wave_index (last (sr_wave_receipts r)))
          else (sr_wave_receipts r, None, int (length (sr_wave_receipts r))))"

definition execute_dispatch_plan ::
  "dispatch_world \<Rightarrow> execution_context \<Rightarrow> gpu_dispatch_plan \<Rightarrow> schedule_receipt option \<Rightarrow> journal_replay option
     \<Rightarrow> int option \<Rightarrow> schedule_receipt res" where
  "execute_dispatch_plan env c plan resume replay stop_after =
     rbind (raise_if (\<not> scientific_budget_bound plan)
       (ValueError ''dispatch plan lacks exact per-cell ExperimentBudget bindings'')) (\<lambda>_.
     rbind (ex_validate_plan c plan) (\<lambda>_.
     rbind (case stop_after of None \<Rightarrow> Inr ()
            | Some n \<Rightarrow> raise_if (n < 0 \<or> int (length (gp_waves plan)) \<le> n)
                (ValueError ''dispatch stop wave index is outside the frozen plan'')) (\<lambda>_.
     rbind (case resume of None \<Rightarrow> Inr () | Some r \<Rightarrow> validate_dispatch_resume c plan r replay) (\<lambda>_.
     (case resume_point resume of (priors, failed_prior, start) \<Rightarrow>
      if map_option sr_phase resume = Some COMPLETE then Inr (the resume)
      else
      rbind (case stop_after of None \<Rightarrow> Inr ()
             | Some n \<Rightarrow> raise_if (n < start)
                 (ValueError ''dispatch stop wave precedes the receipt-authorized prefix'')) (\<lambda>_.
      if gp_waves plan = []
      then make_schedule_receipt c plan COMPLETE [] (map_option schedule_receipt_sha256 resume)
      else
      rbind (rbind (dispatch_state_post_init
          \<lparr>ds_plan_sha256 = plan_sha256 plan, ds_phase = (if failed_prior = None then PLANNED else FAILED),
           ds_next_wave_index = start, ds_wave_receipt_sha256 = map wave_receipt_sha256 priors\<rparr>)
        (\<lambda>s. ds_begin s (int (length (gp_waves plan))))) (\<lambda>state.
      let stop = (case stop_after of None \<Rightarrow> int (length (gp_waves plan)) - 1 | Some n \<Rightarrow> n) in
      run_waves env c plan (take (nat (stop + 1 - start)) (drop (nat start) (gp_waves plan)))
        failed_prior state priors resume)))))))"

end
