(* ===== verification/Pool_Laws.thy ===== *)
theory Pool_Laws
  imports Pool_Schedule "HOL-Library.Multiset"
begin

text \<open>
  Laws of the GPU pool scheduler, operation by operation: candidate gangs have the size of the claim and
  consist of different devices of the pool, a placement is well formed, bound ports are free and in range,
  the wave check is pairwise disjointness of resources, and first-fit packing keeps every placement and
  the compatibility of every wave.
\<close>

section \<open>Gangs\<close>

lemma combinations_sub:
  "g \<in> set (combinations xs n) \<Longrightarrow> length g = n \<and> set g \<subseteq> set xs \<and> (distinct xs \<longrightarrow> distinct g)"
proof (induction xs n arbitrary: g rule: combinations.induct)
  case (3 x xs n)
  from 3(3) consider h where "g = x # h" "h \<in> set (combinations xs n)" | "g \<in> set (combinations xs (Suc n))"
    by auto
  then show ?case
  proof cases
    case 1
    with 3(1) [of h] show ?thesis by auto
  next
    case 2
    with 3(2) [of g] show ?thesis by auto
  qed
qed simp_all

lemma int_range_nat: "int_range 0 n = map int [0..<nat n]"
proof -
  have "[0..n - 1] = map int [0..<nat n]"
    by (rule nth_equalityI) (auto simp: nth_upto)
  then show ?thesis by (simp add: int_range_def)
qed

lemma concat_blocks:
  "n * t \<le> length xs \<Longrightarrow> concat (map (\<lambda>i. map (\<lambda>j. xs ! (i * t + j)) [0..<t]) [0..<n]) = take (n * t) xs"
proof (induction n)
  case (Suc n)
  have "map (\<lambda>j. xs ! (n * t + j)) [0..<t] = take t (drop (n * t) xs)"
    using Suc.prems by (intro nth_equalityI) auto
  moreover have "take (n * t) xs @ take t (drop (n * t) xs) = take (Suc n * t) xs"
    by (simp add: take_add [symmetric] add.commute)
  ultimately show ?case using Suc by simp
qed simp

lemma rank_groups_of_ok:
  assumes "gang_shape_post_init shape = Inr shape" "int (length g) = gs_gpu_count shape"
  shows "concat (rank_groups_of shape g) = g"
    "int (length (rank_groups_of shape g)) = gs_data_parallel_size shape"
    "\<forall>b \<in> set (rank_groups_of shape g). int (length b) = gs_tensor_parallel_size shape"
proof -
  let ?t = "gs_tensor_parallel_size shape" and ?d = "gs_data_parallel_size shape"
  have pos: "1 \<le> ?t" "1 \<le> ?d" using assms(1) by (simp_all add: gang_shape_post_init_def)
  have len: "length g = nat ?d * nat ?t"
    using assms(2) pos by (simp add: gs_gpu_count_def nat_mult_distrib [symmetric] mult.commute) 
  have eq: "rank_groups_of shape g
      = map (\<lambda>i. map (\<lambda>j. g ! (i * nat ?t + j)) [0..<nat ?t]) [0..<nat ?d]"
    using pos by (simp add: rank_groups_of_def int_range_nat comp_def nat_add_distrib nat_mult_distrib)
  show "concat (rank_groups_of shape g) = g" unfolding eq using len by (simp add: concat_blocks)
  show "int (length (rank_groups_of shape g)) = ?d" unfolding eq using pos by simp
  show "\<forall>b \<in> set (rank_groups_of shape g). int (length b) = ?t" unfolding eq using pos by auto
qed

lemma valid_claim_exact:
  assumes "valid_claim c" "pr_exact_gpu_uuids c \<noteq> []"
  shows "int (length (pr_exact_gpu_uuids c)) = gs_gpu_count (pr_gang_shape c)"
    "distinct (pr_exact_gpu_uuids c)"
  using assms by (auto simp: valid_claim_def pool_resource_claim_post_init_def claim_sets_check_def)

lemma valid_claim_count: "valid_claim c \<Longrightarrow> 1 \<le> gs_gpu_count (pr_gang_shape c)"
proof -
  assume "valid_claim c"
  then have "1 \<le> gs_tensor_parallel_size (pr_gang_shape c)" "1 \<le> gs_data_parallel_size (pr_gang_shape c)"
    by (simp_all add: valid_claim_def gang_shape_post_init_def)
  then have "0 < gs_gpu_count (pr_gang_shape c)" by (simp add: gs_gpu_count_def)
  then show ?thesis by simp
qed

abbreviation pool_uuids :: "gpu_pool_scheduler \<Rightarrow> string list" where
  "pool_uuids s \<equiv> map gd_uuid (iv_devices (sc_inventory s))"

lemma candidate_gangs_ok:
  assumes "distinct (pool_uuids s)" "valid_claim (wi_claim w)" "g \<in> set (candidate_gangs s w)"
  shows "int (length g) = gs_gpu_count (pr_gang_shape (wi_claim w))" "distinct g"
    "set g \<subseteq> set (pool_uuids s)" "gang_accepted s (wi_claim w) g"
    "pr_exact_gpu_uuids (wi_claim w) \<noteq> [] \<Longrightarrow> g = pr_exact_gpu_uuids (wi_claim w)"
proof -
  let ?c = "wi_claim w"
  let ?capable = "map gd_uuid (filter (hc_accepts (pr_homogeneous ?c)) (iv_devices (sc_inventory s)))"
  have capable: "distinct ?capable" "set ?capable \<subseteq> set (pool_uuids s)"
    using assms(1) by (auto simp: distinct_map intro: inj_on_subset)
  show "gang_accepted s ?c g"
    using assms(3) by (auto simp: candidate_gangs_def Let_def split: if_splits)
  show exact: "g = pr_exact_gpu_uuids ?c" if "pr_exact_gpu_uuids ?c \<noteq> []"
    using assms(3) that by (auto simp: candidate_gangs_def Let_def split: if_splits)
  have comb: "g \<in> set (combinations ?capable (nat (gs_gpu_count (pr_gang_shape ?c))))"
    if "pr_exact_gpu_uuids ?c = []"
    using assms(3) that by (auto simp: candidate_gangs_def Let_def)
  have sub: "set g \<subseteq> set (pool_uuids s)" if "pr_exact_gpu_uuids ?c \<noteq> []"
    using assms(3) that by (auto simp: candidate_gangs_def Let_def list_all_iff split: if_splits)
  show "int (length g) = gs_gpu_count (pr_gang_shape ?c)" "distinct g" "set g \<subseteq> set (pool_uuids s)"
  proof (atomize (full), cases "pr_exact_gpu_uuids ?c = []")
    case True
    from combinations_sub [OF comb [OF True]] capable valid_claim_count [OF assms(2)]
    show "int (length g) = gs_gpu_count (pr_gang_shape ?c) \<and> distinct g \<and> set g \<subseteq> set (pool_uuids s)"
      by auto
  next
    case False
    with exact sub valid_claim_exact [OF assms(2)]
    show "int (length g) = gs_gpu_count (pr_gang_shape ?c) \<and> distinct g \<and> set g \<subseteq> set (pool_uuids s)"
      by simp
  qed
qed

lemma select_gang_in: "select_gang s loads w gangs = Inr g \<Longrightarrow> gangs \<noteq> [] \<Longrightarrow> g \<in> set gangs"
proof (cases "calibration_concurrent_slot w")
  case (Inr slot)
  assume sel: "select_gang s loads w gangs = Inr g" and ne: "gangs \<noteq> []"
  show ?thesis
  proof (cases slot)
    case None
    with sel Inr have "py_min (gang_load_key loads (device_order s) (rotation_of s w)
        (int (length (iv_devices (sc_inventory s))))) gangs = Inr g" by (simp add: select_gang_def)
    from py_min_Inr [OF this] show ?thesis by blast
  next
    case (Some k)
    let ?o = "sort_key (map (\<lambda>u. the (dget (device_order s) u))) gangs"
    have "0 < int (length ?o)" using ne by simp
    then have "nat ((xi_block (xc_identity (wi_cell w)) + k) mod int (length ?o)) < length ?o"
      by (metis nat_less_iff pos_mod_bound pos_mod_sign)
    with sel Inr Some show ?thesis
      by (auto simp: select_gang_def Let_def split: if_splits) (metis length_sort nth_mem set_sort)
  qed
qed (simp add: select_gang_def)

lemma eligible_gangs_Inr:
  assumes "eligible_gangs s affinity w = Inr gangs"
  shows "gangs \<noteq> []" "set gangs \<subseteq> set (candidate_gangs s w)"
    "wi_affinity_key w = Some k \<Longrightarrow> dget affinity k = Some bound \<Longrightarrow> set gangs \<subseteq> {bound}"
  using assms by (auto simp: eligible_gangs_def Let_def split: option.splits if_splits)

section \<open>Placements\<close>

lemma gpu_assignment_post_init_Inr:
  assumes "gpu_assignment_post_init a = Inr b"
  shows "b = a" "int (length (ga_gpu_uuids a)) = gs_gpu_count (pr_gang_shape (ga_claim a))"
    "distinct (ga_gpu_uuids a)" "concat (ga_rank_groups a) = ga_gpu_uuids a"
    "int (length (ga_rank_groups a)) = gs_data_parallel_size (pr_gang_shape (ga_claim a))"
    "\<forall>g \<in> set (ga_rank_groups a). int (length g) = gs_tensor_parallel_size (pr_gang_shape (ga_claim a))"
    "int (length (ga_ports a)) = pr_port_count (ga_claim a)" "distinct (ga_ports a)"
  using assms by (auto simp: gpu_assignment_post_init_def Let_def list_ex_iff)

text \<open>What the placement of an item promises, apart from its ports.\<close>

definition well_placed :: "gpu_pool_scheduler \<Rightarrow> gpu_assignment \<Rightarrow> bool" where
  "well_placed s a \<longleftrightarrow>
     ga_gpu_uuids a \<in> set (candidate_gangs s (ga_work_item a))
     \<and> int (length (ga_gpu_uuids a)) = gs_gpu_count (pr_gang_shape (ga_claim a)) \<and> distinct (ga_gpu_uuids a)
     \<and> concat (ga_rank_groups a) = ga_gpu_uuids a
     \<and> int (length (ga_rank_groups a)) = gs_data_parallel_size (pr_gang_shape (ga_claim a))
     \<and> (\<forall>g \<in> set (ga_rank_groups a). int (length g) = gs_tensor_parallel_size (pr_gang_shape (ga_claim a)))"

lemma place_loop_Inr:
  assumes "place_loop s affinity loads ws = Inr ps"
  shows "map ga_work_item ps = ws \<and> (\<forall>p \<in> set ps. well_placed s p)
    \<and> (\<exists>f. (\<forall>k g. dget affinity k = Some g \<longrightarrow> f k = g)
         \<and> (\<forall>p \<in> set ps. \<forall>k. wi_affinity_key (ga_work_item p) = Some k \<longrightarrow> ga_gpu_uuids p = f k))"
  using assms
proof (induction s affinity loads ws arbitrary: ps rule: place_loop.induct)
  case (1 s affinity loads)
  have "\<exists>f. \<forall>k g. dget affinity k = Some g \<longrightarrow> f k = g" by (rule exI [of _ "\<lambda>k. the (dget affinity k)"]) simp
  with 1 show ?case by simp
next
  case (2 s affinity loads w ws)
  let ?a = "\<lambda>g. \<lparr>ga_work_item = w, ga_gpu_uuids = g,
        ga_rank_groups = rank_groups_of (pr_gang_shape (wi_claim w)) g, ga_ports = placeholder_ports s (wi_claim w)\<rparr>"
  from 2(2) obtain gangs g p qs where e: "eligible_gangs s affinity w = Inr gangs"
    and g: "select_gang s loads w gangs = Inr g" and p: "gpu_assignment_post_init (?a g) = Inr p"
    and qs: "place_loop s (bind_affinity w g affinity) (add_load w g loads) ws = Inr qs" and ps: "ps = p # qs"
    by auto
  note elig = eligible_gangs_Inr [OF e]
  have gin: "g \<in> set gangs" by (rule select_gang_in [OF g elig(1)])
  note pi = gpu_assignment_post_init_Inr [OF p]
  have wp: "well_placed s p" "ga_work_item p = w" "ga_gpu_uuids p = g"
    using pi gin elig(2) by (auto simp: well_placed_def)
  from 2(1) [OF qs] obtain f where IH: "map ga_work_item qs = ws" "\<forall>p \<in> set qs. well_placed s p"
    and f: "\<forall>k g'. dget (bind_affinity w g affinity) k = Some g' \<longrightarrow> f k = g'"
      "\<forall>p \<in> set qs. \<forall>k. wi_affinity_key (ga_work_item p) = Some k \<longrightarrow> ga_gpu_uuids p = f k" by blast
  have old: "dget (bind_affinity w g affinity) k = Some g'" if "dget affinity k = Some g'" for k g'
    using that by (auto simp: bind_affinity_def dict_simps split: option.splits dest: map_of_SomeD intro: rev_image_eqI)
  have "f k = g" if k: "wi_affinity_key w = Some k" for k
  proof (cases "dget affinity k")
    case None
    then have "k \<notin> set (dkeys affinity)" by (simp add: map_of_eq_None_iff)
    then show ?thesis using k f(1) by (simp add: bind_affinity_def dict_simps)
  next
    case (Some g')
    with elig(3) [OF k Some] gin have "g = g'" by auto
    with Some old f(1) show ?thesis by blast
  qed
  with f old IH wp show ?case unfolding ps by (auto intro!: exI [of _ f])
qed

section \<open>Ports\<close>

lemma collect_ports_in:
  "set (collect_ports used k port n) \<subseteq> {port..<port + int k} - used \<and> distinct (collect_ports used k port n)"
proof (induction used k port n rule: collect_ports.induct)
  case (2 used k port n)
  let ?t = "if port \<in> used then [] else [port]"
  show ?case
  proof (cases "n - length ?t = 0")
    case False
    from 2 [OF refl refl False] show ?thesis using False by (auto simp: Let_def)
  qed (auto simp: Let_def)
qed simp

lemma collect_ports_length:
  "n \<noteq> 0 \<Longrightarrow> length (collect_ports used k port n) = min n (card ({port..<port + int k} - used))"
proof (induction used k port n rule: collect_ports.induct)
  case (2 used k port n)
  let ?t = "if port \<in> used then [] else [port]"
  have split: "{port..<port + int (Suc k)} - used
      = set ?t \<union> ({port + 1..<port + 1 + int k} - used)" by (auto simp: order_le_less)
  have card: "card ({port..<port + int (Suc k)} - used)
      = length ?t + card ({port + 1..<port + 1 + int k} - used)"
    unfolding split by (subst card_Un_disjoint) auto
  show ?case
  proof (cases "n - length ?t = 0")
    case True
    then show ?thesis using 2(2) card by (auto simp: Let_def split: if_splits)
  next
    case False
    with 2(1) [OF refl refl False False] card show ?thesis by (auto simp: Let_def)
  qed
qed simp

lemma ports_for_Some:
  assumes "ports_for s used claim = Some ports"
  shows "set ports \<inter> used = {}" "\<forall>p \<in> set ports. sc_port_start s \<le> p \<and> p \<le> sc_port_end s"
proof -
  show "set ports \<inter> used = {}"
    using assms collect_ports_in
    by (fastforce simp: ports_for_def Let_def list_ex_iff split: if_splits)
  show "\<forall>p \<in> set ports. sc_port_start s \<le> p \<and> p \<le> sc_port_end s"
  proof (cases "pr_exact_ports claim = []")
    case True
    then have "ports = collect_ports used (nat (sc_port_end s + 1 - sc_port_start s)) (sc_port_start s)
        (nat (pr_port_count claim))"
      using assms by (auto simp: ports_for_def Let_def split: if_splits)
    then have "set ports \<subseteq> {sc_port_start s..<sc_port_start s + int (nat (sc_port_end s + 1 - sc_port_start s))}"
      using collect_ports_in by blast
    then show ?thesis by (auto dest!: subsetD split: if_splits)
  next
    case False
    then show ?thesis
      using assms by (fastforce simp: ports_for_def list_ex_iff not_less split: if_splits)
  qed
qed

text \<open>Binding ports changes nothing but the ports.\<close>

abbreviation without_ports :: "gpu_assignment \<Rightarrow> gpu_assignment" where
  "without_ports a \<equiv> a\<lparr>ga_ports := []\<rparr>"

definition ports_ok :: "gpu_pool_scheduler \<Rightarrow> gpu_assignment \<Rightarrow> bool" where
  "ports_ok s a \<longleftrightarrow> gpu_assignment_post_init a = Inr a
     \<and> (\<forall>p \<in> set (ga_ports a). sc_port_start s \<le> p \<and> p \<le> sc_port_end s)"

lemma bind_ports_loop_Inr:
  assumes "bind_ports_loop s used as = Inr (Some bs)"
  shows "map without_ports bs = map without_ports as \<and> (\<forall>b \<in> set bs. ports_ok s b)"
  using assms
proof (induction s used as arbitrary: bs rule: bind_ports_loop.induct)
  case (2 s used a rest)
  from 2(2) obtain ports where ports: "ports_for s used (ga_claim a) = Some ports"
    by (auto split: option.splits)
  with 2(2) obtain b cs where b: "gpu_assignment_post_init (a\<lparr>ga_ports := ports\<rparr>) = Inr b"
    and cs: "bind_ports_loop s (used \<union> set ports) rest = Inr (Some cs)" and bs: "bs = b # cs" by auto
  have "b = a\<lparr>ga_ports := ports\<rparr>" using gpu_assignment_post_init_Inr(1) [OF b] .
  with 2(1) [OF ports cs] b ports_for_Some(2) [OF ports] show ?case
    unfolding bs by (simp add: ports_ok_def)
qed simp

section \<open>Waves\<close>

text \<open>Two assignments that may run side by side.\<close>

definition disjoint_resources :: "gpu_assignment \<Rightarrow> gpu_assignment \<Rightarrow> bool" where
  "disjoint_resources a b \<longleftrightarrow>
     set (ga_gpu_uuids a) \<inter> set (ga_gpu_uuids b) = {} \<and> set (ga_ports a) \<inter> set (ga_ports b) = {}
     \<and> pr_cache_root (ga_claim a) \<noteq> pr_cache_root (ga_claim b)
     \<and> pr_evidence_root (ga_claim a) \<noteq> pr_evidence_root (ga_claim b)
     \<and> (wi_serial_group_key (ga_work_item a) = wi_serial_group_key (ga_work_item b)
          \<longrightarrow> wi_serial_group_key (ga_work_item a) = None)"

definition unused :: "wave_usage \<Rightarrow> gpu_assignment \<Rightarrow> bool" where
  "unused u a \<longleftrightarrow> us_gpus u \<inter> set (ga_gpu_uuids a) = {} \<and> us_ports u \<inter> set (ga_ports a) = {}
     \<and> pr_cache_root (ga_claim a) \<notin> us_caches u \<and> pr_evidence_root (ga_claim a) \<notin> us_evidence u
     \<and> (\<forall>k. wi_serial_group_key (ga_work_item a) = Some k \<longrightarrow> k \<notin> us_serials u)"

lemma unused_add: "unused (add_usage u a) b \<longleftrightarrow> unused u b \<and> disjoint_resources a b"
  by (auto simp: unused_def add_usage_def disjoint_resources_def split: option.splits)

lemma unused_none [simp]: "unused no_usage a"
  by (simp add: unused_def no_usage_def)

lemma wave_free_Cons: "wave_free u (a # rest) \<longleftrightarrow> unused u a \<and> wave_free (add_usage u a) rest"
  by (auto simp: unused_def list_ex_iff split: option.splits)

lemma wave_free_iff:
  "wave_free u as \<longleftrightarrow> (\<forall>a \<in> set as. unused u a) \<and> sorted_wrt disjoint_resources as"
  by (induction as arbitrary: u) (auto simp: wave_free_Cons unused_add simp del: wave_free.simps(2))

lemma wave_check_iff: "wave_check u as = Inr () \<longleftrightarrow> wave_free u as"
  by (induction as arbitrary: u) (auto split: option.splits)

lemma permits_shared:
  assumes "permits e v as = Inr True" "1 < length as" "a \<in> set as"
  shows "\<not> pr_exclusive_host (ga_claim a)"
  using assms by (auto simp: permits_def Let_def list_ex_iff split: if_splits)

lemma wave_compatible_Inr:
  assumes "wave_compatible s as = Inr True"
  shows "sorted_wrt disjoint_resources as" "permits (sc_envelope s) (sc_inventory s) as = Inr True"
  using assms by (auto simp: wave_compatible_def wave_free_iff split: if_splits)

text \<open>The invariant of the packing loop: every wave is inhabited, compatible and bound to ports of the range.\<close>

definition good_wave :: "gpu_pool_scheduler \<Rightarrow> gpu_assignment list \<Rightarrow> bool" where
  "good_wave s w \<longleftrightarrow> w \<noteq> [] \<and> wave_compatible s w = Inr True \<and> (\<forall>a \<in> set w. ports_ok s a)"

abbreviation packed :: "gpu_assignment list list \<Rightarrow> gpu_assignment multiset" where
  "packed waves \<equiv> image_mset without_ports (mset (concat waves))"

lemma bound_wave:
  assumes "bind_wave_ports s as = Inr (Some bs)" "wave_compatible s bs = Inr True" "as \<noteq> []"
  shows "good_wave s bs" "image_mset without_ports (mset bs) = image_mset without_ports (mset as)"
proof -
  from assms(1) bind_ports_loop_Inr
  have b: "map without_ports bs = map without_ports as" "\<forall>b \<in> set bs. ports_ok s b"
    by (auto simp: bind_wave_ports_def)
  from b(1) assms(3) have "bs \<noteq> []" by auto
  with b assms show "good_wave s bs" by (simp add: good_wave_def)
  from b(1) show "image_mset without_ports (mset bs) = image_mset without_ports (mset as)"
    by (metis mset_map)
qed

lemma insert_wave_Some:
  assumes "insert_wave s ws p = Inr (Some ws')" "\<forall>w \<in> set ws. good_wave s w"
  shows "(\<forall>w \<in> set ws'. good_wave s w) \<and> packed ws' = add_mset (without_ports p) (packed ws)"
  using assms
proof (induction s ws p arbitrary: ws' rule: insert_wave.induct)
  case (2 s w ws p)
  from 2(2) obtain c fits where c: "bind_wave_ports s (w @ [p]) = Inr c"
    and fits: "(case c of None \<Rightarrow> Inr False | Some c \<Rightarrow> wave_compatible s c) = Inr fits"
    and rest: "(if fits then Inr (Some (the c # ws))
      else rbind (insert_wave s ws p) (\<lambda>rest. Inr (map_option (Cons w) rest))) = Inr (Some ws')" by auto
  show ?case
  proof (cases fits)
    case True
    with fits obtain b where b: "c = Some b" "wave_compatible s b = Inr True" by (auto split: option.splits)
    with c have "bind_wave_ports s (w @ [p]) = Inr (Some b)" by simp
    from bound_wave [OF this b(2)] True rest b(1) 2(3) show ?thesis by auto
  next
    case False
    with rest obtain v where "insert_wave s ws p = Inr (Some v)" "ws' = w # v" by auto
    with 2(1) [OF False, of v] 2(3) show ?thesis by auto
  qed
qed simp

lemma pack_waves_Inr:
  assumes "pack_waves s ws ps = Inr ws'" "\<forall>w \<in> set ws. good_wave s w"
  shows "(\<forall>w \<in> set ws'. good_wave s w)
    \<and> packed ws' = image_mset without_ports (mset ps) + packed ws"
  using assms
proof (induction ps arbitrary: ws)
  case (Cons p ps)
  from Cons(2) obtain placed where placed: "insert_wave s ws p = Inr placed" by auto
  show ?case
  proof (cases placed)
    case (Some v)
    note iw = insert_wave_Some [OF placed [unfolded Some] Cons(3)]
    from Cons(2) placed Some have "pack_waves s v ps = Inr ws'" by simp
    from Cons(1) [OF this] iw show ?thesis by simp
  next
    case None
    with Cons(2) placed obtain b where b: "bind_wave_ports s [p] = Inr (Some b)"
      and c: "wave_compatible s b = Inr True" and r: "pack_waves s (ws @ [b]) ps = Inr ws'"
      by (auto split: option.splits if_splits)
    from Cons(1) [OF r] bound_wave [OF b c] Cons(3) show ?thesis by auto
  qed
qed simp

lemma freeze_waves_Inr:
  "freeze_waves e i ws = Inr fs \<Longrightarrow> map gw_assignments fs = ws"
  by (induction ws arbitrary: i fs) (auto simp: gpu_dispatch_wave_post_init_def)

section \<open>The whole schedule\<close>

lemma schedule_items_Inr:
  assumes "schedule_items s items receipts completed budgets authorized = Inr plan"
  obtains placements waves where
    "admit_work_items s items receipts completed budgets authorized = Inr ()"
    "place_loop s [] (initial_loads s) (ordered_items s items) = Inr placements"
    "pack_waves s [] placements = Inr waves"
    "map gw_assignments (gp_waves plan) = waves"
    "gpu_dispatch_plan_post_init plan = Inr plan"
    "gp_completed_cell_ids plan = sort completed"
  using assms that
  by (auto simp: schedule_items_def gpu_dispatch_plan_post_init_def Let_def dest: freeze_waves_Inr)

end
