(* ===== verification/Pool_Progress.thy ===== *)
theory Pool_Progress
  imports Pool_Laws
begin

text \<open>
  The scheduler makes progress: on a valid scheduler no step of placement, port binding, packing, freezing
  or of the constructor of the plan raises for items that have a candidate gang and enough ports.
\<close>

section \<open>The scheduler does not give up\<close>

definition valid_scheduler :: "gpu_pool_scheduler \<Rightarrow> bool" where
  "valid_scheduler s \<longleftrightarrow> distinct (pool_uuids s) \<and> gpu_pool_scheduler_post_init s = Inr s"

lemma valid_scheduler_ports:
  assumes "valid_scheduler s" shows "1024 \<le> sc_port_start s" "sc_port_start s \<le> sc_port_end s" "sc_port_end s \<le> 65535"
  using assms by (simp_all add: valid_scheduler_def gpu_pool_scheduler_post_init_def)

lemma valid_claim_ports:
  assumes "valid_claim c"
  shows "1 \<le> pr_port_count c"
    "pr_exact_ports c \<noteq> [] \<Longrightarrow> int (length (pr_exact_ports c)) = pr_port_count c \<and> distinct (pr_exact_ports c)
       \<and> \<not> list_ex port_out_of_range (pr_exact_ports c)"
  using assms
  by (auto simp: valid_claim_def pool_resource_claim_post_init_def claim_numbers_check_def split: if_splits)

lemma ports_for_length:
  assumes "ports_for s used c = Some ports" "valid_claim c"
  shows "int (length ports) = pr_port_count c" "distinct ports"
    "pr_exact_ports c \<noteq> [] \<Longrightarrow> ports = pr_exact_ports c"
  using assms valid_claim_ports [OF assms(2)] collect_ports_in
  by (auto simp: ports_for_def Let_def split: if_splits)

lemma fitting_port_count:
  assumes "ports_for s {} c \<noteq> None" "valid_claim c" "pr_exact_ports c = []"
  shows "pr_port_count c \<le> sc_port_end s + 1 - sc_port_start s"
proof -
  from assms(1) obtain ports where p: "ports_for s {} c = Some ports" by auto
  have "set ports \<subseteq> {sc_port_start s..sc_port_end s}" using ports_for_Some(2) [OF p] by auto
  from card_mono [OF _ this] have "length ports \<le> nat (sc_port_end s + 1 - sc_port_start s)"
    using distinct_card [OF ports_for_length(2) [OF p assms(2)]] by simp
  then show ?thesis using ports_for_length(1) [OF p assms(2)] valid_claim_ports(1) [OF assms(2)] by linarith
qed

text \<open>An assignment whose gang, rank groups and ports are as the claim asks passes its constructor.\<close>

lemma gpu_assignment_post_init_ok:
  assumes "well_placed s a" "valid_scheduler s" "valid_claim (ga_claim a)"
    "int (length (ga_ports a)) = pr_port_count (ga_claim a)" "distinct (ga_ports a)"
    "\<not> list_ex port_out_of_range (ga_ports a)"
    "pr_exact_ports (ga_claim a) \<noteq> [] \<Longrightarrow> ga_ports a = pr_exact_ports (ga_claim a)"
  shows "gpu_assignment_post_init a = Inr a"
proof -
  have "distinct (pool_uuids s)" using assms(2) by (simp add: valid_scheduler_def)
  note gang = candidate_gangs_ok [OF this assms(3), of "ga_gpu_uuids a"]
  show ?thesis using assms gang(5)
    by (auto simp: gpu_assignment_post_init_def well_placed_def Let_def list_ex_iff)
qed

lemma placement_ok:
  assumes "g \<in> set (candidate_gangs s w)" "valid_scheduler s" "valid_claim (wi_claim w)"
    "ports_for s {} (wi_claim w) \<noteq> None"
  defines "a \<equiv> \<lparr>ga_work_item = w, ga_gpu_uuids = g,
        ga_rank_groups = rank_groups_of (pr_gang_shape (wi_claim w)) g, ga_ports = placeholder_ports s (wi_claim w)\<rparr>"
  shows "gpu_assignment_post_init a = Inr a"
proof (rule gpu_assignment_post_init_ok)
  have d: "distinct (pool_uuids s)" using assms(2) by (simp add: valid_scheduler_def)
  note gang = candidate_gangs_ok [OF d assms(3) assms(1)]
  have shape: "gang_shape_post_init (pr_gang_shape (wi_claim w)) = Inr (pr_gang_shape (wi_claim w))"
    using assms(3) by (simp add: valid_claim_def)
  show "well_placed s a" using rank_groups_of_ok [OF shape gang(1)] gang assms(1)
    by (simp add: a_def well_placed_def)
  note range = fitting_port_count [OF assms(4,3)] valid_scheduler_ports [OF assms(2)]
  show "int (length (ga_ports a)) = pr_port_count (ga_claim a)" "distinct (ga_ports a)"
    "\<not> list_ex port_out_of_range (ga_ports a)"
    using valid_claim_ports [OF assms(3)] range
    by (auto simp: a_def placeholder_ports_def int_range_def list_ex_iff)
  show "ga_ports a = pr_exact_ports (ga_claim a)" if "pr_exact_ports (ga_claim a) \<noteq> []"
    using that by (simp add: a_def placeholder_ports_def)
qed (use assms in \<open>simp_all add: a_def\<close>)

lemma bound_ports_ok:
  assumes "well_placed s a" "valid_scheduler s" "valid_claim (ga_claim a)" "ports_for s used (ga_claim a) = Some ports"
  shows "gpu_assignment_post_init (a\<lparr>ga_ports := ports\<rparr>) = Inr (a\<lparr>ga_ports := ports\<rparr>)"
  using assms(1-3) ports_for_length [OF assms(4,3)] ports_for_Some(2) [OF assms(4)]
    valid_scheduler_ports [OF assms(2)]
  by (intro gpu_assignment_post_init_ok [where s = s]) (auto simp: well_placed_def list_ex_iff)

text \<open>The items the scheduler can place: well-formed claims with a gang and with ports, no calibration slot,
  and one set of gangs for all the items of an affinity group.\<close>

definition placeable :: "gpu_pool_scheduler \<Rightarrow> pool_work_item \<Rightarrow> bool" where
  "placeable s w \<longleftrightarrow> valid_claim (wi_claim w) \<and> candidate_gangs s w \<noteq> []
     \<and> ports_for s {} (wi_claim w) \<noteq> None \<and> calibration_concurrent_slot w = Inr None"

definition common_gangs :: "gpu_pool_scheduler \<Rightarrow> pool_work_item list \<Rightarrow> bool" where
  "common_gangs s ws \<longleftrightarrow> (\<forall>v \<in> set ws. \<forall>w \<in> set ws.
     wi_affinity_key v \<noteq> None \<longrightarrow> wi_affinity_key v = wi_affinity_key w
     \<longrightarrow> candidate_gangs s v = candidate_gangs s w)"

lemma common_gangsD:
  "common_gangs s ws \<Longrightarrow> v \<in> set ws \<Longrightarrow> w \<in> set ws \<Longrightarrow> wi_affinity_key v = Some k
     \<Longrightarrow> wi_affinity_key w = Some k \<Longrightarrow> candidate_gangs s v = candidate_gangs s w"
  unfolding common_gangs_def by (metis option.distinct(1))

lemma common_gangs_tl: "common_gangs s (w # ws) \<Longrightarrow> common_gangs s ws"
  unfolding common_gangs_def by (meson list.set_intros(2))

lemma eligible_gangs_ok:
  assumes "candidate_gangs s w \<noteq> []"
    "\<And>k g. wi_affinity_key w = Some k \<Longrightarrow> dget affinity k = Some g \<Longrightarrow> g \<in> set (candidate_gangs s w)"
  shows "\<exists>gangs. eligible_gangs s affinity w = Inr gangs"
  using assms by (auto simp: eligible_gangs_def Let_def filter_empty_conv split: option.splits)

lemma place_loop_ok:
  assumes "valid_scheduler s" "\<forall>w \<in> set ws. placeable s w" "common_gangs s ws"
    "\<forall>w \<in> set ws. \<forall>k g. wi_affinity_key w = Some k \<longrightarrow> dget affinity k = Some g \<longrightarrow> g \<in> set (candidate_gangs s w)"
  shows "\<exists>ps. place_loop s affinity loads ws = Inr ps"
  using assms(2-4)
proof (induction ws arbitrary: affinity loads)
  case (Cons w ws)
  have w: "placeable s w" using Cons(2) by simp
  have "\<exists>gangs. eligible_gangs s affinity w = Inr gangs"
    by (rule eligible_gangs_ok) (use w Cons(4) in \<open>auto simp: placeable_def\<close>)
  then obtain gangs where e: "eligible_gangs s affinity w = Inr gangs" ..
  note elig = eligible_gangs_Inr [OF e]
  obtain g where g: "select_gang s loads w gangs = Inr g"
    using w py_min_ok [OF elig(1)] by (fastforce simp: select_gang_def placeable_def)
  have cand: "g \<in> set (candidate_gangs s w)" using select_gang_in [OF g elig(1)] elig(2) by auto
  have "h \<in> set (candidate_gangs s v)"
    if v: "v \<in> set ws" "wi_affinity_key v = Some k" "dget (bind_affinity w g affinity) k = Some h" for v k h
  proof (cases "dget affinity k")
    case None
    with v(3) have "wi_affinity_key w = Some k" "h = g"
      by (auto simp: bind_affinity_def dict_simps split: option.splits if_splits)
    then have "candidate_gangs s v = candidate_gangs s w"
      using common_gangsD [OF Cons(3), of v w k] v(1,2) by simp
    with cand \<open>h = g\<close> show ?thesis by simp
  next
    case (Some h')
    then have "k \<in> set (dkeys affinity)" by (auto dest!: map_of_SomeD intro: rev_image_eqI)
    with v(3) Some have "h' = h"
      by (auto simp: bind_affinity_def dict_simps split: option.splits if_splits)
    with Some v(1,2) Cons(4) show ?thesis by simp
  qed
  then have bound: "\<forall>v \<in> set ws. \<forall>k h. wi_affinity_key v = Some k
      \<longrightarrow> dget (bind_affinity w g affinity) k = Some h \<longrightarrow> h \<in> set (candidate_gangs s v)" by blast
  have "\<forall>w \<in> set ws. placeable s w" using Cons(2) by simp
  from Cons(1) [OF this common_gangs_tl [OF Cons(3)] bound]
  obtain ps where "place_loop s (bind_affinity w g affinity) (add_load w g loads) ws = Inr ps" by blast
  with e g placement_ok [OF cand assms(1)] w show ?case by (simp add: placeable_def)
qed simp

lemma inventory_device_ok:
  "u \<in> set (map gd_uuid (iv_devices v)) \<Longrightarrow> \<exists>d. inventory_device v u = Inr d"
  by (auto simp: inventory_device_def find_None_iff split: option.splits)

lemma map_res_total: "\<forall>x \<in> set xs. \<exists>y. f x = Inr y \<Longrightarrow> \<exists>ys. map_res f xs = Inr ys"
  by (induction xs) auto

lemma permits_ok:
  assumes "\<forall>a \<in> set as. set (ga_gpu_uuids a) \<subseteq> set (map gd_uuid (iv_devices v))"
  shows "\<exists>ok. permits e v as = Inr ok"
proof -
  have "\<forall>u \<in> set (concat (map ga_gpu_uuids as)). \<exists>d. inventory_device v u = Inr d"
  proof
    fix u assume "u \<in> set (concat (map ga_gpu_uuids as))"
    then obtain a where "a \<in> set as" "u \<in> set (ga_gpu_uuids a)" by auto
    then have "u \<in> set (map gd_uuid (iv_devices v))" using assms by blast
    then show "\<exists>d. inventory_device v u = Inr d" by (rule inventory_device_ok)
  qed
  then have "\<exists>ds. map_res (inventory_device v) (concat (map ga_gpu_uuids as)) = Inr ds"
    by (rule map_res_total)
  then obtain ds where "map_res (inventory_device v) (concat (map ga_gpu_uuids as)) = Inr ds" ..
  then have "permits e v as = Inl err \<Longrightarrow> False" for err
    by (auto simp: permits_def Let_def split: if_splits)
  then show ?thesis by (cases "permits e v as") auto
qed

text \<open>What the packing loop needs of a placement, whatever its ports.\<close>

definition packable :: "gpu_pool_scheduler \<Rightarrow> gpu_assignment \<Rightarrow> bool" where
  "packable s a \<longleftrightarrow> well_placed s a \<and> valid_claim (ga_claim a) \<and> ports_for s {} (ga_claim a) \<noteq> None"

lemma packable_without_ports: "packable s (without_ports a) \<longleftrightarrow> packable s a"
  by (simp add: packable_def well_placed_def)

lemma packable_in_pool:
  assumes "valid_scheduler s" "packable s a"
  shows "set (ga_gpu_uuids a) \<subseteq> set (map gd_uuid (iv_devices (sc_inventory s)))"
  using assms candidate_gangs_ok(3) [of s "ga_work_item a" "ga_gpu_uuids a"]
  by (simp add: valid_scheduler_def packable_def well_placed_def)

lemma bind_ports_loop_ok:
  assumes "valid_scheduler s" "\<forall>a \<in> set as. packable s a"
  shows "\<exists>r. bind_ports_loop s used as = Inr r"
  using assms(2)
proof (induction as arbitrary: used)
  case (Cons a as)
  have "packable s a" using Cons(2) by simp
  with bound_ports_ok [OF _ assms(1)] Cons show ?case
    by (fastforce simp: packable_def split: option.splits)
qed simp

lemma bound_packable:
  assumes "bind_wave_ports s as = Inr (Some bs)" "\<forall>a \<in> set as. packable s a"
  shows "\<forall>b \<in> set bs. packable s b"
proof -
  have "map without_ports bs = map without_ports as"
    using bind_ports_loop_Inr assms(1) by (simp add: bind_wave_ports_def)
  then have "without_ports ` set bs = without_ports ` set as" by (metis set_map)
  then show ?thesis using assms(2) packable_without_ports by (metis imageE imageI)
qed

lemma wave_compatible_ok:
  assumes "valid_scheduler s" "\<forall>a \<in> set as. packable s a"
  shows "\<exists>ok. wave_compatible s as = Inr ok"
proof -
  have "\<forall>a \<in> set as. set (ga_gpu_uuids a) \<subseteq> set (map gd_uuid (iv_devices (sc_inventory s)))"
    using packable_in_pool [OF assms(1)] assms(2) by blast
  from permits_ok [OF this] show ?thesis by (cases "wave_free no_usage as") (auto simp: wave_compatible_def)
qed

lemma insert_wave_ok:
  assumes "valid_scheduler s" "\<forall>a \<in> set (concat ws). packable s a" "packable s p"
  shows "\<exists>r. insert_wave s ws p = Inr r \<and> (\<forall>ws'. r = Some ws' \<longrightarrow> (\<forall>a \<in> set (concat ws'). packable s a))"
  using assms(2)
proof (induction ws)
  case (Cons w ws)
  have all: "\<forall>a \<in> set (w @ [p]). packable s a" using Cons(2) assms(3) by auto
  obtain c where c: "bind_wave_ports s (w @ [p]) = Inr c"
    using bind_ports_loop_ok [OF assms(1) all] by (auto simp: bind_wave_ports_def)
  obtain r where r: "insert_wave s ws p = Inr r"
    "\<forall>ws'. r = Some ws' \<longrightarrow> (\<forall>a \<in> set (concat ws'). packable s a)" using Cons by auto
  show ?case
  proof (cases c)
    case None
    with c r Cons(2) show ?thesis by auto
  next
    case (Some b)
    note pb = bound_packable [OF c [unfolded Some] all]
    from wave_compatible_ok [OF assms(1) pb] obtain ok where "wave_compatible s b = Inr ok" ..
    with c Some r pb Cons(2) show ?thesis by (cases ok) auto
  qed
qed simp

lemma pack_waves_ok:
  assumes "valid_scheduler s" "\<forall>a \<in> set (concat ws). packable s a" "\<forall>p \<in> set ps. packable s p"
  shows "\<exists>ws'. pack_waves s ws ps = Inr ws'"
  using assms(2,3)
proof (induction ps arbitrary: ws)
  case (Cons p ps)
  have p: "packable s p" "\<forall>p \<in> set ps. packable s p" using Cons(3) by auto
  obtain r where r: "insert_wave s ws p = Inr r"
    "\<forall>ws'. r = Some ws' \<longrightarrow> (\<forall>a \<in> set (concat ws'). packable s a)"
    using insert_wave_ok [OF assms(1) Cons(2) p(1)] by blast
  show ?case
  proof (cases r)
    case (Some ws')
    with r Cons(1) [of ws'] p(2) show ?thesis by simp
  next
    case None
    have all: "\<forall>a \<in> set [p]. packable s a" using p by simp
    obtain ports where ports: "ports_for s {} (ga_claim p) = Some ports" using p(1) by (auto simp: packable_def)
    have b: "bind_wave_ports s [p] = Inr (Some [p\<lparr>ga_ports := ports\<rparr>])"
      using ports bound_ports_ok [OF _ assms(1) _ ports] p(1) by (simp add: bind_wave_ports_def packable_def)
    have "wave_compatible s [p\<lparr>ga_ports := ports\<rparr>] = Inr True"
      by (simp add: wave_compatible_def wave_free_iff permits_def)
    with r None b Cons(1) [of "ws @ [[p\<lparr>ga_ports := ports\<rparr>]]"] bound_packable [OF b all] Cons(2) p(2)
    show ?thesis by auto
  qed
qed simp

lemma freeze_waves_ok:
  assumes "0 \<le> i" "is_sha256 e" "\<forall>w \<in> set ws. good_wave s w" "distinct (map assignment_id (concat ws))"
  shows "\<exists>fs. freeze_waves e i ws = Inr fs \<and> map gw_assignments fs = ws
    \<and> map gw_wave_index fs = map (\<lambda>j. i + int j) [0..<length ws]"
  using assms(1,3,4)
proof (induction ws arbitrary: i)
  case (Cons w ws)
  have w: "w \<noteq> []" "wave_check no_usage w = Inr ()" "1 < length w \<Longrightarrow> \<not> list_ex (\<lambda>a. pr_exclusive_host (ga_claim a)) w"
    using Cons(3) wave_compatible_Inr [of s w] permits_shared [of "sc_envelope s" "sc_inventory s" w]
    by (auto simp: good_wave_def wave_check_iff wave_free_iff list_ex_iff)
  have "distinct (map assignment_id w)" using Cons(4) by simp
  with w Cons(2) assms(2) have f: "gpu_dispatch_wave_post_init
      \<lparr>gw_wave_index = i, gw_assignments = w, gw_interference_envelope_sha256 = e\<rparr>
    = Inr \<lparr>gw_wave_index = i, gw_assignments = w, gw_interference_envelope_sha256 = e\<rparr>"
    by (auto simp: gpu_dispatch_wave_post_init_def require_sha256_text_def)
  from Cons(1) [of "i + 1"] Cons(2-4) obtain fs where "freeze_waves e (i + 1) ws = Inr fs"
    "map gw_assignments fs = ws" "map gw_wave_index fs = map (\<lambda>j. (i + 1) + int j) [0..<length ws]" by auto
  then show ?case using f
    by (simp add: upt_conv_Cons map_Suc_upt [symmetric] comp_def algebra_simps del: upt_Suc)
qed simp

lemma plan_post_init_ok:
  assumes "admit_work_items s items receipts completed budgets authorized = Inr ()"
    "is_sha256 (rg_sha256 (sc_registry s))" "0 \<le> sc_seed s" "distinct (dkeys budgets)"
    "mset (plan_cell_ids plan) = mset (map item_id items)"
    "distinct (map assignment_id (plan_assignments plan))"
    "map gw_wave_index (gp_waves plan) = map int [0..<length (gp_waves plan)]"
    "plan = \<lparr>gp_schema_version = 1, gp_registry_sha256 = rg_sha256 (sc_registry s),
        gp_inventory_sha256 = gpu_inventory_sha256 (sc_inventory s), gp_receipts_sha256 = receipts,
        gp_interference_envelope_sha256 = interference_envelope_sha256 (sc_envelope s),
        gp_budget_sha256_by_cell = sort budgets, gp_seed = sc_seed s, gp_waves = frozen,
        gp_completed_cell_ids = sort completed\<rparr>"
  shows "gpu_dispatch_plan_post_init plan = Inr plan"
proof -
  have ids: "set (plan_cell_ids plan) = set (map item_id items)" "distinct (plan_cell_ids plan)"
    using assms(1,5) mset_eq_imp_distinct_iff [OF assms(5)] mset_eq_setD [OF assms(5)]
    by (auto simp: admit_work_items_def Let_def)
  have "mset (map fst (sort budgets)) = mset (map fst budgets)" by simp
  from mset_eq_imp_distinct_iff [OF this] have keys: "distinct (map fst (sort budgets))" using assms(4) by simp
  show ?thesis
    using assms(1-3,6,7) ids keys
    by (auto simp: gpu_dispatch_plan_post_init_def admit_work_items_def assms(8) gpu_inventory_sha256_def
        interference_envelope_sha256_def Let_def sorted_sort_id list_ex_iff check_all_Inr)
qed

end
