(* ===== verification/Pool_Facts.thy ===== *)
theory Pool_Facts
  imports Pool_Progress
begin

text \<open>
  What the envelope permits (\<open>certified\<close>), what a gang gives its claim (\<open>gang_meets_claim\<close>), and the facts
  of an emitted plan from which the properties of the scheduler follow.
\<close>

lemma one_value_iff: "one_value xs \<longleftrightarrow> xs \<noteq> [] \<and> (\<forall>x \<in> set xs. x = hd xs)"
proof -
  have "one_value xs \<longleftrightarrow> card (set xs) = 1" by (simp add: one_value_def length_remdups_card_conv)
  also have "\<dots> \<longleftrightarrow> xs \<noteq> [] \<and> (\<forall>x \<in> set xs. x = hd xs)"
    by (cases xs) (auto simp: card_1_singleton_iff)
  finally show ?thesis .
qed

text \<open>A calibrated rule that covers the whole co-run: the same workload, gang shape, load and contention
  class for every assignment, one hardware envelope for every device, and nobody who needs the host alone.\<close>

definition rule_covers :: "interference_rule \<Rightarrow> gpu_inventory \<Rightarrow> gpu_assignment \<Rightarrow> bool" where
  "rule_covers r v a \<longleftrightarrow>
     \<not> pr_exclusive_host (ga_claim a) \<and> pr_workload_class (ga_claim a) \<notin> exclusive_host_classes
     \<and> pr_workload_class (ga_claim a) = ir_workload_class r
     \<and> pr_interference_class (ga_claim a) = ir_co_run_signature r
     \<and> gs_signature (pr_gang_shape (ga_claim a)) = ir_gang_shape r
     \<and> pr_load_envelope (ga_claim a) = ir_load_envelope r
     \<and> contention_class (ga_claim a) = ir_contention_class r
     \<and> (\<forall>u \<in> set (ga_gpu_uuids a). \<exists>d. inventory_device v u = Inr d
          \<and> hardware_envelope_sha256 d = ir_hardware_envelope_sha256 r)"

definition certified :: "interference_envelope \<Rightarrow> gpu_inventory \<Rightarrow> gpu_assignment list \<Rightarrow> bool" where
  "certified e v as \<longleftrightarrow> (\<exists>r \<in> set (ie_rules e). ir_status r = ''PASS''
     \<and> ir_simultaneous_jobs r = int (length as) \<and> (\<forall>a \<in> set as. rule_covers r v a))"

lemma workload_text_inj: "workload_text a = workload_text b \<longleftrightarrow> a = b"
  by (cases a; cases b) simp_all

lemma one_value_map:
  "one_value (map f xs) \<and> hd (map f xs) = y \<longleftrightarrow> xs \<noteq> [] \<and> (\<forall>x \<in> set xs. f x = y)"
  by (cases xs) (auto simp: one_value_iff)

lemma device_envelopes:
  assumes "map_res (inventory_device v) us = Inr ds"
  shows "one_value (map hardware_envelope_sha256 ds) \<and> hd (map hardware_envelope_sha256 ds) = h
    \<longleftrightarrow> us \<noteq> [] \<and> (\<forall>u \<in> set us. \<exists>d. inventory_device v u = Inr d \<and> hardware_envelope_sha256 d = h)"
proof -
  have all2: "list_all2 (\<lambda>u d. inventory_device v u = Inr d) us ds" using assms by (simp add: map_res_Inr)
  have "(\<forall>d \<in> set ds. hardware_envelope_sha256 d = h)
      \<longleftrightarrow> (\<forall>u \<in> set us. \<exists>d. inventory_device v u = Inr d \<and> hardware_envelope_sha256 d = h)"
    using all2 by (induction rule: list_all2_induct) auto
  moreover have "us = [] \<longleftrightarrow> ds = []" using all2 by auto
  ultimately show ?thesis by (simp only: one_value_map)
qed

lemma permits_shared_iff:
  assumes "1 < length as"
  shows "permits e v as = Inr True \<longleftrightarrow>
    (\<exists>ds. map_res (inventory_device v) (concat (map ga_gpu_uuids as)) = Inr ds
     \<and> (\<exists>r \<in> set (ie_rules e). ir_status r = ''PASS'' \<and> ir_simultaneous_jobs r = int (length as)
         \<and> (\<forall>a \<in> set as. \<not> pr_exclusive_host (ga_claim a)) \<and> ir_workload_class r \<notin> exclusive_host_classes
         \<and> (one_value (map (pr_workload_class \<circ> ga_claim) as)
              \<and> hd (map (pr_workload_class \<circ> ga_claim) as) = ir_workload_class r)
         \<and> (one_value (map (pr_interference_class \<circ> ga_claim) as)
              \<and> hd (map (pr_interference_class \<circ> ga_claim) as) = ir_co_run_signature r)
         \<and> (one_value (map ((\<lambda>c. gs_signature (pr_gang_shape c)) \<circ> ga_claim) as)
              \<and> hd (map ((\<lambda>c. gs_signature (pr_gang_shape c)) \<circ> ga_claim) as) = ir_gang_shape r)
         \<and> (one_value (map (pr_load_envelope \<circ> ga_claim) as)
              \<and> hd (map (pr_load_envelope \<circ> ga_claim) as) = ir_load_envelope r)
         \<and> (one_value (map (contention_class \<circ> ga_claim) as)
              \<and> hd (map (contention_class \<circ> ga_claim) as) = ir_contention_class r)
         \<and> (one_value (map hardware_envelope_sha256 ds)
              \<and> hd (map hardware_envelope_sha256 ds) = ir_hardware_envelope_sha256 r)))"
    (is "?l \<longleftrightarrow> (\<exists>ds. ?m ds \<and> ?r ds)")
proof -
  let ?w = "hd (map (pr_workload_class \<circ> ga_claim) as)"
  have hd_claims: "pr_workload_class (hd (map ga_claim as)) = ?w"
    using assms by (cases as) auto
  have headline: "\<not> (?w = HEADLINE \<and> list_ex (\<lambda>c. pr_workload_class c \<noteq> HEADLINE) (map ga_claim as))"
    if "one_value (map (pr_workload_class \<circ> ga_claim) as)"
    using that by (cases as) (auto simp: one_value_iff list_ex_iff)
  have "?l \<longleftrightarrow> (\<exists>ds. ?m ds) \<and> (\<forall>ds. ?m ds \<longrightarrow> ?r ds)"
  proof (cases "map_res (inventory_device v) (concat (map ga_gpu_uuids as))")
    case (Inl err)
    then show ?thesis using assms by (auto simp: permits_def Let_def split: if_splits)
  next
    case (Inr ds)
    show ?thesis using assms headline
      by (simp add: permits_def Let_def Inr hd_claims rule_key_def list_ex_iff workload_text_inj) (auto 0 3)
  qed
  then show ?thesis by auto
qed

lemma permits_iff_certified:
  assumes "1 < length as" "\<forall>a \<in> set as. ga_gpu_uuids a \<noteq> []"
  shows "permits e v as = Inr True \<longleftrightarrow> certified e v as"
proof -
  let ?us = "concat (map ga_gpu_uuids as)"
  have ne: "as \<noteq> []" "?us \<noteq> []" using assms by (cases as; auto)+
  have known: "\<exists>ds. map_res (inventory_device v) ?us = Inr ds" if "\<forall>a \<in> set as. rule_covers r v a" for r
    by (rule map_res_total) (use that in \<open>fastforce simp: rule_covers_def\<close>)
  show ?thesis
  proof (cases "map_res (inventory_device v) ?us")
    case (Inl err)
    with known have "\<not> certified e v as" unfolding certified_def by fastforce
    with Inl show ?thesis by (simp add: permits_shared_iff [OF assms(1)])
  next
    case (Inr ds)
    from ne(1) obtain b where b: "b \<in> set as" by (cases as) auto
    show ?thesis
      unfolding permits_shared_iff [OF assms(1)] Inr certified_def sum.inject simp_thms
        device_envelopes [OF Inr]
      unfolding one_value_map
      by (intro bex_cong refl) (use ne b in \<open>auto simp: rule_covers_def\<close>)
  qed
qed

section \<open>What a plan guarantees\<close>

lemma inventory_device_dget:
  "dget (device_by_uuid (iv_devices v)) u = Some d \<longleftrightarrow> inventory_device v u = Inr d"
proof -
  have "dget (device_by_uuid ds) u = find (\<lambda>d. gd_uuid d = u) ds" for ds
    by (induction ds) (auto simp: device_by_uuid_def)
  then show ?thesis by (simp add: inventory_device_def split: option.splits)
qed

lemma chunk_nth:
  "\<forall>g \<in> set gs. length g = t \<Longrightarrow> r < length gs \<Longrightarrow> gs ! r = take t (drop (r * t) (concat gs))"
proof (induction gs arbitrary: r)
  case (Cons g gs)
  then show ?case by (cases r) auto
qed simp

text \<open>A gang as its claim asks for it: ready devices of one host and one hardware envelope, and every
  tensor-parallel group inside one topology group the claim allows.\<close>

definition gang_meets_claim :: "gpu_pool_scheduler \<Rightarrow> gpu_assignment \<Rightarrow> bool" where
  "gang_meets_claim s a \<longleftrightarrow>
     (let c = ga_claim a; v = sc_inventory s in
      distinct (ga_gpu_uuids a) \<and> int (length (ga_gpu_uuids a)) = gs_gpu_count (pr_gang_shape c)
      \<and> (\<exists>host hardware. \<forall>u \<in> set (ga_gpu_uuids a). \<exists>d. inventory_device v u = Inr d \<and> hc_accepts (pr_homogeneous c) d
           \<and> gd_host_id d = host \<and> hardware_envelope_sha256 d = hardware)
      \<and> concat (ga_rank_groups a) = ga_gpu_uuids a
      \<and> int (length (ga_rank_groups a)) = gs_data_parallel_size (pr_gang_shape c)
      \<and> (\<forall>b \<in> set (ga_rank_groups a). int (length b) = gs_tensor_parallel_size (pr_gang_shape c)
           \<and> (gs_tensor_parallel_size (pr_gang_shape c) \<noteq> 1 \<longrightarrow> (\<exists>g \<in> set (iv_topology_groups v).
                set b \<subseteq> set (tg_gpu_uuids g)
                \<and> (pr_allowed_topology_groups c = [] \<or> tg_group_id g \<in> set (pr_allowed_topology_groups c))
                \<and> (pr_allowed_fabrics c = [] \<or> tg_fabric g \<in> set (pr_allowed_fabrics c)))))
      \<and> (pr_exact_gpu_uuids c \<noteq> [] \<longrightarrow> ga_gpu_uuids a = pr_exact_gpu_uuids c))"

lemma topology_accepts_group:
  assumes "topology_accepts s xs c" "gs_tensor_parallel_size (pr_gang_shape c) \<noteq> 1" "r < nat (gs_data_parallel_size (pr_gang_shape c))"
  shows "\<exists>g \<in> set (iv_topology_groups (sc_inventory s)).
    set (take (nat (gs_tensor_parallel_size (pr_gang_shape c)))
      (drop (nat (int r * gs_tensor_parallel_size (pr_gang_shape c))) xs)) \<subseteq> set (tg_gpu_uuids g)
    \<and> (pr_allowed_topology_groups c = [] \<or> tg_group_id g \<in> set (pr_allowed_topology_groups c))
    \<and> (pr_allowed_fabrics c = [] \<or> tg_fabric g \<in> set (pr_allowed_fabrics c))"
  using assms
  by (fastforce simp: topology_accepts_def Let_def list_all_iff list_ex_iff int_range_nat split: if_splits)

lemma accepted_devices:
  assumes "gang_accepted s c us" "set us \<subseteq> set (pool_uuids s)"
  shows "\<exists>host hardware. \<forall>u \<in> set us. \<exists>d. inventory_device (sc_inventory s) u = Inr d
    \<and> hc_accepts (pr_homogeneous c) d \<and> gd_host_id d = host \<and> hardware_envelope_sha256 d = hardware"
proof -
  let ?v = "sc_inventory s"
  let ?d = "\<lambda>u. the (dget (device_by_uuid (iv_devices ?v)) u)"
  have dev: "inventory_device ?v u = Inr (?d u)" if "u \<in> set us" for u
    using inventory_device_ok [of u ?v] inventory_device_dget [of ?v u] that assms(2) by (metis option.sel subsetD)
  have one: "\<exists>h. \<forall>u \<in> set us. f (?d u) = h" if "one_value (map f (map ?d us))" for f :: "gpu_device \<Rightarrow> string"
    using that by (auto simp: one_value_iff)
  obtain host hardware where "\<forall>u \<in> set us. gd_host_id (?d u) = host"
    "\<forall>u \<in> set us. hardware_envelope_sha256 (?d u) = hardware"
    using assms(1) one [of gd_host_id] one [of hardware_envelope_sha256] by (auto simp: gang_accepted_def Let_def)
  moreover have "\<forall>u \<in> set us. hc_accepts (pr_homogeneous c) (?d u)"
    using assms(1) by (auto simp: gang_accepted_def Let_def list_all_iff)
  ultimately show ?thesis using dev by blast
qed

lemma well_placed_meets_claim:
  assumes "valid_scheduler s" "valid_claim (ga_claim a)" "well_placed s a"
  shows "gang_meets_claim s a"
proof -
  let ?c = "ga_claim a" and ?v = "sc_inventory s" and ?us = "ga_gpu_uuids a"
  let ?t = "gs_tensor_parallel_size (pr_gang_shape ?c)"
  have "distinct (pool_uuids s)" using assms(1) by (simp add: valid_scheduler_def)
  note gang = candidate_gangs_ok [OF this assms(2), of ?us]
  have cand: "?us \<in> set (candidate_gangs s (ga_work_item a))" using assms(3) by (simp add: well_placed_def)
  have acc: "gang_accepted s ?c ?us" using gang(4) [OF cand] .
  have pos: "1 \<le> ?t" using assms(2) by (simp add: valid_claim_def gang_shape_post_init_def)
  have "\<exists>g \<in> set (iv_topology_groups ?v). set b \<subseteq> set (tg_gpu_uuids g)
      \<and> (pr_allowed_topology_groups ?c = [] \<or> tg_group_id g \<in> set (pr_allowed_topology_groups ?c))
      \<and> (pr_allowed_fabrics ?c = [] \<or> tg_fabric g \<in> set (pr_allowed_fabrics ?c))"
    if b: "b \<in> set (ga_rank_groups a)" "?t \<noteq> 1" for b
  proof -
    have lens: "\<forall>g \<in> set (ga_rank_groups a). length g = nat ?t" using assms(3) by (auto simp: well_placed_def)
    from b(1) obtain r where r: "r < length (ga_rank_groups a)" "b = ga_rank_groups a ! r"
      by (auto simp: in_set_conv_nth)
    have "b = take (nat ?t) (drop (r * nat ?t) ?us)"
      using chunk_nth [OF lens r(1)] r(2) assms(3) by (simp add: well_placed_def)
    moreover have "r * nat ?t = nat (int r * ?t)" using pos by (simp add: nat_mult_distrib)
    moreover have "r < nat (gs_data_parallel_size (pr_gang_shape ?c))"
      using r(1) assms(3) by (auto simp: well_placed_def)
    ultimately show ?thesis
      using topology_accepts_group [of s ?us ?c r] acc b(2) by (auto simp: gang_accepted_def Let_def)
  qed
  with accepted_devices [OF acc gang(3) [OF cand]] gang(5) [OF cand] assms(3) show ?thesis
    unfolding gang_meets_claim_def well_placed_def Let_def by blast
qed

lemma ordered_items_mset: "mset (ordered_items s items) = mset items"
  by (simp add: ordered_items_def)

text \<open>The facts of an emitted plan.\<close>

lemma schedule_facts:
  assumes "schedule_items s items receipts completed budgets authorized = Inr plan"
  shows "mset (map ga_work_item (plan_assignments plan)) = mset items"
    "\<forall>w \<in> set (gp_waves plan). good_wave s (gw_assignments w)"
    "\<forall>a \<in> set (plan_assignments plan). well_placed s a \<and> ports_ok s a"
    "\<exists>f. \<forall>a \<in> set (plan_assignments plan). \<forall>k. wi_affinity_key (ga_work_item a) = Some k \<longrightarrow> ga_gpu_uuids a = f k"
    "gpu_dispatch_plan_post_init plan = Inr plan" "gp_completed_cell_ids plan = sort completed"
proof -
  obtain placements waves where
    place: "place_loop s [] (initial_loads s) (ordered_items s items) = Inr placements" and
    pack: "pack_waves s [] placements = Inr waves" and waves: "map gw_assignments (gp_waves plan) = waves" and
    post: "gpu_dispatch_plan_post_init plan = Inr plan" "gp_completed_cell_ids plan = sort completed"
    using schedule_items_Inr [OF assms] by metis
  from place_loop_Inr [OF place] obtain f where items: "map ga_work_item placements = ordered_items s items"
    and placed: "\<forall>p \<in> set placements. well_placed s p"
    and f: "\<forall>p \<in> set placements. \<forall>k. wi_affinity_key (ga_work_item p) = Some k \<longrightarrow> ga_gpu_uuids p = f k" by blast
  from pack_waves_Inr [OF pack] have good: "\<forall>w \<in> set waves. good_wave s w"
    and packed: "image_mset without_ports (mset (concat waves)) = image_mset without_ports (mset placements)" by auto
  have same: "\<exists>p \<in> set placements. without_ports p = without_ports a" if "a \<in> set (concat waves)" for a
  proof -
    have "without_ports a \<in># image_mset without_ports (mset (concat waves))" using that by auto
    then show ?thesis unfolding packed by auto
  qed
  have ext: "ga_work_item a = ga_work_item p" "ga_gpu_uuids a = ga_gpu_uuids p" "well_placed s p = well_placed s a"
    if "without_ports p = without_ports a" for a p
    using that by (cases a; cases p; simp add: well_placed_def)+
  have "image_mset ga_work_item (image_mset without_ports (mset (concat waves)))
      = image_mset ga_work_item (image_mset without_ports (mset placements))" using packed by simp
  then have "image_mset ga_work_item (mset (concat waves)) = mset (map ga_work_item placements)"
    by (simp add: multiset.map_comp comp_def)
  then show "mset (map ga_work_item (plan_assignments plan)) = mset items"
    unfolding waves items by (simp add: ordered_items_mset)
  show "\<forall>w \<in> set (gp_waves plan). good_wave s (gw_assignments w)" using good waves by auto
  have "\<forall>a \<in> set (concat waves). well_placed s a" using same ext(3) placed by blast
  moreover have "\<forall>a \<in> set (concat waves). ports_ok s a" using good by (auto simp: good_wave_def)
  ultimately show "\<forall>a \<in> set (plan_assignments plan). well_placed s a \<and> ports_ok s a" unfolding waves by blast
  show "\<exists>f. \<forall>a \<in> set (plan_assignments plan). \<forall>k. wi_affinity_key (ga_work_item a) = Some k \<longrightarrow> ga_gpu_uuids a = f k"
    unfolding waves using same ext(1,2) f by metis
  show "gpu_dispatch_plan_post_init plan = Inr plan" "gp_completed_cell_ids plan = sort completed" by (fact post)+
qed

lemma schedule_completes:
  assumes "valid_scheduler s" "admit_work_items s items receipts completed budgets authorized = Inr ()"
    "is_sha256 (rg_sha256 (sc_registry s))" "distinct (dkeys budgets)"
    "\<forall>w \<in> set items. placeable s w" "common_gangs s items"
  obtains placements waves where
    "place_loop s [] (initial_loads s) (ordered_items s items) = Inr placements"
    "pack_waves s [] placements = Inr waves"
    "distinct (map assignment_id (concat waves)) \<Longrightarrow>
       \<exists>plan. schedule_items s items receipts completed budgets authorized = Inr plan"
proof -
  have ordered: "set (ordered_items s items) = set items" by (simp add: ordered_items_def)
  have "common_gangs s (ordered_items s items)" using assms(6) by (simp add: common_gangs_def ordered)
  from place_loop_ok [OF assms(1) _ this] assms(5) ordered obtain placements where
    place: "place_loop s [] (initial_loads s) (ordered_items s items) = Inr placements" by fastforce
  note placed = place_loop_Inr [OF place]
  have "\<forall>p \<in> set placements. ga_work_item p \<in> set items"
    using placed ordered by (metis image_eqI list.set_map)
  then have "\<forall>p \<in> set placements. packable s p"
    using placed assms(5) by (auto simp: packable_def placeable_def)
  from pack_waves_ok [OF assms(1) _ this, of "[]"] obtain waves where
    pack: "pack_waves s [] placements = Inr waves" by auto
  show thesis
  proof (rule that [OF place pack])
    assume d: "distinct (map assignment_id (concat waves))"
    have good: "\<forall>w \<in> set waves. good_wave s w"
      and packed: "image_mset without_ports (mset (concat waves)) = image_mset without_ports (mset placements)"
      using pack_waves_Inr [OF pack] by auto
    from freeze_waves_ok [OF order_refl _ good d, of "interference_envelope_sha256 (sc_envelope s)"]
    obtain frozen where frozen: "freeze_waves (interference_envelope_sha256 (sc_envelope s)) 0 waves = Inr frozen"
      "map gw_assignments frozen = waves" "map gw_wave_index frozen = map int [0..<length waves]"
      by (auto simp: interference_envelope_sha256_def)
    define plan where "plan = \<lparr>gp_schema_version = 1, gp_registry_sha256 = rg_sha256 (sc_registry s),
        gp_inventory_sha256 = gpu_inventory_sha256 (sc_inventory s), gp_receipts_sha256 = receipts,
        gp_interference_envelope_sha256 = interference_envelope_sha256 (sc_envelope s),
        gp_budget_sha256_by_cell = sort budgets, gp_seed = sc_seed s, gp_waves = frozen,
        gp_completed_cell_ids = sort completed\<rparr>"
    have "image_mset (\<lambda>a. item_id (ga_work_item a)) (image_mset without_ports (mset (concat waves)))
      = image_mset (\<lambda>a. item_id (ga_work_item a)) (image_mset without_ports (mset placements))" by (simp only: packed)
    then have "mset (plan_cell_ids plan) = mset (map item_id (map ga_work_item placements))"
      by (simp add: plan_def frozen(2) multiset.map_comp comp_def)
    then have ids: "mset (plan_cell_ids plan) = mset (map item_id items)"
      using placed by (simp add: ordered_items_mset)
    have seed: "0 \<le> sc_seed s" using assms(1) by (simp add: valid_scheduler_def gpu_pool_scheduler_post_init_def)
    have waves: "gp_waves plan = frozen" by (simp add: plan_def)
    have "gpu_dispatch_plan_post_init plan = Inr plan"
      by (rule plan_post_init_ok [OF assms(2,3) seed assms(4) ids _ _ plan_def])
        (simp_all add: waves frozen(2,3) d map_equality_iff [symmetric] arg_cong [OF frozen(2), of length, simplified])
    then show "\<exists>plan. schedule_items s items receipts completed budgets authorized = Inr plan"
      using assms(2) place pack frozen(1) by (simp add: schedule_items_def plan_def)
  qed
qed

end
