(* ===== verification/Budget_Report.thy ===== *)
theory Budget_Report
  imports Budget
begin

text \<open>
  The industrial budget report (\<open>estimate_industrial_budget\<close> in \<open>experiments/planning.py\<close>): totals over the
  activated cells and over groups of them, unresolved assumptions, and the exact wall time obtained by
  replaying the GPU pool scheduler once per scenario.
\<close>

section \<open>The wall time of a schedule\<close>

text \<open>\<open>milliseconds / 1_000.0\<close>\<close>

definition seconds_of :: "int \<Rightarrow> pyfloat res" where
  "seconds_of ms =
     rbind (float_of_int ms) (\<lambda>x. Inr (case x of Fin q \<Rightarrow> fl (q / 1000) | other \<Rightarrow> other))"

definition default_scheduler :: "experiment_registry \<Rightarrow> gpu_inventory \<Rightarrow> interference_envelope \<Rightarrow> gpu_pool_scheduler res" where
  "default_scheduler registry v e = gpu_pool_scheduler_post_init
     \<lparr>sc_registry = registry, sc_inventory = v, sc_envelope = e, sc_port_start = 24000, sc_port_end = 65535,
      sc_seed = 20260811\<rparr>"

definition registry_cell :: "experiment_registry \<Rightarrow> string \<Rightarrow> experiment_cell res" where
  "registry_cell registry cell =
     (case dget (by_cell cell_id (rg_cells registry)) cell of None \<Rightarrow> Inl (KeyError cell) | Some c \<Rightarrow> Inr c)"

definition wave_wall_ms :: "(string \<Rightarrow> int) \<Rightarrow> gpu_dispatch_wave \<Rightarrow> int" where
  "wave_wall_ms ms w = Max (set (map (\<lambda>a. ms (item_id (ga_work_item a))) (gw_assignments w)))"

text \<open>One scenario: the items with their durations, the schedule, and the sum of the longest budget of
  every wave. \<open>None\<close> is the branch \<open>except CapabilityRejectionError\<close>.\<close>

definition scenario_wall_ms ::
  "gpu_pool_scheduler \<Rightarrow> string \<Rightarrow> (experiment_budget \<times> scenario_milliseconds) list \<Rightarrow> budget_scenario
     \<Rightarrow> int option res" where
  "scenario_wall_ms s activation_sha256 rows scenario =
     rbind (map_res (\<lambda>(b, wall).
         rbind (registry_cell (sc_registry s) (eb_cell_id b)) (\<lambda>cell.
         rbind (seconds_of (sm_value wall scenario)) (registry_pool_work_item cell))) rows) (\<lambda>items.
     case schedule_work_items s items (content_sha256 (JObj
            [(''schema_version'', JInt 1), (''kind'', JStr ''industrial_budget_exact_schedule''),
             (''activation_sha256'', JStr activation_sha256), (''scenario'', JStr (scenario_text scenario)),
             (''inventory_sha256'', JStr (gpu_inventory_sha256 (sc_inventory s))),
             (''interference_envelope_sha256'', JStr (interference_envelope_sha256 (sc_envelope s)))]))
          [] (map (\<lambda>(b, wall). (eb_cell_id b, experiment_budget_sha256 b)) rows) of
       Inl (CapabilityRejectionError _) \<Rightarrow> Inr None
     | Inl e \<Rightarrow> Inl e
     | Inr plan \<Rightarrow> Inr (Some (sum_list (map (wave_wall_ms (\<lambda>cell.
          sm_value (the (dget (map (\<lambda>(b, wall). (eb_cell_id b, wall)) rows) cell)) scenario)) (gp_waves plan)))))"

definition estimate_wall_time_from_scheduler ::
  "experiment_registry \<Rightarrow> string \<Rightarrow> experiment_budget list \<Rightarrow> gpu_inventory \<Rightarrow> interference_envelope
     \<Rightarrow> (scenario_milliseconds option \<times> string option) res" where
  "estimate_wall_time_from_scheduler registry activation_sha256 budgets v e =
     (let ordered = sort_key eb_cell_id budgets in
      rbind (map_res wall_time ordered) (\<lambda>walls.
      if list_ex (\<lambda>w. sm_optimistic w \<le> 0) walls then Inr (None, Some ''nonpositive_budget_duration'')
      else if ordered = [] then Inr (Some zero_milliseconds, None)
      else if length (host_ids v) \<noteq> 1 then Inr (None, Some ''multi_host_inventory_unsupported'')
      else rbind (map_res (\<lambda>b. registry_cell registry (eb_cell_id b)) ordered) (\<lambda>cells.
      if list_ex (\<lambda>c. \<not> dispatchable c False) cells then Inr (None, Some ''registry_cell_not_dispatchable'')
      else rbind (default_scheduler registry v e) (\<lambda>s.
      rbind (scenario_wall_ms s activation_sha256 (zip ordered walls) OPTIMISTIC) (\<lambda>optimistic.
      case optimistic of None \<Rightarrow> Inr (None, Some ''capability_or_topology_rejected'') | Some optimistic \<Rightarrow>
      rbind (scenario_wall_ms s activation_sha256 (zip ordered walls) REGISTERED) (\<lambda>registered.
      case registered of None \<Rightarrow> Inr (None, Some ''capability_or_topology_rejected'') | Some registered \<Rightarrow>
      rbind (scenario_wall_ms s activation_sha256 (zip ordered walls) QUOTA_ENVELOPE) (\<lambda>quota.
      case quota of None \<Rightarrow> Inr (None, Some ''capability_or_topology_rejected'') | Some quota \<Rightarrow>
      rbind (scenario_milliseconds_post_init
        \<lparr>sm_optimistic = optimistic, sm_registered = registered, sm_quota_envelope = quota\<rparr>) (\<lambda>wall.
      Inr (Some wall, None)))))))))"

section \<open>Totals\<close>

text \<open>The fields \<open>BudgetGroupTotal\<close> and \<open>IndustrialBudgetReport\<close> share.\<close>

record budget_totals =
  bt_cells :: int
  bt_gpu_cell_units :: int
  bt_component_ms :: "(string \<times> scenario_milliseconds) list"
  bt_request_deadline_ms :: scenario_milliseconds
  bt_excluded_warmup_requests :: expected_maximum_count
  bt_output_tokens :: expected_maximum_count
  bt_minimum_completed_requests :: int
  bt_retry_allowance :: int
  bt_p99_anchor_status_counts :: "(string \<times> int) list"
  bt_compute_gpu_ms :: scenario_milliseconds
  bt_compute_gpu_hours :: exact_scenario_hours
  bt_reserved_gpu_ms :: scenario_milliseconds
  bt_reserved_gpu_hours :: exact_scenario_hours
  bt_fixed_instance_billed_gpu_ms :: scenario_milliseconds
  bt_fixed_instance_billed_gpu_hours :: exact_scenario_hours

record budget_group_total = budget_totals +
  gt_experiment :: string
  gt_method :: string
  gt_workload_class :: string
  gt_topology :: string

record industrial_budget_report = budget_totals +
  ib_schema_version :: int
  ib_registry_sha256 :: string
  ib_activation_sha256 :: string
  ib_inventory :: budget_inventory_identity
  ib_budget_sha256s :: "string list"
  ib_groups :: "budget_group_total list"
  ib_estimated_wall_ms :: "scenario_milliseconds option"
  ib_estimated_wall_hours :: "exact_scenario_hours option"
  ib_schedule_billed_gpu_ms :: "scenario_milliseconds option"
  ib_schedule_billed_gpu_hours :: "exact_scenario_hours option"
  ib_unresolved_assumptions :: "string list"
  ib_scheduler_gpu_inventory_sha256 :: "string option"
  ib_interference_envelope_sha256 :: "string option"

definition p99_counts :: "experiment_budget list \<Rightarrow> (string \<times> int) list" where
  "p99_counts budgets =
     map (\<lambda>status. (p99_text status, int (length (filter (\<lambda>b. eb_p99_anchor_status b = status) budgets))))
       [NOT_REQUIRED, REQUIRED_UNRESOLVED, LOCKED]"

definition component_totals :: "experiment_budget list \<Rightarrow> (string \<times> scenario_milliseconds) list res" where
  "component_totals budgets =
     map_res (\<lambda>(name, field). rbind (sum_scenarios (map field budgets)) (\<lambda>t. Inr (name, t)))
       additive_duration_fields"

definition totals_of :: "experiment_budget list \<Rightarrow> budget_totals res" where
  "totals_of members =
     rbind (map_res compute_gpu_ms members) (\<lambda>computes.
     rbind (sum_scenarios computes) (\<lambda>compute.
     rbind (sum_scenarios (map eb_reserved_gpu_ms members)) (\<lambda>reserved.
     rbind (sum_scenarios (map eb_fixed_instance_billed_gpu_ms members)) (\<lambda>billed.
     rbind (component_totals members) (\<lambda>components.
     rbind (sum_scenarios (map eb_request_deadline members)) (\<lambda>deadline.
     rbind (sum_counts (map eb_excluded_warmup_requests members)) (\<lambda>warmup.
     rbind (sum_counts (map eb_output_tokens members)) (\<lambda>tokens.
     rbind (hours_from_milliseconds compute) (\<lambda>compute_hours.
     rbind (hours_from_milliseconds reserved) (\<lambda>reserved_hours.
     rbind (hours_from_milliseconds billed) (\<lambda>billed_hours.
     Inr \<lparr>bt_cells = int (length members), bt_gpu_cell_units = sum_list (map eb_gpu_count members),
       bt_component_ms = components, bt_request_deadline_ms = deadline, bt_excluded_warmup_requests = warmup,
       bt_output_tokens = tokens,
       bt_minimum_completed_requests = sum_list (map eb_minimum_completed_requests members),
       bt_retry_allowance = sum_list (map eb_retry_allowance members),
       bt_p99_anchor_status_counts = p99_counts members, bt_compute_gpu_ms = compute,
       bt_compute_gpu_hours = compute_hours, bt_reserved_gpu_ms = reserved, bt_reserved_gpu_hours = reserved_hours,
       bt_fixed_instance_billed_gpu_ms = billed, bt_fixed_instance_billed_gpu_hours = billed_hours\<rparr>)))))))))))"

definition group_key :: "experiment_budget \<Rightarrow> string \<times> string \<times> string \<times> string" where
  "group_key b = (eb_experiment b, eb_method b, workload_text (eb_workload_class b), eb_topology b)"

definition group_total :: "experiment_budget list \<Rightarrow> string \<times> string \<times> string \<times> string \<Rightarrow> budget_group_total res" where
  "group_total rows key =
     (case key of (experiment, method, workload, topology) \<Rightarrow>
        rbind (totals_of (filter (\<lambda>b. group_key b = key) rows)) (\<lambda>t.
        Inr (budget_totals.extend t (budget_group_total.fields experiment method workload topology))))"

definition industrial_budget_report_post_init :: "industrial_budget_report \<Rightarrow> industrial_budget_report res" where
  "industrial_budget_report_post_init r =
     rbind (raise_if (ib_schema_version r \<noteq> 1)
       (ValueError ''only industrial budget report schema 1 is supported'')) (\<lambda>_.
     rbind (require_planning_sha256 ''budget registry_sha256'' (ib_registry_sha256 r)) (\<lambda>_.
     rbind (require_planning_sha256 ''budget activation_sha256'' (ib_activation_sha256 r)) (\<lambda>_.
     rbind (raise_if (\<not> distinct (ib_budget_sha256s r))
       (ValueError ''budget report contains duplicate budget identities'')) (\<lambda>_.
     rbind (raise_if (ib_unresolved_assumptions r \<noteq> sorted_set (ib_unresolved_assumptions r))
       (ValueError ''unresolved assumptions must be sorted and unique'')) (\<lambda>_.
     rbind (raise_if ((ib_estimated_wall_ms r = None) \<noteq> (ib_estimated_wall_hours r = None))
       (ValueError ''wall millisecond and hour estimates must be present or absent together'')) (\<lambda>_.
     rbind (raise_if ((ib_schedule_billed_gpu_ms r = None) \<noteq> (ib_schedule_billed_gpu_hours r = None))
       (ValueError ''schedule billed millisecond and hour totals must be present together'')) (\<lambda>_.
     rbind (raise_if ((ib_scheduler_gpu_inventory_sha256 r = None) \<noteq> (ib_interference_envelope_sha256 r = None))
       (ValueError ''scheduler inventory and interference identities must be paired'')) (\<lambda>_.
     rbind (check_all (\<lambda>(name, value). case value of None \<Rightarrow> Inr () | Some s \<Rightarrow> require_planning_sha256 name s)
       [(''scheduler GPU inventory'', ib_scheduler_gpu_inventory_sha256 r),
        (''interference envelope'', ib_interference_envelope_sha256 r)]) (\<lambda>_.
     rbind (raise_if (ib_estimated_wall_ms r \<noteq> None \<and> ib_scheduler_gpu_inventory_sha256 r = None)
       (ValueError ''an exact wall estimate requires scheduler authority'')) (\<lambda>_. Inr r))))))))))"

section \<open>The report\<close>

definition check_budget_coverage ::
  "experiment_registry \<Rightarrow> string list \<Rightarrow> experiment_budget list \<Rightarrow> unit res" where
  "check_budget_coverage registry active rows =
     (let known = map cell_id (rg_cells registry); cells = map eb_cell_id rows
      in rbind (raise_if (\<not> distinct active) (ValueError ''activated cell identities must be unique'')) (\<lambda>_.
         rbind (raise_if (list_ex (\<lambda>c. c \<notin> set known) active)
           (ValueError ''activated budget set contains cells outside the registry'')) (\<lambda>_.
         rbind (raise_if (\<not> distinct cells) (ValueError ''budgets must have unique cell identities'')) (\<lambda>_.
         raise_if (set cells \<noteq> set active)
           (ValueError (''budget coverage mismatch: missing=''
              @ repr_list (sort (filter (\<lambda>c. c \<notin> set cells) active)) @ '', extra=''
              @ repr_list (sort (filter (\<lambda>c. c \<notin> set active) cells))))))))"

definition check_budget_row :: "experiment_registry \<Rightarrow> budget_inventory_identity \<Rightarrow> experiment_budget \<Rightarrow> unit res" where
  "check_budget_row registry inventory b =
     rbind (registry_cell registry (eb_cell_id b)) (\<lambda>cell.
     rbind (raise_if (eb_measured_gpu_ms b \<noteq> None)
       (ValueError ''pre-run budget estimates cannot contain measured GPU time'')) (\<lambda>_.
     rbind (raise_if (eb_experiment b \<noteq> xi_experiment (xc_identity cell) \<or> eb_method b \<noteq> xi_method (xc_identity cell)
         \<or> eb_workload_class b \<noteq> rc_workload_class (xc_resources cell)
         \<or> eb_gpu_count b \<noteq> rc_gpu_count (xc_resources cell) \<or> eb_topology b \<noteq> xi_topology (xc_identity cell))
       (ValueError ''budget metadata does not match its registry cell'')) (\<lambda>_.
     rbind (wall_time b) (\<lambda>wall.
     rbind (sm_scale wall (bi_gpu_count inventory)) (\<lambda>expected_billing.
     raise_if (eb_gpu_count b \<le> bi_gpu_count inventory \<and> eb_fixed_instance_billed_gpu_ms b \<noteq> expected_billing)
       (ValueError ''fixed-instance budget must bill the exact supplied inventory''))))))"

text \<open>The assumptions that follow from the budgets alone.\<close>

definition budget_assumptions :: "budget_inventory_identity \<Rightarrow> experiment_budget list \<Rightarrow> string list" where
  "budget_assumptions inventory rows =
     map (\<lambda>b. ''cell_requires_'' @ show_int (eb_gpu_count b) @ ''_gpus_but_inventory_has_''
           @ show_int (bi_gpu_count inventory) @ '':'' @ eb_cell_id b)
       (filter (\<lambda>b. bi_gpu_count inventory < eb_gpu_count b) rows)
     @ map (\<lambda>b. ''p99_anchor_unresolved:'' @ eb_cell_id b)
       (filter (\<lambda>b. eb_p99_anchor_status b = REQUIRED_UNRESOLVED) rows)"

definition resources_fit :: "budget_inventory_identity \<Rightarrow> experiment_budget list \<Rightarrow> bool" where
  "resources_fit inventory rows = list_all (\<lambda>b. eb_gpu_count b \<le> bi_gpu_count inventory) rows"

text \<open>The exact schedule, if the inventory and the envelope are given and the resources fit: the wall time and
  the assumption that is left open otherwise.\<close>

definition schedule_estimate ::
  "experiment_registry \<Rightarrow> string \<Rightarrow> experiment_budget list \<Rightarrow> budget_inventory_identity
     \<Rightarrow> (gpu_inventory \<times> interference_envelope) option \<Rightarrow> (scenario_milliseconds option \<times> string list) res" where
  "schedule_estimate registry activation_sha256 rows inventory physical =
     (if \<not> resources_fit inventory rows then Inr (None, [])
      else case physical of
        None \<Rightarrow> Inr (None,
          [''exact_inventory_schedule_unresolved:'' @ ''full_inventory_and_interference_required''])
      | Some (v, e) \<Rightarrow>
          rbind (estimate_wall_time_from_scheduler registry activation_sha256 rows v e) (\<lambda>(wall, rejection).
          Inr (wall, case rejection of None \<Rightarrow> []
             | Some reason \<Rightarrow> [''exact_inventory_schedule_unresolved:'' @ reason])))"

text \<open>The physical inputs, if both are given and belong to the budget inventory.\<close>

definition physical_inputs ::
  "budget_inventory_identity \<Rightarrow> gpu_inventory option \<Rightarrow> interference_envelope option
     \<Rightarrow> (gpu_inventory \<times> interference_envelope) option res" where
  "physical_inputs inventory gpu_inventory envelope =
     rbind (raise_if ((gpu_inventory = None) \<noteq> (envelope = None))
       (ValueError ''physical GPU inventory and interference envelope must be supplied together'')) (\<lambda>_.
     case gpu_inventory of
       None \<Rightarrow> Inr None
     | Some v \<Rightarrow>
         rbind (budget_inventory_identity_from_gpu_inventory v) (\<lambda>projected.
         rbind (raise_if (projected \<noteq> inventory)
           (ValueError ''physical GPU inventory differs from the budget inventory identity'')) (\<lambda>_.
         Inr (map_option (Pair v) envelope))))"

definition optional_scale :: "scenario_milliseconds option \<Rightarrow> int \<Rightarrow> scenario_milliseconds option res" where
  "optional_scale x n = (case x of None \<Rightarrow> Inr None | Some s \<Rightarrow> rbind (sm_scale s n) (\<lambda>b. Inr (Some b)))"

definition optional_hours :: "scenario_milliseconds option \<Rightarrow> exact_scenario_hours option res" where
  "optional_hours x = (case x of None \<Rightarrow> Inr None | Some s \<Rightarrow> rbind (hours_from_milliseconds s) (\<lambda>h. Inr (Some h)))"

definition estimate_industrial_budget ::
  "experiment_registry \<Rightarrow> string list \<Rightarrow> string \<Rightarrow> experiment_budget list \<Rightarrow> budget_inventory_identity
     \<Rightarrow> gpu_inventory option \<Rightarrow> interference_envelope option \<Rightarrow> string list \<Rightarrow> industrial_budget_report res" where
  "estimate_industrial_budget registry active activation_sha256 rows inventory gpu_inventory envelope assumptions =
     rbind (require_planning_sha256 ''activation_sha256'' activation_sha256) (\<lambda>_.
     rbind (check_budget_coverage registry active rows) (\<lambda>_.
     rbind (check_all (check_budget_row registry inventory) rows) (\<lambda>_.
     rbind (map_res (group_total rows) (sorted_set (map group_key rows))) (\<lambda>groups.
     rbind (raise_if (list_ex (\<lambda>r. \<not> single_line_text r \<or> CHR 0x0D \<in> set r) assumptions)
       (ValueError ''budget report unresolved assumptions are invalid'')) (\<lambda>_.
     rbind (physical_inputs inventory gpu_inventory envelope) (\<lambda>physical.
     rbind (schedule_estimate registry activation_sha256 rows inventory physical) (\<lambda>(wall, open_reasons).
     rbind (optional_scale wall (bi_gpu_count inventory)) (\<lambda>billed.
     rbind (totals_of rows) (\<lambda>totals.
     rbind (optional_hours wall) (\<lambda>wall_hours.
     rbind (optional_hours billed) (\<lambda>billed_hours.
     industrial_budget_report_post_init (budget_totals.extend totals
       (industrial_budget_report.fields 1 (rg_sha256 registry) activation_sha256 inventory
          (sort (map experiment_budget_sha256 rows)) groups wall wall_hours billed billed_hours
          (sorted_set (assumptions @ budget_assumptions inventory rows @ open_reasons))
          (map_option (\<lambda>(v, e). gpu_inventory_sha256 v) physical)
          (map_option (\<lambda>(v, e). interference_envelope_sha256 e) physical))))))))))))))"

end
