(* ===== verification/Budget_Laws.thy ===== *)
theory Budget_Laws
  imports Budget_Report Pool_Facts
begin

text \<open>
  Laws of the budgets: arithmetic on scenarios, the partition of the totals into groups, the bounds of the
  wall time that the exact schedules give, and that accepted budgets can always be summed.
\<close>

section \<open>Scenario arithmetic\<close>

definition valid_ms :: "scenario_milliseconds \<Rightarrow> bool" where
  "valid_ms s \<longleftrightarrow> scenario_milliseconds_post_init s = Inr s"

lemma valid_ms_iff:
  "valid_ms s \<longleftrightarrow> 0 \<le> sm_optimistic s \<and> sm_optimistic s \<le> sm_registered s \<and> sm_registered s \<le> sm_quota_envelope s"
  by (auto simp: valid_ms_def scenario_milliseconds_post_init_def)

lemma scenario_post_init_Inr: "scenario_milliseconds_post_init s = Inr t \<longleftrightarrow> t = s \<and> valid_ms s"
  by (auto simp: valid_ms_def scenario_milliseconds_post_init_def)

lemma valid_ms_nonneg: "valid_ms s \<Longrightarrow> 0 \<le> sm_value s sc"
  by (cases sc) (auto simp: valid_ms_iff)

lemma scenario_eqI: "(\<And>sc. sm_value a sc = sm_value b sc) \<Longrightarrow> a = (b :: scenario_milliseconds)"
  using sm_value.simps by (metis (full_types) scenario_milliseconds.equality old.unit.exhaust)

lemma sm_add_Inr:
  "sm_add a b = Inr c \<Longrightarrow> valid_ms c \<and> sm_value c sc = sm_value a sc + sm_value b sc"
  by (cases sc) (auto simp: sm_add_def scenario_post_init_Inr)

lemma sm_add_ok: "valid_ms a \<Longrightarrow> valid_ms b \<Longrightarrow> \<exists>c. sm_add a b = Inr c"
  by (auto simp: sm_add_def scenario_post_init_Inr valid_ms_iff)

lemma sm_scale_Inr:
  "sm_scale a n = Inr c \<Longrightarrow> valid_ms c \<and> sm_value c sc = sm_value a sc * n"
  by (cases sc) (auto simp: sm_scale_def scenario_post_init_Inr)

lemma sm_scale_ok: "valid_ms a \<Longrightarrow> 0 \<le> n \<Longrightarrow> \<exists>c. sm_scale a n = Inr c"
  by (auto simp: sm_scale_def scenario_post_init_Inr valid_ms_iff mult_right_mono)

lemma sum_from_Inr:
  "sum_from acc xs = Inr t \<Longrightarrow> sm_value t sc = sm_value acc sc + (\<Sum>x \<leftarrow> xs. sm_value x sc)"
  by (induction xs arbitrary: acc) (auto dest!: sm_add_Inr [where sc = sc])

lemma sum_from_valid: "sum_from acc xs = Inr t \<Longrightarrow> valid_ms acc \<Longrightarrow> valid_ms t"
  by (induction xs arbitrary: acc) (auto dest: sm_add_Inr)

lemma sum_from_ok: "valid_ms acc \<Longrightarrow> \<forall>x \<in> set xs. valid_ms x \<Longrightarrow> \<exists>t. sum_from acc xs = Inr t"
proof (induction xs arbitrary: acc)
  case (Cons x xs)
  then obtain c where c: "sm_add acc x = Inr c" using sm_add_ok by (meson list.set_intros(1))
  with Cons sm_add_Inr [OF c] show ?case by auto
qed simp

lemma valid_zero [simp]: "valid_ms zero_milliseconds"
  by (simp add: valid_ms_iff zero_milliseconds_def)

lemma zero_value [simp]: "sm_value zero_milliseconds sc = 0"
  by (cases sc) (simp_all add: zero_milliseconds_def)

lemma sum_scenarios_Inr:
  assumes "sum_scenarios xs = Inr t"
  shows "valid_ms t" "sm_value t sc = (\<Sum>x \<leftarrow> xs. sm_value x sc)"
  using sum_from_valid [OF assms [unfolded sum_scenarios_def]] sum_from_Inr [OF assms [unfolded sum_scenarios_def]]
  by simp_all

lemma sum_scenarios_ok: "\<forall>x \<in> set xs. valid_ms x \<Longrightarrow> \<exists>t. sum_scenarios xs = Inr t"
  unfolding sum_scenarios_def by (rule sum_from_ok) simp

text \<open>A budget whose components went through their constructors.\<close>

definition valid_count :: "expected_maximum_count \<Rightarrow> bool" where
  "valid_count c \<longleftrightarrow> expected_maximum_count_post_init c = Inr c"

definition valid_budget :: "experiment_budget \<Rightarrow> bool" where
  "valid_budget b \<longleftrightarrow> list_all (\<lambda>(name, field). valid_ms (field b)) additive_duration_fields
     \<and> valid_ms (eb_request_deadline b) \<and> valid_ms (eb_reserved_gpu_ms b)
     \<and> valid_ms (eb_fixed_instance_billed_gpu_ms b) \<and> valid_count (eb_excluded_warmup_requests b)
     \<and> valid_count (eb_output_tokens b) \<and> experiment_budget_post_init b = Inr b"

lemma wall_time_Inr:
  assumes "wall_time b = Inr w"
  shows "valid_ms w" "sm_value w sc = (\<Sum>(name, field) \<leftarrow> additive_duration_fields. sm_value (field b) sc)"
  using sum_from_valid [OF assms [unfolded wall_time_def]] sum_from_Inr [OF assms [unfolded wall_time_def], of sc]
  by (simp_all add: comp_def case_prod_unfold)

lemma wall_time_ok: "valid_budget b \<Longrightarrow> \<exists>w. wall_time b = Inr w"
  unfolding wall_time_def by (rule sum_from_ok) (auto simp: valid_budget_def list_all_iff)

lemma compute_gpu_ms_Inr:
  assumes "compute_gpu_ms b = Inr c"
  obtains w where "wall_time b = Inr w" "valid_ms c" "\<And>sc. sm_value c sc = sm_value w sc * eb_gpu_count b"
  using assms that by (auto simp: compute_gpu_ms_def dest: sm_scale_Inr)

lemma valid_budget_gpu:
  assumes "valid_budget b"
  obtains c where "compute_gpu_ms b = Inr c" "\<And>sc. sm_value c sc \<le> sm_value (eb_reserved_gpu_ms b) sc"
    "\<And>sc. sm_value c sc \<le> sm_value (eb_fixed_instance_billed_gpu_ms b) sc"
proof -
  have "budget_gpu_check b = Inr ()" using assms by (auto simp: valid_budget_def experiment_budget_post_init_def)
  then obtain c where c: "compute_gpu_ms b = Inr c" and
    all: "\<forall>sc \<in> set budget_scenarios. \<not> sm_value (eb_reserved_gpu_ms b) sc < sm_value c sc
      \<and> \<not> sm_value (eb_fixed_instance_billed_gpu_ms b) sc < sm_value c sc"
    unfolding budget_gpu_check_def by auto
  have "sc \<in> set budget_scenarios" for sc by (cases sc) simp_all
  with all show thesis by (intro that [OF c]) (meson not_less)+
qed

section \<open>Groups partition the totals\<close>

lemma sum_list_groups:
  fixes f :: "'a \<Rightarrow> int"
  assumes "distinct ks" "set (map key xs) \<subseteq> set ks"
  shows "(\<Sum>k \<leftarrow> ks. \<Sum>x \<leftarrow> filter (\<lambda>x. key x = k) xs. f x) = (\<Sum>x \<leftarrow> xs. f x)"
  using assms(2)
proof (induction xs)
  case (Cons x xs)
  have "(\<Sum>k \<leftarrow> ks. \<Sum>y \<leftarrow> filter (\<lambda>y. key y = k) (x # xs). f y)
      = (\<Sum>k \<leftarrow> ks. (if key x = k then f x else 0)) + (\<Sum>k \<leftarrow> ks. \<Sum>y \<leftarrow> filter (\<lambda>y. key y = k) xs. f y)"
    by (simp add: sum_list_addf [symmetric] if_distrib cong: if_cong) (rule arg_cong [of _ _ sum_list], auto)
  moreover have "(\<Sum>k \<leftarrow> ks. (if key x = k then f x else 0)) = f x"
    using assms(1) Cons(2) by (simp add: sum_list_distinct_conv_sum_set sum.delta)
  ultimately show ?case using Cons by simp
qed simp

lemma totals_of_Inr:
  assumes "totals_of ms = Inr t"
  shows "bt_cells t = int (length ms)" "bt_gpu_cell_units t = (\<Sum>b \<leftarrow> ms. eb_gpu_count b)"
    "bt_retry_allowance t = (\<Sum>b \<leftarrow> ms. eb_retry_allowance b)"
    "sm_value (bt_reserved_gpu_ms t) sc = (\<Sum>b \<leftarrow> ms. sm_value (eb_reserved_gpu_ms b) sc)"
    "sm_value (bt_fixed_instance_billed_gpu_ms t) sc = (\<Sum>b \<leftarrow> ms. sm_value (eb_fixed_instance_billed_gpu_ms b) sc)"
    "\<exists>cs. map_res compute_gpu_ms ms = Inr cs \<and> sm_value (bt_compute_gpu_ms t) sc = (\<Sum>c \<leftarrow> cs. sm_value c sc)"
    "valid_ms (bt_compute_gpu_ms t)" "valid_ms (bt_reserved_gpu_ms t)" "valid_ms (bt_fixed_instance_billed_gpu_ms t)"
  using assms
  by (auto simp: totals_of_def dest: sum_scenarios_Inr(1) sum_scenarios_Inr(2) [where sc = sc] simp: comp_def)

definition gpu_ms_of :: "experiment_budget \<Rightarrow> budget_scenario \<Rightarrow> int" where
  "gpu_ms_of b sc = (case compute_gpu_ms b of Inr c \<Rightarrow> sm_value c sc | Inl _ \<Rightarrow> 0)"

lemma computes_sum:
  "map_res compute_gpu_ms ms = Inr cs \<Longrightarrow> (\<Sum>c \<leftarrow> cs. sm_value c sc) = (\<Sum>b \<leftarrow> ms. gpu_ms_of b sc)"
  by (induction ms arbitrary: cs) (auto simp: gpu_ms_of_def)

lemma totals_compute: "totals_of ms = Inr t \<Longrightarrow> sm_value (bt_compute_gpu_ms t) sc = (\<Sum>b \<leftarrow> ms. gpu_ms_of b sc)"
  using totals_of_Inr(6) computes_sum by metis

lemma group_total_Inr:
  assumes "group_total rows k = Inr g"
  obtains t where "totals_of (filter (\<lambda>b. group_key b = k) rows) = Inr t"
    "bt_cells g = bt_cells t" "bt_gpu_cell_units g = bt_gpu_cell_units t"
    "bt_compute_gpu_ms g = bt_compute_gpu_ms t" "bt_reserved_gpu_ms g = bt_reserved_gpu_ms t"
    "bt_fixed_instance_billed_gpu_ms g = bt_fixed_instance_billed_gpu_ms t"
    "(gt_experiment g, gt_method g, gt_workload_class g, gt_topology g) = k"
  using assms that
  by (cases k) (auto simp: group_total_def budget_totals.defs budget_group_total.defs)

lemma groups_sum:
  assumes "map_res (group_total rows) ks = Inr gs"
    and "\<And>k g. group_total rows k = Inr g \<Longrightarrow> F g = (\<Sum>b \<leftarrow> filter (\<lambda>b. group_key b = k) rows. f b)"
  shows "(\<Sum>g \<leftarrow> gs. F g) = (\<Sum>k \<leftarrow> ks. \<Sum>b \<leftarrow> filter (\<lambda>b. group_key b = k) rows. f b)"
  using assms(1) by (induction ks arbitrary: gs) (auto simp: assms(2))

lemma rbind_unit: "rbind (r :: unit res) f = Inr y \<longleftrightarrow> r = Inr () \<and> f () = Inr y"
  by simp

lemma report_post_init_Inr: "industrial_budget_report_post_init r = Inr r' \<Longrightarrow> r' = r"
  by (simp add: industrial_budget_report_post_init_def)

lemma report_fields:
  "budget_totals.truncate (budget_totals.extend t (industrial_budget_report.fields a b c d f g h i j k l m n)) = t"
  "ib_groups (budget_totals.extend t (industrial_budget_report.fields a b c d f g h i j k l m n)) = g"
  "ib_estimated_wall_ms (budget_totals.extend t (industrial_budget_report.fields a b c d f g h i j k l m n)) = h"
  "ib_schedule_billed_gpu_ms (budget_totals.extend t (industrial_budget_report.fields a b c d f g h i j k l m n)) = j"
  by (simp_all add: budget_totals.defs industrial_budget_report.defs)

lemma estimate_Inr:
  assumes "estimate_industrial_budget registry active sha rows inventory v e assumptions = Inr r"
  obtains physical reasons where
    "map_res (group_total rows) (sorted_set (map group_key rows)) = Inr (ib_groups r)"
    "totals_of rows = Inr (budget_totals.truncate r)"
    "check_budget_coverage registry active rows = Inr ()"
    "\<forall>b \<in> set rows. check_budget_row registry inventory b = Inr ()"
    "physical_inputs inventory v e = Inr physical"
    "schedule_estimate registry sha rows inventory physical = Inr (ib_estimated_wall_ms r, reasons)"
    "optional_scale (ib_estimated_wall_ms r) (bi_gpu_count inventory) = Inr (ib_schedule_billed_gpu_ms r)"
proof -
  from assms obtain groups physical pr billed t wh bh where
    steps: "check_budget_coverage registry active rows = Inr ()"
      "\<forall>b \<in> set rows. check_budget_row registry inventory b = Inr ()"
      "map_res (group_total rows) (sorted_set (map group_key rows)) = Inr groups"
      "physical_inputs inventory v e = Inr physical"
      "schedule_estimate registry sha rows inventory physical = Inr pr" "totals_of rows = Inr t"
      "optional_scale (fst pr) (bi_gpu_count inventory) = Inr billed"
    and r: "industrial_budget_report_post_init (budget_totals.extend t
       (industrial_budget_report.fields 1 (rg_sha256 registry) sha inventory
          (sort (map experiment_budget_sha256 rows)) groups (fst pr) wh billed bh
          (sorted_set (assumptions @ budget_assumptions inventory rows @ snd pr))
          (map_option (\<lambda>p. gpu_inventory_sha256 (fst p)) physical)
          (map_option (\<lambda>p. interference_envelope_sha256 (snd p)) physical))) = Inr r"
    unfolding estimate_industrial_budget_def rbind_unit
    unfolding rbind_eq_Inr case_prod_unfold check_all_Inr by blast
  with report_post_init_Inr [OF r] show thesis
    by (intro that [of physical "snd pr"]) (simp_all add: report_fields)
qed

section \<open>The wall time of a schedule\<close>

lemma by_cell_get: "dget (by_cell key rows) k = Some r \<Longrightarrow> key r = k \<and> r \<in> set rows"
proof -
  have "dget (foldl (\<lambda>d r. dset (key r) r d) d rows) k = Some r
      \<Longrightarrow> dget d k = Some r \<or> (key r = k \<and> r \<in> set rows)" for d
    by (induction rows arbitrary: d) (fastforce simp: dict_simps split: if_splits)+
  from this [of "[]"] show "dget (by_cell key rows) k = Some r \<Longrightarrow> key r = k \<and> r \<in> set rows"
    by (simp add: by_cell_def)
qed

lemma registry_cell_Inr: "registry_cell registry c = Inr cell \<Longrightarrow> cell_id cell = c"
  by (auto simp: registry_cell_def split: option.splits dest: by_cell_get)

lemma registry_item_cell: "registry_pool_work_item c d = Inr w \<Longrightarrow> wi_cell w = c"
  by (auto simp: registry_pool_work_item_def pool_work_item_post_init_def Let_def)

lemma scenario_items_ids:
  assumes "map_res (\<lambda>(b, wall).
         rbind (registry_cell (sc_registry s) (eb_cell_id b)) (\<lambda>cell.
         rbind (seconds_of (sm_value wall scenario)) (registry_pool_work_item cell))) rows = Inr items"
  shows "map item_id items = map (\<lambda>(b, wall). eb_cell_id b) rows"
  using assms
proof (induction rows arbitrary: items)
  case (Cons row rows)
  then obtain b wall w ws c d where row: "row = (b, wall)" and c: "registry_cell (sc_registry s) (eb_cell_id b) = Inr c"
    and w: "registry_pool_work_item c d = Inr w" and rest: "items = w # ws"
    "map item_id ws = map (\<lambda>(b, wall). eb_cell_id b) rows" by (cases row) auto
  from registry_cell_Inr [OF c] registry_item_cell [OF w] have "item_id w = eb_cell_id b" by (simp add: item_id_def)
  with row rest show ?case by simp
qed simp

lemma le_sum_list: "\<forall>x \<in> set xs. 0 \<le> x \<Longrightarrow> y \<in> set xs \<Longrightarrow> y \<le> sum_list (xs :: int list)"
proof (induction xs)
  case (Cons x xs)
  have "0 \<le> sum_list xs" using Cons(2) by (intro sum_list_nonneg) simp
  with Cons show ?case by auto
qed simp

lemma waves_wall_bounds:
  fixes f :: "string \<Rightarrow> int"
  assumes "\<forall>w \<in> set waves. gw_assignments w \<noteq> []"
    and "\<forall>a \<in> set (concat (map gw_assignments waves)). 0 \<le> f (item_id (ga_work_item a))"
  defines "xs \<equiv> map (\<lambda>a. f (item_id (ga_work_item a))) (concat (map gw_assignments waves))"
  shows "(\<Sum>w \<leftarrow> waves. wave_wall_ms f w) \<le> sum_list xs" "x \<in> set xs \<Longrightarrow> x \<le> (\<Sum>w \<leftarrow> waves. wave_wall_ms f w)"
    "0 \<le> (\<Sum>w \<leftarrow> waves. wave_wall_ms f w)"
proof -
  let ?v = "\<lambda>w. map (\<lambda>a. f (item_id (ga_work_item a))) (gw_assignments w)"
  have max: "wave_wall_ms f w \<in> set (?v w)" "\<forall>y \<in> set (?v w). y \<le> wave_wall_ms f w" if "w \<in> set waves" for w
    using assms(1) that Max_in [of "set (?v w)"] by (auto simp: wave_wall_ms_def)
  have nonneg: "\<forall>y \<in> set (?v w). 0 \<le> y" if "w \<in> set waves" for w using assms(2) that by auto
  have "(\<Sum>w \<leftarrow> waves. wave_wall_ms f w) \<le> (\<Sum>w \<leftarrow> waves. sum_list (?v w))"
    by (rule sum_list_mono) (use max(1) nonneg le_sum_list in blast)
  also have "\<dots> = sum_list xs" unfolding xs_def by (induction waves) simp_all
  finally show "(\<Sum>w \<leftarrow> waves. wave_wall_ms f w) \<le> sum_list xs" .
  have pos: "\<forall>y \<in> set (map (wave_wall_ms f) waves). 0 \<le> y" using max(1) nonneg by fastforce
  then show "0 \<le> (\<Sum>w \<leftarrow> waves. wave_wall_ms f w)" by (intro sum_list_nonneg) blast
  assume "x \<in> set xs"
  then obtain w where w: "w \<in> set waves" "x \<in> set (?v w)" by (auto simp: xs_def)
  have "x \<le> wave_wall_ms f w" using max(2) [OF w(1)] w(2) by blast
  also have "\<dots> \<le> (\<Sum>w \<leftarrow> waves. wave_wall_ms f w)" using le_sum_list [OF pos] w(1) by simp
  finally show "x \<le> (\<Sum>w \<leftarrow> waves. wave_wall_ms f w)" .
qed

lemma scenario_wall_Some:
  assumes "scenario_wall_ms s sha rows scenario = Inr (Some ms)"
  shows "\<exists>items plan. map item_id items = map (\<lambda>(b, wall). eb_cell_id b) rows
    \<and> schedule_items s items (content_sha256 (JObj
            [(''schema_version'', JInt 1), (''kind'', JStr ''industrial_budget_exact_schedule''),
             (''activation_sha256'', JStr sha), (''scenario'', JStr (scenario_text scenario)),
             (''inventory_sha256'', JStr (gpu_inventory_sha256 (sc_inventory s))),
             (''interference_envelope_sha256'', JStr (interference_envelope_sha256 (sc_envelope s)))]))
          [] (map (\<lambda>(b, wall). (eb_cell_id b, experiment_budget_sha256 b)) rows) {} = Inr plan
    \<and> ms = (\<Sum>w \<leftarrow> gp_waves plan. wave_wall_ms (\<lambda>cell.
          sm_value (the (dget (map (\<lambda>(b, wall). (eb_cell_id b, wall)) rows) cell)) scenario) w)"
proof -
  from assms obtain items where items: "map_res (\<lambda>(b, wall).
         rbind (registry_cell (sc_registry s) (eb_cell_id b)) (\<lambda>cell.
         rbind (seconds_of (sm_value wall scenario)) (registry_pool_work_item cell))) rows = Inr items"
    unfolding scenario_wall_ms_def rbind_eq_Inr by blast
  from assms scenario_items_ids [OF items] show ?thesis
    unfolding scenario_wall_ms_def schedule_work_items_def items rbind_Inr
    by (auto split: sum.splits py_error.splits)
qed

lemma scenario_wall_bounds:
  assumes "scenario_wall_ms s sha rows scenario = Inr (Some ms)" "distinct (map (\<lambda>(b, wall). eb_cell_id b) rows)"
    "\<forall>(b, wall) \<in> set rows. 0 \<le> sm_value wall scenario"
  shows "ms \<le> (\<Sum>(b, wall) \<leftarrow> rows. sm_value wall scenario)" "(b, wall) \<in> set rows \<Longrightarrow> sm_value wall scenario \<le> ms"
proof -
  define f where "f = (\<lambda>cell. sm_value (the (dget (map (\<lambda>(b, wall). (eb_cell_id b, wall)) rows) cell)) scenario)"
  from assms(1) obtain items plan where
    items: "map item_id items = map (\<lambda>(b, wall). eb_cell_id b) rows" and
    plan: "schedule_items s items (content_sha256 (JObj
            [(''schema_version'', JInt 1), (''kind'', JStr ''industrial_budget_exact_schedule''),
             (''activation_sha256'', JStr sha), (''scenario'', JStr (scenario_text scenario)),
             (''inventory_sha256'', JStr (gpu_inventory_sha256 (sc_inventory s))),
             (''interference_envelope_sha256'', JStr (interference_envelope_sha256 (sc_envelope s)))]))
          [] (map (\<lambda>(b, wall). (eb_cell_id b, experiment_budget_sha256 b)) rows) {} = Inr plan" and
    ms: "ms = (\<Sum>w \<leftarrow> gp_waves plan. wave_wall_ms f w)"
    using scenario_wall_Some [OF assms(1)] unfolding f_def by blast
  note facts = schedule_facts [OF plan]
  have f: "f (eb_cell_id b) = sm_value wall scenario" if "(b, wall) \<in> set rows" for b wall
  proof -
    have "dget (map (\<lambda>(b, wall). (eb_cell_id b, wall)) rows) (eb_cell_id b) = Some wall"
      using that assms(2) by (intro map_of_is_SomeI) (auto simp: comp_def case_prod_unfold intro!: rev_image_eqI)
    then show ?thesis by (simp add: f_def)
  qed
  have "mset (map (\<lambda>a. item_id (ga_work_item a)) (plan_assignments plan)) = mset (map item_id items)"
    using arg_cong [OF facts(1), of "image_mset item_id"] by (simp add: multiset.map_comp comp_def)
  then have ids: "mset (map (\<lambda>a. item_id (ga_work_item a)) (plan_assignments plan)) = mset (map (\<lambda>(b, wall). eb_cell_id b) rows)"
    unfolding items .
  let ?xs = "map (\<lambda>a. f (item_id (ga_work_item a))) (plan_assignments plan)"
  have rows: "map f (map (\<lambda>(b, wall). eb_cell_id b) rows) = map (\<lambda>(b, wall). sm_value wall scenario) rows"
    using f by auto
  have xs: "mset ?xs = mset (map (\<lambda>(b, wall). sm_value wall scenario) rows)"
    using arg_cong [OF ids, of "image_mset f"] unfolding mset_map [symmetric] rows by (simp add: comp_def)
  have ne: "\<forall>w \<in> set (gp_waves plan). gw_assignments w \<noteq> []" using facts(2) by (simp add: good_wave_def)
  have pos: "\<forall>a \<in> set (plan_assignments plan). 0 \<le> f (item_id (ga_work_item a))"
  proof (intro ballI)
    fix a assume "a \<in> set (plan_assignments plan)"
    then have "f (item_id (ga_work_item a)) \<in> set ?xs" by simp
    then show "0 \<le> f (item_id (ga_work_item a))" unfolding mset_eq_setD [OF xs] using assms(3) by auto
  qed
  note bounds = waves_wall_bounds [OF ne pos]
  show "ms \<le> (\<Sum>(b, wall) \<leftarrow> rows. sm_value wall scenario)"
    using bounds(1) ms sum_mset_sum_list [of ?xs] sum_mset_sum_list [of "map (\<lambda>(b, wall). sm_value wall scenario) rows"]
    by (simp only: xs)
  show "sm_value wall scenario \<le> ms" if "(b, wall) \<in> set rows"
  proof -
    have "sm_value wall scenario \<in> set ?xs" unfolding mset_eq_setD [OF xs] using that by force
    then show ?thesis using bounds(2) ms by simp
  qed
qed

definition wall_ms_of :: "experiment_budget \<Rightarrow> budget_scenario \<Rightarrow> int" where
  "wall_ms_of b sc = (case wall_time b of Inr w \<Rightarrow> sm_value w sc | Inl _ \<Rightarrow> 0)"

lemma walls_zip:
  assumes "map_res wall_time bs = Inr ws"
  shows "length ws = length bs" "(b, w) \<in> set (zip bs ws) \<Longrightarrow> b \<in> set bs \<and> wall_time b = Inr w"
    "(\<Sum>(b, w) \<leftarrow> zip bs ws. sm_value w sc) = (\<Sum>b \<leftarrow> bs. wall_ms_of b sc)"
    "b \<in> set bs \<Longrightarrow> \<exists>w. (b, w) \<in> set (zip bs ws)"
    "map (\<lambda>(b, w). eb_cell_id b) (zip bs ws) = map eb_cell_id bs"
proof -
  have all: "length ws = length bs \<and> (\<forall>(b, w) \<in> set (zip bs ws). wall_time b = Inr w)
    \<and> (\<Sum>(b, w) \<leftarrow> zip bs ws. sm_value w sc) = (\<Sum>b \<leftarrow> bs. wall_ms_of b sc)"
    using assms by (induction bs arbitrary: ws) (auto simp: wall_ms_of_def)
  then show len: "length ws = length bs" by blast
  show "(b, w) \<in> set (zip bs ws) \<Longrightarrow> b \<in> set bs \<and> wall_time b = Inr w"
    using all by (auto dest: set_zip_leftD)
  show "(\<Sum>(b, w) \<leftarrow> zip bs ws. sm_value w sc) = (\<Sum>b \<leftarrow> bs. wall_ms_of b sc)" using all by blast
  show "b \<in> set bs \<Longrightarrow> \<exists>w. (b, w) \<in> set (zip bs ws)"
    using len by (metis in_set_impl_in_set_zip1)
  have "map (\<lambda>(b, w). eb_cell_id b) (zip bs ws) = map eb_cell_id (map fst (zip bs ws))"
    by (simp add: case_prod_unfold)
  with len show "map (\<lambda>(b, w). eb_cell_id b) (zip bs ws) = map eb_cell_id bs" by simp
qed

lemma estimate_wall_bounds:
  assumes "estimate_wall_time_from_scheduler registry sha budgets v e = Inr (Some w, reason)"
    "distinct (map eb_cell_id budgets)"
  shows "sm_value w sc \<le> (\<Sum>b \<leftarrow> budgets. wall_ms_of b sc)"
    "b \<in> set budgets \<Longrightarrow> wall_ms_of b sc \<le> sm_value w sc" "valid_ms w"
proof -
  let ?o = "sort_key eb_cell_id budgets"
  have mset: "mset ?o = mset budgets" by simp
  have sum: "(\<Sum>b \<leftarrow> ?o. wall_ms_of b sc) = (\<Sum>b \<leftarrow> budgets. wall_ms_of b sc)"
    by (metis mset_map mset_sort sum_mset_sum_list)
  have distinct: "distinct (map eb_cell_id ?o)"
    using assms(2) mset_eq_imp_distinct_iff [of "map eb_cell_id ?o" "map eb_cell_id budgets"] by simp
  from assms(1) obtain walls where walls: "map_res wall_time ?o = Inr walls"
    unfolding estimate_wall_time_from_scheduler_def Let_def rbind_eq_Inr by blast
  note z = walls_zip [OF walls]
  have pos: "\<forall>(b, w) \<in> set (zip ?o walls). 0 \<le> sm_value w sc" for sc
    using z(2) wall_time_Inr(1) valid_ms_nonneg by fastforce
  have dz: "distinct (map (\<lambda>(b, w). eb_cell_id b) (zip ?o walls))" using z(5) distinct by simp
  consider "budgets = []" "w = zero_milliseconds"
    | s where "\<And>sc. scenario_wall_ms s sha (zip ?o walls) sc = Inr (Some (sm_value w sc))" "valid_ms w"
  proof -
    assume a: "\<lbrakk>budgets = []; w = zero_milliseconds\<rbrakk> \<Longrightarrow> thesis"
      and b: "\<And>s. \<lbrakk>\<And>sc. scenario_wall_ms s sha (zip ?o walls) sc = Inr (Some (sm_value w sc)); valid_ms w\<rbrakk> \<Longrightarrow> thesis"
    show thesis
    proof (cases "budgets = []")
      case True
      with assms(1) show thesis by (intro a) (auto simp: estimate_wall_time_from_scheduler_def)
    next
      case False
      then have ne: "?o \<noteq> []" using mset by (metis mset_zero_iff)
      from assms(1) ne walls obtain s i j k where
        "scenario_wall_ms s sha (zip ?o walls) OPTIMISTIC = Inr (Some i)"
        "scenario_wall_ms s sha (zip ?o walls) REGISTERED = Inr (Some j)"
        "scenario_wall_ms s sha (zip ?o walls) QUOTA_ENVELOPE = Inr (Some k)"
        and w: "scenario_milliseconds_post_init \<lparr>sm_optimistic = i, sm_registered = j, sm_quota_envelope = k\<rparr> = Inr w"
        unfolding estimate_wall_time_from_scheduler_def Let_def walls rbind_Inr
        by (auto split: if_splits option.splits)
      then have "scenario_wall_ms s sha (zip ?o walls) sc = Inr (Some (sm_value w sc))" for sc
        by (cases sc) (auto simp: scenario_post_init_Inr)
      then show thesis using w by (intro b) (auto simp: scenario_post_init_Inr)
    qed
  qed
  then have "sm_value w sc \<le> (\<Sum>b \<leftarrow> budgets. wall_ms_of b sc)
    \<and> (b \<in> set budgets \<longrightarrow> wall_ms_of b sc \<le> sm_value w sc) \<and> valid_ms w"
  proof cases
    case 2
    note sb = scenario_wall_bounds [OF 2(1) dz pos]
    have "sm_value w sc \<le> (\<Sum>b \<leftarrow> budgets. wall_ms_of b sc)" using sb(1) [of sc] unfolding z(3) sum .
    moreover have "wall_ms_of b sc \<le> sm_value w sc" if "b \<in> set budgets"
    proof -
      from that obtain x where x: "(b, x) \<in> set (zip ?o walls)" using z(4) by auto
      then have "wall_ms_of b sc = sm_value x sc" using z(2) by (simp add: wall_ms_of_def)
      with sb(2) [OF x] show ?thesis by simp
    qed
    ultimately show ?thesis using 2(2) by blast
  qed simp
  then show "sm_value w sc \<le> (\<Sum>b \<leftarrow> budgets. wall_ms_of b sc)"
    "b \<in> set budgets \<Longrightarrow> wall_ms_of b sc \<le> sm_value w sc" "valid_ms w" by blast+
qed

section \<open>Reports\<close>

lemma truncate_totals:
  "bt_cells (budget_totals.truncate r) = bt_cells r"
  "bt_gpu_cell_units (budget_totals.truncate r) = bt_gpu_cell_units r"
  "bt_retry_allowance (budget_totals.truncate r) = bt_retry_allowance r"
  "bt_compute_gpu_ms (budget_totals.truncate r) = bt_compute_gpu_ms r"
  "bt_reserved_gpu_ms (budget_totals.truncate r) = bt_reserved_gpu_ms r"
  "bt_fixed_instance_billed_gpu_ms (budget_totals.truncate r) = bt_fixed_instance_billed_gpu_ms r"
  by (simp_all add: budget_totals.defs)

lemma groups_keys:
  "map_res (group_total rows) ks = Inr gs
     \<Longrightarrow> map (\<lambda>g. (gt_experiment g, gt_method g, gt_workload_class g, gt_topology g)) gs = ks"
  by (induction ks arbitrary: gs) (auto elim!: group_total_Inr)

lemma report_group_sums:
  assumes "map_res (group_total rows) (sorted_set (map group_key rows)) = Inr gs"
  shows "(\<Sum>g \<leftarrow> gs. bt_cells g) = int (length rows)"
    "(\<Sum>g \<leftarrow> gs. bt_gpu_cell_units g) = (\<Sum>b \<leftarrow> rows. eb_gpu_count b)"
    "(\<Sum>g \<leftarrow> gs. sm_value (bt_compute_gpu_ms g) sc) = (\<Sum>b \<leftarrow> rows. gpu_ms_of b sc)"
    "(\<Sum>g \<leftarrow> gs. sm_value (bt_reserved_gpu_ms g) sc) = (\<Sum>b \<leftarrow> rows. sm_value (eb_reserved_gpu_ms b) sc)"
    "(\<Sum>g \<leftarrow> gs. sm_value (bt_fixed_instance_billed_gpu_ms g) sc)
       = (\<Sum>b \<leftarrow> rows. sm_value (eb_fixed_instance_billed_gpu_ms b) sc)"
proof -
  have sums: "(\<Sum>g \<leftarrow> gs. F g) = (\<Sum>b \<leftarrow> rows. f b)"
    if "\<And>k g. group_total rows k = Inr g \<Longrightarrow> F g = (\<Sum>b \<leftarrow> filter (\<lambda>b. group_key b = k) rows. f b)" for F and f :: "experiment_budget \<Rightarrow> int"
    using groups_sum [OF assms that] sum_list_groups [of "sorted_set (map group_key rows)" group_key rows f] by simp
  show "(\<Sum>g \<leftarrow> gs. bt_cells g) = int (length rows)"
    using sums [of bt_cells "\<lambda>_. 1"] by (simp add: sum_list_triv) (metis group_total_Inr totals_of_Inr(1))
  show "(\<Sum>g \<leftarrow> gs. bt_gpu_cell_units g) = (\<Sum>b \<leftarrow> rows. eb_gpu_count b)"
    by (rule sums) (erule group_total_Inr, simp add: totals_of_Inr(2))
  show "(\<Sum>g \<leftarrow> gs. sm_value (bt_compute_gpu_ms g) sc) = (\<Sum>b \<leftarrow> rows. gpu_ms_of b sc)"
    by (rule sums) (erule group_total_Inr, simp add: totals_compute)
  show "(\<Sum>g \<leftarrow> gs. sm_value (bt_reserved_gpu_ms g) sc) = (\<Sum>b \<leftarrow> rows. sm_value (eb_reserved_gpu_ms b) sc)"
    by (rule sums) (erule group_total_Inr, simp add: totals_of_Inr(4))
  show "(\<Sum>g \<leftarrow> gs. sm_value (bt_fixed_instance_billed_gpu_ms g) sc)
       = (\<Sum>b \<leftarrow> rows. sm_value (eb_fixed_instance_billed_gpu_ms b) sc)"
    by (rule sums) (erule group_total_Inr, simp add: totals_of_Inr(5))
qed


lemma check_budget_row_Inr:
  assumes "check_budget_row registry inventory b = Inr ()" "eb_gpu_count b \<le> bi_gpu_count inventory"
  shows "sm_value (eb_fixed_instance_billed_gpu_ms b) sc = wall_ms_of b sc * bi_gpu_count inventory"
  using assms by (auto simp: check_budget_row_def wall_ms_of_def dest: sm_scale_Inr)

lemma schedule_estimate_Some:
  assumes "schedule_estimate registry sha rows inventory physical = Inr (Some w, reasons)"
  obtains v e reason where "resources_fit inventory rows"
    "estimate_wall_time_from_scheduler registry sha rows v e = Inr (Some w, reason)"
  using assms that by (auto simp: schedule_estimate_def split: if_splits option.splits)

section \<open>Type safety\<close>

lemma count_add_ok: "valid_count a \<Longrightarrow> valid_count b \<Longrightarrow> \<exists>c. count_add a b = Inr c \<and> valid_count c"
  by (auto simp: count_add_def valid_count_def expected_maximum_count_post_init_def require_nonnegative_int_def)

lemma sum_counts_ok: "\<forall>x \<in> set xs. valid_count x \<Longrightarrow> \<exists>t. sum_counts xs = Inr t \<and> valid_count t"
proof -
  have "valid_count acc \<Longrightarrow> \<forall>x \<in> set xs. valid_count x \<Longrightarrow> \<exists>t. count_from acc xs = Inr t \<and> valid_count t" for acc
  proof (induction xs arbitrary: acc)
    case (Cons x xs)
    then obtain c where "count_add acc x = Inr c" "valid_count c" using count_add_ok by (meson list.set_intros(1))
    with Cons show ?case by simp
  qed simp
  moreover have "valid_count zero_count"
    by (simp add: valid_count_def zero_count_def expected_maximum_count_post_init_def require_nonnegative_int_def)
  ultimately show "\<forall>x \<in> set xs. valid_count x \<Longrightarrow> \<exists>t. sum_counts xs = Inr t \<and> valid_count t"
    by (simp add: sum_counts_def)
qed

lemma hours_ok: "valid_ms s \<Longrightarrow> \<exists>h. hours_from_milliseconds s = Inr h"
  by (simp add: hours_from_milliseconds_def exact_scenario_hours_post_init_def require_nonnegative_int_def valid_ms_iff)

lemma sums_ok:
  assumes "\<forall>b \<in> set bs. valid_ms (f b)"
  obtains t where "sum_scenarios (map f bs) = Inr t" "valid_ms t"
  using sum_scenarios_ok [of "map f bs"] sum_scenarios_Inr(1) assms by auto

lemma computes_ok:
  "\<forall>b \<in> set bs. valid_budget b \<Longrightarrow> \<exists>cs. map_res compute_gpu_ms bs = Inr cs \<and> (\<forall>c \<in> set cs. valid_ms c)"
proof (induction bs)
  case (Cons b bs)
  then obtain c where "compute_gpu_ms b = Inr c" by (auto elim: valid_budget_gpu)
  with Cons show ?case by (auto elim: compute_gpu_ms_Inr)
qed simp

lemma totals_ok:
  assumes "\<forall>b \<in> set bs. valid_budget b"
  shows "\<exists>t. totals_of bs = Inr t"
proof -
  obtain cs where cs: "map_res compute_gpu_ms bs = Inr cs" "\<forall>c \<in> set cs. valid_ms c" using computes_ok [OF assms] by blast
  obtain compute where c: "sum_scenarios cs = Inr compute" "valid_ms compute"
    using sum_scenarios_ok [OF cs(2)] sum_scenarios_Inr(1) by blast
  have valid: "\<forall>b \<in> set bs. valid_ms (eb_reserved_gpu_ms b)" "\<forall>b \<in> set bs. valid_ms (eb_fixed_instance_billed_gpu_ms b)"
    "\<forall>b \<in> set bs. valid_ms (eb_request_deadline b)" using assms by (auto simp: valid_budget_def)
  obtain r where r: "sum_scenarios (map eb_reserved_gpu_ms bs) = Inr r" "valid_ms r" using valid(1) by (rule sums_ok)
  obtain f where f: "sum_scenarios (map eb_fixed_instance_billed_gpu_ms bs) = Inr f" "valid_ms f"
    using valid(2) by (rule sums_ok)
  obtain d where d: "sum_scenarios (map eb_request_deadline bs) = Inr d" using valid(3) by (rule sums_ok)
  have "\<exists>comps. component_totals bs = Inr comps"
    unfolding component_totals_def
  proof (rule map_res_total, rule ballI)
    fix p assume p: "p \<in> set additive_duration_fields"
    have "\<forall>b \<in> set bs. valid_ms (snd p b)"
      using assms p unfolding valid_budget_def list_all_iff case_prod_unfold by blast
    then obtain t where "sum_scenarios (map (snd p) bs) = Inr t" by (rule sums_ok)
    then show "\<exists>y. (case p of (name, field) \<Rightarrow> rbind (sum_scenarios (map field bs)) (\<lambda>t. Inr (name, t))) = Inr y"
      by (simp add: case_prod_unfold)
  qed
  then obtain comps where comps: "component_totals bs = Inr comps" ..
  obtain w k where w: "sum_counts (map eb_excluded_warmup_requests bs) = Inr w"
    and k: "sum_counts (map eb_output_tokens bs) = Inr k"
    using sum_counts_ok [of "map eb_excluded_warmup_requests bs"] sum_counts_ok [of "map eb_output_tokens bs"] assms
    by (auto simp: valid_budget_def)
  obtain h1 h2 h3 where "hours_from_milliseconds compute = Inr h1" "hours_from_milliseconds r = Inr h2"
    "hours_from_milliseconds f = Inr h3" using hours_ok [OF c(2)] hours_ok [OF r(2)] hours_ok [OF f(2)] by blast
  then show ?thesis by (simp add: totals_of_def cs(1) c(1) r(1) f(1) d comps w k)
qed

lemma gpu_ms_le:
  assumes "valid_budget b"
  shows "gpu_ms_of b sc \<le> sm_value (eb_reserved_gpu_ms b) sc"
    "gpu_ms_of b sc \<le> sm_value (eb_fixed_instance_billed_gpu_ms b) sc"
  using assms by (auto elim!: valid_budget_gpu simp: gpu_ms_of_def)


section \<open>Capacity\<close>

lemma by_cell_distinct: "distinct (map key rows) \<Longrightarrow> by_cell key rows = map (\<lambda>r. (key r, r)) rows"
proof -
  have "distinct (map key rows) \<Longrightarrow> set (map key rows) \<inter> set (dkeys d) = {}
    \<Longrightarrow> foldl (\<lambda>d r. dset (key r) r d) d rows = d @ map (\<lambda>r. (key r, r)) rows" for d
  proof (induction rows arbitrary: d)
    case (Cons r rows)
    have "dset (key r) r d = d @ [(key r, r)]" using Cons(3) by (simp add: dset_new)
    with Cons show ?case by simp
  qed simp
  from this [of "[]"] show "distinct (map key rows) \<Longrightarrow> by_cell key rows = map (\<lambda>r. (key r, r)) rows"
    by (simp add: by_cell_def)
qed

definition requirement_of :: "capacity_envelope \<Rightarrow> experiment_budget \<Rightarrow> cell_capacity_requirement" where
  "requirement_of e b = the (dget (by_cell cq_cell_id (ce_cell_requirements e)) (eb_cell_id b))"

end
