(* ===== verification/Dispatch_Laws.thy ===== *)
theory Dispatch_Laws
  imports Dispatch_Run Pool_Facts Budget_Laws
begin

text \<open>
  Laws of the dispatch engine: what a run of an assignment, of a wave and of the loop over the waves returns.
  Every receipt of the loop passes the validation of a later run (\<open>wave_ok\<close>, \<open>schedule_ok\<close>, \<open>run_waves_ok\<close>).
\<close>

section \<open>Well-formed inputs\<close>

definition valid_dispatch_plan :: "gpu_dispatch_plan \<Rightarrow> bool" where
  "valid_dispatch_plan p \<longleftrightarrow> gpu_dispatch_plan_post_init p = Inr p
     \<and> (\<forall>w \<in> set (gp_waves p). gpu_dispatch_wave_post_init w = Inr w)"

definition valid_wave_receipt :: "wave_receipt \<Rightarrow> bool" where
  "valid_wave_receipt w \<longleftrightarrow> wave_receipt_post_init w = Inr w
     \<and> (\<forall>r \<in> set (wr_assignment_receipts w). assignment_receipt_post_init r = Inr r)"

definition valid_schedule_receipt :: "schedule_receipt \<Rightarrow> bool" where
  "valid_schedule_receipt r \<longleftrightarrow> schedule_receipt_post_init r = Inr r
     \<and> (\<forall>w \<in> set (sr_wave_receipts r). valid_wave_receipt w)"

text \<open>The runner of an assignment executes the cell of that assignment.\<close>

definition runs_own_cell :: "dispatch_world \<Rightarrow> gpu_assignment \<Rightarrow> bool" where
  "runs_own_cell env a \<longleftrightarrow> (\<forall>n authority. ao_runner (dw_attempt env a n) = Inr authority
     \<longrightarrow> ta_cell_id authority = item_id (ga_work_item a))"

lemma valid_plan_waves:
  assumes "valid_dispatch_plan p" "i < length (gp_waves p)"
  shows "gw_wave_index (gp_waves p ! i) = int i" "gw_assignments (gp_waves p ! i) \<noteq> []"
    "distinct (map assignment_id (gw_assignments (gp_waves p ! i)))"
proof -
  have "map gw_wave_index (gp_waves p) = map int [0..<length (gp_waves p)]"
    using assms(1) by (simp add: valid_dispatch_plan_def gpu_dispatch_plan_post_init_def Let_def)
  then show "gw_wave_index (gp_waves p ! i) = int i" using assms(2) by (metis diff_zero length_map length_upt nth_map nth_upt add_0)
  have "gpu_dispatch_wave_post_init (gp_waves p ! i) = Inr (gp_waves p ! i)"
    using assms by (simp add: valid_dispatch_plan_def)
  then show "gw_assignments (gp_waves p ! i) \<noteq> []" "distinct (map assignment_id (gw_assignments (gp_waves p ! i)))"
    by (auto simp: gpu_dispatch_wave_post_init_def)
qed

section \<open>One attempt\<close>

lemma assignment_receipt_post_init_Inr: "assignment_receipt_post_init r = Inr r' \<Longrightarrow> r' = r"
  by (simp add: assignment_receipt_post_init_def)

lemma terminal_binding_post_init_Inr: "terminal_binding_post_init f b = Inr b' \<Longrightarrow> b' = b"
  by (simp add: terminal_binding_post_init_def)

lemma revalidate_Inr:
  assumes "revalidate f t registry inventory a b gpus = Inr binding"
  shows "tb_cell_id binding = ta_cell_id t" "tb_inventory_sha256 binding = gpu_inventory_sha256 inventory"
    "tb_physical_gpu_uuids binding = gpus" "tb_authority_sha256 binding = ta_sha256 t"
  using assms by (auto simp: revalidate_def dest!: terminal_binding_post_init_Inr)

text \<open>What the receipt of an attempt says, whatever its outcome.\<close>

definition attempt_recorded ::
  "execution_context \<Rightarrow> gpu_dispatch_plan \<Rightarrow> gpu_dispatch_wave \<Rightarrow> attempt \<Rightarrow> assignment_receipt \<Rightarrow> bool" where
  "attempt_recorded c plan wave t r \<longleftrightarrow> assignment_receipt_post_init r = Inr r
     \<and> ar_plan_sha256 r = plan_sha256 plan \<and> ar_wave_sha256 r = wave_sha256 wave
     \<and> ar_assignment_sha256 r = assignment_id (at_assignment t)
     \<and> ar_budget_sha256 r = experiment_budget_sha256 (at_budget t) \<and> ar_attempt r = at_number t
     \<and> ar_gpu_count r = int (length (ga_gpu_uuids (at_assignment t)))
     \<and> ar_fixed_instance_gpu_count r = fixed_count c
     \<and> (\<exists>s f. ar_intervals r = attempt_intervals t s f)
     \<and> ar_prior_attempt_receipt_sha256 r = map_option assignment_receipt_sha256 (at_prior t)"

lemma attempt_receipt_Inr:
  assumes "attempt_receipt c plan wave t s f outcome = Inr r"
  shows "attempt_recorded c plan wave t r" "ar_status r = SUCCEEDED \<longleftrightarrow> (\<exists>b. outcome = Inr b)"
    "ar_terminal_binding r = (case outcome of Inl _ \<Rightarrow> None | Inr b \<Rightarrow> Some b)"
proof -
  from assms obtain elapsed where
    r: "assignment_receipt_post_init
        \<lparr>ar_plan_sha256 = plan_sha256 plan, ar_wave_sha256 = wave_sha256 wave,
         ar_assignment_sha256 = assignment_id (at_assignment t),
         ar_budget_sha256 = experiment_budget_sha256 (at_budget t), ar_attempt = at_number t,
         ar_status = (case outcome of Inl _ \<Rightarrow> ASSIGNMENT_FAILED | Inr _ \<Rightarrow> SUCCEEDED),
         ar_terminal_receipt_sha256 = (case outcome of Inl _ \<Rightarrow> None | Inr b \<Rightarrow> Some (terminal_binding_sha256 b)),
         ar_terminal_binding = (case outcome of Inl _ \<Rightarrow> None | Inr b \<Rightarrow> Some b),
         ar_failure_sha256 = (case outcome of Inl f \<Rightarrow> Some f | Inr _ \<Rightarrow> None),
         ar_prior_attempt_receipt_sha256 = map_option assignment_receipt_sha256 (at_prior t),
         ar_gpu_count = int (length (ga_gpu_uuids (at_assignment t))), ar_fixed_instance_gpu_count = fixed_count c,
         ar_intervals = attempt_intervals t s f,
         ar_attributed_gpu_ns = elapsed * int (length (ga_gpu_uuids (at_assignment t))),
         ar_attributed_fixed_instance_gpu_ns = elapsed * fixed_count c,
         ar_accounting_semantics = ''per_assignment_attribution_not_schedule_ledger_v1''\<rparr> = Inr r"
    unfolding attempt_receipt_def Let_def rbind_eq_Inr by blast
  note eq = assignment_receipt_post_init_Inr [OF r]
  show "attempt_recorded c plan wave t r" using r unfolding attempt_recorded_def eq by auto
  show "ar_status r = SUCCEEDED \<longleftrightarrow> (\<exists>b. outcome = Inr b)" unfolding eq by (cases outcome) auto
  show "ar_terminal_binding r = (case outcome of Inl _ \<Rightarrow> None | Inr b \<Rightarrow> Some b)" unfolding eq by simp
qed

text \<open>A successful receipt carries the binding of its own assignment.\<close>

definition own_binding :: "execution_context \<Rightarrow> gpu_assignment \<Rightarrow> assignment_receipt \<Rightarrow> bool" where
  "own_binding c a r \<longleftrightarrow> (ar_status r = SUCCEEDED \<longrightarrow> (\<exists>b. ar_terminal_binding r = Some b
     \<and> tb_cell_id b = item_id (ga_work_item a) \<and> tb_inventory_sha256 b = gpu_inventory_sha256 (ex_inventory c)
     \<and> tb_physical_gpu_uuids b = ga_gpu_uuids a))"

lemma try_attempt_Inr:
  assumes "try_attempt c plan wave t answer s = Inr r"
    and "\<And>authority. ao_runner answer = Inr authority \<Longrightarrow> ta_cell_id authority = item_id (ga_work_item (at_assignment t))"
  shows "attempt_recorded c plan wave t r" "own_binding c (at_assignment t) r"
proof -
  from assms(1) obtain authority binding where authority: "ao_runner answer = Inr authority"
    and binding: "revalidate (ex_resolved c) authority (ex_registry c) (ex_inventory c)
      (assignment_id (at_assignment t)) (experiment_budget_sha256 (at_budget t)) (ga_gpu_uuids (at_assignment t)) = Inr binding"
    and r: "attempt_receipt c plan wave t s (ao_finished answer) (Inr binding) = Inr r"
    by (auto simp: try_attempt_def split: sum.splits)
  show "attempt_recorded c plan wave t r" by (rule attempt_receipt_Inr(1) [OF r])
  show "own_binding c (at_assignment t) r"
    using attempt_receipt_Inr(3) [OF r] revalidate_Inr [OF binding] assms(2) [OF authority] by (simp add: own_binding_def)
qed

lemma run_assignment_Inr:
  assumes "run_assignment env c plan wave t = Inr r" "runs_own_cell env (at_assignment t)"
  shows "attempt_recorded c plan wave t r" "own_binding c (at_assignment t) r"
proof -
  let ?answer = "dw_attempt env (at_assignment t) (at_number t)"
  from assms(1) obtain s where "(case try_attempt c plan wave t ?answer s of
               Inr receipt \<Rightarrow> Inr receipt
             | Inl error \<Rightarrow> attempt_receipt c plan wave t s (ao_caught ?answer)
                 (Inl (failure_sha256 t s (ao_caught ?answer) error))) = Inr r"
    by (auto simp: run_assignment_def Let_def simp del: sum.case_eq_if)
  then consider "try_attempt c plan wave t ?answer s = Inr r"
    | error where "attempt_receipt c plan wave t s (ao_caught ?answer)
        (Inl (failure_sha256 t s (ao_caught ?answer) error)) = Inr r"
    by (auto split: sum.splits)
  then have "attempt_recorded c plan wave t r \<and> own_binding c (at_assignment t) r"
  proof cases
    case 1
    with try_attempt_Inr assms(2) show ?thesis by (simp add: runs_own_cell_def)
  next
    case 2
    from attempt_receipt_Inr [OF 2] show ?thesis by (simp add: own_binding_def)
  qed
  then show "attempt_recorded c plan wave t r" "own_binding c (at_assignment t) r" by blast+
qed

section \<open>One wave\<close>

lemma by_cell_Some: "distinct (map key rows) \<Longrightarrow> r \<in> set rows \<Longrightarrow> dget (by_cell key rows) (key r) = Some r"
  by (simp add: by_cell_distinct map_of_eq_Some_iff comp_def)

text \<open>A row that the validation of a resumed receipt accepts for an assignment.\<close>

definition row_ok ::
  "execution_context \<Rightarrow> gpu_dispatch_plan \<Rightarrow> gpu_dispatch_wave \<Rightarrow> gpu_assignment \<Rightarrow> assignment_receipt \<Rightarrow> bool" where
  "row_ok c plan wave a r \<longleftrightarrow> assignment_receipt_post_init r = Inr r \<and> ar_assignment_sha256 r = assignment_id a
     \<and> check_assignment_row c plan wave a r = Inr ()"

lemma pending_attempt_Inr:
  assumes "pending_attempt c failed a = Inr t"
  shows "at_assignment t = a" "budget_of c a = Inr (at_budget t)"
    "at_prior t = dget (receipts_with ASSIGNMENT_FAILED failed) (assignment_id a)"
    "at_number t = (case at_prior t of None \<Rightarrow> 1 | Some p \<Rightarrow> ar_attempt p + 1)"
    "at_number t \<le> eb_retry_allowance (at_budget t) + 1"
  using assms by (auto simp: pending_attempt_def Let_def)

lemma recorded_row_ok:
  assumes "pending_attempt c failed a = Inr t" "attempt_recorded c plan wave t r" "own_binding c a r"
  shows "row_ok c plan wave a r"
proof -
  note p = pending_attempt_Inr [OF assms(1)]
  have "check_assignment_row c plan wave a r = Inr ()"
    using assms(2,3) p by (auto simp: check_assignment_row_def attempt_recorded_def own_binding_def)
  with assms(2) p(1) show ?thesis by (simp add: row_ok_def attempt_recorded_def)
qed

text \<open>
  What a run of a wave returns for an assignment: the receipt it already had, if that was a success, or a new
  attempt that continues the failed one.
\<close>

definition wave_row ::
  "execution_context \<Rightarrow> gpu_dispatch_plan \<Rightarrow> gpu_dispatch_wave \<Rightarrow> wave_receipt option \<Rightarrow> gpu_assignment
     \<Rightarrow> assignment_receipt \<Rightarrow> bool" where
  "wave_row c plan wave failed a r \<longleftrightarrow>
     (case dget (receipts_with SUCCEEDED failed) (assignment_id a) of
        Some kept \<Rightarrow> r = kept
      | None \<Rightarrow> (\<exists>t. pending_attempt c failed a = Inr t \<and> attempt_recorded c plan wave t r \<and> own_binding c a r))"

lemma task_group_Inr: "task_group task xs = Inr ys \<longleftrightarrow> map_res task xs = Inr ys"
  by (auto simp: task_group_def split: sum.splits)

lemma make_wave_receipt_Inr:
  assumes "make_wave_receipt c plan wave rows = Inr w"
  shows "wave_receipt_post_init w = Inr w" "wr_plan_sha256 w = plan_sha256 plan"
    "wr_wave_index w = gw_wave_index wave" "wr_wave_sha256 w = wave_sha256 wave" "wr_assignment_receipts w = rows"
    "wr_inventory_sha256 w = gpu_inventory_sha256 (ex_inventory c)" "wr_fixed_instance_gpu_count w = fixed_count c"
proof -
  have same: "wave_receipt_post_init x = Inr y \<Longrightarrow> y = x" for x y by (auto simp: wave_receipt_post_init_def)
  from assms obtain intervals union_ns where
    w: "wave_receipt_post_init
       \<lparr>wr_plan_sha256 = plan_sha256 plan, wr_wave_index = gw_wave_index wave, wr_wave_sha256 = wave_sha256 wave,
        wr_assignment_receipts = rows, wr_inventory_sha256 = gpu_inventory_sha256 (ex_inventory c),
        wr_fixed_instance_gpu_count = fixed_count c, wr_active_intervals = intervals,
        wr_billed_gpu_ns = union_ns * fixed_count c,
        wr_attributed_gpu_ns = sum_list (map ar_attributed_gpu_ns rows),
        wr_attributed_fixed_instance_gpu_ns = sum_list (map ar_attributed_fixed_instance_gpu_ns rows),
        wr_accounting_semantics = ''interval_union_schedule_ledger_v1''\<rparr> = Inr w"
    unfolding make_wave_receipt_def rbind_eq_Inr by blast
  note eq = same [OF w]
  show "wave_receipt_post_init w = Inr w" using w unfolding eq .
  show "wr_plan_sha256 w = plan_sha256 plan" "wr_wave_index w = gw_wave_index wave"
    "wr_wave_sha256 w = wave_sha256 wave" "wr_assignment_receipts w = rows"
    "wr_inventory_sha256 w = gpu_inventory_sha256 (ex_inventory c)" "wr_fixed_instance_gpu_count w = fixed_count c"
    unfolding eq by simp_all
qed

lemma map_res_nth: "map_res f xs = Inr ys \<Longrightarrow> length ys = length xs \<and> (\<forall>i < length xs. f (xs ! i) = Inr (ys ! i))"
  by (simp add: map_res_Inr list_all2_conv_all_nth)

lemma dget_zip_nth:
  assumes "distinct (map f xs)" "length ys = length xs" "i < length xs"
  shows "dget (zip (map f xs) ys) (f (xs ! i)) = Some (ys ! i)"
proof (rule map_of_is_SomeI)
  show "distinct (map fst (zip (map f xs) ys))" using assms by simp
  show "(f (xs ! i), ys ! i) \<in> set (zip (map f xs) ys)" using assms by (auto simp: in_set_zip intro!: exI [of _ i])
qed

lemma run_wave_rows:
  assumes "run_wave env c plan wave failed = Inr w" "distinct (map assignment_id (gw_assignments wave))"
    "\<forall>a \<in> set (gw_assignments wave). runs_own_cell env a"
  obtains rows where "make_wave_receipt c plan wave rows = Inr w"
    "list_all2 (wave_row c plan wave failed) (gw_assignments wave) rows"
proof -
  define kept where "kept a = dget (receipts_with SUCCEEDED failed) (assignment_id a)" for a
  define open_assignments where "open_assignments = filter (\<lambda>a. kept a = None) (gw_assignments wave)"
  from assms(1) obtain pending results where
    pending: "map_res (pending_attempt c failed) open_assignments = Inr pending" and
    results: "map_res (run_assignment env c plan wave) pending = Inr results" and
    w: "make_wave_receipt c plan wave
       (map (\<lambda>a. case kept a of Some receipt \<Rightarrow> receipt
          | None \<Rightarrow> the (dget (zip (map (\<lambda>t. assignment_id (at_assignment t)) pending) results) (assignment_id a)))
         (gw_assignments wave)) = Inr w"
    unfolding run_wave_def pending_attempts_def rbind_eq_Inr task_group_Inr kept_def open_assignments_def by blast
  note pn = map_res_nth [OF pending] and rn = map_res_nth [OF results]
  have "at_assignment (pending ! i) = open_assignments ! i" if "i < length open_assignments" for i
    using pn that pending_attempt_Inr(1) by blast
  then have "map at_assignment pending = open_assignments" using pn by (intro nth_equalityI) simp_all
  then have ids: "map (\<lambda>t. assignment_id (at_assignment t)) pending = map assignment_id open_assignments"
    by (metis (no_types, lifting) map_map comp_apply map_eq_conv)
  have distinct: "distinct (map assignment_id open_assignments)"
    unfolding open_assignments_def by (rule distinct_map_filter [OF assms(2)])
  have row: "wave_row c plan wave failed a (case kept a of Some receipt \<Rightarrow> receipt
      | None \<Rightarrow> the (dget (zip (map assignment_id open_assignments) results) (assignment_id a)))"
    if a: "a \<in> set (gw_assignments wave)" for a
  proof (cases "kept a")
    case None
    then have "a \<in> set open_assignments" using a by (simp add: open_assignments_def)
    then obtain i where i: "i < length open_assignments" "open_assignments ! i = a" by (metis in_set_conv_nth)
    have t: "pending_attempt c failed a = Inr (pending ! i)" using pn i by blast
    have r: "run_assignment env c plan wave (pending ! i) = Inr (results ! i)" using rn pn i(1) by metis
    have "at_assignment (pending ! i) = a" by (rule pending_attempt_Inr(1) [OF t])
    then have "attempt_recorded c plan wave (pending ! i) (results ! i)" "own_binding c a (results ! i)"
      using run_assignment_Inr [OF r] assms(3) a by simp_all
    moreover have "dget (zip (map assignment_id open_assignments) results) (assignment_id a) = Some (results ! i)"
      using dget_zip_nth [OF distinct _ i(1), of results] pn rn i(2) by simp
    ultimately show ?thesis using None t unfolding wave_row_def kept_def by auto
  qed (simp add: wave_row_def kept_def)
  show thesis
    by (rule that [OF w [unfolded ids]]) (simp add: list.rel_map row list.rel_refl_strong)
qed

section \<open>Receipts that a later run accepts\<close>

definition wave_ok :: "execution_context \<Rightarrow> gpu_dispatch_plan \<Rightarrow> gpu_dispatch_wave \<Rightarrow> wave_receipt \<Rightarrow> bool" where
  "wave_ok c plan wave w \<longleftrightarrow> valid_wave_receipt w \<and> wr_wave_index w = gw_wave_index wave
     \<and> validate_wave_receipt c plan wave w = Inr ()"

lemma wave_ok_row:
  assumes "wave_ok c plan wave w" "r \<in> set (wr_assignment_receipts w)" "distinct (map assignment_id (gw_assignments wave))"
    "a \<in> set (gw_assignments wave)" "ar_assignment_sha256 r = assignment_id a"
  shows "row_ok c plan wave a r"
proof -
  have "check_assignment_row c plan wave
      (the (dget (by_cell assignment_id (gw_assignments wave)) (ar_assignment_sha256 r))) r = Inr ()"
    using assms(1,2) by (simp add: wave_ok_def validate_wave_receipt_def)
  then have "check_assignment_row c plan wave a r = Inr ()"
    using by_cell_Some [OF assms(3,4)] assms(5) by simp
  moreover have "assignment_receipt_post_init r = Inr r" using assms(1,2) by (simp add: wave_ok_def valid_wave_receipt_def)
  ultimately show ?thesis using assms(5) by (simp add: row_ok_def)
qed

lemma receipts_with_Some:
  assumes "dget (receipts_with status failed) key = Some r"
  obtains f where "failed = Some f" "r \<in> set (wr_assignment_receipts f)" "ar_status r = status" "ar_assignment_sha256 r = key"
  using assms that by (auto simp: receipts_with_def split: option.splits dest: by_cell_get)

lemma wave_row_ok:
  assumes "wave_row c plan wave failed a r" "a \<in> set (gw_assignments wave)"
    "distinct (map assignment_id (gw_assignments wave))" "\<And>f. failed = Some f \<Longrightarrow> wave_ok c plan wave f"
  shows "row_ok c plan wave a r"
proof (cases "dget (receipts_with SUCCEEDED failed) (assignment_id a)")
  case None
  with assms(1) obtain t where "pending_attempt c failed a = Inr t" "attempt_recorded c plan wave t r" "own_binding c a r"
    by (auto simp: wave_row_def)
  then show ?thesis by (rule recorded_row_ok)
next
  case (Some kept)
  with assms(1) have "r = kept" by (simp add: wave_row_def)
  with Some show ?thesis using assms(2-4) wave_ok_row by (blast elim: receipts_with_Some)
qed

lemma rows_validate:
  assumes "make_wave_receipt c plan wave rows = Inr w" "list_all2 (row_ok c plan wave) (gw_assignments wave) rows"
    "distinct (map assignment_id (gw_assignments wave))"
  shows "wave_ok c plan wave w"
proof -
  note m = make_wave_receipt_Inr [OF assms(1)]
  have ids: "map ar_assignment_sha256 rows = map assignment_id (gw_assignments wave)"
    using assms(2) by (auto simp: list_all2_conv_all_nth row_ok_def intro!: nth_equalityI)
  have row: "\<exists>a \<in> set (gw_assignments wave). row_ok c plan wave a r" if "r \<in> set rows" for r
    using assms(2) that by (metis list_all2_conv_all_nth in_set_conv_nth)
  have "check_assignment_row c plan wave
      (the (dget (by_cell assignment_id (gw_assignments wave)) (ar_assignment_sha256 r))) r = Inr ()"
    if "r \<in> set rows" for r
    using row [OF that] by_cell_Some [OF assms(3)] by (auto simp: row_ok_def)
  then have "validate_wave_receipt c plan wave w = Inr ()"
    using m ids by (simp add: validate_wave_receipt_def flip: set_map)
  moreover have "valid_wave_receipt w" using m row by (auto simp: valid_wave_receipt_def row_ok_def)
  ultimately show ?thesis using m(3) by (simp add: wave_ok_def)
qed

lemma run_wave_ok:
  assumes "run_wave env c plan wave failed = Inr w" "distinct (map assignment_id (gw_assignments wave))"
    "\<forall>a \<in> set (gw_assignments wave). runs_own_cell env a" "\<And>f. failed = Some f \<Longrightarrow> wave_ok c plan wave f"
  shows "wave_ok c plan wave w" "list_all2 (wave_row c plan wave failed) (gw_assignments wave) (wr_assignment_receipts w)"
proof -
  from assms(1-3) obtain rows where rows: "make_wave_receipt c plan wave rows = Inr w"
    "list_all2 (wave_row c plan wave failed) (gw_assignments wave) rows" by (rule run_wave_rows)
  then have "list_all2 (row_ok c plan wave) (gw_assignments wave) rows"
    by (auto simp: list_all2_conv_all_nth intro!: wave_row_ok [OF _ _ assms(2)] assms(4))
  from rows_validate [OF rows(1) this assms(2)] show "wave_ok c plan wave w" .
  show "list_all2 (wave_row c plan wave failed) (gw_assignments wave) (wr_assignment_receipts w)"
    using rows make_wave_receipt_Inr(5) by metis
qed

section \<open>The loop over the waves\<close>

definition schedule_ok :: "execution_context \<Rightarrow> gpu_dispatch_plan \<Rightarrow> schedule_receipt \<Rightarrow> bool" where
  "schedule_ok c plan r \<longleftrightarrow> valid_schedule_receipt r \<and> validate_dispatch_resume_structure c plan r = Inr ()"

lemma make_schedule_receipt_Inr:
  assumes "make_schedule_receipt c plan phase waves prior = Inr r"
  shows "schedule_receipt_post_init r = Inr r" "sr_plan_sha256 r = plan_sha256 plan" "sr_phase r = phase"
    "sr_wave_receipts r = waves" "sr_inventory_sha256 r = gpu_inventory_sha256 (ex_inventory c)"
    "sr_fixed_instance_gpu_count r = fixed_count c"
proof -
  have same: "schedule_receipt_post_init x = Inr y \<Longrightarrow> y = x" for x y by (auto simp: schedule_receipt_post_init_def Let_def)
  from assms obtain intervals union_ns where
    r: "schedule_receipt_post_init
       \<lparr>sr_plan_sha256 = plan_sha256 plan, sr_phase = phase, sr_wave_receipts = waves,
        sr_inventory_sha256 = gpu_inventory_sha256 (ex_inventory c), sr_fixed_instance_gpu_count = fixed_count c,
        sr_active_intervals = intervals, sr_billed_gpu_ns = union_ns * fixed_count c,
        sr_attributed_gpu_ns = sum_list (map wr_attributed_gpu_ns waves),
        sr_attributed_fixed_instance_gpu_ns = sum_list (map wr_attributed_fixed_instance_gpu_ns waves),
        sr_prior_schedule_receipt_sha256 = prior,
        sr_accounting_semantics = ''interval_union_schedule_ledger_v1''\<rparr> = Inr r"
    unfolding make_schedule_receipt_def rbind_eq_Inr by blast
  note eq = same [OF r]
  show "schedule_receipt_post_init r = Inr r" using r unfolding eq .
  show "sr_plan_sha256 r = plan_sha256 plan" "sr_phase r = phase" "sr_wave_receipts r = waves"
    "sr_inventory_sha256 r = gpu_inventory_sha256 (ex_inventory c)" "sr_fixed_instance_gpu_count r = fixed_count c"
    unfolding eq by simp_all
qed

text \<open>The receipts of a prefix of the waves, all validated; the phase that goes with it.\<close>

definition prefix_ok :: "execution_context \<Rightarrow> gpu_dispatch_plan \<Rightarrow> wave_receipt list \<Rightarrow> bool" where
  "prefix_ok c plan ws \<longleftrightarrow> length ws \<le> length (gp_waves plan)
     \<and> (\<forall>i < length ws. wave_ok c plan (gp_waves plan ! i) (ws ! i))"

definition phase_of :: "gpu_dispatch_plan \<Rightarrow> wave_receipt list \<Rightarrow> dispatch_phase" where
  "phase_of plan ws =
     (if \<not> list_all wave_succeeded ws then FAILED
      else if length ws = length (gp_waves plan) then COMPLETE else RUNNING)"

lemma list_all_butlast_last:
  "xs \<noteq> [] \<Longrightarrow> list_all P xs \<longleftrightarrow> list_all P (butlast xs) \<and> P (last xs)"
  by (cases xs rule: rev_cases) auto

lemma resume_phase_check_iff:
  assumes "sr_phase r \<noteq> PLANNED" "length (sr_wave_receipts r) \<le> length (gp_waves plan)"
  shows "resume_phase_check plan r = Inr () \<longleftrightarrow> list_all wave_succeeded (butlast (sr_wave_receipts r))
     \<and> (sr_wave_receipts r \<noteq> [] \<or> gp_waves plan = []) \<and> sr_phase r = phase_of plan (sr_wave_receipts r)"
proof -
  have ids: "list_all id (map wave_succeeded ws) = list_all wave_succeeded ws"
    "list_all id (butlast (map wave_succeeded ws)) = list_all wave_succeeded (butlast ws)" for ws
    by (simp_all add: list.pred_map map_butlast [symmetric] comp_def)
  show ?thesis
  proof (cases "sr_wave_receipts r = []")
    case True
    then show ?thesis using assms by (cases "sr_phase r") (auto simp: resume_phase_check_def phase_of_def)
  next
    case False
    then show ?thesis
      using assms list_all_butlast_last [OF False, of wave_succeeded]
      by (cases "sr_phase r") (auto simp: resume_phase_check_def phase_of_def Let_def ids)
  qed
qed

lemma prefix_ok_iff:
  assumes "valid_dispatch_plan plan" "map wr_wave_index ws = map int [0..<length ws]" "length ws \<le> length (gp_waves plan)"
  shows "prefix_ok c plan ws \<longleftrightarrow> (\<forall>w \<in> set ws. valid_wave_receipt w)
     \<and> check_all (\<lambda>w. validate_wave_receipt c plan (gp_waves plan ! nat (wr_wave_index w)) w) ws = Inr ()"
proof -
  have index: "wr_wave_index (ws ! i) = int i" if "i < length ws" for i
    using assms(2) that by (metis add_0 diff_zero length_map length_upt nth_map nth_upt)
  have "wave_ok c plan (gp_waves plan ! i) (ws ! i) \<longleftrightarrow> valid_wave_receipt (ws ! i)
      \<and> validate_wave_receipt c plan (gp_waves plan ! nat (wr_wave_index (ws ! i))) (ws ! i) = Inr ()"
    if "i < length ws" for i
    using index [OF that] valid_plan_waves(1) [OF assms(1)] that assms(3) by (simp add: wave_ok_def)
  then show ?thesis using assms(3) by (simp add: prefix_ok_def all_set_conv_all_nth) blast
qed

lemma schedule_ok_iff:
  assumes "valid_dispatch_plan plan" "ex_validate_plan c plan = Inr ()"
  shows "schedule_ok c plan r \<longleftrightarrow> schedule_receipt_post_init r = Inr r \<and> sr_plan_sha256 r = plan_sha256 plan
     \<and> sr_inventory_sha256 r = gpu_inventory_sha256 (ex_inventory c) \<and> sr_fixed_instance_gpu_count r = fixed_count c
     \<and> prefix_ok c plan (sr_wave_receipts r) \<and> list_all wave_succeeded (butlast (sr_wave_receipts r))
     \<and> (sr_wave_receipts r \<noteq> [] \<or> gp_waves plan = []) \<and> sr_phase r = phase_of plan (sr_wave_receipts r)"
proof (cases "schedule_receipt_post_init r = Inr r \<and> length (sr_wave_receipts r) \<le> length (gp_waves plan)")
  case True
  then have index: "map wr_wave_index (sr_wave_receipts r) = map int [0..<length (sr_wave_receipts r)]"
    and phase: "sr_phase r \<noteq> PLANNED"
    by (auto simp: schedule_receipt_post_init_def schedule_phase_check_def Let_def)
  show ?thesis
    unfolding schedule_ok_def valid_schedule_receipt_def validate_dispatch_resume_structure_def rbind_unit raise_if_Inr
      assms(2) resume_phase_check_iff [OF phase True [THEN conjunct2]]
      prefix_ok_iff [OF assms(1) index True [THEN conjunct2]]
    using True by auto
next
  case False
  then show ?thesis
    by (auto simp: schedule_ok_def valid_schedule_receipt_def validate_dispatch_resume_structure_def prefix_ok_def)
qed

lemma prefix_ok_snoc:
  "prefix_ok c plan (ws @ [w]) \<longleftrightarrow> prefix_ok c plan ws \<and> length ws < length (gp_waves plan)
     \<and> wave_ok c plan (gp_waves plan ! length ws) w"
  by (auto simp: prefix_ok_def nth_append less_Suc_eq)

text \<open>What the loop needs at its head, and what it returns.\<close>

definition ready_state :: "gpu_dispatch_plan \<Rightarrow> dispatch_state \<Rightarrow> wave_receipt list \<Rightarrow> bool" where
  "ready_state plan s priors \<longleftrightarrow> ds_phase s = RUNNING \<and> ds_plan_sha256 s = plan_sha256 plan
     \<and> ds_next_wave_index s = int (length priors)"

lemma ds_accept_Inr:
  assumes "ds_accept s w n = Inr s'"
  shows "ds_phase s' = (if \<not> wave_succeeded w then FAILED else if ds_next_wave_index s + 1 = n then COMPLETE else RUNNING)"
    "ds_plan_sha256 s' = ds_plan_sha256 s" "ds_next_wave_index s' = ds_next_wave_index s + 1"
  using assms by (auto simp: ds_accept_def dispatch_state_post_init_def)

lemma run_waves_ok:
  assumes "valid_dispatch_plan plan" "ex_validate_plan c plan = Inr ()"
    "\<forall>a \<in> set (plan_assignments plan). runs_own_cell env a"
  shows "run_waves env c plan ws failed s priors current = Inr r
    \<Longrightarrow> \<exists>k. ws = take k (drop (length priors) (gp_waves plan)) \<Longrightarrow> prefix_ok c plan priors
    \<Longrightarrow> list_all wave_succeeded priors \<Longrightarrow> ready_state plan s priors
    \<Longrightarrow> (\<And>f. failed = Some f \<Longrightarrow> wr_wave_index f = int (length priors)
           \<and> wave_ok c plan (gp_waves plan ! length priors) f)
    \<Longrightarrow> (ws = [] \<Longrightarrow> \<exists>x. current = Some x \<and> schedule_ok c plan x)
    \<Longrightarrow> schedule_ok c plan r"
proof (induction ws arbitrary: failed s priors current)
  case Nil
  then show ?case by auto
next
  case (Cons wave rest)
  from Cons.prems(2) obtain k where k: "wave # rest = take k (drop (length priors) (gp_waves plan))" ..
  then have lt: "length priors < length (gp_waves plan)" by (metis drop_all leI list.distinct(1) take_Nil)
  have wave: "wave = gp_waves plan ! length priors"
    and rest: "rest = take (k - 1) (drop (Suc (length priors)) (gp_waves plan))"
    using k lt by (cases k; auto simp: Cons_nth_drop_Suc [symmetric])+
  note w = valid_plan_waves [OF assms(1) lt, folded wave]
  define repeated where "repeated = (case failed of None \<Rightarrow> None
      | Some f \<Rightarrow> if gw_wave_index wave = wr_wave_index f then Some f else None)"
  have repeated: "repeated = failed" using Cons.prems(6) w(1) by (auto simp: repeated_def split: option.splits)
  from Cons.prems(1) obtain receipt state schedule where
    receipt: "run_wave env c plan wave repeated = Inr receipt" and
    state: "ds_accept s receipt (int (length (gp_waves plan))) = Inr state" and
    schedule: "make_schedule_receipt c plan (ds_phase state) (priors @ [receipt])
      (map_option schedule_receipt_sha256 current) = Inr schedule" and
    r: "(if ds_phase state = FAILED then Inr schedule
        else run_waves env c plan rest (if repeated = None then failed else None) state (priors @ [receipt])
             (Some schedule)) = Inr r"
    unfolding run_waves.simps Let_def rbind_eq_Inr repeated_def by blast
  have own: "\<forall>a \<in> set (gw_assignments wave). runs_own_cell env a"
    using assms(3) lt wave by auto
  have ok: "wave_ok c plan wave receipt"
    using run_wave_ok(1) [OF receipt w(3) own] repeated Cons.prems(6) wave by simp
  have prefix: "prefix_ok c plan (priors @ [receipt])" using Cons.prems(3) lt ok wave by (simp add: prefix_ok_snoc)
  note st = ds_accept_Inr [OF state] and sch = make_schedule_receipt_Inr [OF schedule]
  have next_index: "ds_next_wave_index s = int (length priors)" using Cons.prems(5) by (simp add: ready_state_def)
  have phase: "ds_phase state = phase_of plan (priors @ [receipt])"
    using st(1) Cons.prems(4) next_index by (auto simp: phase_of_def)
  have sok: "schedule_ok c plan schedule"
    unfolding schedule_ok_iff [OF assms(1,2)] using sch prefix phase Cons.prems(4) by simp
  show ?case
  proof (cases "ds_phase state = FAILED")
    case True
    with r sok show ?thesis by simp
  next
    case False
    with phase have succeeded: "list_all wave_succeeded (priors @ [receipt])" by (auto simp: phase_of_def split: if_splits)
    have run: "run_waves env c plan rest None state (priors @ [receipt]) (Some schedule) = Inr r"
      using r False repeated by (auto split: if_splits)
    have "rest \<noteq> [] \<Longrightarrow> ds_phase state = RUNNING"
      using phase succeeded rest by (auto simp: phase_of_def)
    show ?thesis
    proof (cases "rest = []")
      case True
      with run sok show ?thesis by simp
    next
      case False
      show ?thesis
      proof (rule Cons.IH [OF run])
        show "\<exists>k. rest = take k (drop (length (priors @ [receipt])) (gp_waves plan))" using rest by auto
        have "length (priors @ [receipt]) < length (gp_waves plan)" using rest False by (metis drop_all leI length_append_singleton take_Nil)
        then show "ready_state plan state (priors @ [receipt])"
          using st phase succeeded Cons.prems(5) by (simp add: ready_state_def phase_of_def)
      qed (use prefix succeeded sok in simp_all)
    qed
  qed
qed

end
