(* ===== verification/Dispatch_Resume.thy ===== *)
theory Dispatch_Resume
  imports Dispatch_Laws
begin

text \<open>
  Whole runs of the dispatch engine: the ways a run returns, that its receipt can be resumed
  (\<open>execute_ok\<close>), and what a resumed run keeps of the receipt it starts from (\<open>resume_extends\<close>).
\<close>

section \<open>Whole runs\<close>

lemma resume_point_ok:
  assumes "valid_dispatch_plan plan" "ex_validate_plan c plan = Inr ()"
    "\<And>r. resume = Some r \<Longrightarrow> schedule_ok c plan r \<and> sr_phase r \<noteq> COMPLETE"
    "resume_point resume = (priors, failed, start)"
  shows "start = int (length priors)" "prefix_ok c plan priors" "list_all wave_succeeded priors"
    "\<And>f. failed = Some f \<Longrightarrow> wr_wave_index f = int (length priors) \<and> wave_ok c plan (gp_waves plan ! length priors) f"
    "resume \<noteq> None \<Longrightarrow> length priors < length (gp_waves plan)"
proof -
  have "start = int (length priors) \<and> prefix_ok c plan priors \<and> list_all wave_succeeded priors
    \<and> (\<forall>f. failed = Some f \<longrightarrow> wr_wave_index f = int (length priors) \<and> wave_ok c plan (gp_waves plan ! length priors) f)
    \<and> (resume \<noteq> None \<longrightarrow> length priors < length (gp_waves plan))"
  proof (cases resume)
    case None
    with assms(4) show ?thesis by (simp add: resume_point_def prefix_ok_def)
  next
    case (Some r)
    note ok = assms(3) [OF Some, unfolded schedule_ok_iff [OF assms(1,2)]]
    let ?ws = "sr_wave_receipts r"
    show ?thesis
    proof (cases "sr_phase r = FAILED")
      case True
      then have fail: "\<not> list_all wave_succeeded ?ws" using ok by (auto simp: phase_of_def split: if_splits)
      then have ne: "?ws \<noteq> []" by auto
      then have ws: "?ws = butlast ?ws @ [last ?ws]" by simp
      have "prefix_ok c plan (butlast ?ws @ [last ?ws])" using ok ws by simp
      note snoc = this [unfolded prefix_ok_snoc]
      have "gw_wave_index (gp_waves plan ! length (butlast ?ws)) = int (length (butlast ?ws))"
        using snoc valid_plan_waves(1) [OF assms(1)] by blast
      with snoc have "wr_wave_index (last ?ws) = int (length (butlast ?ws))" by (simp add: wave_ok_def)
      then show ?thesis using assms(4) True snoc ok Some by (auto simp: resume_point_def)
    next
      case False
      then have all: "list_all wave_succeeded ?ws" "length ?ws \<noteq> length (gp_waves plan)"
        using ok by (auto simp: phase_of_def split: if_splits)
      then show ?thesis using assms(4) False ok Some by (auto simp: resume_point_def prefix_ok_def)
    qed
  qed
  then show "start = int (length priors)" "prefix_ok c plan priors" "list_all wave_succeeded priors"
    "\<And>f. failed = Some f \<Longrightarrow> wr_wave_index f = int (length priors) \<and> wave_ok c plan (gp_waves plan ! length priors) f"
    "resume \<noteq> None \<Longrightarrow> length priors < length (gp_waves plan)" by blast+
qed

text \<open>The ways a run returns: it had nothing left to do, there is nothing to do at all, or the loop returned.\<close>

lemma execute_cases:
  assumes "execute_dispatch_plan env c plan resume replay stop = Inr r"
  obtains (complete) "resume = Some r" "sr_phase r = COMPLETE" "validate_dispatch_resume c plan r replay = Inr ()"
      "ex_validate_plan c plan = Inr ()"
  | (empty) "gp_waves plan = []" "make_schedule_receipt c plan COMPLETE [] (map_option schedule_receipt_sha256 resume) = Inr r"
      "ex_validate_plan c plan = Inr ()"
      "\<And>x. resume = Some x \<Longrightarrow> sr_phase x \<noteq> COMPLETE \<and> validate_dispatch_resume c plan x replay = Inr ()"
  | (waves) priors failed start s k where "resume_point resume = (priors, failed, start)" "gp_waves plan \<noteq> []"
      "\<And>x. resume = Some x \<Longrightarrow> sr_phase x \<noteq> COMPLETE \<and> validate_dispatch_resume c plan x replay = Inr ()"
      "ex_validate_plan c plan = Inr ()" "ds_phase s = RUNNING" "ds_plan_sha256 s = plan_sha256 plan"
      "ds_next_wave_index s = start" "0 < k \<or> \<not> start < int (length (gp_waves plan))"
      "run_waves env c plan (take k (drop (nat start) (gp_waves plan))) failed s priors resume = Inr r"
      "stop = None \<longrightarrow> k = nat (int (length (gp_waves plan)) - start)"
proof -
  obtain priors failed start where point: "resume_point resume = (priors, failed, start)" by (metis prod_cases3)
  define last_wave where "last_wave = (case stop of None \<Rightarrow> int (length (gp_waves plan)) - 1 | Some n \<Rightarrow> n)"
  from assms have valid: "ex_validate_plan c plan = Inr ()"
    and resumed: "(case resume of None \<Rightarrow> Inr () | Some r \<Rightarrow> validate_dispatch_resume c plan r replay) = Inr ()"
    unfolding execute_dispatch_plan_def rbind_unit by blast+
  from assms have rest: "(if map_option sr_phase resume = Some COMPLETE then Inr (the resume)
      else rbind (case stop of None \<Rightarrow> Inr ()
             | Some n \<Rightarrow> raise_if (n < start)
                 (ValueError ''dispatch stop wave precedes the receipt-authorized prefix'')) (\<lambda>_.
      if gp_waves plan = []
      then make_schedule_receipt c plan COMPLETE [] (map_option schedule_receipt_sha256 resume)
      else
      rbind (rbind (dispatch_state_post_init
          \<lparr>ds_plan_sha256 = plan_sha256 plan, ds_phase = (if failed = None then PLANNED else FAILED),
           ds_next_wave_index = start, ds_wave_receipt_sha256 = map wave_receipt_sha256 priors\<rparr>)
        (\<lambda>s. ds_begin s (int (length (gp_waves plan))))) (\<lambda>state.
      run_waves env c plan (take (nat (last_wave + 1 - start)) (drop (nat start) (gp_waves plan)))
        failed state priors resume))) = Inr r"
    unfolding execute_dispatch_plan_def rbind_unit point last_wave_def Let_def prod.case by blast
  show thesis
  proof (cases "map_option sr_phase resume = Some COMPLETE")
    case True
    then obtain x where "resume = Some x" "sr_phase x = COMPLETE" by auto
    with rest resumed valid show thesis by (intro complete) simp_all
  next
    case False
    note rest = rest [unfolded if_not_P [OF False] rbind_unit]
    have open_resume: "sr_phase x \<noteq> COMPLETE \<and> validate_dispatch_resume c plan x replay = Inr ()" if "resume = Some x" for x
      using False resumed that by simp
    show thesis
    proof (cases "gp_waves plan = []")
      case True
      with rest valid show thesis using open_resume by (intro empty) simp_all
    next
      case False
      with rest obtain s where s: "rbind (dispatch_state_post_init
          \<lparr>ds_plan_sha256 = plan_sha256 plan, ds_phase = (if failed = None then PLANNED else FAILED),
           ds_next_wave_index = start, ds_wave_receipt_sha256 = map wave_receipt_sha256 priors\<rparr>)
        (\<lambda>s. ds_begin s (int (length (gp_waves plan)))) = Inr s"
        and run: "run_waves env c plan (take (nat (last_wave + 1 - start)) (drop (nat start) (gp_waves plan)))
          failed s priors resume = Inr r" by (auto simp del: run_waves.simps)
      have fields: "ds_phase s = RUNNING" "ds_plan_sha256 s = plan_sha256 plan" "ds_next_wave_index s = start"
        using s by (auto simp: ds_begin_def dispatch_state_post_init_def)
      have stop: "case stop of None \<Rightarrow> True | Some n \<Rightarrow> start \<le> n" using rest by (auto split: option.splits)
      show thesis
      proof (rule waves [OF point False _ valid fields _ run])
        show "0 < nat (last_wave + 1 - start) \<or> \<not> start < int (length (gp_waves plan))"
          using stop by (auto simp: last_wave_def split: option.splits)
        show "stop = None \<longrightarrow> nat (last_wave + 1 - start) = nat (int (length (gp_waves plan)) - start)"
          by (simp add: last_wave_def)
      qed (use open_resume in blast)
    qed
  qed
qed

lemma validate_resume_ok:
  "validate_dispatch_resume c plan r replay = Inr () \<Longrightarrow> valid_schedule_receipt r \<Longrightarrow> schedule_ok c plan r"
  by (simp add: schedule_ok_def validate_dispatch_resume_def)

lemma execute_ok:
  assumes "execute_dispatch_plan env c plan resume replay stop = Inr r" "valid_dispatch_plan plan"
    "\<forall>a \<in> set (plan_assignments plan). runs_own_cell env a" "\<And>x. resume = Some x \<Longrightarrow> valid_schedule_receipt x"
  shows "schedule_ok c plan r"
  using assms(1)
proof (cases rule: execute_cases)
  case complete
  then show ?thesis using validate_resume_ok assms(4) by blast
next
  case empty
  note m = make_schedule_receipt_Inr [OF empty(2)]
  show ?thesis unfolding schedule_ok_iff [OF assms(2) empty(3)] using m empty(1)
    by (simp add: prefix_ok_def phase_of_def)
next
  case (waves priors failed start s k)
  have resumed: "\<And>x. resume = Some x \<Longrightarrow> schedule_ok c plan x \<and> sr_phase x \<noteq> COMPLETE"
    using waves(3) validate_resume_ok assms(4) by blast
  note point = resume_point_ok [OF assms(2) waves(4) resumed waves(1)]
  have lt: "length priors < length (gp_waves plan)"
  proof (cases resume)
    case None
    with waves(1,2) show ?thesis by (simp add: resume_point_def)
  next
    case (Some x)
    then show ?thesis using point(5) by simp
  qed
  show ?thesis
  proof (rule run_waves_ok [OF assms(2) waves(4) assms(3) waves(9)])
    show "\<exists>k'. take k (drop (nat start) (gp_waves plan)) = take k' (drop (length priors) (gp_waves plan))"
      using point(1) by auto
    show "ready_state plan s priors" using waves(5-7) point(1) by (simp add: ready_state_def)
    show "take k (drop (nat start) (gp_waves plan)) = [] \<Longrightarrow> \<exists>x. resume = Some x \<and> schedule_ok c plan x"
      using waves(8) lt point(1) by auto
  qed (use point in blast)+
qed

section \<open>What a resumed run keeps\<close>

lemma run_waves_Cons:
  assumes "run_waves env c plan (wave # rest) failed s priors current = Inr r"
  obtains w s' y where
    "run_wave env c plan wave (case failed of None \<Rightarrow> None
       | Some f \<Rightarrow> if gw_wave_index wave = wr_wave_index f then Some f else None) = Inr w"
    "make_schedule_receipt c plan (ds_phase s') (priors @ [w]) (map_option schedule_receipt_sha256 current) = Inr y"
    "y = r \<or> (\<exists>failed'. run_waves env c plan rest failed' s' (priors @ [w]) (Some y) = Inr r)"
proof -
  from assms obtain w s' y where
    w: "run_wave env c plan wave (case failed of None \<Rightarrow> None
       | Some f \<Rightarrow> if gw_wave_index wave = wr_wave_index f then Some f else None) = Inr w"
    and y: "make_schedule_receipt c plan (ds_phase s') (priors @ [w]) (map_option schedule_receipt_sha256 current) = Inr y"
    and r: "(if ds_phase s' = FAILED then Inr y else run_waves env c plan rest
        (if (case failed of None \<Rightarrow> None | Some f \<Rightarrow> if gw_wave_index wave = wr_wave_index f then Some f else None) = None
         then failed else None) s' (priors @ [w]) (Some y)) = Inr r"
    unfolding run_waves.simps Let_def rbind_eq_Inr by blast
  from r have "y = r \<or> (\<exists>failed'. run_waves env c plan rest failed' s' (priors @ [w]) (Some y) = Inr r)"
    by (cases "ds_phase s' = FAILED") (simp, metis)
  with w y show thesis by (rule that)
qed

lemma run_waves_extends:
  "run_waves env c plan ws failed s priors (Some x) = Inr r \<Longrightarrow> sr_wave_receipts x = priors
     \<Longrightarrow> \<exists>more. sr_wave_receipts r = priors @ more"
proof (induction ws arbitrary: failed s priors x)
  case (Cons wave rest)
  from Cons.prems(1) obtain w s' y where
    y: "make_schedule_receipt c plan (ds_phase s') (priors @ [w]) (map_option schedule_receipt_sha256 (Some x)) = Inr y"
    and r: "y = r \<or> (\<exists>failed'. run_waves env c plan rest failed' s' (priors @ [w]) (Some y) = Inr r)"
    by (rule run_waves_Cons)
  note waves = make_schedule_receipt_Inr(4) [OF y]
  from r show ?case
  proof
    assume "\<exists>failed'. run_waves env c plan rest failed' s' (priors @ [w]) (Some y) = Inr r"
    then show ?thesis using Cons.IH waves by fastforce
  qed (use waves in simp)
qed simp

lemma run_waves_first:
  assumes "run_waves env c plan (wave # rest) failed s priors current = Inr r"
  obtains w more where "sr_wave_receipts r = priors @ w # more"
    "run_wave env c plan wave (case failed of None \<Rightarrow> None
       | Some f \<Rightarrow> if gw_wave_index wave = wr_wave_index f then Some f else None) = Inr w"
proof -
  from assms obtain w s' y where
    w: "run_wave env c plan wave (case failed of None \<Rightarrow> None
       | Some f \<Rightarrow> if gw_wave_index wave = wr_wave_index f then Some f else None) = Inr w"
    and y: "make_schedule_receipt c plan (ds_phase s') (priors @ [w]) (map_option schedule_receipt_sha256 current) = Inr y"
    and r: "y = r \<or> (\<exists>failed'. run_waves env c plan rest failed' s' (priors @ [w]) (Some y) = Inr r)"
    by (rule run_waves_Cons)
  note waves = make_schedule_receipt_Inr(4) [OF y]
  obtain more where "sr_wave_receipts r = priors @ w # more"
    using r waves run_waves_extends [of env c plan rest _ s' "priors @ [w]" y r] by force
  with w show thesis by (intro that)
qed

text \<open>A new attempt continues a failed one.\<close>

definition continues :: "assignment_receipt \<Rightarrow> assignment_receipt \<Rightarrow> bool" where
  "continues old new \<longleftrightarrow> ar_assignment_sha256 new = ar_assignment_sha256 old \<and> ar_attempt new = ar_attempt old + 1
     \<and> (\<exists>s f. ar_intervals new = ar_intervals old @ [(s, f)])
     \<and> ar_prior_attempt_receipt_sha256 new = Some (assignment_receipt_sha256 old)"

lemma repeated_wave_rows:
  assumes "run_wave env c plan wave (Some f) = Inr w" "distinct (map assignment_id (gw_assignments wave))"
    "\<forall>a \<in> set (gw_assignments wave). runs_own_cell env a" "wave_ok c plan wave f" "row \<in> set (wr_assignment_receipts f)"
  shows "if ar_status row = SUCCEEDED then row \<in> set (wr_assignment_receipts w)
    else \<exists>new \<in> set (wr_assignment_receipts w). continues row new"
proof -
  have rows: "list_all2 (wave_row c plan wave (Some f)) (gw_assignments wave) (wr_assignment_receipts w)"
    using run_wave_ok(2) [OF assms(1-3)] assms(4) by simp
  have "set (map assignment_id (gw_assignments wave)) = set (map ar_assignment_sha256 (wr_assignment_receipts f))"
    using assms(4) by (simp add: wave_ok_def validate_wave_receipt_def)
  then obtain a where a: "a \<in> set (gw_assignments wave)" "assignment_id a = ar_assignment_sha256 row"
    using assms(5) by (metis (no_types, lifting) image_iff image_set)
  then obtain new where new: "new \<in> set (wr_assignment_receipts w)" "wave_row c plan wave (Some f) a new"
    using rows by (metis in_set_conv_nth list_all2_conv_all_nth)
  have distinct: "distinct (map ar_assignment_sha256 (wr_assignment_receipts f))"
    using assms(4) by (auto simp: wave_ok_def valid_wave_receipt_def wave_receipt_post_init_def)
  have found: "dget (receipts_with (ar_status row) (Some f)) (assignment_id a) = Some row"
    using by_cell_Some [OF distinct_map_filter [OF distinct, of "\<lambda>r. ar_status r = ar_status row"], of row] assms(5) a(2)
    by (simp add: receipts_with_def)
  show ?thesis
  proof (cases "ar_status row = SUCCEEDED")
    case True
    with found new show ?thesis by (simp add: wave_row_def)
  next
    case False
    then have failed: "ar_status row = ASSIGNMENT_FAILED" by (cases "ar_status row") simp_all
    have "dget (receipts_with SUCCEEDED (Some f)) (assignment_id a) = None"
    proof (rule ccontr)
      assume "dget (receipts_with SUCCEEDED (Some f)) (assignment_id a) \<noteq> None"
      then obtain other where "dget (receipts_with SUCCEEDED (Some f)) (assignment_id a) = Some other" by blast
      then have "other \<in> set (wr_assignment_receipts f)" "ar_status other = SUCCEEDED"
        "ar_assignment_sha256 other = ar_assignment_sha256 row"
        using a(2) by (auto elim!: receipts_with_Some)
      with distinct assms(5) failed show False by (metis assignment_status.distinct(1) distinct_map inj_onD)
    qed
    with new obtain t where t: "pending_attempt c (Some f) a = Inr t" "attempt_recorded c plan wave t new"
      by (auto simp: wave_row_def)
    have "at_prior t = Some row" using pending_attempt_Inr(3) [OF t(1)] found failed by simp
    then have "continues row new"
      using t(2) pending_attempt_Inr(1,4) [OF t(1)] a(2)
      by (auto simp: continues_def attempt_recorded_def attempt_intervals_def)
    with new False show ?thesis by auto
  qed
qed

lemma resume_extends:
  assumes "execute_dispatch_plan env c plan (Some x) replay stop = Inr r" "valid_dispatch_plan plan"
    "\<forall>a \<in> set (plan_assignments plan). runs_own_cell env a" "valid_schedule_receipt x" "sr_phase x \<noteq> COMPLETE"
  obtains w more where "sr_phase x = FAILED" "sr_wave_receipts x \<noteq> []"
      "sr_wave_receipts r = butlast (sr_wave_receipts x) @ w # more"
      "\<forall>row \<in> set (wr_assignment_receipts (last (sr_wave_receipts x))).
         if ar_status row = SUCCEEDED then row \<in> set (wr_assignment_receipts w)
         else \<exists>new \<in> set (wr_assignment_receipts w). continues row new"
    | more where "sr_phase x \<noteq> FAILED" "more \<noteq> []" "sr_wave_receipts r = sr_wave_receipts x @ more"
  using assms(1)
proof (cases rule: execute_cases)
  case (waves priors failed start s k)
  have ok: "schedule_ok c plan x" using waves(3) validate_resume_ok assms(4) by blast
  note point = resume_point_ok [OF assms(2) waves(4) _ waves(1), simplified, OF conjI [OF ok assms(5)]]
  obtain wave rest where ws: "take k (drop (nat start) (gp_waves plan)) = wave # rest" and
    wave: "wave = gp_waves plan ! length priors"
    using waves(8) point(1,5) by (cases k) (auto simp: Cons_nth_drop_Suc [symmetric])
  note pw = valid_plan_waves [OF assms(2) point(5), folded wave]
  have own: "\<forall>a \<in> set (gw_assignments wave). runs_own_cell env a" using assms(3) point(5) wave by auto
  obtain w more where r: "sr_wave_receipts r = priors @ w # more"
    and w: "run_wave env c plan wave (case failed of None \<Rightarrow> None
       | Some f \<Rightarrow> if gw_wave_index wave = wr_wave_index f then Some f else None) = Inr w"
    using waves(9) [unfolded ws] by (rule run_waves_first)
  show thesis
  proof (cases "sr_phase x = FAILED")
    case True
    then have f: "failed = Some (last (sr_wave_receipts x))" and priors: "priors = butlast (sr_wave_receipts x)"
      using waves(1) by (simp_all add: resume_point_def)
    have "sr_wave_receipts x \<noteq> []"
      using ok True by (auto simp: schedule_ok_iff [OF assms(2) waves(4)] phase_of_def split: if_splits)
    moreover have "wave_ok c plan wave (last (sr_wave_receipts x))" using point(4) [OF f] wave by simp
    moreover have "run_wave env c plan wave (Some (last (sr_wave_receipts x))) = Inr w"
      using w f pw(1) point(4) [OF f] by simp
    ultimately show thesis
      using that(1) [OF True _ r [unfolded priors]] repeated_wave_rows [OF _ pw(3) own] by blast
  next
    case False
    then have "priors = sr_wave_receipts x" using waves(1) by (simp add: resume_point_def)
    then show thesis using that(2) [OF False _ r [unfolded \<open>priors = _\<close>]] by simp
  qed
next
  case empty
  then have "schedule_ok c plan x" using validate_resume_ok assms(4) by blast
  then have "sr_phase x = phase_of plan []" "sr_wave_receipts x = []"
    using empty(1) by (auto simp: schedule_ok_iff [OF assms(2) empty(3)] prefix_ok_def)
  with assms(5) empty(1) show thesis by (simp add: phase_of_def)
next
  case complete
  from complete(1,2) assms(5) have False by simp
  then show thesis ..
qed

end
