(* ===== verification/Dispatch_Ledger.thy ===== *)
theory Dispatch_Ledger
  imports Dispatch_Resume
begin

text \<open>
  The ledger of the dispatch engine: what a schedule receipt bills and attributes, how many attempts a
  schedule and each of its cells may use, and that a chain of resumptions ends because every resumption
  uses an attempt (the locale \<open>bounded_progress\<close>).
\<close>

section \<open>The ledger\<close>

abbreviation schedule_rows :: "schedule_receipt \<Rightarrow> assignment_receipt list" where
  "schedule_rows r \<equiv> concat (map wr_assignment_receipts (sr_wave_receipts r))"

lemma finite_covered [simp]: "finite (covered xs)"
  by (auto simp: covered_def)

lemma covered_concat: "covered (concat (map f xs)) = (\<Union>x \<in> set xs. covered (f x))"
  by (induction xs) auto

lemma card_covered_concat: "int (card (covered (concat (map f xs)))) \<le> (\<Sum>x \<leftarrow> xs. int (card (covered (f x))))"
proof (induction xs)
  case (Cons x xs)
  have "card (covered (f x) \<union> covered (concat (map f xs))) \<le> card (covered (f x)) + card (covered (concat (map f xs)))"
    by (rule card_Un_le)
  with Cons show ?case by simp
qed simp

lemma assignment_cost:
  assumes "assignment_receipt_post_init r = Inr r"
  shows "ar_attributed_gpu_ns r = int (card (covered (ar_intervals r))) * ar_gpu_count r"
    "ar_attributed_fixed_instance_gpu_ns r = int (card (covered (ar_intervals r))) * ar_fixed_instance_gpu_count r"
    "ar_gpu_count r \<le> ar_fixed_instance_gpu_count r" "1 \<le> ar_gpu_count r" "1 \<le> ar_attempt r"
proof -
  from assms have cost: "receipt_cost_check r = Inr ()" and attempt: "1 \<le> ar_attempt r"
    and merge: "\<exists>ys. merge_monotonic_intervals (ar_intervals r) = Inr ys"
    unfolding assignment_receipt_post_init_def by auto
  from merge have "interval_union_ns (ar_intervals r) = Inr (int (card (covered (ar_intervals r))))"
    using merge_monotonic_intervals_Inr(4) by blast
  with cost show "ar_attributed_gpu_ns r = int (card (covered (ar_intervals r))) * ar_gpu_count r"
    "ar_attributed_fixed_instance_gpu_ns r = int (card (covered (ar_intervals r))) * ar_fixed_instance_gpu_count r"
    "ar_gpu_count r \<le> ar_fixed_instance_gpu_count r" "1 \<le> ar_gpu_count r"
    by (auto simp: receipt_cost_check_def)
  show "1 \<le> ar_attempt r" by (rule attempt)
qed

lemma wave_cost:
  assumes "valid_wave_receipt w"
  shows "covered (wr_active_intervals w) = covered (concat (map ar_intervals (wr_assignment_receipts w)))"
    "wr_attributed_gpu_ns w = sum_list (map ar_attributed_gpu_ns (wr_assignment_receipts w))"
    "wr_attributed_fixed_instance_gpu_ns w
       = (\<Sum>r \<leftarrow> wr_assignment_receipts w. int (card (covered (ar_intervals r)))) * wr_fixed_instance_gpu_count w"
proof -
  have wave: "merge_monotonic_intervals (concat (map ar_intervals (wr_assignment_receipts w))) = Inr (wr_active_intervals w)"
    "wr_attributed_gpu_ns w = sum_list (map ar_attributed_gpu_ns (wr_assignment_receipts w))"
    "wr_attributed_fixed_instance_gpu_ns w = sum_list (map ar_attributed_fixed_instance_gpu_ns (wr_assignment_receipts w))"
    "\<forall>r \<in> set (wr_assignment_receipts w). ar_fixed_instance_gpu_count r = wr_fixed_instance_gpu_count w"
    using assms by (auto simp: valid_wave_receipt_def wave_receipt_post_init_def list_ex_iff)
  show "covered (wr_active_intervals w) = covered (concat (map ar_intervals (wr_assignment_receipts w)))"
    by (rule merge_monotonic_intervals_Inr(3) [OF wave(1)])
  show "wr_attributed_gpu_ns w = sum_list (map ar_attributed_gpu_ns (wr_assignment_receipts w))" by (rule wave(2))
  have "map ar_attributed_fixed_instance_gpu_ns (wr_assignment_receipts w)
      = map (\<lambda>r. int (card (covered (ar_intervals r))) * wr_fixed_instance_gpu_count w) (wr_assignment_receipts w)"
    using assms wave(4) assignment_cost(2) by (simp add: valid_wave_receipt_def)
  then show "wr_attributed_fixed_instance_gpu_ns w
       = (\<Sum>r \<leftarrow> wr_assignment_receipts w. int (card (covered (ar_intervals r)))) * wr_fixed_instance_gpu_count w"
    unfolding wave(3) by (simp only: sum_list_mult_const)
qed

lemma sum_list_concat: "sum_list (concat (map f xs)) = (\<Sum>x \<leftarrow> xs. sum_list (f x :: int list))"
  by (induction xs) simp_all

lemma schedule_cost:
  assumes "valid_schedule_receipt r"
  shows "sr_billed_gpu_ns r = int (card (covered (concat (map ar_intervals (schedule_rows r))))) * sr_fixed_instance_gpu_count r"
    "sr_attributed_gpu_ns r = sum_list (map ar_attributed_gpu_ns (schedule_rows r))"
    "sr_attributed_fixed_instance_gpu_ns r
       = (\<Sum>x \<leftarrow> schedule_rows r. int (card (covered (ar_intervals x)))) * sr_fixed_instance_gpu_count r"
    "\<forall>x \<in> set (schedule_rows r). ar_fixed_instance_gpu_count x = sr_fixed_instance_gpu_count r"
proof -
  let ?ws = "sr_wave_receipts r"
  have sched: "merge_monotonic_intervals (concat (map wr_active_intervals ?ws)) = Inr (sr_active_intervals r)"
    "\<exists>n. interval_union_ns (sr_active_intervals r) = Inr n \<and> sr_billed_gpu_ns r = n * sr_fixed_instance_gpu_count r"
    "sr_attributed_gpu_ns r = sum_list (map wr_attributed_gpu_ns ?ws)"
    "sr_attributed_fixed_instance_gpu_ns r = sum_list (map wr_attributed_fixed_instance_gpu_ns ?ws)"
    "\<forall>w \<in> set ?ws. wr_fixed_instance_gpu_count w = sr_fixed_instance_gpu_count r"
    using assms by (auto simp: valid_schedule_receipt_def schedule_receipt_post_init_def list_ex_iff Let_def)
  have valid: "\<forall>w \<in> set ?ws. valid_wave_receipt w" using assms by (simp add: valid_schedule_receipt_def)
  have "covered (sr_active_intervals r) = covered (concat (map ar_intervals (schedule_rows r)))"
    using merge_monotonic_intervals_Inr(3) [OF sched(1)] wave_cost(1) valid by (auto simp: covered_concat)
  moreover obtain n where n: "interval_union_ns (sr_active_intervals r) = Inr n"
    "sr_billed_gpu_ns r = n * sr_fixed_instance_gpu_count r" using sched(2) by blast
  moreover have "n = int (card (covered (sr_active_intervals r)))"
    using n(1) merge_monotonic_intervals_Inr(4) by (fastforce simp: interval_union_ns_def)
  ultimately show "sr_billed_gpu_ns r = int (card (covered (concat (map ar_intervals (schedule_rows r))))) * sr_fixed_instance_gpu_count r"
    by simp
  have gpu: "map wr_attributed_gpu_ns ?ws = map (\<lambda>w. sum_list (map ar_attributed_gpu_ns (wr_assignment_receipts w))) ?ws"
    using valid wave_cost(2) by simp
  show "sr_attributed_gpu_ns r = sum_list (map ar_attributed_gpu_ns (schedule_rows r))"
    unfolding sched(3) gpu by (simp add: map_concat comp_def sum_list_concat)
  have fixed: "map wr_attributed_fixed_instance_gpu_ns ?ws = map (\<lambda>w. (\<Sum>x \<leftarrow> wr_assignment_receipts w.
      int (card (covered (ar_intervals x)))) * sr_fixed_instance_gpu_count r) ?ws"
    using valid wave_cost(3) sched(5) by simp
  show "sr_attributed_fixed_instance_gpu_ns r
       = (\<Sum>x \<leftarrow> schedule_rows r. int (card (covered (ar_intervals x)))) * sr_fixed_instance_gpu_count r"
    unfolding sched(4) fixed by (simp add: map_concat comp_def sum_list_concat sum_list_mult_const)
  show "\<forall>x \<in> set (schedule_rows r). ar_fixed_instance_gpu_count x = sr_fixed_instance_gpu_count r"
    using valid sched(5) by (auto simp: valid_wave_receipt_def wave_receipt_post_init_def list_ex_iff)
qed

lemma valid_schedule_rows:
  "valid_schedule_receipt r \<Longrightarrow> x \<in> set (schedule_rows r) \<Longrightarrow> assignment_receipt_post_init x = Inr x"
  by (auto simp: valid_schedule_receipt_def valid_wave_receipt_def)

lemma schedule_bills_at_most_attribution:
  assumes "valid_schedule_receipt r"
  shows "sr_billed_gpu_ns r \<le> sr_attributed_fixed_instance_gpu_ns r" "sr_attributed_gpu_ns r \<le> sr_attributed_fixed_instance_gpu_ns r"
proof -
  have "0 \<le> sr_fixed_instance_gpu_count r"
    using assms by (auto simp: valid_schedule_receipt_def schedule_receipt_post_init_def Let_def)
  then show "sr_billed_gpu_ns r \<le> sr_attributed_fixed_instance_gpu_ns r"
    unfolding schedule_cost [OF assms] using card_covered_concat by (rule mult_right_mono [rotated])
  have "sr_attributed_gpu_ns r \<le> (\<Sum>x \<leftarrow> schedule_rows r. int (card (covered (ar_intervals x))) * sr_fixed_instance_gpu_count r)"
    unfolding schedule_cost(2) [OF assms]
  proof (rule sum_list_mono)
    fix x assume x: "x \<in> set (schedule_rows r)"
    note cost = assignment_cost [OF valid_schedule_rows [OF assms x]]
    have "ar_gpu_count x \<le> sr_fixed_instance_gpu_count r" using cost(3) schedule_cost(4) [OF assms] x by auto
    then show "ar_attributed_gpu_ns x \<le> int (card (covered (ar_intervals x))) * sr_fixed_instance_gpu_count r"
      unfolding cost(1) by (simp add: mult_left_mono)
  qed
  then show "sr_attributed_gpu_ns r \<le> sr_attributed_fixed_instance_gpu_ns r"
    unfolding schedule_cost(3) [OF assms] by (simp only: sum_list_mult_const)
qed

section \<open>Resuming ends\<close>

text \<open>All attempts a schedule has used, and all that the budgets allow.\<close>

definition attempts_used :: "schedule_receipt \<Rightarrow> int" where
  "attempts_used r = sum_list (map ar_attempt (schedule_rows r))"

definition attempt_limit :: "execution_context \<Rightarrow> gpu_assignment \<Rightarrow> int" where
  "attempt_limit c a = (case budget_of c a of Inl _ \<Rightarrow> 0 | Inr b \<Rightarrow> max 0 (eb_retry_allowance b + 1))"

lemma sum_by_key:
  fixes g :: "'b \<Rightarrow> int"
  assumes "distinct (map f as)" "distinct (map key rs)" "set (map f as) = set (map key rs)"
    "\<And>a r. a \<in> set as \<Longrightarrow> r \<in> set rs \<Longrightarrow> f a = key r \<Longrightarrow> g r \<le> h a"
  shows "sum_list (map g rs) \<le> sum_list (map h as)"
proof -
  define row where "row a = (THE r. r \<in> set rs \<and> key r = f a)" for a
  have inj: "inj_on key (set rs)" "inj_on f (set as)" using assms(1,2) by (simp_all add: distinct_map)
  have keys: "f ` set as = key ` set rs" using assms(3) by simp
  have row: "row a \<in> set rs \<and> key (row a) = f a" if "a \<in> set as" for a
  proof -
    have "f a \<in> key ` set rs" using keys that by blast
    then obtain r where r: "r \<in> set rs" "key r = f a" by auto
    then have "\<exists>!r. r \<in> set rs \<and> key r = f a" using inj(1) unfolding inj_on_def by metis
    then show ?thesis unfolding row_def by (rule theI')
  qed
  have "bij_betw row (set as) (set rs)"
    unfolding bij_betw_def
  proof (intro conjI inj_onI equalityI subsetI)
    fix a b assume "a \<in> set as" "b \<in> set as" "row a = row b"
    with row [of a] row [of b] have "f a = f b" by simp
    with inj(2) \<open>a \<in> set as\<close> \<open>b \<in> set as\<close> show "a = b" by (auto dest: inj_onD)
  next
    fix r assume r: "r \<in> set rs"
    then have "key r \<in> f ` set as" using keys by blast
    then obtain a where a: "a \<in> set as" "f a = key r" by auto
    then have "row a = r" using row [OF a(1)] r inj(1) by (auto dest: inj_onD)
    with a show "r \<in> row ` set as" by blast
  qed (use row in blast)
  then have "sum g (set rs) = (\<Sum>a \<in> set as. g (row a))" by (metis sum.reindex_bij_betw)
  also have "\<dots> \<le> (\<Sum>a \<in> set as. h a)" using assms(4) row by (intro sum_mono) simp
  finally show ?thesis
    using assms(1,2) by (simp add: sum_list_distinct_conv_sum_set distinct_map)
qed

lemma wave_attempts_limited:
  assumes "wave_ok c plan wave w" "distinct (map assignment_id (gw_assignments wave))"
  shows "sum_list (map ar_attempt (wr_assignment_receipts w)) \<le> sum_list (map (attempt_limit c) (gw_assignments wave))"
proof (rule sum_by_key [OF assms(2)])
  show "distinct (map ar_assignment_sha256 (wr_assignment_receipts w))"
    using assms(1) by (auto simp: wave_ok_def valid_wave_receipt_def wave_receipt_post_init_def)
  show "set (map assignment_id (gw_assignments wave)) = set (map ar_assignment_sha256 (wr_assignment_receipts w))"
    using assms(1) by (auto simp: wave_ok_def validate_wave_receipt_def)
  fix a r assume "a \<in> set (gw_assignments wave)" "r \<in> set (wr_assignment_receipts w)" "assignment_id a = ar_assignment_sha256 r"
  then have "row_ok c plan wave a r" using wave_ok_row [OF assms(1) _ assms(2)] by metis
  then show "ar_attempt r \<le> attempt_limit c a"
    by (auto simp: row_ok_def check_assignment_row_def attempt_limit_def)
qed

lemma attempts_limited:
  assumes "valid_dispatch_plan plan" "prefix_ok c plan ws"
  shows "(\<Sum>w \<leftarrow> ws. sum_list (map ar_attempt (wr_assignment_receipts w)))
    \<le> sum_list (map (attempt_limit c) (plan_assignments plan))"
proof -
  let ?g = "\<lambda>w. sum_list (map (attempt_limit c) (gw_assignments w))"
  have "(\<Sum>w \<leftarrow> ws. sum_list (map ar_attempt (wr_assignment_receipts w))) \<le> (\<Sum>w \<leftarrow> take (length ws) (gp_waves plan). ?g w)"
    using assms(2)
  proof (induction ws rule: rev_induct)
    case (snoc w ws)
    then have lt: "length ws < length (gp_waves plan)" and ok: "wave_ok c plan (gp_waves plan ! length ws) w"
      by (simp_all add: prefix_ok_snoc)
    from wave_attempts_limited [OF ok valid_plan_waves(3) [OF assms(1) lt]] snoc lt show ?case
      by (simp add: prefix_ok_snoc take_Suc_conv_app_nth)
  qed simp
  also have "\<dots> \<le> (\<Sum>w \<leftarrow> gp_waves plan. ?g w)"
  proof -
    have "0 \<le> sum_list (map (attempt_limit c) (gw_assignments w))" for w
      by (rule sum_list_nonneg) (auto simp: attempt_limit_def split: sum.splits)
    then have "0 \<le> (\<Sum>w \<leftarrow> drop (length ws) (gp_waves plan). ?g w)" by (intro sum_list_nonneg) auto
    moreover have "(\<Sum>w \<leftarrow> gp_waves plan. ?g w) = (\<Sum>w \<leftarrow> take (length ws) (gp_waves plan). ?g w)
        + (\<Sum>w \<leftarrow> drop (length ws) (gp_waves plan). ?g w)"
      by (metis append_take_drop_id map_append sum_list_append)
    ultimately show ?thesis by simp
  qed
  also have "\<dots> = sum_list (map (attempt_limit c) (plan_assignments plan))"
    by (simp add: map_concat comp_def sum_list_concat)
  finally show ?thesis .
qed

lemma attempts_used_waves: "attempts_used r = (\<Sum>w \<leftarrow> sr_wave_receipts r. sum_list (map ar_attempt (wr_assignment_receipts w)))"
  by (simp add: attempts_used_def map_concat comp_def sum_list_concat)

lemma wave_attempts_pos:
  assumes "valid_wave_receipt w"
  shows "1 \<le> sum_list (map ar_attempt (wr_assignment_receipts w))"
proof -
  have "\<forall>r \<in> set (wr_assignment_receipts w). 1 \<le> ar_attempt r"
    using assms assignment_cost(5) by (simp add: valid_wave_receipt_def)
  moreover have "wr_assignment_receipts w \<noteq> []"
    using assms by (auto simp: valid_wave_receipt_def wave_receipt_post_init_def)
  ultimately show ?thesis
  proof (cases "wr_assignment_receipts w")
    case (Cons r rs)
    have "0 \<le> sum_list (map ar_attempt rs)"
      using \<open>\<forall>r \<in> set (wr_assignment_receipts w). 1 \<le> ar_attempt r\<close> Cons by (intro sum_list_nonneg) fastforce
    with \<open>\<forall>r \<in> set (wr_assignment_receipts w). 1 \<le> ar_attempt r\<close> Cons show ?thesis by simp
  qed simp
qed

lemma waves_attempts_pos:
  "\<forall>w \<in> set ws. valid_wave_receipt w
     \<Longrightarrow> int (length ws) \<le> (\<Sum>w \<leftarrow> ws. sum_list (map ar_attempt (wr_assignment_receipts w)))"
  by (induction ws) (use wave_attempts_pos in fastforce)+

lemma repeated_wave_attempts:
  assumes "\<forall>row \<in> set (wr_assignment_receipts f).
      if ar_status row = SUCCEEDED then row \<in> set (wr_assignment_receipts w)
      else \<exists>new \<in> set (wr_assignment_receipts w). continues row new"
    "wave_ok c plan wave f" "wave_ok c plan wave w" "\<not> wave_succeeded f"
  shows "sum_list (map ar_attempt (wr_assignment_receipts f)) < sum_list (map ar_attempt (wr_assignment_receipts w))"
proof -
  let ?f = "wr_assignment_receipts f" and ?w = "wr_assignment_receipts w"
  let ?extra = "\<lambda>r. if ar_status r = SUCCEEDED then 0 else 1 :: int"
  have distinct: "distinct (map ar_assignment_sha256 ?w)" "distinct (map ar_assignment_sha256 ?f)"
    and ids: "set (map ar_assignment_sha256 ?w) = set (map ar_assignment_sha256 ?f)"
    using assms(2,3) by (auto simp: wave_ok_def valid_wave_receipt_def wave_receipt_post_init_def validate_wave_receipt_def)
  have inj: "inj_on ar_assignment_sha256 (set ?w)" using distinct(1) by (simp add: distinct_map)
  have "sum_list (map (\<lambda>r. ar_attempt r + ?extra r) ?f) \<le> sum_list (map ar_attempt ?w)"
  proof (rule sum_by_key [OF distinct ids])
    fix new row assume new: "new \<in> set ?w" and row: "row \<in> set ?f"
      and eq: "ar_assignment_sha256 new = ar_assignment_sha256 row"
    obtain other where "other \<in> set ?w" "ar_assignment_sha256 other = ar_assignment_sha256 row"
      "ar_attempt other = ar_attempt row + ?extra row"
      using bspec [OF assms(1) row] by (cases "ar_status row = SUCCEEDED") (auto simp: continues_def)
    moreover from this new eq have "other = new" by (intro inj_onD [OF inj]) simp_all
    ultimately show "ar_attempt row + ?extra row \<le> ar_attempt new" by simp
  qed
  moreover have "1 \<le> sum_list (map ?extra ?f)"
  proof -
    obtain row where row: "row \<in> set ?f" "ar_status row \<noteq> SUCCEEDED" using assms(4) by (auto simp: wave_succeeded_def list_all_iff)
    have "?extra row \<le> sum_list (map ?extra ?f)" by (rule le_sum_list) (use row in auto)
    with row(2) show ?thesis by simp
  qed
  ultimately show ?thesis by (simp add: sum_list_addf)
qed

text \<open>One resumption of a schedule that is not complete; the terminal authorities are supplied anew.\<close>

inductive resumes_to :: "execution_context \<Rightarrow> gpu_dispatch_plan \<Rightarrow> schedule_receipt \<Rightarrow> schedule_receipt \<Rightarrow> bool"
  for c :: execution_context and plan :: gpu_dispatch_plan where
  resume: "\<lbrakk>valid_schedule_receipt x; sr_phase x \<noteq> COMPLETE; \<forall>a \<in> set (plan_assignments plan). runs_own_cell env a;
    execute_dispatch_plan env (c\<lparr>ex_resume_terminal_authorities := authorities\<rparr>) plan (Some x) replay stop = Inr r\<rbrakk>
    \<Longrightarrow> resumes_to c plan x r"

lemma authorities_irrelevant [simp]:
  "wave_ok (c\<lparr>ex_resume_terminal_authorities := authorities\<rparr>) = wave_ok c"
  "prefix_ok (c\<lparr>ex_resume_terminal_authorities := authorities\<rparr>) = prefix_ok c"
  "schedule_ok (c\<lparr>ex_resume_terminal_authorities := authorities\<rparr>) = schedule_ok c"
proof -
  have budget: "budget_of (c\<lparr>ex_resume_terminal_authorities := authorities\<rparr>) = budget_of c"
    by (simp add: budget_of_def budgets_by_cell_id_def fun_eq_iff)
  have inventory: "ex_inventory (c\<lparr>ex_resume_terminal_authorities := authorities\<rparr>) = ex_inventory c" by simp
  have row: "check_assignment_row (c\<lparr>ex_resume_terminal_authorities := authorities\<rparr>) = check_assignment_row c"
    unfolding check_assignment_row_def budget inventory ..
  have wave: "validate_wave_receipt (c\<lparr>ex_resume_terminal_authorities := authorities\<rparr>) = validate_wave_receipt c"
    by (simp add: validate_wave_receipt_def row fixed_count_def fun_eq_iff)
  show w: "wave_ok (c\<lparr>ex_resume_terminal_authorities := authorities\<rparr>) = wave_ok c"
    by (simp add: wave_ok_def wave fun_eq_iff)
  show "prefix_ok (c\<lparr>ex_resume_terminal_authorities := authorities\<rparr>) = prefix_ok c"
    by (simp add: prefix_ok_def w fun_eq_iff)
  show "schedule_ok (c\<lparr>ex_resume_terminal_authorities := authorities\<rparr>) = schedule_ok c"
    by (simp add: schedule_ok_def validate_dispatch_resume_structure_def wave fixed_count_def fun_eq_iff)
qed

lemma execute_validates: "execute_dispatch_plan env c plan resume replay stop = Inr r \<Longrightarrow> ex_validate_plan c plan = Inr ()"
  unfolding execute_dispatch_plan_def rbind_unit by blast

lemma execute_resumes: "execute_dispatch_plan env c plan (Some x) replay stop = Inr r \<Longrightarrow> validate_dispatch_resume c plan x replay = Inr ()"
  unfolding execute_dispatch_plan_def rbind_unit option.case by blast

lemma resumes_to_progress:
  assumes "resumes_to c plan x r" "valid_dispatch_plan plan"
  shows "attempts_used x < attempts_used r" "schedule_ok c plan r" "ex_validate_plan c plan = Inr ()" "schedule_ok c plan x"
proof -
  from assms(1) obtain env authorities replay stop where x: "valid_schedule_receipt x" "sr_phase x \<noteq> COMPLETE"
    and own: "\<forall>a \<in> set (plan_assignments plan). runs_own_cell env a"
    and run: "execute_dispatch_plan env (c\<lparr>ex_resume_terminal_authorities := authorities\<rparr>) plan (Some x) replay stop = Inr r"
    by (rule resumes_to.cases) blast
  show r: "schedule_ok c plan r" using execute_ok [OF run assms(2) own] x(1) by simp
  show valid: "ex_validate_plan c plan = Inr ()" using execute_validates [OF run] by simp
  note rok = r [unfolded schedule_ok_iff [OF assms(2) valid]]
  have xok: "schedule_ok c plan x"
    using validate_resume_ok [OF execute_resumes [OF run] x(1)] by simp
  then show "schedule_ok c plan x" .
  have ws: "\<forall>w \<in> set (sr_wave_receipts r). valid_wave_receipt w" using r by (simp add: schedule_ok_def valid_schedule_receipt_def)
  show "attempts_used x < attempts_used r"
    using run assms(2) own x
  proof (cases rule: resume_extends)
    case (1 w more)
    let ?b = "butlast (sr_wave_receipts x)" and ?f = "last (sr_wave_receipts x)"
    have split: "sr_wave_receipts x = ?b @ [?f]" using 1(2) by simp
    have "prefix_ok c plan (?b @ [?f])" using xok split by (simp add: schedule_ok_iff [OF assms(2) valid])
    then have f: "wave_ok c plan (gp_waves plan ! length ?b) ?f" by (simp add: prefix_ok_snoc)
    have "prefix_ok c plan (?b @ w # more)" using rok 1(3) by simp
    then have w: "wave_ok c plan (gp_waves plan ! length ?b) w"
      by (auto simp: prefix_ok_def nth_append dest!: spec [of _ "length ?b"])
    have "\<not> wave_succeeded ?f"
      using xok 1(1) 1(2) by (auto simp: schedule_ok_iff [OF assms(2) valid] phase_of_def list_all_butlast_last split: if_splits)
    from repeated_wave_attempts [OF 1(4) f w this] waves_attempts_pos [of more] ws 1(3) show ?thesis
      unfolding attempts_used_waves by (subst split) simp
  next
    case (2 more)
    then have "0 < int (length more)" by simp
    also have "\<dots> \<le> (\<Sum>w \<leftarrow> more. sum_list (map ar_attempt (wr_assignment_receipts w)))"
      using waves_attempts_pos [of more] ws 2(3) by simp
    finally show ?thesis unfolding attempts_used_waves using 2(3) by simp
  qed
qed

locale bounded_progress =
  fixes step :: "'s \<Rightarrow> 's \<Rightarrow> bool" and used :: "'s \<Rightarrow> int" and limit :: int
  assumes progress: "step x y \<Longrightarrow> used x < used y"
    and nonneg: "step x y \<Longrightarrow> 0 \<le> used x"
    and bounded: "step x y \<Longrightarrow> used y \<le> limit"
begin

lemma chain: "(step ^^ n) x y \<Longrightarrow> int n + used x \<le> used y"
proof (induction n arbitrary: y)
  case (Suc n)
  then obtain z where "(step ^^ n) x z" "step z y" by auto
  with Suc.IH progress show ?case by fastforce
qed simp

lemma chain_bound:
  assumes "(step ^^ n) x y" "0 < n"
  shows "int n \<le> limit"
proof -
  from assms(2) obtain m where "n = Suc m" by (cases n) simp_all
  with assms(1) obtain z where first: "step x z" using relpowp_Suc_D2 by metis
  from \<open>n = Suc m\<close> assms(1) obtain z' where last_step: "step z' y" by auto
  from nonneg [OF first] bounded [OF last_step] chain [OF assms(1)] show ?thesis by linarith
qed

lemma no_infinite_chain: "\<not> (\<forall>i. step (f i) (f (Suc i)))"
proof
  assume "\<forall>i. step (f i) (f (Suc i))"
  then have "(step ^^ n) (f 0) (f n)" for n by (induction n) auto
  from chain_bound [OF this [of "Suc (nat limit)"]] show False by (simp split: if_splits)
qed

end

text \<open>The resumptions of a valid plan: the attempts used grow, and the budgets bound them.\<close>

lemma attempts_used_nonneg:
  assumes "schedule_ok c plan r"
  shows "0 \<le> attempts_used r"
proof -
  have "\<forall>w \<in> set (sr_wave_receipts r). valid_wave_receipt w"
    using assms by (simp add: schedule_ok_def valid_schedule_receipt_def)
  from waves_attempts_pos [OF this] show ?thesis unfolding attempts_used_waves by linarith
qed

interpretation resumption: bounded_progress "\<lambda>x r. valid_dispatch_plan plan \<and> resumes_to c plan x r" attempts_used
  "sum_list (map (attempt_limit c) (plan_assignments plan))" for c plan
proof
  fix x r assume step: "valid_dispatch_plan plan \<and> resumes_to c plan x r"
  then have plan: "valid_dispatch_plan plan" and resumes: "resumes_to c plan x r" by simp_all
  note p = resumes_to_progress [OF resumes plan]
  show "attempts_used x < attempts_used r" by (rule p(1))
  show "0 \<le> attempts_used x" by (rule attempts_used_nonneg [OF p(4)])
  show "attempts_used r \<le> sum_list (map (attempt_limit c) (plan_assignments plan))"
    using attempts_limited [OF plan] p(2) by (simp add: attempts_used_waves schedule_ok_iff [OF plan p(3)])
qed


section \<open>The attempts of a cell\<close>

definition attempts_of_cell :: "gpu_dispatch_plan \<Rightarrow> schedule_receipt \<Rightarrow> string \<Rightarrow> int" where
  "attempts_of_cell plan r cell =
     sum_list (map ar_attempt (filter (\<lambda>row. list_ex (\<lambda>a. item_id (ga_work_item a) = cell
       \<and> assignment_id a = ar_assignment_sha256 row) (plan_assignments plan)) (schedule_rows r)))"

lemma prefix_ids:
  assumes "valid_dispatch_plan plan" "prefix_ok c plan ws"
  shows "mset (map ar_assignment_sha256 (concat (map wr_assignment_receipts ws)))
    = mset (map assignment_id (concat (map gw_assignments (take (length ws) (gp_waves plan)))))"
  using assms(2)
proof (induction ws rule: rev_induct)
  case (snoc w ws)
  then have lt: "length ws < length (gp_waves plan)" and ok: "wave_ok c plan (gp_waves plan ! length ws) w"
    by (simp_all add: prefix_ok_snoc)
  have "distinct (map ar_assignment_sha256 (wr_assignment_receipts w))"
    "set (map assignment_id (gw_assignments (gp_waves plan ! length ws))) = set (map ar_assignment_sha256 (wr_assignment_receipts w))"
    using ok by (auto simp: wave_ok_def valid_wave_receipt_def wave_receipt_post_init_def validate_wave_receipt_def)
  then have "mset (map ar_assignment_sha256 (wr_assignment_receipts w)) = mset (map assignment_id (gw_assignments (gp_waves plan ! length ws)))"
    using valid_plan_waves(3) [OF assms(1) lt] by (metis set_eq_iff_mset_eq_distinct)
  then show ?case using snoc lt by (simp add: prefix_ok_snoc take_Suc_conv_app_nth)
qed simp

lemma valid_plan_distinct:
  assumes "valid_dispatch_plan plan"
  shows "distinct (map assignment_id (plan_assignments plan))" "distinct (plan_cell_ids plan)"
  using assms by (auto simp: valid_dispatch_plan_def gpu_dispatch_plan_post_init_def Let_def)

lemma prefix_ids_distinct:
  assumes "valid_dispatch_plan plan" "prefix_ok c plan ws"
  shows "distinct (map ar_assignment_sha256 (concat (map wr_assignment_receipts ws)))"
proof -
  let ?ids = "\<lambda>waves. map assignment_id (concat (map gw_assignments waves))"
  have "?ids (gp_waves plan) = ?ids (take (length ws) (gp_waves plan)) @ ?ids (drop (length ws) (gp_waves plan))"
    by (metis append_take_drop_id concat_append map_append)
  then have "distinct (?ids (take (length ws) (gp_waves plan)))"
    using valid_plan_distinct(1) [OF assms(1)] by (metis distinct_append)
  with prefix_ids [OF assms] show ?thesis by (metis mset_eq_imp_distinct_iff)
qed

lemma prefix_row:
  assumes "valid_dispatch_plan plan" "prefix_ok c plan ws" "row \<in> set (concat (map wr_assignment_receipts ws))"
    "a \<in> set (plan_assignments plan)" "assignment_id a = ar_assignment_sha256 row"
  shows "\<exists>wave. row_ok c plan wave a row"
proof -
  from assms(3) obtain w where w: "w \<in> set ws" "row \<in> set (wr_assignment_receipts w)" by auto
  then obtain i where "i < length ws" "w = ws ! i" by (metis in_set_conv_nth)
  with w have i: "i < length ws" "row \<in> set (wr_assignment_receipts (ws ! i))" by simp_all
  then have lt: "i < length (gp_waves plan)" and ok: "wave_ok c plan (gp_waves plan ! i) (ws ! i)"
    using assms(2) by (auto simp: prefix_ok_def)
  have "ar_assignment_sha256 row \<in> set (map assignment_id (gw_assignments (gp_waves plan ! i)))"
    using ok i(2) by (auto simp: wave_ok_def validate_wave_receipt_def)
  then obtain b where b: "b \<in> set (gw_assignments (gp_waves plan ! i))" "ar_assignment_sha256 row = assignment_id b" by auto
  then have mem: "b \<in> set (plan_assignments plan)" using lt by auto
  have "inj_on assignment_id (set (plan_assignments plan))"
    using valid_plan_distinct(1) [OF assms(1)] by (simp add: distinct_map)
  from inj_onD [OF this _ mem assms(4)] b(2) assms(5) have "b = a" by simp
  with wave_ok_row [OF ok i(2) valid_plan_waves(3) [OF assms(1) lt] b] show ?thesis by blast
qed

lemma budget_of_row:
  assumes "row_ok c plan wave a row" "distinct (map eb_cell_id (ex_budgets c))" "b \<in> set (ex_budgets c)"
    "eb_cell_id b = item_id (ga_work_item a)"
  shows "1 \<le> ar_attempt row" "ar_attempt row \<le> eb_retry_allowance b + 1"
proof -
  have "dget (budgets_by_cell_id c) (item_id (ga_work_item a)) = Some b"
    using by_cell_Some [OF assms(2,3)] assms(4) by (simp add: budgets_by_cell_id_def)
  then have "budget_of c a = Inr b" by (simp add: budget_of_def)
  then show "ar_attempt row \<le> eb_retry_allowance b + 1" using assms(1) by (auto simp: row_ok_def check_assignment_row_def)
  show "1 \<le> ar_attempt row" using assms(1) assignment_cost(5) by (auto simp: row_ok_def)
qed

lemma attempts_of_cell_bounds:
  assumes "valid_dispatch_plan plan" "prefix_ok c plan (sr_wave_receipts r)" "distinct (map eb_cell_id (ex_budgets c))"
    "b \<in> set (ex_budgets c)" "0 \<le> eb_retry_allowance b"
  shows "0 \<le> attempts_of_cell plan r (eb_cell_id b) \<and> attempts_of_cell plan r (eb_cell_id b) \<le> eb_retry_allowance b + 1"
proof -
  define rows where "rows = filter (\<lambda>row. list_ex (\<lambda>a. item_id (ga_work_item a) = eb_cell_id b
       \<and> assignment_id a = ar_assignment_sha256 row) (plan_assignments plan)) (schedule_rows r)"
  have total: "attempts_of_cell plan r (eb_cell_id b) = sum_list (map ar_attempt rows)"
    by (simp add: attempts_of_cell_def rows_def)
  have row: "\<exists>a \<in> set (plan_assignments plan). item_id (ga_work_item a) = eb_cell_id b \<and> assignment_id a = ar_assignment_sha256 x"
    "x \<in> set (schedule_rows r)" if "x \<in> set rows" for x
    using that by (auto simp: rows_def list_ex_iff)
  have bounds: "1 \<le> ar_attempt x \<and> ar_attempt x \<le> eb_retry_allowance b + 1" if x: "x \<in> set rows" for x
  proof -
    obtain a where a: "a \<in> set (plan_assignments plan)" "item_id (ga_work_item a) = eb_cell_id b" "assignment_id a = ar_assignment_sha256 x"
      using row(1) [OF x] by blast
    obtain wave where "row_ok c plan wave a x" using prefix_row [OF assms(1,2) row(2) [OF x] a(1,3)] by blast
    then show ?thesis using budget_of_row assms(3,4) a(2) by metis
  qed
  have same: "ar_assignment_sha256 x = ar_assignment_sha256 y" if xy: "x \<in> set rows" "y \<in> set rows" for x y
  proof -
    obtain a a' where a: "a \<in> set (plan_assignments plan)" "item_id (ga_work_item a) = eb_cell_id b" "assignment_id a = ar_assignment_sha256 x"
      "a' \<in> set (plan_assignments plan)" "item_id (ga_work_item a') = eb_cell_id b" "assignment_id a' = ar_assignment_sha256 y"
      using row(1) [OF xy(1)] row(1) [OF xy(2)] by blast
    have "inj_on (\<lambda>a. item_id (ga_work_item a)) (set (plan_assignments plan))"
      using valid_plan_distinct(2) [OF assms(1)] by (simp add: distinct_map)
    from inj_onD [OF this _ a(1,4)] a(2,5) have "a = a'" by simp
    with a show ?thesis by simp
  qed
  have distinct: "distinct (map ar_assignment_sha256 rows)"
    unfolding rows_def by (rule distinct_map_filter [OF prefix_ids_distinct [OF assms(1,2)]])
  have "length rows \<le> 1"
  proof (cases rows)
    case (Cons x rest)
    then have members: "x \<in> set rows" "\<And>y. y \<in> set rest \<Longrightarrow> y \<in> set rows" by simp_all
    have "\<forall>y \<in> set rest. ar_assignment_sha256 y = ar_assignment_sha256 x" by (blast intro: same members)
    moreover have "ar_assignment_sha256 x \<notin> ar_assignment_sha256 ` set rest" using distinct Cons by simp
    ultimately have "set rest = {}" by (metis all_not_in_conv imageI)
    then show ?thesis using Cons by simp
  qed simp
  then consider "rows = []" | x where "rows = [x]" by (cases rows) auto
  then show ?thesis using bounds assms(5) total by cases auto
qed

end
