(* ===== verification/Dispatch_Progress.thy ===== *)
theory Dispatch_Progress
  imports Dispatch_Ledger
begin

text \<open>
  Progress of the dispatch engine: when the first attempt of every assignment succeeds, every constructor
  on the way accepts its arguments and the run ends with a complete schedule (\<open>execute_completes\<close>).
\<close>

section \<open>A run without failures completes\<close>

lemma merge_loop_bounds:
  "merge_loop merged rest = Inr ys \<Longrightarrow> \<forall>p \<in> set merged. 0 \<le> fst p \<and> fst p \<le> snd p
     \<Longrightarrow> \<forall>p \<in> set ys. 0 \<le> fst p \<and> fst p \<le> snd p"
proof (induction merged rest rule: merge_loop.induct)
  case (2 merged start finish rest)
  show ?case
  proof (cases merged)
    case Nil
    with 2 show ?thesis by (auto split: if_splits)
  next
    case (Cons p earlier)
    with 2 show ?thesis by (cases p) (auto split: if_splits)
  qed
qed auto

lemma valid_intervals_merge:
  assumes "\<forall>(s, f) \<in> set xs. 0 \<le> s \<and> s \<le> f"
  obtains ys n where "merge_monotonic_intervals xs = Inr ys" "interval_union_ns ys = Inr n"
proof -
  obtain ys where ys: "merge_monotonic_intervals xs = Inr ys" using interval_union_exact [of xs] assms by auto
  have "\<forall>(s, f) \<in> set ys. 0 \<le> s \<and> s \<le> f"
    using merge_loop_bounds [OF ys [unfolded merge_monotonic_intervals_def]] by auto
  then have "interval_union_ns ys = Inr (int (card (covered ys)))" using interval_union_exact [of ys] by auto
  with ys show thesis by (rule that)
qed

text \<open>An assignment whose first attempt succeeds.\<close>

definition first_attempt_succeeds :: "dispatch_world \<Rightarrow> execution_context \<Rightarrow> gpu_assignment \<Rightarrow> bool" where
  "first_attempt_succeeds env c a \<longleftrightarrow>
     (let answer = dw_attempt env a 1 in
      ga_gpu_uuids a \<noteq> [] \<and> int (length (ga_gpu_uuids a)) \<le> fixed_count c
      \<and> (\<exists>budget started authority binding. budget_of c a = Inr budget \<and> 0 \<le> eb_retry_allowance budget
         \<and> (if dw_journal env then rbind (ao_token answer) (\<lambda>token. Inr (jt_started_monotonic_ns token))
            else Inr (ao_started answer)) = Inr started
         \<and> 0 \<le> started \<and> started \<le> ao_finished answer \<and> ao_runner answer = Inr authority
         \<and> revalidate (ex_resolved c) authority (ex_registry c) (ex_inventory c) (assignment_id a)
             (experiment_budget_sha256 budget) (ga_gpu_uuids a) = Inr binding)
      \<and> (dw_journal env \<longrightarrow> ao_finish answer = Inr ()))"

lemma revalidate_identity:
  "revalidate f t registry inventory a b gpus = Inr binding \<Longrightarrow> tb_assignment_sha256 binding = a \<and> tb_budget_sha256 binding = b"
  by (auto simp: revalidate_def dest!: terminal_binding_post_init_Inr)

lemma digests [simp]:
  "is_sha256 (plan_sha256 plan)" "is_sha256 (wave_sha256 wave)" "is_sha256 (experiment_budget_sha256 b)"
  "is_sha256 (terminal_binding_sha256 t)" "is_sha256 (gpu_inventory_sha256 v)" "is_sha256 (wave_receipt_sha256 w)"
  "is_sha256 (schedule_receipt_sha256 r)" "is_sha256 (assignment_id a)"
  by (simp_all add: plan_sha256_def wave_sha256_def experiment_budget_sha256_def terminal_binding_sha256_def
      gpu_inventory_sha256_def wave_receipt_sha256_def schedule_receipt_sha256_def assignment_id_def)

lemma merge_single: "0 \<le> s \<Longrightarrow> s \<le> f \<Longrightarrow> merge_monotonic_intervals [(s, f)] = Inr [(s, f)]"
  by (simp add: merge_monotonic_intervals_def)

lemma first_receipt_ok:
  assumes "at_prior t = None" "at_number t = 1" "0 \<le> s" "s \<le> f" "ga_gpu_uuids (at_assignment t) \<noteq> []"
    "int (length (ga_gpu_uuids (at_assignment t))) \<le> fixed_count c"
    "tb_assignment_sha256 b = assignment_id (at_assignment t)" "tb_budget_sha256 b = experiment_budget_sha256 (at_budget t)"
  shows "\<exists>r. attempt_receipt c plan wave t s f (Inr b) = Inr r"
proof -
  have "1 \<le> length (ga_gpu_uuids (at_assignment t))" using assms(5) by (cases "ga_gpu_uuids (at_assignment t)") simp_all
  then have counts: "1 \<le> int (length (ga_gpu_uuids (at_assignment t)))" "1 \<le> fixed_count c" using assms(6) by linarith+
  have intervals: "attempt_intervals t s f = [(s, f)]" using assms(1) by (simp add: attempt_intervals_def)
  have union_ns: "interval_union_ns [(s, f)] = Inr (f - s)" using merge_single [OF assms(3,4)] by (simp add: interval_union_ns_def)
  show ?thesis
    using assms counts merge_single [OF assms(3,4)]
    by (simp add: attempt_receipt_def Let_def intervals union_ns assignment_receipt_post_init_def receipt_cost_check_def
        receipt_outcome_check_def opt_is_sha256_def)
qed

lemma first_attempt_runs:
  assumes "first_attempt_succeeds env c a"
  obtains t r where "pending_attempt c None a = Inr t" "run_assignment env c plan wave t = Inr r" "ar_status r = SUCCEEDED"
proof -
  let ?answer = "dw_attempt env a 1"
  from assms obtain budget started authority binding where
    gang: "ga_gpu_uuids a \<noteq> []" "int (length (ga_gpu_uuids a)) \<le> fixed_count c" and
    budget: "budget_of c a = Inr budget" "0 \<le> eb_retry_allowance budget" and
    started: "(if dw_journal env then rbind (ao_token ?answer) (\<lambda>token. Inr (jt_started_monotonic_ns token))
            else Inr (ao_started ?answer)) = Inr started" "0 \<le> started" "started \<le> ao_finished ?answer" and
    run: "ao_runner ?answer = Inr authority"
      "revalidate (ex_resolved c) authority (ex_registry c) (ex_inventory c) (assignment_id a)
         (experiment_budget_sha256 budget) (ga_gpu_uuids a) = Inr binding" and
    finish: "dw_journal env \<longrightarrow> ao_finish ?answer = Inr ()"
    unfolding first_attempt_succeeds_def Let_def by blast
  define t where "t = \<lparr>at_assignment = a, at_number = 1, at_budget = budget, at_prior = None\<rparr>"
  have fields: "at_assignment t = a" "at_number t = 1" "at_budget t = budget" "at_prior t = None" by (simp_all add: t_def)
  have pending: "pending_attempt c None a = Inr t"
    using budget by (simp add: pending_attempt_def receipts_with_def t_def)
  obtain r where r: "attempt_receipt c plan wave t started (ao_finished ?answer) (Inr binding) = Inr r"
    using first_receipt_ok [of t started "ao_finished ?answer" c binding plan wave] fields started(2,3) gang
      revalidate_identity [OF run(2)] by auto
  have "try_attempt c plan wave t ?answer started = Inr r" by (simp add: try_attempt_def fields run r)
  then have "run_assignment env c plan wave t = Inr r"
    using started(1) finish by (simp add: run_assignment_def Let_def fields del: if_split cong: if_cong)
  moreover have "ar_status r = SUCCEEDED" using attempt_receipt_Inr(2) [OF r] by simp
  ultimately show thesis by (rule that [OF pending])
qed

lemma make_wave_receipt_ok:
  assumes "rows \<noteq> []" "distinct (map ar_assignment_sha256 rows)" "0 \<le> gw_wave_index wave"
    "\<forall>r \<in> set rows. assignment_receipt_post_init r = Inr r \<and> ar_fixed_instance_gpu_count r = fixed_count c"
  shows "\<exists>w. make_wave_receipt c plan wave rows = Inr w"
proof -
  have "\<forall>(s, f) \<in> set (ar_intervals r). 0 \<le> s \<and> s \<le> f" if "r \<in> set rows" for r
    using assms(4) that merge_monotonic_intervals_Inr(1) by (fastforce simp: assignment_receipt_post_init_def)
  then have "\<forall>(s, f) \<in> set (concat (map ar_intervals rows)). 0 \<le> s \<and> s \<le> f" by auto
  then obtain ys n where ys: "merge_monotonic_intervals (concat (map ar_intervals rows)) = Inr ys" "interval_union_ns ys = Inr n"
    by (rule valid_intervals_merge)
  have "1 \<le> fixed_count c"
    using assms(1,4) assignment_cost(3,4) by (cases rows) fastforce+
  then show ?thesis
    using assms ys by (auto simp: make_wave_receipt_def wave_receipt_post_init_def list_ex_iff)
qed

lemma run_wave_completes:
  assumes "\<forall>a \<in> set (gw_assignments wave). first_attempt_succeeds env c a \<and> runs_own_cell env a"
    "distinct (map assignment_id (gw_assignments wave))" "gw_assignments wave \<noteq> []" "0 \<le> gw_wave_index wave"
    "dw_journal env \<longrightarrow> (\<forall>as. dw_begin_wave env wave as = Inr ())"
  obtains w where "run_wave env c plan wave None = Inr w" "wave_succeeded w"
proof -
  have none: "receipts_with status None = []" for status by (simp add: receipts_with_def)
  have "\<forall>a \<in> set (gw_assignments wave). \<exists>t. pending_attempt c None a = Inr t"
    using assms(1) first_attempt_runs by meson
  then obtain pending where "map_res (pending_attempt c None) (gw_assignments wave) = Inr pending"
    using map_res_total [of "gw_assignments wave" "pending_attempt c None"] by blast
  then have pending: "pending_attempts c wave None = Inr pending" by (simp add: pending_attempts_def none)
  note pn = map_res_nth [OF pending [unfolded pending_attempts_def none, simplified]]
  have run: "\<exists>r. run_assignment env c plan wave t = Inr r \<and> ar_status r = SUCCEEDED \<and> attempt_recorded c plan wave t r"
    if "t \<in> set pending" for t
  proof -
    from that obtain i where i: "i < length (gw_assignments wave)" "t = pending ! i" using pn by (metis in_set_conv_nth)
    then have t: "pending_attempt c None (gw_assignments wave ! i) = Inr t" using pn by blast
    have a: "first_attempt_succeeds env c (gw_assignments wave ! i)" "runs_own_cell env (gw_assignments wave ! i)"
      using assms(1) i by simp_all
    obtain u r where u: "pending_attempt c None (gw_assignments wave ! i) = Inr u"
      "run_assignment env c plan wave u = Inr r" "ar_status r = SUCCEEDED" using a(1) by (rule first_attempt_runs)
    then have "t = u" using t by simp
    with u run_assignment_Inr(1) [OF u(2)] a(2) pending_attempt_Inr(1) [OF t] show ?thesis by auto
  qed
  then obtain results where results: "map_res (run_assignment env c plan wave) pending = Inr results"
    using map_res_total [of pending "run_assignment env c plan wave"] by blast
  note rn = map_res_nth [OF results]
  have result: "ar_status r = SUCCEEDED \<and> assignment_receipt_post_init r = Inr r \<and> ar_fixed_instance_gpu_count r = fixed_count c"
    if "r \<in> set results" for r
  proof -
    from that obtain i where i: "i < length pending" "r = results ! i" using rn by (metis in_set_conv_nth)
    then show ?thesis using run [of "pending ! i"] rn by (auto simp: attempt_recorded_def)
  qed
  have ids: "map ar_assignment_sha256 results = map assignment_id (gw_assignments wave)"
  proof (rule nth_equalityI)
    show "length (map ar_assignment_sha256 results) = length (map assignment_id (gw_assignments wave))" using pn rn by simp
    fix i assume i: "i < length (map ar_assignment_sha256 results)"
    then have "attempt_recorded c plan wave (pending ! i) (results ! i)" using rn run [of "pending ! i"] by auto
    then show "map ar_assignment_sha256 results ! i = map assignment_id (gw_assignments wave) ! i"
      using i pn rn pending_attempt_Inr(1) by (auto simp: attempt_recorded_def)
  qed
  have pend_ids: "map (\<lambda>t. assignment_id (at_assignment t)) pending = map assignment_id (gw_assignments wave)"
    using pn pending_attempt_Inr(1) by (intro nth_equalityI) auto
  have joined: "map (\<lambda>a. the (dget (zip (map assignment_id (gw_assignments wave)) results) (assignment_id a))) (gw_assignments wave)
      = results"
    using dget_zip_nth [OF assms(2), of results] pn rn by (intro nth_equalityI) auto
  obtain w where w: "make_wave_receipt c plan wave results = Inr w"
    using make_wave_receipt_ok [of results wave c plan] result ids assms(2-4) pn rn by fastforce
  have "run_wave env c plan wave None = Inr w"
    using pending results w assms(5) joined
    by (simp add: run_wave_def task_group_def none pend_ids)
  moreover have "wave_succeeded w" using make_wave_receipt_Inr(5) [OF w] result by (simp add: wave_succeeded_def list_all_iff)
  ultimately show thesis by (rule that)
qed

lemma make_schedule_receipt_ok:
  assumes "prefix_ok c plan ws" "valid_dispatch_plan plan" "1 \<le> fixed_count c" "opt_is_sha256 prior \<or> prior = None"
    "phase = phase_of plan ws" "list_all wave_succeeded ws" "ws \<noteq> []"
  shows "\<exists>r. make_schedule_receipt c plan phase ws prior = Inr r"
proof -
  have w: "valid_wave_receipt (ws ! i) \<and> wr_wave_index (ws ! i) = int i \<and> wr_plan_sha256 (ws ! i) = plan_sha256 plan
     \<and> wr_inventory_sha256 (ws ! i) = gpu_inventory_sha256 (ex_inventory c)
     \<and> wr_fixed_instance_gpu_count (ws ! i) = fixed_count c" if "i < length ws" for i
    using assms(1) valid_plan_waves(1) [OF assms(2), of i] that
    by (auto simp: prefix_ok_def wave_ok_def validate_wave_receipt_def)
  have index: "map wr_wave_index ws = map int [0..<length ws]" using w by (intro nth_equalityI) auto
  have rows: "\<forall>w \<in> set ws. valid_wave_receipt w \<and> wr_plan_sha256 w = plan_sha256 plan
     \<and> wr_inventory_sha256 w = gpu_inventory_sha256 (ex_inventory c) \<and> wr_fixed_instance_gpu_count w = fixed_count c"
    using w by (metis in_set_conv_nth)
  have "\<forall>(s, f) \<in> set (wr_active_intervals w). 0 \<le> s \<and> s \<le> f" if "valid_wave_receipt w" for w
  proof -
    have "\<exists>n. interval_union_ns (wr_active_intervals w) = Inr n"
      using that by (auto simp: valid_wave_receipt_def wave_receipt_post_init_def)
    then obtain ys where "merge_monotonic_intervals (wr_active_intervals w) = Inr ys"
      by (auto simp: interval_union_ns_def)
    then show ?thesis by (rule merge_monotonic_intervals_Inr(1))
  qed
  then have "\<forall>(s, f) \<in> set (concat (map wr_active_intervals ws)). 0 \<le> s \<and> s \<le> f" using rows by fastforce
  then obtain ys n where ys: "merge_monotonic_intervals (concat (map wr_active_intervals ws)) = Inr ys" "interval_union_ns ys = Inr n"
    by (rule valid_intervals_merge)
  have none: "\<not> list_ex (\<lambda>w. wr_plan_sha256 w \<noteq> plan_sha256 plan) ws"
    "\<not> list_ex (\<lambda>w. wr_inventory_sha256 w \<noteq> gpu_inventory_sha256 (ex_inventory c) \<or> wr_fixed_instance_gpu_count w \<noteq> fixed_count c) ws"
    using rows by (auto simp: list_ex_iff)
  show ?thesis
    using assms(3-7) ys none index
    by (auto simp: make_schedule_receipt_def schedule_receipt_post_init_def schedule_phase_check_def phase_of_def Let_def
        opt_is_sha256_def split: option.splits)
qed

lemma ds_accept_ok:
  assumes "ready_state plan s priors" "dispatch_state_post_init s = Inr s" "wr_plan_sha256 w = plan_sha256 plan"
    "wr_wave_index w = int (length priors)" "wave_succeeded w" "length priors < length (gp_waves plan)"
  obtains s' where "ds_accept s w (int (length (gp_waves plan))) = Inr s'" "dispatch_state_post_init s' = Inr s'"
    "ds_phase s' = (if length priors + 1 = length (gp_waves plan) then COMPLETE else RUNNING)"
    "length priors + 1 < length (gp_waves plan) \<Longrightarrow> ready_state plan s' (priors @ [w])"
proof -
  let ?s = "\<lparr>ds_plan_sha256 = plan_sha256 plan,
    ds_phase = (if int (length priors) + 1 = int (length (gp_waves plan)) then COMPLETE else RUNNING),
    ds_next_wave_index = int (length priors) + 1,
    ds_wave_receipt_sha256 = ds_wave_receipt_sha256 s @ [wave_receipt_sha256 w]\<rparr>"
  have fields: "ds_phase s = RUNNING" "ds_plan_sha256 s = plan_sha256 plan" "ds_next_wave_index s = int (length priors)"
    using assms(1) by (simp_all add: ready_state_def)
  have post: "dispatch_state_post_init ?s = Inr ?s"
    using assms(2) fields by (auto simp: dispatch_state_post_init_def)
  then have accepted: "ds_accept s w (int (length (gp_waves plan))) = Inr ?s"
    using assms fields unfolding ds_accept_def by simp
  show thesis by (rule that [OF accepted post]) (auto simp: ready_state_def)
qed

lemma run_waves_completes:
  assumes "valid_dispatch_plan plan" "1 \<le> fixed_count c"
    "\<forall>a \<in> set (plan_assignments plan). first_attempt_succeeds env c a \<and> runs_own_cell env a"
    "dw_journal env \<longrightarrow> (\<forall>wave as. dw_begin_wave env wave as = Inr ())"
  shows "ws = drop (length priors) (gp_waves plan) \<Longrightarrow> prefix_ok c plan priors \<Longrightarrow> list_all wave_succeeded priors
    \<Longrightarrow> ws \<noteq> [] \<longrightarrow> ready_state plan s priors \<and> dispatch_state_post_init s = Inr s
    \<Longrightarrow> ws = [] \<longrightarrow> (\<exists>x. current = Some x \<and> sr_phase x = COMPLETE \<and> sr_wave_receipts x = priors)
    \<Longrightarrow> \<exists>r. run_waves env c plan ws None s priors current = Inr r \<and> sr_phase r = COMPLETE
          \<and> length (sr_wave_receipts r) = length (gp_waves plan) \<and> list_all wave_succeeded (sr_wave_receipts r)"
proof (induction ws arbitrary: s priors current)
  case Nil
  then show ?case by (auto simp: prefix_ok_def)
next
  case (Cons wave rest)
  have lt: "length priors < length (gp_waves plan)" using Cons.prems(1) by (metis drop_all leI list.distinct(1))
  have wave: "wave = gp_waves plan ! length priors" and rest: "rest = drop (length (priors @ [w])) (gp_waves plan)" for w :: wave_receipt
    using Cons.prems(1) lt by (simp_all add: Cons_nth_drop_Suc [symmetric])
  note pw = valid_plan_waves [OF assms(1) lt, folded wave]
  have good: "\<forall>a \<in> set (gw_assignments wave). first_attempt_succeeds env c a \<and> runs_own_cell env a"
    using assms(3) lt wave by auto
  obtain w where w: "run_wave env c plan wave None = Inr w" "wave_succeeded w"
  proof (rule run_wave_completes [OF good pw(3,2)])
    show "0 \<le> gw_wave_index wave" using pw(1) by simp
    show "dw_journal env \<longrightarrow> (\<forall>as. dw_begin_wave env wave as = Inr ())" using assms(4) by blast
  qed
  have ok: "wave_ok c plan wave w" using run_wave_ok(1) [OF w(1) pw(3)] good by simp
  have prefix: "prefix_ok c plan (priors @ [w])" using Cons.prems(2) lt ok wave by (simp add: prefix_ok_snoc)
  have wid: "wr_plan_sha256 w = plan_sha256 plan" "wr_wave_index w = int (length priors)"
    using ok pw(1) by (simp_all add: wave_ok_def validate_wave_receipt_def)
  from Cons.prems(4) have "ready_state plan s priors" "dispatch_state_post_init s = Inr s" by simp_all
  then obtain s' where s': "ds_accept s w (int (length (gp_waves plan))) = Inr s'" "dispatch_state_post_init s' = Inr s'"
    "ds_phase s' = (if length priors + 1 = length (gp_waves plan) then COMPLETE else RUNNING)"
    "length priors + 1 < length (gp_waves plan) \<Longrightarrow> ready_state plan s' (priors @ [w])"
    using wid w(2) lt by (rule ds_accept_ok) blast
  have succ: "list_all wave_succeeded (priors @ [w])" using Cons.prems(3) w(2) by simp
  have phase: "ds_phase s' = phase_of plan (priors @ [w])" using s'(3) succ by (simp add: phase_of_def)
  have prior: "opt_is_sha256 (map_option schedule_receipt_sha256 current) \<or> map_option schedule_receipt_sha256 current = None"
    by (cases current) (simp_all add: opt_is_sha256_def)
  obtain y where y: "make_schedule_receipt c plan (ds_phase s') (priors @ [w]) (map_option schedule_receipt_sha256 current) = Inr y"
    using make_schedule_receipt_ok [OF prefix assms(1,2) prior phase succ] by blast
  note made = make_schedule_receipt_Inr [OF y]
  have step: "run_waves env c plan (wave # rest) None s priors current = run_waves env c plan rest None s' (priors @ [w]) (Some y)"
    using w(1) s'(1,3) y by (simp add: Let_def)
  show ?case
    unfolding step
  proof (rule Cons.IH [OF rest prefix succ])
    show "rest \<noteq> [] \<longrightarrow> ready_state plan s' (priors @ [w]) \<and> dispatch_state_post_init s' = Inr s'"
      using s'(2,4) rest [of w] by (auto simp: leD)
    show "rest = [] \<longrightarrow> (\<exists>x. Some y = Some x \<and> sr_phase x = COMPLETE \<and> sr_wave_receipts x = priors @ [w])"
      using made s'(3) rest [of w] lt by auto
  qed
qed

lemma execute_completes:
  assumes "valid_dispatch_plan plan" "1 \<le> fixed_count c" "scientific_budget_bound plan" "ex_validate_plan c plan = Inr ()"
    "\<forall>a \<in> set (plan_assignments plan). first_attempt_succeeds env c a \<and> runs_own_cell env a"
    "dw_journal env \<longrightarrow> (\<forall>wave as. dw_begin_wave env wave as = Inr ())"
  shows "\<exists>r. execute_dispatch_plan env c plan None replay None = Inr r \<and> sr_phase r = COMPLETE
    \<and> length (sr_wave_receipts r) = length (gp_waves plan) \<and> list_all wave_succeeded (sr_wave_receipts r)"
proof (cases "gp_waves plan = []")
  case True
  have "merge_monotonic_intervals [] = Inr []" "interval_union_ns [] = Inr 0"
    by (simp_all add: merge_monotonic_intervals_def interval_union_ns_def)
  with True assms(2-4) show ?thesis
    by (simp add: execute_dispatch_plan_def resume_point_def make_schedule_receipt_def schedule_receipt_post_init_def
        schedule_phase_check_def Let_def)
next
  case False
  let ?s = "\<lparr>ds_plan_sha256 = plan_sha256 plan, ds_phase = RUNNING, ds_next_wave_index = 0, ds_wave_receipt_sha256 = []\<rparr>"
  have post: "dispatch_state_post_init ?s = Inr ?s" by (simp add: dispatch_state_post_init_def)
  have "\<exists>r. run_waves env c plan (gp_waves plan) None ?s [] None = Inr r \<and> sr_phase r = COMPLETE
    \<and> length (sr_wave_receipts r) = length (gp_waves plan) \<and> list_all wave_succeeded (sr_wave_receipts r)"
    by (rule run_waves_completes [OF assms(1,2,5,6)]) (use post False in \<open>auto simp: prefix_ok_def ready_state_def\<close>)
  then show ?thesis
    using assms(3,4) False
    by (simp add: execute_dispatch_plan_def resume_point_def dispatch_state_post_init_def ds_begin_def Let_def)
qed

end
