(* ===== verification/Pool_Correct.thy ===== *)
theory Pool_Correct
  imports Pool_Facts
begin

text \<open>
  The properties of the GPU pool scheduler (\<open>GpuPoolScheduler\<close> in \<open>experiments/gpu_pool.py\<close>) with a
  one-item schedule as their witness: every item is dispatched exactly once, waves are isolated, gangs meet
  their claims, placeable work is scheduled, and only calibrated co-runs are permitted.
\<close>

definition example_device :: "string \<Rightarrow> string \<Rightarrow> gpu_device" where
  "example_device uuid pci =
     \<lparr>gd_uuid = uuid, gd_host_id = ''host-0'', gd_model = ''H100'', gd_memory_bytes = 85899345920,
      gd_compute_capability = [9, 0], gd_pci_bus_id = pci, gd_pci_root = ''pci0000:00'', gd_numa_node = 0,
      gd_interconnects = [''nvlink''], gd_peer_access_class = ''nvlink'', gd_clock_policy = ''locked'',
      gd_power_limit_watts = Fin 512, gd_thermal_limit_celsius = Fin 80, gd_availability = READY,
      gd_reserved_processes = [], gd_allowed_topology_groups = []\<rparr>"

definition example_inventory :: gpu_inventory where
  "example_inventory =
     \<lparr>iv_schema_version = 1,
      iv_devices = [example_device ''GPU-0'' ''0000:01:00.0'', example_device ''GPU-1'' ''0000:02:00.0''],
      iv_topology_groups = [], iv_source_receipt_sha256 = replicate 64 (CHR ''b'')\<rparr>"

definition example_scheduler :: gpu_pool_scheduler where
  "example_scheduler =
     \<lparr>sc_registry = example_registry\<lparr>rg_cells := [example_cell]\<rparr>, sc_inventory = example_inventory,
      sc_envelope = \<lparr>ie_schema_version = 1, ie_rules = [], ie_source_receipt_sha256 = replicate 64 (CHR ''c'')\<rparr>,
      sc_port_start = 24000, sc_port_end = 65535, sc_seed = 20260811\<rparr>"

definition single_gpu :: gang_shape where
  "single_gpu = \<lparr>gs_tensor_parallel_size = 1, gs_data_parallel_size = 1\<rparr>"

definition example_claim :: pool_resource_claim where
  "example_claim =
     \<lparr>pr_gang_shape = single_gpu, pr_exact_gpu_uuids = [], pr_homogeneous = default_constraint,
      pr_allowed_topology_groups = [], pr_allowed_fabrics = [], pr_same_host = True, pr_exclusive_gpu = True,
      pr_exclusive_host = False, pr_cpu_cores = 1, pr_numa_nodes = [], pr_ram_bytes = 0,
      pr_disk_io_class = ''registered'', pr_network_class = ''registered'', pr_port_count = 1,
      pr_exact_ports = [], pr_cache_root = ''/cache/a'', pr_evidence_root = ''/evidence/a'',
      pr_workload_class = HEADLINE, pr_interference_class = interference_class_of example_cell single_gpu,
      pr_load_envelope = ''registered'', pr_estimated_duration_seconds = Fin 64,
      pr_estimated_gpu_seconds = Fin 64\<rparr>"

definition example_item :: pool_work_item where
  "example_item = \<lparr>wi_cell = example_cell, wi_claim = example_claim, wi_affinity_key = None, wi_serial_group_key = None\<rparr>"

lemma example_texts_pool:
  "single_line_text ''registered''" "single_line_text ''/cache/a''" "single_line_text ''/evidence/a''"
  by code_simp+

lemma example_class: "is_sha256 (interference_class_of example_cell single_gpu)"
  by (simp add: interference_class_of_def Let_def)

lemma fl_64: "fl 64 = Fin 64" by code_simp

lemma float_of_1: "float_of_int 1 = Inr (Fin 1)" by code_simp

lemma example_shape: "registry_gang_shape example_cell = Inr single_gpu"
  by code_simp

lemma example_count: "gs_gpu_count single_gpu = 1"
  by (simp add: gs_gpu_count_def single_gpu_def)

lemma example_claim_ok: "valid_claim example_claim"
proof -
  have "gang_shape_post_init single_gpu = Inr single_gpu"
    "device_constraint_post_init default_constraint = Inr default_constraint"
    by (simp_all add: gang_shape_post_init_def single_gpu_def device_constraint_post_init_def default_constraint_def
        opt_text_def)
  moreover have "claim_sets_check example_claim = Inr ()" "claim_numbers_check example_claim = Inr ()"
    by (simp_all add: claim_sets_check_def claim_numbers_check_def example_claim_def)
  moreover have "claim_estimates_check example_claim = Inr ()"
    by (simp add: claim_estimates_check_def example_claim_def example_count float_of_1 fl_64 isclose_abs_def
        positive_finite_def)
  ultimately show ?thesis
    using example_texts_pool example_class
    by (simp add: valid_claim_def pool_resource_claim_post_init_def) (simp add: example_claim_def)
qed

lemma example_registered: "registry_pool_work_item example_cell (Fin 64) = Inr example_item"
proof -
  have cell: "\<not> calibration_cell example_cell" "xi_experiment (xc_identity example_cell) = ''E3a''"
    "xi_method (xc_identity example_cell) = ''static''" 
    "xc_resources example_cell = \<lparr>rc_gpu_uuids = [''slot-0''], rc_ports = [24000], rc_cache_root = ''/cache/a'',
        rc_evidence_root = ''/evidence/a'', rc_workload_class = HEADLINE\<rparr>"
    by (simp_all add: calibration_cell_def example_cell_def example_identity_def)
  have claim: "pool_resource_claim_post_init example_claim = Inr example_claim"
    using example_claim_ok by (simp add: valid_claim_def)
  show ?thesis
    by (simp add: registry_pool_work_item_def cell example_shape Let_def example_count float_of_1 fl_64
        claim [unfolded example_claim_def] pool_work_item_post_init_def opt_sha256_def example_item_def)
      (simp add: example_claim_def positive_finite_def)
qed

lemma example_scheduler_ok: "valid_scheduler example_scheduler"
  by (simp add: valid_scheduler_def gpu_pool_scheduler_post_init_def example_scheduler_def example_inventory_def
      example_device_def host_ids_def sorted_set_def)

lemma example_gang: "[''GPU-0''] \<in> set (candidate_gangs example_scheduler example_item)"
proof -
  have "hc_accepts default_constraint (example_device u p)" for u p
    by (simp add: hc_accepts_def default_constraint_def example_device_def gd_ready_def)
  then show ?thesis
    by (simp add: candidate_gangs_def gang_accepted_def topology_accepts_def one_value_def example_item_def
        example_claim_def example_count example_scheduler_def example_inventory_def device_by_uuid_def Let_def)
      (simp add: single_gpu_def example_device_def)
qed

lemma example_placeable: "placeable example_scheduler example_item"
proof -
  have "calibration_concurrent_slot example_item = Inr None"
    by (simp add: calibration_concurrent_slot_def example_item_def example_cell_def example_identity_def Let_def)
  moreover have "collect_ports {} 41536 24000 (Suc 0) = [24000]"
    using collect_ports.simps(2) [of "{}" 41535 24000 "Suc 0"] by simp
  then have "ports_for example_scheduler {} (wi_claim example_item) \<noteq> None"
    by (simp add: ports_for_def example_item_def example_claim_def example_scheduler_def Let_def)
  moreover have "valid_claim (wi_claim example_item)" by (simp add: example_item_def example_claim_ok)
  ultimately show ?thesis using example_gang by (auto simp: placeable_def)
qed

definition budgets_for_example :: "(string \<times> string) list \<Rightarrow> bool" where
  "budgets_for_example budgets \<longleftrightarrow> budgets = [] \<or> (\<exists>d. is_sha256 d \<and> budgets = [(cell_id example_cell, d)])"

lemma example_admitted:
  assumes "is_sha256 receipts" "budgets_for_example budgets"
  shows "admit_work_items example_scheduler [example_item] receipts [] budgets {} = Inr ()"
proof -
  have cells: "rg_cells (sc_registry example_scheduler) = [example_cell]" by (simp add: example_scheduler_def)
  have item: "wi_cell example_item = example_cell" "item_id example_item = cell_id example_cell"
    "wi_claim example_item = example_claim" by (simp_all add: example_item_def item_id_def)
  have "dispatchable example_cell False" unfolding dispatchable_def by code_simp
  moreover have "is_sha256 (cell_id example_cell)" by (simp add: cell_id_def cell_identity_digest_def)
  moreover have "check_registered_claim example_scheduler example_item = Inr ()"
    using example_registered
    by (simp add: check_registered_claim_def cells item example_shape Let_def)
      (simp add: example_claim_def example_item_def example_cell_def)
  ultimately show ?thesis
    using assms by (auto simp: admit_work_items_def cells item Let_def budgets_for_example_def)
qed

lemma example_registry_sha256: "is_sha256 (rg_sha256 (sc_registry example_scheduler))"
proof -
  have "is_sha256 (replicate 64 (CHR ''a''))" by code_simp
  then show ?thesis by (simp add: example_scheduler_def example_registry_def)
qed

lemma example_common: "common_gangs example_scheduler [example_item]"
  by (simp add: common_gangs_def)

lemma example_schedulable:
  assumes "is_sha256 receipts" "budgets_for_example budgets"
  shows "\<exists>plan. schedule_items example_scheduler [example_item] receipts [] budgets {} = Inr plan"
proof -
  have "distinct (dkeys budgets)" using assms(2) by (auto simp: budgets_for_example_def)
  then obtain placements waves where
    place: "place_loop example_scheduler [] (initial_loads example_scheduler)
      (ordered_items example_scheduler [example_item]) = Inr placements" and
    pack: "pack_waves example_scheduler [] placements = Inr waves" and
    plan: "distinct (map assignment_id (concat waves)) \<Longrightarrow> \<exists>plan. schedule_items example_scheduler
      [example_item] receipts [] budgets {} = Inr plan"
    using schedule_completes [OF example_scheduler_ok example_admitted [OF assms] example_registry_sha256]
      example_placeable example_common by (metis empty_iff empty_set set_ConsD)
  have "length placements = 1"
    using place_loop_Inr [OF place] by (metis One_nat_def length_map length_sort list.size(3,4) ordered_items_def add_0 length_Cons)
  moreover have "size (packed waves) = length placements" using pack_waves_Inr [OF pack] by simp
  ultimately have "length (concat waves) = 1" by simp
  then have "distinct (map assignment_id (concat waves))" by (cases "concat waves") auto
  with plan show ?thesis .
qed

lemma example_receipts: "is_sha256 (replicate 64 (CHR ''d''))" "budgets_for_example []"
  by code_simp (simp add: budgets_for_example_def)

lemmas example_schedule = example_schedulable [OF example_receipts]

lemma example_plan_inhabited:
  assumes "schedule_items example_scheduler [example_item] (replicate 64 (CHR ''d'')) [] [] {} = Inr plan"
  shows "plan_assignments plan \<noteq> []"
proof
  assume "plan_assignments plan = []"
  with schedule_facts(1) [OF assms] show False by simp
qed

definition example_rule :: interference_rule where
  "example_rule =
     \<lparr>ir_hardware_envelope_sha256 = hardware_envelope_sha256 (example_device ''GPU-0'' ''0000:01:00.0''),
      ir_workload_class = HEADLINE, ir_co_run_signature = pr_interference_class example_claim,
      ir_simultaneous_jobs = 2, ir_gang_shape = gs_signature single_gpu, ir_load_envelope = ''registered'',
      ir_contention_class = contention_class example_claim, ir_evidence_sha256 = replicate 64 (CHR ''e''),
      ir_status = ''PASS''\<rparr>"

definition example_envelope :: interference_envelope where
  "example_envelope =
     \<lparr>ie_schema_version = 1, ie_rules = [example_rule], ie_source_receipt_sha256 = replicate 64 (CHR ''c'')\<rparr>"

definition example_assignment :: "string \<Rightarrow> gpu_assignment" where
  "example_assignment uuid =
     \<lparr>ga_work_item = example_item, ga_gpu_uuids = [uuid], ga_rank_groups = [[uuid]], ga_ports = [24000]\<rparr>"

definition example_wave :: gpu_dispatch_wave where
  "example_wave =
     \<lparr>gw_wave_index = 0, gw_assignments = [example_assignment ''GPU-0''],
      gw_interference_envelope_sha256 = replicate 64 (CHR ''c'')\<rparr>"

lemma example_inventory_ok: "valid_inventory example_inventory"
proof -
  have "gpu_device_post_init (example_device ''GPU-0'' ''0000:01:00.0'') = Inr (example_device ''GPU-0'' ''0000:01:00.0'')"
    "gpu_device_post_init (example_device ''GPU-1'' ''0000:02:00.0'') = Inr (example_device ''GPU-1'' ''0000:02:00.0'')"
    by code_simp+
  moreover have "gpu_inventory_post_init example_inventory = Inr example_inventory" by code_simp
  ultimately show ?thesis by (simp add: valid_inventory_def) (simp add: example_inventory_def)
qed

lemma example_sidecar: "\<exists>sidecar. gpu_inventory_sidecar example_inventory = Inr sidecar"
proof -
  have "single_line_text ''gpu_inventory.v1''" by code_simp
  then show ?thesis by (simp add: gpu_inventory_sidecar_def artifact_sidecar_post_init_def gpu_inventory_sha256_def)
qed

lemma example_cell_ok: "valid_cell example_cell"
  by code_simp

lemma example_wave_ok: "valid_wave example_wave"
proof -
  have "valid_work_item example_item"
    using example_cell_ok example_claim_ok
    by (simp add: valid_work_item_def pool_work_item_post_init_def example_item_def opt_sha256_def)
  moreover have "single_line_text ''GPU-0''" by code_simp
  moreover have "gpu_assignment_post_init (example_assignment ''GPU-0'') = Inr (example_assignment ''GPU-0'')"
    by (simp add: gpu_assignment_post_init_def example_assignment_def example_item_def example_claim_def
        example_count Let_def) (simp add: single_gpu_def)
  ultimately have "valid_assignment (example_assignment ''GPU-0'')"
    by (simp add: valid_assignment_def) (simp add: example_assignment_def)
  moreover have "is_sha256 (replicate 64 (CHR ''c''))" by code_simp
  ultimately show ?thesis
    by (simp add: valid_wave_def gpu_dispatch_wave_post_init_def example_wave_def no_usage_def)
      (simp add: example_assignment_def example_item_def)
qed

section \<open>The properties of the scheduler\<close>

text \<open>
  C14: A plan dispatches exactly the work items it was asked for, each once (the assignments of all waves
  carry the given items as a multiset), no cell appears twice and no completed cell is dispatched again.
\<close>

theorem schedule_dispatches_each_item_once:
  assumes "schedule_items s items receipts completed budgets authorized = Inr plan"
  shows "mset (map ga_work_item (plan_assignments plan)) = mset items
    \<and> distinct (plan_cell_ids plan) \<and> set completed \<inter> set (plan_cell_ids plan) = {}"
proof -
  note facts = schedule_facts [OF assms]
  from facts(5) have "distinct (plan_cell_ids plan)"
    "\<not> list_ex (\<lambda>c. c \<in> set (plan_cell_ids plan)) (gp_completed_cell_ids plan)"
    by (auto simp: gpu_dispatch_plan_post_init_def Let_def)
  then show ?thesis using facts(1,6) by (auto simp: list_ex_iff)
qed

theorem schedule_dispatches_each_item_once_witness:
  "\<exists>plan. schedule_items example_scheduler [example_item] (replicate 64 (CHR ''d'')) [] [] {} = Inr plan
     \<and> map ga_work_item (plan_assignments plan) = [example_item]"
proof -
  from example_schedule obtain plan where
    plan: "schedule_items example_scheduler [example_item] (replicate 64 (CHR ''d'')) [] [] {} = Inr plan" ..
  from schedule_dispatches_each_item_once [OF plan]
  have "mset (map ga_work_item (plan_assignments plan)) = {#example_item#}" by simp
  then have "map ga_work_item (plan_assignments plan) = [example_item]" by (rule mset_single_iff [THEN iffD1])
  with plan show ?thesis by (intro exI conjI)
qed

text \<open>
  C13: The assignments of a wave never collide. Within a wave any two assignments use different GPUs,
  ports, cache roots and evidence roots and belong to different serial groups; every port lies in the
  scheduler's range; and a wave with more than one assignment is covered by a passing interference rule
  for exactly that many jobs on that hardware, so that no exclusive-host job shares it.
\<close>

theorem schedule_waves_are_isolated:
  assumes "schedule_items s items receipts completed budgets authorized = Inr plan"
    "\<forall>w \<in> set items. valid_claim (wi_claim w)" "w \<in> set (gp_waves plan)"
  shows "gw_assignments w \<noteq> [] \<and> sorted_wrt disjoint_resources (gw_assignments w)
    \<and> (\<forall>a \<in> set (gw_assignments w). set (ga_ports a) \<subseteq> {sc_port_start s..sc_port_end s})
    \<and> (1 < length (gw_assignments w) \<longrightarrow> certified (sc_envelope s) (sc_inventory s) (gw_assignments w))"
proof -
  note facts = schedule_facts [OF assms(1)]
  have good: "good_wave s (gw_assignments w)" using facts(2) assms(3) by blast
  have item: "ga_work_item a \<in> set items" if "a \<in> set (gw_assignments w)" for a
    using that assms(3) mset_eq_setD [OF facts(1)] by (fastforce simp: set_map)
  have "ga_gpu_uuids a \<noteq> []" if a: "a \<in> set (gw_assignments w)" for a
    using facts(3) a assms(3) valid_claim_count [of "ga_claim a"] assms(2) item [OF a]
    by (fastforce simp: well_placed_def)
  then show ?thesis
    using good wave_compatible_Inr [of s "gw_assignments w"]
      permits_iff_certified [of "gw_assignments w" "sc_envelope s" "sc_inventory s"]
    by (auto simp: good_wave_def ports_ok_def)
qed

theorem schedule_waves_are_isolated_witness:
  "\<exists>plan. schedule_items example_scheduler [example_item] (replicate 64 (CHR ''d'')) [] [] {} = Inr plan
     \<and> gp_waves plan \<noteq> [] \<and> set (ga_ports (hd (gw_assignments (hd (gp_waves plan))))) \<subseteq> {24000..65535}"
proof -
  from example_schedule obtain plan where
    plan: "schedule_items example_scheduler [example_item] (replicate 64 (CHR ''d'')) [] [] {} = Inr plan" ..
  have "gp_waves plan \<noteq> []" using example_plan_inhabited [OF plan] by auto
  moreover have "\<forall>w \<in> set [example_item]. valid_claim (wi_claim w)"
    using example_claim_ok by (simp add: example_item_def)
  ultimately show ?thesis
    using schedule_waves_are_isolated [OF plan, of "hd (gp_waves plan)"] plan by (auto simp: example_scheduler_def)
qed

text \<open>
  C15: Every assignment of a plan gives its claim the gang it asks for: the right number of different
  ready devices, on one host and with one hardware envelope, split into the declared data-parallel
  replicas, each tensor-parallel replica inside one topology group the claim allows, and exactly the
  requested GPUs where the claim names them. Items of one affinity group run on the same gang.
\<close>

theorem schedule_gangs_meet_claims:
  assumes "schedule_items s items receipts completed budgets authorized = Inr plan" "valid_scheduler s"
    "\<forall>w \<in> set items. valid_claim (wi_claim w)" "a \<in> set (plan_assignments plan)"
  shows "gang_meets_claim s a
    \<and> (\<forall>b \<in> set (plan_assignments plan). wi_affinity_key (ga_work_item a) \<noteq> None
         \<longrightarrow> wi_affinity_key (ga_work_item a) = wi_affinity_key (ga_work_item b)
         \<longrightarrow> ga_gpu_uuids a = ga_gpu_uuids b)"
proof -
  note facts = schedule_facts [OF assms(1)]
  have "ga_work_item a \<in> set items" using assms(4) mset_eq_setD [OF facts(1)] by (fastforce simp: set_map)
  then have "gang_meets_claim s a" using well_placed_meets_claim assms facts(3) by blast
  moreover obtain f where "\<forall>a \<in> set (plan_assignments plan). \<forall>k.
      wi_affinity_key (ga_work_item a) = Some k \<longrightarrow> ga_gpu_uuids a = f k" using facts(4) by blast
  ultimately show ?thesis using assms(4) by (metis not_None_eq)
qed

theorem schedule_gangs_meet_claims_witness:
  "\<exists>plan. schedule_items example_scheduler [example_item] (replicate 64 (CHR ''d'')) [] [] {} = Inr plan
     \<and> gang_meets_claim example_scheduler (hd (plan_assignments plan))"
proof -
  from example_schedule obtain plan where
    plan: "schedule_items example_scheduler [example_item] (replicate 64 (CHR ''d'')) [] [] {} = Inr plan" ..
  have "plan_assignments plan \<noteq> []" by (rule example_plan_inhabited [OF plan])
  then have "hd (plan_assignments plan) \<in> set (plan_assignments plan)" by (rule hd_in_set)
  moreover have "\<forall>w \<in> set [example_item]. valid_claim (wi_claim w)"
    using example_claim_ok by (simp add: example_item_def)
  ultimately show ?thesis using schedule_gangs_meet_claims [OF plan example_scheduler_ok] plan by blast
qed

text \<open>
  C16: The scheduler does not give up on work it can place. If the items are admitted, each has a valid
  claim, a candidate gang and enough ports on an empty host and none asks for a slot of a concurrent calibration,
  and the items of an affinity group have the same candidate gangs, then every item is placed and packed, and the plan is returned unless two assignments
  have the same SHA-256 digest.
\<close>

theorem schedule_completes_when_placeable:
  assumes "valid_scheduler s" "admit_work_items s items receipts completed budgets authorized = Inr ()"
    "is_sha256 (rg_sha256 (sc_registry s))" "distinct (dkeys budgets)"
    "\<forall>w \<in> set items. placeable s w" "common_gangs s items"
  shows "\<exists>placements waves. place_loop s [] (initial_loads s) (ordered_items s items) = Inr placements
    \<and> pack_waves s [] placements = Inr waves
    \<and> ((\<exists>plan. schedule_items s items receipts completed budgets authorized = Inr plan)
        \<or> \<not> distinct (map assignment_id (concat waves)))"
  using schedule_completes [OF assms] by metis

theorem schedule_completes_when_placeable_witness:
  "\<exists>placements waves. place_loop example_scheduler [] (initial_loads example_scheduler)
       (ordered_items example_scheduler [example_item]) = Inr placements
     \<and> pack_waves example_scheduler [] placements = Inr waves"
  using schedule_completes_when_placeable [OF example_scheduler_ok example_admitted [OF example_receipts] example_registry_sha256,
      simplified, OF example_placeable example_common] by blast

text \<open>
  C37: The envelope permits a co-run of several gangs exactly if one of its passing rules was calibrated
  for it: for that number of jobs, the workload class, interference class, gang shape, load envelope and
  contention class of every assignment, and the hardware envelope of every device, and no assignment needs
  its host alone, by its claim or its workload class.
\<close>

theorem permits_only_calibrated_co_runs:
  assumes "1 < length as" "\<forall>a \<in> set as. ga_gpu_uuids a \<noteq> []"
  shows "permits e v as = Inr True \<longleftrightarrow> certified e v as"
  using permits_iff_certified [OF assms] .

theorem permits_only_calibrated_co_runs_witness:
  "permits example_envelope example_inventory [example_assignment ''GPU-0'', example_assignment ''GPU-1''] = Inr True
   \<and> permits (sc_envelope example_scheduler) example_inventory
       [example_assignment ''GPU-0'', example_assignment ''GPU-1''] \<noteq> Inr True"
proof -
  let ?as = "[example_assignment ''GPU-0'', example_assignment ''GPU-1'']"
  have as: "1 < length ?as" "\<forall>a \<in> set ?as. ga_gpu_uuids a \<noteq> []" by (simp_all add: example_assignment_def)
  have "rule_covers example_rule example_inventory (example_assignment u)" if "u \<in> {''GPU-0'', ''GPU-1''}" for u
    using that by (auto simp: rule_covers_def example_assignment_def example_rule_def example_item_def example_claim_def
        example_inventory_def inventory_device_def example_device_def hardware_envelope_sha256_def)
  then have "certified example_envelope example_inventory ?as"
    by (auto simp: certified_def example_envelope_def example_rule_def)
  moreover have "\<not> certified (sc_envelope example_scheduler) example_inventory ?as"
    by (simp add: certified_def example_scheduler_def)
  ultimately show ?thesis using permits_only_calibrated_co_runs [OF as] by blast
qed

section \<open>The artifacts survive their files\<close>

text \<open>
  An inventory that went through its constructors is read back from its JSON form and its own
  sidecar, and a reader with a sidecar accepts nothing but an inventory with the digest of the sidecar.
\<close>

theorem inventory_file_round_trip:
  assumes "valid_inventory v" "gpu_inventory_sidecar v = Inr sidecar"
  shows "gpu_inventory_from_dict (gpu_inventory_to_dict v) (Sidecar sidecar) = Inr v
    \<and> (\<forall>j s u. gpu_inventory_from_dict j (Sidecar s) = Inr u
         \<longrightarrow> as_artifact_kind s = ''gpu_inventory.v1'' \<and> as_artifact_sha256 s = gpu_inventory_sha256 u)"
  using inventory_round_trip [OF assms]
  by (auto simp: gpu_inventory_from_dict_def validate_sidecar_def)

theorem inventory_file_round_trip_witness:
  "\<exists>sidecar. gpu_inventory_sidecar example_inventory = Inr sidecar
     \<and> gpu_inventory_from_dict (gpu_inventory_to_dict example_inventory) (Sidecar sidecar) = Inr example_inventory"
proof -
  obtain sidecar where "gpu_inventory_sidecar example_inventory = Inr sidecar" using example_sidecar by blast
  with inventory_file_round_trip [OF example_inventory_ok this] show ?thesis by blast
qed



end
