(* ===== verification/Budget_Correct.thy ===== *)
theory Budget_Correct
  imports Budget_Laws Pool_Correct
begin

text \<open>
  The properties of the budgets of \<open>experiments/planning.py\<close>, with the report of a one-cell campaign on the
  inventory of the scheduler's example as their witness.
\<close>

section \<open>An example budget\<close>

definition flat :: "int \<Rightarrow> scenario_milliseconds" where
  "flat ms = \<lparr>sm_optimistic = ms, sm_registered = ms, sm_quota_envelope = ms\<rparr>"

definition example_budget :: experiment_budget where
  "example_budget =
     \<lparr>eb_schema_version = 1, eb_cell_id = cell_id example_cell, eb_experiment = ''E3a'', eb_method = ''static'',
      eb_workload_class = HEADLINE, eb_job_kind = STANDARD, eb_startup_model_load = flat 60000,
      eb_compile_jit_graph_prewarm = flat 0, eb_excluded_warmup = flat 0,
      eb_excluded_warmup_requests = zero_count, eb_scored_arrival = flat 0, eb_request_deadline = flat 0,
      eb_drain = flat 4000, eb_reset_finalization = flat 0, eb_evidence_flush_shutdown = flat 0,
      eb_output_tokens = zero_count, eb_minimum_completed_requests = 0, eb_p99_anchor_status = NOT_REQUIRED,
      eb_soak = flat 0, eb_failure_injection = flat 0, eb_retry = flat 0, eb_retry_allowance = 0,
      eb_profiler = flat 0, eb_download_compile_reservation = flat 0, eb_gpu_count = 1,
      eb_topology = xi_topology (xc_identity example_cell), eb_reserved_gpu_ms = flat 64000,
      eb_measured_gpu_ms = None, eb_fixed_instance_billed_gpu_ms = flat 128000\<rparr>"

lemma flat_simps [simp]:
  "sm_optimistic (flat n) = n" "sm_registered (flat n) = n" "sm_quota_envelope (flat n) = n"
  "sm_value (flat n) sc = n" "valid_ms (flat n) \<longleftrightarrow> 0 \<le> n" "flat m = flat n \<longleftrightarrow> m = n"
proof -
  show "sm_value (flat n) sc = n" by (cases sc) (simp_all add: flat_def)
qed (auto simp: flat_def valid_ms_iff)

lemma flat_arith:
  "0 \<le> m + n \<Longrightarrow> sm_add (flat m) (flat n) = Inr (flat (m + n))"
  "0 \<le> m \<Longrightarrow> 0 \<le> n \<Longrightarrow> sm_scale (flat m) n = Inr (flat (m * n))" "zero_milliseconds = flat 0"
  by (simp_all add: sm_add_def sm_scale_def scenario_milliseconds_post_init_def zero_milliseconds_def flat_def)

lemma example_wall: "wall_time example_budget = Inr (flat 64000)"
  by (simp add: wall_time_def additive_duration_fields_def example_budget_def flat_arith)

lemma example_compute: "compute_gpu_ms example_budget = Inr (flat 64000)"
  unfolding compute_gpu_ms_def example_wall by (simp add: flat_arith example_budget_def)

lemma example_budget_fields [simp]:
  "eb_cell_id example_budget = cell_id example_cell" "eb_gpu_count example_budget = 1"
  "eb_reserved_gpu_ms example_budget = flat 64000" "eb_fixed_instance_billed_gpu_ms example_budget = flat 128000"
  "eb_measured_gpu_ms example_budget = None" "eb_retry_allowance example_budget = 0"
  "eb_p99_anchor_status example_budget = NOT_REQUIRED"
  by (simp_all add: example_budget_def)

lemma example_cell_digest: "is_sha256 (cell_id example_cell)"
  by (simp add: cell_id_def cell_identity_digest_def)

lemma example_budget_ok: "valid_budget example_budget"
proof -
  have durations: "list_all (\<lambda>(name, field). valid_ms (field example_budget)) additive_duration_fields"
    "valid_ms (eb_request_deadline example_budget)" "valid_count (eb_excluded_warmup_requests example_budget)"
    "valid_count (eb_output_tokens example_budget)"
    by (simp_all add: additive_duration_fields_def example_budget_def valid_count_def zero_count_def
        expected_maximum_count_post_init_def require_nonnegative_int_def)
  have "single_line_text ''E3a''" "single_line_text ''static''"
    "single_line_text (xi_topology (xc_identity example_cell))" by code_simp+
  then have texts: "check_all (\<lambda>(name, value). require_planning_text name value)
      [(''experiment'', eb_experiment example_budget), (''method'', eb_method example_budget),
       (''topology'', eb_topology example_budget)] = Inr ()"
    by (simp add: require_planning_text_def) (simp add: example_budget_def)
  have "budget_load_check example_budget = Inr ()" "budget_kind_check example_budget = Inr ()"
    by (simp_all add: budget_load_check_def budget_kind_check_def example_budget_def zero_count_def)
  moreover have "budget_gpu_check example_budget = Inr ()"
    by (simp add: budget_gpu_check_def example_compute)
  moreover have "require_planning_sha256 ''budget cell_id'' (cell_id example_cell) = Inr ()"
    using example_cell_digest by (simp add: require_planning_sha256_def)
  moreover have "eb_schema_version example_budget = 1" "eb_minimum_completed_requests example_budget = 0"
    by (simp_all add: example_budget_def)
  ultimately have "experiment_budget_post_init example_budget = Inr example_budget"
    unfolding experiment_budget_post_init_def texts by (simp add: require_nonnegative_int_def)
  with durations show ?thesis by (simp add: valid_budget_def)
qed

definition example_budget_inventory :: budget_inventory_identity where
  "example_budget_inventory =
     \<lparr>bi_schema_version = 1, bi_host_sha256 = content_sha256 (jstrs [''host-0'']),
      bi_gpu_uuids = [''GPU-0'', ''GPU-1''], bi_topology_sha256 = content_sha256 (JArr [])\<rparr>"

lemma example_identity_of_inventory:
  "budget_inventory_identity_from_gpu_inventory example_inventory = Inr example_budget_inventory"
proof -
  have "single_line_text ''GPU-0''" "single_line_text ''GPU-1''" by code_simp+
  moreover have "host_ids example_inventory = [''host-0'']"
    by (simp add: host_ids_def example_inventory_def example_device_def sorted_set_def)
  ultimately show ?thesis
    by (simp add: budget_inventory_identity_from_gpu_inventory_def budget_inventory_identity_post_init_def
        require_planning_sha256_def require_planning_text_def example_budget_inventory_def)
      (simp add: example_inventory_def example_device_def require_planning_text_def)
qed

lemma example_gpu_count [simp]: "bi_gpu_count example_budget_inventory = 2"
  by (simp add: bi_gpu_count_def example_budget_inventory_def)

lemma example_registry_cell: "registry_cell (sc_registry example_scheduler) (cell_id example_cell) = Inr example_cell"
  by (simp add: registry_cell_def by_cell_def example_scheduler_def dict_simps)

lemma example_covered: "check_budget_coverage (sc_registry example_scheduler) [cell_id example_cell] [example_budget] = Inr ()"
  by (simp add: check_budget_coverage_def example_scheduler_def)

lemma example_row: "check_budget_row (sc_registry example_scheduler) example_budget_inventory example_budget = Inr ()"
  by (simp add: check_budget_row_def example_registry_cell example_wall flat_arith)
    (simp add: example_budget_def example_cell_def example_identity_def rc_gpu_count_def)

lemma flat_hours: "0 \<le> n \<Longrightarrow> \<exists>h. hours_from_milliseconds (flat n) = Inr h"
  by (simp add: hours_from_milliseconds_def exact_scenario_hours_post_init_def require_nonnegative_int_def)

lemma example_totals: "\<exists>t. totals_of [example_budget] = Inr t"
proof -
  have "component_totals [example_budget] = Inr (map (\<lambda>(name, field). (name, field example_budget)) additive_duration_fields)"
    by (simp add: component_totals_def additive_duration_fields_def sum_scenarios_def flat_arith example_budget_def)
  moreover have "sum_counts [zero_count] = Inr zero_count"
    by (simp add: sum_counts_def count_add_def zero_count_def expected_maximum_count_post_init_def require_nonnegative_int_def)
  moreover have "eb_excluded_warmup_requests example_budget = zero_count" "eb_output_tokens example_budget = zero_count"
    "eb_request_deadline example_budget = flat 0" by (simp_all add: example_budget_def)
  ultimately show ?thesis
    using flat_hours [of 64000] flat_hours [of 128000]
    by (auto simp: totals_of_def example_compute sum_scenarios_def flat_arith)
qed

lemma example_groups:
  "\<exists>gs. map_res (group_total [example_budget]) (sorted_set (map group_key [example_budget])) = Inr gs"
  using example_totals by (auto simp: sorted_set_def group_total_def split: prod.split)

lemma example_scenario:
  "scenario_wall_ms example_scheduler sha [(example_budget, flat 64000)] scenario = Inr (Some 64000)"
proof -
  let ?rows = "[(example_budget, flat 64000)]"
  have "seconds_of 64000 = Inr (Fin 64)" by code_simp
  then have "\<exists>ms. scenario_wall_ms example_scheduler sha ?rows scenario = Inr (Some ms)"
    using example_schedulable [of "content_sha256 (JObj
            [(''schema_version'', JInt 1), (''kind'', JStr ''industrial_budget_exact_schedule''),
             (''activation_sha256'', JStr sha), (''scenario'', JStr (scenario_text scenario)),
             (''inventory_sha256'', JStr (gpu_inventory_sha256 (sc_inventory example_scheduler))),
             (''interference_envelope_sha256'', JStr (interference_envelope_sha256 (sc_envelope example_scheduler)))])"
        "[(cell_id example_cell, experiment_budget_sha256 example_budget)]"]
    by (auto simp: scenario_wall_ms_def example_registry_cell example_registered schedule_work_items_def
        budgets_for_example_def experiment_budget_sha256_def)
  then obtain ms where ms: "scenario_wall_ms example_scheduler sha ?rows scenario = Inr (Some ms)" ..
  from scenario_wall_bounds [OF ms] have "ms = 64000" by auto
  with ms show ?thesis by simp
qed

lemma example_estimate:
  "estimate_wall_time_from_scheduler (sc_registry example_scheduler) sha [example_budget]
     (sc_inventory example_scheduler) (sc_envelope example_scheduler) = Inr (Some (flat 64000), None)"
proof -
  have "default_scheduler (sc_registry example_scheduler) (sc_inventory example_scheduler)
      (sc_envelope example_scheduler) = Inr example_scheduler"
    using example_scheduler_ok by (simp add: default_scheduler_def valid_scheduler_def) (simp add: example_scheduler_def)
  moreover have "length (host_ids (sc_inventory example_scheduler)) = 1"
    by (simp add: host_ids_def example_scheduler_def example_inventory_def example_device_def sorted_set_def)
  moreover have "dispatchable example_cell False" unfolding dispatchable_def by code_simp
  ultimately show ?thesis
    by (simp add: estimate_wall_time_from_scheduler_def example_wall example_registry_cell example_scenario
        scenario_milliseconds_post_init_def)
qed

lemma example_report:
  "\<exists>r. estimate_industrial_budget (sc_registry example_scheduler) [cell_id example_cell] (replicate 64 (CHR ''d''))
     [example_budget] example_budget_inventory (Some (sc_inventory example_scheduler))
     (Some (sc_envelope example_scheduler)) [] = Inr r \<and> ib_estimated_wall_ms r = Some (flat 64000)"
proof -
  obtain t gs h k where "totals_of [example_budget] = Inr t"
    "map_res (group_total [example_budget]) (sorted_set (map group_key [example_budget])) = Inr gs"
    "hours_from_milliseconds (flat 64000) = Inr h" "hours_from_milliseconds (flat 128000) = Inr k"
    using example_totals example_groups flat_hours by (metis zero_le_numeral)
  note parts = this
  have physical: "physical_inputs example_budget_inventory (Some (sc_inventory example_scheduler))
      (Some (sc_envelope example_scheduler)) = Inr (Some (sc_inventory example_scheduler, sc_envelope example_scheduler))"
    using example_identity_of_inventory by (simp add: physical_inputs_def example_scheduler_def)
  have "schedule_estimate (sc_registry example_scheduler) (replicate 64 (CHR ''d'')) [example_budget]
      example_budget_inventory (Some (sc_inventory example_scheduler, sc_envelope example_scheduler))
      = Inr (Some (flat 64000), [])"
    by (simp add: schedule_estimate_def resources_fit_def example_estimate)
  note parts = parts this physical example_covered example_row
  have "industrial_budget_report_post_init (budget_totals.extend t
       (industrial_budget_report.fields 1 (rg_sha256 (sc_registry example_scheduler)) (replicate 64 (CHR ''d''))
          example_budget_inventory [experiment_budget_sha256 example_budget] gs (Some (flat 64000)) (Some h)
          (Some (flat 128000)) (Some k) [] (Some (gpu_inventory_sha256 (sc_inventory example_scheduler)))
          (Some (interference_envelope_sha256 (sc_envelope example_scheduler)))))
      = Inr (budget_totals.extend t
       (industrial_budget_report.fields 1 (rg_sha256 (sc_registry example_scheduler)) (replicate 64 (CHR ''d''))
          example_budget_inventory [experiment_budget_sha256 example_budget] gs (Some (flat 64000)) (Some h)
          (Some (flat 128000)) (Some k) [] (Some (gpu_inventory_sha256 (sc_inventory example_scheduler)))
          (Some (interference_envelope_sha256 (sc_envelope example_scheduler)))))"
    using example_registry_sha256 example_receipts(1)
    by (simp add: industrial_budget_report_post_init_def require_planning_sha256_def budget_totals.defs
        industrial_budget_report.defs gpu_inventory_sha256_def interference_envelope_sha256_def sorted_set_def)
  then show ?thesis
    using example_receipts(1)
    by (simp only: estimate_industrial_budget_def parts rbind_Inr require_planning_sha256_def raise_if_def)
      (simp add: parts optional_scale_def optional_hours_def flat_arith budget_assumptions_def report_fields sorted_set_def)
qed

section \<open>The properties of the budget\<close>

text \<open>
  C34: The totals of a budget report are partitioned by its groups. The budgets cover exactly the activated
  cells, each once; there is one group per experiment, method, workload class and topology, in sorted
  order; and cells, GPU units and compute, reserved and billed GPU time of the report are in every
  scenario the sums over the groups.
\<close>

theorem budget_report_totals_partition:
  assumes "estimate_industrial_budget registry active sha rows inventory v e assumptions = Inr r"
  shows "set (map eb_cell_id rows) = set active \<and> distinct (map eb_cell_id rows)
    \<and> map (\<lambda>g. (gt_experiment g, gt_method g, gt_workload_class g, gt_topology g)) (ib_groups r)
        = sorted_set (map group_key rows)
    \<and> bt_cells r = int (length rows) \<and> (\<Sum>g \<leftarrow> ib_groups r. bt_cells g) = bt_cells r
    \<and> (\<Sum>g \<leftarrow> ib_groups r. bt_gpu_cell_units g) = bt_gpu_cell_units r
    \<and> (\<forall>sc. (\<Sum>g \<leftarrow> ib_groups r. sm_value (bt_compute_gpu_ms g) sc) = sm_value (bt_compute_gpu_ms r) sc
        \<and> (\<Sum>g \<leftarrow> ib_groups r. sm_value (bt_reserved_gpu_ms g) sc) = sm_value (bt_reserved_gpu_ms r) sc
        \<and> (\<Sum>g \<leftarrow> ib_groups r. sm_value (bt_fixed_instance_billed_gpu_ms g) sc)
            = sm_value (bt_fixed_instance_billed_gpu_ms r) sc)"
proof -
  from assms obtain physical reasons where
    groups: "map_res (group_total rows) (sorted_set (map group_key rows)) = Inr (ib_groups r)" and
    totals: "totals_of rows = Inr (budget_totals.truncate r)" and
    cover: "check_budget_coverage registry active rows = Inr ()" by (rule estimate_Inr)
  note t = totals_of_Inr [OF totals, unfolded truncate_totals] totals_compute [OF totals, unfolded truncate_totals]
  show ?thesis
    using cover groups_keys [OF groups]
    by (simp add: report_group_sums [OF groups] t(1,2,4,5,10) check_budget_coverage_def Let_def)
qed

theorem budget_report_totals_partition_witness:
  "\<exists>r. estimate_industrial_budget (sc_registry example_scheduler) [cell_id example_cell] (replicate 64 (CHR ''d''))
     [example_budget] example_budget_inventory (Some (sc_inventory example_scheduler))
     (Some (sc_envelope example_scheduler)) [] = Inr r
     \<and> (\<Sum>g \<leftarrow> ib_groups r. bt_cells g) = 1"
proof -
  obtain r where r: "estimate_industrial_budget (sc_registry example_scheduler) [cell_id example_cell]
     (replicate 64 (CHR ''d'')) [example_budget] example_budget_inventory (Some (sc_inventory example_scheduler))
     (Some (sc_envelope example_scheduler)) [] = Inr r" using example_report by blast
  from budget_report_totals_partition [OF r] have "(\<Sum>g \<leftarrow> ib_groups r. bt_cells g) = 1" by simp
  with r show ?thesis by blast
qed

text \<open>
  C35: The wall time that the report takes from the exact schedules is between the longest budget and the
  sum of all budgets in every scenario, and the GPU time that the schedule bills for the whole inventory
  is at most what the cells bill one by one.
\<close>

theorem budget_wall_time_bounds:
  assumes "estimate_industrial_budget registry active sha rows inventory v e assumptions = Inr r"
    "ib_estimated_wall_ms r = Some wall"
  shows "(\<forall>b \<in> set rows. wall_ms_of b sc \<le> sm_value wall sc)
    \<and> sm_value wall sc \<le> (\<Sum>b \<leftarrow> rows. wall_ms_of b sc)
    \<and> (\<exists>billed. ib_schedule_billed_gpu_ms r = Some billed
        \<and> sm_value billed sc = sm_value wall sc * bi_gpu_count inventory
        \<and> sm_value billed sc \<le> sm_value (bt_fixed_instance_billed_gpu_ms r) sc)"
proof -
  from assms(1) obtain physical reasons where
    totals: "totals_of rows = Inr (budget_totals.truncate r)" and
    cover: "check_budget_coverage registry active rows = Inr ()" and
    each: "\<forall>b \<in> set rows. check_budget_row registry inventory b = Inr ()" and
    sched: "schedule_estimate registry sha rows inventory physical = Inr (ib_estimated_wall_ms r, reasons)" and
    scale: "optional_scale (ib_estimated_wall_ms r) (bi_gpu_count inventory) = Inr (ib_schedule_billed_gpu_ms r)"
    by (rule estimate_Inr)
  from sched [unfolded assms(2)] obtain v' e' reason where fit: "resources_fit inventory rows" and
    wall: "estimate_wall_time_from_scheduler registry sha rows v' e' = Inr (Some wall, reason)"
    by (rule schedule_estimate_Some)
  have "distinct (map eb_cell_id rows)" using cover by (simp add: check_budget_coverage_def Let_def)
  note bounds = estimate_wall_bounds(1,2) [OF wall this, where sc = sc]
  from scale obtain billed where billed: "sm_scale wall (bi_gpu_count inventory) = Inr billed"
    "Some billed = ib_schedule_billed_gpu_ms r" by (auto simp: optional_scale_def assms(2))
  have scaled: "sm_value billed sc = sm_value wall sc * bi_gpu_count inventory"
    using sm_scale_Inr [OF billed(1)] by blast
  have eq: "map (\<lambda>b. sm_value (eb_fixed_instance_billed_gpu_ms b) sc) rows
      = map (\<lambda>b. wall_ms_of b sc * bi_gpu_count inventory) rows"
    using check_budget_row_Inr each fit by (auto simp: resources_fit_def list_all_iff)
  have "sm_value (bt_fixed_instance_billed_gpu_ms r) sc = (\<Sum>b \<leftarrow> rows. wall_ms_of b sc) * bi_gpu_count inventory"
    using totals_of_Inr(5) [OF totals, of sc] unfolding truncate_totals eq sum_list_mult_const .
  moreover have "0 \<le> bi_gpu_count inventory" by (simp add: bi_gpu_count_def)
  ultimately have "sm_value billed sc \<le> sm_value (bt_fixed_instance_billed_gpu_ms r) sc"
    using scaled bounds(1) by (simp add: mult_right_mono)
  then show ?thesis using bounds billed(2) [symmetric] scaled by blast
qed

theorem budget_wall_time_bounds_witness:
  "\<exists>r billed. estimate_industrial_budget (sc_registry example_scheduler) [cell_id example_cell]
     (replicate 64 (CHR ''d'')) [example_budget] example_budget_inventory (Some (sc_inventory example_scheduler))
     (Some (sc_envelope example_scheduler)) [] = Inr r
     \<and> ib_schedule_billed_gpu_ms r = Some billed \<and> sm_value billed REGISTERED = 128000"
proof -
  obtain r where r: "estimate_industrial_budget (sc_registry example_scheduler) [cell_id example_cell]
     (replicate 64 (CHR ''d'')) [example_budget] example_budget_inventory (Some (sc_inventory example_scheduler))
     (Some (sc_envelope example_scheduler)) [] = Inr r" "ib_estimated_wall_ms r = Some (flat 64000)"
    using example_report by blast
  from budget_wall_time_bounds [OF r, of REGISTERED] r(1) show ?thesis by auto
qed

text \<open>
  C36: Budgets that went through their constructors can always be summed: no addition, scaling or hour
  conversion of the totals raises, every total is again monotone over the scenarios, and the compute time
  exceeds neither the reserved nor the billed time.
\<close>

theorem valid_budgets_sum_to_valid_totals:
  assumes "\<forall>b \<in> set budgets. valid_budget b"
  shows "\<exists>t. totals_of budgets = Inr t \<and> valid_ms (bt_compute_gpu_ms t) \<and> valid_ms (bt_reserved_gpu_ms t)
    \<and> valid_ms (bt_fixed_instance_billed_gpu_ms t)
    \<and> (\<forall>sc. sm_value (bt_compute_gpu_ms t) sc \<le> sm_value (bt_reserved_gpu_ms t) sc
         \<and> sm_value (bt_compute_gpu_ms t) sc \<le> sm_value (bt_fixed_instance_billed_gpu_ms t) sc)"
proof -
  obtain t where t: "totals_of budgets = Inr t" using totals_ok [OF assms] ..
  have "sm_value (bt_compute_gpu_ms t) sc \<le> sm_value (bt_reserved_gpu_ms t) sc"
    "sm_value (bt_compute_gpu_ms t) sc \<le> sm_value (bt_fixed_instance_billed_gpu_ms t) sc" for sc
    using gpu_ms_le assms by (auto simp: totals_compute [OF t] totals_of_Inr(4,5) [OF t] intro!: sum_list_mono)
  with t totals_of_Inr(7-9) [OF t] show ?thesis by blast
qed

theorem valid_budgets_sum_to_valid_totals_witness:
  "\<exists>t. totals_of [example_budget, example_budget] = Inr t \<and> valid_ms (bt_compute_gpu_ms t)"
  using valid_budgets_sum_to_valid_totals [of "[example_budget, example_budget]"] example_budget_ok by auto

text \<open>
  A capacity envelope without a rejection reason covers every admissible sequence of retries: if each cell
  runs at most one attempt more than its retry allowance, the billed GPU time stays within the provider
  quota and the bytes of all attempts within the free space and the quota of the host.
\<close>

lemma ready_capacity_covers:
  assumes "ready_capacity_rejection_reason e budgets = None" "distinct (map eb_cell_id budgets)"
    "\<forall>b \<in> set budgets. valid_budget b" "capacity_envelope_post_init e = Inr e"
    "\<forall>r \<in> set (ce_cell_requirements e). cell_capacity_requirement_post_init r = Inr r"
    "\<forall>b \<in> set budgets. 0 \<le> attempts b \<and> attempts b \<le> eb_retry_allowance b + 1"
  shows "(\<Sum>b \<leftarrow> budgets. sm_quota_envelope (eb_fixed_instance_billed_gpu_ms b) * attempts b)
      \<le> ce_provider_quota_gpu_ms e
    \<and> (\<Sum>b \<leftarrow> budgets. maximum_attempt_bytes (requirement_of e b) * attempts b)
      \<le> min (ce_host_free_bytes e) (ce_host_quota_bytes e)
    \<and> (\<forall>b \<in> set budgets. requirement_of e b \<in> set (ce_cell_requirements e)
         \<and> cq_cell_id (requirement_of e b) = eb_cell_id b)"
proof -
  let ?reqs = "by_cell cq_cell_id (ce_cell_requirements e)"
  have "map cq_cell_id (ce_cell_requirements e) = sorted_set (map cq_cell_id (ce_cell_requirements e))"
    using assms(4) unfolding capacity_envelope_post_init_def rbind_unit raise_if_Inr by blast
  then have "distinct (map cq_cell_id (ce_cell_requirements e))" by (metis distinct_sorted_set)
  note dicts = by_cell_distinct [OF this] by_cell_distinct [OF assms(2)]
  note reason = assms(1) [unfolded ready_capacity_rejection_reason_def Let_def dicts(2)]
  have cover: "set (dkeys ?reqs) = eb_cell_id ` set budgets"
    and gpu: "(\<Sum>b \<leftarrow> budgets. sm_quota_envelope (eb_fixed_instance_billed_gpu_ms b) * (eb_retry_allowance b + 1))
      \<le> ce_provider_quota_gpu_ms e"
    and disk: "(\<Sum>b \<leftarrow> budgets. maximum_attempt_bytes (requirement_of e b) * (eb_retry_allowance b + 1)) \<le> effective_host_bytes e"
    using reason by (simp_all add: requirement_of_def comp_def split: if_splits)
  have req: "requirement_of e b \<in> set (ce_cell_requirements e)" "cq_cell_id (requirement_of e b) = eb_cell_id b"
    if "b \<in> set budgets" for b
  proof -
    have "eb_cell_id b \<in> set (dkeys ?reqs)" using cover that by blast
    then obtain r where "dget ?reqs (eb_cell_id b) = Some r" by (auto simp: dict_simps dest: weak_map_of_SomeI)
    then show "requirement_of e b \<in> set (ce_cell_requirements e)" "cq_cell_id (requirement_of e b) = eb_cell_id b"
      using by_cell_get by (fastforce simp: requirement_of_def)+
  qed
  have le: "x * attempts b \<le> x * (eb_retry_allowance b + 1)" if "b \<in> set budgets" "0 \<le> x" for b x
    using assms(6) that by (simp add: mult_left_mono)
  have billed: "0 \<le> sm_quota_envelope (eb_fixed_instance_billed_gpu_ms b)" if "b \<in> set budgets" for b
    using assms(3) that by (auto simp: valid_budget_def valid_ms_iff)
  have bytes: "0 \<le> maximum_attempt_bytes (requirement_of e b)" if "b \<in> set budgets" for b
    using assms(5) req(1) [OF that]
    by (fastforce simp: cell_capacity_requirement_post_init_def maximum_attempt_bytes_def require_nonnegative_int_def)
  have "(\<Sum>b \<leftarrow> budgets. sm_quota_envelope (eb_fixed_instance_billed_gpu_ms b) * attempts b)
      \<le> (\<Sum>b \<leftarrow> budgets. sm_quota_envelope (eb_fixed_instance_billed_gpu_ms b) * (eb_retry_allowance b + 1))"
    by (rule sum_list_mono) (use le billed in blast)
  moreover have "(\<Sum>b \<leftarrow> budgets. maximum_attempt_bytes (requirement_of e b) * attempts b)
      \<le> (\<Sum>b \<leftarrow> budgets. maximum_attempt_bytes (requirement_of e b) * (eb_retry_allowance b + 1))"
    by (rule sum_list_mono) (use le bytes in blast)
  ultimately show ?thesis using gpu disk req by (simp add: effective_host_bytes_def)
qed

definition example_requirement :: cell_capacity_requirement where
  "example_requirement =
     \<lparr>cq_cell_id = cell_id example_cell, cq_maximum_evidence_bytes = 100, cq_model_staging_bytes = 20,
      cq_compile_overlay_bytes = 3\<rparr>"

definition example_capacity :: capacity_envelope where
  "example_capacity =
     \<lparr>ce_schema_version = 1, ce_budget_inventory_sha256 = replicate 64 (CHR ''d''),
      ce_provider_quota_gpu_ms = 128000, ce_host_free_bytes = 500, ce_host_quota_bytes = 123,
      ce_cell_requirements = [example_requirement], ce_source_receipt_sha256 = replicate 64 (CHR ''d'')\<rparr>"

end
