(* ===== verification/Dispatch_Correct.thy ===== *)
theory Dispatch_Correct
  imports Dispatch_Progress Budget_Correct
begin

text \<open>
  The correctness properties of the dispatch engine, with a run on the example plan, budget and inventory,
  one attempt of which fails, as their witness.
\<close>

section \<open>An example run\<close>

text \<open>The budget of the example allows one retry.\<close>

definition retry_budget :: experiment_budget where
  "retry_budget = example_budget\<lparr>eb_retry_allowance := 1, eb_drain := flat 3000, eb_retry := flat 1000\<rparr>"

definition example_dispatch_plan :: gpu_dispatch_plan where
  "example_dispatch_plan =
     \<lparr>gp_schema_version = 1, gp_registry_sha256 = replicate 64 (CHR ''a''),
      gp_inventory_sha256 = gpu_inventory_sha256 example_inventory, gp_receipts_sha256 = replicate 64 (CHR ''d''),
      gp_interference_envelope_sha256 = replicate 64 (CHR ''c''),
      gp_budget_sha256_by_cell = [(cell_id example_cell, experiment_budget_sha256 retry_budget)], gp_seed = 0,
      gp_waves = [example_wave], gp_completed_cell_ids = []\<rparr>"

definition example_context :: execution_context where
  "example_context =
     \<lparr>ex_registry = sc_registry example_scheduler, ex_inventory = example_inventory, ex_budgets = [retry_budget],
      ex_resume_terminal_authorities = [], ex_validate_plan = (\<lambda>_. Inr ()), ex_resolved = (\<lambda>_. True)\<rparr>"

definition example_binding :: terminal_binding where
  "example_binding =
     \<lparr>tb_authority_sha256 = replicate 64 (CHR ''a''), tb_cell_id = cell_id example_cell,
      tb_assignment_sha256 = assignment_id (example_assignment ''GPU-0''),
      tb_budget_sha256 = experiment_budget_sha256 retry_budget,
      tb_inventory_sha256 = gpu_inventory_sha256 example_inventory, tb_physical_gpu_uuids = [''GPU-0''],
      tb_execution_plan_sha256 = replicate 64 (CHR ''a''), tb_dispatch_plan_sha256 = replicate 64 (CHR ''a''),
      tb_run_id = ''run-0'', tb_run_nonce_sha256 = replicate 64 (CHR ''a''),
      tb_terminal_receipt_path = ''/run/receipt'', tb_terminal_receipt_sha256 = replicate 64 (CHR ''a''),
      tb_budget_observation_path = ''/run/budget'', tb_budget_observation_sha256 = replicate 64 (CHR ''a''),
      tb_budget_observation_sidecar_path = ''/run/sidecar'',
      tb_budget_observation_sidecar_sha256 = replicate 64 (CHR ''a''),
      tb_native_terminal_artifact_path = ''/run/native'', tb_native_terminal_raw_sha256 = replicate 64 (CHR ''a''),
      tb_native_terminal_sha256 = replicate 64 (CHR ''a''),
      tb_trusted_attester_policy_sha256 = replicate 64 (CHR ''b''), tb_evidence_file_paths = [''/run/evidence''],
      tb_evidence_file_sha256s = [replicate 64 (CHR ''a'')]\<rparr>"

definition example_authority :: terminal_authority where
  "example_authority =
     \<lparr>ta_sha256 = replicate 64 (CHR ''a''), ta_registry = sc_registry example_scheduler,
      ta_inventory = example_inventory, ta_cell_id = cell_id example_cell, ta_policy_release_ready = True,
      ta_policy_sha256 = replicate 64 (CHR ''b''), ta_reopen = Inr (example_binding, True)\<rparr>"

text \<open>A world in which the runner answers \<open>first\<close> to attempt 1 and succeeds in every later attempt.\<close>

definition example_world :: "(string \<times> string) + terminal_authority \<Rightarrow> dispatch_world" where
  "example_world first =
     \<lparr>dw_journal = False, dw_begin_wave = (\<lambda>_ _. Inr ()),
      dw_attempt = (\<lambda>_ n.
        \<lparr>ao_token = Inl (RuntimeError ''no journal''), ao_started = 20 * n,
         ao_runner = (if n = 1 then first else Inr example_authority), ao_finished = 20 * n + 10,
         ao_caught = 20 * n + 10, ao_finish = Inr ()\<rparr>)\<rparr>"

lemma retry_budget_ok: "valid_budget retry_budget"
proof -
  have durations: "list_all (\<lambda>(name, field). valid_ms (field retry_budget)) additive_duration_fields"
    using example_budget_ok by (simp add: valid_budget_def additive_duration_fields_def retry_budget_def)
  have compute: "compute_gpu_ms retry_budget = Inr (flat 64000)"
    by (simp add: compute_gpu_ms_def wall_time_def additive_duration_fields_def retry_budget_def)
      (simp add: flat_arith example_budget_def)
  have "budget_load_check retry_budget = Inr ()" "budget_kind_check retry_budget = Inr ()"
    by (simp_all add: budget_load_check_def budget_kind_check_def retry_budget_def example_budget_def zero_count_def)
  moreover have "budget_gpu_check retry_budget = Inr ()"
    unfolding budget_gpu_check_def compute by (simp add: retry_budget_def)
  moreover have "experiment_budget_post_init example_budget = Inr example_budget"
    using example_budget_ok by (simp add: valid_budget_def)
  moreover have "eb_schema_version retry_budget = eb_schema_version example_budget"
    "eb_cell_id retry_budget = eb_cell_id example_budget" "eb_experiment retry_budget = eb_experiment example_budget"
    "eb_method retry_budget = eb_method example_budget" "eb_topology retry_budget = eb_topology example_budget"
    "eb_gpu_count retry_budget = eb_gpu_count example_budget"
    "eb_minimum_completed_requests retry_budget = eb_minimum_completed_requests example_budget"
    "eb_measured_gpu_ms retry_budget = eb_measured_gpu_ms example_budget" "eb_retry_allowance retry_budget = 1"
    by (simp_all add: retry_budget_def)
  ultimately have "experiment_budget_post_init retry_budget = Inr retry_budget"
    by (auto simp: experiment_budget_post_init_def require_nonnegative_int_def)
  with durations example_budget_ok show ?thesis by (simp add: valid_budget_def retry_budget_def)
qed

lemma sample_digests [simp]:
  "is_sha256 (replicate 64 (CHR ''a''))" "is_sha256 (replicate 64 (CHR ''b''))" "is_sha256 (replicate 64 (CHR ''c''))"
  "is_sha256 (replicate 64 (CHR ''d''))" "is_sha256 (cell_id example_cell)"
  by (code_simp, code_simp, code_simp, code_simp, rule example_cell_digest)

lemma example_plan_shape [simp]:
  "gp_waves example_dispatch_plan = [example_wave]" "gw_assignments example_wave = [example_assignment ''GPU-0'']"
  "gw_wave_index example_wave = 0" "ga_gpu_uuids (example_assignment u) = [u]"
  "item_id (ga_work_item (example_assignment u)) = cell_id example_cell" "scientific_budget_bound example_dispatch_plan"
  by (simp_all add: example_dispatch_plan_def example_wave_def example_assignment_def example_item_def item_id_def
      scientific_budget_bound_def)

lemma example_plan_valid: "valid_dispatch_plan example_dispatch_plan"
proof -
  have wave: "gpu_dispatch_wave_post_init example_wave = Inr example_wave" using example_wave_ok by (simp add: valid_wave_def)
  have "gpu_dispatch_plan_post_init example_dispatch_plan = Inr example_dispatch_plan"
    unfolding gpu_dispatch_plan_post_init_def Let_def by simp (simp add: example_dispatch_plan_def)
  with wave show ?thesis by (simp add: valid_dispatch_plan_def)
qed

lemma example_revalidated:
  "revalidate (\<lambda>_. True) example_authority (sc_registry example_scheduler) example_inventory
     (assignment_id (example_assignment ''GPU-0'')) (experiment_budget_sha256 retry_budget) [''GPU-0''] = Inr example_binding"
proof -
  have same: "example_binding\<lparr>tb_authority_sha256 := ta_sha256 example_authority\<rparr> = example_binding"
    by (simp add: example_binding_def example_authority_def)
  have "terminal_binding_post_init (\<lambda>_. True) example_binding = Inr example_binding"
    unfolding terminal_binding_post_init_def by (simp add: example_binding_def)
  then show ?thesis unfolding revalidate_def by (simp add: same example_authority_def) (simp add: example_binding_def)
qed

lemma example_budget_of: "budget_of example_context (example_assignment ''GPU-0'') = Inr retry_budget"
  by (simp add: budget_of_def budgets_by_cell_id_def by_cell_def example_context_def example_assignment_def example_item_def
      item_id_def retry_budget_def dict_simps)

lemma example_fixed: "fixed_count example_context = 2"
  by (simp add: fixed_count_def example_context_def example_inventory_def)

lemma example_context_shape [simp]:
  "ex_registry example_context = sc_registry example_scheduler" "ex_inventory example_context = example_inventory"
  "ex_validate_plan example_context plan = Inr ()" "ex_resolved example_context = (\<lambda>_. True)"
  "ex_resume_terminal_authorities example_context = []"
  by (simp_all add: example_context_def)

lemma example_runs_own_cell: "first = Inr example_authority \<or> first = Inl e \<Longrightarrow> runs_own_cell (example_world first) (example_assignment ''GPU-0'')"
  by (auto simp: runs_own_cell_def example_world_def example_authority_def split: if_splits)

lemma example_first_succeeds:
  "first_attempt_succeeds (example_world (Inr example_authority)) example_context (example_assignment ''GPU-0'')"
  using example_revalidated
  by (simp add: first_attempt_succeeds_def example_fixed example_budget_of)
    (simp add: example_world_def retry_budget_def)

lemma example_completes:
  "\<exists>r. execute_dispatch_plan (example_world (Inr example_authority)) example_context example_dispatch_plan None None None = Inr r
     \<and> sr_phase r = COMPLETE \<and> length (sr_wave_receipts r) = 1"
  using execute_completes [OF example_plan_valid, of example_context "example_world (Inr example_authority)" None]
    example_first_succeeds example_runs_own_cell [of "Inr example_authority" "(undefined, undefined)"] example_fixed
  by (auto simp: example_world_def)

text \<open>The receipt of a run whose only attempt failed, from time 20 to time 30.\<close>

definition failed_row :: assignment_receipt where
  "failed_row =
     \<lparr>ar_plan_sha256 = plan_sha256 example_dispatch_plan, ar_wave_sha256 = wave_sha256 example_wave,
      ar_assignment_sha256 = assignment_id (example_assignment ''GPU-0''),
      ar_budget_sha256 = experiment_budget_sha256 retry_budget, ar_attempt = 1, ar_status = ASSIGNMENT_FAILED,
      ar_terminal_receipt_sha256 = None, ar_terminal_binding = None,
      ar_failure_sha256 = Some (replicate 64 (CHR ''a'')), ar_prior_attempt_receipt_sha256 = None, ar_gpu_count = 1,
      ar_fixed_instance_gpu_count = 2, ar_intervals = [(20, 30)], ar_attributed_gpu_ns = 10,
      ar_attributed_fixed_instance_gpu_ns = 20,
      ar_accounting_semantics = ''per_assignment_attribution_not_schedule_ledger_v1''\<rparr>"

definition failed_wave :: wave_receipt where
  "failed_wave =
     \<lparr>wr_plan_sha256 = plan_sha256 example_dispatch_plan, wr_wave_index = 0, wr_wave_sha256 = wave_sha256 example_wave,
      wr_assignment_receipts = [failed_row], wr_inventory_sha256 = gpu_inventory_sha256 example_inventory,
      wr_fixed_instance_gpu_count = 2, wr_active_intervals = [(20, 30)], wr_billed_gpu_ns = 20,
      wr_attributed_gpu_ns = 10, wr_attributed_fixed_instance_gpu_ns = 20,
      wr_accounting_semantics = ''interval_union_schedule_ledger_v1''\<rparr>"

definition failed_schedule :: schedule_receipt where
  "failed_schedule =
     \<lparr>sr_plan_sha256 = plan_sha256 example_dispatch_plan, sr_phase = FAILED, sr_wave_receipts = [failed_wave],
      sr_inventory_sha256 = gpu_inventory_sha256 example_inventory, sr_fixed_instance_gpu_count = 2,
      sr_active_intervals = [(20, 30)], sr_billed_gpu_ns = 20, sr_attributed_gpu_ns = 10,
      sr_attributed_fixed_instance_gpu_ns = 20, sr_prior_schedule_receipt_sha256 = None,
      sr_accounting_semantics = ''interval_union_schedule_ledger_v1''\<rparr>"

definition failed_replay :: journal_replay where
  "failed_replay =
     \<lparr>jr_journal_path = ''/run/journal'', jr_manifest_sha256 = replicate 64 (CHR ''a''),
      jr_head_event_sha256 = replicate 64 (CHR ''a''), jr_event_count = 3,
      jr_schedule_receipt_sha256 = schedule_receipt_sha256 failed_schedule\<rparr>"

lemma sample_intervals:
  "merge_monotonic_intervals [(20, 30)] = Inr [(20, 30)]" "interval_union_ns [(20, 30)] = Inr 10"
  "merge_monotonic_intervals [(20, 30), (40, 50)] = Inr [(20, 30), (40, 50)]"
  "interval_union_ns [(20, 30), (40, 50)] = Inr 20"
  by code_simp+

lemma failed_row_ok: "assignment_receipt_post_init failed_row = Inr failed_row"
  unfolding assignment_receipt_post_init_def receipt_cost_check_def receipt_outcome_check_def
  by (simp add: failed_row_def sample_intervals opt_is_sha256_def)

lemma failed_wave_ok: "valid_wave_receipt failed_wave" "\<not> wave_succeeded failed_wave"
proof -
  have "wave_receipt_post_init failed_wave = Inr failed_wave"
    unfolding wave_receipt_post_init_def
    by (simp add: failed_wave_def sample_intervals) (simp add: failed_row_def sample_intervals)
  then show "valid_wave_receipt failed_wave" using failed_row_ok by (simp add: valid_wave_receipt_def) (simp add: failed_wave_def)
  show "\<not> wave_succeeded failed_wave" by (simp add: wave_succeeded_def failed_wave_def failed_row_def)
qed

lemma failed_schedule_ok: "valid_schedule_receipt failed_schedule"
proof -
  have "schedule_receipt_post_init failed_schedule = Inr failed_schedule"
    unfolding schedule_receipt_post_init_def schedule_phase_check_def Let_def
    using failed_wave_ok(2) by (simp add: failed_schedule_def sample_intervals) (simp add: failed_wave_def sample_intervals)
  then show ?thesis using failed_wave_ok(1) by (simp add: valid_schedule_receipt_def) (simp add: failed_schedule_def)
qed

lemma failed_wave_resumable: "wave_ok example_context example_dispatch_plan example_wave failed_wave"
proof -
  have row: "check_assignment_row example_context example_dispatch_plan example_wave (example_assignment ''GPU-0'') failed_row = Inr ()"
    unfolding check_assignment_row_def example_budget_of by (simp add: failed_row_def retry_budget_def)
  have "ar_assignment_sha256 failed_row = assignment_id (example_assignment ''GPU-0'')" by (simp add: failed_row_def)
  with row have "validate_wave_receipt example_context example_dispatch_plan example_wave failed_wave = Inr ()"
    by (simp add: validate_wave_receipt_def failed_wave_def example_fixed by_cell_def dict_simps)
  then show ?thesis using failed_wave_ok(1) by (simp add: wave_ok_def) (simp add: failed_wave_def)
qed

lemma failed_schedule_resumable: "validate_dispatch_resume example_context example_dispatch_plan failed_schedule (Some failed_replay) = Inr ()"
proof -
  have fields: "sr_wave_receipts failed_schedule = [failed_wave]" "wr_wave_index failed_wave = 0"
    "wr_assignment_receipts failed_wave = [failed_row]" "ar_status failed_row = ASSIGNMENT_FAILED"
    "sr_phase failed_schedule = FAILED" "sr_plan_sha256 failed_schedule = plan_sha256 example_dispatch_plan"
    "sr_inventory_sha256 failed_schedule = gpu_inventory_sha256 example_inventory" "sr_fixed_instance_gpu_count failed_schedule = 2"
    "jr_schedule_receipt_sha256 failed_replay = schedule_receipt_sha256 failed_schedule"
    by (simp_all add: failed_schedule_def failed_wave_def failed_row_def failed_replay_def)
  have "validate_wave_receipt example_context example_dispatch_plan example_wave failed_wave = Inr ()"
    using failed_wave_resumable by (simp add: wave_ok_def)
  then have "validate_dispatch_resume_structure example_context example_dispatch_plan failed_schedule = Inr ()"
    using failed_wave_ok(2)
    by (simp add: validate_dispatch_resume_structure_def resume_phase_check_def fields example_fixed Let_def)
  moreover have "required_authorities failed_schedule = {}"
    by (simp add: required_authorities_def fields List.map_filter_def)
  ultimately show ?thesis
    by (simp add: validate_dispatch_resume_def fields revalidate_row_def)
qed

text \<open>The resumed run succeeds in its second attempt, from time 40 to time 50.\<close>

lemma example_retry:
  assumes "first = Inl e"
  shows "\<exists>w. run_wave (example_world first) example_context example_dispatch_plan example_wave (Some failed_wave) = Inr w \<and> wave_succeeded w"
proof -
  let ?a = "example_assignment ''GPU-0''" and ?answer = "dw_attempt (example_world first) (example_assignment ''GPU-0'') 2"
  have rows: "receipts_with SUCCEEDED (Some failed_wave) = []" "dget (receipts_with ASSIGNMENT_FAILED (Some failed_wave)) (assignment_id ?a) = Some failed_row"
    by (simp_all add: receipts_with_def failed_wave_def failed_row_def by_cell_def dict_simps)
  define t where "t = \<lparr>at_assignment = ?a, at_number = 2, at_budget = retry_budget, at_prior = Some failed_row\<rparr>"
  have fields: "at_assignment t = ?a" "at_number t = 2" "at_budget t = retry_budget" "at_prior t = Some failed_row" by (simp_all add: t_def)
  have "ar_attempt failed_row = 1" "eb_retry_allowance retry_budget = 1" by (simp_all add: failed_row_def retry_budget_def)
  then have pending: "pending_attempts example_context example_wave (Some failed_wave) = Inr [t]"
    by (simp add: pending_attempts_def pending_attempt_def rows example_budget_of Let_def t_def)
  have answer: "ao_runner ?answer = Inr example_authority" "ao_finished ?answer = 50" "ao_started ?answer = 40"
    "ao_finish ?answer = Inr ()" "\<not> dw_journal (example_world first)" by (simp_all add: example_world_def)
  have intervals: "attempt_intervals t 40 50 = [(20, 30), (40, 50)]" by (simp add: attempt_intervals_def fields) (simp add: failed_row_def)
  have ids: "tb_assignment_sha256 example_binding = assignment_id ?a" "tb_budget_sha256 example_binding = experiment_budget_sha256 retry_budget"
    by (simp_all add: example_binding_def)
  have digest: "is_sha256 (assignment_receipt_sha256 r)" for r by (simp add: assignment_receipt_sha256_def)
  obtain r where r: "attempt_receipt example_context example_dispatch_plan example_wave t 40 50 (Inr example_binding) = Inr r"
    by (simp add: attempt_receipt_def Let_def intervals sample_intervals fields example_fixed ids digest
        assignment_receipt_post_init_def receipt_cost_check_def receipt_outcome_check_def opt_is_sha256_def)
  note rec = attempt_receipt_Inr [OF r]
  have "try_attempt example_context example_dispatch_plan example_wave t ?answer 40 = Inr r"
    using example_revalidated r by (simp add: try_attempt_def answer fields)
  then have run: "run_assignment (example_world first) example_context example_dispatch_plan example_wave t = Inr r"
    by (simp add: run_assignment_def fields Let_def answer)
  obtain w where w: "make_wave_receipt example_context example_dispatch_plan example_wave [r] = Inr w"
    using make_wave_receipt_ok [of "[r]" example_wave example_context example_dispatch_plan] rec(1) by (auto simp: attempt_recorded_def)
  have "run_wave (example_world first) example_context example_dispatch_plan example_wave (Some failed_wave) = Inr w"
    using w by (simp add: run_wave_def pending answer task_group_def run rows dict_simps fields)
  moreover have "wave_succeeded w" using make_wave_receipt_Inr(5) [OF w] rec(2) by (simp add: wave_succeeded_def)
  ultimately show ?thesis by blast
qed

lemma example_resumes:
  "\<exists>r. execute_dispatch_plan (example_world (Inl e)) example_context example_dispatch_plan (Some failed_schedule)
      (Some failed_replay) None = Inr r \<and> sr_phase r = COMPLETE \<and> length (sr_wave_receipts r) = 1"
proof -
  let ?run = "execute_dispatch_plan (example_world (Inl e)) example_context example_dispatch_plan (Some failed_schedule) (Some failed_replay) None"
  let ?s = "\<lparr>ds_plan_sha256 = plan_sha256 example_dispatch_plan, ds_phase = RUNNING, ds_next_wave_index = 0, ds_wave_receipt_sha256 = []\<rparr>"
  obtain w where w: "run_wave (example_world (Inl e)) example_context example_dispatch_plan example_wave (Some failed_wave) = Inr w"
    "wave_succeeded w" using example_retry by blast
  have own: "runs_own_cell (example_world (Inl e)) (example_assignment ''GPU-0'')" by (rule example_runs_own_cell) simp
  have ok: "wave_ok example_context example_dispatch_plan example_wave w"
    using run_wave_ok(1) [OF w(1)] own failed_wave_resumable by simp
  then have wid: "wr_plan_sha256 w = plan_sha256 example_dispatch_plan" "wr_wave_index w = 0"
    by (simp_all add: wave_ok_def validate_wave_receipt_def)
  have prefix: "prefix_ok example_context example_dispatch_plan [w]" using ok by (simp add: prefix_ok_def)
  have phase: "COMPLETE = phase_of example_dispatch_plan [w]" using w(2) by (simp add: phase_of_def)
  obtain y where y: "make_schedule_receipt example_context example_dispatch_plan COMPLETE [w]
      (Some (schedule_receipt_sha256 failed_schedule)) = Inr y"
    using make_schedule_receipt_ok [OF prefix example_plan_valid _ _ phase, of "Some (schedule_receipt_sha256 failed_schedule)"] w(2)
    by (auto simp: example_fixed opt_is_sha256_def)
  have accept: "ds_accept ?s w 1 = Inr (?s\<lparr>ds_phase := COMPLETE, ds_next_wave_index := 1, ds_wave_receipt_sha256 := [wave_receipt_sha256 w]\<rparr>)"
    using wid w(2) by (simp add: ds_accept_def dispatch_state_post_init_def)
  have point: "resume_point (Some failed_schedule) = ([], Some failed_wave, 0)" "sr_phase failed_schedule = FAILED" "wr_wave_index failed_wave = 0"
    by (simp_all add: resume_point_def failed_schedule_def failed_wave_def)
  have loop: "run_waves (example_world (Inl e)) example_context example_dispatch_plan [example_wave] (Some failed_wave) ?s [] (Some failed_schedule) = Inr y"
    using w accept y point(3) by (simp add: Let_def)
  have "ds_begin (?s\<lparr>ds_phase := FAILED\<rparr>) 1 = Inr ?s" "dispatch_state_post_init (?s\<lparr>ds_phase := FAILED\<rparr>) = Inr (?s\<lparr>ds_phase := FAILED\<rparr>)"
    by (simp_all add: ds_begin_def dispatch_state_post_init_def)
  with loop have "?run = Inr y"
    using failed_schedule_resumable point by (simp add: execute_dispatch_plan_def Let_def del: run_waves.simps)
  with make_schedule_receipt_Inr(3,4) [OF y] show ?thesis by auto
qed

text \<open>A capacity for two attempts of the example cell.\<close>

definition retry_capacity :: "int \<Rightarrow> capacity_envelope" where
  "retry_capacity bytes = example_capacity\<lparr>ce_provider_quota_gpu_ms := 256000, ce_host_quota_bytes := bytes\<rparr>"

lemma retry_capacity:
  "ready_capacity_rejection_reason (retry_capacity 246) [retry_budget] = None"
  "ready_capacity_rejection_reason (retry_capacity 245) [retry_budget] = Some ''capacity_host_disk_exceeded''"
  "capacity_envelope_post_init (retry_capacity 246) = Inr (retry_capacity 246)"
  "\<forall>q \<in> set (ce_cell_requirements (retry_capacity 246)). cell_capacity_requirement_post_init q = Inr q"
proof -
  show "ready_capacity_rejection_reason (retry_capacity 246) [retry_budget] = None"
    "ready_capacity_rejection_reason (retry_capacity 245) [retry_budget] = Some ''capacity_host_disk_exceeded''"
    by (simp_all add: ready_capacity_rejection_reason_def retry_capacity_def example_capacity_def example_requirement_def
        by_cell_def effective_host_bytes_def maximum_attempt_bytes_def retry_budget_def)
  show "capacity_envelope_post_init (retry_capacity 246) = Inr (retry_capacity 246)"
    by (simp add: capacity_envelope_post_init_def retry_capacity_def example_capacity_def require_planning_sha256_def
        require_nonnegative_int_def sorted_set_def)
  show "\<forall>q \<in> set (ce_cell_requirements (retry_capacity 246)). cell_capacity_requirement_post_init q = Inr q"
    by (simp add: cell_capacity_requirement_post_init_def retry_capacity_def example_capacity_def example_requirement_def
        require_planning_sha256_def require_nonnegative_int_def)
qed

section \<open>The properties of the dispatch engine\<close>

text \<open>
  C17: Whatever a run returns, a later run can resume. If every runner executes the cell of its own assignment, the
  schedule receipt of a run, fresh or resumed, went through the checks of its constructors and passes the
  structural validation of a resumption: it covers a prefix of the waves of this plan, wave by wave and assignment by
  assignment, on this inventory, within the retry allowances, and every success has the binding of its
  own cell. Only the last wave may have failed, and the phase says exactly how far the plan got.
\<close>

theorem every_run_is_resumable:
  assumes "execute_dispatch_plan env c plan resume replay stop = Inr r" "valid_dispatch_plan plan"
    "\<forall>a \<in> set (plan_assignments plan). runs_own_cell env a" "\<forall>x. resume = Some x \<longrightarrow> valid_schedule_receipt x"
  shows "valid_schedule_receipt r \<and> validate_dispatch_resume_structure c plan r = Inr ()
    \<and> list_all wave_succeeded (butlast (sr_wave_receipts r))
    \<and> sr_phase r = (if list_ex (\<lambda>w. \<not> wave_succeeded w) (sr_wave_receipts r) then FAILED
        else if length (sr_wave_receipts r) = length (gp_waves plan) then COMPLETE else RUNNING)"
proof -
  have ok: "schedule_ok c plan r" using execute_ok [OF assms(1-3)] assms(4) by blast
  note parts = ok [unfolded schedule_ok_iff [OF assms(2) execute_validates [OF assms(1)]]]
  have "(\<not> list_all wave_succeeded ws) = list_ex (\<lambda>w. \<not> wave_succeeded w) ws" for ws
    by (simp add: list_all_iff list_ex_iff)
  then show ?thesis using ok parts by (simp add: schedule_ok_def phase_of_def)
qed

theorem every_run_is_resumable_witness:
  "\<exists>r. execute_dispatch_plan (example_world (Inr example_authority)) example_context example_dispatch_plan None None None
       = Inr r
     \<and> validate_dispatch_resume_structure example_context example_dispatch_plan r = Inr () \<and> sr_phase r = COMPLETE"
proof -
  obtain r where r: "execute_dispatch_plan (example_world (Inr example_authority)) example_context example_dispatch_plan
      None None None = Inr r" "sr_phase r = COMPLETE" using example_completes by blast
  have own: "runs_own_cell (example_world (Inr example_authority)) (example_assignment ''GPU-0'')"
    by (rule example_runs_own_cell [of _ "(''E'', '''')"]) simp
  from every_run_is_resumable [OF r(1) example_plan_valid] own r show ?thesis by simp
qed

text \<open>
  C18: A resumed run keeps what is done, if every runner executes the cell of its own assignment. A complete schedule is returned as it is; a successful prefix is
  kept verbatim and extended by at least one wave; and of a failed schedule all waves but the last are kept verbatim,
  while the last wave is run again such that the receipt of every assignment that had succeeded is kept
  verbatim and every failed assignment gets exactly one more attempt, whose receipt continues the failed
  one (the next attempt number, its intervals extended by one, the digest of the failed receipt).
\<close>

theorem resumption_keeps_finished_work:
  assumes "execute_dispatch_plan env c plan (Some x) replay stop = Inr r" "valid_dispatch_plan plan"
    "\<forall>a \<in> set (plan_assignments plan). runs_own_cell env a" "valid_schedule_receipt x"
  shows "case sr_phase x of
      COMPLETE \<Rightarrow> r = x
    | FAILED \<Rightarrow> sr_wave_receipts x \<noteq> []
        \<and> (\<exists>w more. sr_wave_receipts r = butlast (sr_wave_receipts x) @ w # more
           \<and> (\<forall>row \<in> set (wr_assignment_receipts (last (sr_wave_receipts x))).
                if ar_status row = SUCCEEDED then row \<in> set (wr_assignment_receipts w)
                else \<exists>new \<in> set (wr_assignment_receipts w). continues row new))
    | _ \<Rightarrow> \<exists>more. more \<noteq> [] \<and> sr_wave_receipts r = sr_wave_receipts x @ more"
proof (cases "sr_phase x = COMPLETE")
  case True
  from assms(1) True have "r = x" by (cases rule: execute_cases) auto
  with True show ?thesis by simp
next
  case False
  from assms False show ?thesis
  proof (cases rule: resume_extends)
    case (1 w more)
    then show ?thesis by auto
  next
    case (2 more)
    with False show ?thesis by (cases "sr_phase x") auto
  qed
qed

theorem resumption_keeps_finished_work_witness:
  "\<exists>r w new. execute_dispatch_plan (example_world (Inl (''E'', ''''))) example_context example_dispatch_plan
       (Some failed_schedule) (Some failed_replay) None = Inr r
     \<and> sr_wave_receipts r = [w] \<and> new \<in> set (wr_assignment_receipts w) \<and> continues failed_row new"
proof -
  obtain r where r: "execute_dispatch_plan (example_world (Inl (''E'', ''''))) example_context example_dispatch_plan
      (Some failed_schedule) (Some failed_replay) None = Inr r" "sr_phase r = COMPLETE" "length (sr_wave_receipts r) = 1"
    using example_resumes by blast
  have own: "runs_own_cell (example_world (Inl (''E'', ''''))) (example_assignment ''GPU-0'')"
    by (rule example_runs_own_cell) simp
  have failed: "sr_phase failed_schedule = FAILED" "sr_wave_receipts failed_schedule = [failed_wave]"
    "wr_assignment_receipts failed_wave = [failed_row]" "ar_status failed_row = ASSIGNMENT_FAILED"
    by (simp_all add: failed_schedule_def failed_wave_def failed_row_def)
  have "\<forall>a \<in> set (plan_assignments example_dispatch_plan). runs_own_cell (example_world (Inl (''E'', ''''))) a"
    using own by simp
  from resumption_keeps_finished_work [OF r(1) example_plan_valid this failed_schedule_ok] r(3)
  obtain w new where "sr_wave_receipts r = [w]" "new \<in> set (wr_assignment_receipts w)" "continues failed_row new"
    by (auto simp: failed)
  with r(1) show ?thesis by blast
qed

text \<open>
  C21: The ledger of a run whose runners execute the cells of their own assignments is exact. It bills the whole instance for every nanosecond in which some attempt
  of some assignment ran, once however many ran at the same time (also across retries and waves); it
  attributes to each assignment its own running time on its own GPUs; and neither the bill nor this
  attribution exceeds the attribution of the whole instance to every assignment.
\<close>

theorem ledger_bills_each_moment_once:
  assumes "execute_dispatch_plan env c plan resume replay stop = Inr r" "valid_dispatch_plan plan"
    "\<forall>a \<in> set (plan_assignments plan). runs_own_cell env a" "\<forall>x. resume = Some x \<longrightarrow> valid_schedule_receipt x"
  shows "sr_billed_gpu_ns r
      = int (card (\<Union>row \<in> set (schedule_rows r). covered (ar_intervals row))) * fixed_count c
    \<and> sr_attributed_gpu_ns r = (\<Sum>row \<leftarrow> schedule_rows r. int (card (covered (ar_intervals row))) * ar_gpu_count row)
    \<and> sr_billed_gpu_ns r \<le> sr_attributed_fixed_instance_gpu_ns r
    \<and> sr_attributed_gpu_ns r \<le> sr_attributed_fixed_instance_gpu_ns r"
proof -
  have ok: "schedule_ok c plan r" using execute_ok [OF assms(1-3)] assms(4) by blast
  then have valid: "valid_schedule_receipt r" by (simp add: schedule_ok_def)
  have count: "sr_fixed_instance_gpu_count r = fixed_count c"
    using ok by (simp add: schedule_ok_iff [OF assms(2) execute_validates [OF assms(1)]])
  have rows: "map ar_attributed_gpu_ns (schedule_rows r)
      = map (\<lambda>row. int (card (covered (ar_intervals row))) * ar_gpu_count row) (schedule_rows r)"
    using valid_schedule_rows [OF valid] assignment_cost(1) by (intro map_cong refl) blast
  have billed: "sr_billed_gpu_ns r
      = int (card (\<Union>row \<in> set (schedule_rows r). covered (ar_intervals row))) * fixed_count c"
    unfolding schedule_cost(1) [OF valid] count covered_concat ..
  have attributed: "sr_attributed_gpu_ns r
      = (\<Sum>row \<leftarrow> schedule_rows r. int (card (covered (ar_intervals row))) * ar_gpu_count row)"
    unfolding schedule_cost(2) [OF valid] rows ..
  show ?thesis using billed attributed schedule_bills_at_most_attribution [OF valid] by (intro conjI)
qed

theorem ledger_bills_each_moment_once_witness:
  "\<exists>r. execute_dispatch_plan (example_world (Inl (''E'', ''''))) example_context example_dispatch_plan
       (Some failed_schedule) (Some failed_replay) None = Inr r
     \<and> sr_billed_gpu_ns r = int (card (\<Union>row \<in> set (schedule_rows r). covered (ar_intervals row))) * 2"
proof -
  obtain r where r: "execute_dispatch_plan (example_world (Inl (''E'', ''''))) example_context example_dispatch_plan
      (Some failed_schedule) (Some failed_replay) None = Inr r" using example_resumes by blast
  have own: "\<forall>a \<in> set (plan_assignments example_dispatch_plan). runs_own_cell (example_world (Inl (''E'', ''''))) a"
    using example_runs_own_cell [of "Inl (''E'', '''')" "(''E'', '''')"] by simp
  have valid: "\<forall>x. Some failed_schedule = Some x \<longrightarrow> valid_schedule_receipt x" using failed_schedule_ok by simp
  show ?thesis
    using ledger_bills_each_moment_once [OF r example_plan_valid own valid] r unfolding example_fixed by blast
qed

text \<open>
  C20: A run without failures completes. If the plan is bound to budgets and validated, and the first attempt
  of every assignment on its gang succeeds with an authority for its own cell that revalidates, then a fresh run over all
  waves returns; its schedule is complete, has one receipt for every wave, and all of them succeeded.
\<close>

theorem fresh_run_completes:
  assumes "valid_dispatch_plan plan" "1 \<le> fixed_count c" "scientific_budget_bound plan" "ex_validate_plan c plan = Inr ()"
    "\<forall>a \<in> set (plan_assignments plan). first_attempt_succeeds env c a \<and> runs_own_cell env a"
    "dw_journal env \<longrightarrow> (\<forall>wave as. dw_begin_wave env wave as = Inr ())"
  shows "\<exists>r. execute_dispatch_plan env c plan None replay None = Inr r \<and> sr_phase r = COMPLETE
    \<and> length (sr_wave_receipts r) = length (gp_waves plan) \<and> list_all wave_succeeded (sr_wave_receipts r)"
  using assms by (rule execute_completes)

theorem fresh_run_completes_witness:
  "\<exists>r. execute_dispatch_plan (example_world (Inr example_authority)) example_context example_dispatch_plan None None None
       = Inr r \<and> sr_phase r = COMPLETE"
proof -
  let ?env = "example_world (Inr example_authority)"
  have own: "\<forall>a \<in> set (plan_assignments example_dispatch_plan). first_attempt_succeeds ?env example_context a \<and> runs_own_cell ?env a"
    using example_first_succeeds example_runs_own_cell [of "Inr example_authority" "(''E'', '''')"] by simp
  have "\<not> dw_journal ?env" by (simp add: example_world_def)
  then show ?thesis
    using fresh_run_completes [OF example_plan_valid _ _ _ own, of None] by (auto simp: example_fixed)
qed

text \<open>
  C19: Resuming ends. Whatever the runners answer for the cells of their own assignments and wherever each run
  stops, a schedule can be resumed, while it is not complete, at most as often as the retry allowances of the plan's cells and its first attempts add
  up to; there is no infinite sequence of resumptions.
\<close>

theorem resumptions_end:
  assumes "valid_dispatch_plan plan"
  shows "((resumes_to c plan ^^ n) x r \<longrightarrow> int n \<le> sum_list (map (attempt_limit c) (plan_assignments plan)))
    \<and> \<not> (\<exists>f. \<forall>i. resumes_to c plan (f i) (f (Suc i)))"
proof
  have "0 \<le> sum_list (map (attempt_limit c) (plan_assignments plan))"
    by (rule sum_list_nonneg) (auto simp: attempt_limit_def split: sum.splits)
  then show "(resumes_to c plan ^^ n) x r \<longrightarrow> int n \<le> sum_list (map (attempt_limit c) (plan_assignments plan))"
    using resumption.chain_bound [of n plan c x r] assms by (cases "n = 0") simp_all
  show "\<not> (\<exists>f. \<forall>i. resumes_to c plan (f i) (f (Suc i)))"
    using resumption.no_infinite_chain [of plan c] assms by simp
qed

theorem resumptions_end_witness:
  "\<exists>r. (resumes_to example_context example_dispatch_plan ^^ 1) failed_schedule r
     \<and> int 1 \<le> sum_list (map (attempt_limit example_context) (plan_assignments example_dispatch_plan))"
proof -
  obtain r where r: "execute_dispatch_plan (example_world (Inl (''E'', ''''))) example_context example_dispatch_plan
      (Some failed_schedule) (Some failed_replay) None = Inr r" using example_resumes by blast
  have own: "\<forall>a \<in> set (plan_assignments example_dispatch_plan). runs_own_cell (example_world (Inl (''E'', ''''))) a"
    using example_runs_own_cell [of "Inl (''E'', '''')" "(''E'', '''')"] by simp
  have same: "example_context\<lparr>ex_resume_terminal_authorities := []\<rparr> = example_context" by (simp add: example_context_def)
  have "execute_dispatch_plan (example_world (Inl (''E'', '''')))
      (example_context\<lparr>ex_resume_terminal_authorities := []\<rparr>) example_dispatch_plan
      (Some failed_schedule) (Some failed_replay) None = Inr r" unfolding same by (rule r)
  moreover have "sr_phase failed_schedule \<noteq> COMPLETE" by (simp add: failed_schedule_def)
  ultimately have "resumes_to example_context example_dispatch_plan failed_schedule r"
    by (intro resumes_to.resume [OF failed_schedule_ok _ own])
  then have "(resumes_to example_context example_dispatch_plan ^^ 1) failed_schedule r" unfolding relpowp_1 .
  with resumptions_end [OF example_plan_valid, of 1 example_context failed_schedule r] show ?thesis by blast
qed

text \<open>
  C22: A capacity that the budget planner calls ready covers the budgeted cost of every run of the dispatch
  engine. If every runner executes the cell of its own assignment and the capacity envelope has no rejection reason for the budgets of the execution context, then the attempts of a
  run and of all runs it resumes, each at its budgeted cost, stay within the provider's GPU quota and within
  the free space and the quota of the host, for no cell uses more than one attempt over its retry allowance.
\<close>

theorem ready_capacity_covers_every_run:
  assumes "execute_dispatch_plan env c plan resume replay stop = Inr r" "valid_dispatch_plan plan"
    "\<forall>a \<in> set (plan_assignments plan). runs_own_cell env a" "\<forall>x. resume = Some x \<longrightarrow> valid_schedule_receipt x"
    "ready_capacity_rejection_reason e (ex_budgets c) = None" "distinct (map eb_cell_id (ex_budgets c))"
    "\<forall>b \<in> set (ex_budgets c). valid_budget b" "capacity_envelope_post_init e = Inr e"
    "\<forall>q \<in> set (ce_cell_requirements e). cell_capacity_requirement_post_init q = Inr q"
  shows "(\<Sum>b \<leftarrow> ex_budgets c. sm_quota_envelope (eb_fixed_instance_billed_gpu_ms b) * attempts_of_cell plan r (eb_cell_id b))
      \<le> ce_provider_quota_gpu_ms e
    \<and> (\<Sum>b \<leftarrow> ex_budgets c. maximum_attempt_bytes (requirement_of e b) * attempts_of_cell plan r (eb_cell_id b))
      \<le> min (ce_host_free_bytes e) (ce_host_quota_bytes e)
    \<and> (\<forall>b \<in> set (ex_budgets c). attempts_of_cell plan r (eb_cell_id b) \<le> eb_retry_allowance b + 1)"
proof -
  have "schedule_ok c plan r" using execute_ok [OF assms(1-3)] assms(4) by blast
  then have prefix: "prefix_ok c plan (sr_wave_receipts r)"
    by (simp add: schedule_ok_iff [OF assms(2) execute_validates [OF assms(1)]])
  have allowance: "\<forall>b \<in> set (ex_budgets c). 0 \<le> eb_retry_allowance b"
    using assms(7) by (auto simp: valid_budget_def experiment_budget_post_init_def require_nonnegative_int_def)
  have attempts: "\<forall>b \<in> set (ex_budgets c). 0 \<le> attempts_of_cell plan r (eb_cell_id b)
      \<and> attempts_of_cell plan r (eb_cell_id b) \<le> eb_retry_allowance b + 1"
    using attempts_of_cell_bounds [OF assms(2) prefix assms(6)] allowance by blast
  show ?thesis using ready_capacity_covers [OF assms(5-9) attempts] attempts by blast
qed

theorem ready_capacity_covers_every_run_witness:
  "\<exists>r. execute_dispatch_plan (example_world (Inl (''E'', ''''))) example_context example_dispatch_plan
       (Some failed_schedule) (Some failed_replay) None = Inr r
     \<and> attempts_of_cell example_dispatch_plan r (cell_id example_cell) \<le> 2
     \<and> ready_capacity_rejection_reason (retry_capacity 246) [retry_budget] = None
     \<and> ready_capacity_rejection_reason (retry_capacity 245) [retry_budget] = Some ''capacity_host_disk_exceeded''"
proof -
  obtain r where r: "execute_dispatch_plan (example_world (Inl (''E'', ''''))) example_context example_dispatch_plan
      (Some failed_schedule) (Some failed_replay) None = Inr r" using example_resumes by blast
  have own: "\<forall>a \<in> set (plan_assignments example_dispatch_plan). runs_own_cell (example_world (Inl (''E'', ''''))) a"
    using example_runs_own_cell [of "Inl (''E'', '''')" "(''E'', '''')"] by simp
  have valid: "\<forall>x. Some failed_schedule = Some x \<longrightarrow> valid_schedule_receipt x" using failed_schedule_ok by simp
  have budgets: "ex_budgets example_context = [retry_budget]" by (simp add: example_context_def)
  have retry: "eb_cell_id retry_budget = cell_id example_cell" "eb_retry_allowance retry_budget = 1"
    by (simp_all add: retry_budget_def)
  have "ready_capacity_rejection_reason (retry_capacity 246) (ex_budgets example_context) = None"
    using retry_capacity(1) budgets by simp
  from ready_capacity_covers_every_run [OF r example_plan_valid own valid this] retry_capacity(3,4) retry_budget_ok
  have "attempts_of_cell example_dispatch_plan r (cell_id example_cell) \<le> 2" by (simp add: budgets retry)
  with r retry_capacity(1,2) show ?thesis by blast
qed


end
