(* ===== verification/Activation.thy ===== *)
theory Activation
  imports Stages Pool_Codec
begin

text \<open>
  The reducer that activates a registry stage (\<open>experiments/stage_activation.py\<close>): the disposition of every
  cell of a stage, the activation artifact with its authorities, its replay, and its JSON form. Stages with a
  reducer of their own (E1, E2 and the confirmation stages) are refused here.
\<close>

section \<open>Text and digests\<close>

definition stage_text :: "string \<Rightarrow> bool" where
  "stage_text v \<longleftrightarrow> strip v \<noteq> [] \<and> CHR 0x0A \<notin> set v \<and> CHR 0x0D \<notin> set v"

definition require_stage_sha256 :: "string \<Rightarrow> string \<Rightarrow> unit res" where
  "require_stage_sha256 name v =
     raise_if (\<not> is_sha256 v) (ValueError (name @ '' must be lower-case SHA-256''))"

definition require_stage_text :: "string \<Rightarrow> string \<Rightarrow> unit res" where
  "require_stage_text name v =
     raise_if (\<not> stage_text v) (ValueError (name @ '' must be non-empty single-line text''))"

text \<open>The same checks on a value of a document.\<close>

definition stage_sha256_field :: "string \<Rightarrow> json \<Rightarrow> string res" where
  "stage_sha256_field name value =
     (case value of
        JStr v \<Rightarrow> rbind (require_stage_sha256 name v) (\<lambda>_. Inr v)
      | _ \<Rightarrow> Inl (ValueError (name @ '' must be lower-case SHA-256'')))"

definition stage_text_field :: "string \<Rightarrow> json \<Rightarrow> string res" where
  "stage_text_field name value =
     (case value of
        JStr v \<Rightarrow> rbind (require_stage_text name v) (\<lambda>_. Inr v)
      | _ \<Rightarrow> Inl (ValueError (name @ '' must be non-empty single-line text'')))"

definition stage_object :: "string \<Rightarrow> json \<Rightarrow> string list \<Rightarrow> (string \<times> json) list res" where
  "stage_object name value names =
     (case value of
        JObj _ \<Rightarrow> strict_object name value names
      | _ \<Rightarrow> Inl (TypeError (name @ '' must be a JSON object with string keys'')))"

section \<open>Dispositions\<close>

datatype stage_disposition = STAGE_ACTIVATED | STAGE_BLOCKED | STAGE_NOT_APPLICABLE

fun stage_disposition_text :: "stage_disposition \<Rightarrow> string" where
  "stage_disposition_text STAGE_ACTIVATED = ''ACTIVATED''"
| "stage_disposition_text STAGE_BLOCKED = ''BLOCKED''"
| "stage_disposition_text STAGE_NOT_APPLICABLE = ''N/A''"

definition stage_disposition_of_text :: "string \<Rightarrow> stage_disposition res" where
  "stage_disposition_of_text v =
     (if v = ''ACTIVATED'' then Inr STAGE_ACTIVATED
      else if v = ''BLOCKED'' then Inr STAGE_BLOCKED
      else if v = ''N/A'' then Inr STAGE_NOT_APPLICABLE
      else Inl (ValueError (repr_str v @ '' is not a valid RegistryStageDispositionStatus'')))"

record cell_disposition =
  dp_cell_id :: string
  dp_status :: stage_disposition
  dp_reason_code :: string

definition reason_characters :: string where
  "reason_characters = ''abcdefghijklmnopqrstuvwxyz0123456789_.-''"

definition cell_disposition_post_init :: "cell_disposition \<Rightarrow> cell_disposition res" where
  "cell_disposition_post_init d =
     rbind (require_stage_sha256 ''registry-stage disposition cell'' (dp_cell_id d)) (\<lambda>_.
     rbind (require_stage_text ''registry-stage disposition reason'' (dp_reason_code d)) (\<lambda>_.
     rbind (raise_if (list_ex (\<lambda>c. c \<notin> set reason_characters) (dp_reason_code d))
       (ValueError ''registry-stage disposition reason code is invalid'')) (\<lambda>_. Inr d)))"

definition cell_disposition_to_dict :: "cell_disposition \<Rightarrow> json" where
  "cell_disposition_to_dict d = JObj
     [(''cell_id'', JStr (dp_cell_id d)), (''status'', JStr (stage_disposition_text (dp_status d))),
      (''reason_code'', JStr (dp_reason_code d))]"

section \<open>Authorities\<close>

definition generic_registry_stages :: "string list" where
  "generic_registry_stages =
     filter (\<lambda>s. s \<notin> {''E1'', ''E2'', ''E3b'', ''E5''}) industrial_experiment_order"

definition registry_stage_release_capability_sha256 :: string where
  "registry_stage_release_capability_sha256 = content_sha256 (JObj
     [(''schema_version'', JInt 2), (''kind'', JStr ''industrial_registry_stage_release_capability''),
      (''generic_stages'', jstrs generic_registry_stages),
      (''preflight'', JStr (''registered_compile_exactness_and_static_interference_cells_are_''
         @ ''planning_schedulable_but_launch_requires_exact_source_owned_inputs'')),
      (''compile'', JStr (''first_party_compile_assignment_launch_terminal_and_result_pointer_''
         @ ''with_dynamic_control_and_durable_prepared_content'')),
      (''exactness'', JStr (''first_party_non_serving_exact_eight_runner_terminal_and_schema4_''
         @ ''qualification_with_dynamic_controls'')),
      (''download'', JStr ''blocked_without_first_party_download_terminal_contract''),
      (''serving'', JStr (''target_only_static_and_single_rank_dflash_core_when_exact_semantics_''
         @ ''are_bound_by_a_first_party_reducer'')),
      (''scientific_identity'', JStr (''frozen_tts_and_l0_naive_blocked_l0_candidates_e1_e2_only_''
         @ ''lightcone_requires_sealed_e2_receipt'')),
      (''unsupported_methods'', jstrs [''onlinespec_ogd'', ''onlinespec_opt'', ''onlinespec_ens'']),
      (''missing_semantics'', JStr ''blocked'')])"

definition registry_stage_activation_protocol_sha256 :: string where
  "registry_stage_activation_protocol_sha256 = content_sha256 (JObj
     [(''schema_version'', JInt 2), (''kind'', JStr ''industrial_registry_stage_activation_reducer''),
      (''inputs'', jstrs [''exact_registry'', ''complete_validated_dependency_receipt_prefix'',
         ''content_bound_runtime_identity'', ''content_bound_split_identity'', ''release_dispatchability_predicate'']),
      (''root_authority'', JStr ''canonical_registry_genesis_v1''), (''cell_selection_input_forbidden'', JBool True),
      (''all_stage_cells_dispositioned'', JBool True),
      (''preflight_availability'', JStr ''every_non_na_mandatory_cell_activated_no_partial_stage_promotion''),
      (''release_capability_sha256'', JStr registry_stage_release_capability_sha256)])"

definition preflight_pointer_release_capability_sha256 :: string where
  "preflight_pointer_release_capability_sha256 = content_sha256 (JObj
     [(''schema_version'', JInt 2), (''kind'', JStr ''formal_preflight_pointer_release_capability''),
      (''compile'', JStr ''formal_schema3_compile_result_pointer_and_dynamic_control''),
      (''exactness'', JStr (''formal_schema4_qualified_exactness_pointer_exact_eight_zero_skip_''
         @ ''two_rank_native_terminals_rank_aggregate_control_and_reservation'')),
      (''interference'', JStr ''eight_path_bound_first_party_assignment_terminal_authorities''),
      (''coverage'', JStr ''all_ten_mandatory_registry_cells_exactly_once''), (''partial'', JStr ''blocked'')])"

definition preflight_pointer_activation_protocol_sha256 :: string where
  "preflight_pointer_activation_protocol_sha256 = content_sha256 (JObj
     [(''schema_version'', JInt 1), (''kind'', JStr ''formal_preflight_pointer_stage_activation_reducer''),
      (''inputs'', jstrs [''exact_registry'', ''content_bound_runtime_and_split'',
         ''path_bound_compile_exactness_and_interference_source_authority'']),
      (''source_verification'', JStr ''specialized_deep_reopen_required''),
      (''all_mandatory_cells'', JStr ''activated_only_after_terminal_and_control_replay''),
      (''release_capability_sha256'', JStr preflight_pointer_release_capability_sha256)])"

record genesis_authority =
  gn_schema_version :: int
  gn_registry_sha256 :: string
  gn_root_experiment :: string
  gn_reducer_protocol_sha256 :: string

definition genesis_authority_post_init :: "genesis_authority \<Rightarrow> genesis_authority res" where
  "genesis_authority_post_init g =
     rbind (raise_if (gn_schema_version g \<noteq> 1)
       (ValueError ''only registry genesis authority schema 1 is supported'')) (\<lambda>_.
     rbind (require_stage_sha256 ''genesis registry'' (gn_registry_sha256 g)) (\<lambda>_.
     rbind (raise_if (gn_root_experiment g \<noteq> industrial_experiment_order ! 0)
       (ValueError ''registry genesis authority names a non-root experiment'')) (\<lambda>_.
     rbind (raise_if (gn_reducer_protocol_sha256 g \<noteq> registry_stage_activation_protocol_sha256)
       (ValueError ''registry genesis authority uses another reducer'')) (\<lambda>_. Inr g))))"

definition genesis_authority_to_dict :: "genesis_authority \<Rightarrow> json" where
  "genesis_authority_to_dict g = JObj
     [(''schema_version'', JInt (gn_schema_version g)), (''kind'', JStr ''industrial_registry_genesis_authority''),
      (''registry_sha256'', JStr (gn_registry_sha256 g)), (''root_experiment'', JStr (gn_root_experiment g)),
      (''dependency_experiments'', JArr []), (''reducer_protocol_sha256'', JStr (gn_reducer_protocol_sha256 g))]"

definition genesis_authority_sha256 :: "genesis_authority \<Rightarrow> string" where
  "genesis_authority_sha256 g = content_sha256 (genesis_authority_to_dict g)"

definition source_authority_sha256 ::
  "string \<Rightarrow> string \<Rightarrow> string \<Rightarrow> string \<Rightarrow> string list \<Rightarrow> string option \<Rightarrow> string" where
  "source_authority_sha256 registry experiment runtime split receipts genesis = content_sha256 (JObj
     [(''schema_version'', JInt 1), (''kind'', JStr ''industrial_registry_stage_activation_source''),
      (''registry_sha256'', JStr registry), (''experiment'', JStr experiment), (''runtime_sha256'', JStr runtime),
      (''split_sha256'', JStr split), (''dependency_receipt_sha256s'', jstrs receipts),
      (''genesis_authority_sha256'', jopt JStr genesis),
      (''release_capability_sha256'', JStr registry_stage_release_capability_sha256),
      (''reducer_protocol_sha256'', JStr registry_stage_activation_protocol_sha256)])"

section \<open>The activation artifact\<close>

record stage_activation =
  sa_schema_version :: int
  sa_registry_sha256 :: string
  sa_experiment :: string
  sa_runtime_sha256 :: string
  sa_split_sha256 :: string
  sa_dependency_receipts :: "experiment_receipt list"
  sa_genesis_authority :: "genesis_authority option"
  sa_release_capability_sha256 :: string
  sa_reducer_protocol_sha256 :: string
  sa_source_authority_sha256 :: string
  sa_activation_round :: string
  sa_status :: string
  sa_dispositions :: "cell_disposition list"

definition activated_ids :: "cell_disposition list \<Rightarrow> string list" where
  "activated_ids rows = map dp_cell_id (filter (\<lambda>d. dp_status d = STAGE_ACTIVATED) rows)"

definition activated_cell_ids :: "stage_activation \<Rightarrow> string list" where
  "activated_cell_ids a = activated_ids (sa_dispositions a)"

definition direct_dependency_receipt_sha256 :: "stage_activation \<Rightarrow> string option" where
  "direct_dependency_receipt_sha256 a =
     (if sa_dependency_receipts a = [] then None
      else Some (experiment_receipt_sha256 (last (sa_dependency_receipts a))))"

text \<open>\<open>INDUSTRIAL_EXPERIMENT_ORDER.index\<close>, for a stage of the order.\<close>

definition stage_index :: "string \<Rightarrow> nat" where
  "stage_index experiment = length (takeWhile (\<lambda>s. s \<noteq> experiment) industrial_experiment_order)"

definition expected_status :: "string \<Rightarrow> cell_disposition list \<Rightarrow> string" where
  "expected_status experiment rows =
     (if activated_ids rows \<noteq> []
         \<and> (experiment \<noteq> ''preflight''
            \<or> list_all (\<lambda>d. dp_status d \<in> {STAGE_ACTIVATED, STAGE_NOT_APPLICABLE}) rows)
      then ''AVAILABLE'' else ''BLOCKED'')"

definition check_policy_identity :: "stage_activation \<Rightarrow> unit res" where
  "check_policy_identity a =
     (if sa_schema_version a = 2
      then raise_if (sa_experiment a \<noteq> ''preflight''
            \<or> sa_release_capability_sha256 a \<noteq> preflight_pointer_release_capability_sha256
            \<or> sa_reducer_protocol_sha256 a \<noteq> preflight_pointer_activation_protocol_sha256
            \<or> sa_activation_round a \<noteq> ''preflight_pointer_terminal_dispatchability_v2'')
          (ValueError ''specialized preflight activation identity differs'')
      else raise_if (sa_release_capability_sha256 a \<noteq> registry_stage_release_capability_sha256
            \<or> sa_reducer_protocol_sha256 a \<noteq> registry_stage_activation_protocol_sha256
            \<or> sa_activation_round a \<noteq> ''registry_release_dispatchability_v1'')
          (ValueError ''registry-stage activation policy identity differs''))"

definition check_genesis :: "stage_activation \<Rightarrow> unit res" where
  "check_genesis a =
     (if stage_index (sa_experiment a) = 0
      then raise_if (case sa_genesis_authority a of
             None \<Rightarrow> True
           | Some g \<Rightarrow> gn_registry_sha256 g \<noteq> sa_registry_sha256 a \<or> gn_root_experiment g \<noteq> sa_experiment a)
          (ValueError ''root activation lacks canonical genesis authority'')
      else raise_if (sa_genesis_authority a \<noteq> None)
          (ValueError ''non-root activation cannot claim genesis authority''))"

definition check_source_authority :: "stage_activation \<Rightarrow> unit res" where
  "check_source_authority a =
     (if sa_schema_version a = 2
      then require_stage_sha256 ''specialized preflight source authority'' (sa_source_authority_sha256 a)
      else raise_if (sa_source_authority_sha256 a \<noteq> source_authority_sha256 (sa_registry_sha256 a) (sa_experiment a)
            (sa_runtime_sha256 a) (sa_split_sha256 a) (map experiment_receipt_sha256 (sa_dependency_receipts a))
            (map_option genesis_authority_sha256 (sa_genesis_authority a)))
          (ValueError ''registry-stage source authority identity mismatch''))"

definition stage_activation_post_init :: "stage_activation \<Rightarrow> stage_activation res" where
  "stage_activation_post_init a =
     rbind (raise_if (sa_schema_version a \<notin> {1, 2})
       (ValueError ''registry-stage activation artifact schema is unsupported'')) (\<lambda>_.
     rbind (check_all (\<lambda>(name, v). require_stage_sha256 (''registry-stage '' @ name) v)
       [(''registry_sha256'', sa_registry_sha256 a), (''runtime_sha256'', sa_runtime_sha256 a),
        (''split_sha256'', sa_split_sha256 a)]) (\<lambda>_.
     rbind (raise_if (sa_experiment a \<notin> set generic_registry_stages)
       (ValueError ''stage requires a bespoke activation reducer'')) (\<lambda>_.
     rbind (check_policy_identity a) (\<lambda>_.
     rbind (raise_if (map er_experiment (sa_dependency_receipts a)
           \<noteq> take (stage_index (sa_experiment a)) industrial_experiment_order)
       (ValueError ''registry-stage activation lacks the exact dependency receipt prefix'')) (\<lambda>_.
     rbind (raise_if (list_ex (\<lambda>r. er_registry_sha256 r \<noteq> sa_registry_sha256 a) (sa_dependency_receipts a))
       (ValueError ''registry-stage dependency belongs to another registry'')) (\<lambda>_.
     rbind (check_genesis a) (\<lambda>_.
     rbind (check_source_authority a) (\<lambda>_.
     rbind (raise_if (sa_dispositions a = [])
       (ValueError ''registry-stage activation requires cell dispositions'')) (\<lambda>_.
     rbind (raise_if (sa_dispositions a \<noteq> sort_key dp_cell_id (sa_dispositions a)
           \<or> \<not> distinct (map dp_cell_id (sa_dispositions a)))
       (ValueError ''registry-stage dispositions must be cell-sorted and unique'')) (\<lambda>_.
     rbind (raise_if (sa_status a \<noteq> expected_status (sa_experiment a) (sa_dispositions a))
       (ValueError ''registry-stage status differs from its dispositions'')) (\<lambda>_. Inr a)))))))))))"

section \<open>The reducer\<close>

definition new_genesis_authority :: "experiment_registry \<Rightarrow> genesis_authority res" where
  "new_genesis_authority g = genesis_authority_post_init
     \<lparr>gn_schema_version = 1, gn_registry_sha256 = rg_sha256 g, gn_root_experiment = industrial_experiment_order ! 0,
      gn_reducer_protocol_sha256 = registry_stage_activation_protocol_sha256\<rparr>"

definition disposition_of :: "experiment_cell \<Rightarrow> cell_disposition" where
  "disposition_of c =
     (if xc_status c = NOT_APPLICABLE
      then \<lparr>dp_cell_id = cell_id c, dp_status = STAGE_NOT_APPLICABLE, dp_reason_code = xc_reason_code c\<rparr>
      else if xc_status c \<noteq> UNMEASURED
      then \<lparr>dp_cell_id = cell_id c, dp_status = STAGE_BLOCKED, dp_reason_code = xc_reason_code c\<rparr>
      else case release_dispatch_rejection_reason c of
        None \<Rightarrow> \<lparr>dp_cell_id = cell_id c, dp_status = STAGE_ACTIVATED,
                 dp_reason_code = ''release_dispatchability_verified''\<rparr>
      | Some rejection \<Rightarrow> \<lparr>dp_cell_id = cell_id c, dp_status = STAGE_BLOCKED,
          dp_reason_code = (if rejection = [] then ''release_dispatchability_verified'' else rejection)\<rparr>)"

definition materialize_registry_stage_activation ::
  "experiment_registry \<Rightarrow> string \<Rightarrow> experiment_receipt list \<Rightarrow> string \<Rightarrow> string \<Rightarrow> stage_activation res" where
  "materialize_registry_stage_activation g experiment receipts runtime split =
     rbind (raise_if (experiment \<notin> set generic_registry_stages)
       (ValueError ''stage requires its registered bespoke activation reducer'')) (\<lambda>_.
     rbind (require_stage_sha256 ''registry-stage runtime'' runtime) (\<lambda>_.
     rbind (require_stage_sha256 ''registry-stage split'' split) (\<lambda>_.
     (let expected_dependencies = take (stage_index experiment) industrial_experiment_order in
     rbind (validate_receipts g receipts) (\<lambda>validated.
     rbind (raise_if (set (dkeys validated) \<noteq> set expected_dependencies)
       (ValueError ''registry-stage activation requires the complete dependency receipt prefix'')) (\<lambda>_.
     (let ordered = map (\<lambda>name. the (dget validated name)) expected_dependencies in
     rbind (if stage_index experiment = 0 then rbind (new_genesis_authority g) (\<lambda>n. Inr (Some n)) else Inr None) (\<lambda>genesis.
     rbind (cells_for g experiment) (\<lambda>cells.
     rbind (map_res (\<lambda>c. cell_disposition_post_init (disposition_of c)) cells) (\<lambda>rows.
     stage_activation_post_init
       \<lparr>sa_schema_version = 1, sa_registry_sha256 = rg_sha256 g, sa_experiment = experiment,
        sa_runtime_sha256 = runtime, sa_split_sha256 = split, sa_dependency_receipts = ordered,
        sa_genesis_authority = genesis,
        sa_release_capability_sha256 = registry_stage_release_capability_sha256,
        sa_reducer_protocol_sha256 = registry_stage_activation_protocol_sha256,
        sa_source_authority_sha256 = source_authority_sha256 (rg_sha256 g) experiment runtime split
          (map experiment_receipt_sha256 ordered) (map_option genesis_authority_sha256 genesis),
        sa_activation_round = ''registry_release_dispatchability_v1'',
        sa_status = expected_status experiment rows,
        sa_dispositions = sort_key dp_cell_id rows\<rparr>))))))))))"

definition pointer_disposition_of :: "experiment_cell \<Rightarrow> cell_disposition" where
  "pointer_disposition_of c =
     (if xc_status c = NOT_APPLICABLE
      then \<lparr>dp_cell_id = cell_id c, dp_status = STAGE_NOT_APPLICABLE, dp_reason_code = xc_reason_code c\<rparr>
      else \<lparr>dp_cell_id = cell_id c, dp_status = STAGE_ACTIVATED,
            dp_reason_code = ''pointer_terminal_and_control_verified''\<rparr>)"

definition materialize_pointer_preflight_stage_activation ::
  "experiment_registry \<Rightarrow> string \<Rightarrow> string \<Rightarrow> string \<Rightarrow> stage_activation res" where
  "materialize_pointer_preflight_stage_activation g runtime split source_sha256 =
     rbind (require_stage_sha256 ''pointer preflight runtime'' runtime) (\<lambda>_.
     rbind (require_stage_sha256 ''pointer preflight split'' split) (\<lambda>_.
     rbind (require_stage_sha256 ''pointer preflight source'' source_sha256) (\<lambda>_.
     rbind (raise_if (industrial_experiment_order ! 0 \<noteq> ''preflight'')
       (ValueError ''preflight is no longer the registry root stage'')) (\<lambda>_.
     rbind (new_genesis_authority g) (\<lambda>genesis.
     rbind (cells_for g ''preflight'') (\<lambda>cells.
     rbind (map_res (\<lambda>c. cell_disposition_post_init (pointer_disposition_of c)) cells) (\<lambda>rows.
     rbind (raise_if (list_ex (\<lambda>c. xc_status c \<notin> {UNMEASURED, NOT_APPLICABLE}) cells)
       (ValueError ''pointer preflight registry contains a blocked mandatory cell'')) (\<lambda>_.
     stage_activation_post_init
       \<lparr>sa_schema_version = 2, sa_registry_sha256 = rg_sha256 g, sa_experiment = ''preflight'',
        sa_runtime_sha256 = runtime, sa_split_sha256 = split, sa_dependency_receipts = [],
        sa_genesis_authority = Some genesis,
        sa_release_capability_sha256 = preflight_pointer_release_capability_sha256,
        sa_reducer_protocol_sha256 = preflight_pointer_activation_protocol_sha256,
        sa_source_authority_sha256 = source_sha256,
        sa_activation_round = ''preflight_pointer_terminal_dispatchability_v2'', sa_status = ''AVAILABLE'',
        sa_dispositions = sort_key dp_cell_id rows\<rparr>))))))))"

definition verify_pointer_preflight_stage_activation ::
  "experiment_registry \<Rightarrow> stage_activation \<Rightarrow> string \<Rightarrow> unit res" where
  "verify_pointer_preflight_stage_activation g a source_sha256 =
     rbind (materialize_pointer_preflight_stage_activation g (sa_runtime_sha256 a) (sa_split_sha256 a) source_sha256)
       (\<lambda>expected. raise_if (a \<noteq> expected)
         (ValueError ''preflight activation is not the exact pointer reducer output''))"

definition verify_registry_stage_activation :: "experiment_registry \<Rightarrow> stage_activation \<Rightarrow> unit res" where
  "verify_registry_stage_activation g a =
     rbind (raise_if (sa_schema_version a = 2)
       (ValueError ''pointer preflight activation requires its deep-reopened source authority'')) (\<lambda>_.
     rbind (materialize_registry_stage_activation g (sa_experiment a) (sa_dependency_receipts a)
         (sa_runtime_sha256 a) (sa_split_sha256 a)) (\<lambda>expected.
     raise_if (a \<noteq> expected)
       (ValueError ''registry-stage activation is not the exact reducer-generated artifact'')))"

section \<open>The JSON form\<close>

definition stage_activation_payload :: "stage_activation \<Rightarrow> (string \<times> json) list" where
  "stage_activation_payload a =
     [(''schema_version'', JInt (sa_schema_version a)), (''registry_sha256'', JStr (sa_registry_sha256 a)),
      (''experiment'', JStr (sa_experiment a)), (''runtime_sha256'', JStr (sa_runtime_sha256 a)),
      (''split_sha256'', JStr (sa_split_sha256 a)),
      (''dependency_receipts'', JArr (map experiment_receipt_to_dict (sa_dependency_receipts a))),
      (''genesis_authority'', jopt genesis_authority_to_dict (sa_genesis_authority a)),
      (''release_capability_sha256'', JStr (sa_release_capability_sha256 a)),
      (''reducer_protocol_sha256'', JStr (sa_reducer_protocol_sha256 a)),
      (''source_authority_sha256'', JStr (sa_source_authority_sha256 a)),
      (''activation_round'', JStr (sa_activation_round a)), (''status'', JStr (sa_status a)),
      (''dispositions'', JArr (map cell_disposition_to_dict (sa_dispositions a)))]"

definition stage_activation_sha256 :: "stage_activation \<Rightarrow> string" where
  "stage_activation_sha256 a = content_sha256 (JObj (stage_activation_payload a))"

definition registry_stage_activation_to_dict :: "stage_activation \<Rightarrow> json" where
  "registry_stage_activation_to_dict a = JObj
     ([(''artifact_kind'', JStr ''registry_stage_activation''),
       (''artifact_sha256'', JStr (stage_activation_sha256 a))] @ stage_activation_payload a)"

definition locked_output_from_dict :: "json \<Rightarrow> locked_output res" where
  "locked_output_from_dict value =
     rbind (stage_object ''locked output'' value [''name'', ''content_sha256'']) (\<lambda>row.
     rbind (stage_text_field ''locked output name'' (jfield row ''name'')) (\<lambda>name.
     rbind (stage_sha256_field ''locked output content'' (jfield row ''content_sha256'')) (\<lambda>content.
     locked_output_post_init \<lparr>lo_name = name, lo_content_sha256 = content\<rparr>)))"

definition receipt_from_dict :: "json \<Rightarrow> experiment_receipt res" where
  "receipt_from_dict value =
     rbind (stage_object ''registry-stage dependency receipt'' value
       [''experiment'', ''registry_sha256'', ''runtime_sha256'', ''split_sha256'', ''completed_cells_sha256'',
        ''dependency_receipts'', ''outputs'', ''selection_state'']) (\<lambda>row.
     rbind (stage_text_field ''receipt experiment'' (jfield row ''experiment'')) (\<lambda>experiment.
     rbind (stage_sha256_field ''receipt registry'' (jfield row ''registry_sha256'')) (\<lambda>registry.
     rbind (stage_sha256_field ''receipt runtime'' (jfield row ''runtime_sha256'')) (\<lambda>runtime.
     rbind (stage_sha256_field ''receipt split'' (jfield row ''split_sha256'')) (\<lambda>split.
     rbind (stage_sha256_field ''receipt completed cells'' (jfield row ''completed_cells_sha256'')) (\<lambda>completed.
     rbind (rbind (strict_list ''receipt dependency receipts'' (jfield row ''dependency_receipts''))
       (map_res locked_output_from_dict)) (\<lambda>dependencies.
     rbind (rbind (strict_list ''receipt outputs'' (jfield row ''outputs'')) (map_res locked_output_from_dict)) (\<lambda>outputs.
     rbind (stage_text_field ''receipt selection state'' (jfield row ''selection_state'')) (\<lambda>state.
     experiment_receipt_post_init
       \<lparr>er_experiment = experiment, er_registry_sha256 = registry, er_runtime_sha256 = runtime,
        er_split_sha256 = split, er_completed_cells_sha256 = completed, er_dependency_receipts = dependencies,
        er_outputs = outputs, er_selection_state = state\<rparr>)))))))))"

definition genesis_from_dict :: "json \<Rightarrow> genesis_authority res" where
  "genesis_from_dict value =
     rbind (stage_object ''registry genesis authority'' value
       [''schema_version'', ''kind'', ''registry_sha256'', ''root_experiment'', ''dependency_experiments'',
        ''reducer_protocol_sha256'']) (\<lambda>row.
     rbind (raise_if (jfield row ''schema_version'' \<noteq> JInt 1
           \<or> jfield row ''kind'' \<noteq> JStr ''industrial_registry_genesis_authority'')
       (ValueError ''registry genesis authority identity mismatch'')) (\<lambda>_.
     rbind (strict_list ''genesis dependency experiments'' (jfield row ''dependency_experiments'')) (\<lambda>dependencies.
     rbind (raise_if (dependencies \<noteq> [])
       (ValueError ''registry genesis authority cannot have dependencies'')) (\<lambda>_.
     rbind (stage_sha256_field ''genesis registry'' (jfield row ''registry_sha256'')) (\<lambda>registry.
     rbind (stage_text_field ''genesis root experiment'' (jfield row ''root_experiment'')) (\<lambda>root.
     rbind (stage_sha256_field ''genesis reducer'' (jfield row ''reducer_protocol_sha256'')) (\<lambda>reducer.
     genesis_authority_post_init
       \<lparr>gn_schema_version = 1, gn_registry_sha256 = registry, gn_root_experiment = root,
        gn_reducer_protocol_sha256 = reducer\<rparr>)))))))"

definition cell_disposition_from_dict :: "json \<Rightarrow> cell_disposition res" where
  "cell_disposition_from_dict value =
     rbind (stage_object ''registry-stage disposition'' value [''cell_id'', ''status'', ''reason_code'']) (\<lambda>row.
     rbind (stage_sha256_field ''disposition cell'' (jfield row ''cell_id'')) (\<lambda>cell.
     rbind (rbind (stage_text_field ''disposition status'' (jfield row ''status'')) stage_disposition_of_text) (\<lambda>status.
     rbind (stage_text_field ''disposition reason'' (jfield row ''reason_code'')) (\<lambda>reason.
     cell_disposition_post_init \<lparr>dp_cell_id = cell, dp_status = status, dp_reason_code = reason\<rparr>))))"

definition registry_stage_activation_from_dict :: "json \<Rightarrow> stage_activation res" where
  "registry_stage_activation_from_dict value =
     rbind (stage_object ''registry-stage activation artifact'' value
       [''artifact_kind'', ''artifact_sha256'', ''schema_version'', ''registry_sha256'', ''experiment'',
        ''runtime_sha256'', ''split_sha256'', ''dependency_receipts'', ''genesis_authority'',
        ''release_capability_sha256'', ''reducer_protocol_sha256'', ''source_authority_sha256'',
        ''activation_round'', ''status'', ''dispositions'']) (\<lambda>row.
     rbind (raise_if (jfield row ''artifact_kind'' \<noteq> JStr ''registry_stage_activation'')
       (ValueError ''registry-stage artifact kind mismatch'')) (\<lambda>_.
     rbind (rbind (strict_list ''registry-stage dispositions'' (jfield row ''dispositions''))
       (map_res cell_disposition_from_dict)) (\<lambda>dispositions.
     rbind (stage_sha256_field ''registry-stage registry'' (jfield row ''registry_sha256'')) (\<lambda>registry.
     rbind (stage_text_field ''registry-stage experiment'' (jfield row ''experiment'')) (\<lambda>experiment.
     rbind (stage_sha256_field ''registry-stage runtime'' (jfield row ''runtime_sha256'')) (\<lambda>runtime.
     rbind (stage_sha256_field ''registry-stage split'' (jfield row ''split_sha256'')) (\<lambda>split.
     rbind (rbind (strict_list ''registry-stage dependency receipts'' (jfield row ''dependency_receipts''))
       (map_res receipt_from_dict)) (\<lambda>receipts.
     rbind (case jfield row ''genesis_authority'' of
              JNull \<Rightarrow> Inr None | v \<Rightarrow> rbind (genesis_from_dict v) (\<lambda>n. Inr (Some n))) (\<lambda>genesis.
     rbind (stage_sha256_field ''registry-stage release capability'' (jfield row ''release_capability_sha256'')) (\<lambda>capability.
     rbind (stage_sha256_field ''registry-stage reducer'' (jfield row ''reducer_protocol_sha256'')) (\<lambda>reducer.
     rbind (stage_sha256_field ''registry-stage source authority'' (jfield row ''source_authority_sha256'')) (\<lambda>source.
     rbind (stage_text_field ''registry-stage activation round'' (jfield row ''activation_round'')) (\<lambda>activation_round.
     rbind (stage_text_field ''registry-stage status'' (jfield row ''status'')) (\<lambda>status.
     rbind (case jfield row ''schema_version'' of
              JInt schema \<Rightarrow> stage_activation_post_init
                \<lparr>sa_schema_version = schema, sa_registry_sha256 = registry, sa_experiment = experiment,
                 sa_runtime_sha256 = runtime, sa_split_sha256 = split, sa_dependency_receipts = receipts,
                 sa_genesis_authority = genesis, sa_release_capability_sha256 = capability,
                 sa_reducer_protocol_sha256 = reducer, sa_source_authority_sha256 = source,
                 sa_activation_round = activation_round, sa_status = status, sa_dispositions = dispositions\<rparr>
            | _ \<Rightarrow> Inl (ValueError ''registry-stage activation artifact schema is unsupported'')) (\<lambda>artifact.
     rbind (raise_if (jfield row ''artifact_sha256'' \<noteq> JStr (stage_activation_sha256 artifact))
       (ValueError ''registry-stage artifact SHA-256 mismatch'')) (\<lambda>_. Inr artifact))))))))))))))))"

end
