(* ===== verification/Activation_Laws.thy ===== *)
theory Activation_Laws
  imports Activation Pool_Progress
begin

text \<open>
  Laws of the stage reducer: what an artifact of the reducer holds, that the reducer returns one for every
  ready generic stage, and that the JSON form of an artifact is read back up to the order of the rows in its
  receipts.
\<close>

section \<open>What the reducer returns\<close>

lemma disposition_of_cell [simp]: "dp_cell_id (disposition_of c) = cell_id c"
  by (auto simp: disposition_of_def split: option.splits)

lemma dispatchable_is_unmeasured: "release_dispatch_rejection_reason c = None \<Longrightarrow> xc_status c = UNMEASURED"
  by (auto simp: release_dispatch_rejection_reason_def release_execution_capability_rejection_reason_def Let_def
      split: option.splits if_splits)

lemma disposition_activated: "dp_status (disposition_of c) = STAGE_ACTIVATED \<longleftrightarrow> release_dispatch_rejection_reason c = None"
  using dispatchable_is_unmeasured [of c] by (auto simp: disposition_of_def split: option.splits)

lemma disposition_not_applicable: "dp_status (disposition_of c) = STAGE_NOT_APPLICABLE \<longleftrightarrow> xc_status c = NOT_APPLICABLE"
  by (auto simp: disposition_of_def split: option.splits)

lemma stage_activation_post_init_Inr: "stage_activation_post_init a = Inr a' \<Longrightarrow> a' = a"
  by (simp add: stage_activation_post_init_def)

lemma cells_for_Inr:
  "cells_for g e = Inr cells \<Longrightarrow> cells = sort_key cell_id (filter (\<lambda>c. xi_experiment (xc_identity c) = e) (rg_cells g))"
  by (simp add: cells_for_def)

lemma materialize_Inr:
  assumes "materialize_registry_stage_activation g e receipts runtime split = Inr a"
  obtains validated cells where "validate_receipts g receipts = Inr validated"
    "set (dkeys validated) = set (take (stage_index e) industrial_experiment_order)"
    "sa_dependency_receipts a = map (\<lambda>name. the (dget validated name)) (take (stage_index e) industrial_experiment_order)"
    "cells_for g e = Inr cells" "sa_dispositions a = map disposition_of cells"
    "stage_activation_post_init a = Inr a" "sa_experiment a = e" "sa_schema_version a = 1"
    "sa_runtime_sha256 a = runtime" "sa_split_sha256 a = split" "sa_registry_sha256 a = rg_sha256 g"
proof -
  from assms obtain validated genesis cells rows where
    validated: "validate_receipts g receipts = Inr validated"
      "set (dkeys validated) = set (take (stage_index e) industrial_experiment_order)" and
    cells: "cells_for g e = Inr cells" and
    rows: "map_res (\<lambda>c. cell_disposition_post_init (disposition_of c)) cells = Inr rows" and
    a: "stage_activation_post_init
       \<lparr>sa_schema_version = 1, sa_registry_sha256 = rg_sha256 g, sa_experiment = e,
        sa_runtime_sha256 = runtime, sa_split_sha256 = split,
        sa_dependency_receipts = map (\<lambda>name. the (dget validated name)) (take (stage_index e) industrial_experiment_order),
        sa_genesis_authority = genesis,
        sa_release_capability_sha256 = registry_stage_release_capability_sha256,
        sa_reducer_protocol_sha256 = registry_stage_activation_protocol_sha256,
        sa_source_authority_sha256 = source_authority_sha256 (rg_sha256 g) e runtime split
          (map experiment_receipt_sha256 (map (\<lambda>name. the (dget validated name))
             (take (stage_index e) industrial_experiment_order))) (map_option genesis_authority_sha256 genesis),
        sa_activation_round = ''registry_release_dispatchability_v1'',
        sa_status = expected_status e rows, sa_dispositions = sort_key dp_cell_id rows\<rparr> = Inr a"
    unfolding materialize_registry_stage_activation_def Let_def rbind_eq_Inr raise_if_Inr by blast
  have "cell_disposition_post_init d = Inr d' \<Longrightarrow> d' = d" for d d' by (simp add: cell_disposition_post_init_def)
  then have eq_rows: "rows = map disposition_of cells"
    using rows by (auto simp: map_res_Inr list_all2_conv_all_nth intro!: nth_equalityI)
  have "sorted (map cell_id cells)" unfolding cells_for_Inr [OF cells] by simp
  then have "sort_key dp_cell_id (map disposition_of cells) = map disposition_of cells"
    by (intro sort_key_id_if_sorted) (simp add: comp_def)
  moreover note eq = stage_activation_post_init_Inr [OF a]
  ultimately have dispositions: "sa_dispositions a = map disposition_of cells" unfolding eq eq_rows by simp
  have post: "stage_activation_post_init a = Inr a" using a unfolding eq .
  show thesis
    by (rule that [OF validated _ cells dispositions post]) (simp_all add: eq)
qed

lemma filter_map_ids: "map dp_cell_id (filter P (map disposition_of cells)) = map cell_id (filter (P \<circ> disposition_of) cells)"
  by (simp add: filter_map)

lemma activated_exactly:
  "activated_ids (map disposition_of cells) = map cell_id (filter (\<lambda>c. release_dispatch_rejection_reason c = None) cells)"
  by (simp add: activated_ids_def filter_map comp_def disposition_activated)

lemma verify_Inr:
  "verify_registry_stage_activation g a = Inr () \<longleftrightarrow> sa_schema_version a \<noteq> 2
     \<and> materialize_registry_stage_activation g (sa_experiment a) (sa_dependency_receipts a) (sa_runtime_sha256 a)
         (sa_split_sha256 a) = Inr a"
  by (auto simp: verify_registry_stage_activation_def)

section \<open>The reducer returns\<close>

lemma stage_reason_text:
  assumes "s \<noteq> []" "\<forall>c \<in> set s. c \<in> set reason_characters"
  shows "stage_text s"
proof -
  have "list_all (\<lambda>c. \<not> py_space c \<and> c \<noteq> CHR 0x0A \<and> c \<noteq> CHR 0x0D) reason_characters" by code_simp
  then have ok: "c \<in> set reason_characters \<Longrightarrow> \<not> py_space c \<and> c \<noteq> CHR 0x0A \<and> c \<noteq> CHR 0x0D" for c
    by (simp add: list_all_iff)
  from assms obtain c t where "s = c # t" by (cases s) auto
  then have "strip s \<noteq> []" using strip_nonempty [of c s] ok [of c] assms(2) by simp
  moreover have "CHR 0x0A \<notin> set s" "CHR 0x0D \<notin> set s" using ok assms(2) by blast+
  ultimately show ?thesis by (simp add: stage_text_def)
qed

definition reason_ok :: "string \<Rightarrow> bool" where
  "reason_ok s \<longleftrightarrow> s \<noteq> [] \<and> list_all (\<lambda>c. c \<in> set reason_characters) s"

lemma reason_code_ok: "is_reason_code s \<Longrightarrow> reason_ok s"
proof -
  have "list_all (\<lambda>c. c \<in> set reason_characters) reason_head" "list_all (\<lambda>c. c \<in> set reason_characters) reason_tail"
    by code_simp+
  then show "is_reason_code s \<Longrightarrow> reason_ok s"
    by (auto simp: is_reason_code_def reason_ok_def list_all_iff split: list.splits)
qed

lemma capability_reason_ok:
  assumes "is_reason_code (xc_reason_code c)"
  shows "case release_dispatch_rejection_reason c of None \<Rightarrow> True | Some r \<Rightarrow> reason_ok r"
proof -
  have texts: "list_all reason_ok
    [''release_compile_assignment_contract_unavailable'', ''release_download_assignment_contract_unavailable'',
     ''release_preflight_method_unsupported'', ''release_topology_executor_unsupported'', ''tts_official_recipe_unavailable'',
     ''sealed_e2_recipe_receipt_required'', ''tts_frozen_recipe_authority_required'', ''release_adaptive_backend_unsupported'',
     ''release_onlinespec_execution_contract_unavailable'', ''release_method_capability_unsupported'',
     ''release_serving_contract_unresolved'']" by code_simp
  have "case release_execution_capability_rejection_reason c of None \<Rightarrow> True | Some r \<Rightarrow> reason_ok r"
    using texts reason_code_ok [OF assms] by (simp add: release_execution_capability_rejection_reason_def Let_def)
  then show ?thesis
    using texts by (auto simp: release_dispatch_rejection_reason_def split: option.splits)
qed

lemma disposition_accepted:
  assumes "valid_cell c"
  shows "cell_disposition_post_init (disposition_of c) = Inr (disposition_of c)"
proof -
  have code: "is_reason_code (xc_reason_code c)" using assms by (simp add: valid_cell_def experiment_cell_post_init_def)
  have "reason_ok ''release_dispatchability_verified''" by code_simp
  then have "reason_ok (dp_reason_code (disposition_of c))"
    using reason_code_ok [OF code] capability_reason_ok [OF code] by (auto simp: disposition_of_def split: option.splits)
  then have ok: "stage_text (dp_reason_code (disposition_of c))"
    "\<not> list_ex (\<lambda>x. x \<notin> set reason_characters) (dp_reason_code (disposition_of c))"
    using stage_reason_text by (auto simp: reason_ok_def list_all_iff list_ex_iff)
  have "is_sha256 (cell_id c)" by (simp add: cell_id_def cell_identity_digest_def)
  with ok show ?thesis
    by (simp add: cell_disposition_post_init_def require_stage_sha256_def require_stage_text_def)
qed

lemma index_receipts_registry:
  "index_receipts g known rs = Inr known' \<Longrightarrow> \<forall>r \<in> set rs. er_registry_sha256 r = rg_sha256 g"
proof (induction rs arbitrary: known)
  case (Cons r rs)
  then have "er_registry_sha256 r = rg_sha256 g" "\<exists>known. index_receipts g known rs = Inr known'"
    unfolding index_receipts_Cons by blast+
  with Cons.IH show ?case by auto
qed simp

lemma validated_receipt:
  assumes "validate_receipts g receipts = Inr validated" "name \<in> set (dkeys validated)"
  shows "er_experiment (the (dget validated name)) = name" "er_registry_sha256 (the (dget validated name)) = rg_sha256 g"
    "the (dget validated name) \<in> set receipts"
proof -
  have index: "index_receipts g [] receipts = Inr validated" using assms(1) by (auto simp: validate_receipts_def)
  have v: "validated = map (\<lambda>r. (er_experiment r, r)) receipts" using index_receipts_Inr [OF index] by simp
  obtain r where r: "dget validated name = Some r" using assms(2) by (metis map_of_eq_None_iff not_None_eq set_map)
  then have "(name, r) \<in> set validated" by (rule dget_mem)
  then have "r \<in> set receipts" "er_experiment r = name" unfolding v by auto
  with r index_receipts_registry [OF index] show "er_experiment (the (dget validated name)) = name"
    "er_registry_sha256 (the (dget validated name)) = rg_sha256 g" "the (dget validated name) \<in> set receipts" by auto
qed

lemma stage_index_nth: "n < 11 \<Longrightarrow> stage_index (industrial_experiment_order ! n) = n"
proof -
  have "list_all (\<lambda>n. stage_index (industrial_experiment_order ! n) = n) [0..<11]" by code_simp
  then show "n < 11 \<Longrightarrow> stage_index (industrial_experiment_order ! n) = n" by (simp add: list_all_iff)
qed

lemma protocol_digests [simp]:
  "is_sha256 registry_stage_release_capability_sha256" "is_sha256 registry_stage_activation_protocol_sha256"
  "is_sha256 (source_authority_sha256 r e t s d n)"
  by (simp_all add: registry_stage_release_capability_sha256_def registry_stage_activation_protocol_sha256_def
      source_authority_sha256_def)

lemma genesis_made:
  assumes "is_sha256 (rg_sha256 g)"
  obtains n where "new_genesis_authority g = Inr n" "gn_registry_sha256 n = rg_sha256 g"
    "gn_root_experiment n = industrial_experiment_order ! 0"
  using assms by (simp add: new_genesis_authority_def genesis_authority_post_init_def require_stage_sha256_def)

lemma materialize_returns:
  assumes "check_definition_order (rg_definitions g) = Inr ()" "is_sha256 (rg_sha256 g)"
    "\<forall>c \<in> set (rg_cells g). valid_cell c" "distinct (map cell_id (rg_cells g))"
    "ready_experiment g receipts = Inr (Some e)" "e \<in> set generic_registry_stages"
    "is_sha256 runtime" "is_sha256 split" "c \<in> set (rg_cells g)" "xi_experiment (xc_identity c) = e"
  shows "\<exists>a. materialize_registry_stage_activation g e receipts runtime split = Inr a"
proof -
  obtain validated where valid: "validate_receipts g receipts = Inr validated"
    using assms(5) by (auto simp: ready_experiment_def)
  obtain n where n: "set (dkeys validated) = set (take n industrial_experiment_order)"
    "ready_experiment g receipts = Inr (if n < 11 then Some (industrial_experiment_order ! n) else None)"
    using ready_experiment_next [OF assms(1) valid] by blast
  then have lt: "n < 11" and e: "e = industrial_experiment_order ! n" using assms(5) by (auto split: if_splits)
  have index: "stage_index e = n" unfolding e by (rule stage_index_nth [OF lt])
  let ?names = "take n industrial_experiment_order"
  let ?ordered = "map (\<lambda>name. the (dget validated name)) ?names"
  have receipts: "map er_experiment ?ordered = ?names" "\<not> list_ex (\<lambda>r. er_registry_sha256 r \<noteq> rg_sha256 g) ?ordered"
    using validated_receipt [OF valid] n(1) by (auto simp: list_ex_iff intro!: map_idI)
  obtain d where "d \<in> set (rg_definitions g)" "ed_name d = e"
  proof -
    have "e \<in> set (map ed_name (rg_definitions g))"
      unfolding check_definition_order_Inr(1) [OF assms(1)] e using lt by simp
    with that show thesis by auto
  qed
  then have "registry_definition g e \<noteq> Inl x" for x
    by (auto simp: registry_definition_def find_None_iff split: option.splits)
  then obtain d' where "registry_definition g e = Inr d'" by (cases "registry_definition g e") auto
  then obtain cells where cells: "cells_for g e = Inr cells" by (simp add: cells_for_def)
  note sorted_cells = cells_for_Inr [OF cells]
  have rows: "map_res (\<lambda>c. cell_disposition_post_init (disposition_of c)) cells = Inr (map disposition_of cells)"
    by (rule map_res_ok) (use assms(3) disposition_accepted sorted_cells in auto)
  have "sorted (map cell_id cells)" unfolding sorted_cells by simp
  then have sorted_rows: "sort_key dp_cell_id (map disposition_of cells) = map disposition_of cells"
    by (intro sort_key_id_if_sorted) (simp add: comp_def)
  have "distinct (map cell_id cells)"
    unfolding sorted_cells distinct_map by (use assms(4) in \<open>auto simp: distinct_map inj_on_def\<close>)
  then have distinct_rows: "distinct (map dp_cell_id (map disposition_of cells))" by (simp add: comp_def)
  have "c \<in> set cells" unfolding sorted_cells using assms(9,10) by simp
  then have nonempty: "cells \<noteq> []" by auto
  obtain genesis where genesis: "(if n = 0 then rbind (new_genesis_authority g) (\<lambda>n. Inr (Some n)) else Inr None) = Inr genesis"
    "if n = 0 then \<exists>x. genesis = Some x \<and> gn_registry_sha256 x = rg_sha256 g \<and> gn_root_experiment x = e else genesis = None"
  proof (cases "n = 0")
    case True
    obtain x where "new_genesis_authority g = Inr x" "gn_registry_sha256 x = rg_sha256 g"
      "gn_root_experiment x = industrial_experiment_order ! 0" using assms(2) by (rule genesis_made)
    with True e show thesis by (intro that [of "Some x"]) simp_all
  qed (use that in auto)
  have gate: "\<not> (if n = 0 then (case genesis of None \<Rightarrow> True | Some x \<Rightarrow> gn_registry_sha256 x \<noteq> rg_sha256 g
      \<or> gn_root_experiment x \<noteq> e) else genesis \<noteq> None)"
    using genesis(2) by (auto split: if_splits)
  show ?thesis
    unfolding materialize_registry_stage_activation_def Let_def index
    using assms(2,6-8) valid n(1) receipts cells rows sorted_rows distinct_rows nonempty genesis(1) gate
    by (simp add: require_stage_sha256_def stage_activation_post_init_def check_policy_identity_def check_genesis_def
        check_source_authority_def index comp_def split: if_splits cong: option.case_cong)
qed

section \<open>The JSON form\<close>

lemma stage_fields [strict_simps]:
  "is_sha256 v \<Longrightarrow> stage_sha256_field name (JStr v) = Inr v" "stage_text v \<Longrightarrow> stage_text_field name (JStr v) = Inr v"
  "list_all (\<lambda>k. k \<in> set names) (dkeys row) \<Longrightarrow> list_all (\<lambda>k. k \<in> set (dkeys row)) names
     \<Longrightarrow> stage_object name (JObj row) names = Inr row"
proof -
  show "list_all (\<lambda>k. k \<in> set names) (dkeys row) \<Longrightarrow> list_all (\<lambda>k. k \<in> set (dkeys row)) names
     \<Longrightarrow> stage_object name (JObj row) names = Inr row"
    unfolding stage_object_def json.case by (rule strict_object_ok) (auto simp: list_all_iff)
qed (simp_all add: stage_sha256_field_def stage_text_field_def require_stage_sha256_def require_stage_text_def)

lemma stage_order_text:
  "s \<in> set industrial_experiment_order \<Longrightarrow> stage_text s"
  "stage_text ''sealed_before_downstream_unblinding''" "stage_text ''AVAILABLE''" "stage_text ''BLOCKED''"
  "stage_text (stage_disposition_text d)" "stage_text ''registry_release_dispatchability_v1''"
  "stage_text ''preflight_pointer_terminal_dispatchability_v2''"
proof -
  have "list_all stage_text industrial_experiment_order" by code_simp
  then show "s \<in> set industrial_experiment_order \<Longrightarrow> stage_text s" unfolding list_all_iff by (rule bspec)
  show "stage_text ''sealed_before_downstream_unblinding''" "stage_text ''AVAILABLE''" "stage_text ''BLOCKED''"
    "stage_text ''registry_release_dispatchability_v1''" "stage_text ''preflight_pointer_terminal_dispatchability_v2''"
    by code_simp+
  have "stage_text ''ACTIVATED''" "stage_text ''BLOCKED''" "stage_text ''N/A''" by code_simp+
  then show "stage_text (stage_disposition_text d)" by (cases d) simp_all
qed

lemma disposition_text_round_trip [strict_simps]: "stage_disposition_of_text (stage_disposition_text d) = Inr d"
  by (cases d) (simp_all add: stage_disposition_of_text_def)

lemma cell_disposition_round_trip [strict_simps]:
  assumes "cell_disposition_post_init d = Inr d"
  shows "cell_disposition_from_dict (cell_disposition_to_dict d) = Inr d"
proof -
  have "is_sha256 (dp_cell_id d)" "stage_text (dp_reason_code d)"
    using assms by (simp_all add: cell_disposition_post_init_def require_stage_sha256_def require_stage_text_def)
  then show ?thesis
    by (simp add: cell_disposition_from_dict_def cell_disposition_to_dict_def strict_simps stage_order_text)
      (use assms in \<open>cases d; simp\<close>)
qed

interpretation disposition_codec: strict_codec "\<lambda>d. cell_disposition_post_init d = Inr d" cell_disposition_to_dict
  cell_disposition_from_dict
  by unfold_locales (rule cell_disposition_round_trip)

lemma genesis_round_trip [strict_simps]:
  assumes "genesis_authority_post_init n = Inr n"
  shows "genesis_from_dict (genesis_authority_to_dict n) = Inr n"
proof -
  have "is_sha256 (gn_registry_sha256 n)" "gn_root_experiment n = industrial_experiment_order ! 0" "gn_schema_version n = 1"
    "is_sha256 (gn_reducer_protocol_sha256 n)"
    using assms by (auto simp: genesis_authority_post_init_def require_stage_sha256_def)
  moreover have "stage_text (industrial_experiment_order ! 0)" by (rule stage_order_text(1)) simp
  ultimately show ?thesis
    by (simp add: genesis_from_dict_def genesis_authority_to_dict_def strict_simps) (use assms in \<open>cases n; simp\<close>)
qed

interpretation genesis_codec: strict_codec "\<lambda>n. genesis_authority_post_init n = Inr n" genesis_authority_to_dict
  genesis_from_dict
  by unfold_locales (rule genesis_round_trip)

text \<open>The document of a receipt lists its dependencies and outputs by name.\<close>

definition canonical_receipt :: "experiment_receipt \<Rightarrow> experiment_receipt" where
  "canonical_receipt r =
     r\<lparr>er_dependency_receipts := sort_key lo_name (er_dependency_receipts r), er_outputs := sort_key lo_name (er_outputs r)\<rparr>"

definition valid_locked_output :: "locked_output \<Rightarrow> bool" where
  "valid_locked_output l \<longleftrightarrow> locked_output_post_init l = Inr l \<and> stage_text (lo_name l)"

definition valid_stage_receipt :: "experiment_receipt \<Rightarrow> bool" where
  "valid_stage_receipt r \<longleftrightarrow> experiment_receipt_post_init r = Inr r \<and> stage_text (er_experiment r)
     \<and> (\<forall>l \<in> set (er_dependency_receipts r) \<union> set (er_outputs r). valid_locked_output l)"

lemma locked_output_round_trip:
  "valid_locked_output l \<Longrightarrow> locked_output_from_dict (locked_output_json l) = Inr l"
  by (cases l) (simp add: locked_output_from_dict_def locked_output_json_def valid_locked_output_def strict_simps
      locked_output_post_init_def)

interpretation output_codec: strict_codec valid_locked_output locked_output_json locked_output_from_dict
  by unfold_locales (rule locked_output_round_trip)

lemma canonical_receipt_to_dict [simp]: "experiment_receipt_to_dict (canonical_receipt r) = experiment_receipt_to_dict r"
  by (simp add: experiment_receipt_to_dict_def canonical_receipt_def sort_key_id_if_sorted)

lemma canonical_receipt_sha256 [simp]: "experiment_receipt_sha256 (canonical_receipt r) = experiment_receipt_sha256 r"
  by (simp add: experiment_receipt_sha256_def)

lemma canonical_receipt_fields [simp]:
  "er_experiment (canonical_receipt r) = er_experiment r" "er_registry_sha256 (canonical_receipt r) = er_registry_sha256 r"
  by (simp_all add: canonical_receipt_def)

lemma distinct_sort_key: "distinct (map f (sort_key g xs)) \<longleftrightarrow> distinct (map f xs)"
  by (metis mset_eq_imp_distinct_iff mset_map mset_sort)

lemma sort_key_Nil [simp]: "sort_key f xs = [] \<longleftrightarrow> xs = []"
  by (metis length_0_conv length_sort)

lemma receipt_round_trip:
  assumes "valid_stage_receipt r"
  shows "receipt_from_dict (experiment_receipt_to_dict r) = Inr (canonical_receipt r)"
proof -
  note v = assms [unfolded valid_stage_receipt_def]
  have digests: "is_sha256 (er_registry_sha256 r)" "is_sha256 (er_runtime_sha256 r)" "is_sha256 (er_split_sha256 r)"
    "is_sha256 (er_completed_cells_sha256 r)" "er_selection_state r = ''sealed_before_downstream_unblinding''"
    using v by (auto simp: experiment_receipt_post_init_def)
  have rows: "map_res locked_output_from_dict (map locked_output_json (sort_key lo_name (er_dependency_receipts r)))
      = Inr (sort_key lo_name (er_dependency_receipts r))"
    "map_res locked_output_from_dict (map locked_output_json (sort_key lo_name (er_outputs r))) = Inr (sort_key lo_name (er_outputs r))"
    using v by (auto intro!: output_codec.decode_list)
  show ?thesis
    using v by (simp add: receipt_from_dict_def experiment_receipt_to_dict_def strict_simps digests rows stage_order_text
        experiment_receipt_post_init_def distinct_sort_key canonical_receipt_def)
qed

definition canonical_activation :: "stage_activation \<Rightarrow> stage_activation" where
  "canonical_activation a = a\<lparr>sa_dependency_receipts := map canonical_receipt (sa_dependency_receipts a)\<rparr>"

definition valid_stage_activation :: "stage_activation \<Rightarrow> bool" where
  "valid_stage_activation a \<longleftrightarrow> stage_activation_post_init a = Inr a
     \<and> (\<forall>r \<in> set (sa_dependency_receipts a). valid_stage_receipt r)
     \<and> (\<forall>n. sa_genesis_authority a = Some n \<longrightarrow> genesis_authority_post_init n = Inr n)
     \<and> (\<forall>d \<in> set (sa_dispositions a). cell_disposition_post_init d = Inr d)"

lemma canonical_activation_sha256 [simp]: "stage_activation_sha256 (canonical_activation a) = stage_activation_sha256 a"
  by (simp add: stage_activation_sha256_def stage_activation_payload_def canonical_activation_def comp_def)

lemma canonical_activation_accepted:
  assumes "stage_activation_post_init a = Inr a"
  shows "stage_activation_post_init (canonical_activation a) = Inr (canonical_activation a)"
proof -
  have same: "check_policy_identity (canonical_activation a) = check_policy_identity a"
    "check_genesis (canonical_activation a) = check_genesis a" "check_source_authority (canonical_activation a) = check_source_authority a"
    by (simp_all add: check_policy_identity_def check_genesis_def check_source_authority_def canonical_activation_def comp_def
        cong: option.case_cong)
  have fields: "sa_dispositions (canonical_activation a) = sa_dispositions a" "sa_experiment (canonical_activation a) = sa_experiment a"
    "sa_status (canonical_activation a) = sa_status a" "sa_schema_version (canonical_activation a) = sa_schema_version a"
    "sa_registry_sha256 (canonical_activation a) = sa_registry_sha256 a" "sa_runtime_sha256 (canonical_activation a) = sa_runtime_sha256 a"
    "sa_split_sha256 (canonical_activation a) = sa_split_sha256 a"
    "map er_experiment (sa_dependency_receipts (canonical_activation a)) = map er_experiment (sa_dependency_receipts a)"
    "list_ex P (map er_registry_sha256 (sa_dependency_receipts (canonical_activation a)))
       = list_ex P (map er_registry_sha256 (sa_dependency_receipts a))" for P
    by (simp_all add: canonical_activation_def comp_def)
  from assms show ?thesis
    using fields(9) [of "\<lambda>s. s \<noteq> sa_registry_sha256 a"]
    by (simp add: stage_activation_post_init_def same fields list_ex_iff)
qed

lemma stage_activation_texts:
  assumes "stage_activation_post_init a = Inr a"
  shows "is_sha256 (sa_registry_sha256 a)" "is_sha256 (sa_runtime_sha256 a)" "is_sha256 (sa_split_sha256 a)"
    "stage_text (sa_experiment a)" "is_sha256 (sa_release_capability_sha256 a)" "is_sha256 (sa_reducer_protocol_sha256 a)"
    "is_sha256 (sa_source_authority_sha256 a)" "stage_text (sa_activation_round a)" "stage_text (sa_status a)"
proof -
  have pointer: "is_sha256 preflight_pointer_release_capability_sha256" "is_sha256 preflight_pointer_activation_protocol_sha256"
    by (simp_all add: preflight_pointer_release_capability_sha256_def preflight_pointer_activation_protocol_sha256_def)
  have parts: "is_sha256 (sa_registry_sha256 a)" "is_sha256 (sa_runtime_sha256 a)" "is_sha256 (sa_split_sha256 a)"
    "sa_experiment a \<in> set generic_registry_stages" "check_policy_identity a = Inr ()" "check_source_authority a = Inr ()"
    "sa_status a = expected_status (sa_experiment a) (sa_dispositions a)"
    using assms by (auto simp: stage_activation_post_init_def require_stage_sha256_def)
  show "is_sha256 (sa_registry_sha256 a)" "is_sha256 (sa_runtime_sha256 a)" "is_sha256 (sa_split_sha256 a)" by (rule parts)+
  show "stage_text (sa_experiment a)" using parts(4) by (intro stage_order_text(1)) (simp add: generic_registry_stages_def)
  show "is_sha256 (sa_release_capability_sha256 a)" "is_sha256 (sa_reducer_protocol_sha256 a)" "stage_text (sa_activation_round a)"
    using parts(5) pointer stage_order_text(6,7) by (auto simp: check_policy_identity_def split: if_splits)
  show "is_sha256 (sa_source_authority_sha256 a)"
    using parts(6) by (auto simp: check_source_authority_def require_stage_sha256_def split: if_splits)
  show "stage_text (sa_status a)" unfolding parts(7) expected_status_def using stage_order_text(3,4) by simp
qed

lemma activation_round_trip:
  assumes "valid_stage_activation a"
  shows "registry_stage_activation_from_dict (registry_stage_activation_to_dict a) = Inr (canonical_activation a)"
proof -
  note v = assms [unfolded valid_stage_activation_def]
  note t = stage_activation_texts [OF conjunct1 [OF v]]
  have rows: "map_res cell_disposition_from_dict (map cell_disposition_to_dict (sa_dispositions a)) = Inr (sa_dispositions a)"
    "map_res receipt_from_dict (map experiment_receipt_to_dict (sa_dependency_receipts a))
      = Inr (map canonical_receipt (sa_dependency_receipts a))"
    using v by (auto intro!: disposition_codec.decode_list map_res_map receipt_round_trip)
  have genesis: "(case jopt genesis_authority_to_dict (sa_genesis_authority a) of
      JNull \<Rightarrow> Inr None | v \<Rightarrow> rbind (genesis_from_dict v) (\<lambda>n. Inr (Some n))) = Inr (sa_genesis_authority a)"
  proof (cases "sa_genesis_authority a")
    case (Some n)
    then have "genesis_from_dict (genesis_authority_to_dict n) = Inr n" using v genesis_round_trip by blast
    with Some show ?thesis by (simp add: jopt_def genesis_authority_to_dict_def)
  qed (simp add: jopt_def)
  have eq: "\<lparr>sa_schema_version = sa_schema_version a, sa_registry_sha256 = sa_registry_sha256 a, sa_experiment = sa_experiment a,
      sa_runtime_sha256 = sa_runtime_sha256 a, sa_split_sha256 = sa_split_sha256 a,
      sa_dependency_receipts = map canonical_receipt (sa_dependency_receipts a), sa_genesis_authority = sa_genesis_authority a,
      sa_release_capability_sha256 = sa_release_capability_sha256 a, sa_reducer_protocol_sha256 = sa_reducer_protocol_sha256 a,
      sa_source_authority_sha256 = sa_source_authority_sha256 a, sa_activation_round = sa_activation_round a,
      sa_status = sa_status a, sa_dispositions = sa_dispositions a\<rparr> = canonical_activation a"
    by (simp add: canonical_activation_def)
  show ?thesis
    by (simp add: registry_stage_activation_from_dict_def registry_stage_activation_to_dict_def stage_activation_payload_def
        strict_simps rows genesis t eq canonical_activation_accepted [OF conjunct1 [OF v]])
qed

section \<open>What verification sees of the receipts\<close>

text \<open>Receipts that validate, in any order and with their rows in any order.\<close>

definition receipt_ok :: "experiment_registry \<Rightarrow> experiment_receipt \<Rightarrow> bool" where
  "receipt_ok g r \<longleftrightarrow> er_registry_sha256 r = rg_sha256 g
     \<and> (\<exists>d. registry_definition g (er_experiment r) = Inr d \<and> set (map lo_name (er_outputs r)) = set (ed_locked_outputs d))"

lemma index_receipts_iff:
  "distinct (dkeys known) \<Longrightarrow> index_receipts g known rs = Inr v \<longleftrightarrow>
     v = known @ map (\<lambda>r. (er_experiment r, r)) rs \<and> distinct (dkeys v) \<and> (\<forall>r \<in> set rs. receipt_ok g r)"
proof (induction rs arbitrary: known)
  case (Cons r rs)
  show ?case
  proof (cases "er_experiment r \<in> set (dkeys known)")
    case True
    then have "\<not> distinct (dkeys (known @ map (\<lambda>r. (er_experiment r, r)) (r # rs)))" by (auto simp: image_iff)
    moreover from True have "index_receipts g known (r # rs) \<noteq> Inr v" by (simp add: index_receipts_Cons)
    ultimately show ?thesis by blast
  next
    case False
    then have "distinct (dkeys (known @ [(er_experiment r, r)]))" using Cons.prems by simp
    note IH = Cons.IH [OF this]
    have "index_receipts g known (r # rs) = Inr v \<longleftrightarrow>
        receipt_ok g r \<and> index_receipts g (known @ [(er_experiment r, r)]) rs = Inr v"
      unfolding index_receipts_Cons receipt_ok_def using False by blast
    then show ?thesis unfolding IH by auto
  qed
qed auto

lemma check_chain_cong:
  assumes "set (dkeys v) = set (dkeys w)"
    "\<And>n. n \<in> set (dkeys v) \<Longrightarrow> experiment_receipt_sha256 (the (dget v n)) = experiment_receipt_sha256 (the (dget w n))"
    "\<And>n. n \<in> set (dkeys v) \<Longrightarrow> set (actual_dependencies (the (dget v n))) = set (actual_dependencies (the (dget w n)))"
    "check_chain v d = Inr ()"
  shows "check_chain w d = Inr ()"
proof (cases "dget w (ed_name d)")
  case None
  then show ?thesis by (simp add: check_chain_def)
next
  case (Some r)
  then have w: "ed_name d \<in> set (dkeys w)" using dget_mem [OF Some] by force
  then obtain r' where r': "dget v (ed_name d) = Some r'"
    using assms(1) by (cases "dget v (ed_name d)") (auto simp: map_of_eq_None_iff)
  have missing: "filter (\<lambda>n. n \<notin> set (dkeys v)) (sort (ed_dependencies d)) = []"
    and bound: "dict_eq (actual_dependencies r') (expected_dependencies v d)"
    using assms(4) r' by (auto simp: check_chain_def Let_def)
  have "set (ed_dependencies d) \<subseteq> set (dkeys v)" using missing by (auto simp: filter_empty_conv)
  then have expected: "expected_dependencies v d = expected_dependencies w d"
    unfolding expected_dependencies_def using assms(2) by (intro arg_cong [of _ _ dict_of] map_cong) blast+
  have "set (actual_dependencies r') = set (actual_dependencies r)"
    using assms(3) [of "ed_name d"] w r' Some unfolding assms(1) by simp
  then show ?thesis
    using bound missing Some unfolding expected assms(1) by (simp add: check_chain_def Let_def dict_eq_def)
qed

lemma validate_receipts_iff:
  "validate_receipts g rs = Inr v \<longleftrightarrow> v = map (\<lambda>r. (er_experiment r, r)) rs \<and> distinct (map er_experiment rs)
     \<and> (\<forall>r \<in> set rs. receipt_ok g r) \<and> (\<forall>d \<in> set (rg_definitions g). check_chain v d = Inr ())"
  using index_receipts_iff [of "[]" g rs] by (auto simp: validate_receipts_def comp_def)

lemma validated_get:
  assumes "validate_receipts g rs = Inr v" "r \<in> set rs"
  shows "dget v (er_experiment r) = Some r"
proof -
  have v: "v = map (\<lambda>r. (er_experiment r, r)) rs" "distinct (map er_experiment rs)"
    using assms(1) by (simp_all add: validate_receipts_iff)
  have "distinct (map fst v)" unfolding v(1) using v(2) by (simp add: comp_def)
  moreover have "(er_experiment r, r) \<in> set v" unfolding v(1) using assms(2) by simp
  ultimately show ?thesis by (rule map_of_is_SomeI)
qed

text \<open>A transformed copy of validated receipts validates.\<close>

lemma validate_transformed:
  assumes "validate_receipts g rs = Inr v" "mset rs' = mset (map f rs)"
    "\<And>r. r \<in> set rs \<Longrightarrow> er_experiment (f r) = er_experiment r \<and> er_registry_sha256 (f r) = er_registry_sha256 r
       \<and> experiment_receipt_sha256 (f r) = experiment_receipt_sha256 r
       \<and> set (map lo_name (er_outputs (f r))) = set (map lo_name (er_outputs r))
       \<and> set (actual_dependencies (f r)) = set (actual_dependencies r)"
  shows "validate_receipts g rs' = Inr (map (\<lambda>r. (er_experiment r, r)) rs')"
    "\<And>r. r \<in> set rs \<Longrightarrow> dget (map (\<lambda>r. (er_experiment r, r)) rs') (er_experiment r) = Some (f r)"
proof -
  let ?w = "map (\<lambda>r. (er_experiment r, r)) rs'"
  note v = assms(1) [unfolded validate_receipts_iff]
  have members: "set rs' = f ` set rs" using mset_eq_setD [OF assms(2)] by simp
  have "mset (map er_experiment rs') = mset (map er_experiment (map f rs))" using assms(2) by (metis mset_map)
  moreover have "map er_experiment (map f rs) = map er_experiment rs" using assms(3) by simp
  ultimately have "mset (map er_experiment rs') = mset (map er_experiment rs)" by (simp only:)
  with v have distinct: "distinct (map er_experiment rs')" by (metis mset_eq_imp_distinct_iff)
  have keys: "set (dkeys v) = set (dkeys ?w)" using v members assms(3) by (auto simp: image_iff)
  have "distinct (map fst ?w)" using distinct by (simp add: comp_def)
  then show get: "dget ?w (er_experiment r) = Some (f r)" if "r \<in> set rs" for r
  proof (rule map_of_is_SomeI)
    have "f r \<in> set rs'" using that members by simp
    then have "(er_experiment (f r), f r) \<in> set ?w" by simp
    then show "(er_experiment r, f r) \<in> set ?w" using assms(3) [OF that] by simp
  qed
  have pair: "\<exists>r \<in> set rs. n = er_experiment r" if "n \<in> set (dkeys v)" for n using that v by auto
  have "check_chain ?w d = Inr ()" if "d \<in> set (rg_definitions g)" for d
  proof (rule check_chain_cong [OF keys])
    fix n assume "n \<in> set (dkeys v)"
    then obtain r where r: "r \<in> set rs" "n = er_experiment r" using pair by blast
    show "experiment_receipt_sha256 (the (dget v n)) = experiment_receipt_sha256 (the (dget ?w n))"
      "set (actual_dependencies (the (dget v n))) = set (actual_dependencies (the (dget ?w n)))"
      unfolding r(2) get [OF r(1)] validated_get [OF assms(1) r(1)] using assms(3) [OF r(1)] by simp_all
  qed (use v that in blast)
  moreover have "receipt_ok g r" if "r \<in> set rs'" for r
    using that members v assms(3) by (fastforce simp: receipt_ok_def)
  ultimately show "validate_receipts g rs' = Inr ?w" using distinct by (simp add: validate_receipts_iff)
qed

lemma dependency_receipts_are_receipts:
  assumes "validate_receipts g rs = Inr v" "set (dkeys v) = set names" "distinct names"
  shows "mset (map (\<lambda>n. the (dget v n)) names) = mset rs"
proof (rule iffD1 [OF set_eq_iff_mset_eq_distinct])
  let ?ordered = "map (\<lambda>n. the (dget v n)) names"
  note receipt = validated_receipt [OF assms(1), unfolded assms(2)]
  have "map er_experiment ?ordered = names" using receipt(1) by (auto intro!: map_idI)
  with assms(3) show "distinct ?ordered" by (metis distinct_map)
  have v: "v = map (\<lambda>r. (er_experiment r, r)) rs" "distinct (map er_experiment rs)"
    using assms(1) by (simp_all add: validate_receipts_iff)
  then show "distinct rs" by (simp add: distinct_map)
  have "r \<in> set ?ordered" if "r \<in> set rs" for r
  proof -
    have "er_experiment r \<in> set names" unfolding assms(2) [symmetric] v(1) using that by force
    with validated_get [OF assms(1) that] show ?thesis by (force simp: image_iff)
  qed
  with receipt(3) show "set ?ordered = set rs" by auto
qed

text \<open>An artifact is rebuilt from its own receipts, also when their rows have been reordered.\<close>

lemma materialize_transformed:
  assumes mat: "materialize_registry_stage_activation g e rs runtime split = Inr a"
    and f: "\<And>r. r \<in> set rs \<Longrightarrow> er_experiment (f r) = er_experiment r \<and> er_registry_sha256 (f r) = er_registry_sha256 r
       \<and> experiment_receipt_sha256 (f r) = experiment_receipt_sha256 r
       \<and> set (map lo_name (er_outputs (f r))) = set (map lo_name (er_outputs r))
       \<and> set (actual_dependencies (f r)) = set (actual_dependencies r)"
    and post: "stage_activation_post_init (a\<lparr>sa_dependency_receipts := map f (sa_dependency_receipts a)\<rparr>) = Inr a'"
  shows "materialize_registry_stage_activation g e (map f (sa_dependency_receipts a)) runtime split = Inr a'"
proof -
  let ?names = "take (stage_index e) industrial_experiment_order"
  from mat obtain v genesis cells rows where
    gates: "e \<in> set generic_registry_stages" "require_stage_sha256 ''registry-stage runtime'' runtime = Inr ()"
      "require_stage_sha256 ''registry-stage split'' split = Inr ()" and
    v: "validate_receipts g rs = Inr v" "set (dkeys v) = set ?names" and
    genesis: "(if stage_index e = 0 then rbind (new_genesis_authority g) (\<lambda>n. Inr (Some n)) else Inr None) = Inr genesis" and
    cells: "cells_for g e = Inr cells" and
    rows: "map_res (\<lambda>c. cell_disposition_post_init (disposition_of c)) cells = Inr rows" and
    made: "stage_activation_post_init
       \<lparr>sa_schema_version = 1, sa_registry_sha256 = rg_sha256 g, sa_experiment = e,
        sa_runtime_sha256 = runtime, sa_split_sha256 = split,
        sa_dependency_receipts = map (\<lambda>name. the (dget v name)) ?names,
        sa_genesis_authority = genesis,
        sa_release_capability_sha256 = registry_stage_release_capability_sha256,
        sa_reducer_protocol_sha256 = registry_stage_activation_protocol_sha256,
        sa_source_authority_sha256 = source_authority_sha256 (rg_sha256 g) e runtime split
          (map experiment_receipt_sha256 (map (\<lambda>name. the (dget v name)) ?names)) (map_option genesis_authority_sha256 genesis),
        sa_activation_round = ''registry_release_dispatchability_v1'',
        sa_status = expected_status e rows, sa_dispositions = sort_key dp_cell_id rows\<rparr> = Inr a"
    unfolding materialize_registry_stage_activation_def Let_def rbind_eq_Inr raise_if_Inr by auto
  note a = stage_activation_post_init_Inr [OF made]
  let ?ordered = "map (\<lambda>name. the (dget v name)) ?names"
  let ?w = "map (\<lambda>r. (er_experiment r, r)) (map f ?ordered)"
  have "distinct ?names" using industrial_order by (simp add: distinct_take)
  note same = dependency_receipts_are_receipts [OF v this]
  have permuted: "mset (map f ?ordered) = mset (map f rs)" using same by (simp only: mset_map)
  have w: "validate_receipts g (map f ?ordered) = Inr ?w" by (rule validate_transformed(1) [OF v(1) permuted f])
  have found: "dget ?w (er_experiment r) = Some (f r)" if "r \<in> set rs" for r
    by (rule validate_transformed(2) [OF v(1) permuted _ that]) (rule f)
  note receipt = validated_receipt [OF v(1), unfolded v(2)]
  have get: "the (dget ?w name) = f (the (dget v name))" if "name \<in> set ?names" for name
    using found [OF receipt(3) [OF that]] receipt(1) [OF that] by simp
  have digest: "experiment_receipt_sha256 (f (the (dget v name))) = experiment_receipt_sha256 (the (dget v name))"
    if "name \<in> set ?names" for name using f [OF receipt(3) [OF that]] by simp
  have keys: "set (dkeys ?w) = set ?names"
    using receipt(1) f [OF receipt(3)] by (force simp: image_iff)
  have "map (\<lambda>name. the (dget ?w name)) ?names = map (\<lambda>name. f (the (dget v name))) ?names"
    by (rule map_cong [OF refl get])
  then have ordered: "map (\<lambda>name. the (dget ?w name)) ?names = map f ?ordered" by (simp only: map_map comp_def)
  have digests: "map experiment_receipt_sha256 (map f ?ordered) = map experiment_receipt_sha256 ?ordered"
    unfolding map_map comp_def by (rule map_cong [OF refl digest])
  have deps: "map f (sa_dependency_receipts a) = map f ?ordered" by (simp only: a stage_activation.simps)
  show ?thesis
    unfolding materialize_registry_stage_activation_def Let_def deps w rbind_Inr keys ordered digests
    using gates genesis cells rows post by (simp add: a)
qed

section \<open>Verification of what the reducer wrote\<close>

lemma materialized_verifies:
  assumes "materialize_registry_stage_activation g e rs runtime split = Inr a"
  shows "verify_registry_stage_activation g a = Inr ()"
proof -
  have post: "stage_activation_post_init (a\<lparr>sa_dependency_receipts := map id (sa_dependency_receipts a)\<rparr>) = Inr a"
    and fields: "sa_experiment a = e" "sa_schema_version a = 1" "sa_runtime_sha256 a = runtime" "sa_split_sha256 a = split"
    using assms by (auto elim: materialize_Inr)
  have "materialize_registry_stage_activation g e (map id (sa_dependency_receipts a)) runtime split = Inr a"
    by (rule materialize_transformed [OF assms _ post]) simp
  with fields show ?thesis by (simp add: verify_Inr)
qed

lemma set_dict_of: "distinct (map fst ps) \<Longrightarrow> set (dict_of ps) = set ps"
proof -
  have "distinct (map fst (acc @ ps)) \<Longrightarrow> foldl (\<lambda>d (k, v). dset k v d) acc ps = acc @ ps" for acc
    by (induction ps arbitrary: acc) (auto simp: dset_new)
  from this [of "[]"] show "distinct (map fst ps) \<Longrightarrow> set (dict_of ps) = set ps" by (simp add: dict_of_def)
qed

lemma canonical_receipt_dependencies:
  assumes "valid_stage_receipt r"
  shows "set (actual_dependencies (canonical_receipt r)) = set (actual_dependencies r)"
proof -
  have "distinct (map lo_name (er_dependency_receipts r))"
    using assms by (simp add: valid_stage_receipt_def experiment_receipt_post_init_def)
  then show ?thesis
    by (simp add: actual_dependencies_def canonical_receipt_def set_dict_of distinct_sort_key comp_def)
qed

lemma canonical_receipt_outputs: "set (er_outputs (canonical_receipt r)) = set (er_outputs r)"
  by (simp add: canonical_receipt_def)

lemma canonical_verifies:
  assumes "verify_registry_stage_activation g a = Inr ()" "\<forall>r \<in> set (sa_dependency_receipts a). valid_stage_receipt r"
  shows "verify_registry_stage_activation g (canonical_activation a) = Inr ()"
proof -
  have mat: "materialize_registry_stage_activation g (sa_experiment a) (sa_dependency_receipts a) (sa_runtime_sha256 a)
      (sa_split_sha256 a) = Inr a" and schema: "sa_schema_version a \<noteq> 2"
    using assms(1) by (simp_all add: verify_Inr)
  have "stage_activation_post_init a = Inr a" using mat by (elim materialize_Inr)
  from canonical_activation_accepted [OF this] have post: "stage_activation_post_init
      (a\<lparr>sa_dependency_receipts := map canonical_receipt (sa_dependency_receipts a)\<rparr>) = Inr (canonical_activation a)"
    by (simp add: canonical_activation_def)
  have "materialize_registry_stage_activation g (sa_experiment a) (map canonical_receipt (sa_dependency_receipts a))
      (sa_runtime_sha256 a) (sa_split_sha256 a) = Inr (canonical_activation a)"
    by (rule materialize_transformed [OF mat _ post])
      (use assms(2) canonical_receipt_dependencies in \<open>auto simp: canonical_receipt_outputs\<close>)
  with schema show ?thesis by (simp add: verify_Inr canonical_activation_def)
qed

lemma verified_is_valid:
  assumes "verify_registry_stage_activation g a = Inr ()" "\<forall>r \<in> set (sa_dependency_receipts a). valid_stage_receipt r"
  shows "valid_stage_activation a"
proof -
  have mat: "materialize_registry_stage_activation g (sa_experiment a) (sa_dependency_receipts a) (sa_runtime_sha256 a)
      (sa_split_sha256 a) = Inr a" using assms(1) by (simp add: verify_Inr)
  then have post: "stage_activation_post_init a = Inr a" by (elim materialize_Inr)
  have once: "cell_disposition_post_init d = Inr d' \<Longrightarrow> cell_disposition_post_init d' = Inr d'"
    "genesis_authority_post_init n = Inr n' \<Longrightarrow> genesis_authority_post_init n' = Inr n'" for d d' n n'
    by (auto simp: cell_disposition_post_init_def genesis_authority_post_init_def)
  from mat obtain genesis cells rows where
    made: "(if stage_index (sa_experiment a) = 0 then rbind (new_genesis_authority g) (\<lambda>n. Inr (Some n)) else Inr None)
      = Inr genesis" and
    cells: "map_res (\<lambda>c. cell_disposition_post_init (disposition_of c)) cells = Inr rows" and
    eq: "\<exists>b. stage_activation_post_init (b\<lparr>sa_genesis_authority := genesis, sa_dispositions := sort_key dp_cell_id rows\<rparr>) = Inr a"
    unfolding materialize_registry_stage_activation_def Let_def rbind_eq_Inr raise_if_Inr
    by (metis stage_activation.update_convs(7,13))
  have rows: "set (sa_dispositions a) = set rows" "sa_genesis_authority a = genesis"
    using eq by (auto dest!: stage_activation_post_init_Inr)
  then have genesis: "\<forall>n. sa_genesis_authority a = Some n \<longrightarrow> new_genesis_authority g = Inr n"
    using made by (auto split: if_splits)
  from cells have "\<forall>d \<in> set rows. \<exists>c. cell_disposition_post_init (disposition_of c) = Inr d"
    by (fastforce simp: map_res_Inr list_all2_conv_all_nth in_set_conv_nth)
  with rows(1) have "\<forall>d \<in> set (sa_dispositions a). cell_disposition_post_init d = Inr d" using once(1) by blast
  moreover have "\<forall>n. sa_genesis_authority a = Some n \<longrightarrow> genesis_authority_post_init n = Inr n"
    using genesis once(2) unfolding new_genesis_authority_def by blast
  ultimately show ?thesis using post assms(2) by (simp add: valid_stage_activation_def)
qed

lemma verified_stage_is_ready:
  assumes "check_definition_order (rg_definitions g) = Inr ()" "verify_registry_stage_activation g a = Inr ()"
  shows "ready_experiment g (sa_dependency_receipts a) = Inr (Some (sa_experiment a))"
proof -
  let ?e = "sa_experiment a"
  have mat: "materialize_registry_stage_activation g ?e (sa_dependency_receipts a) (sa_runtime_sha256 a)
      (sa_split_sha256 a) = Inr a" using assms(2) by (simp add: verify_Inr)
  then obtain v where v: "validate_receipts g (sa_dependency_receipts a) = Inr v"
    "set (dkeys v) = set (take (stage_index ?e) industrial_experiment_order)" by (elim materialize_Inr)
  have post: "stage_activation_post_init a = Inr a" using mat by (elim materialize_Inr)
  then have "?e \<in> set industrial_experiment_order"
    by (auto simp: stage_activation_post_init_def generic_registry_stages_def)
  then obtain i where i: "i < 11" "?e = industrial_experiment_order ! i" by (auto simp: in_set_conv_nth)
  note index = stage_index_nth [OF i(1), folded i(2)]
  from ready_experiment_next [OF assms(1) v(1)] obtain n where n: "n \<le> 11"
    "set (dkeys v) = set (take n industrial_experiment_order)"
    "ready_experiment g (sa_dependency_receipts a) = Inr (if n < 11 then Some (industrial_experiment_order ! n) else None)"
    by blast
  have "card (set (take n industrial_experiment_order)) = n" "card (set (take i industrial_experiment_order)) = i"
    using n(1) i(1) distinct_card [OF distinct_take [OF industrial_order(1)]] by simp_all
  then have "n = i" using n(2) v(2) unfolding index by metis
  with n(3) i show ?thesis by simp
qed

end
