(* ===== verification/Industrial.thy ===== *)
theory Industrial
  imports Stages
begin

text \<open>
  The registered industrial study (\<open>experiments/registry.py\<close>): its grids, the parameter configurations of E1a, the
  scientific role of a cell, the eleven experiment definitions, and the checks a registry of them passes. Shown:
  the registered definitions are accepted in their order, the role of a cell fixes what recipe state it may carry,
  and a staged registry holds no cell that would need an unsealed recipe.
\<close>

section \<open>Registered grids\<close>

definition registry_lora_ranks :: "int list" where
  "registry_lora_ranks = [1, 2, 4, 8, 16, 32, 64]"

definition context_grid :: "int list" where
  "context_grid = [1024, 2048, 4096, 8192, 16384, 24576, 32768, 40928]"

definition context_regimes :: "string list" where
  "context_regimes = [''long_input_short_output'', ''short_input_long_generation'', ''multi_turn_shared_prefix'']"

definition draft_widths :: "int list" where
  "draft_widths = [4, 8, 16]"

definition e3a_concurrency_grid :: "int list" where
  "e3a_concurrency_grid = [1, 2, 4, 8, 16, 32, 64]"

definition e1_scopes :: "string list" where
  "e1_scopes = [''last1'', ''last3'', ''last5'', ''all'']"

definition e1_optimizer_anchors :: "string list" where
  "e1_optimizer_anchors = [''adamw'', ''sgdm'']"

definition e2_optimizers :: "string list" where
  "e2_optimizers = [''adam'', ''adamw'', ''sgdm'', ''nag'', ''muon'', ''lion'', ''chronobelief'']"

definition e2_schedules :: "string list" where
  "e2_schedules = [''constant'', ''inverse_sqrt_published_update'', ''cosine_to_zero'']"

definition pilot_blocks :: "int list" where
  "pilot_blocks = [0, 1, 2, 3]"

definition maximum_final_blocks :: int where
  "maximum_final_blocks = 20"

definition final_blocks :: "int list" where
  "final_blocks = [int (length pilot_blocks) .. int (length pilot_blocks) + maximum_final_blocks - 1]"

definition registered_confirmation_blocks :: "int list" where
  "registered_confirmation_blocks = pilot_blocks @ final_blocks"

definition e5_closed_loop_concurrency :: "int list" where
  "e5_closed_loop_concurrency = [1, 2, 4, 8, 16, 32, 64, 128, 256]"

definition e5_open_loop_load_factors :: "pyfloat list" where
  "e5_open_loop_load_factors = map fl [1 / 4, 1 / 2, 3 / 4, 9 / 10, 1, 11 / 10, 5 / 4]"

definition e5_cohort_counts :: "int list" where
  "e5_cohort_counts = [1, 4, 16, 64]"

definition e5_cohort_distributions :: "string list" where
  "e5_cohort_distributions = [''uniform'', ''zipf'']"

definition e5_topologies :: "string list" where
  "e5_topologies = [''tp1_dp1'', ''tp2_dp1'', ''two_replica_tp1_dp2'']"

definition e5_failures :: "string list" where
  "e5_failures =
     [''queue_saturation'', ''cancellation'', ''duplicate_retry'', ''nonfinite_candidate'', ''oom_candidate'',
      ''evidence_backpressure'', ''disk_quota'', ''slow_rank'', ''communicator_failure'', ''replica_drain'',
      ''replica_restart'']"

definition e6_candidate_models :: "string list" where
  "e6_candidate_models = [''Qwen/Qwen3.6-35B-A3B'', ''Qwen/Qwen3.5-122B-A10B-FP8'']"

definition e0_models :: "string list" where
  "e0_models = [''Qwen/Qwen3-4B'', ''Qwen/Qwen3-8B'', ''Qwen/Qwen3-14B'', ''Gemma4-12B'']"

definition e0_backends :: "string list" where
  "e0_backends = [''EAGLE3'', ''DFLASH'', ''DSPARK'']"

definition e0_tasks :: "string list" where
  "e0_tasks =
     [''GSM8K'', ''MATH-500'', ''AIME-2025'', ''MBPP'', ''HumanEval'', ''LiveCodeBench'', ''MT-Bench'', ''Alpaca'',
      ''Arena-Hard'']"

definition e0_loads :: "string list" where
  "e0_loads = [''concurrency_one'', ''common_slo_load'']"

definition tts_learning_rates :: "pyfloat list" where
  "tts_learning_rates = map fl
     [1 / 10 ^ 7, 3 / 10 ^ 7, 1 / 10 ^ 6, 3 / 10 ^ 6, 1 / 10 ^ 5, 3 / 10 ^ 5, 1 / 10 ^ 4, 3 / 10 ^ 4, 1 / 10 ^ 3]"

definition tts_strides :: "int list" where
  "tts_strides = [1, 5, 10, 15, 20, 30, 40, 50]"

definition industrial_port_span :: "int \<Rightarrow> int res" where
  "industrial_port_span logical_gpu_count =
     rbind (raise_if (logical_gpu_count < 2)
       (ValueError ''the registered industrial protocol requires at least two logical GPU slots''))
       (\<lambda>_. Inr (logical_gpu_count + 3))"

section \<open>Parameter configurations\<close>

record parameter_configuration =
  pm_scope :: string
  pm_parameterization :: string
  pm_rank :: "int option"
  pm_alpha_over_rank :: "pyfloat option"
  pm_native_head_policy :: string

definition parameter_configuration_post_init :: "parameter_configuration \<Rightarrow> parameter_configuration res" where
  "parameter_configuration_post_init p =
     rbind (require_text ''scope'' (pm_scope p)) (\<lambda>_.
     rbind (require_text ''parameterization'' (pm_parameterization p)) (\<lambda>_.
     rbind (require_text ''native_head_policy'' (pm_native_head_policy p)) (\<lambda>_.
     rbind (if pm_parameterization p = ''lora''
            then raise_if (pm_rank p \<notin> Some ` set registry_lora_ranks \<or> pm_alpha_over_rank p \<noteq> Some (Fin 1))
              (ValueError ''registered LoRA configurations require rank grid and alpha/r=1'')
            else if pm_parameterization p = ''full''
            then raise_if (pm_rank p \<noteq> None \<or> pm_alpha_over_rank p \<noteq> None)
              (ValueError ''Full configurations cannot carry LoRA fields'')
            else Inl (ValueError ''parameterization must be full or lora'')) (\<lambda>_. Inr p))))"

definition parameter_configuration_json :: "parameter_configuration \<Rightarrow> json" where
  "parameter_configuration_json p = JObj
     [(''alpha_over_rank'', jopt JFloat (pm_alpha_over_rank p)), (''native_head_policy'', JStr (pm_native_head_policy p)),
      (''parameterization'', JStr (pm_parameterization p)), (''rank'', jopt JInt (pm_rank p)), (''scope'', JStr (pm_scope p))]"

definition parameter_configuration_sha256 :: "parameter_configuration \<Rightarrow> string" where
  "parameter_configuration_sha256 p = content_sha256 (parameter_configuration_json p)"

definition full_configuration :: "string \<Rightarrow> string \<Rightarrow> parameter_configuration" where
  "full_configuration scope heads =
     \<lparr>pm_scope = scope, pm_parameterization = ''full'', pm_rank = None, pm_alpha_over_rank = None,
      pm_native_head_policy = heads\<rparr>"

definition lora_configuration :: "string \<Rightarrow> string \<Rightarrow> int \<Rightarrow> parameter_configuration" where
  "lora_configuration scope heads rank =
     \<lparr>pm_scope = scope, pm_parameterization = ''lora'', pm_rank = Some rank, pm_alpha_over_rank = Some (Fin 1),
      pm_native_head_policy = heads\<rparr>"

definition scope_configurations :: "string \<Rightarrow> string \<Rightarrow> parameter_configuration list" where
  "scope_configurations scope heads = full_configuration scope heads # map (lora_configuration scope heads) registry_lora_ranks"

definition e1a_configurations :: "parameter_configuration list" where
  "e1a_configurations =
     concat (map (\<lambda>scope. scope_configurations scope ''frozen'') e1_scopes)
     @ concat (map (\<lambda>depth. scope_configurations (depth @ ''_native_heads'') ''full'') [''last1'', ''last3'', ''last5''])"

definition e1a_adaptive_configurations :: "parameter_configuration list res" where
  "e1a_adaptive_configurations =
     rbind (map_res parameter_configuration_post_init e1a_configurations) (\<lambda>configurations.
     rbind (raise_if (length configurations \<noteq> 56
         \<or> card (set (map parameter_configuration_sha256 configurations)) \<noteq> 56)
       (AssertionError ''E1a must contain exactly 56 unique adaptive configurations'')) (\<lambda>_. Inr configurations))"

section \<open>Scientific roles\<close>

datatype scientific_method_role =
    ROLE_TARGET_ONLY | ROLE_STATIC | TTS_CALIBRATION_CANDIDATE | ROLE_TTS | L0_NAIVE | LC_CANDIDATE
  | LIGHTCONE_TEMPLATE | LIGHTCONE | ONLINESPEC_OGD | ONLINESPEC_OPT | ONLINESPEC_ENS

fun role_value :: "scientific_method_role \<Rightarrow> string" where
  "role_value ROLE_TARGET_ONLY = ''target_only''"
| "role_value ROLE_STATIC = ''static''"
| "role_value TTS_CALIBRATION_CANDIDATE = ''tts_calibration_candidate''"
| "role_value ROLE_TTS = ''tts''"
| "role_value L0_NAIVE = ''l0_naive''"
| "role_value LC_CANDIDATE = ''lc_candidate''"
| "role_value LIGHTCONE_TEMPLATE = ''lightcone_template''"
| "role_value LIGHTCONE = ''lightcone''"
| "role_value ONLINESPEC_OGD = ''onlinespec_ogd''"
| "role_value ONLINESPEC_OPT = ''onlinespec_opt''"
| "role_value ONLINESPEC_ENS = ''onlinespec_ens''"

definition all_roles :: "scientific_method_role list" where
  "all_roles =
     [ROLE_TARGET_ONLY, ROLE_STATIC, TTS_CALIBRATION_CANDIDATE, ROLE_TTS, L0_NAIVE, LC_CANDIDATE, LIGHTCONE_TEMPLATE,
      LIGHTCONE, ONLINESPEC_OGD, ONLINESPEC_OPT, ONLINESPEC_ENS]"

text \<open>\<open>ScientificMethodRole(value)\<close>\<close>

definition role_of_value :: "string \<Rightarrow> scientific_method_role res" where
  "role_of_value v = (case find (\<lambda>r. role_value r = v) all_roles of
     Some r \<Rightarrow> Inr r | None \<Rightarrow> Inl (ValueError (repr_str v @ '' is not a valid ScientificMethodRole'')))"

definition confirmation_method_roles :: "string list" where
  "confirmation_method_roles = map role_value [ROLE_TARGET_ONLY, ROLE_STATIC, ROLE_TTS, L0_NAIVE, LIGHTCONE]"

definition e0_method_roles :: "string list" where
  "e0_method_roles = confirmation_method_roles @ drop (length e0_methods - 3) e0_methods"

definition has_recipe_sentinel :: "cell_identity \<Rightarrow> string \<Rightarrow> bool" where
  "has_recipe_sentinel i sentinel \<longleftrightarrow> xi_optimizer i = Some sentinel \<and> xi_schedule i = Some sentinel"

definition require_zero_adaptation_identity :: "cell_identity \<Rightarrow> string \<Rightarrow> unit res" where
  "require_zero_adaptation_identity i label = raise_if
     (xi_scope i \<notin> {None, Some ''none''} \<or> xi_parameterization i \<noteq> ''none''
      \<or> xi_optimizer i \<noteq> None \<or> xi_learning_rate i \<noteq> None \<or> xi_schedule i \<noteq> None \<or> xi_rank i \<noteq> None
      \<or> xi_alpha_over_rank i \<noteq> None)
     (ValueError (label @ '' cannot carry adaptation recipe state''))"

definition exact_sentinel_identity :: "cell_identity \<Rightarrow> string \<Rightarrow> bool" where
  "exact_sentinel_identity i sentinel \<longleftrightarrow>
     xi_scope i = Some sentinel \<and> xi_optimizer i = Some sentinel \<and> xi_schedule i = Some sentinel
     \<and> xi_parameterization i = sentinel \<and> xi_learning_rate i = None \<and> xi_rank i = None \<and> xi_alpha_over_rank i = None"

definition require_frozen_tts_recipe_identity :: "cell_identity \<Rightarrow> unit res" where
  "require_frozen_tts_recipe_identity i = raise_if (\<not> exact_sentinel_identity i frozen_tts_recipe_sentinel)
     (ValueError ''frozen TTS recipe identity is not exact'')"

definition require_sealed_e2_recipe_identity :: "cell_identity \<Rightarrow> unit res" where
  "require_sealed_e2_recipe_identity i = raise_if (\<not> exact_sentinel_identity i sealed_e2_recipe_sentinel)
     (ValueError ''sealed E2 recipe identity is not exact'')"

definition require_e1a_candidate_identity :: "cell_identity \<Rightarrow> unit res" where
  "require_e1a_candidate_identity i =
     rbind e1a_adaptive_configurations (\<lambda>rows.
     raise_if (xi_experiment i \<noteq> ''E1a'' \<or> xi_backend i \<noteq> ''DSPARK''
         \<or> xi_optimizer i \<noteq> Some sealed_e2_recipe_sentinel \<or> xi_schedule i \<noteq> Some sealed_e2_recipe_sentinel
         \<or> xi_learning_rate i \<noteq> None
         \<or> \<not> list_ex (\<lambda>p. xi_scope i = Some (pm_scope p) \<and> xi_parameterization i = pm_parameterization p
              \<and> xi_rank i = pm_rank p \<and> xi_alpha_over_rank i = pm_alpha_over_rank p) rows
         \<or> \<not> startswith (xi_variant i) ''sealed_lightcone_recipe:native_heads:'')
       (ValueError ''E1a candidate identity is not preregistered''))"

text \<open>\<open>s.removeprefix(p)\<close> and \<open>int(s)\<close>: surrounding blanks, a sign, digits with single underscores between them, and
  no more than 4300 digits; \<open>None\<close> where it raises.\<close>

definition removeprefix :: "string \<Rightarrow> string \<Rightarrow> string" where
  "removeprefix s p = (if startswith s p then drop (length p) s else s)"

definition int_space :: "char \<Rightarrow> bool" where
  "int_space c \<longleftrightarrow> (let n = of_char c :: nat in 9 \<le> n \<and> n \<le> 13 \<or> n = 32 \<or> n = 133 \<or> n = 160)"

definition ascii_digit :: "char \<Rightarrow> bool" where
  "ascii_digit c \<longleftrightarrow> (let n = of_char c :: nat in 48 \<le> n \<and> n \<le> 57)"

fun int_digits :: "bool \<Rightarrow> int \<Rightarrow> string \<Rightarrow> int option" where
  "int_digits after_digit acc [] = (if after_digit then Some acc else None)"
| "int_digits after_digit acc (c # cs) =
     (if ascii_digit c then int_digits True (10 * acc + (of_char c - 48)) cs
      else if c = CHR ''_'' \<and> after_digit then int_digits False acc cs
      else None)"

definition int_of_text :: "string \<Rightarrow> int option" where
  "int_of_text s =
     (let t = rev (dropWhile int_space (rev (dropWhile int_space s)));
          signed = t \<noteq> [] \<and> hd t \<in> {CHR ''+'', CHR ''-''};
          body = (if signed then tl t else t)
      in if 4300 < length (filter ascii_digit body) then None
         else map_option (\<lambda>n. if signed \<and> hd t = CHR ''-'' then - n else n) (int_digits False 0 body))"

definition derived_scientific_method_role :: "experiment_cell \<Rightarrow> scientific_method_role res" where
  "derived_scientific_method_role c =
     (let i = xc_identity c in
      if xi_experiment i = ''TTS-Cal'' then
        (case int_of_text (removeprefix (xi_variant i) ''tts_calibration:stride='') of
           None \<Rightarrow> Inl (ValueError ''TTS-Cal stride identity is not exact'')
         | Some stride \<Rightarrow>
             rbind (raise_if (xi_method i \<noteq> ''tts'' \<or> xi_backend i \<noteq> ''DFLASH'' \<or> xi_scope i \<noteq> Some ''full_drafter''
                 \<or> xi_parameterization i \<noteq> ''full'' \<or> xi_optimizer i \<noteq> Some ''adam'' \<or> xi_schedule i \<noteq> Some ''constant''
                 \<or> xi_learning_rate i \<notin> Some ` set tts_learning_rates \<or> stride \<notin> set tts_strides
                 \<or> xi_rank i \<noteq> None \<or> xi_alpha_over_rank i \<noteq> None)
               (ValueError ''TTS-Cal candidate identity is not preregistered'')) (\<lambda>_. Inr TTS_CALIBRATION_CANDIDATE))
      else if xi_method i = ''target_only'' then
        rbind (require_zero_adaptation_identity i ''Target-only'') (\<lambda>_. Inr ROLE_TARGET_ONLY)
      else if xi_method i = ''static'' then
        rbind (require_zero_adaptation_identity i ''Static'') (\<lambda>_. Inr ROLE_STATIC)
      else if xi_method i = ''tts'' then
        rbind (require_frozen_tts_recipe_identity i) (\<lambda>_. Inr ROLE_TTS)
      else if xi_method i = ''l0'' then
        (if has_recipe_sentinel i frozen_tts_recipe_sentinel then
           rbind (require_frozen_tts_recipe_identity i) (\<lambda>_. Inr L0_NAIVE)
         else if has_recipe_sentinel i sealed_e2_recipe_sentinel then
           (if xi_experiment i = ''E1a'' then rbind (require_e1a_candidate_identity i) (\<lambda>_. Inr LC_CANDIDATE)
            else rbind (require_sealed_e2_recipe_identity i) (\<lambda>_. Inr LIGHTCONE_TEMPLATE))
         else if xi_experiment i \<in> {''E1'', ''E2''} then Inr LC_CANDIDATE
         else Inl (ValueError ''L0 identity lacks a registered recipe authority''))
      else if xi_method i \<in> set (drop (length e0_methods - 3) e0_methods) then role_of_value (xi_method i)
      else Inl (ValueError ''cell method has no registered scientific role''))"

section \<open>The registered experiments\<close>

definition axis :: "string \<Rightarrow> json list \<Rightarrow> axis_spec" where
  "axis name vs = \<lparr>ax_name = name, ax_values = vs\<rparr>"

abbreviation strs :: "string list \<Rightarrow> json list" where
  "strs \<equiv> map JStr"

abbreviation ints :: "int list \<Rightarrow> json list" where
  "ints \<equiv> map JInt"

definition industrial_rows :: "parameter_configuration list \<Rightarrow> experiment_definition list" where
  "industrial_rows configurations =
     [\<lparr>ed_name = ''preflight'', ed_dependencies = [], ed_locked_outputs =
         [''runtime_envelope''],
       ed_axes =
         [axis ''gate'' (strs [''identity'', ''exactness'', ''memory'', ''telemetry'', ''two_gpu_interference''])]\<rparr>,
      \<lparr>ed_name = ''E3a'', ed_dependencies = [''preflight''], ed_locked_outputs =
         [''baseline_capacity_envelope'', ''e1_reference_load'', ''matched_width'',
          ''width_selection_rule'', ''static_target_crossover'', ''drift_witness''],
       ed_axes =
         [axis ''method'' (strs [''target_only'', ''static'']),
          axis ''context'' (ints context_grid),
          axis ''concurrency'' (ints e3a_concurrency_grid),
          axis ''width'' (ints draft_widths),
          axis ''regime'' (strs context_regimes)]\<rparr>,
      \<lparr>ed_name = ''TTS-Cal'', ed_dependencies = [''E3a''], ed_locked_outputs =
         [''frozen_tts_recipe''],
       ed_axes =
         [axis ''method_role'' (strs [''tts_calibration_candidate'']),
          axis ''optimizer'' (strs [''adam'']),
          axis ''learning_rate'' (map (JFloat \<circ> fl) [1 / 10 ^ 7, 3 / 10 ^ 7, 1 / 10 ^ 6, 3 / 10 ^ 6, 1 / 10 ^ 5, 3 / 10 ^ 5, 1 / 10 ^ 4, 3 / 10 ^ 4,
             1 / 10 ^ 3]),
          axis ''stride'' (ints [1, 5, 10, 15, 20, 30, 40, 50]),
          axis ''pilot_block'' (ints pilot_blocks),
          axis ''result_class'' (strs [''tuning_only_not_formal''])]\<rparr>,
      \<lparr>ed_name = ''E1'', ed_dependencies = [''TTS-Cal''], ed_locked_outputs =
         [''dflash_pareto_set'', ''common_downstream_load''],
       ed_axes =
         [axis ''search_method_role'' (strs [role_value LC_CANDIDATE]),
          axis ''anchor_method_role'' (strs (map role_value [ROLE_TTS, L0_NAIVE])),
          axis ''scope'' (strs e1_scopes),
          axis ''parameterization'' (strs [''full'', ''lora'']),
          axis ''rank'' (ints registry_lora_ranks),
          axis ''alpha_over_rank'' [JFloat (Fin 1)],
          axis ''optimizer_anchor'' (strs e1_optimizer_anchors)]\<rparr>,
      \<lparr>ed_name = ''E2'', ed_dependencies = [''E1''], ed_locked_outputs =
         [''dflash_recipe''],
       ed_axes =
         [axis ''search_method_role'' (strs [role_value LC_CANDIDATE]),
          axis ''anchor_method_role'' (strs (map role_value [ROLE_TTS, L0_NAIVE])),
          axis ''scope'' (strs e1_scopes),
          axis ''parameterization'' (strs [''full'', ''lora'']),
          axis ''rank'' (ints registry_lora_ranks),
          axis ''optimizer'' (strs e2_optimizers),
          axis ''learning_rate'' (strs [''optimizer_specific_log_grid'']),
          axis ''schedule'' (strs e2_schedules),
          axis ''halving_context'' (ints [4096, 8192, 16384, 40928]),
          axis ''halving_batch'' (ints [2, 4, 8, 16])]\<rparr>,
      \<lparr>ed_name = ''E4'', ed_dependencies = [''E2''], ed_locked_outputs =
         [''systems_mechanism_gate''],
       ed_axes =
         [axis ''cumulative_ablation'' (strs [''synchronous_main_stream'', ''side_stream_tts'', ''l0_first_ready'', ''cohort_batch'', ''fixed_buffer_graph'', ''bounded_telemetry'']),
          axis ''load'' (strs [''low'', ''moderate'', ''saturation'']),
          axis ''traffic'' (strs [''pure_decode'', ''mixed_prefill_decode'']),
          axis ''chunked_prefill'' (strs [''disabled'', ''enabled'']),
          axis ''prefix_reuse'' (strs [''none'', ''shared'']),
          axis ''update_stride'' (strs [''locked_e2_operational_grid'']),
          axis ''microbatch'' (strs [''locked_e2_operational_grid'']),
          axis ''coalescing'' (strs [''locked_e2_operational_grid'']),
          axis ''stream_priority'' (strs [''locked_e2_operational_grid'']),
          axis ''profile'' (strs [''nvtx'', ''nsight_systems'', ''nsight_compute''])]\<rparr>,
      \<lparr>ed_name = ''E3b'', ed_dependencies = [''E4''], ed_locked_outputs =
         [''long_context_confirmation''],
       ed_axes =
         [axis ''method_role'' (strs confirmation_method_roles),
          axis ''context'' (ints context_grid),
          axis ''regime'' (strs context_regimes),
          axis ''load'' (strs [''concurrency_one'', ''common_load'']),
          axis ''width_panel'' (strs [''matched'', ''deployment_optimal'']),
          axis ''block'' (ints registered_confirmation_blocks),
          axis ''block_phase'' (strs [''excluded_pilot'', ''final_candidate''])]\<rparr>,
      \<lparr>ed_name = ''E1a'', ed_dependencies = [''E3b''], ed_locked_outputs =
         [''dspark_recipe''],
       ed_axes =
         [axis ''configuration_sha256'' (strs (map parameter_configuration_sha256 configurations)),
          axis ''rank'' (ints registry_lora_ranks),
          axis ''verification_mode'' (strs [''fixed_verification_budget'', ''native_scheduler'']),
          axis ''baseline'' (strs [''target_only'', ''static''])]\<rparr>,
      \<lparr>ed_name = ''E5'', ed_dependencies = [''E1a''], ed_locked_outputs =
         [''production_slo_surface'', ''topology_failure_surface''],
       ed_axes =
         [axis ''backend'' (strs [''DFLASH'', ''DSPARK'']),
          axis ''method_role'' (strs confirmation_method_roles),
          axis ''closed_loop_concurrency'' (ints e5_closed_loop_concurrency),
          axis ''open_loop_lambda_star'' (map JFloat e5_open_loop_load_factors),
          axis ''arrival'' (strs [''poisson'', ''immediate_burst'', ''burstgpt_shape'', ''moderate_soak'', ''saturation_soak'', ''overload_soak'']),
          axis ''cohort_count'' (ints e5_cohort_counts),
          axis ''cohort_distribution'' (strs e5_cohort_distributions),
          axis ''topology'' (strs e5_topologies),
          axis ''failure'' (strs e5_failures),
          axis ''block'' (ints registered_confirmation_blocks),
          axis ''block_phase'' (strs [''excluded_pilot'', ''final_candidate''])]\<rparr>,
      \<lparr>ed_name = ''E6'', ed_dependencies = [''E5''], ed_locked_outputs =
         [''native_mtp_transfer_surface''],
       ed_axes =
         [axis ''model'' (strs e6_candidate_models),
          axis ''headline_method_role'' (strs (map role_value [ROLE_TARGET_ONLY, ROLE_STATIC, ROLE_TTS, LIGHTCONE])),
          axis ''mechanism_anchor_role'' (strs [role_value L0_NAIVE]),
          axis ''task'' (strs [''LiveCodeBench'', ''MATH-500'']),
          axis ''context'' (ints [4096, 16384, 32768]),
          axis ''load'' (strs [''concurrency_one'', ''common_slo_load'']),
          axis ''block'' (ints registered_confirmation_blocks),
          axis ''block_phase'' (strs [''excluded_pilot'', ''final_candidate'']),
          axis ''topology'' (strs [''tp2_dp1''])]\<rparr>,
      \<lparr>ed_name = ''E0'', ed_dependencies = [''E6''], ed_locked_outputs =
         [''breadth_surface''],
       ed_axes =
         [axis ''model'' (strs e0_models),
          axis ''backend'' (strs e0_backends),
          axis ''task'' (strs e0_tasks),
          axis ''method_role'' (strs e0_method_roles),
          axis ''load'' (strs e0_loads),
          axis ''block'' (ints registered_confirmation_blocks),
          axis ''block_phase'' (strs [''excluded_pilot'', ''final_candidate''])]\<rparr>]"

definition industrial_definitions :: "experiment_definition list res" where
  "industrial_definitions =
     rbind e1a_adaptive_configurations (\<lambda>configurations.
     map_res (\<lambda>d. rbind (check_all (\<lambda>a. rbind (axis_spec_post_init a) (\<lambda>_. Inr ())) (ed_axes d))
       (\<lambda>_. experiment_definition_post_init d)) (industrial_rows configurations))"

text \<open>
  \<open>ExperimentRegistry.__post_init__\<close> up to the recipe declarations: the shape of a registry and the recipe sentinels of
  its cells. \<open>check_definition_order\<close> is its part on the definitions.
\<close>

definition recipe_sentinels :: "string list" where
  "recipe_sentinels = [frozen_tts_recipe_sentinel, sealed_e2_recipe_sentinel]"

definition is_sentinel :: "string option \<Rightarrow> bool" where
  "is_sentinel x \<longleftrightarrow> x \<in> Some ` set recipe_sentinels"

fun check_registry_cells ::
  "string list \<Rightarrow> string list \<Rightarrow> experiment_cell list \<Rightarrow> string list res" where
  "check_registry_cells known gpu_uuids [] = Inr []"
| "check_registry_cells known gpu_uuids (c # cs) =
     rbind (raise_if (xi_experiment (xc_identity c) \<notin> set known) (ValueError ''cell names an unknown experiment'')) (\<lambda>_.
     rbind (raise_if (\<not> set (rc_gpu_uuids (xc_resources c)) \<subseteq> set gpu_uuids)
       (ValueError ''cell reserves a GPU outside the registry inventory'')) (\<lambda>_.
     rbind (check_registry_cells known gpu_uuids cs) (\<lambda>seen. Inr (xi_experiment (xc_identity c) # seen))))"

definition check_cell_recipe :: "string \<Rightarrow> experiment_cell \<Rightarrow> unit res" where
  "check_cell_recipe mode c =
     (let i = xc_identity c in
      rbind (derived_scientific_method_role c) (\<lambda>_.
      rbind (raise_if (mode = ''signed_staged''
          \<and> list_ex is_sentinel [xi_scope i, xi_optimizer i, xi_schedule i, Some (xi_parameterization i)])
        (ValueError ''staged registry cannot contain recipe sentinels'')) (\<lambda>_.
      raise_if (is_sentinel (xi_optimizer i) \<noteq> is_sentinel (xi_schedule i))
        (ValueError ''recipe sentinels must bind optimizer and schedule''))))"

definition check_registry_shape ::
  "int \<Rightarrow> string \<Rightarrow> string list \<Rightarrow> experiment_definition list \<Rightarrow> experiment_cell list \<Rightarrow> string \<Rightarrow> unit res" where
  "check_registry_shape schema_version name gpu_uuids definitions cells mode =
     rbind (raise_if (schema_version \<noteq> 3)
       (ValueError ''only industrial registry schema version 3 is supported'')) (\<lambda>_.
     rbind (require_text ''registry name'' name) (\<lambda>_.
     rbind (raise_if (mode \<notin> {''signed_staged'', ''legacy_diagnostic''})
       (ValueError ''registry materialization mode is unsupported'')) (\<lambda>_.
     rbind (raise_if (gpu_uuids = [] \<or> \<not> distinct gpu_uuids)
       (ValueError ''the industrial registry requires unique logical GPU slots'')) (\<lambda>_.
     rbind (check_definition_order definitions) (\<lambda>_.
     rbind (raise_if (cells = []) (ValueError ''registry must contain cells'')) (\<lambda>_.
     rbind (raise_if (\<not> distinct (map cell_id cells))
       (ValueError ''registry contains duplicate cell identities'')) (\<lambda>_.
     rbind (check_registry_cells (map ed_name definitions) gpu_uuids cells) (\<lambda>seen_stages.
     rbind (if mode = ''legacy_diagnostic''
            then raise_if (set seen_stages \<noteq> set (map ed_name definitions))
              (ValueError ''legacy registry must declare every experiment'')
            else raise_if (set seen_stages \<noteq> set (take 3 industrial_experiment_order))
              (ValueError ''staged registry must contain exactly preflight, E3a, and TTS-Cal'')) (\<lambda>_.
     check_all (check_cell_recipe mode) cells)))))))))"

section \<open>Laws\<close>

lemma industrial_names: "map ed_name (industrial_rows configurations) = industrial_experiment_order"
  by (simp add: industrial_rows_def industrial_experiment_order_def)

lemma industrial_rows_ordered: "check_definition_order (industrial_rows configurations) = Inr ()"
  by (simp add: check_definition_order_def Let_def industrial_names)
    (simp add: industrial_rows_def industrial_experiment_order_def)

lemma check_registry_cells_Inr:
  "check_registry_cells known gpu_uuids cells = Inr seen \<longleftrightarrow>
     seen = map (xi_experiment \<circ> xc_identity) cells
     \<and> (\<forall>c \<in> set cells. xi_experiment (xc_identity c) \<in> set known \<and> set (rc_gpu_uuids (xc_resources c)) \<subseteq> set gpu_uuids)"
  by (induction cells arbitrary: seen) auto

lemma registry_shape_Inr:
  assumes "check_registry_shape schema name gpu_uuids definitions cells mode = Inr ()"
  shows "check_definition_order definitions = Inr ()" "distinct (map cell_id cells)"
    "\<forall>c \<in> set cells. set (rc_gpu_uuids (xc_resources c)) \<subseteq> set gpu_uuids \<and> check_cell_recipe mode c = Inr ()"
    "mode \<in> {''signed_staged'', ''legacy_diagnostic''}"
    "set (map (xi_experiment \<circ> xc_identity) cells)
       = (if mode = ''legacy_diagnostic'' then set industrial_experiment_order else set (take 3 industrial_experiment_order))"
proof -
  from assms have order: "check_definition_order definitions = Inr ()"
    and rest: "distinct (map cell_id cells)" "mode \<in> {''signed_staged'', ''legacy_diagnostic''}"
      "\<exists>seen. check_registry_cells (map ed_name definitions) gpu_uuids cells = Inr seen
        \<and> (if mode = ''legacy_diagnostic'' then set seen = set (map ed_name definitions)
           else set seen = set (take 3 industrial_experiment_order))"
      "check_all (check_cell_recipe mode) cells = Inr ()"
    unfolding check_registry_shape_def by (auto simp: rbind_eq_Inr split: if_splits)
  show "check_definition_order definitions = Inr ()" "distinct (map cell_id cells)"
    "mode \<in> {''signed_staged'', ''legacy_diagnostic''}" by fact+
  show "\<forall>c \<in> set cells. set (rc_gpu_uuids (xc_resources c)) \<subseteq> set gpu_uuids \<and> check_cell_recipe mode c = Inr ()"
    using rest(3,4) by (auto simp: check_registry_cells_Inr)
  show "set (map (xi_experiment \<circ> xc_identity) cells)
       = (if mode = ''legacy_diagnostic'' then set industrial_experiment_order else set (take 3 industrial_experiment_order))"
    using rest(3) unfolding check_definition_order_Inr(1) [OF order] check_registry_cells_Inr by (auto split: if_splits)
qed

lemma staged_stages: "set (take 3 industrial_experiment_order) = {''preflight'', ''E3a'', ''TTS-Cal''}"
  by (auto simp: industrial_experiment_order_def)

lemma last_methods: "drop (length e0_methods - 3) e0_methods = [''onlinespec_ogd'', ''onlinespec_opt'', ''onlinespec_ens'']"
  by (simp add: e0_methods_def)

lemma onlinespec_role:
  "m \<in> {''onlinespec_ogd'', ''onlinespec_opt'', ''onlinespec_ens''} \<Longrightarrow> role_of_value m = Inr r
     \<Longrightarrow> role_value r = m \<and> r \<in> {ONLINESPEC_OGD, ONLINESPEC_OPT, ONLINESPEC_ENS}"
  by (auto simp: role_of_value_def all_roles_def)

text \<open>A cell with a role carries the recipe state that role allows.\<close>

fun role_state :: "scientific_method_role \<Rightarrow> cell_identity \<Rightarrow> bool" where
  "role_state ROLE_TARGET_ONLY i = (xi_method i = ''target_only'' \<and> require_zero_adaptation_identity i [] = Inr ())"
| "role_state ROLE_STATIC i = (xi_method i = ''static'' \<and> require_zero_adaptation_identity i [] = Inr ())"
| "role_state TTS_CALIBRATION_CANDIDATE i =
     (xi_method i = ''tts'' \<and> xi_experiment i = ''TTS-Cal'' \<and> xi_learning_rate i \<in> Some ` set tts_learning_rates)"
| "role_state ROLE_TTS i = (xi_method i = ''tts'' \<and> exact_sentinel_identity i frozen_tts_recipe_sentinel)"
| "role_state L0_NAIVE i = (xi_method i = ''l0'' \<and> exact_sentinel_identity i frozen_tts_recipe_sentinel)"
| "role_state LIGHTCONE_TEMPLATE i = (xi_method i = ''l0'' \<and> exact_sentinel_identity i sealed_e2_recipe_sentinel)"
| "role_state LC_CANDIDATE i = (xi_method i = ''l0'' \<and> xi_experiment i \<in> {''E1'', ''E2'', ''E1a''})"
| "role_state LIGHTCONE i = False"
| "role_state r i = (xi_method i = role_value r)"

lemma role_state_holds:
  assumes "derived_scientific_method_role c = Inr r"
  shows "role_state r (xc_identity c)"
proof -
  consider (calibration) "xi_experiment (xc_identity c) = ''TTS-Cal''"
    | (online) "xi_method (xc_identity c) \<in> {''onlinespec_ogd'', ''onlinespec_opt'', ''onlinespec_ens''}"
        "role_of_value (xi_method (xc_identity c)) = Inr r"
    | (other) "xi_experiment (xc_identity c) \<noteq> ''TTS-Cal''" "xi_method (xc_identity c) \<in> {''target_only'', ''static'', ''tts'', ''l0''}"
    using assms by (auto simp: derived_scientific_method_role_def Let_def last_methods split: if_splits)
  then show ?thesis
  proof cases
    case calibration
    then show ?thesis using assms by (auto simp: derived_scientific_method_role_def Let_def split: option.splits)
  next
    case online
    then show ?thesis using onlinespec_role [OF online] by auto
  next
    case other
    then show ?thesis
      using assms by (auto simp: derived_scientific_method_role_def Let_def require_zero_adaptation_identity_def
          require_frozen_tts_recipe_identity_def require_sealed_e2_recipe_identity_def split: if_splits)
  qed
qed

lemma sentinel_identity_marked:
  "exact_sentinel_identity i s \<Longrightarrow> s \<in> set recipe_sentinels \<Longrightarrow> is_sentinel (xi_scope i)"
  by (simp add: exact_sentinel_identity_def is_sentinel_def)

text \<open>The three cells of a minimal staged study, for the witness.\<close>

definition staged_identity :: "string \<Rightarrow> string \<Rightarrow> cell_identity" where
  "staged_identity stage m = (xc_identity example_cell)\<lparr>xi_experiment := stage, xi_method := m\<rparr>"

definition calibration_identity :: cell_identity where
  "calibration_identity = (staged_identity ''TTS-Cal'' ''tts'')
     \<lparr>xi_scope := Some ''full_drafter'', xi_parameterization := ''full'', xi_optimizer := Some ''adam'',
      xi_schedule := Some ''constant'', xi_learning_rate := Some (hd tts_learning_rates), xi_rank := None,
      xi_alpha_over_rank := None, xi_variant := ''tts_calibration:stride=5''\<rparr>"

definition staged_cells :: "experiment_cell list" where
  "staged_cells = map (\<lambda>i. example_cell\<lparr>xc_identity := i\<rparr>)
     [staged_identity ''preflight'' ''static'', staged_identity ''E3a'' ''target_only'', calibration_identity]"

section \<open>Properties\<close>

text \<open>
  C26: A staged registry holds no cell that needs a recipe yet to be sealed. When the cells of a staged registry pass
  its checks, every one of them is in preflight, E3a or TTS-Cal and reserves only GPUs of the inventory; its
  scientific role is one of target-only, static, a calibration candidate (exactly the cells of TTS-Cal) or an
  online learner, so that no TTS, naive, candidate or template role appears; and target-only and static cells
  carry no adaptation state.
\<close>

theorem staged_registry_needs_no_sealed_recipe:
  assumes "check_registry_cells known gpu_uuids cells = Inr seen" "set seen = set (take 3 industrial_experiment_order)"
    "check_all (check_cell_recipe ''signed_staged'') cells = Inr ()" "c \<in> set cells"
  shows "\<exists>r. derived_scientific_method_role c = Inr r
    \<and> r \<in> {ROLE_TARGET_ONLY, ROLE_STATIC, TTS_CALIBRATION_CANDIDATE, ONLINESPEC_OGD, ONLINESPEC_OPT, ONLINESPEC_ENS}
    \<and> (r = TTS_CALIBRATION_CANDIDATE \<longleftrightarrow> xi_experiment (xc_identity c) = ''TTS-Cal'')
    \<and> (r \<in> {ROLE_TARGET_ONLY, ROLE_STATIC} \<longrightarrow> require_zero_adaptation_identity (xc_identity c) [] = Inr ())
    \<and> xi_experiment (xc_identity c) \<in> {''preflight'', ''E3a'', ''TTS-Cal''}
    \<and> set (rc_gpu_uuids (xc_resources c)) \<subseteq> set gpu_uuids"
proof -
  let ?i = "xc_identity c"
  have stage: "xi_experiment ?i \<in> {''preflight'', ''E3a'', ''TTS-Cal''}" "set (rc_gpu_uuids (xc_resources c)) \<subseteq> set gpu_uuids"
    using assms(1,2,4) unfolding staged_stages check_registry_cells_Inr by force+
  have "check_cell_recipe ''signed_staged'' c = Inr ()" using assms(3,4) by simp
  then obtain r where r: "derived_scientific_method_role c = Inr r" and plain: "\<not> is_sentinel (xi_scope ?i)"
    by (auto simp: check_cell_recipe_def Let_def)
  note state = role_state_holds [OF r]
  have "r \<notin> {ROLE_TTS, L0_NAIVE, LIGHTCONE_TEMPLATE}"
    using state plain sentinel_identity_marked [of ?i frozen_tts_recipe_sentinel]
      sentinel_identity_marked [of ?i sealed_e2_recipe_sentinel] by (auto simp: recipe_sentinels_def)
  moreover have "r \<notin> {LC_CANDIDATE, LIGHTCONE}" using state stage(1) by auto
  ultimately have role: "r \<in> {ROLE_TARGET_ONLY, ROLE_STATIC, TTS_CALIBRATION_CANDIDATE, ONLINESPEC_OGD, ONLINESPEC_OPT,
      ONLINESPEC_ENS}" by (cases r) simp_all
  have "r = TTS_CALIBRATION_CANDIDATE \<longleftrightarrow> xi_experiment ?i = ''TTS-Cal''"
    using r state by (auto simp: derived_scientific_method_role_def Let_def split: option.splits)
  moreover have "r \<in> {ROLE_TARGET_ONLY, ROLE_STATIC} \<longrightarrow> require_zero_adaptation_identity ?i [] = Inr ()"
    using state by auto
  ultimately show ?thesis using r role stage by blast
qed

text \<open>Witness: a study of three cells, one in each stage.\<close>

theorem staged_registry_needs_no_sealed_recipe_witness:
  "\<exists>r. derived_scientific_method_role (staged_cells ! 2) = Inr r \<and> r = TTS_CALIBRATION_CANDIDATE"
proof -
  have stride: "int_of_text (removeprefix ''tts_calibration:stride=5'' ''tts_calibration:stride='') = Some 5" by code_simp
  have rate: "hd tts_learning_rates \<in> set tts_learning_rates" by (simp add: tts_learning_rates_def)
  have cells: "check_registry_cells industrial_experiment_order [''slot-0''] staged_cells = Inr [''preflight'', ''E3a'', ''TTS-Cal'']"
    by (simp add: staged_cells_def calibration_identity_def staged_identity_def example_cell_def industrial_experiment_order_def)
  have recipes: "check_all (check_cell_recipe ''signed_staged'') staged_cells = Inr ()"
    by (simp add: staged_cells_def calibration_identity_def staged_identity_def example_cell_def example_identity_def
        check_cell_recipe_def derived_scientific_method_role_def require_zero_adaptation_identity_def is_sentinel_def
        recipe_sentinels_def frozen_tts_recipe_sentinel_def sealed_e2_recipe_sentinel_def stride rate tts_strides_def)
  have "set [''preflight'', ''E3a'', ''TTS-Cal''] = set (take 3 industrial_experiment_order)" by (simp add: staged_stages)
  moreover have "staged_cells ! 2 \<in> set staged_cells" by (rule nth_mem) (simp add: staged_cells_def)
  moreover have "xi_experiment (xc_identity (staged_cells ! 2)) = ''TTS-Cal''"
    by (simp add: staged_cells_def calibration_identity_def staged_identity_def)
  ultimately show ?thesis using staged_registry_needs_no_sealed_recipe [OF cells _ recipes] by blast
qed

end
