(* ===== verification/Activation_Correct.thy ===== *)
theory Activation_Correct
  imports Activation_Laws Industrial
begin

text \<open>
  The correctness properties of the stage reducer, with a preflight stage of one exactness cell as witness, and
  the two registered stages whose receipts are not read back as they were sealed.
\<close>

section \<open>An example stage\<close>

definition preflight_cell :: experiment_cell where
  "preflight_cell = example_cell\<lparr>xc_identity := (xc_identity example_cell)
     \<lparr>xi_experiment := ''preflight'', xi_task := ''exactness_memory_telemetry_preflight''\<rparr>,
     xc_resources := (xc_resources example_cell)\<lparr>rc_workload_class := CORRECTNESS\<rparr>\<rparr>"

definition preflight_registry :: experiment_registry where
  "preflight_registry = example_registry\<lparr>rg_cells := [preflight_cell]\<rparr>"

lemma preflight_dispatchable: "release_dispatch_rejection_reason preflight_cell = None"
  by code_simp

lemma preflight_valid: "valid_cell preflight_cell"
  unfolding valid_cell_def by code_simp

lemma preflight_fields:
  "rg_sha256 preflight_registry = replicate 64 (CHR ''a'')" "rg_cells preflight_registry = [preflight_cell]"
  "rg_definitions preflight_registry = rg_definitions example_registry"
  "xi_experiment (xc_identity preflight_cell) = ''preflight''" "is_sha256 (replicate 64 (CHR ''a''))"
  "is_sha256 (replicate 64 (CHR ''b''))" "is_sha256 (replicate 64 (CHR ''c''))" "''preflight'' \<in> set generic_registry_stages"
proof -
  show "is_sha256 (replicate 64 (CHR ''a''))" "is_sha256 (replicate 64 (CHR ''b''))" "is_sha256 (replicate 64 (CHR ''c''))"
    "''preflight'' \<in> set generic_registry_stages" by code_simp+
qed (simp_all add: preflight_registry_def preflight_cell_def example_registry_def)

lemma preflight_ready: "ready_experiment preflight_registry [] = Inr (Some ''preflight'')"
  by (simp add: ready_experiment_def validate_receipts_def preflight_fields check_chain_def)
    (simp add: example_registry_def example_definitions_def industrial_experiment_order_def)

lemmas preflight_stage = example_order [folded preflight_fields(3)] preflight_fields preflight_valid preflight_ready

lemma preflight_activated:
  obtains a where "materialize_registry_stage_activation preflight_registry ''preflight'' []
    (replicate 64 (CHR ''b'')) (replicate 64 (CHR ''c'')) = Inr a"
proof -
  have "\<exists>a. materialize_registry_stage_activation preflight_registry ''preflight'' []
    (replicate 64 (CHR ''b'')) (replicate 64 (CHR ''c'')) = Inr a"
    by (rule materialize_returns [where c = preflight_cell]) (simp_all add: example_order preflight_stage)
  with that show thesis by blast
qed

section \<open>Properties\<close>

text \<open>
  C23: An artifact that verifies against a registry accounts for its stage exactly. The stage it names is the one
  the sealed receipts it carries make ready; its dispositions are the stage's cells, once each and in order of
  their identities; the activated cells are exactly those a release can dispatch; and it is AVAILABLE exactly
  when there is such a cell and, at preflight, no cell is blocked.
\<close>

theorem verified_activation_is_exact:
  assumes "check_definition_order (rg_definitions g) = Inr ()" "verify_registry_stage_activation g a = Inr ()"
  shows "ready_experiment g (sa_dependency_receipts a) = Inr (Some (sa_experiment a))
    \<and> (let cells = sort_key cell_id (filter (\<lambda>c. xi_experiment (xc_identity c) = sa_experiment a) (rg_cells g)) in
        map dp_cell_id (sa_dispositions a) = map cell_id cells
        \<and> activated_cell_ids a = map cell_id (filter (\<lambda>c. release_dispatch_rejection_reason c = None) cells)
        \<and> (sa_status a = ''AVAILABLE'' \<longleftrightarrow>
             (\<exists>c \<in> set cells. release_dispatch_rejection_reason c = None)
             \<and> (sa_experiment a = ''preflight'' \<longrightarrow>
                 (\<forall>c \<in> set cells. release_dispatch_rejection_reason c = None \<or> xc_status c = NOT_APPLICABLE)))
        \<and> sa_status a \<in> {''AVAILABLE'', ''BLOCKED''})"
proof -
  have "materialize_registry_stage_activation g (sa_experiment a) (sa_dependency_receipts a) (sa_runtime_sha256 a)
      (sa_split_sha256 a) = Inr a" using assms(2) by (simp add: verify_Inr)
  then obtain cells where cells: "cells_for g (sa_experiment a) = Inr cells" "sa_dispositions a = map disposition_of cells"
    "stage_activation_post_init a = Inr a" by (elim materialize_Inr)
  have status: "sa_status a = expected_status (sa_experiment a) (sa_dispositions a)"
    using cells(3) by (simp add: stage_activation_post_init_def)
  have activated: "activated_cell_ids a = map cell_id (filter (\<lambda>c. release_dispatch_rejection_reason c = None) cells)"
    unfolding activated_cell_ids_def cells(2) by (rule activated_exactly)
  have available: "sa_status a = ''AVAILABLE'' \<longleftrightarrow> (\<exists>c \<in> set cells. release_dispatch_rejection_reason c = None)
      \<and> (sa_experiment a = ''preflight'' \<longrightarrow>
          (\<forall>c \<in> set cells. release_dispatch_rejection_reason c = None \<or> xc_status c = NOT_APPLICABLE))"
    unfolding status expected_status_def cells(2) activated_exactly
    by (auto simp: filter_empty_conv list_all_iff disposition_activated disposition_not_applicable)
  have "sa_status a \<in> {''AVAILABLE'', ''BLOCKED''}" unfolding status by (simp add: expected_status_def)
  then show ?thesis
    using verified_stage_is_ready [OF assms] activated available
    unfolding Let_def cells(2) cells_for_Inr [OF cells(1), symmetric] by (simp add: comp_def)
qed

text \<open>Witness: the reducer's artifact for the example preflight stage.\<close>

theorem verified_activation_is_exact_witness:
  "\<exists>a. verify_registry_stage_activation preflight_registry a = Inr () \<and> sa_status a = ''AVAILABLE''
     \<and> activated_cell_ids a = [cell_id preflight_cell]"
proof -
  obtain a where a: "materialize_registry_stage_activation preflight_registry ''preflight'' []
    (replicate 64 (CHR ''b'')) (replicate 64 (CHR ''c'')) = Inr a" by (rule preflight_activated)
  then have stage: "sa_experiment a = ''preflight''" by (elim materialize_Inr)
  note verified = materialized_verifies [OF a]
  from verified_activation_is_exact [OF preflight_stage(1) verified]
  have "sa_status a = ''AVAILABLE''" "activated_cell_ids a = [cell_id preflight_cell]"
    by (simp_all add: stage preflight_fields preflight_dispatchable)
  with verified show ?thesis by blast
qed

text \<open>
  C24: Every ready generic stage is activated. Whatever receipts have been sealed, if they make a generic stage
  ready and the stage has cells, the reducer returns an artifact for it and the verifier accepts that artifact.
\<close>

theorem ready_stage_is_activated:
  assumes "check_definition_order (rg_definitions g) = Inr ()" "is_sha256 (rg_sha256 g)"
    "\<forall>c \<in> set (rg_cells g). valid_cell c" "distinct (map cell_id (rg_cells g))"
    "ready_experiment g receipts = Inr (Some e)" "e \<in> set generic_registry_stages"
    "is_sha256 runtime" "is_sha256 split" "\<exists>c \<in> set (rg_cells g). xi_experiment (xc_identity c) = e"
  shows "\<exists>a. materialize_registry_stage_activation g e receipts runtime split = Inr a
    \<and> verify_registry_stage_activation g a = Inr ()"
  using materialize_returns [OF assms(1-8)] assms(9) materialized_verifies by blast

text \<open>Witness: the example preflight stage, with no receipt sealed yet.\<close>

theorem ready_stage_is_activated_witness:
  "\<exists>a. materialize_registry_stage_activation preflight_registry ''preflight'' [] (replicate 64 (CHR ''b''))
      (replicate 64 (CHR ''c'')) = Inr a \<and> verify_registry_stage_activation preflight_registry a = Inr ()"
  by (rule ready_stage_is_activated) (simp_all add: example_order preflight_stage)



section \<open>Receipts of the registered stages\<close>

lemma locked_rows:
  "map_res (\<lambda>n. locked_output_post_init (f n)) ns = Inr ls \<Longrightarrow>
     ls = map f ns \<and> (\<forall>l \<in> set ls. locked_output_post_init l = Inr l)"
  by (induction ns arbitrary: ls) (auto simp: locked_output_post_init_def)

lemma make_receipt_valid:
  assumes "make_receipt g e outputs runtime split cells rs = Inr r" "registry_definition g e = Inr d"
    "\<forall>s \<in> set (e # ed_dependencies d @ ed_locked_outputs d). stage_text s"
  shows "valid_stage_receipt r" "map lo_name (er_outputs r) = ed_locked_outputs d"
    "map lo_name (er_dependency_receipts r) = ed_dependencies d"
proof -
  from assms(1,2) obtain by_name deps locked where
    deps: "map_res (\<lambda>n. locked_output_post_init
         \<lparr>lo_name = n, lo_content_sha256 = experiment_receipt_sha256 (the (dget by_name n))\<rparr>) (ed_dependencies d) = Inr deps" and
    locked: "map_res (\<lambda>n. locked_output_post_init
         \<lparr>lo_name = n, lo_content_sha256 = the (dget outputs n)\<rparr>) (ed_locked_outputs d) = Inr locked" and
    r: "experiment_receipt_post_init
       \<lparr>er_experiment = e, er_registry_sha256 = rg_sha256 g, er_runtime_sha256 = runtime,
        er_split_sha256 = split, er_completed_cells_sha256 = cells,
        er_dependency_receipts = deps, er_outputs = locked,
        er_selection_state = ''sealed_before_downstream_unblinding''\<rparr> = Inr r"
    by (auto simp: make_receipt_def)
  note rows = locked_rows [OF deps] locked_rows [OF locked]
  have eq: "er_experiment r = e" "er_dependency_receipts r = deps" "er_outputs r = locked" "experiment_receipt_post_init r = Inr r"
    using r by (auto simp: experiment_receipt_post_init_def)
  then show "map lo_name (er_outputs r) = ed_locked_outputs d" "map lo_name (er_dependency_receipts r) = ed_dependencies d"
    using rows by (auto simp: comp_def)
  have "\<forall>l \<in> set deps \<union> set locked. valid_locked_output l"
    using rows assms(3) by (fastforce simp: valid_locked_output_def)
  with assms(3) eq show "valid_stage_receipt r" by (simp add: valid_stage_receipt_def)
qed

lemma canonical_receipt_id:
  "canonical_receipt r = r \<longleftrightarrow> sorted (map lo_name (er_outputs r)) \<and> sorted (map lo_name (er_dependency_receipts r))"
proof -
  have "sort_key lo_name ls = ls \<longleftrightarrow> sorted (map lo_name ls)" for ls
    by (metis sort_key_id_if_sorted sorted_sort_key)
  note sorted = this
  show ?thesis by (cases r) (auto simp add: canonical_receipt_def sorted simp del: sort_key_id_if_sorted)
qed

lemma industrial_outputs:
  assumes "d \<in> set (industrial_rows configurations)"
  shows "(sorted (ed_locked_outputs d) \<longleftrightarrow> ed_name d \<notin> {''E3a'', ''E1''}) \<and> sorted (ed_dependencies d)
    \<and> (\<forall>s \<in> set (ed_name d # ed_dependencies d @ ed_locked_outputs d). stage_text s)"
proof -
  let ?rows = "map (\<lambda>d. (ed_name d, ed_dependencies d, ed_locked_outputs d))"
  have same: "?rows (industrial_rows configurations) = ?rows (industrial_rows [])" by (simp add: industrial_rows_def)
  have "list_all (\<lambda>(name, deps, outs). (sorted outs \<longleftrightarrow> name \<notin> {''E3a'', ''E1''}) \<and> sorted deps
      \<and> list_all stage_text (name # deps @ outs)) (?rows (industrial_rows []))"
    unfolding industrial_rows_def list.map experiment_definition.simps by code_simp
  then have "list_all (\<lambda>(name, deps, outs). (sorted outs \<longleftrightarrow> name \<notin> {''E3a'', ''E1''}) \<and> sorted deps
      \<and> list_all stage_text (name # deps @ outs)) (?rows (industrial_rows configurations))" unfolding same .
  with assms show ?thesis unfolding list_all_iff by auto
qed

text \<open>
  The document of a receipt lists the locked outputs by name, while \<open>make_receipt\<close> keeps the order of the
  definition. Of the registered stages, the receipts of all but E3a and E1 are read back as they were sealed; those
  two are read back with their outputs in another order, which is a different record.
\<close>

theorem receipt_is_read_back_unless_outputs_unsorted:
  assumes "rg_definitions g = industrial_rows configurations" "make_receipt g e outputs runtime split cells rs = Inr r"
  shows "receipt_from_dict (experiment_receipt_to_dict r) = Inr r \<longleftrightarrow> e \<notin> {''E3a'', ''E1''}"
proof -
  obtain d where d: "registry_definition g e = Inr d" using assms(2) by (auto simp: make_receipt_def)
  then have "d \<in> set (industrial_rows configurations)" "ed_name d = e"
    using registry_definition_Inr [OF d] assms(1) by auto
  note stage = industrial_outputs [OF this(1), unfolded this(2)]
  note made = make_receipt_valid [OF assms(2) d conjunct2 [OF conjunct2 [OF stage]]]
  show ?thesis unfolding receipt_round_trip [OF made(1)] using stage by (simp add: canonical_receipt_id made(2,3))
qed

end
