(* ===== verification/Spec2Isabelle.thy ===== *)
theory Spec2Isabelle
  imports
    Methods
    Cohort
    KV_History
    Memory
    Cohort_State
    Publication
    Topology
    AllRank
    Execution
    Config
    Protocol
    Dispatch_Correct
    Activation_Correct
begin

text \<open>
  A verification library for LightCone-Spec, a research system for speculative decoding whose
  drafter is adapted online while it serves. The modelled code is under
  \<open>src/src/lightcone_spec/\<close>.

  \<^bold>\<open>The program.\<close> Requests are served by a frozen target model and a drafter. Verification rounds
  give supervision signals; a \<^emph>\<open>cohort\<close> (tenant, model pair, parameter layout, sampling profile)
  gathers the newest signal of each request and turns a batch of them into a candidate update. A
  candidate is computed on a side stream and published at a round that the method chooses: the fixed
  barrier (TTS), the first ready boundary (L0), or never (Static). Already written KV keeps the
  version it was produced under. On several ranks publication is a collective two-phase protocol;
  HBM and cohort state are admitted by a governor; a strict configuration and an experiment protocol
  surround the runtime.

  \<^bold>\<open>Theories.\<close>
  \<^item> \<open>Prelude\<close>: exceptions as values (\<open>py_error\<close>, \<open>res\<close>), \<open>str\<close> and \<open>dict\<close> operations, the result of a
    method call on a mutable object (\<open>op_result\<close>), and the locales \<open>invariant_machine\<close>,
    \<open>guarded_machine\<close> and \<open>monotone_machine\<close>: what every call (a caller may make) keeps, every sequence of calls keeps.
    Each component with a mutable object interprets one of them.
  \<^item> \<open>Digest\<close>: SHA-256 and canonical JSON, executable, with the injectivity of the encoding; a digest
    identifies its content unless SHA-256 collides, which the theorems state as such. \<open>PyFloat\<close>:
    binary64 floats with rounding.
  \<^item> \<open>Methods\<close> (\<open>methods/core.py\<close>): policies, candidates, publication rounds and delays.
  \<^item> \<open>Cohort\<close> (\<open>adaptation/cohort.py\<close>): cohort identity, signals, the batch of newest signals, and the
    runtime with at most one candidate in flight. Python object identity of candidates is an
    allocation number. Theorems: every candidate terminates exactly once and in order, versions and
    epochs are monotone, when a commit succeeds, what a batch holds and drains.
  \<^item> \<open>KV_History\<close> (\<open>adaptation/kv_history.py\<close>): run-length encoded versions of KV tokens, refined to the
    plain list of versions through the locale \<open>version_log\<close>.
  \<^item> \<open>Memory\<close> (\<open>adaptation/memory.py\<close>, first half of \<open>adaptation/governor.py\<close>): byte ledgers, KV budget,
    all-rank HBM admission. \<open>Cohort_State\<close> (second half): fixed slabs, tenant quotas, expiry,
    least-recently-used reclamation and the cold tier; conservation of slabs as an equation between
    bags.
  \<^item> \<open>Publication\<close> (\<open>runtime/publication.py\<close>): the event ordering of an update window and its
    publication. CUDA calls are logged; whether one raises is a parameter. \<open>discard\<close> is unconditional as in the code; the
    ordering theorem is for callers that do not discard inside an open window.
  \<^item> \<open>Topology\<close> and \<open>AllRank\<close> (\<open>runtime/distributed.py\<close>): registered topologies, release capabilities,
    rank receipts, parameter ownership, sticky routing; the prepare, decide and finalize protocol
    of the all-rank coordinator and the Gloo transport, whose collectives are parameters; what the
    agreement of the ranks needs of the second one is the hypothesis \<open>gathers_decisions\<close>.
  \<^item> \<open>Execution\<close> (\<open>execution.py\<close>), \<open>Config\<close> (\<open>config/schema.py\<close>), \<open>Protocol\<close> (\<open>experiments/protocol.py\<close>):
    execution policies, the validators of a run configuration, tuning and confirmation.

  \<^item> \<open>Strict_Values\<close> (the strict decoders, sidecars, PCI identities and interval merging of
    \<open>experiments/gpu_pool.py\<close>), \<open>Registry\<close> (cells of \<open>experiments/registry.py\<close> and their JSON form) and \<open>Stages\<close>
    (stage definitions, receipts and the receipt chain of \<open>registry.py\<close>, the release predicates of
    \<open>stage_activation.py\<close>): the next stage, sealing a stage, which cells may be dispatched. \<open>Industrial\<close> (\<open>registry.py\<close>):
    the registered grids, configurations and experiment definitions, the scientific role of a cell, and the checks of
    a registry up to its recipe declarations.
  \<^item> \<open>Activation\<close> (\<open>experiments/stage_activation.py\<close>): the artifact that activates the cells of a stage, its two
    reducers, verifiers and JSON forms. \<open>Activation_Laws\<close>: what the reducer returns, that it returns, and that receipts
    stay valid when reordered. \<open>Activation_Correct\<close>: a verified artifact accounts for its stage exactly, every ready
    generic stage is activated, an artifact survives its file.
  \<^item> \<open>Pool\<close>, \<open>Pool_Claims\<close>, \<open>Pool_Plan\<close>: the artifacts of the GPU pool (\<open>experiments/gpu_pool.py\<close>):
    inventory, claims, work items, interference envelopes, assignments, waves and plans. \<open>Pool_Codec\<close>: their
    JSON forms are codecs (locale \<open>strict_codec\<close>). \<open>Pool_Schedule\<close>: the scheduler. \<open>Pool_Laws\<close>,
    \<open>Pool_Progress\<close>, \<open>Pool_Facts\<close>: its laws, that it does not get stuck, and the facts of a plan.
    \<open>Pool_Correct\<close>: the properties: isolation of waves, every item once, gangs as claimed, completion.
  \<^item> \<open>Budget\<close>, \<open>Budget_Report\<close> (\<open>experiments/planning.py\<close>): scenario durations, the budget of a cell, job policies,
    capacity, and the industrial report, which replays the scheduler once per scenario. \<open>Budget_Laws\<close>,
    \<open>Budget_Correct\<close>: groups partition the totals, the wall time is bounded by the longest and by the serial
    schedule, accepted budgets always sum, an accepted capacity covers every retry.
  \<^item> \<open>Dispatch\<close>, \<open>Dispatch_Run\<close> (\<open>experiments/gpu_pool.py\<close>, \<open>experiments/completion_authority.py\<close>): the receipts of
    assignments, waves and schedules, the wave-ordered state machine, and \<open>execute_dispatch_plan\<close> with its retries and
    resumptions. What the world answers (runner, journal, clock, the files of a terminal authority) is a
    parameter; every interleaving of a wave's tasks is some choice of answers. \<open>Dispatch_Laws\<close>,
    \<open>Dispatch_Resume\<close>, \<open>Dispatch_Ledger\<close>, \<open>Dispatch_Progress\<close>: what the engine returns, keeps, bills and completes.
    \<open>Dispatch_Correct\<close>: every receipt can be resumed, resuming keeps finished work and ends (locale
    \<open>bounded_progress\<close>), each moment is billed once, and a ready capacity covers every run.

  \<^bold>\<open>Conventions.\<close> An operation of the code is one definition with the source's name; \<open>*_post_init\<close> is
  the validation of a dataclass constructor. An exception is a value that carries the message of the
  source. Run-time type tests that the types of the model settle are left out. Every definition is
  executable; no definition has fuel: all recursions are structural.

  \<^bold>\<open>Divergences shown by the model.\<close> \<open>restore_cold\<close> ignores tenant quotas; the graph policy accepts a Boolean batch size; the ensemble grid may repeat
  a rate; a confirmation slice is not compared on \<open>epsilon\<close>; the receipts of E3a and E1 are not read back as they were sealed.

  \<^bold>\<open>Not modelled.\<close> The signed proof receipts and control attestations of the distributed runtime, the
  stage authorities of \<open>experiments/\<close>, the bespoke reducers of E1, E2, E3b and E5, the selection of pending cells
  (\<open>schedule\<close> above \<open>schedule_work_items\<close>), the construction of the registered cells and their recipe declarations, the readers of receipt files and the checks of the planning and execution contexts (the parameter
  \<open>ex_validate_plan\<close> of a dispatch), the OnlineSPEC numerics, telemetry, locking, the SGLang bridge and patches, the
  command line, and file publication: they are cryptographic, I/O or tensor code, or read documents of
  such code. Characters beyond code point 255 are outside the string model.
\<close>

section \<open>From configuration to publication\<close>

lemma accepted_adaptation_counts:
  assumes "build_adaptation native a = Inr ()"
  shows "1 \<le> ac_stride a" "0 \<le> ac_extra_logical_delay a"
  using assms by (auto simp: build_adaptation_def adaptation_fields_def)

lemma publication_round_bounded:
  assumes "policy \<in> {FIXED_BARRIER, FIRST_READY_BOUNDARY}" "1 \<le> stride" "0 \<le> extra"
    "cu_source_round u \<le> cu_ready_round u"
  shows "\<exists>b. publication_round policy u stride extra = Inr (Some b)
    \<and> b \<le> cu_ready_round u + extra + stride"
proof (cases "policy = FIRST_READY_BOUNDARY")
  case True
  with assms(2,3) show ?thesis by (simp add: publication_round_def Let_def)
next
  case False
  with assms(1) have "policy = FIXED_BARRIER" by simp
  moreover have "(cu_source_round u div stride + 1) * stride \<le> cu_source_round u + stride"
    by (rule next_boundary_le) (use assms(2) in simp)
  then have "max (cu_ready_round u + extra) ((cu_source_round u div stride + 1) * stride)
      \<le> cu_ready_round u + extra + stride"
    using assms(2,3,4) by linarith
  ultimately show ?thesis
    using publication_round_barrier_eq [OF assms(2,3), of u] by blast
qed

lemma in_flight_publishes:
  assumes "cohort_inv r" "cr_in_flight r = Some c"
    and "publication_round policy (snd c) stride extra = Inr (Some b)" "b \<le> now"
  shows "snd (commit r c policy now stride extra) = Inr (cr_active_version r + 1)"
proof -
  have "stamped r (snd c)" using assms(1,2) by (simp add: cohort_inv_def)
  moreover have "cu_ready_round (snd c) \<le> now" "1 \<le> stride"
    using publication_round_ge [OF assms(3)] assms(4) by linarith+
  ultimately have "can_publish r c policy now stride extra = Inr (True, ''ready'')"
    using assms(2-4) by (simp add: can_publish_True stamped_def)
  then show ?thesis by (simp add: commit_eq [OF assms(1)])
qed

text \<open>
  C27: An accepted TTS or L0 configuration always publishes. Whatever calls a cohort has seen, its
  candidate in flight can be committed at every round from its ready round plus the configured
  extra delay plus one stride on, and the commit publishes the next version: no accepted
  configuration can make a candidate wait forever or make the commit raise at that point.
\<close>

theorem accepted_run_publishes_within_a_stride:
  assumes "build_run_config native cfg = Inr cfg'" "cf_method cfg \<in> {Tts, L0}"
    and "cf_adaptation cfg = Some a"
    and "r = foldl cohort_step (new_cohort_runtime i) es" "cr_in_flight r = Some c"
    and "cu_ready_round (snd c) + ac_extra_logical_delay a + ac_stride a \<le> now"
  shows "\<exists>policy. policy_for (method_text (cf_method cfg)) = Inr policy
    \<and> snd (commit r c policy now (ac_stride a) (ac_extra_logical_delay a)) = Inr (cr_active_version r + 1)"
proof -
  note n = accepted_adaptation_counts [OF build_run_config_Inr(3) [OF assms(1,3)]]
  have inv: "cohort_inv r" unfolding assms(4) by (rule cohort.run_inv [OF cohort_inv_new])
  then have "cu_source_round (snd c) \<le> cu_ready_round (snd c)"
    using assms(5) by (simp add: cohort_inv_def stamped_def)
  note bounded = publication_round_bounded [OF _ n this]
  obtain policy where p: "policy_for (method_text (cf_method cfg)) = Inr policy"
    "policy \<in> {FIXED_BARRIER, FIRST_READY_BOUNDARY}"
    using assms(2) by (auto simp: policy_for_def)
  from bounded [OF p(2)] obtain b where
    b: "publication_round policy (snd c) (ac_stride a) (ac_extra_logical_delay a) = Inr (Some b)"
      "b \<le> now"
    using assms(6) by force
  show ?thesis using in_flight_publishes [OF inv assms(5) b] p(1) by blast
qed

theorem accepted_run_publishes_within_a_stride_witness:
  "build_run_config [] example_run = Inr example_run
   \<and> snd (commit sample_runtime (0, sample_candidate) FIXED_BARRIER 24 10 0)
       = Inr (cr_active_version sample_runtime + 1)"
proof -
  let ?a = "example_adaptation Adam Request_Reset Serialized_Native_Scheduler"
  have m: "cf_method example_run \<in> {Tts, L0}" "method_text (cf_method example_run) = ''tts''"
    by (simp_all add: example_run_def)
  have now: "cu_ready_round (snd (0 :: nat, sample_candidate)) + ac_extra_logical_delay ?a + ac_stride ?a \<le> 24"
    by (simp add: sample_candidate_def example_adaptation_def)
  have a: "ac_stride ?a = 10" "ac_extra_logical_delay ?a = 0" by (simp_all add: example_adaptation_def)
  have "policy_for ''tts'' = Inr FIXED_BARRIER" by (simp add: policy_for_def)
  with accepted_run_publishes_within_a_stride [OF example_run_ok m(1) example_run_simps(3)
      sample_runtime_def sample_runtime_in_flight now] m(2) a example_run_ok
  show ?thesis by auto
qed

end
